(* ===== verification/Prelude.thy ===== *)
theory Prelude
  imports Complex_Main "HOL-Library.Sublist"
begin

section \<open>Shared list algorithms, automation and the ordering interface\<close>

text \<open>
  What every component of the control-plane UI shares, independent of JavaScript values:
  \<^item> \<open>nub\<close>, the list behind \<open>[...new Set(xs)]\<close> (first occurrence kept, order kept);
  \<^item> \<open>js_sort\<close>, the stable sort of \<open>Array.prototype.sort\<close> for a comparator \<open>cmp\<close>,
    given as the predicate \<open>gt x y\<close> that \<open>cmp(x, y) > 0\<close>;
  \<^item> the locale \<open>js_order\<close>, the contract a comparator owes to \<open>sort\<close> (a consistent
    comparator on the values \<open>ok\<close> admits), with the facts a sorted array then has;
  \<^item> counters: the loop \<open>for (const r of rs) if (p(r)) n += 1\<close> over a record of counters.
\<close>

named_theorems js_eval \<open>unfoldings that evaluate the model on a concrete input\<close>
named_theorems js_count \<open>each counter of a tallying loop as the length of a filter\<close>

subsection \<open>Duplicate elimination: \<open>[...new Set(xs)]\<close>\<close>

fun nub :: "'a list \<Rightarrow> 'a list" where
  "nub [] = []"
| "nub (x # xs) = x # filter (\<lambda>y. y \<noteq> x) (nub xs)"

lemma set_nub [simp]: "set (nub xs) = set xs"
  by (induction xs) auto

lemma distinct_nub [simp]: "distinct (nub xs)"
  by (induction xs) auto

lemma nub_distinct: "distinct xs \<Longrightarrow> nub xs = xs"
  by (induction xs) (auto intro: filter_True)

lemma nub_idem [simp]: "nub (nub xs) = nub xs"
  by (simp add: nub_distinct)

lemma nub_filter: "nub (filter P xs) = filter P (nub xs)"
  by (induction xs) (auto simp: conj_commute intro: filter_cong)

lemma nub_eq_Nil [simp]: "nub xs = [] \<longleftrightarrow> xs = []"
  by (cases xs) auto

lemma nub_snoc: "nub (xs @ [x]) = (if x \<in> set xs then nub xs else nub xs @ [x])"
  by (induction xs) auto

subsection \<open>Counting loops\<close>

lemma fold_counter:
  assumes "\<And>r s. f (step r s) = f s + (if P r then 1 else 0)"
  shows "f (fold step rs s) = f s + length (filter P rs)"
  using assms by (induction rs arbitrary: s) auto

lemma fold_frame:
  assumes "\<And>r s. f (step r s) = f s"
  shows "f (fold step rs s) = f s"
  using assms by (induction rs arbitrary: s) auto

lemma length_filter_split:
  "length (filter P xs) = length (filter (\<lambda>x. P x \<and> Q x) xs) + length (filter (\<lambda>x. P x \<and> \<not> Q x) xs)"
  by (induction xs) auto

lemma length_filter_eq_length: "length (filter P xs) = length xs \<longleftrightarrow> (\<forall>x\<in>set xs. P x)"
  by (metis filter_id_conv length_filter_less nat_less_le)

lemma length_filter_pos: "0 < length (filter P xs) \<longleftrightarrow> (\<exists>x\<in>set xs. P x)"
  by (induction xs) auto

lemma length_filter_imp_eq:
  "length (filter (\<lambda>x. P x \<and> Q x) xs) = length (filter P xs) \<longleftrightarrow> (\<forall>x\<in>set xs. P x \<longrightarrow> Q x)"
proof -
  have "filter (\<lambda>x. P x \<and> Q x) xs = filter Q (filter P xs)"
    by simp
  then show ?thesis
    using length_filter_eq_length [of Q "filter P xs"] by auto
qed

subsection \<open>Grouping into a \<open>Map\<close>\<close>

text \<open>
  \<open>for (const x of xs) { if (!key(x)) continue; grouped.set(k, [...(grouped.get(k) || []), x]) }\<close>:
  the entries of a \<open>Map\<close> in insertion order of their keys.
\<close>

fun group_add :: "'k \<Rightarrow> 'v \<Rightarrow> ('k \<times> 'v list) list \<Rightarrow> ('k \<times> 'v list) list" where
  "group_add k v [] = [(k, [v])]"
| "group_add k v ((k', vs) # g) = (if k = k' then (k', vs @ [v]) # g else (k', vs) # group_add k v g)"

definition group_by :: "('v \<Rightarrow> 'k option) \<Rightarrow> 'v list \<Rightarrow> ('k \<times> 'v list) list" where
  "group_by key xs =
     fold (\<lambda>v g. case key v of None \<Rightarrow> g | Some k \<Rightarrow> group_add k v g) xs []"

declare group_by_def [js_eval]

lemma keys_group_add: "set (map fst (group_add k v g)) = insert k (set (map fst g))"
  by (induction k v g rule: group_add.induct) auto

lemma distinct_group_add: "distinct (map fst g) \<Longrightarrow> distinct (map fst (group_add k v g))"
proof (induction k v g rule: group_add.induct)
  case (2 k v k' vs g)
  then show ?case using keys_group_add [of k v g] by auto
qed simp

lemma group_by_snoc:
  "group_by key (xs @ [x]) =
    (case key x of None \<Rightarrow> group_by key xs | Some k \<Rightarrow> group_add k x (group_by key xs))"
  by (cases "key x") (simp_all add: group_by_def)

lemma distinct_group_by [simp]: "distinct (map fst (group_by key xs))"
proof (induction xs rule: rev_induct)
  case Nil
  then show ?case by (simp add: group_by_def)
next
  case (snoc x xs)
  then show ?case by (auto simp: group_by_snoc distinct_group_add split: option.splits)
qed

text \<open>Each key is mapped to exactly the elements that have it, in their order.\<close>

lemma map_of_group_by:
  "map_of (group_by key xs) k =
    (if \<exists>x\<in>set xs. key x = Some k then Some (filter (\<lambda>x. key x = Some k) xs) else None)"
proof (induction xs arbitrary: k rule: rev_induct)
  case Nil
  then show ?case by (simp add: group_by_def)
next
  case (snoc x xs)
  have add: "map_of (group_add j v g) i =
      (if i = j then Some ((case map_of g j of None \<Rightarrow> [] | Some vs \<Rightarrow> vs) @ [v]) else map_of g i)"
    for i j and v :: 'a and g :: "('b \<times> 'a list) list"
    by (induction j v g rule: group_add.induct) auto
  have none: "filter (\<lambda>x. key x = Some i) xs = []" if "\<forall>y\<in>set xs. key y \<noteq> Some i" for i
    using that by (simp add: filter_empty_conv)
  show ?case
    by (cases "key x") (auto simp: group_by_snoc snoc.IH add none)
qed

lemma set_group_by:
  "(k, vs) \<in> set (group_by key xs) \<longleftrightarrow>
    (\<exists>x\<in>set xs. key x = Some k) \<and> vs = filter (\<lambda>x. key x = Some k) xs"
  using map_of_eq_Some_iff [OF distinct_group_by, of key xs k vs]
  by (auto simp: map_of_group_by split: if_splits)

subsection \<open>\<open>Array.prototype.sort\<close>\<close>

text \<open>
  \<open>js_insert gt x ys\<close> puts \<open>x\<close> before the first element it does not exceed, so equal
  elements keep their order: the sort is stable, as the language requires.
\<close>

fun js_insert :: "('a \<Rightarrow> 'a \<Rightarrow> bool) \<Rightarrow> 'a \<Rightarrow> 'a list \<Rightarrow> 'a list" where
  "js_insert gt x [] = [x]"
| "js_insert gt x (y # ys) = (if gt x y then y # js_insert gt x ys else x # y # ys)"

fun js_sort :: "('a \<Rightarrow> 'a \<Rightarrow> bool) \<Rightarrow> 'a list \<Rightarrow> 'a list" where
  "js_sort gt [] = []"
| "js_sort gt (x # xs) = js_insert gt x (js_sort gt xs)"

lemma set_js_insert [simp]: "set (js_insert gt x ys) = insert x (set ys)"
  by (induction ys) auto

lemma set_js_sort [simp]: "set (js_sort gt xs) = set xs"
  by (induction xs) auto

lemma length_js_insert [simp]: "length (js_insert gt x ys) = Suc (length ys)"
  by (induction ys) auto

lemma length_js_sort [simp]: "length (js_sort gt xs) = length xs"
  by (induction xs) auto

lemma distinct_js_insert: "distinct (js_insert gt x ys) \<longleftrightarrow> x \<notin> set ys \<and> distinct ys"
  by (induction ys) auto

lemma distinct_js_sort [simp]: "distinct (js_sort gt xs) \<longleftrightarrow> distinct xs"
  by (induction xs) (auto simp: distinct_js_insert)

lemma distinct_map_js_insert:
  "distinct (map g (js_insert gt x ys)) \<longleftrightarrow> g x \<notin> g ` set ys \<and> distinct (map g ys)"
  by (induction ys) auto

lemma distinct_map_js_sort: "distinct (map g (js_sort gt xs)) \<longleftrightarrow> distinct (map g xs)"
  by (induction xs) (auto simp: distinct_map_js_insert)

lemma js_sort_eq_Nil [simp]: "js_sort gt xs = [] \<longleftrightarrow> xs = []"
  by (metis length_0_conv length_js_sort)

lemma count_js_insert [simp]:
  "length (filter P (js_insert gt x ys)) = length (filter P (x # ys))"
  by (induction ys) auto

lemma count_js_sort [simp]: "length (filter P (js_sort gt xs)) = length (filter P xs)"
  by (induction xs) auto

locale js_order =
  fixes gt :: "'a \<Rightarrow> 'a \<Rightarrow> bool"
    and ok :: "'a \<Rightarrow> bool"
  assumes gt_asym: "ok x \<Longrightarrow> ok y \<Longrightarrow> gt x y \<Longrightarrow> \<not> gt y x"
    and le_trans: "ok x \<Longrightarrow> ok y \<Longrightarrow> ok z \<Longrightarrow> \<not> gt x y \<Longrightarrow> \<not> gt y z \<Longrightarrow> \<not> gt x z"
begin

lemma insert_sorted:
  assumes "ok x" and "\<forall>y\<in>set ys. ok y" and "sorted_wrt (\<lambda>a b. \<not> gt a b) ys"
  shows "sorted_wrt (\<lambda>a b. \<not> gt a b) (js_insert gt x ys)"
  using assms
proof (induction ys)
  case Nil
  then show ?case by simp
next
  case (Cons y ys)
  show ?case
  proof (cases "gt x y")
    case True
    then have "\<not> gt y x" using Cons.prems gt_asym by auto
    with True Cons show ?thesis by auto
  next
    case False
    then have "\<forall>z\<in>set ys. \<not> gt x z"
      using Cons.prems le_trans by (metis list.set_intros sorted_wrt.simps(2))
    with False Cons.prems show ?thesis by auto
  qed
qed

lemma sort_sorted:
  "\<forall>x\<in>set xs. ok x \<Longrightarrow> sorted_wrt (\<lambda>a b. \<not> gt a b) (js_sort gt xs)"
  by (induction xs) (auto intro: insert_sorted)

lemma sort_last_max:
  assumes "\<forall>x\<in>set xs. ok x" and "x \<in> set xs"
  shows "\<not> gt x (last (js_sort gt xs))"
proof -
  let ?s = "js_sort gt xs"
  have ne: "?s \<noteq> []" and s: "sorted_wrt (\<lambda>a b. \<not> gt a b) ?s"
    using assms sort_sorted by auto
  have "\<not> gt x x" using assms gt_asym by blast
  moreover have "x \<in> set (butlast ?s) \<or> x = last ?s"
    using assms(2) ne by (metis append_butlast_last_id set_ConsD set_append set_js_sort Un_iff
        rotate1.simps(2) set_rotate1)
  moreover have "sorted_wrt (\<lambda>a b. \<not> gt a b) (butlast ?s @ [last ?s])"
    using s ne by simp
  ultimately show ?thesis by (auto simp: sorted_wrt_append)
qed

lemma sort_hd_min:
  assumes "\<forall>x\<in>set xs. ok x" and "x \<in> set xs"
  shows "\<not> gt (hd (js_sort gt xs)) x"
proof -
  let ?s = "js_sort gt xs"
  have ne: "?s \<noteq> []" and s: "sorted_wrt (\<lambda>a b. \<not> gt a b) ?s"
    using assms sort_sorted by auto
  then obtain h t where ht: "?s = h # t" by (cases ?s) auto
  have "x \<in> set (h # t)" using assms(2) ht by (metis set_js_sort)
  moreover have "\<not> gt x x" using assms gt_asym by blast
  ultimately show ?thesis using s ht by auto
qed

lemma sort_of_sorted:
  "sorted_wrt (\<lambda>a b. \<not> gt a b) xs \<Longrightarrow> js_sort gt xs = xs"
proof (induction xs)
  case Nil
  then show ?case by simp
next
  case (Cons x xs)
  then show ?case by (cases xs) auto
qed

lemma sort_idem: "\<forall>x\<in>set xs. ok x \<Longrightarrow> js_sort gt (js_sort gt xs) = js_sort gt xs"
  by (simp add: sort_of_sorted sort_sorted)

lemma insert_stable:
  assumes "ok x" "\<forall>y\<in>set ys. ok y" "ok a"
  shows "filter (\<lambda>y. \<not> gt a y \<and> \<not> gt y a) (js_insert gt x ys) =
    filter (\<lambda>y. \<not> gt a y \<and> \<not> gt y a) (x # ys)"
  using assms
proof (induction ys)
  case Nil
  then show ?case by simp
next
  case (Cons y ys)
  have "\<not> (\<not> gt a x \<and> \<not> gt x a \<and> \<not> gt a y \<and> \<not> gt y a)" if "gt x y"
    using that Cons.prems le_trans by (meson list.set_intros(1))
  with Cons show ?case by auto
qed

lemma sort_stable:
  assumes "\<forall>x\<in>set xs. ok x" "ok a"
  shows "filter (\<lambda>y. \<not> gt a y \<and> \<not> gt y a) (js_sort gt xs) =
    filter (\<lambda>y. \<not> gt a y \<and> \<not> gt y a) xs"
  using assms
proof (induction xs)
  case Nil
  then show ?case by simp
next
  case (Cons x xs)
  then show ?case
    using insert_stable [of x "js_sort gt xs" a] by (auto split: if_splits)
qed

end

lemma map_update_same: "f y = f (xs ! i) \<Longrightarrow> map f (xs[i := y]) = map f xs"
  by (metis list_update_id map_update)

end
