(* ===== verification/Js_String.thy ===== *)
theory Js_String
  imports Prelude
begin

section \<open>JavaScript strings\<close>

text \<open>
  A JavaScript string is a list of characters, one \<open>char\<close> per UTF-16 code unit in the
  range 0..255 (ASCII and Latin-1, which holds every letter of the Spanish messages).
  Within that range the string methods the program uses are written out as the language
  defines them: \<open>trim\<close> strips the ECMAScript white space (TAB, LF, VT, FF, CR, space and
  NBSP), \<open>toLowerCase\<close> and \<open>toUpperCase\<close> map the ASCII and the Latin-1 letters and expand the
  sharp s to \<open>SS\<close>. The micro sign and the y with diaeresis, whose upper-case forms lie
  outside the range, are left unchanged by \<open>js_upper\<close>; no other character is affected.
\<close>

subsection \<open>Characters\<close>

definition code :: "char \<Rightarrow> nat" where
  "code c = of_char c"

lemma code_bound [simp]: "code c < 256"
  by (simp add: code_def nat_of_char_less_256)

lemma char_of_numeral [js_eval]:
  "char_of (numeral k :: nat) = Char (bit (numeral k :: nat) 0) (bit (numeral k :: nat) 1)
     (bit (numeral k :: nat) 2) (bit (numeral k :: nat) 3) (bit (numeral k :: nat) 4)
     (bit (numeral k :: nat) 5) (bit (numeral k :: nat) 6) (bit (numeral k :: nat) 7)"
  by (simp only: char_of_def)

lemma bit_Suc_0_0 [js_eval]: "bit (Suc 0) 0"
  by (simp add: bit_0)

lemma code_char_of [simp]: "n < 256 \<Longrightarrow> code (char_of n) = n"
  by (simp add: code_def)

definition is_space :: "char \<Rightarrow> bool" where
  "is_space c \<longleftrightarrow> (let n = code c in n = 32 \<or> (9 \<le> n \<and> n \<le> 13) \<or> n = 160)"

definition is_digit :: "char \<Rightarrow> bool" where
  "is_digit c \<longleftrightarrow> (let n = code c in 48 \<le> n \<and> n \<le> 57)"

definition is_lower_az :: "char \<Rightarrow> bool" where
  "is_lower_az c \<longleftrightarrow> (let n = code c in 97 \<le> n \<and> n \<le> 122)"

definition is_upper_az :: "char \<Rightarrow> bool" where
  "is_upper_az c \<longleftrightarrow> (let n = code c in 65 \<le> n \<and> n \<le> 90)"

definition digit_val :: "char \<Rightarrow> nat" where
  "digit_val c = code c - 48"

definition lower_char :: "char \<Rightarrow> char" where
  "lower_char c = (let n = code c in
     if (65 \<le> n \<and> n \<le> 90) \<or> (192 \<le> n \<and> n \<le> 222 \<and> n \<noteq> 215) then char_of (n + 32) else c)"

definition upper_char :: "char \<Rightarrow> string" where
  "upper_char c = (let n = code c in
     if (97 \<le> n \<and> n \<le> 122) \<or> (224 \<le> n \<and> n \<le> 254 \<and> n \<noteq> 247) then [char_of (n - 32)]
     else if n = 223 then ''SS'' else [c])"

subsection \<open>Case conversion and trimming\<close>

definition js_lower :: "string \<Rightarrow> string" where
  "js_lower s = map lower_char s"

definition js_upper :: "string \<Rightarrow> string" where
  "js_upper s = concat (map upper_char s)"

definition trim_start :: "string \<Rightarrow> string" where
  "trim_start s = dropWhile is_space s"

definition trim_end :: "string \<Rightarrow> string" where
  "trim_end s = rev (dropWhile is_space (rev s))"

definition js_trim :: "string \<Rightarrow> string" where
  "js_trim s = trim_end (trim_start s)"

lemmas js_char_defs = code_def is_space_def is_digit_def is_lower_az_def is_upper_az_def
  digit_val_def lower_char_def upper_char_def
lemmas js_text_defs = js_lower_def js_upper_def trim_start_def trim_end_def js_trim_def

declare js_char_defs [js_eval] js_text_defs [js_eval]

lemma lower_char_idem [simp]: "lower_char (lower_char c) = lower_char c"
proof -
  have "code c < 256" by simp
  then show ?thesis
    by (auto simp: lower_char_def Let_def)
qed

lemma js_lower_idem [simp]: "js_lower (js_lower s) = js_lower s"
  by (simp add: js_lower_def)

lemma js_lower_append: "js_lower (a @ b) = js_lower a @ js_lower b"
  by (simp add: js_lower_def)

lemma length_js_lower [simp]: "length (js_lower s) = length s"
  by (simp add: js_lower_def)

lemma js_lower_Nil [simp]: "js_lower [] = []" "js_lower s = [] \<longleftrightarrow> s = []"
  by (simp_all add: js_lower_def)

lemma js_upper_Nil [simp]: "js_upper [] = []"
  by (simp add: js_upper_def)

lemma js_upper_append: "js_upper (a @ b) = js_upper a @ js_upper b"
  by (simp add: js_upper_def)

lemma upper_char_fixed: "u \<in> set (upper_char c) \<Longrightarrow> upper_char u = [u]"
proof -
  assume u: "u \<in> set (upper_char c)"
  have b: "code c < 256" by simp
  show "upper_char u = [u]"
    using u b by (auto simp: upper_char_def Let_def js_char_defs split: if_splits)
qed

lemma concat_map_fixed: "\<forall>u\<in>set s. f u = [u] \<Longrightarrow> concat (map f s) = s"
  by (induction s) auto

lemma js_upper_idem [simp]: "js_upper (js_upper s) = js_upper s"
  unfolding js_upper_def by (rule concat_map_fixed) (auto dest: upper_char_fixed)

lemma js_trim_Nil [simp]: "js_trim [] = []"
  by (simp add: js_text_defs)

lemma trim_start_head: "trim_start s = c # t \<Longrightarrow> \<not> is_space c"
  by (metis dropWhile_eq_Cons_conv trim_start_def)

lemma trim_end_fixed: "s = [] \<or> \<not> is_space (last s) \<Longrightarrow> trim_end s = s"
  by (cases s rule: rev_cases) (auto simp: trim_end_def)

lemma trim_start_fixed: "s = [] \<or> \<not> is_space (hd s) \<Longrightarrow> trim_start s = s"
  by (cases s) (auto simp: trim_start_def)

lemma trim_end_last: "trim_end s \<noteq> [] \<Longrightarrow> \<not> is_space (last (trim_end s))"
  unfolding trim_end_def by (metis hd_dropWhile last_rev rev_is_Nil_conv)

lemma trim_end_prefix: "prefix (trim_end s) s"
proof -
  have "suffix (dropWhile is_space (rev s)) (rev s)" by (rule suffix_dropWhile)
  then show ?thesis by (simp add: trim_end_def suffix_to_prefix)
qed

lemma js_trim_ends:
  assumes "js_trim s \<noteq> []"
  shows "\<not> is_space (hd (js_trim s))" "\<not> is_space (last (js_trim s))"
proof -
  have p: "prefix (js_trim s) (trim_start s)"
    by (simp add: js_trim_def trim_end_prefix)
  then have "hd (js_trim s) = hd (trim_start s)" "trim_start s \<noteq> []"
    using assms by (auto simp: prefix_def)
  then show "\<not> is_space (hd (js_trim s))"
    using trim_start_head by (metis list.collapse)
  show "\<not> is_space (last (js_trim s))"
    using assms trim_end_last by (simp add: js_trim_def)
qed

lemma js_trim_idem [simp]: "js_trim (js_trim s) = js_trim s"
proof (cases "js_trim s = []")
  case False
  then have "trim_start (js_trim s) = js_trim s" "trim_end (js_trim s) = js_trim s"
    using js_trim_ends [of s] by (auto intro: trim_start_fixed trim_end_fixed)
  then show ?thesis by (simp add: js_trim_def)
qed simp

lemma is_space_lower [simp]: "is_space (lower_char c) = is_space c"
proof -
  have "code c < 256" by simp
  then show ?thesis by (auto simp: lower_char_def is_space_def Let_def)
qed

lemma js_lower_trim: "js_lower (js_trim s) = js_trim (js_lower s)"
  by (simp add: js_text_defs dropWhile_map rev_map o_def)

lemma upper_char_nonspace: "\<not> is_space c \<Longrightarrow> u \<in> set (upper_char c) \<Longrightarrow> \<not> is_space u"
proof -
  have "code c < 256" by simp
  then show "\<not> is_space c \<Longrightarrow> u \<in> set (upper_char c) \<Longrightarrow> \<not> is_space u"
    by (auto simp: upper_char_def is_space_def Let_def js_char_defs split: if_splits)
qed

lemma upper_char_nonempty [simp]: "upper_char c \<noteq> []"
  by (simp add: upper_char_def Let_def)

lemma js_upper_ends:
  assumes "s \<noteq> []" "\<not> is_space (hd s)" "\<not> is_space (last s)"
  shows "js_upper s \<noteq> []" "\<not> is_space (hd (js_upper s))" "\<not> is_space (last (js_upper s))"
proof -
  obtain c t where c: "s = c # t" using assms(1) by (cases s) auto
  obtain d r where d: "s = r @ [d]" using assms(1) by (cases s rule: rev_cases) auto
  show "js_upper s \<noteq> []" by (simp add: c js_upper_def)
  have "hd (js_upper s) \<in> set (upper_char c)" by (simp add: c js_upper_def)
  then show "\<not> is_space (hd (js_upper s))" using assms(2) upper_char_nonspace by (auto simp: c)
  have "last (js_upper s) \<in> set (upper_char d)" by (simp add: d js_upper_def)
  then show "\<not> is_space (last (js_upper s))" using assms(3) upper_char_nonspace by (auto simp: d)
qed

lemma js_upper_trimmed [simp]: "js_trim (js_upper (js_trim s)) = js_upper (js_trim s)"
proof (cases "js_trim s = []")
  case False
  then have "\<not> is_space (hd (js_upper (js_trim s)))" "\<not> is_space (last (js_upper (js_trim s)))"
    using js_upper_ends [of "js_trim s"] js_trim_ends [of s] by auto
  then have "trim_start (js_upper (js_trim s)) = js_upper (js_trim s)"
      "trim_end (js_upper (js_trim s)) = js_upper (js_trim s)"
    by (auto intro: trim_start_fixed trim_end_fixed)
  then show ?thesis by (simp add: js_trim_def)
qed simp

subsection \<open>Searching, joining and splitting\<close>

fun js_includes :: "string \<Rightarrow> string \<Rightarrow> bool" where
  "js_includes [] n = (n = [])"
| "js_includes (c # cs) n = (prefix n (c # cs) \<or> js_includes cs n)"

lemma js_includes_iff: "js_includes h n \<longleftrightarrow> sublist n h"
  by (induction h n rule: js_includes.induct) (auto simp: sublist_Cons_right)

definition starts_with :: "string \<Rightarrow> string \<Rightarrow> bool" where
  "starts_with s p = prefix p s"

definition ends_with :: "string \<Rightarrow> string \<Rightarrow> bool" where
  "ends_with s p = prefix (rev p) (rev s)"

declare starts_with_def [js_eval] ends_with_def [js_eval]

fun js_join :: "string \<Rightarrow> string list \<Rightarrow> string" where
  "js_join sep [] = []"
| "js_join sep [s] = s"
| "js_join sep (s # t # ts) = s @ sep @ js_join sep (t # ts)"

fun split_char :: "char \<Rightarrow> string \<Rightarrow> string list" where
  "split_char d [] = [[]]"
| "split_char d (c # cs) =
     (if c = d then [] # split_char d cs
      else (case split_char d cs of [] \<Rightarrow> [[c]] | p # ps \<Rightarrow> (c # p) # ps))"

lemma split_char_nonempty [simp]: "split_char d s \<noteq> []"
  by (induction s) (auto split: list.splits)

lemma js_join_Cons: "ts \<noteq> [] \<Longrightarrow> js_join sep (s # ts) = s @ sep @ js_join sep ts"
  by (cases ts) auto

lemma js_join_split: "js_join [d] (split_char d s) = s"
proof (induction s)
  case Nil
  then show ?case by simp
next
  case (Cons c cs)
  then obtain p ps where "split_char d cs = p # ps"
    by (cases "split_char d cs") auto
  with Cons show ?case
    by (cases ps) (auto simp: js_join_Cons)
qed

lemma split_char_append: "d \<notin> set s \<Longrightarrow> split_char d (s @ d # t) = s # split_char d t"
  by (induction s) (auto split: list.splits)

lemma split_char_none: "d \<notin> set s \<Longrightarrow> split_char d s = [s]"
  by (induction s) auto

lemma split_char_join:
  "xs \<noteq> [] \<Longrightarrow> \<forall>x\<in>set xs. d \<notin> set x \<Longrightarrow> split_char d (js_join [d] xs) = xs"
proof (induction xs)
  case (Cons x xs)
  then show ?case by (cases xs) (simp_all add: split_char_none split_char_append)
qed simp

lemma split_char_no_sep: "p \<in> set (split_char d s) \<Longrightarrow> d \<notin> set p"
proof (induction s arbitrary: p)
  case Nil
  then show ?case by simp
next
  case (Cons c cs)
  then show ?case by (auto split: if_splits list.splits)
qed

text \<open>\<open>s.split(/\\s+/).filter(Boolean)\<close>: the maximal runs of other characters.\<close>

fun words_from :: "string \<Rightarrow> string \<Rightarrow> string list" where
  "words_from w [] = (if w = [] then [] else [rev w])"
| "words_from w (c # cs) =
     (if is_space c then (if w = [] then words_from [] cs else rev w # words_from [] cs)
      else words_from (c # w) cs)"

definition js_words :: "string \<Rightarrow> string list" where
  "js_words s = words_from [] s"

declare js_words_def [js_eval]

lemma words_from_nonempty: "[] \<notin> set (words_from w s)"
  by (induction w s rule: words_from.induct) auto

lemma js_words_nonempty: "[] \<notin> set (js_words s)"
  by (simp add: js_words_def words_from_nonempty)

lemma words_from_append:
  "is_space c \<Longrightarrow> words_from w (s @ c # t) = words_from w s @ words_from [] t"
  by (induction w s rule: words_from.induct) auto

lemma js_words_append: "is_space c \<Longrightarrow> js_words (s @ c # t) = js_words s @ js_words t"
  by (simp add: js_words_def words_from_append)

lemma words_from_spaces: "\<forall>c\<in>set t. is_space c \<Longrightarrow> words_from w (s @ t) = words_from w s"
proof -
  assume t: "\<forall>c\<in>set t. is_space c"
  have "words_from [] t = []" using t by (induction t) auto
  then show ?thesis using t by (cases t) (auto simp: words_from_append)
qed

lemma js_words_trim [simp]: "js_words (js_trim s) = js_words s"
proof -
  have a: "words_from [] (trim_start s) = words_from [] s"
    by (induction s) (auto simp: trim_start_def)
  have "trim_end (trim_start s) @ rev (takeWhile is_space (rev (trim_start s))) = trim_start s"
    unfolding trim_end_def by (metis rev_append rev_rev_ident takeWhile_dropWhile_id)
  then have "words_from [] (js_trim s) = words_from [] (trim_start s)"
    using words_from_spaces [of "rev (takeWhile is_space (rev (trim_start s)))" "[]" "js_trim s"]
    by (simp add: js_trim_def) (metis set_takeWhileD)
  then show ?thesis using a by (simp add: js_words_def)
qed

subsection \<open>The default sort order\<close>

text \<open>\<open>sort()\<close> without a comparator orders strings by their code units.\<close>

fun str_gt :: "string \<Rightarrow> string \<Rightarrow> bool" where
  "str_gt [] t = False"
| "str_gt (c # s) [] = True"
| "str_gt (c # s) (d # t) = (code d < code c \<or> (code c = code d \<and> str_gt s t))"

lemma code_inj [simp]: "code c = code d \<longleftrightarrow> c = d"
  by (simp add: code_def)

lemma str_gt_irrefl [simp]: "\<not> str_gt s s"
  by (induction s) auto

lemma str_gt_trans: "str_gt s t \<Longrightarrow> str_gt t u \<Longrightarrow> str_gt s u"
proof (induction s t arbitrary: u rule: str_gt.induct)
  case (3 c s d t)
  then show ?case by (cases u) auto
qed auto

lemma str_gt_total: "s = t \<or> str_gt s t \<or> str_gt t s"
  by (induction s t rule: str_gt.induct) (auto, case_tac t, auto)

interpretation code_unit_order: js_order str_gt "\<lambda>_. True"
proof
  fix x y z :: string
  show "str_gt x y \<Longrightarrow> \<not> str_gt y x" using str_gt_trans str_gt_irrefl by blast
  show "\<not> str_gt x y \<Longrightarrow> \<not> str_gt y z \<Longrightarrow> \<not> str_gt x z"
    using str_gt_trans str_gt_total by metis
qed

subsection \<open>Decimal numerals\<close>

definition digit_char :: "nat \<Rightarrow> char" where
  "digit_char d = char_of (48 + d)"

fun nat_str :: "nat \<Rightarrow> string" where
  "nat_str n = (if n < 10 then [digit_char n] else nat_str (n div 10) @ [digit_char (n mod 10)])"

declare nat_str.simps [simp del]

definition digits_val :: "string \<Rightarrow> nat" where
  "digits_val s = foldl (\<lambda>acc c. 10 * acc + digit_val c) 0 s"

definition int_str :: "int \<Rightarrow> string" where
  "int_str i = (if i < 0 then CHR ''-'' # nat_str (nat (- i)) else nat_str (nat i))"

declare digit_char_def [js_eval] nat_str.simps [js_eval] digits_val_def [js_eval] int_str_def [js_eval]

lemma digit_val_char [simp]: "d < 10 \<Longrightarrow> digit_val (digit_char d) = d"
  by (simp add: digit_val_def digit_char_def)

lemma is_digit_char [simp]: "d < 10 \<Longrightarrow> is_digit (digit_char d)"
  by (simp add: is_digit_def digit_char_def)

lemma digits_val_snoc: "digits_val (s @ [c]) = 10 * digits_val s + digit_val c"
  by (simp add: digits_val_def)

lemma digits_val_nat_str [simp]: "digits_val (nat_str n) = n"
proof (induction n rule: nat_str.induct)
  case (1 n)
  show ?case
  proof (cases "n < 10")
    case True
    then show ?thesis by (subst nat_str.simps) (simp add: digits_val_def)
  next
    case False
    with 1 show ?thesis by (subst nat_str.simps) (simp add: digits_val_snoc)
  qed
qed

lemma nat_str_inj [simp]: "nat_str m = nat_str n \<longleftrightarrow> m = n"
  by (metis digits_val_nat_str)

lemma nat_str_digits: "\<forall>c\<in>set (nat_str n). is_digit c"
proof (induction n rule: nat_str.induct)
  case (1 n)
  then show ?case by (subst nat_str.simps) auto
qed

lemma nat_str_nonempty [simp]: "nat_str n \<noteq> []"
  by (subst nat_str.simps) simp

text \<open>A digit string without a leading zero is the numeral of its value.\<close>

lemma digit_char_val: "is_digit c \<Longrightarrow> digit_char (digit_val c) = c"
  by (auto simp: is_digit_def digit_char_def digit_val_def code_def Let_def)

lemma digit_val_less: "is_digit c \<Longrightarrow> digit_val c < 10"
  by (auto simp: is_digit_def digit_val_def Let_def)

lemma digits_val_pos:
  "s \<noteq> [] \<Longrightarrow> hd s \<noteq> CHR ''0'' \<Longrightarrow> \<forall>c\<in>set s. is_digit c \<Longrightarrow> 0 < digits_val s"
proof (induction s rule: rev_induct)
  case Nil
  then show ?case by simp
next
  case (snoc c s)
  show ?case
  proof (cases "s = []")
    case True
    with snoc.prems have "digit_char (digit_val c) = c" "c \<noteq> CHR ''0''"
      by (auto intro: digit_char_val)
    moreover have "digit_char 0 = CHR ''0''" by code_simp
    ultimately have "digit_val c \<noteq> 0" by metis
    with True show ?thesis by (simp add: digits_val_def)
  next
    case False
    with snoc show ?thesis by (simp add: digits_val_snoc)
  qed
qed

lemma nat_str_digits_val:
  "s \<noteq> [] \<Longrightarrow> hd s \<noteq> CHR ''0'' \<Longrightarrow> \<forall>c\<in>set s. is_digit c \<Longrightarrow> nat_str (digits_val s) = s"
proof (induction s rule: rev_induct)
  case Nil
  then show ?case by simp
next
  case (snoc c s)
  have d: "digit_val c < 10" "digit_char (digit_val c) = c"
    using snoc.prems by (auto intro: digit_val_less digit_char_val)
  show ?case
  proof (cases "s = []")
    case True
    with d show ?thesis by (subst nat_str.simps) (simp add: digits_val_def)
  next
    case False
    then have "0 < digits_val s" "nat_str (digits_val s) = s"
      using snoc by (auto intro: digits_val_pos)
    with d show ?thesis by (subst nat_str.simps) (simp add: digits_val_snoc)
  qed
qed

subsection \<open>Numbered names: \<open>base\<close>, \<open>base-2\<close>, \<open>base-3\<close>, ...\<close>

text \<open>
  The template literal \<open>`${base}-${suffix}`\<close>. Different suffixes give different names, so
  the search for an unused one ends: the names in \<open>used\<close> are finitely many.
\<close>

definition suffixed :: "string \<Rightarrow> nat \<Rightarrow> string" where
  "suffixed base n = base @ ''-'' @ nat_str n"

lemma suffixed_inj [simp]: "suffixed b m = suffixed b n \<longleftrightarrow> m = n"
  by (simp add: suffixed_def)

lemma finite_taken: "finite {k. n \<le> k \<and> suffixed base k \<in> set used}"
proof -
  have "{k. n \<le> k \<and> suffixed base k \<in> set used} \<subseteq> (suffixed base -` set used)" by auto
  moreover have "finite (suffixed base -` set used)"
    by (rule finite_vimageI) (auto intro: injI)
  ultimately show ?thesis by (rule finite_subset)
qed

text \<open>The loop \<open>while (used.has(`${base}-${suffix}`)) suffix += 1;\<close>.\<close>

function next_suffix :: "string list \<Rightarrow> string \<Rightarrow> nat \<Rightarrow> nat" where
  "next_suffix used base n =
     (if suffixed base n \<in> set used then next_suffix used base (Suc n) else n)"
  by pat_completeness auto
termination
proof (relation "measure (\<lambda>(used, base, n). card {k. n \<le> k \<and> suffixed base k \<in> set used})")
  fix used :: "string list" and base n
  assume "suffixed base n \<in> set used"
  then have "{k. Suc n \<le> k \<and> suffixed base k \<in> set used} \<subset> {k. n \<le> k \<and> suffixed base k \<in> set used}"
    by (auto dest: Suc_leD) (metis (mono_tags, lifting) mem_Collect_eq not_less_eq_eq order_refl)
  then show "((used, base, Suc n), (used, base, n))
    \<in> measure (\<lambda>(used, base, n). card {k. n \<le> k \<and> suffixed base k \<in> set used})"
    by (simp add: psubset_card_mono finite_taken)
qed simp

declare next_suffix.simps [simp del, js_eval]

lemma next_suffix_free: "suffixed base (next_suffix used base n) \<notin> set used"
  by (induction used base n rule: next_suffix.induct) (subst next_suffix.simps, simp)

lemma next_suffix_ge: "n \<le> next_suffix used base n"
proof (induction used base n rule: next_suffix.induct)
  case (1 used base n)
  then show ?case by (subst next_suffix.simps) auto
qed

lemma next_suffix_least:
  "n \<le> k \<Longrightarrow> k < next_suffix used base n \<Longrightarrow> suffixed base k \<in> set used"
proof (induction used base n rule: next_suffix.induct)
  case (1 used base n)
  show ?case
  proof (cases "suffixed base n \<in> set used")
    case True
    then have "next_suffix used base n = next_suffix used base (Suc n)"
      by (subst next_suffix.simps) simp
    with 1 True show ?thesis by (cases "k = n") auto
  next
    case False
    then have "next_suffix used base n = n" by (subst next_suffix.simps) simp
    with 1 show ?thesis by simp
  qed
qed

subsection \<open>\<open>encodeURIComponent\<close> and the UTF-8 length\<close>

definition hex_char :: "nat \<Rightarrow> char" where
  "hex_char d = char_of (if d < 10 then 48 + d else 55 + d)"

definition percent :: "nat \<Rightarrow> string" where
  "percent b = [CHR ''%'', hex_char (b div 16), hex_char (b mod 16)]"

definition uri_unreserved :: "char \<Rightarrow> bool" where
  "uri_unreserved c \<longleftrightarrow> is_digit c \<or> is_lower_az c \<or> is_upper_az c \<or> c \<in> set ''-_.!~*'' \<or> code c = 39
     \<or> c \<in> set ''()''"

definition uri_char :: "char \<Rightarrow> string" where
  "uri_char c = (let n = code c in
     if uri_unreserved c then [c]
     else if n < 128 then percent n
     else percent (192 + n div 64) @ percent (128 + n mod 64))"

definition encode_uri_component :: "string \<Rightarrow> string" where
  "encode_uri_component s = concat (map uri_char s)"

text \<open>\<open>new TextEncoder().encode(s).length\<close>: two bytes for a code unit of 128 or more.\<close>

definition utf8_length :: "string \<Rightarrow> nat" where
  "utf8_length s = sum_list (map (\<lambda>c. if code c < 128 then 1 else 2) s)"

declare hex_char_def [js_eval] percent_def [js_eval] uri_unreserved_def [js_eval]
  uri_char_def [js_eval] encode_uri_component_def [js_eval] utf8_length_def [js_eval]

lemma utf8_length_bounds: "length s \<le> utf8_length s" "utf8_length s \<le> 2 * length s"
  by (induction s) (auto simp: utf8_length_def)

end
