(* ===== verification/Js_Value.thy ===== *)
theory Js_Value
  imports Js_String "HOL-Library.Monad_Syntax"
begin

section \<open>JavaScript values and their coercions\<close>

text \<open>
  The UI works on JSON documents whose shape nothing checks, so the model keeps them as
  dynamic values and writes out every coercion the code relies on: truthiness (\<open>||\<close>,
  \<open>filter(Boolean)\<close>), nullish defaults (\<open>??\<close>), \<open>String(v)\<close>, \<open>Number(v)\<close>, strict equality,
  property reads with the members inherited from \<open>Object.prototype\<close>, object spread, and
  array iteration, which raises a \<open>TypeError\<close> on a value that is not iterable.

  Numbers are \<open>NaN\<close>, the infinities and exact rationals. They agree with IEEE doubles on
  integers up to \<open>2 ^ 53\<close> in absolute value and on decimal literals that are only copied and
  compared, which is how the program uses numbers. \<open>num_str\<close> prints integers in full and
  fractions with at most 20 digits after the point (no exponent form).

  An operation that can raise a \<open>TypeError\<close> returns an \<open>option\<close>: \<open>None\<close> is the exception.
  Two arrays or objects are never \<open>===\<close>: the values of the model come from separate JSON
  documents or literals, so no two of them are one reference.
\<close>

datatype jsnum = NaN | PosInf | NegInf | Fin rat

datatype jsval =
    Undef
  | Null
  | Bool bool
  | Num jsnum
  | Str string
  | Arr "jsval list"
  | Obj "(string \<times> jsval) list"
  | Fun string  \<comment> \<open>a built-in function, reached through a prototype\<close>

type_synonym jsobj = "(string \<times> jsval) list"

subsection \<open>Numbers\<close>

fun num_truthy :: "jsnum \<Rightarrow> bool" where
  "num_truthy NaN = False"
| "num_truthy (Fin q) = (q \<noteq> 0)"
| "num_truthy PosInf = True"
| "num_truthy NegInf = True"

fun num_lt :: "jsnum \<Rightarrow> jsnum \<Rightarrow> bool" where
  "num_lt (Fin p) (Fin q) = (p < q)"
| "num_lt (Fin p) PosInf = True"
| "num_lt NegInf (Fin q) = True"
| "num_lt NegInf PosInf = True"
| "num_lt _ _ = False"

fun num_eq :: "jsnum \<Rightarrow> jsnum \<Rightarrow> bool" where
  "num_eq NaN _ = False"
| "num_eq m n = (m = n)"

fun num_sub :: "jsnum \<Rightarrow> jsnum \<Rightarrow> jsnum" where
  "num_sub (Fin p) (Fin q) = Fin (p - q)"
| "num_sub NaN _ = NaN"
| "num_sub _ NaN = NaN"
| "num_sub PosInf PosInf = NaN"
| "num_sub NegInf NegInf = NaN"
| "num_sub PosInf _ = PosInf"
| "num_sub NegInf _ = NegInf"
| "num_sub (Fin p) PosInf = NegInf"
| "num_sub (Fin p) NegInf = PosInf"

definition num_or :: "jsnum \<Rightarrow> jsnum \<Rightarrow> jsnum" where
  "num_or m n = (if num_truthy m then m else n)"

definition num_positive :: "jsnum \<Rightarrow> bool" where
  "num_positive n = num_lt (Fin 0) n"

fun num_max :: "jsnum \<Rightarrow> jsnum \<Rightarrow> jsnum" where
  "num_max m n = (if m = NaN \<or> n = NaN then NaN else if num_lt m n then n else m)"

text \<open>\<open>Number.isSafeInteger\<close>.\<close>

fun is_safe_integer :: "jsnum \<Rightarrow> bool" where
  "is_safe_integer (Fin q) = (q = of_int \<lfloor>q\<rfloor> \<and> \<bar>\<lfloor>q\<rfloor>\<bar> \<le> 9007199254740991)"
| "is_safe_integer _ = False"

declare num_or_def [js_eval] num_positive_def [js_eval]

lemma num_eq_iff: "num_eq m n \<longleftrightarrow> m = n \<and> m \<noteq> NaN"
  by (cases m; cases n) auto

lemma num_lt_trans: "num_lt a b \<Longrightarrow> num_lt b c \<Longrightarrow> num_lt a c"
  by (cases a; cases b; cases c) auto

lemma num_lt_irrefl [simp]: "\<not> num_lt a a"
  by (cases a) auto

lemma num_lt_asym: "num_lt a b \<Longrightarrow> \<not> num_lt b a"
  using num_lt_trans num_lt_irrefl by blast

lemma num_lt_cases: "a \<noteq> NaN \<Longrightarrow> b \<noteq> NaN \<Longrightarrow> num_lt a b \<or> a = b \<or> num_lt b a"
  by (cases a; cases b) auto

lemma num_le_trans:
  "\<not> num_lt b a \<Longrightarrow> \<not> num_lt c b \<Longrightarrow> a \<noteq> NaN \<Longrightarrow> b \<noteq> NaN \<Longrightarrow> c \<noteq> NaN \<Longrightarrow> \<not> num_lt c a"
  by (cases a; cases b; cases c) auto

text \<open>
  The comparators subtract: for operands that are numbers the sign of the difference is
  the order, and a zero difference passes to the next key.
\<close>

lemma num_sub_positive:
  "a \<noteq> NaN \<Longrightarrow> b \<noteq> NaN \<Longrightarrow> num_positive (num_sub a b) \<longleftrightarrow> num_lt b a"
  by (cases a; cases b) (auto simp: num_positive_def)

lemma num_sub_truthy:
  "a \<noteq> NaN \<Longrightarrow> b \<noteq> NaN \<Longrightarrow> num_truthy (num_sub a b) \<longleftrightarrow> a \<noteq> b"
  by (cases a; cases b) auto

lemma num_or_sub_positive:
  "a \<noteq> NaN \<Longrightarrow> b \<noteq> NaN \<Longrightarrow>
    num_positive (num_or (num_sub a b) n) \<longleftrightarrow> num_lt b a \<or> (a = b \<and> num_positive n)"
  by (auto simp: num_or_def num_sub_truthy num_sub_positive)

subsection \<open>Comparators made of differences\<close>

text \<open>
  \<open>(a, b) => f(a) - f(b) || g(a) - g(b)\<close>, and \<open>g(b) - g(a) || collate(k(a), k(b))\<close>: where the
  operands are numbers, each is a consistent comparator.
\<close>

lemma lex_order_trans:
  assumes "\<not> (num_lt b a \<or> (a = b \<and> num_lt t s))" "\<not> (num_lt c b \<or> (b = c \<and> num_lt u t))"
    and "a \<noteq> NaN" "b \<noteq> NaN" "c \<noteq> NaN" "s \<noteq> NaN" "t \<noteq> NaN" "u \<noteq> NaN"
  shows "\<not> (num_lt c a \<or> (a = c \<and> num_lt u s))"
  using assms by (metis num_lt_cases num_lt_trans num_lt_irrefl)

lemma two_key_order:
  assumes g: "\<And>v. g v \<noteq> NaN"
  shows "js_order (\<lambda>l r. num_positive (num_or (num_sub (f l) (f r)) (num_sub (g l) (g r))))
    (\<lambda>v. f v \<noteq> NaN)"
proof
  fix x y z
  assume x: "f x \<noteq> NaN" and y: "f y \<noteq> NaN"
  show "num_positive (num_or (num_sub (f x) (f y)) (num_sub (g x) (g y))) \<Longrightarrow>
    \<not> num_positive (num_or (num_sub (f y) (f x)) (num_sub (g y) (g x)))"
    using x y g by (auto simp: num_or_sub_positive num_sub_positive dest: num_lt_asym)
  assume z: "f z \<noteq> NaN"
    and "\<not> num_positive (num_or (num_sub (f x) (f y)) (num_sub (g x) (g y)))"
      "\<not> num_positive (num_or (num_sub (f y) (f z)) (num_sub (g y) (g z)))"
  then have "\<not> (num_lt (f z) (f x) \<or> (f x = f z \<and> num_lt (g z) (g x)))"
    using x y g by (intro lex_order_trans [of "f y" "f x" "g y" "g x" "f z" "g z"])
      (simp_all add: num_or_sub_positive num_sub_positive)
  then show "\<not> num_positive (num_or (num_sub (f x) (f z)) (num_sub (g x) (g z)))"
    using x z g by (simp add: num_or_sub_positive num_sub_positive)
qed

definition newest_first_gt :: "('a \<Rightarrow> jsnum) \<Rightarrow> ('a \<Rightarrow> string) \<Rightarrow> (string \<Rightarrow> string \<Rightarrow> bool) \<Rightarrow> 'a \<Rightarrow> 'a \<Rightarrow> bool"
  where
  "newest_first_gt ts k collate_gt left right =
     (let d = num_sub (ts right) (ts left)
      in if num_truthy d then num_positive d else collate_gt (k left) (k right))"

declare newest_first_gt_def [js_eval]

lemma newest_first_gt_iff:
  "ts l \<noteq> NaN \<Longrightarrow> ts r \<noteq> NaN \<Longrightarrow> newest_first_gt ts k cg l r \<longleftrightarrow>
    num_lt (ts l) (ts r) \<or> (ts l = ts r \<and> cg (k l) (k r))"
  by (auto simp: newest_first_gt_def Let_def num_sub_truthy num_sub_positive)

lemma newest_first_order:
  assumes g: "\<And>v. ts v \<noteq> NaN" and c: "js_order cg (\<lambda>_. True)"
  shows "js_order (newest_first_gt ts k cg) (\<lambda>_. True)"
proof
  fix x y z
  show "newest_first_gt ts k cg x y \<Longrightarrow> \<not> newest_first_gt ts k cg y x"
    using g js_order.gt_asym [OF c] by (auto simp: newest_first_gt_iff dest: num_lt_asym)
  assume "\<not> newest_first_gt ts k cg x y" "\<not> newest_first_gt ts k cg y z"
  then show "\<not> newest_first_gt ts k cg x z"
    using g js_order.le_trans [OF c] unfolding newest_first_gt_iff [of ts, OF g g]
    by (metis num_lt_cases num_lt_trans num_lt_irrefl)
qed

subsection \<open>Numeric strings\<close>

definition digits_in_base :: "nat \<Rightarrow> string \<Rightarrow> nat option" where
  "digits_in_base b s =
     (let val = (\<lambda>c. if is_digit c then code c - 48
                     else if is_lower_az c then code c - 87
                     else if is_upper_az c then code c - 55 else 99)
      in if s \<noteq> [] \<and> (\<forall>c\<in>set s. val c < b)
         then Some (foldl (\<lambda>acc c. b * acc + val c) 0 s) else None)"

definition parse_exponent :: "rat \<Rightarrow> string \<Rightarrow> jsnum" where
  "parse_exponent m s =
     (case s of
        [] \<Rightarrow> NaN
      | c # t \<Rightarrow>
          (let neg = (c = CHR ''-''); ds = (if c = CHR ''-'' \<or> c = CHR ''+'' then t else s)
           in if ds \<noteq> [] \<and> (\<forall>d\<in>set ds. is_digit d)
              then Fin (if neg then m / 10 ^ digits_val ds else m * 10 ^ digits_val ds)
              else NaN))"

definition parse_unsigned :: "string \<Rightarrow> jsnum" where
  "parse_unsigned s =
     (if s = ''Infinity'' then PosInf
      else
        let ip = takeWhile is_digit s; r = dropWhile is_digit s;
            fr = (case r of c # t \<Rightarrow> if c = CHR ''.'' then takeWhile is_digit t else [] | [] \<Rightarrow> []);
            r' = (case r of c # t \<Rightarrow> if c = CHR ''.'' then dropWhile is_digit t else r | [] \<Rightarrow> []);
            m = of_nat (digits_val (ip @ fr)) / 10 ^ length fr
        in if ip = [] \<and> fr = [] then NaN
           else case r' of
                  [] \<Rightarrow> Fin m
                | c # t \<Rightarrow> if c = CHR ''e'' \<or> c = CHR ''E'' then parse_exponent m t else NaN)"

fun num_neg :: "jsnum \<Rightarrow> jsnum" where
  "num_neg NaN = NaN"
| "num_neg PosInf = NegInf"
| "num_neg NegInf = PosInf"
| "num_neg (Fin q) = Fin (- q)"

definition radix_literal :: "string \<Rightarrow> nat option" where
  "radix_literal t =
     (case t of
        z # x # ds \<Rightarrow>
          if z \<noteq> CHR ''0'' then None
          else if x = CHR ''x'' \<or> x = CHR ''X'' then Some 16
          else if x = CHR ''o'' \<or> x = CHR ''O'' then Some 8
          else if x = CHR ''b'' \<or> x = CHR ''B'' then Some 2
          else None
      | _ \<Rightarrow> None)"

definition parse_num :: "string \<Rightarrow> jsnum" where
  "parse_num s =
     (let t = js_trim s in
      case radix_literal t of
        Some b \<Rightarrow> (case digits_in_base b (drop 2 t) of Some n \<Rightarrow> Fin (of_nat n) | None \<Rightarrow> NaN)
      | None \<Rightarrow>
         (case t of
            [] \<Rightarrow> Fin 0
          | c # r \<Rightarrow> if c = CHR ''-'' then num_neg (parse_unsigned r)
                     else if c = CHR ''+'' then parse_unsigned r
                     else parse_unsigned t))"

fun frac_digits :: "nat \<Rightarrow> rat \<Rightarrow> string" where
  "frac_digits 0 q = []"
| "frac_digits (Suc k) q =
     (if q = 0 then [] else digit_char (nat \<lfloor>10 * q\<rfloor>) # frac_digits k (10 * q - of_int \<lfloor>10 * q\<rfloor>))"

fun num_str :: "jsnum \<Rightarrow> string" where
  "num_str NaN = ''NaN''"
| "num_str PosInf = ''Infinity''"
| "num_str NegInf = ''-Infinity''"
| "num_str (Fin q) =
     (let a = \<bar>q\<bar>; w = nat_str (nat \<lfloor>a\<rfloor>); f = a - of_int \<lfloor>a\<rfloor>
      in (if q < 0 then ''-'' else '''') @ w @
         (if f = 0 then '''' else ''.'' @ frac_digits 20 f))"

declare digits_in_base_def [js_eval] parse_exponent_def [js_eval] parse_unsigned_def [js_eval]
  radix_literal_def [js_eval] parse_num_def [js_eval]

subsection \<open>Truthiness and defaults\<close>

fun truthy :: "jsval \<Rightarrow> bool" where
  "truthy Undef = False"
| "truthy Null = False"
| "truthy (Bool b) = b"
| "truthy (Num n) = num_truthy n"
| "truthy (Str s) = (s \<noteq> [])"
| "truthy (Arr _) = True"
| "truthy (Obj _) = True"
| "truthy (Fun _) = True"

definition js_or :: "jsval \<Rightarrow> jsval \<Rightarrow> jsval" where
  "js_or a b = (if truthy a then a else b)"

definition nullish :: "jsval \<Rightarrow> bool" where
  "nullish v \<longleftrightarrow> v = Undef \<or> v = Null"

definition js_default :: "jsval \<Rightarrow> jsval \<Rightarrow> jsval" where
  "js_default a b = (if nullish a then b else a)"

declare js_or_def [js_eval] nullish_def [js_eval] js_default_def [js_eval]

subsection \<open>\<open>String(v)\<close> and \<open>Number(v)\<close>\<close>

fun to_str :: "jsval \<Rightarrow> string" where
  "to_str Undef = ''undefined''"
| "to_str Null = ''null''"
| "to_str (Bool b) = (if b then ''true'' else ''false'')"
| "to_str (Num n) = num_str n"
| "to_str (Str s) = s"
| "to_str (Arr xs) = js_join '','' (map (\<lambda>x. if nullish x then [] else to_str x) xs)"
| "to_str (Obj _) = ''[object Object]''"
| "to_str (Fun f) = ''function '' @ f @ ''() { [native code] }''"

fun to_num :: "jsval \<Rightarrow> jsnum" where
  "to_num Undef = NaN"
| "to_num Null = Fin 0"
| "to_num (Bool b) = Fin (if b then 1 else 0)"
| "to_num (Num n) = n"
| "to_num (Str s) = parse_num s"
| "to_num (Arr xs) = parse_num (to_str (Arr xs))"
| "to_num (Obj _) = NaN"
| "to_num (Fun _) = NaN"

text \<open>\<open>String(v || d)\<close> and \<open>String(v ?? d)\<close> for a string default.\<close>

definition str_or :: "jsval \<Rightarrow> string \<Rightarrow> string" where
  "str_or v d = to_str (js_or v (Str d))"

declare str_or_def [js_eval]

lemma str_or_Str [simp]: "str_or (Str s) d = (if s = [] then d else s)"
  by (simp add: str_or_def js_or_def)

lemma str_or_falsy [simp]: "\<not> truthy v \<Longrightarrow> str_or v d = d"
  by (simp add: str_or_def js_or_def)

subsection \<open>Equality and sets\<close>

fun strict_eq :: "jsval \<Rightarrow> jsval \<Rightarrow> bool" where
  "strict_eq (Num m) (Num n) = num_eq m n"
| "strict_eq (Arr _) _ = False"
| "strict_eq (Obj _) _ = False"
| "strict_eq a b = (a = b)"

text \<open>The equality of \<open>Set\<close> and of \<open>Array.prototype.includes\<close>: \<open>NaN\<close> equals itself.\<close>

definition same_value_zero :: "jsval \<Rightarrow> jsval \<Rightarrow> bool" where
  "same_value_zero a b \<longleftrightarrow> strict_eq a b \<or> (a = Num NaN \<and> b = Num NaN)"

text \<open>\<open>[...new Set(values)]\<close> on arbitrary values.\<close>

fun unique_values :: "jsval list \<Rightarrow> jsval list" where
  "unique_values [] = []"
| "unique_values (x # xs) = x # filter (\<lambda>y. \<not> same_value_zero x y) (unique_values xs)"

declare same_value_zero_def [js_eval]

lemma strict_eq_Str [simp]: "strict_eq v (Str s) \<longleftrightarrow> v = Str s" "strict_eq (Str s) v \<longleftrightarrow> v = Str s"
  by (cases v; auto)+

lemma strict_eq_Bool [simp]: "strict_eq v (Bool b) \<longleftrightarrow> v = Bool b"
  by (cases v) auto

lemma same_value_zero_Str [simp]:
  "same_value_zero v (Str s) \<longleftrightarrow> v = Str s" "same_value_zero (Str s) v \<longleftrightarrow> v = Str s"
  by (auto simp: same_value_zero_def)

lemma set_unique_values: "set (unique_values xs) \<subseteq> set xs"
  by (induction xs) auto

lemma unique_values_Str: "unique_values (map Str xs) = map Str (nub xs)"
  by (induction xs) (auto simp: filter_map o_def intro!: arg_cong [where f = "map Str"] filter_cong)

subsection \<open>Objects\<close>

text \<open>
  An object is the list of its own enumerable properties in the order \<open>Object.entries\<close>
  gives. Reading a property that is not the object's own finds the members every object
  inherits. Assignment keeps the place of an existing property; a new array-index key is
  placed among the index keys, which come first in ascending order, and any other new key
  goes last.
\<close>

definition object_prototype :: "string list" where
  "object_prototype =
     [''constructor'', ''__defineGetter__'', ''__defineSetter__'', ''hasOwnProperty'',
      ''__lookupGetter__'', ''__lookupSetter__'', ''isPrototypeOf'', ''propertyIsEnumerable'',
      ''toString'', ''valueOf'', ''__proto__'', ''toLocaleString'']"

definition fld :: "jsobj \<Rightarrow> string \<Rightarrow> jsval" where
  "fld ob k = (case map_of ob k of
      Some v \<Rightarrow> v
    | None \<Rightarrow> if k \<in> set object_prototype then Fun k else Undef)"

definition has_own :: "jsobj \<Rightarrow> string \<Rightarrow> bool" where
  "has_own ob k \<longleftrightarrow> k \<in> set (map fst ob)"

definition is_index_key :: "string \<Rightarrow> bool" where
  "is_index_key k \<longleftrightarrow> k = ''0'' \<or>
     (k \<noteq> [] \<and> hd k \<noteq> CHR ''0'' \<and> (\<forall>c\<in>set k. is_digit c) \<and> digits_val k < 4294967295)"

fun obj_put :: "string \<Rightarrow> jsval \<Rightarrow> jsobj \<Rightarrow> jsobj" where
  "obj_put k v [] = [(k, v)]"
| "obj_put k v ((k', v') # ob) =
     (if k = k' then (k, v) # ob
      else if is_index_key k \<and> \<not> (is_index_key k' \<and> digits_val k' < digits_val k)
      then (k, v) # (k', v') # ob
      else (k', v') # obj_put k v ob)"

text \<open>\<open>{...a, ...b}\<close>, and the properties a spread or \<open>Object.entries\<close> takes from a value.\<close>

definition obj_spread :: "jsobj \<Rightarrow> jsobj \<Rightarrow> jsobj" where
  "obj_spread a b = fold (\<lambda>(k, v). obj_put k v) b a"

fun own_entries :: "jsval \<Rightarrow> jsobj" where
  "own_entries (Obj ob) = ob"
| "own_entries (Arr xs) = map (\<lambda>i. (nat_str i, xs ! i)) [0..<length xs]"
| "own_entries (Str s) = map (\<lambda>i. (nat_str i, Str [s ! i])) [0..<length s]"
| "own_entries _ = []"

declare object_prototype_def [js_eval] fld_def [js_eval] has_own_def [js_eval]
  obj_spread_def [js_eval] is_index_key_def [js_eval]

lemma map_of_obj_put [simp]: "map_of (obj_put k v ob) = (map_of ob)(k \<mapsto> v)"
  by (induction k v ob rule: obj_put.induct) auto

lemma fld_obj_put: "fld (obj_put k v ob) k' = (if k' = k then v else fld ob k')"
  by (simp add: fld_def)

lemma has_own_obj_put: "has_own (obj_put k v ob) k' \<longleftrightarrow> k' = k \<or> has_own ob k'"
  by (induction k v ob rule: obj_put.induct) (auto simp: has_own_def)

lemma has_own_fld: "has_own ob k \<longleftrightarrow> (\<exists>v. map_of ob k = Some v)"
proof -
  have "map_of ob k = None \<longleftrightarrow> k \<notin> fst ` set ob" by (rule map_of_eq_None_iff)
  then show ?thesis by (cases "map_of ob k") (auto simp: has_own_def)
qed

lemma map_of_fold_put:
  "map_of (fold (\<lambda>(k, v). obj_put k v) b a) = map_of a ++ map_of (rev b)"
  by (induction b arbitrary: a) (auto simp: map_add_def fun_eq_iff split: option.splits)

text \<open>
  What holds of every object: each key once, and the array-index keys first, ascending.
\<close>

definition key_before :: "string \<Rightarrow> string \<Rightarrow> bool" where
  "key_before a b \<longleftrightarrow> (is_index_key b \<longrightarrow> is_index_key a \<and> digits_val a < digits_val b)"

definition wf_obj :: "jsobj \<Rightarrow> bool" where
  "wf_obj ob \<longleftrightarrow> distinct (map fst ob) \<and> sorted_wrt key_before (map fst ob)"

declare key_before_def [js_eval] wf_obj_def [js_eval]

lemma map_of_rev_wf: "wf_obj b \<Longrightarrow> map_of (rev b) = map_of b"
proof
  fix k assume b: "wf_obj b"
  then have "distinct (map fst b)" "distinct (map fst (rev b))"
    by (simp_all add: wf_obj_def flip: rev_map)
  then have "(map_of (rev b) k = Some v) = (map_of b k = Some v)" for v
    by (simp add: map_of_eq_Some_iff)
  then show "map_of (rev b) k = map_of b k"
    by (metis not_None_eq)
qed

lemma map_of_spread: "wf_obj b \<Longrightarrow> map_of (obj_spread a b) = map_of a ++ map_of b"
  by (simp add: obj_spread_def map_of_fold_put map_of_rev_wf)

lemma keys_obj_put: "set (map fst (obj_put k v ob)) = insert k (set (map fst ob))"
  by (induction k v ob rule: obj_put.induct) auto

lemma is_index_key_canonical: "is_index_key k \<Longrightarrow> nat_str (digits_val k) = k"
  by (auto simp: is_index_key_def nat_str_digits_val) (subst nat_str.simps, code_simp)

lemma key_before_tie:
  assumes "is_index_key k" "k \<noteq> k'" "\<not> (is_index_key k' \<and> digits_val k' < digits_val k)"
  shows "key_before k k'"
  using assms by (metis is_index_key_canonical key_before_def nat_neq_iff)

lemma key_before_trans: "key_before a b \<Longrightarrow> is_index_key b \<Longrightarrow> key_before b c \<Longrightarrow> key_before a c"
  by (auto simp: key_before_def)

lemma wf_obj_put [simp]: "wf_obj ob \<Longrightarrow> wf_obj (obj_put k v ob)"
proof (induction k v ob rule: obj_put.induct)
  case (2 k v k' v' ob)
  have keys: "set (map fst (obj_put k v ob)) = insert k (set (map fst ob))"
    by (rule keys_obj_put)
  have later: "key_before k' z" if "z \<in> set (map fst ob)" for z
    using 2(2) that by (auto simp: wf_obj_def)
  show ?case
  proof (cases "k \<noteq> k' \<and> is_index_key k \<and> \<not> (is_index_key k' \<and> digits_val k' < digits_val k)")
    case True
    then have kk: "key_before k k'" by (intro key_before_tie) auto
    have "k \<notin> set (map fst ob)" using later True by (auto simp: key_before_def)
    moreover have "key_before k z" if "z \<in> set (map fst ob)" for z
      using later [OF that] kk True by (auto simp: key_before_def)
    ultimately show ?thesis using True kk 2(2) by (auto simp: wf_obj_def)
  next
    case False
    have "wf_obj ob" using 2(2) by (simp add: wf_obj_def)
    with False 2 keys later show ?thesis
      by (auto simp: wf_obj_def key_before_def)
  qed
qed (simp add: wf_obj_def)

lemma wf_obj_spread [simp]: "wf_obj a \<Longrightarrow> wf_obj (obj_spread a b)"
  unfolding obj_spread_def by (induction b arbitrary: a) auto

subsection \<open>Property reads and arrays\<close>

definition array_prototype :: "string list" where
  "array_prototype =
     [''at'', ''concat'', ''copyWithin'', ''entries'', ''every'', ''fill'', ''filter'', ''find'',
      ''findIndex'', ''findLast'', ''findLastIndex'', ''flat'', ''flatMap'', ''forEach'',
      ''includes'', ''indexOf'', ''join'', ''keys'', ''lastIndexOf'', ''map'', ''pop'', ''push'',
      ''reduce'', ''reduceRight'', ''reverse'', ''shift'', ''slice'', ''some'', ''sort'',
      ''splice'', ''unshift'', ''values'', ''with'', ''toReversed'', ''toSorted'', ''toSpliced'']"

text \<open>
  \<open>get v k\<close> is the optional read \<open>v?.k\<close>, which is also \<open>v.k\<close> wherever \<open>v\<close> is not nullish;
  \<open>getx v k\<close> is \<open>v.k\<close>, which raises on \<open>undefined\<close> and \<open>null\<close>.
\<close>

fun get :: "jsval \<Rightarrow> string \<Rightarrow> jsval" where
  "get Undef k = Undef"
| "get Null k = Undef"
| "get (Obj ob) k = fld ob k"
| "get (Arr xs) k = (if k = ''length'' then Num (Fin (of_nat (length xs)))
     else if k \<in> set array_prototype then Fun k else fld [] k)"
| "get (Str s) k = (if k = ''length'' then Num (Fin (of_nat (length s))) else fld [] k)"
| "get (Bool _) k = fld [] k"
| "get (Num _) k = fld [] k"
| "get (Fun _) k = fld [] k"

definition getx :: "jsval \<Rightarrow> string \<Rightarrow> jsval option" where
  "getx v k = (if nullish v then None else Some (get v k))"

fun is_array :: "jsval \<Rightarrow> bool" where
  "is_array (Arr _) = True"
| "is_array _ = False"

text \<open>\<open>typeof v === "object" && v !== null\<close> (arrays included).\<close>

fun is_object :: "jsval \<Rightarrow> bool" where
  "is_object (Arr _) = True"
| "is_object (Obj _) = True"
| "is_object _ = False"

text \<open>\<open>Array.isArray(v) ? v : []\<close>.\<close>

fun array :: "jsval \<Rightarrow> jsval list" where
  "array (Arr xs) = xs"
| "array _ = []"

text \<open>
  The elements \<open>...v\<close> and \<open>for (const x of v)\<close> visit, and the receiver of an array method
  (\<open>v.map\<close>, \<open>v.some\<close>): \<open>None\<close> where the language raises a \<open>TypeError\<close>.
\<close>

fun iterate :: "jsval \<Rightarrow> jsval list option" where
  "iterate (Arr xs) = Some xs"
| "iterate (Str s) = Some (map (\<lambda>c. Str [c]) s)"
| "iterate _ = None"

fun receiver :: "jsval \<Rightarrow> jsval list option" where
  "receiver (Arr xs) = Some xs"
| "receiver _ = None"

text \<open>\<open>v.includes(x)\<close>: an element of an array, a substring of a string.\<close>

fun val_includes :: "jsval \<Rightarrow> jsval \<Rightarrow> bool option" where
  "val_includes (Arr xs) x = Some (\<exists>y\<in>set xs. same_value_zero y x)"
| "val_includes (Str s) x = Some (js_includes s (to_str x))"
| "val_includes _ x = None"

declare array_prototype_def [js_eval] getx_def [js_eval]

lemma array_iterate: "iterate v = Some xs \<Longrightarrow> is_array v \<Longrightarrow> array v = xs"
  by (cases v) auto

lemma iterate_or_empty [simp]: "iterate (js_or Undef (Arr xs)) = Some xs"
  "iterate (js_or Null (Arr xs)) = Some xs" "iterate (js_or (Arr ys) v) = Some ys"
  by (simp_all add: js_or_def)

text \<open>\<open>xs.map(f)\<close>, \<open>xs.filter(p)\<close> and \<open>xs.some(p)\<close> for a callback that may raise.\<close>

fun map_opt :: "('a \<Rightarrow> 'b option) \<Rightarrow> 'a list \<Rightarrow> 'b list option" where
  "map_opt f [] = Some []"
| "map_opt f (x # xs) = do { y \<leftarrow> f x; ys \<leftarrow> map_opt f xs; Some (y # ys) }"

fun some_opt :: "('a \<Rightarrow> bool option) \<Rightarrow> 'a list \<Rightarrow> bool option" where
  "some_opt p [] = Some False"
| "some_opt p (x # xs) = do { b \<leftarrow> p x; if b then Some True else some_opt p xs }"

fun every_opt :: "('a \<Rightarrow> bool option) \<Rightarrow> 'a list \<Rightarrow> bool option" where
  "every_opt p [] = Some True"
| "every_opt p (x # xs) = do { b \<leftarrow> p x; if b then every_opt p xs else Some False }"

fun filter_opt :: "('a \<Rightarrow> bool option) \<Rightarrow> 'a list \<Rightarrow> 'a list option" where
  "filter_opt p [] = Some []"
| "filter_opt p (x # xs) = do { b \<leftarrow> p x; ys \<leftarrow> filter_opt p xs; Some (if b then x # ys else ys) }"

lemma map_opt_total: "\<forall>x\<in>set xs. f x = Some (g x) \<Longrightarrow> map_opt f xs = Some (map g xs)"
  by (induction xs) auto

lemma map_opt_length: "map_opt f xs = Some ys \<Longrightarrow> length ys = length xs"
  by (induction xs arbitrary: ys) (auto split: bind_splits)

lemma map_opt_set: "map_opt f xs = Some ys \<Longrightarrow> y \<in> set ys \<longleftrightarrow> (\<exists>x\<in>set xs. f x = Some y)"
  by (induction xs arbitrary: ys) (auto split: bind_splits)

lemma map_opt_all: "map_opt f xs = Some ys \<Longrightarrow> x \<in> set xs \<Longrightarrow> \<exists>y\<in>set ys. f x = Some y"
  by (induction xs arbitrary: ys) (auto split: bind_splits)

lemma map_opt_same_key:
  assumes "map_opt f xs = Some ys" "\<And>x y. f x = Some y \<Longrightarrow> g y = fst x"
  shows "map g ys = map fst xs"
  using assms(1) by (induction xs arbitrary: ys) (auto simp: bind_eq_Some_conv assms(2))

lemma map_opt_None: "map_opt f xs = None \<longleftrightarrow> (\<exists>x\<in>set xs. f x = None)"
  by (induction xs) (auto split: bind_splits)

lemma filter_opt_total: "\<forall>x\<in>set xs. p x = Some (q x) \<Longrightarrow> filter_opt p xs = Some (filter q xs)"
  by (induction xs) auto

lemma some_opt_total: "\<forall>x\<in>set xs. p x = Some (q x) \<Longrightarrow> some_opt p xs = Some (\<exists>x\<in>set xs. q x)"
  by (induction xs) auto

lemma every_opt_total: "\<forall>x\<in>set xs. p x = Some (q x) \<Longrightarrow> every_opt p xs = Some (\<forall>x\<in>set xs. q x)"
  by (induction xs) auto

text \<open>
  \<open>(v || []).filter(...)\<close>, \<open>...(v || [])\<close>, \<open>Array.isArray(v) ? v : []\<close> as a value, \<open>xs.flatMap(f)\<close>,
  \<open>v?.[i]\<close>, and \<open>xs.filter((_, index) => index !== i)\<close>.
\<close>

definition list_or :: "jsval \<Rightarrow> jsval list option" where
  "list_or v = receiver (js_or v (Arr []))"

definition items_or :: "jsval \<Rightarrow> jsval list option" where
  "items_or v = iterate (js_or v (Arr []))"

definition array_or_empty :: "jsval \<Rightarrow> jsval" where
  "array_or_empty v = Arr (array v)"

definition flat_map_opt :: "('a \<Rightarrow> 'b list option) \<Rightarrow> 'a list \<Rightarrow> 'b list option" where
  "flat_map_opt f xs = map_option concat (map_opt f xs)"

definition elem_at :: "jsval \<Rightarrow> nat \<Rightarrow> jsval" where
  "elem_at v i = (case v of
      Arr xs \<Rightarrow> if i < length xs then xs ! i else Undef
    | Str s \<Rightarrow> if i < length s then Str [s ! i] else Undef
    | _ \<Rightarrow> get v (nat_str i))"

definition remove_at :: "nat \<Rightarrow> 'a list \<Rightarrow> 'a list" where
  "remove_at i xs = map snd (filter (\<lambda>(j, _). j \<noteq> i) (enumerate 0 xs))"

declare list_or_def [js_eval] items_or_def [js_eval] array_or_empty_def [js_eval] flat_map_opt_def [js_eval]
  elem_at_def [js_eval] remove_at_def [js_eval]

lemma enumerate_filter_off:
  "i < n \<Longrightarrow> map snd (filter (\<lambda>(j, _). j \<noteq> i) (enumerate n xs)) = xs"
  by (induction xs arbitrary: n) auto

lemma remove_at_take_drop: "remove_at i xs = take i xs @ drop (Suc i) xs"
proof -
  have "map snd (filter (\<lambda>(j, _). j \<noteq> n + i) (enumerate n xs)) = take i xs @ drop (Suc i) xs" for n
  proof (induction xs arbitrary: i n)
    case (Cons x xs)
    then show ?case
      using Cons.IH [of "Suc n" "i - 1"] enumerate_filter_off [of n "Suc n" xs] by (cases i) auto
  qed simp
  from this [of 0] show ?thesis by (simp add: remove_at_def)
qed

text \<open>What the code expects of a list property: an array, or nothing.\<close>

definition readable_list :: "jsval \<Rightarrow> bool" where
  "readable_list v \<longleftrightarrow> \<not> truthy v \<or> is_array v"

declare readable_list_def [js_eval]

lemma list_or_readable [simp]: "readable_list v \<Longrightarrow> list_or v = Some (array v)"
  by (cases v) (auto simp: list_or_def js_or_def readable_list_def)

lemma items_or_readable [simp]: "readable_list v \<Longrightarrow> items_or v = Some (array v)"
  by (cases v) (auto simp: items_or_def js_or_def readable_list_def)

lemma readable_Arr [simp]: "readable_list (Arr xs)" "readable_list Undef" "readable_list Null"
  by (simp_all add: readable_list_def)

text \<open>
  The helpers \<open>text\<close>/\<open>stringValue\<close> and \<open>first\<close>/\<open>firstValue\<close> that the account and provider modules
  share: \<open>String(v)\<close> with a fallback for a nullish value, and the first of several properties that
  is not nullish.
\<close>

definition text_value :: "jsval \<Rightarrow> string \<Rightarrow> string" where
  "text_value v fallback = (if nullish v then fallback else to_str v)"

fun first_value :: "jsval \<Rightarrow> string list \<Rightarrow> jsval \<Rightarrow> jsval" where
  "first_value source [] fallback = fallback"
| "first_value source (key # keys) fallback =
     (if nullish (get source key) then first_value source keys fallback else get source key)"

declare text_value_def [js_eval]

lemma text_value_Str [simp]: "text_value (Str s) f = s" "text_value Undef f = f" "text_value Null f = f"
  by (simp_all add: text_value_def nullish_def)

end
