(* ===== verification/Coverage.thy ===== *)
theory Coverage
  imports Js_Value
begin

section \<open>Live coverage of a deployment record (\<open>ui/src/deployment-coverage.js\<close>)\<close>

text \<open>
  The backend says explicitly whether a record counts for live coverage; records of older
  backends only carry a transport status, from which liveness is inferred and never more.
\<close>

record coverage =
  cov_counts :: bool
  cov_state :: string
  cov_explicit :: bool

definition liveLegacyStatuses :: "string list" where
  "liveLegacyStatuses = [''CONNECTED'', ''ONLINE'']"

definition confirmedDeploymentStatuses :: "string list" where
  "confirmedDeploymentStatuses = [''APPLIED'', ''REMOVED'', ''BASE_APPLIED'']"

definition deploymentCoverage :: "jsobj \<Rightarrow> coverage" where
  "deploymentCoverage rec =
     (let explicitState = js_upper (str_or (fld rec ''CoverageState'') '''') in
      case fld rec ''CountsForLiveCoverage'' of
        Bool b \<Rightarrow>
          \<lparr>cov_counts = b,
           cov_state = (if explicitState \<noteq> [] then explicitState else if b then ''IN_SCOPE'' else ''UNKNOWN''),
           cov_explicit = True\<rparr>
      | _ \<Rightarrow>
         (let connectionStatus = js_upper (str_or (fld rec ''ConnectionStatus'') '''') in
          if connectionStatus \<in> set liveLegacyStatuses
          then \<lparr>cov_counts = True, cov_state = ''IN_SCOPE'', cov_explicit = False\<rparr>
          else if connectionStatus = ''DEGRADED''
          then \<lparr>cov_counts = False, cov_state = ''IN_SCOPE_DEGRADED'', cov_explicit = False\<rparr>
          else \<lparr>cov_counts = False, cov_state = ''UNKNOWN'', cov_explicit = False\<rparr>))"

definition coverageStatusForDisplay :: "jsobj \<Rightarrow> string" where
  "coverageStatusForDisplay rec =
     (let s = cov_state (deploymentCoverage rec) in
      if s = ''HISTORICAL'' then ''HISTORICAL''
      else if s = ''IN_SCOPE_DEGRADED'' then ''IN_SCOPE_DEGRADED''
      else if s = ''UNKNOWN'' then ''UNKNOWN''
      else '''')"

record confirmation =
  confirmed :: bool
  confirmed_at :: jsval
  confirmed_source :: string

definition deploymentConfirmation :: "jsobj \<Rightarrow> jsval \<Rightarrow> confirmation" where
  "deploymentConfirmation rec status =
     (if truthy (fld rec ''AppliedAt'')
      then \<lparr>confirmed = True, confirmed_at = fld rec ''AppliedAt'', confirmed_source = ''ACKNOWLEDGEMENT''\<rparr>
      else
        let normalizedStatus = js_upper (to_str (js_or (js_or status (fld rec ''LiveStatus'')) (Str '''')))
        in if normalizedStatus \<in> set confirmedDeploymentStatuses \<and> truthy (fld rec ''LastObservedAt'')
           then \<lparr>confirmed = True, confirmed_at = fld rec ''LastObservedAt'', confirmed_source = ''LIVE_REPORT''\<rparr>
           else \<lparr>confirmed = False, confirmed_at = Null, confirmed_source = ''NONE''\<rparr>)"

declare liveLegacyStatuses_def [js_eval] confirmedDeploymentStatuses_def [js_eval]
  deploymentCoverage_def [js_eval] coverageStatusForDisplay_def [js_eval]
  deploymentConfirmation_def [js_eval]

lemma deploymentCoverage_explicit:
  "fld rec ''CountsForLiveCoverage'' = Bool b \<Longrightarrow>
    cov_explicit (deploymentCoverage rec) \<and> cov_counts (deploymentCoverage rec) = b"
  by (simp add: deploymentCoverage_def Let_def)

definition legacy_coverage :: "string \<Rightarrow> coverage" where
  "legacy_coverage c =
    (if c = ''CONNECTED'' \<or> c = ''ONLINE''
     then \<lparr>cov_counts = True, cov_state = ''IN_SCOPE'', cov_explicit = False\<rparr>
     else if c = ''DEGRADED''
     then \<lparr>cov_counts = False, cov_state = ''IN_SCOPE_DEGRADED'', cov_explicit = False\<rparr>
     else \<lparr>cov_counts = False, cov_state = ''UNKNOWN'', cov_explicit = False\<rparr>)"

lemma deploymentCoverage_legacy:
  assumes "\<And>b. fld rec ''CountsForLiveCoverage'' \<noteq> Bool b"
  shows "deploymentCoverage rec =
    legacy_coverage (js_upper (str_or (fld rec ''ConnectionStatus'') ''''))"
  using assms unfolding deploymentCoverage_def liveLegacyStatuses_def legacy_coverage_def
  by (cases "fld rec ''CountsForLiveCoverage''") (simp_all add: Let_def)

text \<open>a legacy transport status never makes a lifecycle assertion. A record without the
  explicit flag is never historical, is live exactly when its connection status says connected or
  online, and is shown as degraded or unknown otherwise; an explicit flag is taken as it is.\<close>

theorem deploymentCoverage_legacy_is_cautious:
  "(\<not> cov_explicit (deploymentCoverage rec) \<longrightarrow>
      cov_state (deploymentCoverage rec) \<noteq> ''HISTORICAL'' \<and>
      (cov_counts (deploymentCoverage rec) \<longleftrightarrow>
         js_upper (str_or (fld rec ''ConnectionStatus'') '''') \<in> {''CONNECTED'', ''ONLINE''}) \<and>
      (coverageStatusForDisplay rec = '''' \<longleftrightarrow> cov_counts (deploymentCoverage rec))) \<and>
   (\<forall>b. fld rec ''CountsForLiveCoverage'' = Bool b \<longrightarrow>
      cov_explicit (deploymentCoverage rec) \<and> cov_counts (deploymentCoverage rec) = b)"
proof (cases "\<exists>b. fld rec ''CountsForLiveCoverage'' = Bool b")
  case True
  then show ?thesis using deploymentCoverage_explicit by blast
next
  case False
  then have "deploymentCoverage rec = legacy_coverage (js_upper (str_or (fld rec ''ConnectionStatus'') ''''))"
    by (intro deploymentCoverage_legacy) blast
  with False show ?thesis by (simp add: coverageStatusForDisplay_def legacy_coverage_def)
qed

theorem deploymentCoverage_legacy_is_cautious_witness:
  "cov_state (deploymentCoverage [(''ConnectionStatus'', Str ''offline'')]) \<noteq> ''HISTORICAL'' \<and>
   cov_counts (deploymentCoverage [(''CountsForLiveCoverage'', Bool True)])"
proof -
  have a: "\<not> cov_explicit (deploymentCoverage [(''ConnectionStatus'', Str ''offline'')])"
    by (simp add: js_eval)
  have b: "fld [(''CountsForLiveCoverage'', Bool True)] ''CountsForLiveCoverage'' = Bool True"
    by (simp add: js_eval)
  show ?thesis
    using deploymentCoverage_legacy_is_cautious [of "[(''ConnectionStatus'', Str ''offline'')]"]
      deploymentCoverage_legacy_is_cautious [of "[(''CountsForLiveCoverage'', Bool True)]"] a b
    by blast
qed

text \<open>What the summaries count: the records that are live.\<close>

definition live :: "jsobj \<Rightarrow> bool" where
  "live rec = cov_counts (deploymentCoverage rec)"

end
