(* ===== verification/Selection.thy ===== *)
theory Selection
  imports Js_Value
begin

section \<open>Multi-select filters (\<open>ui/src/multi-select-filter.js\<close>)\<close>

text \<open>
  The selection of a filter is an array of values or one value. \<open>normalizeSelection\<close> is its
  canonical form (trimmed, non-empty, without repetitions), and every other operation works
  on it: \<open>reconcileSelection\<close> drops what no option offers, \<open>toggleSelection\<close> is a click on a
  checkbox, \<open>matchesAnySelection\<close> is the filter test every list of the UI uses.
\<close>

definition optionValue :: "jsval \<Rightarrow> jsval" where
  "optionValue opt = (if is_object opt then get opt ''value'' else opt)"

definition optionLabel :: "jsval \<Rightarrow> jsval" where
  "optionLabel opt =
     (if is_object opt then js_default (get opt ''label'') (get opt ''value'') else opt)"

definition normalizedValue :: "jsval \<Rightarrow> string" where
  "normalizedValue v = js_trim (to_str (js_default v (Str '''')))"

definition normalizeSelection :: "jsval \<Rightarrow> string list" where
  "normalizeSelection sel =
     (let vals = (if is_array sel then array sel else [sel])
      in nub (filter (\<lambda>s. s \<noteq> []) (map normalizedValue vals)))"

definition reconcileSelection :: "jsval \<Rightarrow> jsval list \<Rightarrow> string list" where
  "reconcileSelection sel options =
     (let available = filter (\<lambda>s. s \<noteq> []) (map normalizedValue (map optionValue options))
      in filter (\<lambda>v. v \<in> set available) (normalizeSelection sel))"

definition toggleSelection :: "jsval \<Rightarrow> jsval \<Rightarrow> bool \<Rightarrow> string list" where
  "toggleSelection sel v checked =
     (let normalized = normalizeSelection sel; candidate = normalizedValue v
      in if candidate = [] then []
         else if checked then normalizeSelection (Arr (map Str (normalized @ [candidate])))
         else filter (\<lambda>item. item \<noteq> candidate) normalized)"

definition matchesAnySelection :: "jsval \<Rightarrow> jsval \<Rightarrow> bool" where
  "matchesAnySelection sel v =
     (let selected = normalizeSelection sel
      in if selected = [] then True
         else \<exists>item\<in>set selected. item \<in> set (normalizeSelection v))"

text \<open>\<open>labels\<close> is a \<open>Map\<close> built from an array of pairs: a later pair replaces an earlier one.\<close>

definition selectionSummary :: "jsval \<Rightarrow> jsval list \<Rightarrow> string \<Rightarrow> string" where
  "selectionSummary sel options allLabel =
     (let selected = normalizeSelection sel;
          labels = map_of (rev (map (\<lambda>opt. (normalizedValue (optionValue opt),
                                            normalizedValue (optionLabel opt))) options))
      in case selected of
           [] \<Rightarrow> allLabel
         | [s] \<Rightarrow> (case labels s of Some l \<Rightarrow> if l = [] then s else l | None \<Rightarrow> s)
         | _ \<Rightarrow> nat_str (length selected) @ '' seleccionados'')"

declare optionValue_def [js_eval] optionLabel_def [js_eval] normalizedValue_def [js_eval]
  normalizeSelection_def [js_eval] reconcileSelection_def [js_eval]
  toggleSelection_def [js_eval] matchesAnySelection_def [js_eval] selectionSummary_def [js_eval]

subsection \<open>The canonical form\<close>

definition canonical_selection :: "string list \<Rightarrow> bool" where
  "canonical_selection xs \<longleftrightarrow> distinct xs \<and> (\<forall>x\<in>set xs. x \<noteq> [] \<and> js_trim x = x)"

lemma normalizedValue_trimmed [simp]: "js_trim (normalizedValue v) = normalizedValue v"
  by (simp add: normalizedValue_def)

lemma normalizedValue_Str [simp]: "normalizedValue (Str s) = js_trim s"
  by (simp add: normalizedValue_def js_default_def nullish_def)

lemma normalizeSelection_canonical [intro, simp]: "canonical_selection (normalizeSelection sel)"
  by (auto simp: canonical_selection_def normalizeSelection_def Let_def)

lemma normalizeSelection_of_canonical:
  "canonical_selection xs \<Longrightarrow> normalizeSelection (Arr (map Str xs)) = xs"
proof -
  assume c: "canonical_selection xs"
  then have "map (normalizedValue \<circ> Str) xs = xs"
    by (auto simp: canonical_selection_def o_def intro: map_idI)
  moreover have "filter (\<lambda>s. s \<noteq> []) xs = xs"
    using c by (auto simp: canonical_selection_def intro: filter_True)
  ultimately show ?thesis
    using c by (simp add: normalizeSelection_def canonical_selection_def nub_distinct)
qed

lemma canonical_filter: "canonical_selection xs \<Longrightarrow> canonical_selection (filter P xs)"
  by (auto simp: canonical_selection_def)

lemma canonical_snoc_new:
  "canonical_selection xs \<Longrightarrow> x \<noteq> [] \<Longrightarrow> js_trim x = x \<Longrightarrow> x \<notin> set xs \<Longrightarrow>
    canonical_selection (xs @ [x])"
  by (auto simp: canonical_selection_def)

lemma normalize_snoc:
  assumes "canonical_selection xs" "x \<noteq> []" "js_trim x = x"
  shows "normalizeSelection (Arr (map Str (xs @ [x]))) = (if x \<in> set xs then xs else xs @ [x])"
proof -
  have m: "map normalizedValue (map Str (xs @ [x])) = xs @ [x]"
    using assms by (auto simp: canonical_selection_def intro: map_idI)
  have f: "filter (\<lambda>s. s \<noteq> []) (xs @ [x]) = xs @ [x]"
    using assms by (auto simp: canonical_selection_def intro!: filter_True)
  show ?thesis
    unfolding normalizeSelection_def Let_def is_array.simps array.simps if_True m f nub_snoc
    using assms(1) by (simp add: canonical_selection_def nub_distinct)
qed

lemma toggle_on:
  "normalizedValue v \<noteq> [] \<Longrightarrow> toggleSelection sel v True =
    (if normalizedValue v \<in> set (normalizeSelection sel) then normalizeSelection sel
     else normalizeSelection sel @ [normalizedValue v])"
  unfolding toggleSelection_def Let_def by (simp only: if_False if_True normalize_snoc
      normalizeSelection_canonical normalizedValue_trimmed not_False_eq_True)

text \<open>The filter test: no selection matches everything, otherwise a common value is needed.\<close>

lemma matchesAny_iff:
  "matchesAnySelection sel v \<longleftrightarrow>
    normalizeSelection sel = [] \<or> set (normalizeSelection sel) \<inter> set (normalizeSelection v) \<noteq> {}"
  by (auto simp: matchesAnySelection_def Let_def)

lemma toggle_off:
  "normalizedValue v \<noteq> [] \<Longrightarrow> canonical_selection xs \<Longrightarrow>
    toggleSelection (Arr (map Str xs)) v False = filter (\<lambda>x. x \<noteq> normalizedValue v) xs"
  by (simp add: toggleSelection_def Let_def normalizeSelection_of_canonical)

lemma toggle_canonical [simp]: "canonical_selection (toggleSelection sel v checked)"
proof (cases "normalizedValue v = []")
  case True
  then show ?thesis by (simp add: toggleSelection_def canonical_selection_def)
next
  case False
  then show ?thesis
    using normalizeSelection_canonical
    by (cases checked) (auto simp: toggle_on intro: canonical_snoc_new,
        simp add: toggleSelection_def Let_def canonical_filter)
qed

lemma set_normalizeSelection:
  "set (normalizeSelection sel) =
     normalizedValue ` set (if is_array sel then array sel else [sel]) - {[]}"
  unfolding normalizeSelection_def Let_def set_nub by auto

subsection \<open>Properties\<close>

text \<open>the canonical form of a selection has no repeated, blank or untrimmed value, holds
  exactly the non-blank trimmed texts of the input, and normalising it again changes nothing.\<close>

theorem normalizeSelection_normal_form:
  "canonical_selection (normalizeSelection sel) \<and>
   set (normalizeSelection sel) =
     normalizedValue ` set (if is_array sel then array sel else [sel]) - {[]} \<and>
   normalizeSelection (Arr (map Str (normalizeSelection sel))) = normalizeSelection sel"
  by (simp only: normalizeSelection_canonical set_normalizeSelection normalizeSelection_of_canonical
      simp_thms)

text \<open>ticking then clearing a checkbox. Ticking a value selects it and keeps every other
  value in place; clearing it afterwards gives back the selection as it was without the value.\<close>

theorem toggleSelection_roundtrip:
  assumes "normalizedValue v \<noteq> []"
  shows "set (toggleSelection sel v True) = insert (normalizedValue v) (set (normalizeSelection sel)) \<and>
    toggleSelection (Arr (map Str (toggleSelection sel v True))) v False =
      filter (\<lambda>x. x \<noteq> normalizedValue v) (normalizeSelection sel)"
  using assms by (simp add: toggle_off) (auto simp: toggle_on)

theorem toggleSelection_roundtrip_witness:
  "toggleSelection (Arr (map Str (toggleSelection (Str '' a '') (Str ''b'') True))) (Str ''b'') False
     = [''a'']"
proof -
  have "normalizedValue (Str ''b'') \<noteq> []" by code_simp
  from toggleSelection_roundtrip [OF this, of "Str '' a ''"] show ?thesis
    by (simp add: normalizedValue_def normalizeSelection_def js_eval)
qed

text \<open>the filter test. A filter with nothing selected lets everything through; otherwise a
  value passes exactly when one of its texts is selected, so reconciling the selection with the
  available options can only change the outcome for values that are no longer offered.\<close>

theorem matchesAnySelection_spec:
  "(matchesAnySelection sel v \<longleftrightarrow>
      normalizeSelection sel = [] \<or> set (normalizeSelection sel) \<inter> set (normalizeSelection v) \<noteq> {}) \<and>
   (set (normalizeSelection v) \<subseteq> normalizedValue ` optionValue ` set options \<longrightarrow>
      reconcileSelection sel options \<noteq> [] \<longrightarrow>
      matchesAnySelection (Arr (map Str (reconcileSelection sel options))) v
        = matchesAnySelection sel v)"
proof -
  let ?r = "reconcileSelection sel options"
  have c: "canonical_selection ?r"
    by (simp add: reconcileSelection_def Let_def canonical_filter)
  have r: "set ?r = set (normalizeSelection sel) \<inter> (normalizedValue ` optionValue ` set options - {[]})"
    by (auto simp: reconcileSelection_def Let_def)
  have "[] \<notin> set (normalizeSelection v)"
    by (simp add: set_normalizeSelection)
  then show ?thesis
    using r c by (auto simp: matchesAny_iff normalizeSelection_of_canonical)
qed

text \<open>A selection outside the options is the case the side condition of the property excludes.\<close>

theorem matchesAnySelection_spec_witness:
  "matchesAnySelection (Arr (map Str (reconcileSelection (Arr [Str ''a'', Str ''z'']) [Str ''a'', Str ''b''])))
     (Str ''a'')"
proof -
  have "set (normalizeSelection (Str ''a'')) \<subseteq> normalizedValue ` optionValue ` set [Str ''a'', Str ''b'']"
    "reconcileSelection (Arr [Str ''a'', Str ''z'']) [Str ''a'', Str ''b''] \<noteq> []"
    "matchesAnySelection (Arr [Str ''a'', Str ''z'']) (Str ''a'')"
    by (simp add: js_eval, code_simp, code_simp)
  then show ?thesis using matchesAnySelection_spec by blast
qed

end
