(* ===== verification/Policy.thy ===== *)
theory Policy
  imports Coverage Selection
begin

section \<open>Managed policies (\<open>ui/src/policy-management.js\<close>)\<close>

text \<open>
  A policy is the list of its stored versions and of the deployment records of its latest
  version. This theory follows the module: the accessors of a version, the status of one
  record, the tally of the records of a version and the status it implies, the policies built
  from all versions, their filter and the texts of the lifecycle actions.
  \<open>Date.parse\<close> is the parameter \<open>date_parse\<close> (its result for a string outside the ISO format
  is left to the implementation) and \<open>localeCompare\<close> is \<open>collate_gt\<close>, the test that it is
  positive. Configuration identifiers are strings, as \<open>flattenStoredVersions\<close> makes them.
\<close>

subsection \<open>Versions\<close>

definition policyConfigId :: "jsobj \<Rightarrow> jsval" where
  "policyConfigId version =
     js_or (js_or (js_or (fld version ''configId'') (fld version ''ConfigID'')) (fld version ''ID'')) (Str '''')"

definition policyVersionNumber :: "jsobj \<Rightarrow> jsnum" where
  "policyVersionNumber version =
     to_num (js_default (js_default (fld version ''Version'') (fld version ''version'')) (Num (Fin 0)))"

definition policyVersionAction :: "jsobj \<Rightarrow> string" where
  "policyVersionAction version =
     js_upper (to_str (js_or (js_or (fld version ''Action'') (fld version ''action'')) (Str ''PUBLISHED'')))"

definition isDeactivatedPolicyVersion :: "jsobj \<Rightarrow> bool" where
  "isDeactivatedPolicyVersion version \<longleftrightarrow>
     policyVersionAction version = ''DEACTIVATED'' \<or>
     strict_eq (fld version ''Active'') (Bool False) \<or>
     strict_eq (fld version ''active'') (Bool False)"

definition versionTimestamp :: "(jsval \<Rightarrow> jsnum) \<Rightarrow> jsobj \<Rightarrow> jsnum" where
  "versionTimestamp date_parse version =
     num_or (date_parse (js_or (js_or (fld version ''UpdatedAt'') (fld version ''CreatedAt'')) (Num (Fin 0))))
            (Fin 0)"

text \<open>The comparator of \<open>sortPolicyVersions\<close>: version number, then time stamp.\<close>

definition policy_version_gt :: "(jsval \<Rightarrow> jsnum) \<Rightarrow> jsobj \<Rightarrow> jsobj \<Rightarrow> bool" where
  "policy_version_gt date_parse left right =
     num_positive (num_or (num_sub (policyVersionNumber left) (policyVersionNumber right))
                          (num_sub (versionTimestamp date_parse left) (versionTimestamp date_parse right)))"

definition sortPolicyVersions :: "(jsval \<Rightarrow> jsnum) \<Rightarrow> jsobj list \<Rightarrow> jsobj list" where
  "sortPolicyVersions date_parse versions = js_sort (policy_version_gt date_parse) versions"

declare policyConfigId_def [js_eval] policyVersionNumber_def [js_eval] policyVersionAction_def [js_eval]
  isDeactivatedPolicyVersion_def [js_eval] versionTimestamp_def [js_eval]
  policy_version_gt_def [js_eval] sortPolicyVersions_def [js_eval]

lemma versionTimestamp_number [simp]: "versionTimestamp dp v \<noteq> NaN"
  by (cases "dp (js_or (js_or (fld v ''UpdatedAt'') (fld v ''CreatedAt'')) (Num (Fin 0)))")
     (auto simp: versionTimestamp_def num_or_def)

lemma policy_version_gt_iff:
  "policyVersionNumber l \<noteq> NaN \<Longrightarrow> policyVersionNumber r \<noteq> NaN \<Longrightarrow>
    policy_version_gt dp l r \<longleftrightarrow>
      num_lt (policyVersionNumber r) (policyVersionNumber l) \<or>
      (policyVersionNumber l = policyVersionNumber r \<and>
       num_lt (versionTimestamp dp r) (versionTimestamp dp l))"
  by (simp add: policy_version_gt_def num_or_sub_positive num_sub_positive)

text \<open>
  Where every version number is a number the comparator is consistent, so the sort it gives
  to the engine is the one the language defines.
\<close>

interpretation policy_order: js_order "policy_version_gt dp" "\<lambda>v. policyVersionNumber v \<noteq> NaN"
  for dp
  unfolding policy_version_gt_def by (rule two_key_order) simp

subsection \<open>The status of one record\<close>

definition connectedStatuses :: "jsval list" where
  "connectedStatuses = [Str ''CONNECTED'', Str ''ONLINE'', Str ''DEGRADED'']"

definition upper_or_empty :: "jsval \<Rightarrow> string" where
  "upper_or_empty v = js_upper (str_or v '''')"

definition deploymentRecordStatus :: "jsobj \<Rightarrow> jsval" where
  "deploymentRecordStatus rec =
     (let applied_or_offline =
            (if fld rec ''ConnectionStatus'' \<in> set connectedStatuses then Str ''APPLIED''
             else Str ''APPLIED_OFFLINE'');
          liveStatus = upper_or_empty (fld rec ''LiveStatus'')
      in
      if strict_eq (fld rec ''Target'') (Str ''java-extension'') then
        (let observedStatus = upper_or_empty (fld rec ''ObservedStatus'');
             currentStatus = upper_or_empty (fld rec ''CurrentConfigStatus'')
         in
         if liveStatus = ''NOT_APPLIED'' then Str ''NOT_IN_USE''
         else if liveStatus \<noteq> [] then Str liveStatus
         else if strict_eq (fld rec ''DesiredPresence'') (Bool False) then
           (if observedStatus = ''REMOVED'' then Str ''REMOVED''
            else if observedStatus = ''FAILED'' \<or> currentStatus = ''FAILED'' then Str ''FAILED''
            else Str ''REMOVAL_PENDING'')
         else if observedStatus = ''FAILED'' \<or> currentStatus = ''FAILED'' then Str ''FAILED''
         else if observedStatus = ''APPLIED'' then applied_or_offline
         else js_or (js_or (Str observedStatus) (Str liveStatus)) (Str ''CONFIG_PENDING''))
      else if liveStatus \<in> {''BASE_PENDING'', ''BASE_APPLIED'', ''BASE_FAILED''} then Str liveStatus
      else if strict_eq (fld rec ''DesiredPresence'') (Bool False) then
        (if js_upper (to_str (js_or (js_or (fld rec ''CurrentEffectiveConfigOrigin'')
                                         (fld rec ''CurrentConfigOrigin'')) (Str ''''))) = ''BASE''
         then (if strict_eq (fld rec ''CurrentConfigStatus'') (Str ''FAILED'') then Str ''BASE_FAILED''
               else Str ''BASE_APPLIED'')
         else (if strict_eq (fld rec ''ObservedStatus'') (Str ''FAILED'') then Str ''BASE_FAILED''
               else Str ''BASE_PENDING''))
      else if \<not> (strict_eq (fld rec ''CurrentConfigID'') (fld rec ''ConfigID'') \<and>
                 num_eq (to_num (fld rec ''CurrentConfigVersion'')) (to_num (fld rec ''Version'')))
      then Str ''SUPERSEDED''
      else if strict_eq (fld rec ''CurrentConfigStatus'') (Str ''FAILED'') then Str ''FAILED''
      else if \<not> strict_eq (fld rec ''CurrentConfigStatus'') (Str ''APPLIED'')
      then js_or (js_or (fld rec ''CurrentConfigStatus'') (fld rec ''ObservedStatus'')) (Str ''CONFIG_PENDING'')
      else applied_or_offline)"

declare connectedStatuses_def [js_eval] upper_or_empty_def [js_eval] deploymentRecordStatus_def [js_eval]

subsection \<open>The tally of a version's records\<close>

record policy_summary =
  ps_status :: string
  ps_observed :: nat
  ps_matched :: nat
  ps_desiredMatched :: nat
  ps_removalMatched :: nat
  ps_historical :: nat
  ps_degraded :: nat
  ps_unknown :: nat
  ps_applied :: nat
  ps_appliedOffline :: nat
  ps_appliedStale :: nat
  ps_pendingReplacement :: nat
  ps_failed :: nat
  ps_pending :: nat
  ps_notInUse :: nat
  ps_removed :: nat
  ps_removalPending :: nat

definition removal :: "jsobj \<Rightarrow> bool" where
  "removal rec = strict_eq (fld rec ''DesiredPresence'') (Bool False)"

text \<open>One turn of the loop over the records.\<close>

definition policy_tally_live :: "jsobj \<Rightarrow> policy_summary \<Rightarrow> policy_summary" where
  "policy_tally_live rec s =
     (let status = deploymentRecordStatus rec;
          s = (if removal rec then s\<lparr>ps_removalMatched := ps_removalMatched s + 1\<rparr>
               else s\<lparr>ps_desiredMatched := ps_desiredMatched s + 1\<rparr>)
      in if status = Str ''APPLIED'' then s\<lparr>ps_applied := ps_applied s + 1\<rparr>
         else if status = Str ''APPLIED_PENDING_REPLACEMENT''
         then s\<lparr>ps_pendingReplacement := ps_pendingReplacement s + 1\<rparr>
         else if status = Str ''FAILED'' then s\<lparr>ps_failed := ps_failed s + 1\<rparr>
         else if status = Str ''SUPERSEDED'' \<or> status = Str ''NOT_IN_USE''
         then s\<lparr>ps_notInUse := ps_notInUse s + 1\<rparr>
         else if status = Str ''REMOVED'' then s\<lparr>ps_removed := ps_removed s + 1\<rparr>
         else if status = Str ''REMOVAL_PENDING'' then s\<lparr>ps_removalPending := ps_removalPending s + 1\<rparr>
         else s\<lparr>ps_pending := ps_pending s + 1\<rparr>)"

definition policy_tally_retained :: "jsobj \<Rightarrow> policy_summary \<Rightarrow> policy_summary" where
  "policy_tally_retained rec s =
     (let status = deploymentRecordStatus rec; cov = cov_state (deploymentCoverage rec);
          s = (if cov = ''HISTORICAL'' then s\<lparr>ps_historical := ps_historical s + 1\<rparr>
               else if cov = ''IN_SCOPE_DEGRADED'' then s\<lparr>ps_degraded := ps_degraded s + 1\<rparr>
               else s\<lparr>ps_unknown := ps_unknown s + 1\<rparr>)
      in if status = Str ''APPLIED_OFFLINE'' then s\<lparr>ps_appliedOffline := ps_appliedOffline s + 1\<rparr>
         else if status = Str ''APPLIED_STALE'' then s\<lparr>ps_appliedStale := ps_appliedStale s + 1\<rparr>
         else s)"

definition policy_tally :: "jsobj \<Rightarrow> policy_summary \<Rightarrow> policy_summary" where
  "policy_tally rec s = (if live rec then policy_tally_live rec s else policy_tally_retained rec s)"

definition policy_summary_init :: "jsobj list \<Rightarrow> policy_summary" where
  "policy_summary_init records =
     \<lparr>ps_status = ''NO_LIVE_TARGETS'', ps_observed = length records,
      ps_matched = length (filter live records), ps_desiredMatched = 0, ps_removalMatched = 0,
      ps_historical = 0, ps_degraded = 0, ps_unknown = 0, ps_applied = 0, ps_appliedOffline = 0,
      ps_appliedStale = 0, ps_pendingReplacement = 0, ps_failed = 0, ps_pending = 0, ps_notInUse = 0,
      ps_removed = 0, ps_removalPending = 0\<rparr>"

text \<open>The status the counters imply, in the order of the early returns.\<close>

definition policy_summary_status :: "policy_summary \<Rightarrow> bool \<Rightarrow> string" where
  "policy_summary_status s deactivated =
     (if ps_matched s = 0 then (if deactivated then ''DEACTIVATED'' else ps_status s)
      else if deactivated then
        (if ps_removed s = ps_matched s then ''REMOVED''
         else if ps_failed s > 0 then ''FAILED''
         else ''REMOVAL_PENDING'')
      else if ps_desiredMatched s = 0 then
        (if ps_failed s > 0 then ''FAILED''
         else if ps_removalPending s > 0 then ''REMOVAL_PENDING''
         else ''NO_LIVE_TARGETS'')
      else if ps_applied s = ps_desiredMatched s \<and> ps_removed s = ps_removalMatched s then ''APPLIED''
      else if ps_pendingReplacement s = ps_matched s then ''APPLIED_PENDING_REPLACEMENT''
      else if ps_applied s > 0 then ''PARTIAL''
      else if ps_failed s > 0 then ''FAILED''
      else if ps_pending s + ps_pendingReplacement s > 0 then ''CONFIG_PENDING''
      else ''NOT_IN_USE'')"

definition summarizePolicyDestinations :: "jsobj list \<Rightarrow> bool \<Rightarrow> policy_summary" where
  "summarizePolicyDestinations records deactivated =
     (let s = fold policy_tally records (policy_summary_init records)
      in s\<lparr>ps_status := policy_summary_status s deactivated\<rparr>)"

declare removal_def [js_eval] policy_tally_live_def [js_eval] policy_tally_retained_def [js_eval]
  policy_tally_def [js_eval] policy_summary_init_def [js_eval] policy_summary_status_def [js_eval]
  summarizePolicyDestinations_def [js_eval] live_def [js_eval]

subsection \<open>Each counter is the number of records of its class\<close>

definition live_as :: "string \<Rightarrow> jsobj \<Rightarrow> bool" where
  "live_as st rec \<longleftrightarrow> live rec \<and> deploymentRecordStatus rec = Str st"

definition live_unused :: "jsobj \<Rightarrow> bool" where
  "live_unused rec \<longleftrightarrow> live_as ''SUPERSEDED'' rec \<or> live_as ''NOT_IN_USE'' rec"

definition settled_statuses :: "string list" where
  "settled_statuses = [''APPLIED'', ''APPLIED_PENDING_REPLACEMENT'', ''FAILED'', ''SUPERSEDED'',
     ''NOT_IN_USE'', ''REMOVED'', ''REMOVAL_PENDING'']"

definition live_pending :: "jsobj \<Rightarrow> bool" where
  "live_pending rec \<longleftrightarrow> live rec \<and> deploymentRecordStatus rec \<notin> Str ` set settled_statuses"

definition retained_as :: "string \<Rightarrow> jsobj \<Rightarrow> bool" where
  "retained_as st rec \<longleftrightarrow> \<not> live rec \<and> cov_state (deploymentCoverage rec) = st"

definition retained_unknown :: "jsobj \<Rightarrow> bool" where
  "retained_unknown rec \<longleftrightarrow> \<not> live rec \<and>
     cov_state (deploymentCoverage rec) \<notin> {''HISTORICAL'', ''IN_SCOPE_DEGRADED''}"

lemmas tally_defs = policy_tally_def policy_tally_live_def policy_tally_retained_def Let_def
lemmas class_defs = live_as_def live_unused_def settled_statuses_def live_pending_def retained_as_def
  retained_unknown_def

lemma tally_applied [js_count]:
  "ps_applied (fold policy_tally rs s) = ps_applied s + length (filter (live_as ''APPLIED'') rs)"
  by (rule fold_counter) (simp add: tally_defs class_defs)

lemma tally_pendingReplacement [js_count]:
  "ps_pendingReplacement (fold policy_tally rs s) = ps_pendingReplacement s + length (filter (live_as ''APPLIED_PENDING_REPLACEMENT'') rs)"
  by (rule fold_counter) (simp add: tally_defs class_defs)

lemma tally_failed [js_count]:
  "ps_failed (fold policy_tally rs s) = ps_failed s + length (filter (live_as ''FAILED'') rs)"
  by (rule fold_counter) (simp add: tally_defs class_defs)

lemma tally_removed [js_count]:
  "ps_removed (fold policy_tally rs s) = ps_removed s + length (filter (live_as ''REMOVED'') rs)"
  by (rule fold_counter) (simp add: tally_defs class_defs)

lemma tally_removalPending [js_count]:
  "ps_removalPending (fold policy_tally rs s) = ps_removalPending s + length (filter (live_as ''REMOVAL_PENDING'') rs)"
  by (rule fold_counter) (simp add: tally_defs class_defs)

lemma tally_notInUse [js_count]:
  "ps_notInUse (fold policy_tally rs s) = ps_notInUse s + length (filter (live_unused) rs)"
  by (rule fold_counter) (simp add: tally_defs class_defs)

lemma tally_pending [js_count]:
  "ps_pending (fold policy_tally rs s) = ps_pending s + length (filter (live_pending) rs)"
  by (rule fold_counter) (simp add: tally_defs class_defs)

lemma tally_historical [js_count]:
  "ps_historical (fold policy_tally rs s) = ps_historical s + length (filter (retained_as ''HISTORICAL'') rs)"
  by (rule fold_counter) (simp add: tally_defs class_defs)

lemma tally_degraded [js_count]:
  "ps_degraded (fold policy_tally rs s) = ps_degraded s + length (filter (retained_as ''IN_SCOPE_DEGRADED'') rs)"
  by (rule fold_counter) (simp add: tally_defs class_defs)

lemma tally_unknown [js_count]:
  "ps_unknown (fold policy_tally rs s) = ps_unknown s + length (filter (retained_unknown) rs)"
  by (rule fold_counter) (simp add: tally_defs class_defs)

lemma tally_desiredMatched [js_count]:
  "ps_desiredMatched (fold policy_tally rs s) = ps_desiredMatched s + length (filter (\<lambda>r. live r \<and> \<not> removal r) rs)"
  by (rule fold_counter) (simp add: tally_defs class_defs)

lemma tally_removalMatched [js_count]:
  "ps_removalMatched (fold policy_tally rs s) = ps_removalMatched s + length (filter (\<lambda>r. live r \<and> removal r) rs)"
  by (rule fold_counter) (simp add: tally_defs class_defs)

lemma tally_matched [js_count]: "ps_matched (fold policy_tally rs s) = ps_matched s"
  by (rule fold_frame) (simp add: tally_defs)

lemma tally_observed [js_count]: "ps_observed (fold policy_tally rs s) = ps_observed s"
  by (rule fold_frame) (simp add: tally_defs)

lemma tally_status [js_count]: "ps_status (fold policy_tally rs s) = ps_status s"
  by (rule fold_frame) (simp add: tally_defs)

lemma summary_fields [js_count]:
  "ps_observed (summarizePolicyDestinations rs d) = length rs"
  "ps_matched (summarizePolicyDestinations rs d) = length (filter live rs)"
  "ps_desiredMatched (summarizePolicyDestinations rs d) = length (filter (\<lambda>r. live r \<and> \<not> removal r) rs)"
  "ps_removalMatched (summarizePolicyDestinations rs d) = length (filter (\<lambda>r. live r \<and> removal r) rs)"
  "ps_historical (summarizePolicyDestinations rs d) = length (filter (retained_as ''HISTORICAL'') rs)"
  "ps_degraded (summarizePolicyDestinations rs d) = length (filter (retained_as ''IN_SCOPE_DEGRADED'') rs)"
  "ps_unknown (summarizePolicyDestinations rs d) = length (filter retained_unknown rs)"
  "ps_applied (summarizePolicyDestinations rs d) = length (filter (live_as ''APPLIED'') rs)"
  "ps_pendingReplacement (summarizePolicyDestinations rs d) =
     length (filter (live_as ''APPLIED_PENDING_REPLACEMENT'') rs)"
  "ps_failed (summarizePolicyDestinations rs d) = length (filter (live_as ''FAILED'') rs)"
  "ps_notInUse (summarizePolicyDestinations rs d) = length (filter live_unused rs)"
  "ps_removed (summarizePolicyDestinations rs d) = length (filter (live_as ''REMOVED'') rs)"
  "ps_removalPending (summarizePolicyDestinations rs d) = length (filter (live_as ''REMOVAL_PENDING'') rs)"
  "ps_pending (summarizePolicyDestinations rs d) = length (filter live_pending rs)"
  by (simp_all add: summarizePolicyDestinations_def policy_summary_init_def Let_def js_count)

lemma summary_status_eq:
  "ps_status (summarizePolicyDestinations rs d) =
    policy_summary_status ((summarizePolicyDestinations rs d)\<lparr>ps_status := ''NO_LIVE_TARGETS''\<rparr>) d"
  by (simp add: summarizePolicyDestinations_def policy_summary_init_def Let_def js_count
      policy_summary_status_def)

text \<open>The classes are disjoint and exhaust the live and the retained records.\<close>

lemma live_classes:
  "length (filter live rs) =
     length (filter (live_as ''APPLIED'') rs) + length (filter (live_as ''APPLIED_PENDING_REPLACEMENT'') rs) +
     length (filter (live_as ''FAILED'') rs) + length (filter live_unused rs) +
     length (filter (live_as ''REMOVED'') rs) + length (filter (live_as ''REMOVAL_PENDING'') rs) +
     length (filter live_pending rs)"
  by (induction rs) (auto simp: class_defs)

lemma retained_classes:
  "length rs = length (filter live rs) + length (filter (retained_as ''HISTORICAL'') rs) +
     length (filter (retained_as ''IN_SCOPE_DEGRADED'') rs) + length (filter retained_unknown rs)"
  by (induction rs) (auto simp: class_defs)

subsection \<open>What the summary promises\<close>

lemma filter_live: "(\<And>r. P r \<Longrightarrow> live r) \<Longrightarrow> filter P (filter live rs) = filter P rs"
  by (induction rs) auto

lemma summary_of_live:
  "ps_status (summarizePolicyDestinations (filter live rs) d) = ps_status (summarizePolicyDestinations rs d)"
  by (simp add: summary_status_eq policy_summary_status_def js_count class_defs filter_live
      cong: filter_cong)

lemma summary_matched_zero: "ps_matched (summarizePolicyDestinations rs d) = 0 \<longleftrightarrow> (\<forall>r\<in>set rs. \<not> live r)"
  by (simp add: js_count filter_empty_conv)

lemma applied_status_iff:
  "ps_status (summarizePolicyDestinations rs False) = ''APPLIED'' \<longleftrightarrow>
    (\<exists>r\<in>set rs. live r \<and> \<not> removal r) \<and>
    length (filter (live_as ''APPLIED'') rs) = length (filter (\<lambda>r. live r \<and> \<not> removal r) rs) \<and>
    length (filter (live_as ''REMOVED'') rs) = length (filter (\<lambda>r. live r \<and> removal r) rs)"
proof (cases "\<exists>r\<in>set rs. live r \<and> \<not> removal r")
  case True
  then have "filter live rs \<noteq> []" "filter (\<lambda>r. live r \<and> \<not> removal r) rs \<noteq> []"
    by (auto simp: filter_empty_conv)
  with True show ?thesis
    by (simp add: summary_status_eq policy_summary_status_def js_count)
next
  case False
  then have "filter (\<lambda>r. live r \<and> \<not> removal r) rs = []"
    by (auto simp: filter_empty_conv)
  with False show ?thesis
    by (simp add: summary_status_eq policy_summary_status_def js_count)
qed

lemma settled_count:
  assumes "length (filter (live_as ''APPLIED'') rs) + length (filter (live_as ''REMOVED'') rs) =
    length (filter live rs)" and "r \<in> set rs" "live r"
  shows "live_as ''APPLIED'' r \<or> live_as ''REMOVED'' r"
proof -
  let ?P = "\<lambda>r. live_as ''APPLIED'' r \<or> live_as ''REMOVED'' r"
  have "length (filter (\<lambda>r. live r \<and> ?P r) rs) =
    length (filter (live_as ''APPLIED'') rs) + length (filter (live_as ''REMOVED'') rs)"
    by (induction rs) (auto simp: live_as_def)
  then have "\<forall>x\<in>set rs. live x \<longrightarrow> ?P x"
    using assms(1) length_filter_imp_eq [of live ?P rs] by simp
  then show ?thesis using assms by blast
qed

text \<open>the summary accounts for every record once. The records observed are the live ones and
  the three kinds retained for audit; the live ones split into wanted and being removed, and again
  into the seven outcomes the UI shows.\<close>

theorem summarizePolicyDestinations_accounts:
  "let s = summarizePolicyDestinations rs d in
     ps_observed s = ps_matched s + ps_historical s + ps_degraded s + ps_unknown s \<and>
     ps_matched s = ps_desiredMatched s + ps_removalMatched s \<and>
     ps_matched s = ps_applied s + ps_pendingReplacement s + ps_failed s + ps_notInUse s +
       ps_removed s + ps_removalPending s + ps_pending s"
  using live_classes [of rs] retained_classes [of rs] length_filter_split [of live rs removal]
  by (simp add: js_count Let_def)

text \<open>a record kept for audit never changes the status of a policy. The status of the summary
  is the status of the summary of the live records alone, so adding or dropping records of
  instances that left the live set has no effect on it.\<close>

theorem summarizePolicyDestinations_ignores_retained:
  "filter live rs = filter live rs' \<Longrightarrow>
    ps_status (summarizePolicyDestinations rs d) = ps_status (summarizePolicyDestinations rs' d)"
  using summary_of_live [of rs d] summary_of_live [of rs' d] by simp

theorem summarizePolicyDestinations_ignores_retained_witness:
  "ps_status (summarizePolicyDestinations
     [[(''ConnectionStatus'', Str ''OFFLINE''), (''LiveStatus'', Str ''FAILED''), (''Target'', Str ''java-extension'')],
      [(''ConnectionStatus'', Str ''ONLINE''), (''LiveStatus'', Str ''APPLIED''), (''Target'', Str ''java-extension'')]]
     False) = ''APPLIED''"
proof -
  let ?live = "[(''ConnectionStatus'', Str ''ONLINE''), (''LiveStatus'', Str ''APPLIED''),
    (''Target'', Str ''java-extension'')]"
  let ?gone = "[(''ConnectionStatus'', Str ''OFFLINE''), (''LiveStatus'', Str ''FAILED''),
    (''Target'', Str ''java-extension'')]"
  have f: "filter live [?gone, ?live] = filter live [?live]"
    by code_simp
  have "ps_status (summarizePolicyDestinations [?live] False) = ''APPLIED''"
    by code_simp
  with summarizePolicyDestinations_ignores_retained [OF f, of False] show ?thesis by simp
qed

text \<open>C20: what APPLIED means for an active policy. It is shown only when every live destination has
  confirmed, by applying the version or by removing it, and some live destination wants it; and it
  is shown whenever every live destination that wants it applied it and every other one removed it.\<close>

theorem policy_APPLIED_means_settled:
  "(ps_status (summarizePolicyDestinations rs False) = ''APPLIED'' \<longrightarrow>
      (\<forall>r\<in>set rs. live r \<longrightarrow> deploymentRecordStatus r \<in> {Str ''APPLIED'', Str ''REMOVED''}) \<and>
      (\<exists>r\<in>set rs. live r \<and> \<not> removal r)) \<and>
   ((\<exists>r\<in>set rs. live r \<and> \<not> removal r) \<longrightarrow>
    (\<forall>r\<in>set rs. live r \<longrightarrow>
       deploymentRecordStatus r = (if removal r then Str ''REMOVED'' else Str ''APPLIED'')) \<longrightarrow>
      ps_status (summarizePolicyDestinations rs False) = ''APPLIED'')"
proof (intro conjI impI)
  assume a: "ps_status (summarizePolicyDestinations rs False) = ''APPLIED''"
  have "length (filter (live_as ''APPLIED'') rs) + length (filter (live_as ''REMOVED'') rs) =
      length (filter live rs)"
    using a length_filter_split [of live rs removal] by (simp add: applied_status_iff)
  then show "\<forall>r\<in>set rs. live r \<longrightarrow> deploymentRecordStatus r \<in> {Str ''APPLIED'', Str ''REMOVED''}"
    using settled_count by (auto simp: live_as_def)
  show "\<exists>r\<in>set rs. live r \<and> \<not> removal r"
    using a by (simp add: applied_status_iff)
next
  assume ex: "\<exists>r\<in>set rs. live r \<and> \<not> removal r"
    and all: "\<forall>r\<in>set rs. live r \<longrightarrow>
      deploymentRecordStatus r = (if removal r then Str ''REMOVED'' else Str ''APPLIED'')"
  then have "filter (live_as ''APPLIED'') rs = filter (\<lambda>r. live r \<and> \<not> removal r) rs"
    "filter (live_as ''REMOVED'') rs = filter (\<lambda>r. live r \<and> removal r) rs"
    by (auto simp: live_as_def intro!: filter_cong split: if_splits)
  with ex show "ps_status (summarizePolicyDestinations rs False) = ''APPLIED''"
    by (simp add: applied_status_iff)
qed

theorem policy_APPLIED_means_settled_witness:
  "ps_status (summarizePolicyDestinations
     [[(''ConnectionStatus'', Str ''ONLINE''), (''LiveStatus'', Str ''APPLIED''), (''Target'', Str ''java-extension'')],
      [(''ConnectionStatus'', Str ''ONLINE''), (''LiveStatus'', Str ''REMOVED''), (''Target'', Str ''java-extension''),
       (''DesiredPresence'', Bool False)]] False) = ''APPLIED''"
proof -
  let ?a = "[(''ConnectionStatus'', Str ''ONLINE''), (''LiveStatus'', Str ''APPLIED''), (''Target'', Str ''java-extension'')]"
  let ?b = "[(''ConnectionStatus'', Str ''ONLINE''), (''LiveStatus'', Str ''REMOVED''), (''Target'', Str ''java-extension''),
       (''DesiredPresence'', Bool False)]"
  have "live ?a" "\<not> removal ?a" "removal ?b" "deploymentRecordStatus ?a = Str ''APPLIED''"
    "deploymentRecordStatus ?b = Str ''REMOVED''"
    by code_simp+
  then have "\<exists>r\<in>set [?a, ?b]. live r \<and> \<not> removal r"
    "\<forall>r\<in>set [?a, ?b]. live r \<longrightarrow>
       deploymentRecordStatus r = (if removal r then Str ''REMOVED'' else Str ''APPLIED'')"
    by auto
  then show ?thesis using policy_APPLIED_means_settled by blast
qed

end
