(* ===== verification/Catalog.thy ===== *)
theory Catalog
  imports Js_Value
begin

section \<open>The interface of a catalogue of managed configurations\<close>

text \<open>
  Policies and collector configurations are listed in the same way: the stored versions are
  grouped by configuration, one entry is derived from each group (which may raise), and the
  entries are sorted. The locale states what such a list owes to its readers; the two pages
  interpret it on their own functions.
\<close>

locale catalogue =
  fixes key :: "'v \<Rightarrow> 'k option"
    and entry_of :: "'k \<times> 'v list \<Rightarrow> 'm option"
    and ident :: "'m \<Rightarrow> 'k"
    and gt :: "'m \<Rightarrow> 'm \<Rightarrow> bool"
    and build :: "'v list \<Rightarrow> 'm list option"
  assumes entry_ident: "entry_of (k, vs) = Some m \<Longrightarrow> ident m = k"
    and build_eq: "build vs =
      Option.bind (map_opt entry_of (group_by key vs)) (\<lambda>ms. Some (js_sort gt ms))"
begin

lemma build_unfold:
  assumes "build vs = Some ms"
  obtains qs where "map_opt entry_of (group_by key vs) = Some qs" "ms = js_sort gt qs"
  using assms by (auto simp: build_eq bind_eq_Some_conv)

lemma build_member:
  assumes "build vs = Some ms"
  shows "m \<in> set ms \<longleftrightarrow>
    (\<exists>k. (\<exists>v\<in>set vs. key v = Some k) \<and> entry_of (k, filter (\<lambda>v. key v = Some k) vs) = Some m)"
proof -
  obtain qs where q: "map_opt entry_of (group_by key vs) = Some qs" "ms = js_sort gt qs"
    using assms by (rule build_unfold)
  show ?thesis
    unfolding q(2) set_js_sort map_opt_set [OF q(1)]
    by (auto simp: set_group_by Bex_def split_paired_Ex)
qed

lemma build_entry:
  assumes "build vs = Some ms" "m \<in> set ms"
  shows "entry_of (ident m, filter (\<lambda>v. key v = Some (ident m)) vs) = Some m"
    and "filter (\<lambda>v. key v = Some (ident m)) vs \<noteq> []"
  using assms by (auto simp: build_member filter_empty_conv dest: entry_ident)

lemma build_distinct:
  assumes "build vs = Some ms"
  shows "distinct (map ident ms)"
proof -
  obtain qs where q: "map_opt entry_of (group_by key vs) = Some qs" "ms = js_sort gt qs"
    using assms by (rule build_unfold)
  have "map ident qs = map fst (group_by key vs)"
  proof (rule map_opt_same_key [OF q(1)])
    fix x m assume "entry_of x = Some m"
    then show "ident m = fst x" by (cases x) (auto dest: entry_ident)
  qed
  then show ?thesis by (simp add: q(2) distinct_map_js_sort)
qed

lemma build_ids:
  assumes "build vs = Some ms"
  shows "Some ` ident ` set ms = key ` set vs - {None}"
proof (rule set_eqI)
  fix k
  obtain qs where q: "map_opt entry_of (group_by key vs) = Some qs" "ms = js_sort gt qs"
    using assms by (rule build_unfold)
  show "k \<in> Some ` ident ` set ms \<longleftrightarrow> k \<in> key ` set vs - {None}"
  proof
    assume "k \<in> Some ` ident ` set ms"
    then show "k \<in> key ` set vs - {None}"
      using build_member [OF assms] by (force dest: entry_ident)
  next
    assume "k \<in> key ` set vs - {None}"
    then obtain v j where v: "v \<in> set vs" "key v = Some j" "k = Some j" by force
    have "(j, filter (\<lambda>v. key v = Some j) vs) \<in> set (group_by key vs)"
      using v by (auto simp: set_group_by)
    then obtain m where "entry_of (j, filter (\<lambda>v. key v = Some j) vs) = Some m"
      using map_opt_all [OF q(1)] by blast
    then have "m \<in> set ms" "ident m = j"
      using build_member [OF assms] v by (auto dest: entry_ident)
    then show "k \<in> Some ` ident ` set ms" using v by blast
  qed
qed

lemma build_total:
  "(\<And>k ws. ws \<noteq> [] \<Longrightarrow> set ws \<subseteq> set vs \<Longrightarrow> entry_of (k, ws) \<noteq> None) \<Longrightarrow> \<exists>ms. build vs = Some ms"
proof -
  assume all: "\<And>k ws. ws \<noteq> [] \<Longrightarrow> set ws \<subseteq> set vs \<Longrightarrow> entry_of (k, ws) \<noteq> None"
  have "map_opt entry_of (group_by key vs) \<noteq> None"
    unfolding map_opt_None using all by (auto simp: set_group_by filter_empty_conv)
  then show ?thesis by (auto simp: build_eq)
qed

lemma build_sorted:
  assumes "build vs = Some ms" "js_order gt (\<lambda>_. True)"
  shows "sorted_wrt (\<lambda>a b. \<not> gt a b) ms" "js_sort gt ms = ms"
proof -
  obtain qs where q: "ms = js_sort gt qs" using assms(1) by (rule build_unfold)
  show "sorted_wrt (\<lambda>a b. \<not> gt a b) ms"
    unfolding q by (rule js_order.sort_sorted [OF assms(2)]) simp
  then show "js_sort gt ms = ms" by (rule js_order.sort_of_sorted [OF assms(2)])
qed

end

end
