(* ===== verification/Policy_Catalog.thy ===== *)
theory Policy_Catalog
  imports Policy Catalog
begin

section \<open>The list of managed policies (\<open>ui/src/policy-management.js\<close>, second half)\<close>

text \<open>
  \<open>buildManagedPolicies\<close> groups the stored versions by configuration, and derives for each
  policy its latest and previous version, whether it is active, the action the UI offers and the
  status of its destinations. Reading \<open>...(selector.Services || [])\<close> raises when the selector's
  services are not iterable: the result is then \<open>None\<close>.
\<close>

record managed_policy =
  mp_id :: jsval
  mp_target :: jsval
  mp_versions :: "jsobj list"
  mp_versionCount :: nat
  mp_latestVersion :: jsobj
  mp_previousVersion :: "jsobj option"
  mp_lastContentVersion :: "jsobj option"
  mp_active :: bool
  mp_lifecycleStatus :: string
  mp_action :: string
  mp_actionLabel :: string
  mp_selector :: jsval
  mp_services :: "jsval list"
  mp_records :: "jsobj list"
  mp_destinationSummary :: policy_summary

text \<open>\<open>xs.at(-1)\<close>: the last element, or nothing.\<close>

definition last_opt :: "'a list \<Rightarrow> 'a option" where
  "last_opt xs = (if xs = [] then None else Some (last xs))"

text \<open>\<open>[...new Set(values.filter(Boolean))]\<close> and the default \<open>sort()\<close> on the result.\<close>

definition unique :: "jsval list \<Rightarrow> jsval list" where
  "unique vals = unique_values (filter truthy vals)"

definition sort_texts :: "jsval list \<Rightarrow> jsval list" where
  "sort_texts = js_sort (\<lambda>a b. str_gt (to_str a) (to_str b))"

definition policy_key :: "jsobj \<Rightarrow> jsval option" where
  "policy_key version =
     (if \<not> strict_eq (fld version ''Target'') (Str ''java-extension'') then None
      else if truthy (policyConfigId version) then Some (policyConfigId version) else None)"

definition policy_source_version :: "jsobj \<Rightarrow> jsnum" where
  "policy_source_version latest =
     to_num (js_default (js_default (fld latest ''SourceVersion'') (fld latest ''sourceVersion''))
                        (Num (policyVersionNumber latest)))"

definition managed_policy_of ::
  "(jsval \<Rightarrow> jsnum) \<Rightarrow> jsobj list \<Rightarrow> jsval \<times> jsobj list \<Rightarrow> managed_policy option" where
  "managed_policy_of date_parse deployments entry =
     (let ident = fst entry;
          policyVersions = sortPolicyVersions date_parse (snd entry);
          latest = last policyVersions;
          active = (\<not> isDeactivatedPolicyVersion latest);
          contentVersions = filter (\<lambda>v. \<not> isDeactivatedPolicyVersion v) policyVersions;
          sourceVersion = policy_source_version latest;
          previous = (if active
            then last_opt (filter (\<lambda>v. policyVersionAction v = ''PUBLISHED'' \<and>
                                       num_lt (policyVersionNumber v) sourceVersion) policyVersions)
            else None);
          latestRecords = filter (\<lambda>rec. strict_eq (fld rec ''ConfigID'') ident \<and>
             num_eq (to_num (fld rec ''Version'')) (policyVersionNumber latest)) deployments;
          selector = js_or (fld latest ''Selector'') (Obj [])
      in do {
        selected \<leftarrow> iterate (js_or (get selector ''Services'') (Arr []));
        Some \<lparr>mp_id = ident,
          mp_target = fld latest ''Target'',
          mp_versions = policyVersions,
          mp_versionCount = length policyVersions,
          mp_latestVersion = latest,
          mp_previousVersion = previous,
          mp_lastContentVersion = last_opt contentVersions,
          mp_active = active,
          mp_lifecycleStatus = (if active then ''ACTIVE'' else ''DEACTIVATED''),
          mp_action = (if active then (if previous \<noteq> None then ''REVERT'' else ''DEACTIVATE'') else ''NONE''),
          mp_actionLabel = (if \<not> active then ''''
             else case previous of
               Some p \<Rightarrow> ''Restaurar contenido de v'' @ num_str (policyVersionNumber p)
             | None \<Rightarrow> ''Retirar policy''),
          mp_selector = selector,
          mp_services = sort_texts (unique (selected @ map (\<lambda>rec. fld rec ''Service'') latestRecords)),
          mp_records = latestRecords,
          mp_destinationSummary = summarizePolicyDestinations latestRecords (\<not> active)\<rparr> })"

definition managed_policy_gt ::
  "(jsval \<Rightarrow> jsnum) \<Rightarrow> (string \<Rightarrow> string \<Rightarrow> bool) \<Rightarrow> managed_policy \<Rightarrow> managed_policy \<Rightarrow> bool" where
  "managed_policy_gt date_parse collate_gt =
     newest_first_gt (\<lambda>p. versionTimestamp date_parse (mp_latestVersion p)) (\<lambda>p. to_str (mp_id p)) collate_gt"

definition buildManagedPolicies ::
  "(jsval \<Rightarrow> jsnum) \<Rightarrow> (string \<Rightarrow> string \<Rightarrow> bool) \<Rightarrow> jsobj list \<Rightarrow> jsobj list \<Rightarrow> managed_policy list option"
  where
  "buildManagedPolicies date_parse collate_gt versions deployments = do {
     policies \<leftarrow> map_opt (managed_policy_of date_parse deployments) (group_by policy_key versions);
     Some (js_sort (managed_policy_gt date_parse collate_gt) policies) }"

definition filterManagedPolicies ::
  "managed_policy list \<Rightarrow> string \<Rightarrow> jsval \<Rightarrow> jsval \<Rightarrow> managed_policy list" where
  "filterManagedPolicies policies query status service =
     (let needle = js_lower (js_trim query) in
      filter (\<lambda>policy.
        if \<not> matchesAnySelection status
              (Arr [Str (mp_lifecycleStatus policy), Str (ps_status (mp_destinationSummary policy))])
        then False
        else if \<not> matchesAnySelection service (Arr (mp_services policy)) then False
        else if needle = [] then True
        else
          let attributes = map (\<lambda>(key, v). Str (key @ ''='' @ to_str v))
                             (own_entries (js_or (get (mp_selector policy) ''Attributes'') (Obj [])))
          in \<exists>v\<in>set ([mp_id policy, fld (mp_latestVersion policy) ''CreatedBy'',
                      fld (mp_latestVersion policy) ''Hash'', Str (mp_lifecycleStatus policy),
                      Str (ps_status (mp_destinationSummary policy))]
                     @ mp_services policy @ attributes).
               js_includes (js_lower (str_or v '''')) needle)
        policies)"

definition policyLifecycleEndpoint :: "string \<Rightarrow> string" where
  "policyLifecycleEndpoint policyId = ''/api/policies/'' @ encode_uri_component policyId @ ''/rollback''"

definition policyLifecycleConfirmation :: "managed_policy \<Rightarrow> string" where
  "policyLifecycleConfirmation policy =
     (if mp_action policy = ''REVERT'' then
        ([CHR 0xBF] @ ''Restaurar en '') @ to_str (mp_id policy) @ '' el contenido de v'' @
        (case mp_previousVersion policy of
           Some p \<Rightarrow> num_str (policyVersionNumber p) | None \<Rightarrow> num_str (policyVersionNumber [])) @
        (''? Se publicar'' @ [CHR 0xE1] @ '' una versi'' @ [CHR 0xF3] @ ''n nueva; ninguna versi'' @ [CHR 0xF3] @ ''n existente se sobrescribe.'')
      else if mp_action policy = ''DEACTIVATE'' then
        ([CHR 0xBF] @ ''Retirar '') @ to_str (mp_id policy) @
        ('' de todos sus destinos? Se publicar'' @ [CHR 0xE1] @ '' una versi'' @ [CHR 0xF3] @ ''n nueva de retiro. Dejar'' @ [CHR 0xE1] @ '' de entregarse a las instancias actuales y futuras que coincidan, pero el historial se conservar'' @ [CHR 0xE1] @ ''.'')
      else '''')"

definition managedPolicyDestinationSummary :: "policy_summary \<Rightarrow> string" where
  "managedPolicyDestinationSummary s =
     (let n = nat_str; part = (\<lambda>k suffix. if k > 0 then [n k @ suffix] else []);
          tail_parts = part (ps_degraded s) ('' se'' @ [CHR 0xF1] @ ''al(es) degradada(s)'')
      in
      if ps_status s = ''DEACTIVATED'' then (''No se entrega a ning'' @ [CHR 0xFA] @ ''n destino.'')
      else if ps_status s = ''REMOVED'' then
        n (ps_removed s) @ ''/'' @ n (ps_matched s) @ '' destino(s) confirmaron el retiro.''
      else if ps_matched s = 0 then
        js_join ('' '' @ [CHR 0xB7] @ '' '') ([(''Sin destinos actualmente en l'' @ [CHR 0xED] @ ''nea'')] @ tail_parts @
          part (ps_historical s) ('' registro(s) hist'' @ [CHR 0xF3] @ ''rico(s)'') @
          part (ps_unknown s) '' estado(s) desconocido(s)'') @ ''.''
      else
        js_join ('' '' @ [CHR 0xB7] @ '' '') (
          [n (ps_applied s) @ ''/'' @ n (ps_desiredMatched s) @
             '' destino(s) vivo(s) coincidente(s) aplicada(s)''] @
          part (ps_appliedStale s) ('' confirmaci'' @ [CHR 0xF3] @ ''n(es) hist'' @ [CHR 0xF3] @ ''rica(s) degradada(s)'') @
          part (ps_pendingReplacement s) '' reemplazo(s) pendiente(s)'' @
          part (ps_failed s) '' rechazada(s)'' @
          part (ps_pending s) '' pendiente(s)'' @
          part (ps_notInUse s) '' usa(n) otra policy'' @
          part (ps_removed s) '' retirada(s)'' @
          part (ps_removalPending s) '' retiro(s) pendiente(s)'' @
          (if ps_removalMatched s > 0 \<and> ps_removalPending s = 0 \<and> ps_removed s > 0
           then [n (ps_removed s) @ '' retiro(s) confirmado(s)''] else []) @
          part (ps_historical s) ('' registro(s) hist'' @ [CHR 0xF3] @ ''rico(s) excluido(s)'') @
          tail_parts @
          part (ps_unknown s) '' estado(s) desconocido(s)''))"

declare last_opt_def [js_eval] unique_def [js_eval] sort_texts_def [js_eval] policy_key_def [js_eval]
  policy_source_version_def [js_eval] managed_policy_of_def [js_eval] managed_policy_gt_def [js_eval]
  buildManagedPolicies_def [js_eval] filterManagedPolicies_def [js_eval]
  policyLifecycleEndpoint_def [js_eval] policyLifecycleConfirmation_def [js_eval]
  managedPolicyDestinationSummary_def [js_eval]

subsection \<open>Facts about one policy and about the list\<close>

lemma managed_policy_of_fields:
  assumes "managed_policy_of dp deps (k, vs) = Some p"
  shows "mp_id p = k" "mp_versions p = sortPolicyVersions dp vs"
    "mp_latestVersion p = last (sortPolicyVersions dp vs)"
    "mp_active p = (\<not> isDeactivatedPolicyVersion (mp_latestVersion p))"
    "mp_previousVersion p = (if mp_active p
       then last_opt (filter (\<lambda>v. policyVersionAction v = ''PUBLISHED'' \<and>
              num_lt (policyVersionNumber v) (policy_source_version (mp_latestVersion p))) (mp_versions p))
       else None)"
    "mp_action p = (if mp_active p then (if mp_previousVersion p \<noteq> None then ''REVERT'' else ''DEACTIVATE'')
       else ''NONE'')"
    "mp_records p = filter (\<lambda>rec. strict_eq (fld rec ''ConfigID'') k \<and>
       num_eq (to_num (fld rec ''Version'')) (policyVersionNumber (mp_latestVersion p))) deps"
    "mp_destinationSummary p = summarizePolicyDestinations (mp_records p) (\<not> mp_active p)"
  using assms unfolding managed_policy_of_def Let_def by (auto simp: bind_eq_Some_conv)

lemma managed_policy_of_iff:
  "(\<exists>p. managed_policy_of dp deps (k, vs) = Some p) \<longleftrightarrow>
    iterate (js_or (get (js_or (fld (last (sortPolicyVersions dp vs)) ''Selector'') (Obj [])) ''Services'')
      (Arr [])) \<noteq> None"
  unfolding managed_policy_of_def Let_def by (auto simp: bind_eq_Some_conv)

interpretation policies: catalogue policy_key "managed_policy_of dp deps" mp_id "managed_policy_gt dp cg"
    "\<lambda>versions. buildManagedPolicies dp cg versions deps" for dp cg deps
  by unfold_locales (auto simp: buildManagedPolicies_def managed_policy_of_fields(1))

lemma policy_entry:
  assumes "buildManagedPolicies dp cg versions deps = Some ps" "p \<in> set ps"
  shows "mp_versions p = sortPolicyVersions dp (filter (\<lambda>v. policy_key v = Some (mp_id p)) versions)"
    and "mp_latestVersion p = last (mp_versions p)" and "mp_versions p \<noteq> []"
    and "mp_latestVersion p \<in> set (mp_versions p)" "mp_latestVersion p \<in> set versions"
proof -
  note e = policies.build_entry [OF assms]
  show v: "mp_versions p = sortPolicyVersions dp (filter (\<lambda>v. policy_key v = Some (mp_id p)) versions)"
    and l: "mp_latestVersion p = last (mp_versions p)" and n: "mp_versions p \<noteq> []"
    using e managed_policy_of_fields(2,3) [OF e(1)] by (simp_all add: sortPolicyVersions_def)
  show "mp_latestVersion p \<in> set (mp_versions p)" using l n by simp
  then show "mp_latestVersion p \<in> set versions"
    using v by (auto simp: sortPolicyVersions_def)
qed

text \<open>C23: the list of policies is a partition of the stored Java versions. No configuration is
  listed twice, every version with a configuration is in the entry of its configuration and in no
  other, each entry holds its versions sorted, and its latest version is one of them that none
  exceeds in version number (and, for equal numbers, in time stamp).\<close>

theorem buildManagedPolicies_partition:
  assumes "buildManagedPolicies dp cg versions deps = Some ps"
    and "\<forall>v\<in>set versions. policyVersionNumber v \<noteq> NaN"
  shows "distinct (map mp_id ps) \<and>
    Some ` mp_id ` set ps = policy_key ` set versions - {None} \<and>
    (\<forall>p\<in>set ps.
       mp_versions p = sortPolicyVersions dp (filter (\<lambda>v. policy_key v = Some (mp_id p)) versions) \<and>
       mp_latestVersion p \<in> set (mp_versions p) \<and>
       (\<forall>v\<in>set (mp_versions p). \<not> policy_version_gt dp v (mp_latestVersion p)))"
proof (intro conjI ballI)
  show "distinct (map mp_id ps)" using assms(1) by (rule policies.build_distinct)
  show "Some ` mp_id ` set ps = policy_key ` set versions - {None}"
    using assms(1) by (rule policies.build_ids)
  fix p assume p: "p \<in> set ps"
  show "mp_versions p = sortPolicyVersions dp (filter (\<lambda>v. policy_key v = Some (mp_id p)) versions)"
    "mp_latestVersion p \<in> set (mp_versions p)"
    using policy_entry [OF assms(1) p] by simp_all
  fix v assume "v \<in> set (mp_versions p)"
  then show "\<not> policy_version_gt dp v (mp_latestVersion p)"
    using policy_entry(1,2) [OF assms(1) p] assms(2) policy_order.sort_last_max [of _ v dp]
    by (auto simp: sortPolicyVersions_def)
qed

theorem buildManagedPolicies_partition_witness:
  "mp_latestVersion (hd (the (buildManagedPolicies (\<lambda>_. NaN) str_gt
     [[(''Target'', Str ''java-extension''), (''ID'', Str ''a''), (''Version'', Num (Fin 2))],
      [(''Target'', Str ''java-extension''), (''ID'', Str ''a''), (''Version'', Num (Fin 1))]] [])))
     = [(''Target'', Str ''java-extension''), (''ID'', Str ''a''), (''Version'', Num (Fin 2))]"
proof -
  let ?v2 = "[(''Target'', Str ''java-extension''), (''ID'', Str ''a''), (''Version'', Num (Fin 2))]"
  let ?v1 = "[(''Target'', Str ''java-extension''), (''ID'', Str ''a''), (''Version'', Num (Fin 1))]"
  have "\<not> Option.is_none (buildManagedPolicies (\<lambda>_. NaN) str_gt [?v2, ?v1] [])" by code_simp
  then obtain ps where b: "buildManagedPolicies (\<lambda>_. NaN) str_gt [?v2, ?v1] [] = Some ps"
    by (auto simp: Option.is_none_def)
  have n: "\<forall>v\<in>set [?v2, ?v1]. policyVersionNumber v \<noteq> NaN" by code_simp
  have k: "policy_key ?v1 = Some (Str ''a'')" "policy_key ?v2 = Some (Str ''a'')"
    and gt: "policy_version_gt (\<lambda>_. NaN) ?v2 ?v1"
    by code_simp+
  note P = buildManagedPolicies_partition [OF b n]
  have "Some ` mp_id ` set ps = {Some (Str ''a'')}" using P k by auto
  then obtain p qs where p: "ps = p # qs" "mp_id p = Str ''a''" by (cases ps) auto
  with P k have "mp_versions p = sortPolicyVersions (\<lambda>_. NaN) [?v2, ?v1]"
    "mp_latestVersion p \<in> set (mp_versions p)"
    "\<forall>v\<in>set (mp_versions p). \<not> policy_version_gt (\<lambda>_. NaN) v (mp_latestVersion p)" by auto
  then have "mp_latestVersion p = ?v2" using gt by (auto simp: sortPolicyVersions_def)
  with b p show ?thesis by simp
qed

subsection \<open>Lifecycle\<close>

lemma last_opt_filter: "last_opt (filter P xs) = Some v \<Longrightarrow> v \<in> set xs \<and> P v"
  using last_in_set [of "filter P xs"] by (auto simp: last_opt_def split: if_splits)

lemma summary_deactivated_status:
  "ps_status (summarizePolicyDestinations rs True) \<in> {''DEACTIVATED'', ''REMOVED'', ''FAILED'', ''REMOVAL_PENDING''}"
  by (simp add: summary_status_eq policy_summary_status_def)

lemma summary_active_status:
  "ps_status (summarizePolicyDestinations rs False) \<noteq> ''DEACTIVATED''"
  by (simp add: summary_status_eq policy_summary_status_def)

text \<open>the action the UI offers is one the policy's history allows. An inactive policy offers no
  action and never shows an applied state; an active one offers to restore content only when it has
  an earlier published version, which it names, and that version is older than the content in use;
  the records shown are the deployments of exactly this configuration and its latest version.\<close>

theorem managed_policy_lifecycle:
  assumes "buildManagedPolicies dp cg versions deps = Some ps" and "p \<in> set ps"
  shows "(mp_active p \<longleftrightarrow> \<not> isDeactivatedPolicyVersion (mp_latestVersion p)) \<and>
    (mp_action p = ''NONE'' \<longleftrightarrow> \<not> mp_active p) \<and>
    (mp_action p = ''REVERT'' \<longleftrightarrow> mp_active p \<and> mp_previousVersion p \<noteq> None) \<and>
    (\<forall>v. mp_previousVersion p = Some v \<longrightarrow>
       v \<in> set (mp_versions p) \<and> policyVersionAction v = ''PUBLISHED'' \<and>
       num_lt (policyVersionNumber v) (policy_source_version (mp_latestVersion p))) \<and>
    (\<not> mp_active p \<longrightarrow> ps_status (mp_destinationSummary p) \<in>
       {''DEACTIVATED'', ''REMOVED'', ''FAILED'', ''REMOVAL_PENDING''}) \<and>
    (\<forall>r\<in>set (mp_records p). r \<in> set deps \<and> strict_eq (fld r ''ConfigID'') (mp_id p) \<and>
       num_eq (to_num (fld r ''Version'')) (policyVersionNumber (mp_latestVersion p)))"
proof -
  note f = managed_policy_of_fields [OF policies.build_entry(1) [OF assms]]
  have prev: "v \<in> set (mp_versions p) \<and> policyVersionAction v = ''PUBLISHED'' \<and>
      num_lt (policyVersionNumber v) (policy_source_version (mp_latestVersion p))"
    if "mp_previousVersion p = Some v" for v
    using that last_opt_filter [where xs = "mp_versions p" and v = v] unfolding f(5)
    by (auto split: if_splits)
  have act: "(mp_action p = ''NONE'') = (\<not> mp_active p)"
    "(mp_action p = ''REVERT'') = (mp_active p \<and> mp_previousVersion p \<noteq> None)"
    using f(6) by auto
  have recs: "\<forall>r\<in>set (mp_records p). r \<in> set deps \<and> strict_eq (fld r ''ConfigID'') (mp_id p) \<and>
       num_eq (to_num (fld r ''Version'')) (policyVersionNumber (mp_latestVersion p))"
    by (simp add: f(7))
  have inactive: "\<not> mp_active p \<Longrightarrow> ps_status (mp_destinationSummary p) \<in>
       {''DEACTIVATED'', ''REMOVED'', ''FAILED'', ''REMOVAL_PENDING''}"
    using summary_deactivated_status [of "mp_records p"] by (simp add: f(8))
  show ?thesis using f(4) prev act recs inactive by blast
qed

theorem managed_policy_lifecycle_witness:
  "mp_action (hd (the (buildManagedPolicies (\<lambda>_. NaN) str_gt
     [[(''Target'', Str ''java-extension''), (''ID'', Str ''a''), (''Version'', Num (Fin 1)),
       (''Action'', Str ''deactivated'')]] []))) = ''NONE''"
proof -
  let ?v = "[(''Target'', Str ''java-extension''), (''ID'', Str ''a''), (''Version'', Num (Fin 1)),
       (''Action'', Str ''deactivated'')]"
  have "\<not> Option.is_none (buildManagedPolicies (\<lambda>_. NaN) str_gt [?v] [])" by code_simp
  then obtain ps where b: "buildManagedPolicies (\<lambda>_. NaN) str_gt [?v] [] = Some ps"
    by (auto simp: Option.is_none_def)
  have n: "\<forall>v\<in>set [?v]. policyVersionNumber v \<noteq> NaN" and d: "isDeactivatedPolicyVersion ?v"
    and k: "policy_key ?v = Some (Str ''a'')" by code_simp+
  have "Some ` mp_id ` set ps = {Some (Str ''a'')}"
    using policies.build_ids [OF b] k by simp
  then obtain p qs where p: "ps = p # qs" "p \<in> set ps" by (cases ps) auto
  have "mp_latestVersion p = ?v"
    using policy_entry(5) [OF b p(2)] by simp
  then have "mp_action p = ''NONE''"
    using managed_policy_lifecycle [OF b p(2)] d by simp
  then show ?thesis using b p by simp
qed

text \<open>The comparator of the list, for any collation that is a consistent comparator.\<close>

interpretation managed_policy_order: js_order "managed_policy_gt dp str_gt" "\<lambda>_. True" for dp
  unfolding managed_policy_gt_def
  by (rule newest_first_order) (simp, rule code_unit_order.js_order_axioms)

text \<open>the list is in the order the page shows it. With a collation that is a consistent
  comparator, no policy is preceded by one whose latest version is older, and policies of the same
  time are in the collation order of their identifiers; sorting the list again changes nothing.\<close>

theorem buildManagedPolicies_newest_first:
  assumes "buildManagedPolicies dp cg versions deps = Some ps" and "js_order cg (\<lambda>_. True)"
  shows "sorted_wrt (\<lambda>p q. \<not> num_lt (versionTimestamp dp (mp_latestVersion p)) (versionTimestamp dp (mp_latestVersion q)) \<and>
      (versionTimestamp dp (mp_latestVersion p) = versionTimestamp dp (mp_latestVersion q) \<longrightarrow>
        \<not> cg (to_str (mp_id p)) (to_str (mp_id q)))) ps \<and>
    js_sort (managed_policy_gt dp cg) ps = ps"
proof -
  have o: "js_order (managed_policy_gt dp cg) (\<lambda>_. True)"
    unfolding managed_policy_gt_def using assms(2) by (intro newest_first_order) auto
  note s = policies.build_sorted [OF assms(1) o]
  then show ?thesis
    by (simp add: managed_policy_gt_def newest_first_gt_iff)
qed

theorem buildManagedPolicies_newest_first_witness:
  "js_sort (managed_policy_gt (\<lambda>_. NaN) str_gt) (the (buildManagedPolicies (\<lambda>_. NaN) str_gt
     [[(''Target'', Str ''java-extension''), (''ID'', Str ''b''), (''Version'', Num (Fin 1))],
      [(''Target'', Str ''java-extension''), (''ID'', Str ''a''), (''Version'', Num (Fin 1))]] []))
   = the (buildManagedPolicies (\<lambda>_. NaN) str_gt
     [[(''Target'', Str ''java-extension''), (''ID'', Str ''b''), (''Version'', Num (Fin 1))],
      [(''Target'', Str ''java-extension''), (''ID'', Str ''a''), (''Version'', Num (Fin 1))]] [])"
proof -
  let ?vs = "[[(''Target'', Str ''java-extension''), (''ID'', Str ''b''), (''Version'', Num (Fin 1))],
      [(''Target'', Str ''java-extension''), (''ID'', Str ''a''), (''Version'', Num (Fin 1))]]"
  have "\<not> Option.is_none (buildManagedPolicies (\<lambda>_. NaN) str_gt ?vs [])" by code_simp
  then obtain ps where b: "buildManagedPolicies (\<lambda>_. NaN) str_gt ?vs [] = Some ps"
    by (auto simp: Option.is_none_def)
  show ?thesis
    using buildManagedPolicies_newest_first [OF b code_unit_order.js_order_axioms] b by simp
qed

end
