(* ===== verification/Collector.thy ===== *)
theory Collector
  imports Coverage Selection Policy_Catalog
begin

section \<open>Collector configurations (\<open>ui/src/collector-management.js\<close>)\<close>

text \<open>
  Managed collector configurations, and the immutable base configurations a Supervisor falls
  back to. The module keeps its own accessors of a version, which the theory follows; the
  tally of the records and the status it implies are its own too, and differ from those of
  policies in the states of the fallback.
\<close>

subsection \<open>Versions and bases\<close>

definition documentButtonLabel :: "jsval \<Rightarrow> string" where
  "documentButtonLabel target =
     (if starts_with (js_lower (js_trim (to_str (if target = Undef then Str '''' else target)))) ''collector''
      then (''Ver configuraci'' @ [CHR 0xF3] @ ''n'') else ''Ver policy'')"

definition versionID :: "jsobj \<Rightarrow> jsval" where
  "versionID version =
     js_or (js_or (js_or (fld version ''configId'') (fld version ''ConfigID'')) (fld version ''ID'')) (Str '''')"

definition collector_versionNumber :: "jsobj \<Rightarrow> jsnum" where
  "collector_versionNumber version =
     to_num (js_default (js_default (fld version ''Version'') (fld version ''version'')) (Num (Fin 0)))"

definition collector_versionTimestamp :: "(jsval \<Rightarrow> jsnum) \<Rightarrow> jsobj \<Rightarrow> jsnum" where
  "collector_versionTimestamp date_parse version =
     num_or (date_parse (js_or (js_or (fld version ''UpdatedAt'') (fld version ''CreatedAt'')) (Num (Fin 0))))
            (Fin 0)"

definition collector_versionAction :: "jsobj \<Rightarrow> string" where
  "collector_versionAction version =
     js_upper (to_str (js_or (js_or (fld version ''Action'') (fld version ''action'')) (Str ''PUBLISHED'')))"

definition isCollectorVersionInactive :: "jsobj \<Rightarrow> bool" where
  "isCollectorVersionInactive version \<longleftrightarrow>
     collector_versionAction version = ''DEACTIVATED'' \<or>
     strict_eq (fld version ''Active'') (Bool False) \<or>
     strict_eq (fld version ''active'') (Bool False)"

text \<open>\<open>{ ...base, ID: ..., Source: ..., ... }\<close>: the other properties of the base are kept.\<close>

definition normalizeCollectorBase :: "jsobj \<Rightarrow> jsobj" where
  "normalizeCollectorBase base =
     obj_spread base
       [(''ID'', Str (to_str (js_or (js_or (fld base ''ID'') (fld base ''id'')) (Str '''')))),
        (''Source'', Str (to_str (js_or (js_or (fld base ''Source'') (fld base ''source'')) (Str ''ConfigMap'')))),
        (''Revision'', Str (to_str (js_or (js_or (fld base ''Revision'') (fld base ''revision'')) (Str '''')))),
        (''Immutable'', js_default (js_default (fld base ''Immutable'') (fld base ''immutable'')) (Bool True)),
        (''Behavior'', Str (js_upper (to_str (js_or (js_or (fld base ''Behavior'') (fld base ''behavior'')) (Str ''NOP''))))),
        (''Services'', js_or (js_or (fld base ''Services'') (fld base ''services'')) (Arr [])),
        (''AgentUIDs'', js_or (js_or (js_or (fld base ''AgentUIDs'') (fld base ''agentUIDs'')) (fld base ''Agents'')) (Arr []))]"

record reported_versions =
  rv_collector :: string
  rv_supervisor :: string

definition collectorReportedVersions :: "jsobj \<Rightarrow> reported_versions" where
  "collectorReportedVersions agent =
     (let attributes = js_or (js_or (fld agent ''Attributes'') (fld agent ''attributes'')) (Obj [])
      in \<lparr>rv_collector = str_or (get attributes ''o11y.collector.version'') '''',
          rv_supervisor = str_or (get attributes ''o11y.supervisor.version'') ''''\<rparr>)"

text \<open>
  \<open>collectorBaseForAgent\<close>: the base embedded in the agent's report, completed with the
  registered base of that identifier, or else the first registered base that names the agent
  or its service. \<open>includes\<close> raises on a list of agents or services that is neither an array
  nor a string. An embedded base is looked up by \<open>===\<close>.
\<close>

definition base_names_agent :: "jsobj \<Rightarrow> jsobj \<Rightarrow> bool option" where
  "base_names_agent agent base = do {
     a \<leftarrow> val_includes (js_or (fld base ''AgentUIDs'') (Arr [])) (fld agent ''UID'');
     if a then Some True
     else val_includes (js_or (fld base ''Services'') (Arr [])) (fld agent ''Service'') }"

fun find_opt :: "('a \<Rightarrow> bool option) \<Rightarrow> 'a list \<Rightarrow> 'a option option" where
  "find_opt p [] = Some None"
| "find_opt p (x # xs) = do { b \<leftarrow> p x; if b then Some (Some x) else find_opt p xs }"

definition collectorBaseForAgent :: "jsobj \<Rightarrow> jsobj list \<Rightarrow> jsobj option option" where
  "collectorBaseForAgent agent bases =
     (let embedded = fld agent ''BaseConfig'';
          embeddedID = (case embedded of
              Str s \<Rightarrow> Str s
            | _ \<Rightarrow> js_or (get embedded ''ID'') (get embedded ''id''));
          normalized = map normalizeCollectorBase bases
      in if truthy embeddedID then
           (let registered = find (\<lambda>base. strict_eq (fld base ''ID'') embeddedID) normalized
            in Some (Some (normalizeCollectorBase
                 (obj_spread
                   (obj_spread (case registered of Some b \<Rightarrow> b | None \<Rightarrow> [])
                     (if is_object embedded then own_entries embedded else []))
                   [(''ID'', embeddedID)]))))
         else find_opt (base_names_agent agent) normalized)"

record collector_mode =
  cm_base :: "jsobj option"
  cm_baseActive :: bool
  cm_managedActive :: bool
  cm_liveStatus :: string
  cm_effectiveLabel :: string
  cm_fallbackLabel :: string

definition collector_live_status :: "bool \<Rightarrow> string \<Rightarrow> string" where
  "collector_live_status baseActive status =
     (if baseActive then
        (if status = ''FAILED'' \<or> status = ''BASE_FAILED'' then ''BASE_FAILED''
         else if status = ''CONFIG_PENDING'' \<or> status = ''BASE_PENDING'' then ''BASE_PENDING''
         else ''BASE_APPLIED'')
      else status)"

definition collectorAgentMode :: "jsobj \<Rightarrow> jsobj list \<Rightarrow> collector_mode option" where
  "collectorAgentMode agent bases = do {
     base \<leftarrow> collectorBaseForAgent agent bases;
     let origin = js_upper (str_or (fld agent ''EffectiveConfigOrigin'') '''');
         status = js_upper (str_or (fld agent ''ConfigStatus'') ''NOT_REPORTED'');
         baseActive = (origin = ''BASE'' \<or> starts_with status ''BASE_'');
         managedActive = (\<not> baseActive \<and> truthy (fld agent ''ConfigID'') \<and>
                          num_lt (Fin 0) (to_num (fld agent ''Version'')))
     in Some \<lparr>cm_base = base,
       cm_baseActive = baseActive,
       cm_managedActive = managedActive,
       cm_liveStatus = collector_live_status baseActive status,
       cm_effectiveLabel =
         (if baseActive then (''Base activa '' @ [CHR 0xB7] @ '' NOP'')
          else if managedActive
          then (''Administrada '' @ [CHR 0xB7] @ '' '') @ to_str (fld agent ''ConfigID'') @ '' v'' @ to_str (fld agent ''Version'')
          else (''Esperando configuraci'' @ [CHR 0xF3] @ ''n efectiva'')),
       cm_fallbackLabel =
         (case base of
            Some b \<Rightarrow> to_str (fld b ''ID'') @ ('' '' @ [CHR 0xB7] @ '' '') @ to_str (fld b ''Source'') @ ('' inmutable '' @ [CHR 0xB7] @ '' '') @
                      to_str (fld b ''Behavior'')
          | None \<Rightarrow> ''Base no reportada'')\<rparr> }"

definition baseMatchesCollector :: "jsobj \<Rightarrow> jsval list \<Rightarrow> jsval list \<Rightarrow> bool option" where
  "baseMatchesCollector base services agentUIDs = do {
     uids \<leftarrow> receiver (js_or (fld base ''AgentUIDs'') (Arr []));
     if \<exists>uid\<in>set uids. \<exists>a\<in>set agentUIDs. same_value_zero a uid then Some True
     else do {
       svcs \<leftarrow> receiver (js_or (fld base ''Services'') (Arr []));
       Some (\<exists>s\<in>set svcs. \<exists>a\<in>set services. same_value_zero a s) } }"

declare documentButtonLabel_def [js_eval] versionID_def [js_eval] collector_versionNumber_def [js_eval]
  collector_versionTimestamp_def [js_eval] collector_versionAction_def [js_eval]
  isCollectorVersionInactive_def [js_eval] normalizeCollectorBase_def [js_eval]
  collectorReportedVersions_def [js_eval] base_names_agent_def [js_eval]
  collectorBaseForAgent_def [js_eval] collector_live_status_def [js_eval]
  collectorAgentMode_def [js_eval] baseMatchesCollector_def [js_eval]

subsection \<open>The status of one record and the tally\<close>

definition collectorRecordStatus :: "jsobj \<Rightarrow> jsval" where
  "collectorRecordStatus rec =
     (let live = upper_or_empty (fld rec ''LiveStatus'') in
      if live \<in> {''BASE_PENDING'', ''BASE_APPLIED'', ''BASE_FAILED'', ''REMOVED''} then Str live
      else if strict_eq (fld rec ''DesiredPresence'') (Bool False) then
        (if js_upper (to_str (js_or (js_or (fld rec ''CurrentEffectiveConfigOrigin'')
                                         (fld rec ''CurrentConfigOrigin'')) (Str ''''))) = ''BASE''
         then (if strict_eq (fld rec ''CurrentConfigStatus'') (Str ''FAILED'') then Str ''BASE_FAILED''
               else Str ''BASE_APPLIED'')
         else (if strict_eq (fld rec ''ObservedStatus'') (Str ''FAILED'') then Str ''BASE_FAILED''
               else Str ''BASE_PENDING''))
      else if \<not> (strict_eq (fld rec ''CurrentConfigID'') (fld rec ''ConfigID'') \<and>
                 num_eq (to_num (fld rec ''CurrentConfigVersion'')) (to_num (fld rec ''Version'')))
      then Str ''SUPERSEDED''
      else if strict_eq (fld rec ''CurrentConfigStatus'') (Str ''FAILED'') then Str ''FAILED''
      else if \<not> strict_eq (fld rec ''CurrentConfigStatus'') (Str ''APPLIED'')
      then js_or (js_or (fld rec ''CurrentConfigStatus'') (fld rec ''ObservedStatus'')) (Str ''CONFIG_PENDING'')
      else if fld rec ''ConnectionStatus'' \<in> set connectedStatuses then Str ''APPLIED''
      else Str ''APPLIED_OFFLINE'')"

record collector_summary =
  cs_observed :: nat
  cs_matched :: nat
  cs_desiredMatched :: nat
  cs_removalMatched :: nat
  cs_historical :: nat
  cs_degraded :: nat
  cs_unknown :: nat
  cs_applied :: nat
  cs_offline :: nat
  cs_pending :: nat
  cs_failed :: nat
  cs_superseded :: nat
  cs_basePending :: nat
  cs_baseApplied :: nat
  cs_baseFailed :: nat
  cs_removed :: nat
  cs_status :: string

definition collector_tally_retained :: "jsobj \<Rightarrow> collector_summary \<Rightarrow> collector_summary" where
  "collector_tally_retained rec s =
     (let cov = deploymentCoverage rec in
      if cov_counts cov then s
      else if cov_state cov = ''HISTORICAL'' then s\<lparr>cs_historical := cs_historical s + 1\<rparr>
      else if cov_state cov = ''IN_SCOPE_DEGRADED'' then s\<lparr>cs_degraded := cs_degraded s + 1\<rparr>
      else s\<lparr>cs_unknown := cs_unknown s + 1\<rparr>)"

definition collector_tally_live :: "jsobj \<Rightarrow> collector_summary \<Rightarrow> collector_summary" where
  "collector_tally_live rec s =
     (let s = (if removal rec then s\<lparr>cs_removalMatched := cs_removalMatched s + 1\<rparr>
               else s\<lparr>cs_desiredMatched := cs_desiredMatched s + 1\<rparr>);
          status = collectorRecordStatus rec
      in if status = Str ''APPLIED'' then s\<lparr>cs_applied := cs_applied s + 1\<rparr>
         else if status = Str ''APPLIED_OFFLINE'' then s\<lparr>cs_offline := cs_offline s + 1\<rparr>
         else if status = Str ''FAILED'' then s\<lparr>cs_failed := cs_failed s + 1\<rparr>
         else if status = Str ''SUPERSEDED'' then s\<lparr>cs_superseded := cs_superseded s + 1\<rparr>
         else if status = Str ''BASE_PENDING'' then s\<lparr>cs_basePending := cs_basePending s + 1\<rparr>
         else if status = Str ''BASE_APPLIED'' then s\<lparr>cs_baseApplied := cs_baseApplied s + 1\<rparr>
         else if status = Str ''BASE_FAILED'' then s\<lparr>cs_baseFailed := cs_baseFailed s + 1\<rparr>
         else if status = Str ''REMOVED'' then s\<lparr>cs_removed := cs_removed s + 1\<rparr>
         else s\<lparr>cs_pending := cs_pending s + 1\<rparr>)"

definition collector_summary_init :: "jsobj list \<Rightarrow> collector_summary" where
  "collector_summary_init records =
     \<lparr>cs_observed = length records, cs_matched = length (filter live records), cs_desiredMatched = 0,
      cs_removalMatched = 0, cs_historical = 0, cs_degraded = 0, cs_unknown = 0, cs_applied = 0,
      cs_offline = 0, cs_pending = 0, cs_failed = 0, cs_superseded = 0, cs_basePending = 0,
      cs_baseApplied = 0, cs_baseFailed = 0, cs_removed = 0, cs_status = ''NO_LIVE_TARGETS''\<rparr>"

definition collector_summary_status :: "collector_summary \<Rightarrow> bool \<Rightarrow> string" where
  "collector_summary_status c active =
     (let confirmedRemovals = cs_baseApplied c + cs_removed c in
      if cs_matched c = 0 then ''NO_LIVE_TARGETS''
      else if \<not> active \<and> confirmedRemovals = cs_matched c then
        (if cs_removed c > 0 then ''REMOVED'' else ''BASE_APPLIED'')
      else if \<not> active \<and> cs_baseFailed c > 0 then ''BASE_FAILED''
      else if \<not> active then ''BASE_PENDING''
      else if cs_desiredMatched c = 0 \<and> cs_baseFailed c > 0 then ''BASE_FAILED''
      else if cs_desiredMatched c = 0 \<and> cs_basePending c > 0 then ''BASE_PENDING''
      else if cs_desiredMatched c = 0 then ''NO_LIVE_TARGETS''
      else if cs_applied c = cs_desiredMatched c \<and> confirmedRemovals = cs_removalMatched c then ''APPLIED''
      else if cs_offline c = cs_matched c then ''APPLIED_OFFLINE''
      else if cs_failed c > 0 \<and> cs_applied c = 0 then ''FAILED''
      else if cs_applied c + cs_offline c > 0 then ''PARTIAL''
      else if cs_pending c > 0 then ''CONFIG_PENDING''
      else ''NOT_IN_USE'')"

definition summarizeCollectorRecords :: "jsobj list \<Rightarrow> bool \<Rightarrow> collector_summary" where
  "summarizeCollectorRecords records active =
     (let s = fold collector_tally_live (filter live records)
                (fold collector_tally_retained records (collector_summary_init records))
      in s\<lparr>cs_status := collector_summary_status s active\<rparr>)"

declare collectorRecordStatus_def [js_eval] collector_tally_retained_def [js_eval]
  collector_tally_live_def [js_eval] collector_summary_init_def [js_eval]
  collector_summary_status_def [js_eval] summarizeCollectorRecords_def [js_eval]

end
