(* ===== verification/Collector_Catalog.thy ===== *)
theory Collector_Catalog
  imports Collector Catalog
begin

section \<open>The list of managed collector configurations (\<open>ui/src/collector-management.js\<close>)\<close>

text \<open>
  Second half of the module: the summary text, the configurations built from the stored
  versions, their filter, and the texts and endpoint of the withdrawal. \<open>Date.parse\<close> and
  \<open>localeCompare\<close> are parameters, as for policies.
\<close>

definition collectorSummaryText :: "collector_summary \<Rightarrow> string" where
  "collectorSummaryText s =
     (let n = nat_str; part = (\<lambda>k suffix. if k > 0 then [n k @ suffix] else []) in
      if cs_status s = ''REMOVED'' then
        n (cs_removed s) @ ''/'' @ n (cs_matched s) @
        ('' Supervisor(es) confirmaron el retiro mediante otra configuraci'' @ [CHR 0xF3] @ ''n administrada.'')
      else if cs_status s = ''BASE_APPLIED'' then
        n (cs_baseApplied s) @ ''/'' @ n (cs_matched s) @ '' Supervisor(es) confirmaron la base NOP.''
      else if cs_status s = ''BASE_PENDING'' then
        n (cs_baseApplied s) @ ''/'' @ n (cs_matched s) @ '' en base; falta confirmar el fallback.''
      else if cs_status s = ''BASE_FAILED'' then
        n (cs_baseFailed s) @ '' Supervisor(es) no pudieron activar la base.''
      else if cs_matched s = 0 then
        js_join ('' '' @ [CHR 0xB7] @ '' '') ([(''Sin destinos actualmente en l'' @ [CHR 0xED] @ ''nea'')] @
          part (cs_degraded s) ('' se'' @ [CHR 0xF1] @ ''al(es) degradada(s)'') @
          part (cs_historical s) ('' registro(s) hist'' @ [CHR 0xF3] @ ''rico(s)'') @
          part (cs_unknown s) '' estado(s) desconocido(s)'') @ ''.''
      else
        js_join ('' '' @ [CHR 0xB7] @ '' '') (
          [n (cs_applied s) @ ''/'' @ n (cs_desiredMatched s) @
             '' destino(s) vivo(s) coincidente(s) aplicada(s)''] @
          part (cs_failed s) '' rechazada(s)'' @
          part (cs_pending s) '' pendiente(s)'' @
          part (cs_superseded s) '' reemplazada(s)'' @
          (if cs_baseApplied s > 0 \<and> cs_removalMatched s > 0
           then [n (cs_baseApplied s) @ '' fallback(s) confirmado(s)''] else []) @
          part (cs_removed s) '' retiro(s) confirmado(s) por reemplazo administrado'' @
          part (cs_basePending s) '' fallback(s) pendiente(s)'' @
          part (cs_historical s) ('' registro(s) hist'' @ [CHR 0xF3] @ ''rico(s) excluido(s)'') @
          part (cs_degraded s) ('' se'' @ [CHR 0xF1] @ ''al(es) degradada(s)'') @
          part (cs_unknown s) '' estado(s) desconocido(s)''))"

record managed_collector =
  mc_id :: jsval
  mc_versions :: "jsobj list"
  mc_latestVersion :: jsobj
  mc_lastContentVersion :: jsobj
  mc_active :: bool
  mc_lifecycleStatus :: string
  mc_selector :: jsval
  mc_services :: "jsval list"
  mc_records :: "jsobj list"
  mc_fallbackBases :: "jsobj list"
  mc_destinationSummary :: collector_summary
  mc_action :: string
  mc_actionLabel :: string

definition collector_key :: "jsobj \<Rightarrow> jsval option" where
  "collector_key version =
     (if \<not> strict_eq (fld version ''Target'') (Str ''collector'') then None
      else if truthy (versionID version) then Some (versionID version) else None)"

definition collector_version_gt :: "(jsval \<Rightarrow> jsnum) \<Rightarrow> jsobj \<Rightarrow> jsobj \<Rightarrow> bool" where
  "collector_version_gt date_parse left right =
     num_positive (num_or (num_sub (collector_versionNumber left) (collector_versionNumber right))
                          (num_sub (collector_versionTimestamp date_parse left)
                                   (collector_versionTimestamp date_parse right)))"

definition managed_collector_of ::
  "(jsval \<Rightarrow> jsnum) \<Rightarrow> jsobj list \<Rightarrow> jsobj list \<Rightarrow> jsval \<times> jsobj list \<Rightarrow> managed_collector option" where
  "managed_collector_of date_parse deployments bases entry =
     (let ident = fst entry;
          sorted = js_sort (collector_version_gt date_parse) (snd entry);
          latest = last sorted;
          contentVersions = filter (\<lambda>v. js_trim (str_or (fld v ''Body'') '''') \<noteq> []) sorted;
          active = (\<not> isCollectorVersionInactive latest);
          records = filter (\<lambda>rec. strict_eq (fld rec ''Target'') (Str ''collector'') \<and>
             strict_eq (fld rec ''ConfigID'') ident \<and>
             num_eq (to_num (fld rec ''Version'')) (collector_versionNumber latest)) deployments;
          selector = js_or (fld latest ''Selector'') (Obj [])
      in do {
        selected \<leftarrow> iterate (js_or (get selector ''Services'') (Arr []));
        let services = sort_texts (unique (selected @ map (\<lambda>rec. fld rec ''Service'') records));
        uids \<leftarrow> iterate (js_or (get selector ''InstanceUIDs'') (Arr []));
        let agentUIDs = unique (uids @ map (\<lambda>rec. fld rec ''AgentUID'') records);
        fallbackBases \<leftarrow> filter_opt (\<lambda>base. baseMatchesCollector base services agentUIDs)
                           (map normalizeCollectorBase bases);
        Some \<lparr>mc_id = ident,
          mc_versions = sorted,
          mc_latestVersion = latest,
          mc_lastContentVersion = (case last_opt contentVersions of Some v \<Rightarrow> v | None \<Rightarrow> latest),
          mc_active = active,
          mc_lifecycleStatus = (if active then ''ACTIVE'' else ''DEACTIVATED''),
          mc_selector = selector,
          mc_services = services,
          mc_records = records,
          mc_fallbackBases = fallbackBases,
          mc_destinationSummary = summarizeCollectorRecords records active,
          mc_action = (if active then ''DEACTIVATE'' else ''NONE''),
          mc_actionLabel = (if active then ''Retirar config y usar base NOP'' else '''')\<rparr> })"

definition managed_collector_gt ::
  "(jsval \<Rightarrow> jsnum) \<Rightarrow> (string \<Rightarrow> string \<Rightarrow> bool) \<Rightarrow> managed_collector \<Rightarrow> managed_collector \<Rightarrow> bool" where
  "managed_collector_gt date_parse collate_gt =
     newest_first_gt (\<lambda>c. collector_versionTimestamp date_parse (mc_latestVersion c))
       (\<lambda>c. to_str (mc_id c)) collate_gt"

definition buildManagedCollectorConfigs ::
  "(jsval \<Rightarrow> jsnum) \<Rightarrow> (string \<Rightarrow> string \<Rightarrow> bool) \<Rightarrow> jsobj list \<Rightarrow> jsobj list \<Rightarrow> jsobj list \<Rightarrow>
     managed_collector list option" where
  "buildManagedCollectorConfigs date_parse collate_gt versions deployments bases = do {
     configs \<leftarrow> map_opt (managed_collector_of date_parse deployments bases) (group_by collector_key versions);
     Some (js_sort (managed_collector_gt date_parse collate_gt) configs) }"

definition filterManagedCollectorConfigs ::
  "managed_collector list \<Rightarrow> string \<Rightarrow> jsval \<Rightarrow> jsval \<Rightarrow> managed_collector list" where
  "filterManagedCollectorConfigs configs query status service =
     (let needle = js_lower (js_trim query) in
      filter (\<lambda>config.
        if \<not> matchesAnySelection status
              (Arr [Str (mc_lifecycleStatus config), Str (cs_status (mc_destinationSummary config))])
        then False
        else if \<not> matchesAnySelection service (Arr (mc_services config)) then False
        else if needle = [] then True
        else \<exists>v\<in>set ([mc_id config, fld (mc_latestVersion config) ''CreatedBy'',
                      fld (mc_latestVersion config) ''Hash'', Str (mc_lifecycleStatus config),
                      Str (cs_status (mc_destinationSummary config))]
                     @ mc_services config
                     @ map (\<lambda>base. fld base ''ID'') (mc_fallbackBases config)
                     @ map (\<lambda>(key, v). Str (key @ ''='' @ to_str v))
                         (own_entries (js_or (get (mc_selector config) ''Attributes'') (Obj [])))).
               js_includes (js_lower (str_or v '''')) needle)
        configs)"

definition collectorDeactivateEndpoint :: "string \<Rightarrow> string" where
  "collectorDeactivateEndpoint configID =
     ''/api/collector-configs/'' @ encode_uri_component configID @ ''/deactivate''"

definition collectorDeactivateConfirmation :: "managed_collector \<Rightarrow> string" where
  "collectorDeactivateConfirmation config =
     (if \<not> mc_active config then ''''
      else
        let fallback =
              (if mc_fallbackBases config \<noteq> []
               then js_join '', '' (map (\<lambda>base. to_str (fld base ''ID'')) (mc_fallbackBases config))
               else ''la base NOP inmutable reportada por cada Supervisor'')
        in ([CHR 0xBF] @ ''Retirar '') @ to_str (mc_id config) @ '' y activar '' @ fallback @
           (''? Se publicar'' @ [CHR 0xE1] @ '' una versi'' @ [CHR 0xF3] @ ''n nueva de retiro; ninguna versi'' @ [CHR 0xF3] @ ''n existente se sobrescribe. Los ConfigMap base y el historial no se modificar'' @ [CHR 0xE1] @ ''n.''))"

declare collectorSummaryText_def [js_eval] collector_key_def [js_eval] collector_version_gt_def [js_eval]
  managed_collector_of_def [js_eval] managed_collector_gt_def [js_eval]
  buildManagedCollectorConfigs_def [js_eval] filterManagedCollectorConfigs_def [js_eval]
  collectorDeactivateEndpoint_def [js_eval] collectorDeactivateConfirmation_def [js_eval]

subsection \<open>The two orders and the catalogue\<close>

lemma collector_versionTimestamp_number [simp]: "collector_versionTimestamp dp v \<noteq> NaN"
  by (cases "dp (js_or (js_or (fld v ''UpdatedAt'') (fld v ''CreatedAt'')) (Num (Fin 0)))")
     (auto simp: collector_versionTimestamp_def num_or_def)

interpretation collector_version_order: js_order "collector_version_gt dp"
    "\<lambda>v. collector_versionNumber v \<noteq> NaN" for dp
  unfolding collector_version_gt_def by (rule two_key_order) simp

interpretation managed_collector_order: js_order "managed_collector_gt dp str_gt" "\<lambda>_. True" for dp
  unfolding managed_collector_gt_def
  by (rule newest_first_order) (simp, rule code_unit_order.js_order_axioms)

lemma managed_collector_of_fields:
  assumes "managed_collector_of dp deps bases (k, vs) = Some c"
  shows "mc_id c = k" "mc_versions c = js_sort (collector_version_gt dp) vs"
    "mc_latestVersion c = last (js_sort (collector_version_gt dp) vs)"
    "mc_active c = (\<not> isCollectorVersionInactive (mc_latestVersion c))"
    "mc_action c = (if mc_active c then ''DEACTIVATE'' else ''NONE'')"
    "mc_records c = filter (\<lambda>rec. strict_eq (fld rec ''Target'') (Str ''collector'') \<and>
       strict_eq (fld rec ''ConfigID'') k \<and>
       num_eq (to_num (fld rec ''Version'')) (collector_versionNumber (mc_latestVersion c))) deps"
    "mc_destinationSummary c = summarizeCollectorRecords (mc_records c) (mc_active c)"
    "mc_lastContentVersion c =
       (case last_opt (filter (\<lambda>v. js_trim (str_or (fld v ''Body'') '''') \<noteq> []) (mc_versions c)) of
          Some v \<Rightarrow> v | None \<Rightarrow> mc_latestVersion c)"
  using assms unfolding managed_collector_of_def Let_def
  by (auto simp: bind_eq_Some_conv cong: option.case_cong)

interpretation collectors: catalogue collector_key "managed_collector_of dp deps bases" mc_id
    "managed_collector_gt dp cg"
    "\<lambda>versions. buildManagedCollectorConfigs dp cg versions deps bases" for dp cg deps bases
  by unfold_locales (auto simp: buildManagedCollectorConfigs_def managed_collector_of_fields(1))

lemma collector_entry:
  assumes "buildManagedCollectorConfigs dp cg versions deps bases = Some cs" "c \<in> set cs"
  shows "mc_versions c = js_sort (collector_version_gt dp) (filter (\<lambda>v. collector_key v = Some (mc_id c)) versions)"
    and "mc_latestVersion c = last (mc_versions c)" and "mc_versions c \<noteq> []"
    and "mc_latestVersion c \<in> set (mc_versions c)" "mc_latestVersion c \<in> set versions"
proof -
  note e = collectors.build_entry [OF assms]
  show v: "mc_versions c = js_sort (collector_version_gt dp) (filter (\<lambda>v. collector_key v = Some (mc_id c)) versions)"
    and l: "mc_latestVersion c = last (mc_versions c)" and n: "mc_versions c \<noteq> []"
    using e managed_collector_of_fields(2,3) [OF e(1)] by simp_all
  show "mc_latestVersion c \<in> set (mc_versions c)" using l n by simp
  then show "mc_latestVersion c \<in> set versions" using v by auto
qed

subsection \<open>Each counter is the number of records of its class\<close>

definition collector_as :: "string \<Rightarrow> jsobj \<Rightarrow> bool" where
  "collector_as st rec \<longleftrightarrow> live rec \<and> collectorRecordStatus rec = Str st"

definition collector_settled :: "string list" where
  "collector_settled = [''APPLIED'', ''APPLIED_OFFLINE'', ''FAILED'', ''SUPERSEDED'', ''BASE_PENDING'',
     ''BASE_APPLIED'', ''BASE_FAILED'', ''REMOVED'']"

definition collector_pending :: "jsobj \<Rightarrow> bool" where
  "collector_pending rec \<longleftrightarrow> live rec \<and> collectorRecordStatus rec \<notin> Str ` set collector_settled"

lemmas collector_tally_defs = collector_tally_live_def collector_tally_retained_def Let_def
lemmas collector_class_defs = collector_as_def collector_settled_def collector_pending_def
  retained_as_def retained_unknown_def live_def

lemma fold_filtered_counter:
  assumes "\<And>r s. f (step r s) = f s + (if P r then 1 else 0)"
  shows "f (fold step (filter L rs) s) = f s + length (filter (\<lambda>r. L r \<and> P r) rs)"
  using fold_counter [of f step P "filter L rs" s, OF assms] by (simp add: conj_commute)

lemma collector_tally_applied [js_count]:
  "cs_applied (fold collector_tally_live (filter live rs) (fold collector_tally_retained rs s)) =
    cs_applied s + length (filter (collector_as ''APPLIED'') rs)"
proof -
  have "cs_applied (fold collector_tally_retained rs s) = cs_applied s"
    by (rule fold_frame) (simp add: collector_tally_defs)
  then show ?thesis unfolding collector_as_def
    by (subst fold_filtered_counter) (simp_all add: collector_tally_defs)
qed

lemma collector_tally_offline [js_count]:
  "cs_offline (fold collector_tally_live (filter live rs) (fold collector_tally_retained rs s)) =
    cs_offline s + length (filter (collector_as ''APPLIED_OFFLINE'') rs)"
proof -
  have "cs_offline (fold collector_tally_retained rs s) = cs_offline s"
    by (rule fold_frame) (simp add: collector_tally_defs)
  then show ?thesis unfolding collector_as_def
    by (subst fold_filtered_counter) (simp_all add: collector_tally_defs)
qed

lemma collector_tally_failed [js_count]:
  "cs_failed (fold collector_tally_live (filter live rs) (fold collector_tally_retained rs s)) =
    cs_failed s + length (filter (collector_as ''FAILED'') rs)"
proof -
  have "cs_failed (fold collector_tally_retained rs s) = cs_failed s"
    by (rule fold_frame) (simp add: collector_tally_defs)
  then show ?thesis unfolding collector_as_def
    by (subst fold_filtered_counter) (simp_all add: collector_tally_defs)
qed

lemma collector_tally_superseded [js_count]:
  "cs_superseded (fold collector_tally_live (filter live rs) (fold collector_tally_retained rs s)) =
    cs_superseded s + length (filter (collector_as ''SUPERSEDED'') rs)"
proof -
  have "cs_superseded (fold collector_tally_retained rs s) = cs_superseded s"
    by (rule fold_frame) (simp add: collector_tally_defs)
  then show ?thesis unfolding collector_as_def
    by (subst fold_filtered_counter) (simp_all add: collector_tally_defs)
qed

lemma collector_tally_basePending [js_count]:
  "cs_basePending (fold collector_tally_live (filter live rs) (fold collector_tally_retained rs s)) =
    cs_basePending s + length (filter (collector_as ''BASE_PENDING'') rs)"
proof -
  have "cs_basePending (fold collector_tally_retained rs s) = cs_basePending s"
    by (rule fold_frame) (simp add: collector_tally_defs)
  then show ?thesis unfolding collector_as_def
    by (subst fold_filtered_counter) (simp_all add: collector_tally_defs)
qed

lemma collector_tally_baseApplied [js_count]:
  "cs_baseApplied (fold collector_tally_live (filter live rs) (fold collector_tally_retained rs s)) =
    cs_baseApplied s + length (filter (collector_as ''BASE_APPLIED'') rs)"
proof -
  have "cs_baseApplied (fold collector_tally_retained rs s) = cs_baseApplied s"
    by (rule fold_frame) (simp add: collector_tally_defs)
  then show ?thesis unfolding collector_as_def
    by (subst fold_filtered_counter) (simp_all add: collector_tally_defs)
qed

lemma collector_tally_baseFailed [js_count]:
  "cs_baseFailed (fold collector_tally_live (filter live rs) (fold collector_tally_retained rs s)) =
    cs_baseFailed s + length (filter (collector_as ''BASE_FAILED'') rs)"
proof -
  have "cs_baseFailed (fold collector_tally_retained rs s) = cs_baseFailed s"
    by (rule fold_frame) (simp add: collector_tally_defs)
  then show ?thesis unfolding collector_as_def
    by (subst fold_filtered_counter) (simp_all add: collector_tally_defs)
qed

lemma collector_tally_removed [js_count]:
  "cs_removed (fold collector_tally_live (filter live rs) (fold collector_tally_retained rs s)) =
    cs_removed s + length (filter (collector_as ''REMOVED'') rs)"
proof -
  have "cs_removed (fold collector_tally_retained rs s) = cs_removed s"
    by (rule fold_frame) (simp add: collector_tally_defs)
  then show ?thesis unfolding collector_as_def
    by (subst fold_filtered_counter) (simp_all add: collector_tally_defs)
qed

lemma collector_tally_pending [js_count]:
  "cs_pending (fold collector_tally_live (filter live rs) (fold collector_tally_retained rs s)) =
    cs_pending s + length (filter collector_pending rs)"
proof -
  have "cs_pending (fold collector_tally_retained rs s) = cs_pending s"
    by (rule fold_frame) (simp add: collector_tally_defs)
  then show ?thesis unfolding collector_pending_def
    by (subst fold_filtered_counter) (simp_all add: collector_tally_defs collector_settled_def)
qed

lemma collector_tally_desiredMatched [js_count]:
  "cs_desiredMatched (fold collector_tally_live (filter live rs) (fold collector_tally_retained rs s)) =
    cs_desiredMatched s + length (filter (\<lambda>r. live r \<and> \<not> removal r) rs)"
proof -
  have "cs_desiredMatched (fold collector_tally_retained rs s) = cs_desiredMatched s"
    by (rule fold_frame) (simp add: collector_tally_defs)
  then show ?thesis
    by (subst fold_filtered_counter [where P = "\<lambda>r. \<not> removal r"]) (simp_all add: collector_tally_defs)
qed

lemma collector_tally_removalMatched [js_count]:
  "cs_removalMatched (fold collector_tally_live (filter live rs) (fold collector_tally_retained rs s)) =
    cs_removalMatched s + length (filter (\<lambda>r. live r \<and> removal r) rs)"
proof -
  have "cs_removalMatched (fold collector_tally_retained rs s) = cs_removalMatched s"
    by (rule fold_frame) (simp add: collector_tally_defs)
  then show ?thesis
    by (subst fold_filtered_counter [where P = "\<lambda>r. removal r"]) (simp_all add: collector_tally_defs)
qed

lemma collector_tally_historical [js_count]:
  "cs_historical (fold collector_tally_live (filter live rs) (fold collector_tally_retained rs s)) =
    cs_historical s + length (filter (retained_as ''HISTORICAL'') rs)"
proof -
  have "cs_historical (fold collector_tally_live qs t) = cs_historical t" for qs t
    by (rule fold_frame) (simp add: collector_tally_defs)
  then show ?thesis
    by (simp add: fold_counter [where f = cs_historical and P = "retained_as ''HISTORICAL''"] collector_tally_defs collector_class_defs)
qed

lemma collector_tally_degraded [js_count]:
  "cs_degraded (fold collector_tally_live (filter live rs) (fold collector_tally_retained rs s)) =
    cs_degraded s + length (filter (retained_as ''IN_SCOPE_DEGRADED'') rs)"
proof -
  have "cs_degraded (fold collector_tally_live qs t) = cs_degraded t" for qs t
    by (rule fold_frame) (simp add: collector_tally_defs)
  then show ?thesis
    by (simp add: fold_counter [where f = cs_degraded and P = "retained_as ''IN_SCOPE_DEGRADED''"] collector_tally_defs collector_class_defs)
qed

lemma collector_tally_unknown [js_count]:
  "cs_unknown (fold collector_tally_live (filter live rs) (fold collector_tally_retained rs s)) =
    cs_unknown s + length (filter (retained_unknown) rs)"
proof -
  have "cs_unknown (fold collector_tally_live qs t) = cs_unknown t" for qs t
    by (rule fold_frame) (simp add: collector_tally_defs)
  then show ?thesis
    by (simp add: fold_counter [where f = cs_unknown and P = "retained_unknown"] collector_tally_defs collector_class_defs)
qed

lemma collector_tally_matched [js_count]:
  "cs_matched (fold collector_tally_live qs (fold collector_tally_retained rs s)) = cs_matched s"
proof -
  have "cs_matched (fold collector_tally_live qs t) = cs_matched t" for t
    by (rule fold_frame) (simp add: collector_tally_defs)
  moreover have "cs_matched (fold collector_tally_retained rs s) = cs_matched s"
    by (rule fold_frame) (simp add: collector_tally_defs)
  ultimately show ?thesis by simp
qed

lemma collector_tally_observed [js_count]:
  "cs_observed (fold collector_tally_live qs (fold collector_tally_retained rs s)) = cs_observed s"
proof -
  have "cs_observed (fold collector_tally_live qs t) = cs_observed t" for t
    by (rule fold_frame) (simp add: collector_tally_defs)
  moreover have "cs_observed (fold collector_tally_retained rs s) = cs_observed s"
    by (rule fold_frame) (simp add: collector_tally_defs)
  ultimately show ?thesis by simp
qed

lemma collector_summary_fields [js_count]:
  "cs_observed (summarizeCollectorRecords rs a) = length rs"
  "cs_matched (summarizeCollectorRecords rs a) = length (filter live rs)"
  "cs_desiredMatched (summarizeCollectorRecords rs a) = length (filter (\<lambda>r. live r \<and> \<not> removal r) rs)"
  "cs_removalMatched (summarizeCollectorRecords rs a) = length (filter (\<lambda>r. live r \<and> removal r) rs)"
  "cs_historical (summarizeCollectorRecords rs a) = length (filter (retained_as ''HISTORICAL'') rs)"
  "cs_degraded (summarizeCollectorRecords rs a) = length (filter (retained_as ''IN_SCOPE_DEGRADED'') rs)"
  "cs_unknown (summarizeCollectorRecords rs a) = length (filter retained_unknown rs)"
  "cs_applied (summarizeCollectorRecords rs a) = length (filter (collector_as ''APPLIED'') rs)"
  "cs_offline (summarizeCollectorRecords rs a) = length (filter (collector_as ''APPLIED_OFFLINE'') rs)"
  "cs_failed (summarizeCollectorRecords rs a) = length (filter (collector_as ''FAILED'') rs)"
  "cs_superseded (summarizeCollectorRecords rs a) = length (filter (collector_as ''SUPERSEDED'') rs)"
  "cs_basePending (summarizeCollectorRecords rs a) = length (filter (collector_as ''BASE_PENDING'') rs)"
  "cs_baseApplied (summarizeCollectorRecords rs a) = length (filter (collector_as ''BASE_APPLIED'') rs)"
  "cs_baseFailed (summarizeCollectorRecords rs a) = length (filter (collector_as ''BASE_FAILED'') rs)"
  "cs_removed (summarizeCollectorRecords rs a) = length (filter (collector_as ''REMOVED'') rs)"
  "cs_pending (summarizeCollectorRecords rs a) = length (filter collector_pending rs)"
  by (simp_all add: summarizeCollectorRecords_def collector_summary_init_def Let_def js_count)

lemma collector_status_update [simp]:
  "collector_summary_status (s\<lparr>cs_status := x\<rparr>) a = collector_summary_status s a"
  by (cases s) (simp only: collector_summary_status_def collector_summary.simps)

lemma cs_status_update: "cs_status (s\<lparr>cs_status := x\<rparr>) = x"
  by simp

lemma collector_status_eq:
  "cs_status (summarizeCollectorRecords rs a) = collector_summary_status (summarizeCollectorRecords rs a) a"
  by (simp only: summarizeCollectorRecords_def Let_def collector_status_update cs_status_update)

lemma collector_classes:
  "length (filter live rs) =
     length (filter (collector_as ''APPLIED'') rs) + length (filter (collector_as ''APPLIED_OFFLINE'') rs) +
     length (filter (collector_as ''FAILED'') rs) + length (filter (collector_as ''SUPERSEDED'') rs) +
     length (filter (collector_as ''BASE_PENDING'') rs) + length (filter (collector_as ''BASE_APPLIED'') rs) +
     length (filter (collector_as ''BASE_FAILED'') rs) + length (filter (collector_as ''REMOVED'') rs) +
     length (filter collector_pending rs)"
  by (induction rs) (auto simp: collector_class_defs)

subsection \<open>What the summary promises\<close>

lemma confirmed_count:
  "length (filter (collector_as a) rs) + length (filter (collector_as b) rs) =
    length (filter (\<lambda>r. live r \<and> (collector_as a r \<or> collector_as b r)) rs)" if "a \<noteq> b"
  using that by (induction rs) (auto simp: collector_as_def)

lemma all_confirmed_iff:
  "a \<noteq> b \<Longrightarrow>
    length (filter (collector_as a) rs) + length (filter (collector_as b) rs) = length (filter live rs) \<longleftrightarrow>
    (\<forall>r\<in>set rs. live r \<longrightarrow> collectorRecordStatus r \<in> {Str a, Str b})"
  by (simp add: confirmed_count length_filter_imp_eq) (auto simp: collector_as_def)

lemma withdrawn_status:
  "cs_status (summarizeCollectorRecords rs False) \<in> {''REMOVED'', ''BASE_APPLIED''} \<longleftrightarrow>
    (\<exists>r\<in>set rs. live r) \<and>
    length (filter (collector_as ''BASE_APPLIED'') rs) + length (filter (collector_as ''REMOVED'') rs) =
      length (filter live rs)"
proof -
  have "(\<exists>r\<in>set rs. live r) \<longleftrightarrow> length (filter live rs) \<noteq> 0"
    using length_filter_pos [of live rs] by simp
  then show ?thesis
    unfolding collector_status_eq collector_summary_status_def Let_def js_count by simp
qed

lemma withdrawn_kind:
  "cs_status (summarizeCollectorRecords rs False) = ''REMOVED'' \<Longrightarrow>
    0 < length (filter (collector_as ''REMOVED'') rs)"
  unfolding collector_status_eq collector_summary_status_def Let_def js_count by (simp split: if_splits)

lemma live_filter_collector:
  "(\<And>r. P r \<Longrightarrow> live r) \<Longrightarrow> filter live rs = filter live rs' \<Longrightarrow>
    length (filter P rs) = length (filter P rs')"
  using filter_live [of P rs] filter_live [of P rs'] by simp

text \<open>the collector summary accounts for every record once: the observed records are the live
  ones and the three kinds retained for audit, the live ones split into wanted and withdrawn, and
  again into the nine outcomes.\<close>

theorem summarizeCollectorRecords_accounts:
  "let s = summarizeCollectorRecords rs a in
     cs_observed s = cs_matched s + cs_historical s + cs_degraded s + cs_unknown s \<and>
     cs_matched s = cs_desiredMatched s + cs_removalMatched s \<and>
     cs_matched s = cs_applied s + cs_offline s + cs_failed s + cs_superseded s + cs_basePending s +
       cs_baseApplied s + cs_baseFailed s + cs_removed s + cs_pending s"
  using collector_classes [of rs] retained_classes [of rs] length_filter_split [of live rs removal]
  by (simp only: js_count Let_def add_0 simp_thms)

text \<open>C24: a withdrawn collector configuration is shown as off all its destinations exactly when
  some destination is live and every live one has confirmed, with its base or with a replacement.
  It is shown as replaced rather than on its base only when some destination was replaced.\<close>

theorem collector_withdrawal_confirmed:
  "(cs_status (summarizeCollectorRecords rs False) \<in> {''REMOVED'', ''BASE_APPLIED''} \<longleftrightarrow>
      (\<exists>r\<in>set rs. live r) \<and>
      (\<forall>r\<in>set rs. live r \<longrightarrow> collectorRecordStatus r \<in> {Str ''BASE_APPLIED'', Str ''REMOVED''})) \<and>
   (cs_status (summarizeCollectorRecords rs False) = ''REMOVED'' \<longrightarrow>
      (\<exists>r\<in>set rs. live r \<and> collectorRecordStatus r = Str ''REMOVED''))"
proof
  have "''BASE_APPLIED'' \<noteq> ''REMOVED''" by simp
  note confirmed = all_confirmed_iff [OF this, of rs]
  show "cs_status (summarizeCollectorRecords rs False) \<in> {''REMOVED'', ''BASE_APPLIED''} \<longleftrightarrow>
      (\<exists>r\<in>set rs. live r) \<and>
      (\<forall>r\<in>set rs. live r \<longrightarrow> collectorRecordStatus r \<in> {Str ''BASE_APPLIED'', Str ''REMOVED''})"
    unfolding withdrawn_status confirmed by (rule refl)
  show "cs_status (summarizeCollectorRecords rs False) = ''REMOVED'' \<longrightarrow>
      (\<exists>r\<in>set rs. live r \<and> collectorRecordStatus r = Str ''REMOVED'')"
    using withdrawn_kind length_filter_pos [of "collector_as ''REMOVED''" rs]
    by (auto simp: collector_as_def)
qed

theorem collector_withdrawal_confirmed_witness:
  "cs_status (summarizeCollectorRecords
     [[(''ConnectionStatus'', Str ''ONLINE''), (''LiveStatus'', Str ''base_applied'')],
      [(''ConnectionStatus'', Str ''OFFLINE''), (''LiveStatus'', Str ''BASE_FAILED'')]] False)
     \<in> {''REMOVED'', ''BASE_APPLIED''}"
proof -
  let ?on = "[(''ConnectionStatus'', Str ''ONLINE''), (''LiveStatus'', Str ''base_applied'')]"
  let ?off = "[(''ConnectionStatus'', Str ''OFFLINE''), (''LiveStatus'', Str ''BASE_FAILED'')]"
  have "live ?on" "\<not> live ?off" "collectorRecordStatus ?on = Str ''BASE_APPLIED''"
    by code_simp+
  then have "(\<exists>r\<in>set [?on, ?off]. live r) \<and>
      (\<forall>r\<in>set [?on, ?off]. live r \<longrightarrow> collectorRecordStatus r \<in> {Str ''BASE_APPLIED'', Str ''REMOVED''})"
    by auto
  then show ?thesis using collector_withdrawal_confirmed [of "[?on, ?off]"] by blast
qed

text \<open>the list of collector configurations is a partition of the stored collector versions,
  each entry holds its versions sorted with a latest one that none exceeds, offers to withdraw
  exactly the active ones, and restores content only from a version that has content when any
  version of the configuration has some.\<close>

theorem buildManagedCollectorConfigs_partition:
  assumes "buildManagedCollectorConfigs dp cg versions deps bases = Some cs"
    and "\<forall>v\<in>set versions. collector_versionNumber v \<noteq> NaN"
  shows "distinct (map mc_id cs) \<and>
    Some ` mc_id ` set cs = collector_key ` set versions - {None} \<and>
    (\<forall>c\<in>set cs.
       set (mc_versions c) = {v \<in> set versions. collector_key v = Some (mc_id c)} \<and>
       mc_latestVersion c \<in> set (mc_versions c) \<and>
       (\<forall>v\<in>set (mc_versions c). \<not> collector_version_gt dp v (mc_latestVersion c)) \<and>
       (mc_action c = ''DEACTIVATE'' \<longleftrightarrow> \<not> isCollectorVersionInactive (mc_latestVersion c)) \<and>
       ((\<exists>v\<in>set (mc_versions c). js_trim (str_or (fld v ''Body'') '''') \<noteq> []) \<longrightarrow>
          js_trim (str_or (fld (mc_lastContentVersion c) ''Body'') '''') \<noteq> []))"
proof (intro conjI ballI)
  show "distinct (map mc_id cs)" using assms(1) by (rule collectors.build_distinct)
  show "Some ` mc_id ` set cs = collector_key ` set versions - {None}"
    using assms(1) by (rule collectors.build_ids)
  fix c assume c: "c \<in> set cs"
  note e = collector_entry [OF assms(1) c]
  note f = managed_collector_of_fields [OF collectors.build_entry(1) [OF assms(1) c]]
  show "set (mc_versions c) = {v \<in> set versions. collector_key v = Some (mc_id c)}"
    unfolding e(1) by auto
  show "mc_latestVersion c \<in> set (mc_versions c)" by (rule e(4))
  show "mc_action c = ''DEACTIVATE'' \<longleftrightarrow> \<not> isCollectorVersionInactive (mc_latestVersion c)"
    using f(4,5) by simp
  show "(\<exists>v\<in>set (mc_versions c). js_trim (str_or (fld v ''Body'') '''') \<noteq> []) \<longrightarrow>
      js_trim (str_or (fld (mc_lastContentVersion c) ''Body'') '''') \<noteq> []"
  proof
    let ?P = "\<lambda>v. js_trim (str_or (fld v ''Body'') '''') \<noteq> []"
    assume "\<exists>v\<in>set (mc_versions c). ?P v"
    then have "filter ?P (mc_versions c) \<noteq> []" by (simp add: filter_empty_conv)
    then obtain w where w: "last_opt (filter ?P (mc_versions c)) = Some w"
      by (simp only: last_opt_def if_False option.inject simp_thms)
    have "mc_lastContentVersion c = w" unfolding f(8) w by simp
    with last_opt_filter [OF w] show "?P (mc_lastContentVersion c)" by simp
  qed
  fix v assume "v \<in> set (mc_versions c)"
  then show "\<not> collector_version_gt dp v (mc_latestVersion c)"
    using e(1,2) assms(2) collector_version_order.sort_last_max [of _ v dp] by auto
qed

theorem buildManagedCollectorConfigs_partition_witness:
  "map mc_id (the (buildManagedCollectorConfigs (\<lambda>_. NaN) str_gt
     [[(''Target'', Str ''collector''), (''ID'', Str ''c''), (''Version'', Num (Fin 1))],
      [(''Target'', Str ''java-extension''), (''ID'', Str ''j''), (''Version'', Num (Fin 1))]] [] []))
   = [Str ''c'']"
proof -
  let ?c = "[(''Target'', Str ''collector''), (''ID'', Str ''c''), (''Version'', Num (Fin 1))]"
  let ?j = "[(''Target'', Str ''java-extension''), (''ID'', Str ''j''), (''Version'', Num (Fin 1))]"
  have "\<not> Option.is_none (buildManagedCollectorConfigs (\<lambda>_. NaN) str_gt [?c, ?j] [] [])" by code_simp
  then obtain cs where b: "buildManagedCollectorConfigs (\<lambda>_. NaN) str_gt [?c, ?j] [] [] = Some cs"
    by (auto simp: Option.is_none_def)
  have n: "\<forall>v\<in>set [?c, ?j]. collector_versionNumber v \<noteq> NaN"
    and k: "collector_key ?c = Some (Str ''c'')" "collector_key ?j = None" by code_simp+
  have "distinct (map mc_id cs)" "Some ` mc_id ` set cs = {Some (Str ''c'')}"
    using buildManagedCollectorConfigs_partition [OF b n] k by auto
  then have "map mc_id cs = [Str ''c'']"
    by (cases cs; cases "tl cs") auto
  with b show ?thesis by simp
qed

subsection \<open>The mode of a collector agent\<close>

definition base_lists_readable :: "jsobj \<Rightarrow> bool" where
  "base_lists_readable base \<longleftrightarrow>
     is_array (fld (normalizeCollectorBase base) ''AgentUIDs'') \<and>
     is_array (fld (normalizeCollectorBase base) ''Services'')"

lemma val_includes_array: "is_array v \<Longrightarrow> val_includes (js_or v d) x \<noteq> None"
  by (cases v) (auto simp: js_or_def)

lemma base_names_agent_total: "base_lists_readable b \<Longrightarrow> base_names_agent agent (normalizeCollectorBase b) \<noteq> None"
  using val_includes_array [of "fld (normalizeCollectorBase b) ''AgentUIDs''" "Arr []" "fld agent ''UID''"]
    val_includes_array [of "fld (normalizeCollectorBase b) ''Services''" "Arr []" "fld agent ''Service''"]
  unfolding base_lists_readable_def base_names_agent_def by (auto split: option.splits)

lemma find_opt_total: "\<forall>x\<in>set xs. p x \<noteq> None \<Longrightarrow> find_opt p xs \<noteq> None"
  by (induction xs) auto

lemma collectorBaseForAgent_total:
  "\<forall>b\<in>set bases. base_lists_readable b \<Longrightarrow> collectorBaseForAgent agent bases \<noteq> None"
  unfolding collectorBaseForAgent_def Let_def
  using find_opt_total [of "map normalizeCollectorBase bases" "base_names_agent agent"]
    base_names_agent_total by (simp del: not_None_eq)

text \<open>the mode of a collector is defined and unambiguous. It can be computed whenever the
  registered bases list agents and services as arrays (or not at all); a collector never runs its base and a
  managed configuration at once; while it runs the base its status is one of the three base
  states, and otherwise the status it reported.\<close>

theorem collectorAgentMode_unambiguous:
  "(\<forall>b\<in>set bases. base_lists_readable b) \<Longrightarrow>
    \<exists>m. collectorAgentMode agent bases = Some m \<and>
      \<not> (cm_baseActive m \<and> cm_managedActive m) \<and>
      (cm_baseActive m \<longrightarrow> cm_liveStatus m \<in> {''BASE_FAILED'', ''BASE_PENDING'', ''BASE_APPLIED''}) \<and>
      (\<not> cm_baseActive m \<longrightarrow>
         cm_liveStatus m = js_upper (str_or (fld agent ''ConfigStatus'') ''NOT_REPORTED''))"
  using collectorBaseForAgent_total [of bases agent]
  unfolding collectorAgentMode_def Let_def
  by (auto simp: collector_live_status_def)

theorem collectorAgentMode_unambiguous_witness:
  "\<exists>m. collectorAgentMode [(''EffectiveConfigOrigin'', Str ''base''), (''ConfigStatus'', Str ''failed'')]
      [[(''ID'', Str ''b'')]] = Some m \<and> \<not> (cm_baseActive m \<and> cm_managedActive m)"
proof -
  have "\<forall>b\<in>set [[(''ID'', Str ''b'')]]. base_lists_readable b" by code_simp
  from collectorAgentMode_unambiguous [OF this] show ?thesis by blast
qed

end
