(* ===== verification/Comparator.thy ===== *)
theory Comparator
  imports Js_Value
begin

section \<open>Comparators that return numbers\<close>

text \<open>
  \<open>sort\<close> reads the sign of what its comparator returns. The locale \<open>comparator\<close> is the contract
  of a comparator on the values \<open>ok\<close> admits; the lemmas build the comparators of the program from
  their parts, as the source does: \<open>a || b\<close> of two comparators, a comparator on a key, and the
  difference of two numbers. \<open>localeCompare\<close> with fixed locale and options is an argument
  \<open>collate\<close> of the definitions that use it; \<open>code_unit_collate\<close> is one concrete instance.
\<close>

fun num_sign :: "jsnum \<Rightarrow> int" where
  "num_sign NaN = 0"
| "num_sign PosInf = 1"
| "num_sign NegInf = -1"
| "num_sign (Fin q) = (if q > 0 then 1 else if q < 0 then -1 else 0)"

definition sort_by :: "('a \<Rightarrow> 'a \<Rightarrow> jsnum) \<Rightarrow> 'a list \<Rightarrow> 'a list" where
  "sort_by cmp xs = js_sort (\<lambda>x y. num_positive (cmp x y)) xs"

definition code_unit_collate :: "string \<Rightarrow> string \<Rightarrow> jsnum" where
  "code_unit_collate s t = (if str_gt s t then Fin 1 else if str_gt t s then Fin (-1) else Fin 0)"

declare sort_by_def [js_eval] code_unit_collate_def [js_eval]

lemma num_positive_sign: "num_positive n \<longleftrightarrow> num_sign n > 0"
  by (cases n) (auto simp: num_positive_def)

lemma num_truthy_sign: "num_truthy n \<longleftrightarrow> num_sign n \<noteq> 0"
  by (cases n) auto

lemma num_sign_or: "num_sign (num_or a b) = (if num_sign a \<noteq> 0 then num_sign a else num_sign b)"
  by (simp add: num_or_def num_truthy_sign)

lemma num_sign_sub:
  "a \<noteq> NaN \<Longrightarrow> b \<noteq> NaN \<Longrightarrow> num_sign (num_sub a b) = (if num_lt b a then 1 else if num_lt a b then -1 else 0)"
  by (cases a; cases b) auto

lemma num_sign_range: "num_sign n = -1 \<or> num_sign n = 0 \<or> num_sign n = 1"
  by (cases n) auto

locale comparator =
  fixes cmp :: "'a \<Rightarrow> 'a \<Rightarrow> jsnum"
    and ok :: "'a \<Rightarrow> bool"
  assumes sign_swap: "ok x \<Longrightarrow> ok y \<Longrightarrow> num_sign (cmp y x) = - num_sign (cmp x y)"
    and sign_trans: "ok x \<Longrightarrow> ok y \<Longrightarrow> ok z \<Longrightarrow>
      num_sign (cmp x y) \<le> 0 \<Longrightarrow> num_sign (cmp y z) \<le> 0 \<Longrightarrow> num_sign (cmp x z) \<le> 0"

sublocale comparator \<subseteq> ord: js_order "\<lambda>x y. num_positive (cmp x y)" ok
proof
  fix x y z
  show "ok x \<Longrightarrow> ok y \<Longrightarrow> num_positive (cmp x y) \<Longrightarrow> \<not> num_positive (cmp y x)"
    using sign_swap [of x y] by (simp add: num_positive_sign)
  show "ok x \<Longrightarrow> ok y \<Longrightarrow> ok z \<Longrightarrow> \<not> num_positive (cmp x y) \<Longrightarrow> \<not> num_positive (cmp y z) \<Longrightarrow>
    \<not> num_positive (cmp x z)"
    using sign_trans [of x y z] by (simp add: num_positive_sign)
qed

context comparator
begin

lemma sign_refl: "ok x \<Longrightarrow> num_sign (cmp x x) = 0"
  using sign_swap [of x x] by simp

lemma sign_zero_left:
  assumes "ok x" "ok y" "ok z" "num_sign (cmp x y) = 0"
  shows "num_sign (cmp x z) = num_sign (cmp y z)"
proof -
  have yx: "num_sign (cmp y x) = 0"
    using assms sign_swap [of x y] by simp
  have "num_sign (cmp x z) \<le> 0 \<longleftrightarrow> num_sign (cmp y z) \<le> 0"
    using sign_trans [of x y z] sign_trans [of y x z] assms yx by linarith
  moreover have "num_sign (cmp z x) \<le> 0 \<longleftrightarrow> num_sign (cmp z y) \<le> 0"
    using sign_trans [of z x y] sign_trans [of z y x] assms yx by linarith
  moreover have "num_sign (cmp z x) = - num_sign (cmp x z)" "num_sign (cmp z y) = - num_sign (cmp y z)"
    by (rule sign_swap [OF assms(1,3)], rule sign_swap [OF assms(2,3)])
  ultimately show ?thesis
    using num_sign_range [of "cmp x z"] num_sign_range [of "cmp y z"] by linarith
qed

lemma sign_zero_right:
  "ok x \<Longrightarrow> ok y \<Longrightarrow> ok z \<Longrightarrow> num_sign (cmp x y) = 0 \<Longrightarrow> num_sign (cmp z x) = num_sign (cmp z y)"
  using sign_zero_left [of x y z] sign_swap [of x z] sign_swap [of y z] by linarith

lemma sort_by_sorted: "\<forall>x\<in>set xs. ok x \<Longrightarrow> sorted_wrt (\<lambda>a b. num_sign (cmp a b) \<le> 0) (sort_by cmp xs)"
  using ord.sort_sorted [of xs] by (simp add: sort_by_def num_positive_sign not_less)

lemma sort_by_idem: "\<forall>x\<in>set xs. ok x \<Longrightarrow> sort_by cmp (sort_by cmp xs) = sort_by cmp xs"
  by (simp add: sort_by_def ord.sort_idem)

end

lemma set_sort_by [simp]: "set (sort_by cmp xs) = set xs"
  by (simp add: sort_by_def)

lemma length_sort_by [simp]: "length (sort_by cmp xs) = length xs"
  by (simp add: sort_by_def)

lemma distinct_sort_by [simp]: "distinct (sort_by cmp xs) = distinct xs"
  by (simp add: sort_by_def)

lemma count_sort_by [simp]: "length (filter P (sort_by cmp xs)) = length (filter P xs)"
  by (simp add: sort_by_def)

lemma sort_by_Nil [simp]: "sort_by cmp [] = []" "sort_by cmp xs = [] \<longleftrightarrow> xs = []"
  by (simp_all add: sort_by_def)

subsection \<open>Building comparators\<close>

lemma comparator_or:
  assumes a: "comparator a ok" and b: "comparator b ok"
  shows "comparator (\<lambda>x y. num_or (a x y) (b x y)) ok"
proof
  fix x y z
  show "num_sign (num_or (a y x) (b y x)) = - num_sign (num_or (a x y) (b x y))" if "ok x" "ok y"
    using comparator.sign_swap [OF a that] comparator.sign_swap [OF b that] by (simp add: num_sign_or)
  assume ok: "ok x" "ok y" "ok z"
    and xy: "num_sign (num_or (a x y) (b x y)) \<le> 0" and yz: "num_sign (num_or (a y z) (b y z)) \<le> 0"
  have axz: "num_sign (a x z) \<le> 0"
    using comparator.sign_trans [OF a, of x y z] ok xy yz by (auto simp: num_sign_or split: if_splits)
  moreover have "num_sign (a x y) = 0 \<and> num_sign (a y z) = 0" if "num_sign (a x z) = 0"
  proof -
    have le: "num_sign (a x y) \<le> 0" "num_sign (a y z) \<le> 0"
      using xy yz by (auto simp: num_sign_or split: if_splits)
    have "num_sign (a x y) = num_sign (a z y)" "num_sign (a z y) = - num_sign (a y z)"
      using comparator.sign_zero_left [OF a, of x z y] comparator.sign_swap [OF a, of y z] ok that by auto
    then show ?thesis using le by linarith
  qed
  ultimately show "num_sign (num_or (a x z) (b x z)) \<le> 0"
    using comparator.sign_trans [OF b, of x y z] ok xy yz by (auto simp: num_sign_or split: if_splits)
qed

lemma comparator_on:
  assumes "comparator c P" "\<And>x. ok x \<Longrightarrow> P (f x)"
  shows "comparator (\<lambda>x y. c (f x) (f y)) ok"
proof
  fix x y z
  note c = comparator.sign_swap [OF assms(1)] comparator.sign_trans [OF assms(1)]
  show "num_sign (c (f y) (f x)) = - num_sign (c (f x) (f y))" if "ok x" "ok y"
    by (rule c(1)) (simp_all add: assms(2) that)
  show "num_sign (c (f x) (f z)) \<le> 0" if "ok x" "ok y" "ok z"
    "num_sign (c (f x) (f y)) \<le> 0" "num_sign (c (f y) (f z)) \<le> 0"
    by (rule c(2) [of "f x" "f y" "f z"]) (simp_all add: assms(2) that)
qed

lemma comparator_sub_asc:
  assumes "\<And>x. ok x \<Longrightarrow> f x \<noteq> NaN"
  shows "comparator (\<lambda>x y. num_sub (f x) (f y)) ok"
proof
  fix x y z
  show "num_sign (num_sub (f y) (f x)) = - num_sign (num_sub (f x) (f y))" if "ok x" "ok y"
    using that assms num_lt_asym [of "f x" "f y"] by (simp add: num_sign_sub)
  assume ok: "ok x" "ok y" "ok z"
    and "num_sign (num_sub (f x) (f y)) \<le> 0" "num_sign (num_sub (f y) (f z)) \<le> 0"
  then have "\<not> num_lt (f y) (f x)" "\<not> num_lt (f z) (f y)"
    using assms ok by (auto simp: num_sign_sub split: if_splits)
  then have "\<not> num_lt (f z) (f x)"
    using assms ok by (metis num_lt_cases num_lt_trans)
  then show "num_sign (num_sub (f x) (f z)) \<le> 0"
    using assms ok by (simp add: num_sign_sub)
qed

lemma comparator_flip:
  assumes "comparator c ok"
  shows "comparator (\<lambda>x y. c y x) ok"
proof
  fix x y z
  note c = comparator.sign_swap [OF assms] comparator.sign_trans [OF assms]
  show "num_sign (c x y) = - num_sign (c y x)" if "ok x" "ok y"
    by (rule c(1)) (simp_all add: that)
  show "num_sign (c z x) \<le> 0" if "ok x" "ok y" "ok z" "num_sign (c y x) \<le> 0" "num_sign (c z y) \<le> 0"
    by (rule c(2) [of z y x]) (simp_all add: that)
qed

lemma comparator_sub_desc:
  assumes "\<And>x. ok x \<Longrightarrow> f x \<noteq> NaN"
  shows "comparator (\<lambda>x y. num_sub (f y) (f x)) ok"
  by (rule comparator_flip, rule comparator_sub_asc, rule assms)

lemma comparator_weaken: "comparator c P \<Longrightarrow> (\<And>x. ok x \<Longrightarrow> P x) \<Longrightarrow> comparator c ok"
  using comparator_on [of c P ok "\<lambda>x. x"] by simp

lemmas comparator_intros = comparator_or comparator_sub_asc comparator_sub_desc

interpretation code_units: comparator code_unit_collate "\<lambda>_. True"
proof
  fix x y z :: string
  show "num_sign (code_unit_collate y x) = - num_sign (code_unit_collate x y)"
    using code_unit_order.gt_asym [of x y] by (auto simp: code_unit_collate_def)
  assume "num_sign (code_unit_collate x y) \<le> 0" "num_sign (code_unit_collate y z) \<le> 0"
  then have "\<not> str_gt x y" "\<not> str_gt y z" by (auto simp: code_unit_collate_def split: if_splits)
  then have "\<not> str_gt x z" by (rule code_unit_order.le_trans [OF TrueI TrueI TrueI])
  then show "num_sign (code_unit_collate x z) \<le> 0" by (simp add: code_unit_collate_def)
qed

subsection \<open>Joining values\<close>

text \<open>\<open>xs.join(sep)\<close>: \<open>null\<close> and \<open>undefined\<close> become the empty string.\<close>

definition elem_str :: "jsval \<Rightarrow> string" where
  "elem_str v = (if nullish v then [] else to_str v)"

definition join_vals :: "string \<Rightarrow> jsval list \<Rightarrow> string" where
  "join_vals sep xs = js_join sep (map elem_str xs)"

text \<open>\<open>Object.fromEntries(xs)\<close> for keys that are strings.\<close>

definition from_entries :: "(string \<times> jsval) list \<Rightarrow> jsobj" where
  "from_entries xs = obj_spread [] xs"

declare elem_str_def [js_eval] join_vals_def [js_eval] from_entries_def [js_eval]

lemma sublist_js_join: "x \<in> set xs \<Longrightarrow> sublist x (js_join sep xs)"
proof (induction sep xs rule: js_join.induct)
  case (3 sep s t ts)
  show ?case
  proof (cases "x = s")
    case False
    with 3 obtain ps ss where "js_join sep (t # ts) = ps @ x @ ss"
      by (auto simp: sublist_def)
    then have "js_join sep (s # t # ts) = (s @ sep @ ps) @ x @ ss" by simp
    then show ?thesis unfolding sublist_def by blast
  qed auto
qed auto

lemma map_of_from_entries: "map_of (from_entries xs) = map_of (rev xs)"
  by (simp add: from_entries_def obj_spread_def map_of_fold_put)

lemma wf_obj_Nil [simp]: "wf_obj []"
  by (simp add: wf_obj_def)

lemma wf_from_entries [simp]: "wf_obj (from_entries xs)"
  by (simp add: from_entries_def)

lemma set_from_entries:
  "(k, v) \<in> set (from_entries xs) \<longleftrightarrow> map_of (rev xs) k = Some v"
proof -
  have "distinct (map fst (from_entries xs))"
    using wf_from_entries [of xs] by (simp only: wf_obj_def)
  then show ?thesis
    by (metis map_of_eq_Some_iff map_of_from_entries)
qed

lemma from_entries_distinct: "distinct (map fst xs) \<Longrightarrow> set (from_entries xs) = set xs"
proof -
  assume "distinct (map fst xs)"
  then have "distinct (map fst (rev xs))" by (simp flip: rev_map)
  then have "map_of (rev xs) k = Some v \<longleftrightarrow> (k, v) \<in> set xs" for k v
    by simp
  then show ?thesis using set_from_entries [of _ _ xs] by auto
qed

end
