(* ===== verification/Fleet.thy ===== *)
theory Fleet
  imports Comparator Collector Selection
begin

section \<open>Reported attributes (\<open>ui/src/agent-attributes.js\<close>)\<close>

text \<open>
  The attributes an agent reports, sorted for display, and the text of one value; nested values
  are shown as JSON. \<open>json_text\<close> is \<open>JSON.stringify\<close> without indentation: \<open>None\<close> is the result
  \<open>undefined\<close>, which an array shows as \<open>null\<close> and an object leaves out.
\<close>

definition json_escape :: "char \<Rightarrow> string" where
  "json_escape c = (let n = code c in
     if n = 34 then [CHR 0x5C, CHR 0x22]
     else if n = 92 then [CHR 0x5C, CHR 0x5C]
     else if n = 8 then [CHR 0x5C, CHR ''b'']
     else if n = 9 then [CHR 0x5C, CHR ''t'']
     else if n = 10 then [CHR 0x5C, CHR ''n'']
     else if n = 12 then [CHR 0x5C, CHR ''f'']
     else if n = 13 then [CHR 0x5C, CHR ''r'']
     else if n < 32 then [CHR 0x5C, CHR ''u'', CHR ''0'', CHR ''0''] @ js_lower [hex_char (n div 16), hex_char (n mod 16)]
     else [c])"

definition json_quote :: "string \<Rightarrow> string" where
  "json_quote s = [CHR 0x22] @ concat (map json_escape s) @ [CHR 0x22]"

fun json_text :: "jsval \<Rightarrow> string option" where
  "json_text Undef = None"
| "json_text (Fun f) = None"
| "json_text Null = Some ''null''"
| "json_text (Bool b) = Some (if b then ''true'' else ''false'')"
| "json_text (Num n) = Some (case n of Fin q \<Rightarrow> num_str n | _ \<Rightarrow> ''null'')"
| "json_text (Str s) = Some (json_quote s)"
| "json_text (Arr xs) = Some (''['' @
     js_join '','' (map (\<lambda>x. case json_text x of None \<Rightarrow> ''null'' | Some t \<Rightarrow> t) xs) @ '']'')"
| "json_text (Obj ob) = Some (''{'' @
     js_join '','' (concat (map (\<lambda>(k, v). case json_text v of None \<Rightarrow> [] | Some t \<Rightarrow> [json_quote k @ '':'' @ t]) ob)) @ ''}'')"

definition reportedAttributeEntries :: "(string \<Rightarrow> string \<Rightarrow> jsnum) \<Rightarrow> jsval \<Rightarrow> (string \<times> jsval) list" where
  "reportedAttributeEntries collate attributes =
     (if \<not> truthy attributes \<or> \<not> is_object attributes \<or> is_array attributes then []
      else sort_by (\<lambda>(left, _) (right, _). collate left right)
             (filter (\<lambda>(key, _). js_trim key \<noteq> []) (own_entries attributes)))"

definition formatReportedAttributeValue :: "jsval \<Rightarrow> string" where
  "formatReportedAttributeValue v =
     (case v of
        Str s \<Rightarrow> s
      | Null \<Rightarrow> ''null''
      | Undef \<Rightarrow> ''undefined''
      | Arr _ \<Rightarrow> the (json_text v)
      | Obj _ \<Rightarrow> the (json_text v)
      | _ \<Rightarrow> to_str v)"

section \<open>The fleet of agents (\<open>ui/src/agent-filtering.js\<close>)\<close>

text \<open>
  Each agent is projected to a row with its availability, its effective status, the policies a
  Java extension runs and the text a search looks in; the rows are sorted and filtered.
  \<open>collectorAgentMode\<close> raises on a registered base whose lists cannot be searched, and so do the
  functions that call it.
\<close>

definition normalizedStatus :: "jsval \<Rightarrow> string \<Rightarrow> string" where
  "normalizedStatus v fallback = js_upper (js_trim (str_or v fallback))"

definition searchableAttributes :: "jsval \<Rightarrow> jsval list" where
  "searchableAttributes attributes =
     concat (map (\<lambda>(key, v). let formatted = formatReportedAttributeValue v
                             in [Str key, Str formatted, Str (key @ ''='' @ formatted)])
       (own_entries (js_or attributes (Obj []))))"

definition fleetAgentAvailability :: "jsobj \<Rightarrow> string" where
  "fleetAgentAvailability agent =
     normalizedStatus (js_or (fld agent ''LiveStatus'') (fld agent ''ConnectionStatus'')) ''UNKNOWN''"

definition fleetAgentEffectiveStatus :: "jsobj \<Rightarrow> jsobj list \<Rightarrow> string option" where
  "fleetAgentEffectiveStatus agent collectorBases =
     (if fld agent ''Kind'' = Str ''collector'' \<and> \<not> truthy (fld agent ''RemoteConfig'') then Some ''REPORT_ONLY''
      else if fld agent ''Kind'' = Str ''collector'' then do {
        mode \<leftarrow> collectorAgentMode agent collectorBases;
        Some (normalizedStatus (Str (cm_liveStatus mode)) ''NOT_REPORTED'') }
      else Some (normalizedStatus (fld agent ''ConfigStatus'') ''NOT_REPORTED''))"

record java_policy =
  jp_id :: string
  jp_version :: jsnum

definition javaPolicySetEntries :: "(string \<Rightarrow> string \<Rightarrow> jsnum) \<Rightarrow> jsobj \<Rightarrow> java_policy list" where
  "javaPolicySetEntries collate agent =
     (if fld agent ''Kind'' \<noteq> Str ''java-extension'' then []
      else sort_by (\<lambda>left right. collate (jp_id left) (jp_id right))
        (filter (\<lambda>e. jp_id e \<noteq> [] \<and> is_safe_integer (jp_version e) \<and> num_lt (Fin 0) (jp_version e))
          (map (\<lambda>(i, version). \<lparr>jp_id = js_trim (str_or (Str i) ''''), jp_version = to_num version\<rparr>)
            (own_entries (js_or (fld agent ''PolicyVersions'') (Obj []))))))"

record fleet_row =
  fr_agent :: jsobj
  fr_collectorMode :: "collector_mode option"
  fr_reportedVersions :: reported_versions
  fr_javaPolicies :: "java_policy list"
  fr_availability :: string
  fr_effectiveStatus :: string
  fr_searchText :: string

text \<open>The base the row shows: \<open>collectorMode?.base || agent.BaseConfig || {}\<close>.\<close>

definition fleet_base :: "jsobj \<Rightarrow> collector_mode option \<Rightarrow> jsval" where
  "fleet_base agent mode =
     js_or (js_or (case mode of None \<Rightarrow> Undef | Some m \<Rightarrow> (case cm_base m of None \<Rightarrow> Undef | Some b \<Rightarrow> Obj b))
                  (fld agent ''BaseConfig'')) (Obj [])"

definition fleet_search_values ::
  "jsobj \<Rightarrow> collector_mode option \<Rightarrow> reported_versions \<Rightarrow> java_policy list \<Rightarrow> string \<Rightarrow> string \<Rightarrow> jsval list" where
  "fleet_search_values agent mode reported policies availability effective =
     (let base = fleet_base agent mode in
      [fld agent ''Service'', fld agent ''UID'', fld agent ''Kind'', fld agent ''Transport'',
       fld agent ''ConfigID'', fld agent ''Version'', Str availability, Str effective,
       (case mode of None \<Rightarrow> Undef | Some m \<Rightarrow> Str (cm_effectiveLabel m)),
       (case mode of None \<Rightarrow> Undef | Some m \<Rightarrow> Str (cm_fallbackLabel m)),
       Str (rv_collector reported), Str (rv_supervisor reported),
       get base ''ID'', get base ''Source'', get base ''Revision'', get base ''Behavior''] @
      concat (map (\<lambda>p. [Str (jp_id p), Num (jp_version p), Str (jp_id p @ '' v'' @ num_str (jp_version p))]) policies) @
      searchableAttributes (fld agent ''Attributes''))"

definition projectFleetAgent ::
  "(string \<Rightarrow> string \<Rightarrow> jsnum) \<Rightarrow> jsobj \<Rightarrow> jsobj list \<Rightarrow> fleet_row option" where
  "projectFleetAgent collate agent collectorBases = do {
     mode \<leftarrow> (if fld agent ''Kind'' = Str ''collector'' then map_option Some (collectorAgentMode agent collectorBases)
              else Some None);
     effective \<leftarrow> fleetAgentEffectiveStatus agent collectorBases;
     let reported = (if fld agent ''Kind'' = Str ''collector'' then collectorReportedVersions agent
                     else \<lparr>rv_collector = '''', rv_supervisor = ''''\<rparr>);
         availability = fleetAgentAvailability agent;
         policies = javaPolicySetEntries collate agent
     in Some \<lparr>fr_agent = agent, fr_collectorMode = mode, fr_reportedVersions = reported,
          fr_javaPolicies = policies, fr_availability = availability, fr_effectiveStatus = effective,
          fr_searchText = js_lower (join_vals '' ''
            (filter (\<lambda>v. v \<noteq> Null \<and> v \<noteq> Undef \<and> v \<noteq> Str '''')
              (fleet_search_values agent mode reported policies availability effective)))\<rparr> }"

definition fleet_row_cmp :: "(string \<Rightarrow> string \<Rightarrow> jsnum) \<Rightarrow> fleet_row \<Rightarrow> fleet_row \<Rightarrow> jsnum" where
  "fleet_row_cmp collate left right =
     (let by = (\<lambda>k. collate (str_or (fld (fr_agent left) k) '''') (str_or (fld (fr_agent right) k) ''''))
      in num_or (num_or (by ''Service'') (by ''Kind'')) (by ''UID''))"

definition projectFleetAgents ::
  "(string \<Rightarrow> string \<Rightarrow> jsnum) \<Rightarrow> jsobj list \<Rightarrow> jsobj list \<Rightarrow> fleet_row list option" where
  "projectFleetAgents collate agents collectorBases = do {
     rows \<leftarrow> map_opt (\<lambda>agent. projectFleetAgent collate agent collectorBases) agents;
     Some (sort_by (fleet_row_cmp collate) rows) }"

definition fleet_row_selected :: "jsobj \<Rightarrow> fleet_row \<Rightarrow> bool" where
  "fleet_row_selected filters row \<longleftrightarrow>
     matchesAnySelection (fld filters ''services'') (fld (fr_agent row) ''Service'') \<and>
     matchesAnySelection (fld filters ''kinds'') (fld (fr_agent row) ''Kind'') \<and>
     matchesAnySelection (fld filters ''transports'') (fld (fr_agent row) ''Transport'') \<and>
     matchesAnySelection (fld filters ''availability'') (Str (fr_availability row)) \<and>
     matchesAnySelection (fld filters ''effectiveStatuses'') (Str (fr_effectiveStatus row))"

definition filterFleetAgentRows :: "fleet_row list \<Rightarrow> jsobj \<Rightarrow> fleet_row list" where
  "filterFleetAgentRows rows filters =
     (let query = js_lower (js_trim (str_or (fld filters ''query'') ''''))
      in filter (\<lambda>row. (query = [] \<or> js_includes (fr_searchText row) query) \<and> fleet_row_selected filters row) rows)"

definition fleetFilterValues ::
  "(string \<Rightarrow> string \<Rightarrow> jsnum) \<Rightarrow> fleet_row list \<Rightarrow> (fleet_row \<Rightarrow> jsval) \<Rightarrow> jsval list" where
  "fleetFilterValues collate rows selector =
     sort_by (\<lambda>left right. collate (to_str left) (to_str right))
       (unique_values (filter truthy (map selector rows)))"

text \<open>\<open>isConnectedTarget\<close> of \<open>ui/src/main.jsx\<close>: the agents the editor offers as destinations.\<close>

definition isConnectedTarget :: "jsobj \<Rightarrow> bool" where
  "isConnectedTarget agent \<longleftrightarrow> fleetAgentAvailability agent \<in> {''CONNECTED'', ''ONLINE''}"

declare json_escape_def [js_eval] json_quote_def [js_eval] reportedAttributeEntries_def [js_eval]
  formatReportedAttributeValue_def [js_eval] normalizedStatus_def [js_eval] searchableAttributes_def [js_eval]
  fleetAgentAvailability_def [js_eval] fleetAgentEffectiveStatus_def [js_eval] javaPolicySetEntries_def [js_eval]
  fleet_base_def [js_eval] fleet_search_values_def [js_eval] projectFleetAgent_def [js_eval]
  fleet_row_cmp_def [js_eval] projectFleetAgents_def [js_eval] fleet_row_selected_def [js_eval]
  filterFleetAgentRows_def [js_eval] fleetFilterValues_def [js_eval] isConnectedTarget_def [js_eval]

subsection \<open>The projection\<close>

lemma fleet_row_comparator:
  assumes "comparator collate (\<lambda>_. True)"
  shows "comparator (fleet_row_cmp collate) (\<lambda>_. True)"
proof -
  have "comparator (\<lambda>l r. collate (str_or (fld (fr_agent l) k) []) (str_or (fld (fr_agent r) k) [])) (\<lambda>_. True)" for k
    by (intro comparator_on [OF assms] TrueI)
  then show ?thesis
    unfolding fleet_row_cmp_def Let_def by (intro comparator_or)
qed

interpretation fleet_rows: comparator "fleet_row_cmp code_unit_collate" "\<lambda>_. True"
  by (rule fleet_row_comparator, rule code_units.comparator_axioms)

lemma projectFleetAgent_fields:
  assumes "projectFleetAgent collate agent bases = Some row"
  shows "fr_agent row = agent"
    "fr_searchText row = js_lower (join_vals '' '' (filter (\<lambda>v. v \<noteq> Null \<and> v \<noteq> Undef \<and> v \<noteq> Str [])
       (fleet_search_values agent (fr_collectorMode row) (fr_reportedVersions row) (fr_javaPolicies row)
          (fr_availability row) (fr_effectiveStatus row))))"
    "fr_availability row = fleetAgentAvailability agent"
    "fleetAgentEffectiveStatus agent bases = Some (fr_effectiveStatus row)"
    "fr_javaPolicies row = javaPolicySetEntries collate agent"
  using assms by (auto simp: projectFleetAgent_def Let_def bind_eq_Some_conv)

lemma project_count:
  assumes "map_opt (\<lambda>a. projectFleetAgent collate a bases) agents = Some rows"
  shows "map fr_agent rows = agents"
  using assms
proof (induction agents arbitrary: rows)
  case (Cons a agents)
  then obtain r rs where "projectFleetAgent collate a bases = Some r" "rows = r # rs"
    "map_opt (\<lambda>a. projectFleetAgent collate a bases) agents = Some rs"
    by (auto simp: bind_eq_Some_conv)
  then show ?case using Cons.IH projectFleetAgent_fields(1) by simp
qed simp

text \<open>the fleet list has one row for every agent, as often as the agent is listed, and its rows
  are ordered by service, kind and UID; it fails only if the projection of some agent does.\<close>

theorem projectFleetAgents_one_row_each:
  assumes "comparator collate (\<lambda>_. True)"
  shows "(case projectFleetAgents collate agents bases of
      None \<Rightarrow> \<exists>a\<in>set agents. projectFleetAgent collate a bases = None
    | Some rows \<Rightarrow> (\<forall>a. length (filter (\<lambda>r. fr_agent r = a) rows) = length (filter (\<lambda>b. b = a) agents)) \<and>
        sorted_wrt (\<lambda>l r. num_sign (fleet_row_cmp collate l r) \<le> 0) rows)"
proof (cases "map_opt (\<lambda>a. projectFleetAgent collate a bases) agents")
  case None
  then have "projectFleetAgents collate agents bases = None"
    by (simp only: projectFleetAgents_def bind.simps)
  then show ?thesis using None by (simp add: map_opt_None)
next
  case (Some rows)
  have "length (filter (\<lambda>b. b = a) agents) = length (filter (\<lambda>r. fr_agent r = a) rows)" for a
    unfolding project_count [OF Some, symmetric] by (simp add: filter_map o_def)
  then show ?thesis
    using Some comparator.sort_by_sorted [OF fleet_row_comparator [OF assms], of rows]
    by (simp add: projectFleetAgents_def)
qed

theorem projectFleetAgents_one_row_each_witness:
  "\<exists>rows. projectFleetAgents code_unit_collate [[(''UID'', Str ''b'')], [(''UID'', Str ''a'')]] [] = Some rows \<and>
     sorted_wrt (\<lambda>l r. num_sign (fleet_row_cmp code_unit_collate l r) \<le> 0) rows"
proof -
  have "\<not> Option.is_none (projectFleetAgents code_unit_collate [[(''UID'', Str ''b'')], [(''UID'', Str ''a'')]] [])"
    by code_simp
  then obtain rows where
    "projectFleetAgents code_unit_collate [[(''UID'', Str ''b'')], [(''UID'', Str ''a'')]] [] = Some rows"
    by (cases "projectFleetAgents code_unit_collate [[(''UID'', Str ''b'')], [(''UID'', Str ''a'')]] []") auto
  then show ?thesis
    using projectFleetAgents_one_row_each [OF code_units.comparator_axioms,
        of "[[(''UID'', Str ''b'')], [(''UID'', Str ''a'')]]" "[]"] by simp
qed

subsection \<open>Searching and filtering\<close>

lemma sublist_js_trim: "sublist (js_trim s) s"
proof -
  have "suffix (trim_start s) s" by (simp add: trim_start_def suffix_dropWhile)
  moreover have "prefix (js_trim s) (trim_start s)" by (simp add: js_trim_def trim_end_prefix)
  ultimately show ?thesis
    by (meson prefix_imp_sublist suffix_imp_sublist sublist_order.order_trans)
qed

lemma sublist_js_lower: "sublist a b \<Longrightarrow> sublist (js_lower a) (js_lower b)"
  unfolding sublist_def js_lower_def by (metis map_append)

lemma search_value_found:
  assumes "projectFleetAgent collate agent bases = Some row" "s \<noteq> []"
    and "Str s \<in> set (fleet_search_values agent (fr_collectorMode row) (fr_reportedVersions row)
      (fr_javaPolicies row) (fr_availability row) (fr_effectiveStatus row))"
  shows "js_includes (fr_searchText row) (js_lower (js_trim s))"
proof -
  let ?vs = "filter (\<lambda>v. v \<noteq> Null \<and> v \<noteq> Undef \<and> v \<noteq> Str [])
    (fleet_search_values agent (fr_collectorMode row) (fr_reportedVersions row)
      (fr_javaPolicies row) (fr_availability row) (fr_effectiveStatus row))"
  have "Str s \<in> set ?vs" using assms by simp
  then have "elem_str (Str s) \<in> set (map elem_str ?vs)" by (simp only: set_map imageI)
  then have "sublist s (join_vals '' '' ?vs)"
    unfolding join_vals_def by (simp only: elem_str_def nullish_def sublist_js_join) (simp add: sublist_js_join)
  then have "sublist (js_trim s) (join_vals '' '' ?vs)"
    using sublist_js_trim sublist_order.order_trans by blast
  then show ?thesis
    unfolding projectFleetAgent_fields(2) [OF assms(1)] js_includes_iff by (rule sublist_js_lower)
qed

lemma matches_Undef [simp]: "matchesAnySelection Undef v"
  by (simp add: matchesAny_iff normalizeSelection_def normalizedValue_def js_default_def nullish_def)

lemma filter_query_only:
  "filterFleetAgentRows rows [(''query'', Str s)] =
     filter (\<lambda>row. js_trim s = [] \<or> js_includes (fr_searchText row) (js_lower (js_trim s))) rows"
proof -
  have q: "fld [(''query'', Str s)] ''query'' = Str s" by (simp add: fld_def)
  have u: "fld [(''query'', Str s)] k = Undef" if "k \<in> {''services'', ''kinds'', ''transports'', ''availability'', ''effectiveStatuses''}" for k
    using that by (auto simp: fld_def object_prototype_def)
  show ?thesis
    unfolding filterFleetAgentRows_def fleet_row_selected_def q
    by (simp add: u)
qed

text \<open>an agent is found by its service, its UID, its kind or its configuration, and by any of its
  attributes, written \<open>key=value\<close> as the fleet shows them, in any case and with spaces around.\<close>

theorem fleet_search_finds_the_agent:
  assumes "projectFleetAgent collate agent bases = Some row"
    and "Str s \<in> {fld agent ''Service'', fld agent ''UID'', fld agent ''Kind'', fld agent ''ConfigID''} \<union>
      {Str (key @ ''='' @ formatReportedAttributeValue v) | key v.
         (key, v) \<in> set (own_entries (js_or (fld agent ''Attributes'') (Obj [])))}"
  shows "filterFleetAgentRows [row] [(''query'', Str s)] = [row]"
proof (cases "s = []")
  case True
  then show ?thesis by (simp add: filter_query_only)
next
  case False
  have "Str (key @ ''='' @ formatReportedAttributeValue v) \<in> set (searchableAttributes (fld agent ''Attributes''))"
    if "(key, v) \<in> set (own_entries (js_or (fld agent ''Attributes'') (Obj [])))" for key v
    unfolding searchableAttributes_def using that by (force simp: Let_def)
  then have "Str s \<in> set (fleet_search_values agent (fr_collectorMode row) (fr_reportedVersions row)
      (fr_javaPolicies row) (fr_availability row) (fr_effectiveStatus row))"
    using assms(2) by (auto simp: fleet_search_values_def Let_def)
  then show ?thesis
    using search_value_found [OF assms(1) False] by (simp add: filter_query_only)
qed

theorem fleet_search_finds_the_agent_witness:
  "\<exists>row. projectFleetAgent code_unit_collate [(''Kind'', Str ''java-extension''), (''Attributes'', Obj [(''zone'', Str ''Lima'')])] [] = Some row \<and>
     filterFleetAgentRows [row] [(''query'', Str ''zone=Lima'')] = [row]"
proof -
  let ?agent = "[(''Kind'', Str ''java-extension''), (''Attributes'', Obj [(''zone'', Str ''Lima'')])]"
  have "\<not> Option.is_none (projectFleetAgent code_unit_collate ?agent [])" by code_simp
  then obtain row where row: "projectFleetAgent code_unit_collate ?agent [] = Some row"
    by (cases "projectFleetAgent code_unit_collate ?agent []") auto
  have e: "own_entries (js_or (fld ?agent ''Attributes'') (Obj [])) = [(''zone'', Str ''Lima'')]" by code_simp
  have "Str ''zone=Lima'' \<in> {Str (key @ ''='' @ formatReportedAttributeValue v) | key v.
      (key, v) \<in> set (own_entries (js_or (fld ?agent ''Attributes'') (Obj [])))}"
    unfolding e by (simp add: formatReportedAttributeValue_def)
  then show ?thesis using fleet_search_finds_the_agent [OF row, of "''zone=Lima''"] row by blast
qed

text \<open>A value offered by a filter is one that some row has.\<close>

lemma set_fleetFilterValues: "set (fleetFilterValues collate rows sel) \<subseteq> {v \<in> sel ` set rows. truthy v}"
  unfolding fleetFilterValues_def set_sort_by using set_unique_values by fastforce

lemma filter_service_only:
  "filterFleetAgentRows rows [(''services'', v)] =
     filter (\<lambda>row. matchesAnySelection v (fld (fr_agent row) ''Service'')) rows"
proof -
  have q: "fld [(''services'', v)] ''services'' = v" by (simp add: fld_def)
  have u: "fld [(''services'', v)] k = Undef" if "k \<in> {''query'', ''kinds'', ''transports'', ''availability'', ''effectiveStatuses''}" for k
    using that by (auto simp: fld_def object_prototype_def)
  show ?thesis
    unfolding filterFleetAgentRows_def fleet_row_selected_def q by (simp add: u)
qed

text \<open>filtering keeps the order of the rows and invents none, no filter keeps them all, and a
  service that the filter offers finds at least one row, whose agents all belong to it.\<close>

theorem fleet_filters_are_sound:
  assumes "Str service \<in> set (fleetFilterValues collate rows (\<lambda>r. fld (fr_agent r) ''Service''))"
    and "js_trim service \<noteq> []"
  shows "subseq (filterFleetAgentRows rows filters) rows \<and> filterFleetAgentRows rows [] = rows \<and>
    filterFleetAgentRows rows [(''services'', Arr [Str service])] \<noteq> [] \<and>
    (\<forall>r\<in>set (filterFleetAgentRows rows [(''services'', Arr [Str service])]).
       js_trim service \<in> set (normalizeSelection (fld (fr_agent r) ''Service'')))"
proof -
  have sel: "normalizeSelection (Arr [Str service]) = [js_trim service]"
    "normalizeSelection (Str service) = [js_trim service]"
    using assms(2) by (simp_all add: normalizeSelection_def normalizedValue_def js_default_def nullish_def)
  have m: "matchesAnySelection (Arr [Str service]) v \<longleftrightarrow> js_trim service \<in> set (normalizeSelection v)" for v
    by (simp add: matchesAny_iff sel)
  obtain r where "r \<in> set rows" "fld (fr_agent r) ''Service'' = Str service"
    using assms(1) set_fleetFilterValues by fastforce
  then have "r \<in> set (filterFleetAgentRows rows [(''services'', Arr [Str service])])"
    by (simp add: filter_service_only m sel)
  moreover have "filterFleetAgentRows rows [] = rows"
    by (simp add: filterFleetAgentRows_def fleet_row_selected_def fld_def object_prototype_def)
  moreover have "subseq (filterFleetAgentRows rows filters) rows"
    by (simp add: filterFleetAgentRows_def Let_def)
  moreover have "\<forall>r\<in>set (filterFleetAgentRows rows [(''services'', Arr [Str service])]).
       js_trim service \<in> set (normalizeSelection (fld (fr_agent r) ''Service''))"
    by (simp add: filter_service_only m)
  ultimately show ?thesis by (metis empty_iff empty_set)
qed

theorem fleet_filters_are_sound_witness:
  "\<exists>rows. filterFleetAgentRows rows [(''services'', Arr [Str ''shop''])] \<noteq> []"
proof -
  let ?agent = "[(''Service'', Str ''shop'')]"
  have "\<not> Option.is_none (projectFleetAgent code_unit_collate ?agent [])" by code_simp
  then obtain row where row: "projectFleetAgent code_unit_collate ?agent [] = Some row"
    by (cases "projectFleetAgent code_unit_collate ?agent []") auto
  have "Str ''shop'' \<in> set (fleetFilterValues code_unit_collate [row] (\<lambda>r. fld (fr_agent r) ''Service''))"
    using projectFleetAgent_fields(1) [OF row] by (simp add: fleetFilterValues_def fld_def)
  moreover have "js_trim ''shop'' \<noteq> []" by code_simp
  ultimately show ?thesis using fleet_filters_are_sound by blast
qed

subsection \<open>The policies of a Java extension\<close>

text \<open>the policies shown for a Java extension are named, carry a positive version that a double
  represents exactly, and are exactly the well-formed entries of its report; an agent of
  another kind shows none.\<close>

theorem javaPolicySetEntries_exact:
  "set (javaPolicySetEntries collate agent) =
     {\<lparr>jp_id = js_trim i, jp_version = Fin (of_nat n)\<rparr> | i v n.
        fld agent ''Kind'' = Str ''java-extension'' \<and>
        (i, v) \<in> set (own_entries (js_or (fld agent ''PolicyVersions'') (Obj []))) \<and>
        js_trim i \<noteq> [] \<and> to_num v = Fin (of_nat n) \<and> 0 < n \<and> n \<le> 9007199254740991}"
proof -
  have str: "js_trim (str_or (Str i) []) = js_trim i" for i by simp
  have num: "is_safe_integer m \<and> num_lt (Fin 0) m \<longleftrightarrow>
      (\<exists>n. m = Fin (of_nat n) \<and> 0 < n \<and> n \<le> 9007199254740991)" for m
  proof
    assume a: "is_safe_integer m \<and> num_lt (Fin 0) m"
    then obtain q where q: "m = Fin q" by (cases m) auto
    with a have q0: "0 < q" and qf: "q = of_int \<lfloor>q\<rfloor>" and qb: "\<lfloor>q\<rfloor> \<le> 9007199254740991" by auto
    have f: "0 < \<lfloor>q\<rfloor>" using q0 qf by (metis of_int_0_less_iff)
    then have "q = of_nat (nat \<lfloor>q\<rfloor>)" using qf by (metis of_nat_nat order_less_imp_le of_int_of_nat_eq)
    then show "\<exists>n. m = Fin (of_nat n) \<and> 0 < n \<and> n \<le> 9007199254740991"
      using q f qb by (intro exI [of _ "nat \<lfloor>q\<rfloor>"]) auto
  qed auto
  show ?thesis
    unfolding javaPolicySetEntries_def str by (auto simp: image_iff num) (blast, force)
qed

end
