(* ===== verification/Deployment.thy ===== *)
theory Deployment
  imports Js_Value
begin

section \<open>The status of a stored version (\<open>ui/src/deployment-status.js\<close>)\<close>

text \<open>
  A stored version is compared with the agents that report to the control plane: which agents
  its selector matches, which of them are live, and what each of those did with the version.
  A selector that is \<open>null\<close>, or whose lists are neither arrays nor strings, raises: the result
  is \<open>None\<close>.
\<close>

definition legacyLiveStatuses :: "string list" where
  "legacyLiveStatuses = [''CONNECTED'', ''ONLINE'']"

definition agentCountsForLiveCoverage :: "jsobj \<Rightarrow> bool" where
  "agentCountsForLiveCoverage agent =
     (let liveStatus = js_upper (str_or (fld agent ''LiveStatus'') '''') in
      if liveStatus \<noteq> [] then liveStatus = ''CONNECTED''
      else js_upper (str_or (fld agent ''ConnectionStatus'') '''') \<in> set legacyLiveStatuses)"

text \<open>\<open>!xs.length || xs.includes(x)\<close>.\<close>

definition listed_or_unrestricted :: "jsval \<Rightarrow> jsval \<Rightarrow> bool option" where
  "listed_or_unrestricted xs x =
     (if \<not> truthy (get xs ''length'') then Some True else val_includes xs x)"

text \<open>A missing selector is \<open>{}\<close>, the default of the parameter; \<open>null\<close> is not replaced.\<close>

definition matchesSelector :: "jsobj \<Rightarrow> jsval \<Rightarrow> bool option" where
  "matchesSelector agent sel =
     (let selector = (if sel = Undef then Obj [] else sel) in do {
        instanceUIDs \<leftarrow> getx selector ''InstanceUIDs'';
        services \<leftarrow> getx selector ''Services'';
        attributes \<leftarrow> getx selector ''Attributes'';
        uid \<leftarrow> listed_or_unrestricted (js_or instanceUIDs (Arr [])) (fld agent ''UID'');
        if \<not> uid then Some False else do {
          service \<leftarrow> listed_or_unrestricted (js_or services (Arr [])) (fld agent ''Service'');
          if \<not> service then Some False
          else Some (\<forall>(key, v)\<in>set (own_entries (js_or attributes (Obj []))).
                       strict_eq (get (fld agent ''Attributes'') key) v) } })"

definition isCompatible :: "jsobj \<Rightarrow> jsobj \<Rightarrow> bool option" where
  "isCompatible agent version =
     (if \<not> strict_eq (fld agent ''Kind'') (fld version ''Target'') then Some False
      else if strict_eq (fld version ''Target'') (Str ''collector'') \<and> \<not> truthy (fld agent ''RemoteConfig'')
      then Some False
      else matchesSelector agent (fld version ''Selector''))"

text \<open>\<open>obj?.[k]\<close> with a key that is converted to a property name.\<close>

definition referencesVersion :: "jsobj \<Rightarrow> jsobj \<Rightarrow> bool" where
  "referencesVersion agent version =
     (let configId = js_or (js_or (fld version ''configId'') (fld version ''ConfigID'')) (fld version ''ID'') in
      if strict_eq (fld version ''Target'') (Str ''java-extension'') then
        num_eq (to_num (get (fld agent ''PolicyVersions'') (to_str configId))) (to_num (fld version ''Version''))
      else strict_eq (fld agent ''ConfigID'') configId \<and>
           num_eq (to_num (fld agent ''Version'')) (to_num (fld version ''Version'')))"

record deployment =
  dp_status :: string
  dp_observed :: nat
  dp_matched :: nat
  dp_applied :: nat
  dp_failed :: nat
  dp_pending :: nat
  dp_notInUse :: nat

definition deployment_tally :: "jsobj \<Rightarrow> jsobj \<Rightarrow> deployment \<Rightarrow> deployment" where
  "deployment_tally version agent s =
     (if \<not> referencesVersion agent version then s\<lparr>dp_notInUse := dp_notInUse s + 1\<rparr>
      else if strict_eq (fld agent ''ConfigStatus'') (Str ''APPLIED'') then s\<lparr>dp_applied := dp_applied s + 1\<rparr>
      else if strict_eq (fld agent ''ConfigStatus'') (Str ''FAILED'') then s\<lparr>dp_failed := dp_failed s + 1\<rparr>
      else s\<lparr>dp_pending := dp_pending s + 1\<rparr>)"

definition deployment_status_of :: "jsobj \<Rightarrow> deployment \<Rightarrow> string" where
  "deployment_status_of version s =
     (if dp_matched s = 0 then dp_status s
      else if dp_applied s = dp_matched s then ''APPLIED''
      else if dp_failed s > 0 \<and> dp_applied s = 0 then ''FAILED''
      else if dp_applied s > 0 then ''PARTIAL''
      else if dp_pending s > 0 \<or> (truthy (fld version ''IsLatest'') \<and> dp_notInUse s > 0) then ''CONFIG_PENDING''
      else ''NOT_IN_USE'')"

definition deployment_init :: "jsobj list \<Rightarrow> deployment" where
  "deployment_init compatible =
     \<lparr>dp_status = ''NO_LIVE_TARGETS'', dp_observed = length compatible,
      dp_matched = length (filter agentCountsForLiveCoverage compatible),
      dp_applied = 0, dp_failed = 0, dp_pending = 0, dp_notInUse = 0\<rparr>"

definition deploymentStatusForVersion :: "jsobj \<Rightarrow> jsobj list \<Rightarrow> deployment option" where
  "deploymentStatusForVersion version agents = do {
     compatible \<leftarrow> filter_opt (\<lambda>agent. isCompatible agent version) agents;
     let destinations = filter agentCountsForLiveCoverage compatible;
         s = fold (deployment_tally version) destinations (deployment_init compatible)
     in Some (s\<lparr>dp_status := deployment_status_of version s\<rparr>) }"

definition deploymentStatusSummary :: "deployment \<Rightarrow> string" where
  "deploymentStatusSummary d =
     (let part = (\<lambda>k suffix. if k > 0 then [nat_str k @ suffix] else []) in
      if dp_matched d = 0 then (''No hay destinos actualmente en l'' @ [CHR 0xED] @ ''nea para confirmar esta versi'' @ [CHR 0xF3] @ ''n.'')
      else js_join ('' '' @ [CHR 0xB7] @ '' '')
        ([nat_str (dp_applied d) @ ''/'' @ nat_str (dp_matched d) @ '' destino(s) vivo(s) aplicada(s)''] @
         part (dp_failed d) '' rechazada(s)'' @ part (dp_pending d) '' pendiente(s)'' @
         part (dp_notInUse d) '' no la usa(n)''))"

definition publicationActionLabel :: "jsval \<Rightarrow> string" where
  "publicationActionLabel action =
     (if strict_eq action (Str ''ROLLBACK'') then (''Restauraci'' @ [CHR 0xF3] @ ''n publicada'')
      else if strict_eq action (Str ''DEACTIVATED'') then ''Retiro publicado''
      else (''Publicaci'' @ [CHR 0xF3] @ ''n registrada''))"

declare legacyLiveStatuses_def [js_eval] agentCountsForLiveCoverage_def [js_eval]
  listed_or_unrestricted_def [js_eval] matchesSelector_def [js_eval] isCompatible_def [js_eval]
  referencesVersion_def [js_eval] deployment_tally_def [js_eval] deployment_status_of_def [js_eval]
  deployment_init_def [js_eval] deploymentStatusForVersion_def [js_eval]
  deploymentStatusSummary_def [js_eval] publicationActionLabel_def [js_eval]

subsection \<open>Selectors that can be read\<close>

definition readable_selector :: "jsval \<Rightarrow> bool" where
  "readable_selector sel \<longleftrightarrow> sel \<noteq> Null \<and>
     readable_list (get sel ''InstanceUIDs'') \<and> readable_list (get sel ''Services'')"

lemma listed_total:
  "readable_list v \<Longrightarrow> listed_or_unrestricted (js_or v (Arr [])) x =
    Some (array v = [] \<or> (\<exists>y\<in>set (array v). same_value_zero y x))"
  by (cases v) (auto simp: readable_list_def listed_or_unrestricted_def js_or_def split: if_splits)

lemma get_default: "get (if sel = Undef then Obj [] else sel) k = (if sel = Undef then fld [] k else get sel k)"
  by simp

lemma readable_undef [simp]: "fld [] ''InstanceUIDs'' = Undef" "fld [] ''Services'' = Undef"
    "fld [] ''Attributes'' = Undef"
  by (simp_all add: js_eval)

lemma matchesSelector_total:
  assumes "readable_selector sel"
  shows "matchesSelector agent sel = Some
    ((array (get sel ''InstanceUIDs'') = [] \<or>
      (\<exists>y\<in>set (array (get sel ''InstanceUIDs'')). same_value_zero y (fld agent ''UID''))) \<and>
     (array (get sel ''Services'') = [] \<or>
      (\<exists>y\<in>set (array (get sel ''Services'')). same_value_zero y (fld agent ''Service''))) \<and>
     (\<forall>(key, v)\<in>set (own_entries (js_or (get sel ''Attributes'') (Obj []))).
        strict_eq (get (fld agent ''Attributes'') key) v))"
proof (cases "sel = Undef")
  case True
  then show ?thesis
    by (simp add: matchesSelector_def getx_def nullish_def listed_total readable_list_def)
next
  case False
  with assms show ?thesis
    by (auto simp: matchesSelector_def getx_def nullish_def readable_selector_def listed_total Let_def)
qed

lemma isCompatible_total:
  "readable_selector (fld version ''Selector'') \<Longrightarrow> isCompatible agent version \<noteq> None"
  by (simp add: isCompatible_def matchesSelector_total) blast

subsection \<open>The tally\<close>

lemma tally_dp_notInUse [js_count]:
  "dp_notInUse (fold (deployment_tally v) as s) = dp_notInUse s + length (filter (\<lambda>a. \<not> referencesVersion a v) as)"
  by (rule fold_counter) (simp add: deployment_tally_def)

lemma tally_dp_applied [js_count]:
  "dp_applied (fold (deployment_tally v) as s) = dp_applied s +
    length (filter (\<lambda>a. referencesVersion a v \<and> fld a ''ConfigStatus'' = Str ''APPLIED'') as)"
  by (rule fold_counter) (simp add: deployment_tally_def)

lemma tally_dp_failed [js_count]:
  "dp_failed (fold (deployment_tally v) as s) = dp_failed s +
    length (filter (\<lambda>a. referencesVersion a v \<and> fld a ''ConfigStatus'' = Str ''FAILED'') as)"
  by (rule fold_counter) (simp add: deployment_tally_def)

lemma tally_dp_pending [js_count]:
  "dp_pending (fold (deployment_tally v) as s) = dp_pending s +
    length (filter (\<lambda>a. referencesVersion a v \<and> fld a ''ConfigStatus'' \<notin> {Str ''APPLIED'', Str ''FAILED''}) as)"
  by (rule fold_counter) (simp add: deployment_tally_def)

lemma tally_dp_frame [js_count]:
  "dp_matched (fold (deployment_tally v) as s) = dp_matched s"
  "dp_observed (fold (deployment_tally v) as s) = dp_observed s"
  "dp_status (fold (deployment_tally v) as s) = dp_status s"
  by (rule fold_frame, simp add: deployment_tally_def)+

lemma deployment_classes:
  "length as = length (filter (\<lambda>a. \<not> R a) as) + length (filter (\<lambda>a. R a \<and> S a = x) as) +
     length (filter (\<lambda>a. R a \<and> S a = y) as) + length (filter (\<lambda>a. R a \<and> S a \<notin> {x, y}) as)" if "x \<noteq> y"
  using that by (induction as) auto

text \<open>What the result is, for the live compatible agents \<open>ds\<close>.\<close>

lemma deployment_unfold:
  assumes "deploymentStatusForVersion version agents = Some d"
  obtains cs where "filter_opt (\<lambda>a. isCompatible a version) agents = Some cs"
    "d = (let s = fold (deployment_tally version) (filter agentCountsForLiveCoverage cs) (deployment_init cs)
          in s\<lparr>dp_status := deployment_status_of version s\<rparr>)"
  using assms unfolding deploymentStatusForVersion_def Let_def by (auto simp: bind_eq_Some_conv)

text \<open>the deployment of a version accounts for every destination once, and it is shown as
  applied exactly when some destination is live and every live compatible agent runs this version
  and reports it applied. It is defined for every version whose selector lists are arrays or
  absent.\<close>

theorem deploymentStatusForVersion_accounts:
  assumes "readable_selector (fld version ''Selector'')"
  shows "\<exists>d. deploymentStatusForVersion version agents = Some d \<and>
    dp_matched d = dp_applied d + dp_failed d + dp_pending d + dp_notInUse d \<and>
    dp_matched d \<le> dp_observed d \<and>
    (dp_status d = ''APPLIED'' \<longleftrightarrow>
       (\<exists>a\<in>set agents. isCompatible a version = Some True \<and> agentCountsForLiveCoverage a) \<and>
       (\<forall>a\<in>set agents. isCompatible a version = Some True \<longrightarrow> agentCountsForLiveCoverage a \<longrightarrow>
          referencesVersion a version \<and> fld a ''ConfigStatus'' = Str ''APPLIED''))"
proof -
  let ?P = "\<lambda>a. isCompatible a version = Some True"
  let ?cs = "filter ?P agents"
  let ?ds = "filter agentCountsForLiveCoverage ?cs"
  let ?ok = "\<lambda>a. referencesVersion a version \<and> fld a ''ConfigStatus'' = Str ''APPLIED''"
  let ?s = "fold (deployment_tally version) ?ds (deployment_init ?cs)"
  let ?d = "?s\<lparr>dp_status := deployment_status_of version ?s\<rparr>"
  have "filter_opt (\<lambda>a. isCompatible a version) agents = Some ?cs"
    using isCompatible_total [OF assms] by (intro filter_opt_total ballI) (metis not_Some_eq option.inject)
  then have d: "deploymentStatusForVersion version agents = Some ?d"
    by (simp only: deploymentStatusForVersion_def bind.simps Let_def)
  have m: "dp_matched ?s = length ?ds" "dp_applied ?s = length (filter ?ok ?ds)"
    by (simp_all only: js_count deployment_init_def deployment.simps add_0)
  have acc: "length ?ds = dp_applied ?s + dp_failed ?s + dp_pending ?s + dp_notInUse ?s"
    using deployment_classes [of "Str ''APPLIED''" "Str ''FAILED''" ?ds
        "\<lambda>a. referencesVersion a version" "\<lambda>a. fld a ''ConfigStatus''"]
    by (simp add: js_count deployment_init_def)
  have st: "dp_status ?d = ''APPLIED'' \<longleftrightarrow> ?ds \<noteq> [] \<and> (\<forall>a\<in>set ?ds. ?ok a)"
    using length_filter_eq_length [of ?ok ?ds] m
    by (simp add: deployment_status_of_def js_count deployment_init_def)
  have "?ds \<noteq> [] \<longleftrightarrow> (\<exists>a\<in>set agents. ?P a \<and> agentCountsForLiveCoverage a)"
    by (auto simp: filter_empty_conv)
  moreover have "(\<forall>a\<in>set ?ds. ?ok a) \<longleftrightarrow>
      (\<forall>a\<in>set agents. ?P a \<longrightarrow> agentCountsForLiveCoverage a \<longrightarrow> ?ok a)" by auto
  moreover have "dp_matched ?d \<le> dp_observed ?d"
    using length_filter_le [of agentCountsForLiveCoverage ?cs] by (simp add: js_count deployment_init_def)
  ultimately show ?thesis
    using d m acc st by (intro exI [of _ ?d]) simp
qed

theorem deploymentStatusForVersion_accounts_witness:
  "\<exists>d. deploymentStatusForVersion [(''Target'', Str ''collector''), (''ID'', Str ''c'')] [] = Some d \<and>
     dp_status d \<noteq> ''APPLIED''"
proof -
  have "readable_selector (fld [(''Target'', Str ''collector''), (''ID'', Str ''c'')] ''Selector'')"
    by code_simp
  from deploymentStatusForVersion_accounts [OF this, of "[]"] show ?thesis by auto
qed

end
