(* ===== verification/Targets.thy ===== *)
theory Targets
  imports Deployment Comparator
begin

section \<open>Choosing the destinations of a version (\<open>ui/src/target-selection.js\<close>)\<close>

text \<open>
  The editor previews which agents a selection of destinations matches. The last definition is
  the selector the application publishes (\<open>selector\<close> in \<open>main.jsx\<close>); the main theorem compares
  the preview with what that selector matches once it is stored.
\<close>

definition normalizedValues :: "jsval \<Rightarrow> jsval list" where
  "normalizedValues values = filter truthy (array values)"

text \<open>A destructured parameter with a default.\<close>

definition param :: "jsobj \<Rightarrow> string \<Rightarrow> jsval \<Rightarrow> jsval" where
  "param ob k d = (if fld ob k = Undef then d else fld ob k)"

definition usable_attributes :: "jsval \<Rightarrow> jsval list" where
  "usable_attributes values =
     filter (\<lambda>attribute. truthy (get attribute ''key'') \<and> truthy (get attribute ''value''))
       (normalizedValues values)"

definition matchesTargetSelector :: "jsval \<Rightarrow> jsobj \<Rightarrow> bool" where
  "matchesTargetSelector agent selection =
     (let agentIds = normalizedValues (param selection ''selectedAgentIds'' (Arr []));
          services = normalizedValues (param selection ''selectedServices'' (Arr []));
          attributes = usable_attributes (param selection ''selectorAttributes'' (Arr []))
      in (agentIds = [] \<or> (\<exists>y\<in>set agentIds. same_value_zero y (get agent ''UID''))) \<and>
         (services = [] \<or> (\<exists>y\<in>set services. same_value_zero y (get agent ''Service''))) \<and>
         (\<forall>attribute\<in>set attributes.
            strict_eq (get (get agent ''Attributes'') (to_str (get attribute ''key''))) (get attribute ''value'')))"

definition target_text :: "jsval \<Rightarrow> string" where
  "target_text agent =
     js_lower (join_vals '' '' ([get agent ''UID'', get agent ''Service''] @
       concat (map (\<lambda>(key, v). [Str key, v]) (own_entries (js_or (get agent ''Attributes'') (Obj []))))))"

definition matchesTargetQuery :: "jsval \<Rightarrow> jsval \<Rightarrow> bool" where
  "matchesTargetQuery agent query =
     (let normalizedQuery = js_lower (js_trim (to_str (if query = Undef then Str '''' else query)))
      in if normalizedQuery = [] then True else js_includes (target_text agent) normalizedQuery)"

definition filterVisibleTargetAgents :: "jsval \<Rightarrow> jsobj \<Rightarrow> jsval list" where
  "filterVisibleTargetAgents agents selection =
     filter (\<lambda>agent. matchesTargetSelector agent selection \<and> matchesTargetQuery agent (fld selection ''query''))
       (normalizedValues agents)"

definition target_agent_cmp :: "(string \<Rightarrow> string \<Rightarrow> jsnum) \<Rightarrow> jsval \<Rightarrow> jsval \<Rightarrow> jsnum" where
  "target_agent_cmp collate left right =
     num_or (collate (str_or (get left ''Service'') '''') (str_or (get right ''Service'') ''''))
            (collate (str_or (get left ''UID'') '''') (str_or (get right ''UID'') ''''))"

definition createTargetInventorySnapshot :: "(string \<Rightarrow> string \<Rightarrow> jsnum) \<Rightarrow> jsval \<Rightarrow> jsval list" where
  "createTargetInventorySnapshot collate agents =
     sort_by (target_agent_cmp collate) (normalizedValues agents)"

text \<open>The application: which agents the editor offers, and the selector it publishes.\<close>

definition compatibleTargetAgents :: "jsval \<Rightarrow> jsval list \<Rightarrow> jsval list" where
  "compatibleTargetAgents target agents =
     filter (\<lambda>agent. strict_eq (get agent ''Kind'') target \<and>
              (\<not> strict_eq target (Str ''collector'') \<or> truthy (get agent ''RemoteConfig''))) agents"

definition publishedSelector :: "jsval list \<Rightarrow> jsval list \<Rightarrow> jsval list \<Rightarrow> jsval" where
  "publishedSelector selectedAgentIds selectedServices selectorAttributes =
     Obj [(''InstanceUIDs'', Arr selectedAgentIds), (''Services'', Arr selectedServices),
          (''Attributes'', Obj (from_entries
             (map (\<lambda>attribute. (to_str (get attribute ''key''), get attribute ''value''))
               (filter (\<lambda>attribute. truthy (get attribute ''key'') \<and> truthy (get attribute ''value''))
                 selectorAttributes))))]"

definition destinationSelection :: "jsval list \<Rightarrow> jsval list \<Rightarrow> jsval list \<Rightarrow> jsobj" where
  "destinationSelection selectedAgentIds selectedServices selectorAttributes =
     [(''selectedAgentIds'', Arr selectedAgentIds), (''selectedServices'', Arr selectedServices),
      (''selectorAttributes'', Arr selectorAttributes)]"

declare normalizedValues_def [js_eval] param_def [js_eval] usable_attributes_def [js_eval]
  matchesTargetSelector_def [js_eval] target_text_def [js_eval] matchesTargetQuery_def [js_eval]
  filterVisibleTargetAgents_def [js_eval] target_agent_cmp_def [js_eval]
  createTargetInventorySnapshot_def [js_eval] compatibleTargetAgents_def [js_eval]
  publishedSelector_def [js_eval] destinationSelection_def [js_eval]

subsection \<open>The snapshot of the inventory\<close>

lemma target_agent_comparator:
  assumes "comparator collate (\<lambda>_. True)"
  shows "comparator (target_agent_cmp collate) (\<lambda>_. True)"
proof -
  have "comparator (\<lambda>l r. num_or (collate (str_or (get l ''Service'') '''') (str_or (get r ''Service'') ''''))
      (collate (str_or (get l ''UID'') '''') (str_or (get r ''UID'') ''''))) (\<lambda>_. True)"
    by (intro comparator_or comparator_on [OF assms] TrueI)
  then show ?thesis by (simp only: target_agent_cmp_def [abs_def])
qed

interpretation inventory: comparator "target_agent_cmp code_unit_collate" "\<lambda>_. True"
  by (rule target_agent_comparator, rule code_units.comparator_axioms)

text \<open>the snapshot the wizard freezes holds the same agents as the inventory, each as often, is
  ordered by service and then by UID, and taking it again changes nothing.\<close>

theorem createTargetInventorySnapshot_sorted:
  assumes "comparator collate (\<lambda>_. True)"
  shows "(\<forall>a. length (filter (\<lambda>b. b = a) (createTargetInventorySnapshot collate agents)) =
              length (filter (\<lambda>b. b = a) (normalizedValues agents))) \<and>
         sorted_wrt (\<lambda>a b. num_sign (target_agent_cmp collate a b) \<le> 0)
           (createTargetInventorySnapshot collate agents) \<and>
         createTargetInventorySnapshot collate (Arr (createTargetInventorySnapshot collate agents)) =
           createTargetInventorySnapshot collate agents"
proof -
  let ?s = "createTargetInventorySnapshot collate agents"
  note c = target_agent_comparator [OF assms]
  have "\<forall>a\<in>set ?s. truthy a"
    by (auto simp: createTargetInventorySnapshot_def normalizedValues_def)
  then have "normalizedValues (Arr ?s) = ?s"
    by (simp add: normalizedValues_def)
  then have "createTargetInventorySnapshot collate (Arr ?s) = ?s"
    using comparator.sort_by_idem [OF c, of "normalizedValues agents"]
    by (simp add: createTargetInventorySnapshot_def)
  then show ?thesis
    using comparator.sort_by_sorted [OF c, of "normalizedValues agents"]
    by (simp add: createTargetInventorySnapshot_def)
qed

theorem createTargetInventorySnapshot_sorted_witness:
  "sorted_wrt (\<lambda>a b. num_sign (target_agent_cmp code_unit_collate a b) \<le> 0)
     (createTargetInventorySnapshot code_unit_collate
       (Arr [Obj [(''UID'', Str ''b'')], Null, Obj [(''UID'', Str ''a'')]]))"
  using createTargetInventorySnapshot_sorted [OF code_units.comparator_axioms,
      of "Arr [Obj [(''UID'', Str ''b'')], Null, Obj [(''UID'', Str ''a'')]]"] by blast

subsection \<open>Preview and publication agree\<close>

definition usable :: "jsval \<Rightarrow> bool" where
  "usable attribute \<longleftrightarrow> truthy (get attribute ''key'') \<and> truthy (get attribute ''value'')"

lemma publishedSelector_lists:
  "array (get (publishedSelector ids services attrs) ''InstanceUIDs'') = ids"
  "array (get (publishedSelector ids services attrs) ''Services'') = services"
  "own_entries (js_or (get (publishedSelector ids services attrs) ''Attributes'') (Obj [])) =
     from_entries (map (\<lambda>a. (to_str (get a ''key''), get a ''value'')) (filter usable attrs))"
  "readable_selector (publishedSelector ids services attrs)"
  by (simp_all add: publishedSelector_def readable_selector_def readable_list_def usable_def [abs_def]
      fld_def js_or_def)

lemma destinationSelection_lists:
  "normalizedValues (param (destinationSelection ids services attrs) ''selectedAgentIds'' (Arr [])) = filter truthy ids"
  "normalizedValues (param (destinationSelection ids services attrs) ''selectedServices'' (Arr [])) = filter truthy services"
  "set (usable_attributes (param (destinationSelection ids services attrs) ''selectorAttributes'' (Arr []))) =
     {a \<in> set attrs. usable a}"
proof -
  have "truthy a" if "usable a" for a
    using that by (cases a) (auto simp: usable_def fld_def object_prototype_def)
  moreover have "param (destinationSelection ids services attrs) ''selectorAttributes'' (Arr []) = Arr attrs"
    by (simp add: destinationSelection_def param_def fld_def)
  ultimately show "set (usable_attributes (param (destinationSelection ids services attrs) ''selectorAttributes'' (Arr []))) =
     {a \<in> set attrs. usable a}"
    by (auto simp: usable_attributes_def normalizedValues_def simp flip: usable_def)
qed (simp_all add: destinationSelection_def param_def normalizedValues_def fld_def)

text \<open>C25: the preview of the destinations is what the published selector matches: for an agent
  object, selected identifiers and services that are not empty, and attribute rows of which no two
  complete ones name the same key.\<close>

theorem preview_is_what_publication_matches:
  assumes "\<forall>v\<in>set ids \<union> set services. truthy v"
    and "distinct (map (\<lambda>a. to_str (get a ''key'')) (filter usable attrs))"
  shows "matchesSelector agent (publishedSelector ids services attrs) =
    Some (matchesTargetSelector (Obj agent) (destinationSelection ids services attrs))"
proof -
  let ?kv = "\<lambda>a. (to_str (get a ''key''), get a ''value'')"
  have "set (from_entries (map ?kv (filter usable attrs))) = ?kv ` {a \<in> set attrs. usable a}"
    using from_entries_distinct [of "map ?kv (filter usable attrs)"] assms(2) by (simp add: o_def)
  moreover have "filter truthy ids = ids" "filter truthy services = services"
    using assms(1) by (simp_all add: filter_id_conv)
  ultimately show ?thesis
    unfolding matchesSelector_total [OF publishedSelector_lists(4)] publishedSelector_lists
      matchesTargetSelector_def destinationSelection_lists Let_def by simp
qed

theorem preview_is_what_publication_matches_witness:
  "matchesSelector [(''UID'', Str ''u'')]
     (publishedSelector [Str ''u''] [] [Obj [(''key'', Str ''zone''), (''value'', Str [])]]) =
   Some (matchesTargetSelector (Obj [(''UID'', Str ''u'')])
     (destinationSelection [Str ''u''] [] [Obj [(''key'', Str ''zone''), (''value'', Str [])]]))"
proof (rule preview_is_what_publication_matches)
  show "\<forall>v\<in>set [Str ''u''] \<union> set []. truthy v" by simp
  show "distinct (map (\<lambda>a. to_str (get a ''key''))
      (filter usable [Obj [(''key'', Str ''zone''), (''value'', Str [])]]))" by code_simp
qed

text \<open>two complete rows that name one key with different values are previewed as matching no
  agent, while the published selector keeps only the last of them and matches the agents that
  have it: here an agent whose zone is b.\<close>

theorem preview_of_a_repeated_key_differs:
  "let attrs = [Obj [(''key'', Str ''zone''), (''value'', Str ''a'')], Obj [(''key'', Str ''zone''), (''value'', Str ''b'')]];
       agent = [(''UID'', Str ''u''), (''Attributes'', Obj [(''zone'', Str ''b'')])]
   in \<not> matchesTargetSelector (Obj agent) (destinationSelection [] [] attrs) \<and>
      matchesSelector agent (publishedSelector [] [] attrs) = Some True"
  by code_simp

subsection \<open>Narrowing a selection\<close>

text \<open>a selection with nothing selected matches every agent, the visible agents are a part of the
  matching ones in their order, and a further attribute row
  only adds its own condition, if it is complete.\<close>

theorem matchesTargetSelector_narrows:
  "matchesTargetSelector agent (destinationSelection [] [] []) \<and>
   subseq (filterVisibleTargetAgents agents selection)
     (filter (\<lambda>a. matchesTargetSelector a selection) (normalizedValues agents)) \<and>
   matchesTargetSelector agent (destinationSelection ids services (attrs @ [row])) =
     (matchesTargetSelector agent (destinationSelection ids services attrs) \<and>
      (if usable row then strict_eq (get (get agent ''Attributes'') (to_str (get row ''key''))) (get row ''value'')
       else True))"
proof (intro conjI)
  show "matchesTargetSelector agent (destinationSelection [] [] [])"
    unfolding matchesTargetSelector_def destinationSelection_lists Let_def by simp
  have "filterVisibleTargetAgents agents selection =
      filter (\<lambda>a. matchesTargetQuery a (fld selection ''query''))
        (filter (\<lambda>a. matchesTargetSelector a selection) (normalizedValues agents))"
    by (simp add: filterVisibleTargetAgents_def conj_commute)
  then show "subseq (filterVisibleTargetAgents agents selection)
     (filter (\<lambda>a. matchesTargetSelector a selection) (normalizedValues agents))"
    by (simp only: subseq_filter_left)
  show "matchesTargetSelector agent (destinationSelection ids services (attrs @ [row])) =
     (matchesTargetSelector agent (destinationSelection ids services attrs) \<and>
      (if usable row then strict_eq (get (get agent ''Attributes'') (to_str (get row ''key''))) (get row ''value'')
       else True))"
    unfolding matchesTargetSelector_def destinationSelection_lists Let_def by auto
qed

end
