(* ===== verification/Versions.thy ===== *)
theory Versions
  imports Comparator
begin

section \<open>The stored versions a user can start from (\<open>ui/src/version-source.js\<close>)\<close>

text \<open>
  The control plane returns its versions grouped by configuration; the editor flattens them,
  tags the latest of each configuration, orders them and searches them. \<open>Date.parse\<close> and
  \<open>localeCompare\<close> are the arguments \<open>date_parse\<close> and \<open>collate\<close>.
\<close>

definition text_of :: "jsval \<Rightarrow> string" where
  "text_of value = js_trim (to_str (js_default value (Str '''')))"

definition compareText :: "(string \<Rightarrow> string \<Rightarrow> jsnum) \<Rightarrow> jsval \<Rightarrow> jsval \<Rightarrow> jsnum" where
  "compareText collate left right = collate (text_of left) (text_of right)"

definition versionNumber :: "jsval \<Rightarrow> jsnum" where
  "versionNumber version =
     to_num (js_default (js_default (get version ''Version'') (get version ''version'')) (Num (Fin 0)))"

definition configID :: "jsobj \<Rightarrow> string" where
  "configID version = text_of (js_or (js_or (fld version ''configId'') (fld version ''ConfigID'')) (fld version ''ID''))"

definition versionTimestamp :: "(jsval \<Rightarrow> jsnum) \<Rightarrow> jsobj \<Rightarrow> jsnum" where
  "versionTimestamp date_parse version =
     (let value = js_or (fld version ''UpdatedAt'') (fld version ''CreatedAt'')
      in if truthy value then num_or (date_parse value) (Fin 0) else Fin 0)"

definition selectorOf :: "jsobj \<Rightarrow> jsval" where
  "selectorOf version = js_or (js_or (fld version ''Selector'') (fld version ''selector'')) (Obj [])"

definition selectorValues :: "jsval \<Rightarrow> string \<Rightarrow> string \<Rightarrow> jsval list" where
  "selectorValues selector upper lower = array (js_default (get selector upper) (get selector lower))"

definition selectorAttributes :: "jsval \<Rightarrow> jsval" where
  "selectorAttributes selector = js_or (js_or (get selector ''Attributes'') (get selector ''attributes'')) (Obj [])"

definition compareStoredVersions ::
  "(jsval \<Rightarrow> jsnum) \<Rightarrow> (string \<Rightarrow> string \<Rightarrow> jsnum) \<Rightarrow> jsobj \<Rightarrow> jsobj \<Rightarrow> jsnum" where
  "compareStoredVersions date_parse collate left right =
     num_or (num_or (num_sub (versionTimestamp date_parse right) (versionTimestamp date_parse left))
                    (compareText collate (Str (configID left)) (Str (configID right))))
            (num_sub (versionNumber (Obj right)) (versionNumber (Obj left)))"

text \<open>The reduction with \<open>Math.max\<close>, and the copy \<open>{...version, configId: id, IsLatest: ...}\<close>. A
  \<open>null\<close> in a list of versions raises.\<close>

definition latestNumber :: "jsval list \<Rightarrow> jsnum" where
  "latestNumber versions = foldl (\<lambda>current version. num_max current (versionNumber version)) (Fin 0) versions"

definition tagged_version :: "string \<Rightarrow> jsnum \<Rightarrow> jsval \<Rightarrow> jsobj" where
  "tagged_version ident latest version =
     obj_put ''IsLatest'' (Bool (num_eq (versionNumber version) latest))
       (obj_put ''configId'' (Str ident) (obj_spread [] (own_entries version)))"

definition flatten_config :: "string \<times> jsval \<Rightarrow> jsobj list option" where
  "flatten_config = (\<lambda>(i, versions).
     let versions = array versions
     in if Null \<in> set versions then None
        else Some (map (tagged_version i (latestNumber versions)) versions))"

definition flattenStoredVersions ::
  "(jsval \<Rightarrow> jsnum) \<Rightarrow> (string \<Rightarrow> string \<Rightarrow> jsnum) \<Rightarrow> jsobj \<Rightarrow> jsobj list option" where
  "flattenStoredVersions date_parse collate configs = do {
     groups \<leftarrow> map_opt flatten_config configs;
     Some (sort_by (compareStoredVersions date_parse collate) (concat groups)) }"

record selector_summary =
  sv_services :: "jsval list"
  sv_instances :: "jsval list"
  sv_attributes :: "string list"

definition storedVersionSelectorSummary :: "(string \<Rightarrow> string \<Rightarrow> jsnum) \<Rightarrow> jsobj \<Rightarrow> selector_summary" where
  "storedVersionSelectorSummary collate version =
     (let selector = selectorOf version in
      \<lparr>sv_services = selectorValues selector ''Services'' ''services'',
       sv_instances = selectorValues selector ''InstanceUIDs'' ''instanceUIDs'',
       sv_attributes = map (\<lambda>(key, v). key @ ''='' @ to_str v)
         (sort_by (\<lambda>(l, _) (r, _). compareText collate (Str l) (Str r))
           (own_entries (selectorAttributes selector)))\<rparr>)"

definition storedVersionSearchText :: "(string \<Rightarrow> string \<Rightarrow> jsnum) \<Rightarrow> jsobj \<Rightarrow> string" where
  "storedVersionSearchText collate version =
     (let selector = storedVersionSelectorSummary collate version
      in js_lower (join_vals '' '' (filter (\<lambda>v. text_of v \<noteq> [])
           ([Str (configID version), Num (versionNumber (Obj version)),
             Str (''v'' @ num_str (versionNumber (Obj version))),
             fld version ''Target'', fld version ''Action'', fld version ''CreatedBy'', fld version ''Hash''] @
            sv_services selector @ sv_instances selector @ map Str (sv_attributes selector)))))"

definition filterStoredVersions ::
  "(jsval \<Rightarrow> jsnum) \<Rightarrow> (string \<Rightarrow> string \<Rightarrow> jsnum) \<Rightarrow> jsobj list \<Rightarrow> jsval \<Rightarrow> jsobj list" where
  "filterStoredVersions date_parse collate versions query =
     (let tokens = js_words (js_lower (text_of query));
          sorted = sort_by (compareStoredVersions date_parse collate) versions
      in if tokens = [] then sorted
         else filter (\<lambda>version. let searchText = storedVersionSearchText collate version
                                in \<forall>token\<in>set tokens. js_includes searchText token) sorted)"

definition compareDestinationRecords :: "(string \<Rightarrow> string \<Rightarrow> jsnum) \<Rightarrow> jsobj \<Rightarrow> jsobj \<Rightarrow> jsnum" where
  "compareDestinationRecords collate left right =
     num_or (num_or (num_or
       (compareText collate (fld left ''ConfigID'') (fld right ''ConfigID''))
       (num_sub (to_num (js_or (fld right ''Version'') (Num (Fin 0))))
                (to_num (js_or (fld left ''Version'') (Num (Fin 0))))))
       (compareText collate (fld left ''Service'') (fld right ''Service'')))
       (compareText collate (fld left ''AgentUID'') (fld right ''AgentUID''))"

definition sortDestinationRecords :: "(string \<Rightarrow> string \<Rightarrow> jsnum) \<Rightarrow> jsobj list \<Rightarrow> jsobj list" where
  "sortDestinationRecords collate records = sort_by (compareDestinationRecords collate) records"

declare text_of_def [js_eval] compareText_def [js_eval] versionNumber_def [js_eval] configID_def [js_eval]
  versionTimestamp_def [js_eval] selectorOf_def [js_eval] selectorValues_def [js_eval]
  selectorAttributes_def [js_eval] compareStoredVersions_def [js_eval] latestNumber_def [js_eval]
  tagged_version_def [js_eval] flatten_config_def [js_eval] flattenStoredVersions_def [js_eval]
  storedVersionSelectorSummary_def [js_eval] storedVersionSearchText_def [js_eval]
  filterStoredVersions_def [js_eval] compareDestinationRecords_def [js_eval] sortDestinationRecords_def [js_eval]

subsection \<open>The comparators\<close>

lemma stored_versionTimestamp_number [simp]: "versionTimestamp dp v \<noteq> NaN"
  by (auto simp: versionTimestamp_def num_or_def Let_def)

lemma stored_version_comparator:
  assumes "comparator collate (\<lambda>_. True)"
  shows "comparator (compareStoredVersions dp collate) (\<lambda>v. versionNumber (Obj v) \<noteq> NaN)"
proof -
  have "comparator (\<lambda>l r. num_or (num_or (num_sub (versionTimestamp dp r) (versionTimestamp dp l))
      (collate (text_of (Str (configID l))) (text_of (Str (configID r)))))
      (num_sub (versionNumber (Obj r)) (versionNumber (Obj l)))) (\<lambda>v. versionNumber (Obj v) \<noteq> NaN)"
    by (intro comparator_or comparator_sub_desc comparator_on [OF assms]) simp_all
  then show ?thesis by (simp only: compareStoredVersions_def [abs_def] compareText_def)
qed

definition record_number :: "jsobj \<Rightarrow> jsnum" where
  "record_number r = to_num (js_or (fld r ''Version'') (Num (Fin 0)))"

lemma destination_record_comparator:
  assumes "comparator collate (\<lambda>_. True)"
  shows "comparator (compareDestinationRecords collate) (\<lambda>r. record_number r \<noteq> NaN)"
proof -
  have "comparator (\<lambda>l r. num_or (num_or (num_or
      (collate (text_of (fld l ''ConfigID'')) (text_of (fld r ''ConfigID'')))
      (num_sub (record_number r) (record_number l)))
      (collate (text_of (fld l ''Service'')) (text_of (fld r ''Service''))))
      (collate (text_of (fld l ''AgentUID'')) (text_of (fld r ''AgentUID'')))) (\<lambda>r. record_number r \<noteq> NaN)"
    by (intro comparator_or comparator_sub_desc comparator_on [OF assms]) simp_all
  then show ?thesis by (simp only: compareDestinationRecords_def [abs_def] compareText_def record_number_def)
qed

interpretation stored_versions: comparator "compareStoredVersions to_num code_unit_collate"
    "\<lambda>v. versionNumber (Obj v) \<noteq> NaN"
  by (rule stored_version_comparator, rule code_units.comparator_axioms)

interpretation destination_records: comparator "compareDestinationRecords code_unit_collate"
    "\<lambda>r. record_number r \<noteq> NaN"
  by (rule destination_record_comparator, rule code_units.comparator_axioms)

subsection \<open>The latest version of a configuration\<close>

lemma num_max_number: "a \<noteq> NaN \<Longrightarrow> b \<noteq> NaN \<Longrightarrow> num_max a b \<noteq> NaN"
  by simp

lemma foldl_num_max:
  assumes "a \<noteq> NaN" "\<forall>v\<in>set vs. f v \<noteq> NaN"
  shows "foldl (\<lambda>c v. num_max c (f v)) a vs \<noteq> NaN \<and>
    \<not> num_lt (foldl (\<lambda>c v. num_max c (f v)) a vs) a \<and>
    (\<forall>v\<in>set vs. \<not> num_lt (foldl (\<lambda>c v. num_max c (f v)) a vs) (f v)) \<and>
    (foldl (\<lambda>c v. num_max c (f v)) a vs = a \<or> (\<exists>v\<in>set vs. foldl (\<lambda>c v. num_max c (f v)) a vs = f v))"
  using assms
proof (induction vs arbitrary: a)
  case Nil
  then show ?case by simp
next
  case (Cons v vs)
  let ?m = "num_max a (f v)"
  let ?r = "foldl (\<lambda>c v. num_max c (f v)) ?m vs"
  have m: "?m \<noteq> NaN" "\<not> num_lt ?m a" "\<not> num_lt ?m (f v)" "?m = a \<or> ?m = f v"
    using Cons.prems by (auto dest: num_lt_asym)
  note r = Cons.IH [OF m(1)]
  have r': "?r \<noteq> NaN" "\<not> num_lt ?r ?m" "\<forall>v\<in>set vs. \<not> num_lt ?r (f v)"
      "?r = ?m \<or> (\<exists>v\<in>set vs. ?r = f v)"
    using r Cons.prems(2) by auto
  have "\<not> num_lt ?r a" "\<not> num_lt ?r (f v)"
    using num_le_trans [OF m(2) r'(2)] num_le_trans [OF m(3) r'(2)] m(1) r'(1) Cons.prems by auto
  then show ?case using r' m by auto
qed

lemma latestNumber_max:
  assumes "\<forall>v\<in>set vs. versionNumber v \<noteq> NaN"
  shows "latestNumber vs \<noteq> NaN" "v \<in> set vs \<Longrightarrow> \<not> num_lt (latestNumber vs) (versionNumber v)"
    "latestNumber vs = Fin 0 \<or> (\<exists>v\<in>set vs. latestNumber vs = versionNumber v)"
  using foldl_num_max [of "Fin 0" vs versionNumber] assms by (auto simp: latestNumber_def)

lemma tagged_fields:
  "fld (tagged_version i l v) ''configId'' = Str i"
  "fld (tagged_version i l v) ''IsLatest'' = Bool (num_eq (versionNumber v) l)"
  by (simp_all add: tagged_version_def fld_obj_put)

lemma fld_copy:
  assumes "k \<notin> {''configId'', ''IsLatest''}" "wf_obj ob"
  shows "fld (tagged_version i l (Obj ob)) k = fld ob k"
  using assms by (simp add: tagged_version_def fld_obj_put) (simp add: fld_def map_of_spread)

lemma versionNumber_copy:
  "wf_obj ob \<Longrightarrow> versionNumber (Obj (tagged_version i l (Obj ob))) = versionNumber (Obj ob)"
  by (simp add: versionNumber_def fld_copy)

text \<open>What the control plane returns: each entry an array of version objects numbered from 1.\<close>

definition stored_configs :: "jsobj \<Rightarrow> bool" where
  "stored_configs configs \<longleftrightarrow> wf_obj configs \<and>
     (\<forall>(i, versions)\<in>set configs. \<forall>v\<in>set (array versions).
        case v of Obj ob \<Rightarrow> wf_obj ob \<and> num_lt (Fin 0) (versionNumber v) | _ \<Rightarrow> False)"

declare stored_configs_def [js_eval]

lemma stored_configsD:
  assumes "stored_configs configs" "(i, versions) \<in> set configs" "v \<in> set (array versions)"
  shows "v \<noteq> Null" "versionNumber v \<noteq> NaN" "num_lt (Fin 0) (versionNumber v)"
    "\<exists>ob. v = Obj ob \<and> wf_obj ob"
proof -
  have "case v of Obj ob \<Rightarrow> wf_obj ob \<and> num_lt (Fin 0) (versionNumber v) | _ \<Rightarrow> False"
    using assms by (auto simp: stored_configs_def)
  then show "v \<noteq> Null" "num_lt (Fin 0) (versionNumber v)" "\<exists>ob. v = Obj ob \<and> wf_obj ob"
    by (auto split: jsval.splits)
  then show "versionNumber v \<noteq> NaN" by auto
qed

lemma flatten_total:
  assumes "stored_configs configs"
  shows "\<exists>vs. flattenStoredVersions dp collate configs = Some vs \<and>
    set vs = (\<Union>(i, versions)\<in>set configs. tagged_version i (latestNumber (array versions)) ` set (array versions)) \<and>
    length vs = sum_list (map (\<lambda>(i, versions). length (array versions)) configs)"
proof -
  let ?g = "\<lambda>(i, versions). map (tagged_version i (latestNumber (array versions))) (array versions)"
  have "flatten_config c = Some (?g c)" if "c \<in> set configs" for c
    using stored_configsD(1) [OF assms, of "fst c" "snd c"] that
    by (cases c) (auto simp: flatten_config_def Let_def)
  then have "map_opt flatten_config configs = Some (map ?g configs)"
    by (intro map_opt_total) auto
  then have "flattenStoredVersions dp collate configs =
      Some (sort_by (compareStoredVersions dp collate) (concat (map ?g configs)))"
    by (simp add: flattenStoredVersions_def)
  moreover have "set (concat (map ?g configs)) =
      (\<Union>(i, versions)\<in>set configs. tagged_version i (latestNumber (array versions)) ` set (array versions))"
    by auto
  moreover have "length (concat (map ?g configs)) = sum_list (map (\<lambda>(i, versions). length (array versions)) configs)"
    by (simp add: length_concat o_def split_def)
  ultimately show ?thesis by auto
qed

text \<open>Which of the tagged versions is the latest, whatever their order.\<close>

definition tagged_versions :: "(string \<times> jsval) list \<Rightarrow> jsobj set" where
  "tagged_versions configs =
     (\<Union>(i, versions)\<in>set configs. tagged_version i (latestNumber (array versions)) ` set (array versions))"

lemma tagged_has_latest:
  assumes "stored_configs configs" and c: "(i, versions) \<in> set configs" and ne: "array versions \<noteq> []"
  shows "\<exists>v\<in>tagged_versions configs. fld v ''configId'' = Str i \<and> fld v ''IsLatest'' = Bool True"
proof -
  note D = stored_configsD [OF assms(1)]
  have n: "\<forall>v\<in>set (array versions). versionNumber v \<noteq> NaN" using D(2) c by auto
  obtain u where u: "u \<in> set (array versions)" using ne by (cases "array versions") auto
  have "latestNumber (array versions) \<noteq> Fin 0"
    using latestNumber_max(2) [OF n u] D(3) [OF c u] by auto
  then obtain v where v: "v \<in> set (array versions)" "latestNumber (array versions) = versionNumber v"
    using latestNumber_max(3) [OF n] by auto
  have "tagged_version i (latestNumber (array versions)) v \<in> tagged_versions configs"
    unfolding tagged_versions_def using c v(1) by auto
  then show ?thesis using v n by (metis tagged_fields num_eq_iff)
qed

lemma tagged_latest_is_greatest:
  assumes "stored_configs configs" and v: "v \<in> tagged_versions configs" and w: "w \<in> tagged_versions configs"
    and same: "fld v ''configId'' = fld w ''configId''" and l: "fld v ''IsLatest'' = Bool True"
  shows "\<not> num_lt (versionNumber (Obj v)) (versionNumber (Obj w))"
proof -
  note D = stored_configsD [OF assms(1)]
  obtain i versions x where x: "(i, versions) \<in> set configs" "x \<in> set (array versions)"
    "v = tagged_version i (latestNumber (array versions)) x" using v by (auto simp: tagged_versions_def)
  obtain j versions' y where y: "(j, versions') \<in> set configs" "y \<in> set (array versions')"
    "w = tagged_version j (latestNumber (array versions')) y" using w by (auto simp: tagged_versions_def)
  have "i = j" using same x(3) y(3) by (simp add: tagged_fields)
  then have "versions = versions'"
    using x(1) y(1) assms(1) by (auto simp: stored_configs_def wf_obj_def dest: eq_key_imp_eq_value)
  moreover have "versionNumber (Obj v) = latestNumber (array versions)"
    using l x D(4) [OF x(1,2)] by (auto simp: tagged_fields versionNumber_copy num_eq_iff)
  moreover have "versionNumber (Obj w) = versionNumber y"
    using y(3) D(4) [OF y(1,2)] by (auto simp: versionNumber_copy)
  ultimately show ?thesis
    using latestNumber_max(2) [of "array versions" y] D(2) [OF x(1)] y(2) by simp
qed

text \<open>flattening keeps every stored version once, labelled with its configuration and with
  whether it is the latest, in an order consistent with the comparator; a configuration with at
  least one version has a latest one, and no version of it has a greater number.\<close>

theorem flattenStoredVersions_tags_latest:
  assumes "stored_configs configs" and "comparator collate (\<lambda>_. True)"
  shows "\<exists>vs. flattenStoredVersions dp collate configs = Some vs \<and>
    length vs = sum_list (map (\<lambda>(i, versions). length (array versions)) configs) \<and>
    sorted_wrt (\<lambda>a b. num_sign (compareStoredVersions dp collate a b) \<le> 0) vs \<and>
    (\<forall>(i, versions)\<in>set configs. array versions \<noteq> [] \<longrightarrow>
       (\<exists>v\<in>set vs. fld v ''configId'' = Str i \<and> fld v ''IsLatest'' = Bool True)) \<and>
    (\<forall>v\<in>set vs. \<forall>w\<in>set vs. fld v ''configId'' = fld w ''configId'' \<longrightarrow> fld v ''IsLatest'' = Bool True \<longrightarrow>
       \<not> num_lt (versionNumber (Obj v)) (versionNumber (Obj w)))"
proof -
  obtain vs where vs: "flattenStoredVersions dp collate configs = Some vs"
    "set vs = tagged_versions configs"
    "length vs = sum_list (map (\<lambda>(i, versions). length (array versions)) configs)"
    using flatten_total [OF assms(1), of dp collate] by (auto simp: tagged_versions_def)
  note D = stored_configsD [OF assms(1)]
  have num: "versionNumber (Obj v) \<noteq> NaN" if v: "v \<in> set vs" for v
  proof -
    obtain i versions u where "(i, versions) \<in> set configs" "u \<in> set (array versions)"
      "v = tagged_version i (latestNumber (array versions)) u" using v by (auto simp: vs(2) tagged_versions_def)
    then show ?thesis using D(2,4) [of i versions u] by (auto simp: versionNumber_copy)
  qed
  have "sorted_wrt (\<lambda>a b. num_sign (compareStoredVersions dp collate a b) \<le> 0) vs"
  proof -
    obtain ws where "vs = sort_by (compareStoredVersions dp collate) ws"
      using vs(1) by (auto simp: flattenStoredVersions_def bind_eq_Some_conv)
    then show ?thesis
      using comparator.sort_by_sorted [OF stored_version_comparator [OF assms(2)], of ws] num by simp
  qed
  moreover note tagged_has_latest [OF assms(1)] tagged_latest_is_greatest [OF assms(1)]
  ultimately show ?thesis using vs by blast
qed

theorem flattenStoredVersions_tags_latest_witness:
  "stored_configs [(''p'', Arr [Obj [(''Version'', Num (Fin 1))], Obj [(''Version'', Num (Fin 2))]])] \<and>
   (\<exists>vs. flattenStoredVersions to_num code_unit_collate
          [(''p'', Arr [Obj [(''Version'', Num (Fin 1))], Obj [(''Version'', Num (Fin 2))]])] = Some vs \<and>
        length vs = 2)"
proof -
  have c: "stored_configs [(''p'', Arr [Obj [(''Version'', Num (Fin 1))], Obj [(''Version'', Num (Fin 2))]])]"
    by code_simp
  show ?thesis
    using flattenStoredVersions_tags_latest [OF c code_units.comparator_axioms, of to_num] c by auto
qed

subsection \<open>Searching\<close>

lemma filterStoredVersions_alt:
  "filterStoredVersions dp collate versions query =
     filter (\<lambda>v. \<forall>token\<in>set (js_words (js_lower (text_of query))). js_includes (storedVersionSearchText collate v) token)
       (sort_by (compareStoredVersions dp collate) versions)"
  by (simp add: filterStoredVersions_def Let_def)

text \<open>a search keeps, in the order of the list without a query, exactly the versions whose text
  contains every word of the query; a query with further words finds a part of the versions, and
  a query of white space finds all of them.\<close>

theorem filterStoredVersions_spec:
  "set (filterStoredVersions dp collate versions query) =
     {v \<in> set versions. \<forall>token\<in>set (js_words (js_lower (text_of query))).
        sublist token (storedVersionSearchText collate v)} \<and>
   subseq (filterStoredVersions dp collate versions query) (filterStoredVersions dp collate versions Undef) \<and>
   filterStoredVersions dp collate versions (Str (q @ '' '' @ r)) =
     filter (\<lambda>v. v \<in> set (filterStoredVersions dp collate versions (Str r)))
       (filterStoredVersions dp collate versions (Str q))"
proof -
  have u: "filterStoredVersions dp collate versions Undef = sort_by (compareStoredVersions dp collate) versions"
    by (simp add: filterStoredVersions_def text_of_def js_default_def nullish_def js_words_def)
  have tok: "js_words (js_lower (text_of (Str s))) = js_words (js_lower s)" for s
    by (simp add: text_of_def js_default_def nullish_def js_lower_trim)
  have "is_space (lower_char CHR '' '')" by code_simp
  then have two: "js_words (js_lower (q @ '' '' @ r)) = js_words (js_lower q) @ js_words (js_lower r)"
    using js_words_append [of "lower_char CHR '' ''" "js_lower q" "js_lower r"]
    by (simp add: js_lower_def)
  show ?thesis
    unfolding u unfolding filterStoredVersions_alt tok two by (auto simp: js_includes_iff intro: filter_cong)
qed

theorem filterStoredVersions_spec_witness:
  "[(''ID'', Str ''a'')] \<in> set (filterStoredVersions (\<lambda>_. NaN) code_unit_collate [[(''ID'', Str ''a'')]] (Str ''A V0''))"
proof -
  have "sublist token (storedVersionSearchText code_unit_collate [(''ID'', Str ''a'')])"
    if "token \<in> set [''a'', ''v0'']" for token
    using that by (auto simp flip: js_includes_iff) (code_simp)+
  moreover have "js_words (js_lower (text_of (Str ''A V0''))) = [''a'', ''v0'']" by code_simp
  ultimately show ?thesis
    unfolding filterStoredVersions_spec [THEN conjunct1] by (simp only: mem_Collect_eq list.set) auto
qed

end
