(* ===== verification/Telemetry.thy ===== *)
theory Telemetry
  imports Comparator
begin

section \<open>The telemetry events of a policy (\<open>ui/src/telemetry-events.js\<close>)\<close>

text \<open>
  A policy document lists HTTP events, method policies, messaging events and the metrics made of
  them. This theory has the normal forms the editor gives to a policy, the names of events, and
  the policy schema an agent needs. Reading a list that is not an array where the code calls an
  array method on it raises (\<open>None\<close>).
\<close>

subsection \<open>Directions and counts\<close>

definition normalizeTelemetryEditorFocus :: "jsval \<Rightarrow> string" where
  "normalizeTelemetryEditorFocus v =
     (if v \<in> {Str ''method'', Str ''http-outgoing'', Str ''kafka'', Str ''jms''} then to_str v
      else ''http-incoming'')"

definition telemetryDirectionForFocus :: "string \<Rightarrow> string" where
  "telemetryDirectionForFocus focus = (if focus = ''http-outgoing'' then ''OUTGOING'' else ''INCOMING'')"

definition normalizeHTTPDirection :: "jsval \<Rightarrow> string" where
  "normalizeHTTPDirection direction =
     (let d = js_upper (js_trim (str_or direction ''INCOMING'')) in if d = [] then ''INCOMING'' else d)"

definition legacyHTTPConfigurationCount :: "jsobj \<Rightarrow> jsval \<Rightarrow> nat" where
  "legacyHTTPConfigurationCount policy direction =
     (let expectedDirection = normalizeHTTPDirection direction;
          headers = array (fld policy ''requestHeaders'') @ array (fld policy ''responseHeaders'');
          metrics = array (fld policy ''metricPolicies'')
      in length (filter (\<lambda>item. normalizeHTTPDirection (get item ''direction'') = expectedDirection)
           (headers @ metrics)))"

definition legacyHTTPHeaderCount :: "jsobj \<Rightarrow> jsval \<Rightarrow> nat" where
  "legacyHTTPHeaderCount policy direction =
     (let expectedDirection = normalizeHTTPDirection direction
      in length (filter (\<lambda>item. normalizeHTTPDirection (get item ''direction'') = expectedDirection)
           (array (fld policy ''requestHeaders'') @ array (fld policy ''responseHeaders''))))"

subsection \<open>HTTP metrics\<close>

definition duration_buckets :: "jsval list" where
  "duration_buckets = map (\<lambda>q. Num (Fin q))
     [5/1000, 1/100, 25/1000, 5/100, 75/1000, 1/10, 25/100, 1/2, 75/100, 1, 5/2, 5, 15/2, 10]"

definition duration_value :: jsobj where
  "duration_value = [(''source'', Str ''DURATION''), (''argumentIndex'', Num (Fin (-1))),
     (''path'', Str ''''), (''constant'', Num (Fin 1))]"

definition createHTTPDurationMetricPolicy :: "jsval \<Rightarrow> string \<Rightarrow> jsobj" where
  "createHTTPDurationMetricPolicy direction ident =
     [(''id'', Str ident), (''enabled'', Bool True),
      (''direction'', Str (normalizeHTTPDirection direction)), (''value'', Obj duration_value),
      (''name'', Str ''''), (''instrument'', Str ''HISTOGRAM''), (''unit'', Str ''s''),
      (''description'', Str ((''Duraci'' @ [CHR 0xF3] @ ''n de los intercambios HTTP''))),
      (''standardAttributes'', Arr []), (''customAttributes'', Arr []), (''buckets'', Arr duration_buckets)]"

definition value_policy_defaults :: jsobj where
  "value_policy_defaults =
     [(''type'', Str ''ENUM''), (''allowed'', Arr [Str ''VALUE_A'', Str ''VALUE_B'']),
      (''fallback'', Str ''OTHER''), (''ranges'', Arr [])]"

definition normalize_custom_attribute :: "jsval \<Rightarrow> jsval" where
  "normalize_custom_attribute attribute =
     Obj (obj_put ''valuePolicy''
       (Obj (obj_spread value_policy_defaults (own_entries (js_or (get attribute ''valuePolicy'') (Obj [])))))
       (obj_spread
         [(''source'', Str ''REQUEST_HEADER''), (''argumentIndex'', Num (Fin (-1))), (''path'', Str ''''),
          (''constant'', Num (Fin 1)), (''header'', Str ''''), (''attribute'', Str ''''), (''destinations'', Arr [])]
         (own_entries attribute)))"

definition normalizeHTTPMetricPolicy :: "jsobj \<Rightarrow> jsobj" where
  "normalizeHTTPMetricPolicy metric =
     obj_spread metric
       [(''direction'', Str (normalizeHTTPDirection (fld metric ''direction''))),
        (''value'', Obj (obj_spread duration_value (own_entries (js_or (fld metric ''value'') (Obj []))))),
        (''standardAttributes'', array_or_empty (fld metric ''standardAttributes'')),
        (''customAttributes'', Arr (map normalize_custom_attribute (array (fld metric ''customAttributes'')))),
        (''buckets'', array_or_empty (fld metric ''buckets''))]"

subsection \<open>Events\<close>

definition httpEventUsesBody :: "jsobj \<Rightarrow> bool option" where
  "httpEventUsesBody eventPolicy = do {
     conditions \<leftarrow> items_or (fld eventPolicy ''conditions'');
     fields \<leftarrow> items_or (fld eventPolicy ''fields'');
     Some (\<exists>item\<in>set (conditions @ fields).
       get item ''source'' = Str ''REQUEST_BODY'' \<or> get item ''source'' = Str ''RESPONSE_BODY'') }"

definition eventMetricIntent :: "jsobj \<Rightarrow> string" where
  "eventMetricIntent eventMetric =
     (if fld eventMetric ''instrument'' = Str ''HISTOGRAM'' then ''DISTRIBUTION''
      else if truthy (fld eventMetric ''valueField'') then ''TOTAL'' else ''COUNT'')"

definition configureEventMetricIntent :: "jsobj \<Rightarrow> string \<Rightarrow> jsval \<Rightarrow> jsobj" where
  "configureEventMetricIntent eventMetric intent defaultNumericField =
     (if intent = ''COUNT'' then
        obj_spread eventMetric [(''instrument'', Str ''COUNTER''), (''valueField'', Str ''''), (''buckets'', Arr [])]
      else if intent = ''TOTAL'' then
        obj_spread eventMetric [(''instrument'', Str ''COUNTER''),
          (''valueField'', js_or (fld eventMetric ''valueField'') defaultNumericField), (''buckets'', Arr [])]
      else if intent = ''DISTRIBUTION'' then
        obj_spread eventMetric [(''instrument'', Str ''HISTOGRAM''),
          (''valueField'', js_or (fld eventMetric ''valueField'') defaultNumericField),
          (''buckets'', if truthy (get (fld eventMetric ''buckets'') ''length'') then fld eventMetric ''buckets''
             else Arr (map (\<lambda>q. Num (Fin q)) [100, 500, 1000, 3000, 10000]))]
      else eventMetric)"

record name_output =
  no_value :: string
  no_destinations :: "jsval list"

definition names_event :: "jsval \<Rightarrow> bool" where
  "names_event attribute \<longleftrightarrow> get attribute ''attribute'' = Str ''event.name''"

definition span_or_log :: "jsval list \<Rightarrow> jsval list" where
  "span_or_log destinations = filter (\<lambda>d. d = Str ''SPAN'' \<or> d = Str ''LOG'') destinations"

definition eventNameOutput :: "jsobj \<Rightarrow> name_output option" where
  "eventNameOutput eventPolicy = do {
     attributes \<leftarrow> list_or (fld eventPolicy ''staticAttributes'');
     let attribute = (case find names_event attributes of Some a \<Rightarrow> a | None \<Rightarrow> Undef) in do {
       destinations \<leftarrow> list_or (get attribute ''destinations'');
       Some \<lparr>no_value = str_or (get attribute ''value'') '''', no_destinations = span_or_log destinations\<rparr> } }"

text \<open>The loop over the static attributes with its flag \<open>replaced\<close>, and the final \<open>push\<close>.\<close>

definition event_name_fields :: "string \<Rightarrow> jsval list \<Rightarrow> jsobj" where
  "event_name_fields v destinations =
     [(''attribute'', Str ''event.name''), (''value'', Str v), (''type'', Str ''STRING''), (''destinations'', Arr destinations)]"

fun with_event_name :: "string \<Rightarrow> jsval list \<Rightarrow> bool \<Rightarrow> jsval list \<Rightarrow> jsval list" where
  "with_event_name v destinations replaced [] =
     (if v \<noteq> [] \<and> \<not> replaced then [Obj (event_name_fields v destinations)] else [])"
| "with_event_name v destinations replaced (attribute # rest) =
     (if \<not> names_event attribute then attribute # with_event_name v destinations replaced rest
      else if v \<noteq> [] \<and> \<not> replaced then
        Obj (obj_spread (own_entries attribute) (event_name_fields v destinations)) #
          with_event_name v destinations True rest
      else with_event_name v destinations replaced rest)"

definition withEventNameOutput :: "jsobj \<Rightarrow> string \<Rightarrow> jsval list \<Rightarrow> jsobj option" where
  "withEventNameOutput eventPolicy v destinations = do {
     attributes \<leftarrow> items_or (fld eventPolicy ''staticAttributes'');
     Some (obj_put ''staticAttributes'' (Arr (with_event_name v (span_or_log destinations) False attributes)) eventPolicy) }"

definition http_event_shape :: "jsobj \<Rightarrow> jsobj" where
  "http_event_shape eventPolicy =
     obj_spread eventPolicy
       [(''direction'', Str (normalizeHTTPDirection (fld eventPolicy ''direction''))),
        (''conditions'', array_or_empty (fld eventPolicy ''conditions'')),
        (''staticAttributes'', array_or_empty (fld eventPolicy ''staticAttributes'')),
        (''fields'', array_or_empty (fld eventPolicy ''fields'')),
        (''derivedFields'', array_or_empty (fld eventPolicy ''derivedFields'')),
        (''log'', Obj (obj_spread
           [(''enabled'', Bool False), (''severity'', Str ''INFO''), (''body'', Str ''HTTP rule matched'')]
           (own_entries (js_or (fld eventPolicy ''log'') (Obj [])))))]"

definition normalizeHTTPEventPolicy :: "jsobj \<Rightarrow> jsobj option" where
  "normalizeHTTPEventPolicy eventPolicy =
     (let normalized = http_event_shape eventPolicy in do {
        output \<leftarrow> eventNameOutput normalized;
        withEventNameOutput normalized (no_value output) (no_destinations output) })"

definition normalizeHTTPEventMetric :: "jsobj \<Rightarrow> jsobj" where
  "normalizeHTTPEventMetric eventMetric =
     obj_spread eventMetric
       [(''dimensions'', array_or_empty (fld eventMetric ''dimensions'')),
        (''standardAttributes'', array_or_empty (fld eventMetric ''standardAttributes'')),
        (''buckets'', array_or_empty (fld eventMetric ''buckets''))]"

definition httpEventMetricStandardAttributes :: "string \<Rightarrow> (string \<times> string) list" where
  "httpEventMetricStandardAttributes direction =
     [(''http.request.method'', ((''M'' @ [CHR 0xE9] @ ''todo HTTP conocido.'')))] @
     (if direction = ''INCOMING'' then
        [(''http.route'', (''Plantilla de ruta coincidente; nunca se sustituye por la URL concreta.''))] else []) @
     [(''http.response.status_code'', ((''C'' @ [CHR 0xF3] @ ''digo de respuesta cuando la operaci'' @ [CHR 0xF3] @ ''n produjo uno.''))),
      (''error.type'', ((''Se omite en operaciones exitosas. En errores contiene el c'' @ [CHR 0xF3] @ ''digo HTTP, timeout o la clase de excepci'' @ [CHR 0xF3] @ ''n.'')))]"

definition httpMetricStandardAttributes :: "string \<Rightarrow> (string \<times> string) list" where
  "httpMetricStandardAttributes direction =
     httpEventMetricStandardAttributes direction @
     [(''url.scheme'', ((''Esquema HTTP o HTTPS conocido por la instrumentaci'' @ [CHR 0xF3] @ ''n.''))),
      (''network.protocol.name'', ((''Nombre estable del protocolo cuando est'' @ [CHR 0xE1] @ '' disponible.''))),
      (''network.protocol.version'', ((''Versi'' @ [CHR 0xF3] @ ''n del protocolo cuando est'' @ [CHR 0xE1] @ '' disponible.'')))]"

subsection \<open>Event names\<close>

definition event_name_text :: "jsval \<Rightarrow> string" where
  "event_name_text eventPolicy = str_or (get eventPolicy ''eventName'') ''''"

text \<open>The two sets of the loop: the names seen, and the duplicates in the order they are found.\<close>

definition duplicate_step :: "string \<Rightarrow> string list \<times> string list \<Rightarrow> string list \<times> string list" where
  "duplicate_step eventName = (\<lambda>(seen, duplicates).
     if eventName = [] then (seen, duplicates)
     else (if eventName \<in> set seen then seen else seen @ [eventName],
           if eventName \<in> set seen \<and> eventName \<notin> set duplicates then duplicates @ [eventName] else duplicates))"

definition duplicate_names :: "string list \<Rightarrow> string list" where
  "duplicate_names names = snd (fold duplicate_step names ([], []))"

definition duplicateHTTPEventNames :: "jsobj \<Rightarrow> string list" where
  "duplicateHTTPEventNames policy =
     duplicate_names (map event_name_text (array (fld policy ''bodyEventPolicies'')))"

definition unused_name :: "string list \<Rightarrow> string \<Rightarrow> string" where
  "unused_name used base =
     (if base \<notin> set used then base else suffixed base (next_suffix used base 2))"

definition nextHTTPEventName :: "jsval list \<Rightarrow> string \<Rightarrow> string" where
  "nextHTTPEventName events base = unused_name (map event_name_text events) base"

definition fieldsForHTTPEvent :: "jsobj \<Rightarrow> jsval \<Rightarrow> string \<Rightarrow> jsval list option" where
  "fieldsForHTTPEvent policy eventName direction =
     (let candidates = filter (\<lambda>e. truthy (get e ''enabled'') \<and>
            js_upper (str_or (get e ''direction'') ''INCOMING'') = direction \<and>
            strict_eq (get e ''eventName'') eventName) (array (fld policy ''bodyEventPolicies''))
      in case candidates of
           [e] \<Rightarrow> do {
             fields \<leftarrow> items_or (get e ''fields'');
             derived \<leftarrow> items_or (get e ''derivedFields'');
             Some (fields @ derived) }
         | _ \<Rightarrow> Some [])"

text \<open>\<open>item.eventName === name\<close>, which raises on a missing item.\<close>

definition has_event_name :: "jsval \<Rightarrow> jsval \<Rightarrow> bool option" where
  "has_event_name name item = do { n \<leftarrow> getx item ''eventName''; Some (strict_eq n name) }"

definition removeHTTPEventAt :: "jsobj \<Rightarrow> nat \<Rightarrow> jsobj option" where
  "removeHTTPEventAt policy eventIndex =
     (let target = elem_at (fld policy ''bodyEventPolicies'') eventIndex;
          name = get target ''eventName''
      in if \<not> truthy target then Some policy else do {
        events \<leftarrow> receiver (fld policy ''bodyEventPolicies'');
        let remaining = remove_at eventIndex events in do {
        stillDeclared \<leftarrow> some_opt (has_event_name name) remaining;
        metrics \<leftarrow> (if stillDeclared then Some (fld policy ''eventMetricPolicies'')
          else do { ms \<leftarrow> list_or (fld policy ''eventMetricPolicies'');
                    kept \<leftarrow> filter_opt (\<lambda>m. map_option Not (has_event_name name m)) ms;
                    Some (Arr kept) });
        Some (obj_spread policy [(''bodyEventPolicies'', Arr remaining), (''eventMetricPolicies'', metrics)]) } })"

definition set_event_name :: "string \<Rightarrow> jsval \<Rightarrow> jsval" where
  "set_event_name eventName item = Obj (obj_put ''eventName'' (Str eventName) (own_entries item))"

definition rename_metrics :: "jsval \<Rightarrow> bool \<Rightarrow> string \<Rightarrow> jsval list \<Rightarrow> jsval list option" where
  "rename_metrics previous soleOwner eventName metrics =
     map_opt (\<lambda>m. do { b \<leftarrow> has_event_name previous m;
                       Some (if b \<and> soleOwner then set_event_name eventName m else m) }) metrics"

definition renameHTTPEventAt :: "jsobj \<Rightarrow> nat \<Rightarrow> string \<Rightarrow> jsobj option" where
  "renameHTTPEventAt policy eventIndex eventName =
     (let target = elem_at (fld policy ''bodyEventPolicies'') eventIndex;
          previous = get target ''eventName''
      in if \<not> truthy target then Some policy else do {
        events \<leftarrow> receiver (fld policy ''bodyEventPolicies'');
        owners \<leftarrow> filter_opt (has_event_name previous) events;
        ms \<leftarrow> list_or (fld policy ''eventMetricPolicies'');
        metrics \<leftarrow> rename_metrics previous (length owners = 1) eventName ms;
        Some (obj_spread policy
          [(''bodyEventPolicies'', Arr (map (\<lambda>(index, e). if index = eventIndex then set_event_name eventName e else e)
              (enumerate 0 events))),
           (''eventMetricPolicies'', Arr metrics)]) })"

declare normalizeTelemetryEditorFocus_def [js_eval] telemetryDirectionForFocus_def [js_eval]
  normalizeHTTPDirection_def [js_eval] legacyHTTPConfigurationCount_def [js_eval]
  legacyHTTPHeaderCount_def [js_eval] duration_buckets_def [js_eval] duration_value_def [js_eval]
  createHTTPDurationMetricPolicy_def [js_eval] value_policy_defaults_def [js_eval]
  normalize_custom_attribute_def [js_eval] normalizeHTTPMetricPolicy_def [js_eval]
  httpEventUsesBody_def [js_eval] eventMetricIntent_def [js_eval]
  configureEventMetricIntent_def [js_eval] names_event_def [js_eval] span_or_log_def [js_eval]
  eventNameOutput_def [js_eval] event_name_fields_def [js_eval] withEventNameOutput_def [js_eval]
  http_event_shape_def [js_eval] normalizeHTTPEventPolicy_def [js_eval]
  normalizeHTTPEventMetric_def [js_eval] httpEventMetricStandardAttributes_def [js_eval]
  httpMetricStandardAttributes_def [js_eval] event_name_text_def [js_eval]
  duplicate_step_def [js_eval] duplicate_names_def [js_eval] duplicateHTTPEventNames_def [js_eval]
  unused_name_def [js_eval] nextHTTPEventName_def [js_eval] fieldsForHTTPEvent_def [js_eval]
  has_event_name_def [js_eval] removeHTTPEventAt_def [js_eval] set_event_name_def [js_eval]
  rename_metrics_def [js_eval] renameHTTPEventAt_def [js_eval]

end
