(* ===== verification/Messaging.thy ===== *)
theory Messaging
  imports Telemetry
begin

section \<open>Messaging events (\<open>ui/src/messaging-events.js\<close>)\<close>

text \<open>
  Kafka and JMS events and their metrics. The module reads every list with
  \<open>Array.isArray(v) ? v : []\<close>, so only a missing element of a list makes it raise.
\<close>

definition messagingScopeOptions :: "(string \<times> (string \<times> string) list) list" where
  "messagingScopeOptions =
     [(''kafka'', [(''KAFKA_PRODUCER'', ''Kafka producer''), (''KAFKA_CONSUMER'', ''Kafka consumer'')]),
      (''jms'', [(''JMS_PRODUCER'', ''JMS producer''), (''JMS_CONSUMER'', ''JMS consumer'')])]"

record messaging_source =
  ms_id :: string
  ms_label :: string
  ms_jmsOnly :: bool

definition messagingSourceOptions :: "messaging_source list" where
  "messagingSourceOptions =
     [\<lparr>ms_id = ''DESTINATION'', ms_label = ''Destino (topic o queue)'', ms_jmsOnly = False\<rparr>,
      \<lparr>ms_id = ''MESSAGE_KEY'', ms_label = ''Message key'', ms_jmsOnly = False\<rparr>,
      \<lparr>ms_id = ''MESSAGE_HEADER'', ms_label = ''Message header'', ms_jmsOnly = False\<rparr>,
      \<lparr>ms_id = ''MESSAGE_PROPERTY'', ms_label = ''JMS property'', ms_jmsOnly = True\<rparr>,
      \<lparr>ms_id = ''PAYLOAD'', ms_label = ''Payload JSON'', ms_jmsOnly = False\<rparr>]"

definition messagingSourcesForFamily :: "string \<Rightarrow> messaging_source list" where
  "messagingSourcesForFamily family =
     filter (\<lambda>source. family = ''jms'' \<or> \<not> ms_jmsOnly source) messagingSourceOptions"

definition no_selector :: jsval where
  "no_selector = Obj [(''label'', Str ''No aplica''), (''placeholder'', Str ''No aplica''), (''disabled'', Bool True)]"

definition selectorMetadata :: jsobj where
  "selectorMetadata =
     [(''DESTINATION'', no_selector), (''MESSAGE_KEY'', no_selector),
      (''MESSAGE_HEADER'', Obj [(''label'', Str ''Nombre del message header''), (''placeholder'', Str ''event.type'')]),
      (''MESSAGE_PROPERTY'', Obj [(''label'', Str ''Nombre de la propiedad JMS''), (''placeholder'', Str ''eventType'')]),
      (''PAYLOAD'', Obj [(''label'', Str ''Ruta JSON del payload''), (''placeholder'', Str ''customer.segment'')])]"

definition messagingSourceSelector :: "jsval \<Rightarrow> jsval" where
  "messagingSourceSelector source =
     js_or (fld selectorMetadata (to_str source)) (fld selectorMetadata ''DESTINATION'')"

definition normalizeMessagingEventPolicy :: "jsobj \<Rightarrow> jsobj" where
  "normalizeMessagingEventPolicy eventPolicy =
     obj_spread eventPolicy
       [(''scope'', Str (js_upper (js_trim (str_or (fld eventPolicy ''scope'') ''KAFKA_PRODUCER'')))),
        (''conditions'', array_or_empty (fld eventPolicy ''conditions'')),
        (''staticAttributes'', array_or_empty (fld eventPolicy ''staticAttributes'')),
        (''fields'', array_or_empty (fld eventPolicy ''fields'')),
        (''log'', Obj (obj_spread
           [(''enabled'', Bool False), (''severity'', Str ''INFO''), (''body'', Str ''Messaging rule matched'')]
           (own_entries (js_or (fld eventPolicy ''log'') (Obj [])))))]"

definition normalizeMessagingMetric :: "jsobj \<Rightarrow> jsobj" where
  "normalizeMessagingMetric metric =
     obj_spread metric
       [(''dimensions'', array_or_empty (fld metric ''dimensions'')),
        (''buckets'', array_or_empty (fld metric ''buckets''))]"

definition messagingFamilyForScope :: "jsval \<Rightarrow> string" where
  "messagingFamilyForScope scope = (if starts_with (str_or scope '''') ''JMS_'' then ''jms'' else ''kafka'')"

definition fieldsForMessagingEvent :: "jsobj \<Rightarrow> jsval \<Rightarrow> jsval list" where
  "fieldsForMessagingEvent policy eventName =
     (case filter (\<lambda>e. truthy (get e ''enabled'') \<and> strict_eq (get e ''eventName'') eventName)
             (array (fld policy ''messagingEventPolicies'')) of
        [e] \<Rightarrow> array (get e ''fields'')
      | _ \<Rightarrow> [])"

definition telemetry_events :: "jsobj \<Rightarrow> jsval list" where
  "telemetry_events policy =
     array (fld policy ''bodyEventPolicies'') @ array (fld policy ''messagingEventPolicies'')"

definition duplicateTelemetryEventNames :: "jsobj \<Rightarrow> string list" where
  "duplicateTelemetryEventNames policy = duplicate_names (map event_name_text (telemetry_events policy))"

definition nextMessagingEventName :: "jsobj \<Rightarrow> string \<Rightarrow> string" where
  "nextMessagingEventName policy base = unused_name (map event_name_text (telemetry_events policy)) base"

definition removeMessagingEventAt :: "jsobj \<Rightarrow> nat \<Rightarrow> jsobj option" where
  "removeMessagingEventAt policy eventIndex =
     (let target = elem_at (fld policy ''messagingEventPolicies'') eventIndex;
          name = get target ''eventName''
      in if \<not> truthy target then Some policy else do {
        events \<leftarrow> receiver (fld policy ''messagingEventPolicies'');
        let remaining = remove_at eventIndex events in do {
        stillDeclared \<leftarrow> some_opt (has_event_name name) remaining;
        metrics \<leftarrow> (if stillDeclared then Some (fld policy ''messagingMetricPolicies'')
          else do { kept \<leftarrow> filter_opt (\<lambda>m. map_option Not (has_event_name name m))
                      (array (fld policy ''messagingMetricPolicies''));
                    Some (Arr kept) });
        Some (obj_spread policy [(''messagingEventPolicies'', Arr remaining), (''messagingMetricPolicies'', metrics)]) } })"

definition renameMessagingEventAt :: "jsobj \<Rightarrow> nat \<Rightarrow> string \<Rightarrow> jsobj option" where
  "renameMessagingEventAt policy eventIndex eventName =
     (let target = elem_at (fld policy ''messagingEventPolicies'') eventIndex;
          previous = get target ''eventName''
      in if \<not> truthy target then Some policy else do {
        events \<leftarrow> receiver (fld policy ''messagingEventPolicies'');
        owners \<leftarrow> filter_opt (has_event_name previous) events;
        metrics \<leftarrow> rename_metrics previous (length owners = 1) eventName
          (array (fld policy ''messagingMetricPolicies''));
        Some (obj_spread policy
          [(''messagingEventPolicies'', Arr (map (\<lambda>(index, e). if index = eventIndex then set_event_name eventName e else e)
              (enumerate 0 events))),
           (''messagingMetricPolicies'', Arr metrics)]) })"

declare messagingScopeOptions_def [js_eval] messagingSourceOptions_def [js_eval]
  messagingSourcesForFamily_def [js_eval] no_selector_def [js_eval] selectorMetadata_def [js_eval]
  messagingSourceSelector_def [js_eval] normalizeMessagingEventPolicy_def [js_eval]
  normalizeMessagingMetric_def [js_eval] messagingFamilyForScope_def [js_eval]
  fieldsForMessagingEvent_def [js_eval] telemetry_events_def [js_eval]
  duplicateTelemetryEventNames_def [js_eval] nextMessagingEventName_def [js_eval]
  removeMessagingEventAt_def [js_eval] renameMessagingEventAt_def [js_eval]

end
