(* ===== verification/Event_Editor.thy ===== *)
theory Event_Editor
  imports Messaging
begin

section \<open>Editing events keeps their metrics attached\<close>

text \<open>
  HTTP events and messaging events are edited by operations of one shape: events and the metrics
  that refer to them by name live in two lists of the policy. The locale states what removing and
  renaming an event do to the two lists of names; its lemmas show that no sequence of edits leaves
  a metric without its event. Both modules provide it.
\<close>

datatype event_edit = Remove nat | Rename nat string

definition edit_event ::
  "(jsobj \<Rightarrow> nat \<Rightarrow> jsobj option) \<Rightarrow> (jsobj \<Rightarrow> nat \<Rightarrow> string \<Rightarrow> jsobj option) \<Rightarrow> event_edit \<Rightarrow> jsobj \<Rightarrow> jsobj option"
  where
  "edit_event remove_event rename_event e p =
     (case e of Remove i \<Rightarrow> remove_event p i | Rename i n \<Rightarrow> rename_event p i n)"

fun edit_events ::
  "(event_edit \<Rightarrow> jsobj \<Rightarrow> jsobj option) \<Rightarrow> event_edit list \<Rightarrow> jsobj \<Rightarrow> jsobj option" where
  "edit_events f [] p = Some p"
| "edit_events f (e # es) p = do { q \<leftarrow> f e p; edit_events f es q }"

locale event_editor =
  fixes names :: "jsobj \<Rightarrow> string list"
    and refs :: "jsobj \<Rightarrow> string list"
    and ok :: "jsobj \<Rightarrow> bool"
    and remove_event :: "jsobj \<Rightarrow> nat \<Rightarrow> jsobj option"
    and rename_event :: "jsobj \<Rightarrow> nat \<Rightarrow> string \<Rightarrow> jsobj option"
  assumes remove_law: "ok p \<Longrightarrow> \<exists>q. remove_event p i = Some q \<and> ok q \<and>
      names q = remove_at i (names p) \<and>
      refs q = (if i < length (names p) \<and> names p ! i \<notin> set (remove_at i (names p))
                then filter (\<lambda>r. r \<noteq> names p ! i) (refs p) else refs p)"
    and rename_law: "ok p \<Longrightarrow> \<exists>q. rename_event p i n = Some q \<and> ok q \<and>
      names q = (names p)[i := n] \<and>
      refs q = (if i < length (names p) \<and> length (filter (\<lambda>m. m = names p ! i) (names p)) = 1
                then map (\<lambda>r. if r = names p ! i then n else r) (refs p) else refs p)"
begin

definition attached :: "jsobj \<Rightarrow> bool" where
  "attached p \<longleftrightarrow> ok p \<and> set (refs p) \<subseteq> set (names p)"

lemma remove_attached:
  assumes "attached p"
  shows "\<exists>q. remove_event p i = Some q \<and> attached q"
proof -
  from assms obtain q where q: "remove_event p i = Some q" "ok q" "names q = remove_at i (names p)"
    "refs q = (if i < length (names p) \<and> names p ! i \<notin> set (remove_at i (names p))
       then filter (\<lambda>r. r \<noteq> names p ! i) (refs p) else refs p)"
    using remove_law attached_def by blast
  have "set (names p) = insert (names p ! i) (set (remove_at i (names p)))" if "i < length (names p)"
  proof -
    have "names p = take i (names p) @ names p ! i # drop (Suc i) (names p)"
      using that by (rule id_take_nth_drop)
    then have "set (names p) = set (take i (names p) @ names p ! i # drop (Suc i) (names p))" by simp
    then show ?thesis by (simp add: remove_at_take_drop)
  qed
  moreover have "remove_at i (names p) = names p" if "\<not> i < length (names p)"
    using that by (simp add: remove_at_take_drop)
  ultimately have "attached q"
    using assms q by (cases "i < length (names p)") (auto simp: attached_def)
  with q(1) show ?thesis by blast
qed

lemma rename_attached:
  assumes "attached p"
  shows "\<exists>q. rename_event p i n = Some q \<and> attached q"
proof -
  from assms obtain q where q: "rename_event p i n = Some q" "ok q" "names q = (names p)[i := n]"
    "refs q = (if i < length (names p) \<and> length (filter (\<lambda>m. m = names p ! i) (names p)) = 1
       then map (\<lambda>r. if r = names p ! i then n else r) (refs p) else refs p)"
    using rename_law attached_def by blast
  have "attached q"
  proof (cases "i < length (names p)")
    case False
    then have "names q = names p" "refs q = refs p" using q(3,4) by (simp_all add: list_update_beyond)
    then show ?thesis using assms q(2) by (simp add: attached_def)
  next
    case True
    have others: "m \<in> set ((names p)[i := n])" if "m \<in> set (names p)" "m \<noteq> names p ! i" for m
      using that by (metis in_set_conv_nth length_list_update nth_list_update_neq)
    have new: "n \<in> set ((names p)[i := n])" using True by (rule set_update_memI)
    show ?thesis
    proof (cases "length (filter (\<lambda>m. m = names p ! i) (names p)) = 1")
      case single: True
      then show ?thesis using assms q others new True by (auto simp: attached_def)
    next
      case multiple: False
      have "names p ! i \<in> set ((names p)[i := n])"
      proof (rule ccontr)
        assume a: "names p ! i \<notin> set ((names p)[i := n])"
        have "names p = take i (names p) @ names p ! i # drop (Suc i) (names p)"
          using True by (rule id_take_nth_drop)
        moreover have "names p ! i \<notin> set (take i (names p))" "names p ! i \<notin> set (drop (Suc i) (names p))"
          using a True by (auto simp: upd_conv_take_nth_drop)
        then have "filter (\<lambda>m. m = names p ! i) (take i (names p)) = []"
            "filter (\<lambda>m. m = names p ! i) (drop (Suc i) (names p)) = []"
          by (auto simp: filter_empty_conv)
        ultimately have "length (filter (\<lambda>m. m = names p ! i) (names p)) = 1"
          by (metis (mono_tags, lifting) One_nat_def append_Nil filter.simps(2) filter_append list.size(3,4) add_0)
        then show False using multiple by simp
      qed
      then have "set (names p) \<subseteq> set ((names p)[i := n])" using others by blast
      moreover have "refs q = refs p" using q(4) multiple by (simp only: simp_thms if_False)
      ultimately show ?thesis using assms q(2,3) by (auto simp: attached_def)
    qed
  qed
  with q(1) show ?thesis by blast
qed

lemma edits_attached:
  assumes "attached p"
  shows "\<exists>q. edit_events (edit_event remove_event rename_event) es p = Some q \<and> attached q"
  using assms
proof (induction es arbitrary: p)
  case (Cons e es)
  have "\<exists>r. edit_event remove_event rename_event e p = Some r \<and> attached r"
  proof (cases e)
    case (Remove i)
    then show ?thesis using remove_attached [OF Cons.prems, of i] by (simp add: edit_event_def)
  next
    case (Rename i n)
    then show ?thesis using rename_attached [OF Cons.prems, of i n] by (simp add: edit_event_def)
  qed
  then show ?case using Cons.IH by auto
qed simp

end

end
