(* ===== verification/Event_Props.thy ===== *)
theory Event_Props
  imports Event_Editor
begin

section \<open>The event operations of a policy: their laws and properties\<close>

text \<open>
  Renaming and removing an event of a document of the forms: what the two operations return, that the
  metrics follow the event they count, and the interpretations of the contract for both kinds of events.
\<close>

subsection \<open>Lists of named items\<close>

definition named_item :: "jsval \<Rightarrow> bool" where
  "named_item v = (case v of Obj ob \<Rightarrow> (case fld ob ''eventName'' of Str _ \<Rightarrow> True | _ \<Rightarrow> False) | _ \<Rightarrow> False)"

definition name_of :: "jsval \<Rightarrow> string" where
  "name_of v = to_str (get v ''eventName'')"

definition named_list :: "jsval \<Rightarrow> bool" where
  "named_list v \<longleftrightarrow> readable_list v \<and> (\<forall>x\<in>set (array v). named_item x)"

definition names_in :: "string \<Rightarrow> jsobj \<Rightarrow> string list" where
  "names_in k policy = map name_of (array (fld policy k))"

definition event_lists :: "string \<Rightarrow> string \<Rightarrow> jsobj \<Rightarrow> bool" where
  "event_lists ek mk policy \<longleftrightarrow> named_list (fld policy ek) \<and> named_list (fld policy mk)"

declare named_item_def [js_eval] name_of_def [js_eval] named_list_def [js_eval] names_in_def [js_eval]
  event_lists_def [js_eval]

lemma named_itemD:
  assumes "named_item v"
  shows "get v ''eventName'' = Str (name_of v)" "\<not> nullish v" "truthy v"
  using assms by (auto simp: named_item_def name_of_def nullish_def split: jsval.splits)

lemma has_event_name_named: "named_item x \<Longrightarrow> has_event_name (Str n) x = Some (name_of x = n)"
  by (simp add: has_event_name_def getx_def named_itemD(1,2))

lemma has_not_event_name_named:
  "named_item x \<Longrightarrow> map_option Not (has_event_name (Str n) x) = Some (name_of x \<noteq> n)"
  by (simp add: has_event_name_named)

lemma set_event_name_named [simp]: "named_item (set_event_name n x)" "name_of (set_event_name n x) = n"
  by (simp_all add: set_event_name_def named_item_def name_of_def fld_obj_put)

lemma nat_str_not_inherited: "fld [] (nat_str i) = Undef"
proof -
  obtain d ds where d: "nat_str i = d # ds" by (cases "nat_str i") auto
  then have "is_digit d" using nat_str_digits [of i] by simp
  then have "nat_str i \<notin> set object_prototype"
    unfolding d by (auto simp: object_prototype_def is_digit_def code_def Let_def)
  then show ?thesis by (simp add: fld_def)
qed

lemma elem_at_readable: "readable_list v \<Longrightarrow> elem_at v i = (if i < length (array v) then array v ! i else Undef)"
  by (cases v) (auto simp: elem_at_def readable_list_def nat_str_not_inherited)

lemma map_enumerate_update:
  "map (\<lambda>(j, e). if j = i then f e else e) (enumerate 0 xs) = (if i < length xs then xs[i := f (xs ! i)] else xs)"
proof -
  have "map (\<lambda>(j, e). if j = n + i then f e else e) (enumerate n xs) =
      (if i < length xs then xs[i := f (xs ! i)] else xs)" for n
  proof (induction xs arbitrary: i n)
    case (Cons x xs)
    have off: "map (\<lambda>(j, e). if j = n then f e else e) (enumerate (Suc n) xs) = xs"
      by (rule nth_equalityI) (auto simp: nth_enumerate_eq)
    show ?case using Cons.IH [of "Suc n" "i - 1"] off by (cases i) auto
  qed simp
  from this [of 0] show ?thesis by simp
qed

lemma rename_metrics_named:
  assumes "\<forall>m\<in>set ms. named_item m"
  shows "\<exists>ms'. rename_metrics (Str old) sole n ms = Some ms' \<and> (\<forall>m\<in>set ms'. named_item m) \<and>
    map name_of ms' = (if sole then map (\<lambda>r. if r = old then n else r) (map name_of ms) else map name_of ms)"
proof -
  let ?f = "\<lambda>m. if name_of m = old \<and> sole then set_event_name n m else m"
  have "rename_metrics (Str old) sole n ms = Some (map ?f ms)"
    unfolding rename_metrics_def using assms by (intro map_opt_total) (auto simp: has_event_name_named)
  then show ?thesis using assms by auto
qed

lemma fld_two_puts:
  assumes "ek \<noteq> mk"
  shows "fld (obj_spread p [(ek, a), (mk, b)]) ek = a" "fld (obj_spread p [(ek, a), (mk, b)]) mk = b"
  using assms by (simp_all add: obj_spread_def fld_obj_put)

lemma set_remove_at: "set (remove_at i xs) \<subseteq> set xs"
  by (auto simp: remove_at_take_drop dest: in_set_takeD in_set_dropD)

lemma map_remove_at: "map f (remove_at i xs) = remove_at i (map f xs)"
  by (simp add: remove_at_take_drop take_map drop_map)

lemma truthy_readable: "readable_list v \<Longrightarrow> array v \<noteq> [] \<Longrightarrow> receiver v = Some (array v)"
  by (cases v) (auto simp: readable_list_def)

text \<open>What removal does to the two lists, for the events \<open>es\<close> and the metrics \<open>ms\<close>.\<close>

lemma remaining_named:
  assumes "\<forall>e\<in>set es. named_item e"
  shows "some_opt (has_event_name (Str n)) (remove_at i es) = Some (n \<in> set (remove_at i (map name_of es)))"
proof -
  have "some_opt (has_event_name (Str n)) (remove_at i es) = Some (\<exists>e\<in>set (remove_at i es). name_of e = n)"
    using assms set_remove_at [of i es] by (intro some_opt_total) (auto simp: has_event_name_named)
  moreover have "(\<exists>e\<in>set (remove_at i es). name_of e = n) \<longleftrightarrow> n \<in> set (remove_at i (map name_of es))"
    unfolding map_remove_at [symmetric] by auto
  ultimately show ?thesis by simp
qed

lemma kept_named:
  assumes "\<forall>m\<in>set ms. named_item m"
  shows "filter_opt (\<lambda>m. map_option Not (has_event_name (Str n) m)) ms = Some (filter (\<lambda>m. name_of m \<noteq> n) ms)"
  using assms by (intro filter_opt_total) (auto simp: has_event_name_named)

lemma owners_named:
  assumes "\<forall>e\<in>set es. named_item e"
  shows "\<exists>os. filter_opt (has_event_name (Str n)) es = Some os \<and>
    length os = length (filter (\<lambda>m. m = n) (map name_of es))"
proof -
  have "filter_opt (has_event_name (Str n)) es = Some (filter (\<lambda>e. name_of e = n) es)"
    using assms by (intro filter_opt_total) (auto simp: has_event_name_named)
  then show ?thesis by (simp add: filter_map o_def)
qed

lemma removed_lists:
  assumes p: "event_lists ek mk p" and ne: "ek \<noteq> mk" and i: "i < length (array (fld p ek))"
    and q: "q = obj_spread p [(ek, Arr (remove_at i (array (fld p ek)))),
      (mk, if name_of (array (fld p ek) ! i) \<in> set (remove_at i (names_in ek p)) then fld p mk
           else Arr (filter (\<lambda>m. name_of m \<noteq> name_of (array (fld p ek) ! i)) (array (fld p mk))))]"
  shows "event_lists ek mk q \<and> names_in ek q = remove_at i (names_in ek p) \<and>
    names_in mk q = (if i < length (names_in ek p) \<and> names_in ek p ! i \<notin> set (remove_at i (names_in ek p))
      then filter (\<lambda>r. r \<noteq> names_in ek p ! i) (names_in mk p) else names_in mk p)"
proof -
  have "names_in ek p ! i = name_of (array (fld p ek) ! i)" using i by (simp add: names_in_def)
  then show ?thesis
    using p i set_remove_at [of i "array (fld p ek)"] unfolding q
    by (auto simp: event_lists_def named_list_def names_in_def fld_two_puts [OF ne] map_remove_at filter_map o_def)
qed

lemma renamed_lists:
  assumes p: "event_lists ek mk p" and ne: "ek \<noteq> mk" and i: "i < length (array (fld p ek))"
    and ms: "\<forall>m\<in>set ms. named_item m"
      "map name_of ms = (if length (filter (\<lambda>m. m = names_in ek p ! i) (names_in ek p)) = 1
         then map (\<lambda>r. if r = names_in ek p ! i then n else r) (names_in mk p) else names_in mk p)"
    and q: "q = obj_spread p [(ek, Arr ((array (fld p ek))[i := set_event_name n (array (fld p ek) ! i)])), (mk, Arr ms)]"
  shows "event_lists ek mk q \<and> names_in ek q = (names_in ek p)[i := n] \<and>
    names_in mk q = (if i < length (names_in ek p) \<and> length (filter (\<lambda>m. m = names_in ek p ! i) (names_in ek p)) = 1
      then map (\<lambda>r. if r = names_in ek p ! i then n else r) (names_in mk p) else names_in mk p)"
proof -
  have "named_item e" if "e \<in> set ((array (fld p ek))[i := set_event_name n (array (fld p ek) ! i)])" for e
    using that p set_update_subset_insert [of "array (fld p ek)" i "set_event_name n (array (fld p ek) ! i)"]
    by (auto simp: event_lists_def named_list_def)
  moreover have "names_in mk q = map name_of ms" unfolding q names_in_def fld_two_puts [OF ne] by simp
  moreover have "names_in ek q = (names_in ek p)[i := n]"
    unfolding q names_in_def fld_two_puts [OF ne] by (simp add: map_update)
  moreover have "i < length (names_in ek p)" using i by (simp add: names_in_def)
  ultimately show ?thesis
    using ms unfolding q by (simp add: event_lists_def named_list_def fld_two_puts [OF ne])
qed

lemma no_such_event:
  assumes "event_lists ek mk p" "\<not> i < length (array (fld p ek))"
  shows "remove_at i (names_in ek p) = names_in ek p" "(names_in ek p)[i := n] = names_in ek p"
    "\<not> i < length (names_in ek p)" "\<not> truthy (elem_at (fld p ek) i)"
  using assms
  by (auto simp: names_in_def remove_at_take_drop event_lists_def named_list_def elem_at_readable
      intro: list_update_beyond)

lemma event_at:
  assumes "event_lists ek mk p" "i < length (array (fld p ek))"
  shows "truthy (elem_at (fld p ek) i)"
    "get (elem_at (fld p ek) i) ''eventName'' = Str (name_of (array (fld p ek) ! i))"
    "receiver (fld p ek) = Some (array (fld p ek))"
    "names_in ek p ! i = name_of (array (fld p ek) ! i)"
    "\<forall>e\<in>set (array (fld p ek)). named_item e" "\<forall>m\<in>set (array (fld p mk)). named_item m"
    "list_or (fld p mk) = Some (array (fld p mk))"
proof -
  have "named_item (array (fld p ek) ! i)" "readable_list (fld p ek)"
    using assms by (auto simp: event_lists_def named_list_def)
  then show "truthy (elem_at (fld p ek) i)"
    "get (elem_at (fld p ek) i) ''eventName'' = Str (name_of (array (fld p ek) ! i))"
    using assms(2) by (auto simp: elem_at_readable named_itemD)
  show "receiver (fld p ek) = Some (array (fld p ek))"
    using assms by (intro truthy_readable) (auto simp: event_lists_def named_list_def)
qed (use assms in \<open>auto simp: event_lists_def named_list_def names_in_def\<close>)

lemma renamed_metrics:
  assumes p: "event_lists ek mk p" and i: "i < length (array (fld p ek))"
  shows "\<exists>os ms. filter_opt (has_event_name (Str (name_of (array (fld p ek) ! i)))) (array (fld p ek)) = Some os \<and>
    rename_metrics (Str (name_of (array (fld p ek) ! i))) (length os = 1) n (array (fld p mk)) = Some ms \<and>
    (\<forall>m\<in>set ms. named_item m) \<and>
    map name_of ms = (if length (filter (\<lambda>m. m = names_in ek p ! i) (names_in ek p)) = 1
      then map (\<lambda>r. if r = names_in ek p ! i then n else r) (names_in mk p) else names_in mk p)"
proof -
  note e = event_at [OF p i]
  obtain os where os: "filter_opt (has_event_name (Str (names_in ek p ! i))) (array (fld p ek)) = Some os"
    "length os = length (filter (\<lambda>m. m = names_in ek p ! i) (map name_of (array (fld p ek))))"
    using owners_named [OF e(5), of "names_in ek p ! i"] by blast
  then have len: "length os = length (filter (\<lambda>m. m = names_in ek p ! i) (names_in ek p))"
    by (simp only: names_in_def)
  have mk: "map name_of (array (fld p mk)) = names_in mk p"
    by (simp only: names_in_def)
  obtain ms where "rename_metrics (Str (names_in ek p ! i)) (length os = 1) n (array (fld p mk)) = Some ms"
    "\<forall>m\<in>set ms. named_item m"
    "map name_of ms = (if length os = 1 then map (\<lambda>r. if r = names_in ek p ! i then n else r) (names_in mk p)
       else names_in mk p)"
    using rename_metrics_named [OF e(6), of "names_in ek p ! i" "length os = 1" n] unfolding mk by blast
  then show ?thesis
    using os(1) unfolding e(4) [symmetric] len [symmetric] by blast
qed

interpretation http_events: event_editor "names_in ''bodyEventPolicies''" "names_in ''eventMetricPolicies''"
    "event_lists ''bodyEventPolicies'' ''eventMetricPolicies''" removeHTTPEventAt renameHTTPEventAt
proof
  fix p i n
  let ?ek = "''bodyEventPolicies''" and ?mk = "''eventMetricPolicies''"
  assume p: "event_lists ?ek ?mk p"
  have ne: "?ek \<noteq> ?mk" by simp
  show "\<exists>q. removeHTTPEventAt p i = Some q \<and> event_lists ?ek ?mk q \<and>
      names_in ?ek q = remove_at i (names_in ?ek p) \<and>
      names_in ?mk q = (if i < length (names_in ?ek p) \<and> names_in ?ek p ! i \<notin> set (remove_at i (names_in ?ek p))
        then filter (\<lambda>r. r \<noteq> names_in ?ek p ! i) (names_in ?mk p) else names_in ?mk p)"
  proof (cases "i < length (array (fld p ?ek))")
    case False
    note no_such_event [OF p False]
    then show ?thesis using p by (simp add: removeHTTPEventAt_def)
  next
    case True
    note e = event_at [OF p True]
    show ?thesis
      unfolding removeHTTPEventAt_def Let_def e(2,3) e(7) remaining_named [OF e(5)] bind.bind_lunit
        kept_named [OF e(6)] using e(1)
      by (intro exI conjI removed_lists [OF p ne True]) 
        (simp_all add: names_in_def cong: if_cong)
  qed
  show "\<exists>q. renameHTTPEventAt p i n = Some q \<and> event_lists ?ek ?mk q \<and>
      names_in ?ek q = (names_in ?ek p)[i := n] \<and>
      names_in ?mk q = (if i < length (names_in ?ek p) \<and>
          length (filter (\<lambda>m. m = names_in ?ek p ! i) (names_in ?ek p)) = 1
        then map (\<lambda>r. if r = names_in ?ek p ! i then n else r) (names_in ?mk p) else names_in ?mk p)"
  proof (cases "i < length (array (fld p ?ek))")
    case False
    note no_such_event [OF p False]
    then show ?thesis using p by (simp add: renameHTTPEventAt_def)
  next
    case True
    note e = event_at [OF p True]
    obtain os ms where ms: "filter_opt (has_event_name (Str (name_of (array (fld p ?ek) ! i)))) (array (fld p ?ek)) = Some os"
      "rename_metrics (Str (name_of (array (fld p ?ek) ! i))) (length os = 1) n (array (fld p ?mk)) = Some ms"
      "\<forall>m\<in>set ms. named_item m"
      "map name_of ms = (if length (filter (\<lambda>m. m = names_in ?ek p ! i) (names_in ?ek p)) = 1
         then map (\<lambda>r. if r = names_in ?ek p ! i then n else r) (names_in ?mk p) else names_in ?mk p)"
      using renamed_metrics [OF p True, of n] by blast
    have "renameHTTPEventAt p i n = Some (obj_spread p
        [(?ek, Arr ((array (fld p ?ek))[i := set_event_name n (array (fld p ?ek) ! i)])), (?mk, Arr ms)])"
      unfolding renameHTTPEventAt_def Let_def e(2,3) e(7) ms(1,2) bind.bind_lunit map_enumerate_update
      using e(1) True by simp
    then show ?thesis using renamed_lists [OF p ne True ms(3,4) refl] by blast
  qed
qed

interpretation messaging_events: event_editor "names_in ''messagingEventPolicies''"
    "names_in ''messagingMetricPolicies''"
    "event_lists ''messagingEventPolicies'' ''messagingMetricPolicies''" removeMessagingEventAt renameMessagingEventAt
proof
  fix p i n
  let ?ek = "''messagingEventPolicies''" and ?mk = "''messagingMetricPolicies''"
  assume p: "event_lists ?ek ?mk p"
  have ne: "?ek \<noteq> ?mk" by simp
  show "\<exists>q. removeMessagingEventAt p i = Some q \<and> event_lists ?ek ?mk q \<and>
      names_in ?ek q = remove_at i (names_in ?ek p) \<and>
      names_in ?mk q = (if i < length (names_in ?ek p) \<and> names_in ?ek p ! i \<notin> set (remove_at i (names_in ?ek p))
        then filter (\<lambda>r. r \<noteq> names_in ?ek p ! i) (names_in ?mk p) else names_in ?mk p)"
  proof (cases "i < length (array (fld p ?ek))")
    case False
    note no_such_event [OF p False]
    then show ?thesis using p by (simp add: removeMessagingEventAt_def)
  next
    case True
    note e = event_at [OF p True]
    show ?thesis
      unfolding removeMessagingEventAt_def Let_def e(2,3) remaining_named [OF e(5)] bind.bind_lunit
        kept_named [OF e(6)] using e(1)
      by (intro exI conjI removed_lists [OF p ne True]) (simp_all add: names_in_def cong: if_cong)
  qed
  show "\<exists>q. renameMessagingEventAt p i n = Some q \<and> event_lists ?ek ?mk q \<and>
      names_in ?ek q = (names_in ?ek p)[i := n] \<and>
      names_in ?mk q = (if i < length (names_in ?ek p) \<and>
          length (filter (\<lambda>m. m = names_in ?ek p ! i) (names_in ?ek p)) = 1
        then map (\<lambda>r. if r = names_in ?ek p ! i then n else r) (names_in ?mk p) else names_in ?mk p)"
  proof (cases "i < length (array (fld p ?ek))")
    case False
    note no_such_event [OF p False]
    then show ?thesis using p by (simp add: renameMessagingEventAt_def)
  next
    case True
    note e = event_at [OF p True]
    obtain os ms where ms: "filter_opt (has_event_name (Str (name_of (array (fld p ?ek) ! i)))) (array (fld p ?ek)) = Some os"
      "rename_metrics (Str (name_of (array (fld p ?ek) ! i))) (length os = 1) n (array (fld p ?mk)) = Some ms"
      "\<forall>m\<in>set ms. named_item m"
      "map name_of ms = (if length (filter (\<lambda>m. m = names_in ?ek p ! i) (names_in ?ek p)) = 1
         then map (\<lambda>r. if r = names_in ?ek p ! i then n else r) (names_in ?mk p) else names_in ?mk p)"
      using renamed_metrics [OF p True, of n] by blast
    have "renameMessagingEventAt p i n = Some (obj_spread p
        [(?ek, Arr ((array (fld p ?ek))[i := set_event_name n (array (fld p ?ek) ! i)])), (?mk, Arr ms)])"
      unfolding renameMessagingEventAt_def Let_def e(2,3) ms(1,2) bind.bind_lunit map_enumerate_update
      using e(1) True by simp
    then show ?thesis using renamed_lists [OF p ne True ms(3,4) refl] by blast
  qed
qed

subsection \<open>Properties of editing\<close>

text \<open>no sequence of removals and renames of HTTP events raises or leaves a metric that refers to
  an event that no longer exists, if every metric referred to a declared event before.\<close>

theorem http_edits_keep_metrics_attached:
  assumes "event_lists ''bodyEventPolicies'' ''eventMetricPolicies'' policy"
    and "set (names_in ''eventMetricPolicies'' policy) \<subseteq> set (names_in ''bodyEventPolicies'' policy)"
  shows "\<exists>result. edit_events (edit_event removeHTTPEventAt renameHTTPEventAt) edits policy = Some result \<and>
    set (names_in ''eventMetricPolicies'' result) \<subseteq> set (names_in ''bodyEventPolicies'' result)"
  using http_events.edits_attached [of policy edits] assms by (auto simp: http_events.attached_def)

theorem http_edits_keep_metrics_attached_witness:
  "let e = (\<lambda>n. Obj [(''eventName'', Str n)]);
       policy = [(''bodyEventPolicies'', Arr [e ''a'', e ''b'']), (''eventMetricPolicies'', Arr [e ''b''])]
   in \<exists>result. edit_events (edit_event removeHTTPEventAt renameHTTPEventAt) [Rename 1 ''c'', Remove 0] policy = Some result \<and>
      set (names_in ''eventMetricPolicies'' result) \<subseteq> set (names_in ''bodyEventPolicies'' result)"
  unfolding Let_def by (rule http_edits_keep_metrics_attached) code_simp+

text \<open>the same for messaging events and their metrics.\<close>

theorem messaging_edits_keep_metrics_attached:
  assumes "event_lists ''messagingEventPolicies'' ''messagingMetricPolicies'' policy"
    and "set (names_in ''messagingMetricPolicies'' policy) \<subseteq> set (names_in ''messagingEventPolicies'' policy)"
  shows "\<exists>result. edit_events (edit_event removeMessagingEventAt renameMessagingEventAt) edits policy = Some result \<and>
    set (names_in ''messagingMetricPolicies'' result) \<subseteq> set (names_in ''messagingEventPolicies'' result)"
  using messaging_events.edits_attached [of policy edits] assms by (auto simp: messaging_events.attached_def)

theorem messaging_edits_keep_metrics_attached_witness:
  "let e = (\<lambda>n. Obj [(''eventName'', Str n)]);
       policy = [(''messagingEventPolicies'', Arr [e ''a'', e ''a'']), (''messagingMetricPolicies'', Arr [e ''a''])]
   in \<exists>result. edit_events (edit_event removeMessagingEventAt renameMessagingEventAt) [Rename 1 ''c'', Remove 0] policy = Some result \<and>
      set (names_in ''messagingMetricPolicies'' result) \<subseteq> set (names_in ''messagingEventPolicies'' result)"
  unfolding Let_def by (rule messaging_edits_keep_metrics_attached) code_simp+

end
