(* ===== verification/Telemetry_Schema.thy ===== *)
theory Telemetry_Schema
  imports Telemetry
begin

section \<open>The sources of an event and the schema a policy requires\<close>

text \<open>
  The rest of \<open>ui/src/telemetry-events.js\<close>: the option tables of the editor, which features a
  policy uses, the schema version those need, and whether an agent supports it. The rank of a
  schema version is an exact integer (the code computes it in double precision, which is exact
  below \<open>2 ^ 53\<close>).
\<close>

definition httpEventSourceOptions :: "(string \<times> string) list" where
  "httpEventSourceOptions =
     [(''REQUEST_HEADER'', ''Request header''), (''REQUEST_QUERY'', ''Request query param''),
      (''REQUEST_PATH_PARAM'', ''Request path param''), (''REQUEST_BODY'', ''Request body JSON''),
      (''RESPONSE_HEADER'', ''Response header''), (''RESPONSE_BODY'', ''Response body JSON'')]"

definition httpConditionSourceOptions :: "(string \<times> string) list" where
  "httpConditionSourceOptions =
     [(''REQUEST_PATH'', ''Request path''), (''REQUEST_METHOD'', ''HTTP method'')] @
     take 4 httpEventSourceOptions @ [(''RESPONSE_STATUS'', ''Response status'')] @
     drop 4 httpEventSourceOptions"

definition selector_metadata :: "string \<Rightarrow> string \<Rightarrow> jsval" where
  "selector_metadata label placeholder = Obj [(''label'', Str label), (''placeholder'', Str placeholder)]"

definition sourceSelectorMetadata :: jsobj where
  "sourceSelectorMetadata =
     [(''REQUEST_HEADER'', selector_metadata ''Nombre del request header'' ''x-client-type''),
      (''RESPONSE_HEADER'', selector_metadata ''Nombre del response header'' ''x-rate-type''),
      (''REQUEST_QUERY'', selector_metadata ''Nombre del query param'' ''campaign_id''),
      (''REQUEST_PATH_PARAM'', selector_metadata ((''Nombre l'' @ [CHR 0xF3] @ ''gico del path param'')) ''accountId''),
      (''REQUEST_BODY'', selector_metadata ''Ruta JSON del request body'' ''customer.segment''),
      (''RESPONSE_BODY'', selector_metadata ''Ruta JSON del response body'' ''status'')]"

definition httpSourceSelector :: "jsval \<Rightarrow> jsval" where
  "httpSourceSelector source =
     js_or (fld sourceSelectorMetadata (to_str source))
       (Obj [(''label'', Str ''No aplica''), (''placeholder'', Str ''No aplica''), (''disabled'', Bool True)])"

subsection \<open>The features a policy uses\<close>

text \<open>\<open>(policy.bodyEventPolicies || []).some(e => [...(e.conditions || []), ...(e.fields || [])].some(p))\<close>.\<close>

definition some_event_item :: "(jsval \<Rightarrow> bool option) \<Rightarrow> jsobj \<Rightarrow> bool option" where
  "some_event_item p policy = do {
     events \<leftarrow> list_or (fld policy ''bodyEventPolicies'');
     some_opt (\<lambda>e. do {
       c \<leftarrow> getx e ''conditions''; conditions \<leftarrow> items_or c;
       f \<leftarrow> getx e ''fields''; fields \<leftarrow> items_or f;
       some_opt p (conditions @ fields) }) events }"

definition extended_source :: "jsval \<Rightarrow> bool option" where
  "extended_source item = do {
     source \<leftarrow> getx item ''source'';
     Some (source \<in> {Str ''REQUEST_HEADER'', Str ''RESPONSE_HEADER'', Str ''REQUEST_QUERY''}) }"

definition httpEventUsesExtendedSources :: "jsobj \<Rightarrow> bool option" where
  "httpEventUsesExtendedSources policy = some_event_item extended_source policy"

text \<open>
  \<open>/\{[A-Za-z_][A-Za-z0-9_.-]{0,127}\}/\<close>: the class of the name does not contain the closing
  brace, so a match at a position is the longest run of name characters followed by a brace.
\<close>

definition name_char :: "char \<Rightarrow> bool" where
  "name_char c \<longleftrightarrow> is_lower_az c \<or> is_upper_az c \<or> is_digit c \<or> c = CHR ''_'' \<or> c = CHR ''.'' \<or> c = CHR ''-''"

definition template_name_at :: "string \<Rightarrow> bool" where
  "template_name_at s =
     (case s of
        b # c # r \<Rightarrow> b = CHR ''{'' \<and> (is_lower_az c \<or> is_upper_az c \<or> c = CHR ''_'') \<and>
          length (takeWhile name_char r) \<le> 127 \<and>
          (case dropWhile name_char r of d # _ \<Rightarrow> d = CHR ''}'' | [] \<Rightarrow> False)
      | _ \<Rightarrow> False)"

fun has_path_template :: "string \<Rightarrow> bool" where
  "has_path_template [] = False"
| "has_path_template (c # cs) = (template_name_at (c # cs) \<or> has_path_template cs)"

definition path_parameter_item :: "jsval \<Rightarrow> bool option" where
  "path_parameter_item item = do {
     source \<leftarrow> getx item ''source'';
     if source = Str ''REQUEST_PATH_PARAM'' then Some True
     else if source = Str ''REQUEST_PATH'' then do {
       vs \<leftarrow> list_or (get item ''values'');
       Some (\<exists>v\<in>set vs. has_path_template (to_str v)) }
     else Some False }"

definition httpEventUsesPathParameters :: "jsobj \<Rightarrow> bool option" where
  "httpEventUsesPathParameters policy = some_event_item path_parameter_item policy"

text \<open>\<open>(v || []).map(x => x.valuePolicy)\<close>, and the same below each item of a list.\<close>

definition value_policies :: "jsval \<Rightarrow> jsval list option" where
  "value_policies v = do { xs \<leftarrow> list_or v; map_opt (\<lambda>x. getx x ''valuePolicy'') xs }"

definition nested_value_policies :: "string list \<Rightarrow> jsval \<Rightarrow> jsval list option" where
  "nested_value_policies keys v = do {
     xs \<leftarrow> list_or v;
     flat_map_opt (\<lambda>x. flat_map_opt (\<lambda>k. do { ys \<leftarrow> getx x k; value_policies ys }) keys) xs }"

definition policyUsesPassthroughValuePolicy :: "jsobj \<Rightarrow> bool option" where
  "policyUsesPassthroughValuePolicy policy = do {
     metrics \<leftarrow> nested_value_policies [''customAttributes''] (fld policy ''metricPolicies'');
     methods \<leftarrow> nested_value_policies [''captures''] (fld policy ''methodPolicies'');
     events \<leftarrow> nested_value_policies [''fields'', ''derivedFields''] (fld policy ''bodyEventPolicies'');
     messaging \<leftarrow> nested_value_policies [''fields''] (fld policy ''messagingEventPolicies'');
     Some (\<exists>vp\<in>set (metrics @ methods @ events @ messaging). get vp ''type'' = Str ''PASSTHROUGH'') }"

definition nonempty :: "jsval \<Rightarrow> bool" where
  "nonempty v = num_lt (Fin 0) (to_num (get (js_or v (Arr [])) ''length''))"

definition metricsUseStandardAttributes :: "jsobj \<Rightarrow> bool option" where
  "metricsUseStandardAttributes policy = do {
     metrics \<leftarrow> list_or (fld policy ''eventMetricPolicies'');
     some_opt (\<lambda>m. do { s \<leftarrow> getx m ''standardAttributes''; Some (nonempty s) }) metrics }"

definition requiredPolicySchema :: "jsobj \<Rightarrow> string option" where
  "requiredPolicySchema policy = do {
     passthrough \<leftarrow> policyUsesPassthroughValuePolicy policy;
     if passthrough then Some ''1.7'' else do {
       standard \<leftarrow> metricsUseStandardAttributes policy;
       if standard then Some ''1.6'' else do {
         path \<leftarrow> httpEventUsesPathParameters policy;
         if path \<or> truthy (get (js_or (fld policy ''messagingEventPolicies'') (Arr [])) ''length'') \<or>
            truthy (get (js_or (fld policy ''messagingMetricPolicies'') (Arr [])) ''length'') then Some ''1.5''
         else do {
           extended \<leftarrow> httpEventUsesExtendedSources policy;
           Some (if extended then ''1.4'' else str_or (fld policy ''schemaVersion'') ''1.3'') } } } }"

subsection \<open>Schema versions\<close>

text \<open>The match of \<open>/^(\d+)\.(\d+)$/\<close>.\<close>

definition match_version :: "string \<Rightarrow> (string \<times> string) option" where
  "match_version s =
     (let major = takeWhile is_digit s in
      case dropWhile is_digit s of
        d # minor \<Rightarrow> if d = CHR ''.'' \<and> major \<noteq> [] \<and> minor \<noteq> [] \<and> (\<forall>c\<in>set minor. is_digit c)
                     then Some (major, minor) else None
      | [] \<Rightarrow> None)"

definition policySchemaRank :: "jsval \<Rightarrow> int" where
  "policySchemaRank v =
     (case match_version (js_trim (str_or v '''')) of
        None \<Rightarrow> -1
      | Some (major, minor) \<Rightarrow> int (digits_val major) * 1000 + int (digits_val minor))"

definition ensurePolicySchema :: "jsval \<Rightarrow> jsval \<Rightarrow> jsval" where
  "ensurePolicySchema current required =
     (if policySchemaRank current \<ge> policySchemaRank required then current else required)"

definition agentSupportsPolicySchema :: "jsobj \<Rightarrow> string \<Rightarrow> bool" where
  "agentSupportsPolicySchema agent required =
     (let advertisedEntry = find (\<lambda>(key, _). js_lower (js_trim key) = ''o11y.policy.schema'')
            (own_entries (js_or (fld agent ''Attributes'') (Obj [])));
          advertised = js_trim (str_or (case advertisedEntry of Some (_, v) \<Rightarrow> v | None \<Rightarrow> Undef) '''');
          requiredRank = policySchemaRank (Str required)
      in if requiredRank < 0 then False
         else if requiredRank \<le> policySchemaRank (Str ''1.3'') then True
         else policySchemaRank (Str advertised) \<ge> requiredRank)"

declare httpEventSourceOptions_def [js_eval] httpConditionSourceOptions_def [js_eval]
  selector_metadata_def [js_eval] sourceSelectorMetadata_def [js_eval]
  httpSourceSelector_def [js_eval] some_event_item_def [js_eval] extended_source_def [js_eval]
  httpEventUsesExtendedSources_def [js_eval] name_char_def [js_eval]
  template_name_at_def [js_eval] path_parameter_item_def [js_eval]
  httpEventUsesPathParameters_def [js_eval] value_policies_def [js_eval]
  nested_value_policies_def [js_eval] policyUsesPassthroughValuePolicy_def [js_eval]
  nonempty_def [js_eval] metricsUseStandardAttributes_def [js_eval]
  requiredPolicySchema_def [js_eval] match_version_def [js_eval] policySchemaRank_def [js_eval]
  ensurePolicySchema_def [js_eval] agentSupportsPolicySchema_def [js_eval]

end
