(* ===== verification/Js_Object.thy ===== *)
theory Js_Object
  imports Comparator
begin

section \<open>Object literals with spread: when applying them again changes nothing\<close>

text \<open>
  The normal forms of the editor are object literals such as \<open>{...x, direction: d}\<close> and
  \<open>{enabled: false, ...x}\<close>. On plain objects, whose keys are distinct and not array indices, the
  order of the properties is the order of insertion, and applying such a literal a second time
  gives the same object.
\<close>

definition plain_obj :: "jsobj \<Rightarrow> bool" where
  "plain_obj ob \<longleftrightarrow> distinct (map fst ob) \<and> (\<forall>k\<in>set (map fst ob). \<not> is_index_key k)"

declare plain_obj_def [js_eval]

fun obj_set :: "string \<Rightarrow> jsval \<Rightarrow> jsobj \<Rightarrow> jsobj" where
  "obj_set k v [] = []"
| "obj_set k v ((j, u) # ob) = (if j = k then (k, v) # obj_set k v ob else (j, u) # obj_set k v ob)"

lemma obj_set_keys [simp]: "map fst (obj_set k v ob) = map fst ob"
  by (induction k v ob rule: obj_set.induct) auto

lemma obj_set_absent: "k \<notin> set (map fst ob) \<Longrightarrow> obj_set k v ob = ob"
  by (induction k v ob rule: obj_set.induct) auto

lemma obj_set_append [simp]: "obj_set k v (a @ b) = obj_set k v a @ obj_set k v b"
  by (induction k v a rule: obj_set.induct) auto

lemma obj_put_plain:
  "\<not> is_index_key k \<Longrightarrow> distinct (map fst ob) \<Longrightarrow>
    obj_put k v ob = (if k \<in> set (map fst ob) then obj_set k v ob else ob @ [(k, v)])"
proof (induction k v ob rule: obj_put.induct)
  case (2 k v k' v' ob)
  then show ?case using obj_set_absent [of k ob v] by (cases "k = k'") auto
qed simp

lemma plain_obj_put [simp]: "\<not> is_index_key k \<Longrightarrow> plain_obj ob \<Longrightarrow> plain_obj (obj_put k v ob)"
proof -
  assume a: "\<not> is_index_key k" "plain_obj ob"
  then have "map fst (obj_put k v ob) = (if k \<in> set (map fst ob) then map fst ob else map fst ob @ [k])"
    by (simp add: obj_put_plain plain_obj_def del: set_map)
  then show "plain_obj (obj_put k v ob)" using a unfolding plain_obj_def by (simp del: set_map)
qed

lemma obj_put_same: "\<not> is_index_key k \<Longrightarrow> map_of ob k = Some v \<Longrightarrow> obj_put k v ob = ob"
  by (induction k v ob rule: obj_put.induct) (auto split: if_splits)

lemma obj_spread_same:
  "\<forall>(k, v)\<in>set ups. \<not> is_index_key k \<and> map_of ob k = Some v \<Longrightarrow> obj_spread ob ups = ob"
  unfolding obj_spread_def by (induction ups) (auto simp: obj_put_same)

lemma plain_obj_spread [simp]: "plain_obj a \<Longrightarrow> plain_obj b \<Longrightarrow> plain_obj (obj_spread a b)"
proof (induction b arbitrary: a)
  case (Cons x b)
  then have "plain_obj b" "\<not> is_index_key (fst x)" by (auto simp: plain_obj_def)
  then show ?case using Cons.IH [of "obj_put (fst x) (snd x) a"] Cons.prems(1)
    by (simp add: obj_spread_def split_def)
qed (simp add: obj_spread_def)

text \<open>Spreading over defaults keeps the keys of the defaults in front.\<close>

lemma spread_prefix:
  assumes "plain_obj d" "\<forall>k\<in>set (map fst e). \<not> is_index_key k"
  shows "\<exists>P E. obj_spread d e = P @ E \<and> map fst P = map fst d \<and> plain_obj (P @ E)"
  using assms(2)
proof (induction e rule: rev_induct)
  case Nil
  then show ?case using assms(1) by (intro exI [of _ d] exI [of _ "[]"]) (simp add: obj_spread_def)
next
  case (snoc x e)
  obtain k v where x: "x = (k, v)" by (cases x)
  obtain P E where PE: "obj_spread d e = P @ E" "map fst P = map fst d" "plain_obj (P @ E)"
    using snoc by auto
  have k: "\<not> is_index_key k" using snoc.prems x by simp
  have put: "obj_spread d (e @ [x]) = obj_put k v (P @ E)" using PE(1) by (simp add: obj_spread_def x)
  have plain: "plain_obj (obj_put k v (P @ E))" using PE(3) k by simp
  show ?case
  proof (cases "k \<in> set (map fst (P @ E))")
    case True
    then have "obj_put k v (P @ E) = obj_set k v P @ obj_set k v E"
      using k PE(3) unfolding plain_obj_def by (simp only: obj_put_plain obj_set_append if_True)
    then show ?thesis using put plain PE(2) obj_set_keys by metis
  next
    case False
    then have "obj_put k v (P @ E) = P @ (E @ [(k, v)])"
      using k PE(3) unfolding plain_obj_def by (simp add: obj_put_plain del: set_map)
    then show ?thesis using put plain PE(2) by metis
  qed
qed

lemma spread_overwrite:
  "map fst P = map fst D \<Longrightarrow> plain_obj (A @ D) \<Longrightarrow> obj_spread (A @ D) P = A @ P"
proof (induction P arbitrary: A D)
  case Nil
  then show ?case by (simp add: obj_spread_def)
next
  case (Cons x P)
  obtain k v where x: "x = (k, v)" by (cases x)
  with Cons.prems obtain u D' where D: "D = (k, u) # D'" "map fst P = map fst D'" by (cases D) auto
  have k: "\<not> is_index_key k" "distinct (map fst (A @ D))" using Cons.prems(2) D by (auto simp: plain_obj_def)
  have "obj_set k v A = A" "obj_set k v D' = D'"
    using k(2) D(1) by (auto intro!: obj_set_absent)
  then have "obj_put k v (A @ D) = (A @ [(k, v)]) @ D'"
    using k D(1) by (simp add: obj_put_plain)
  moreover have "plain_obj ((A @ [(k, v)]) @ D')" using Cons.prems(2) D(1) by (auto simp: plain_obj_def)
  ultimately show ?case using Cons.IH [OF D(2), of "A @ [(k, v)]"] by (simp add: obj_spread_def x)
qed

lemma spread_append: "plain_obj (A @ E) \<Longrightarrow> obj_spread A E = A @ E"
proof (induction E arbitrary: A)
  case Nil
  then show ?case by (simp add: obj_spread_def)
next
  case (Cons x E)
  obtain k v where x: "x = (k, v)" by (cases x)
  have "obj_put k v A = A @ [(k, v)]" using Cons.prems x by (auto simp: obj_put_plain plain_obj_def)
  moreover have "plain_obj ((A @ [(k, v)]) @ E)" using Cons.prems x by simp
  ultimately show ?case using Cons.IH [of "A @ [(k, v)]"] by (simp add: obj_spread_def x)
qed

lemma obj_spread_append: "obj_spread a (b @ c) = obj_spread (obj_spread a b) c"
  by (simp add: obj_spread_def)

lemma spread_defaults_idem:
  assumes "plain_obj d" "\<forall>k\<in>set (map fst e). \<not> is_index_key k"
  shows "obj_spread d (obj_spread d e) = obj_spread d e"
proof -
  obtain P E where PE: "obj_spread d e = P @ E" "map fst P = map fst d" "plain_obj (P @ E)"
    using spread_prefix [OF assms] by auto
  have "obj_spread d P = P" using spread_overwrite [of P d "[]"] PE(2) assms(1) by simp
  then show ?thesis using PE spread_append [of P E] by (simp add: obj_spread_append)
qed

lemma spread_Nil_plain: "plain_obj e \<Longrightarrow> obj_spread [] e = e"
  using spread_append [of "[]" e] by simp

text \<open>Every object inside a plain value is plain.\<close>

fun plain :: "jsval \<Rightarrow> bool" where
  "plain (Obj ob) = (plain_obj ob \<and> (\<forall>kv\<in>set ob. plain (snd kv)))"
| "plain (Arr xs) = (\<forall>x\<in>set xs. plain x)"
| "plain _ = True"

lemma plain_fld: "plain (Obj ob) \<Longrightarrow> plain (fld ob k)"
  by (auto simp: fld_def split: option.splits dest!: map_of_SomeD)

lemma plain_array: "plain v \<Longrightarrow> x \<in> set (array v) \<Longrightarrow> plain x"
  by (cases v) auto

lemma plain_put: "\<not> is_index_key k \<Longrightarrow> plain (Obj ob) \<Longrightarrow> plain v \<Longrightarrow> plain (Obj (obj_put k v ob))"
proof -
  assume a: "\<not> is_index_key k" "plain (Obj ob)" "plain v"
  have "set (obj_put k v ob) \<subseteq> insert (k, v) (set ob)"
    by (induction k v ob rule: obj_put.induct) auto
  then show ?thesis using a by auto
qed

lemma plain_spread: "plain (Obj a) \<Longrightarrow> plain (Obj b) \<Longrightarrow> plain (Obj (obj_spread a b))"
proof (induction b arbitrary: a)
  case (Cons x b)
  have x: "\<not> is_index_key (fst x)" "plain (snd x)" and b: "plain (Obj b)"
    using Cons.prems(2) by (simp_all add: plain_obj_def)
  show ?case using Cons.IH [OF plain_put [OF x(1) Cons.prems(1) x(2)] b] by (simp add: obj_spread_def split_def)
qed (simp add: obj_spread_def)

end
