(* ===== verification/Telemetry_Props.thy ===== *)
theory Telemetry_Props
  imports Messaging Telemetry_Schema Js_Object
begin

section \<open>Properties of event names, normal forms and schemas\<close>

subsection \<open>Duplicate and unused names\<close>

text \<open>After the loop: the names seen, and among them those that occur twice.\<close>

definition repeated :: "string list \<Rightarrow> string set" where
  "repeated names = {n. n \<noteq> [] \<and> 2 \<le> length (filter (\<lambda>m. m = n) names)}"

lemma repeated_Nil [simp]: "repeated [] = {}"
  by (simp add: repeated_def)

lemma repeated_snoc:
  "repeated (xs @ [x]) = (if x \<noteq> [] \<and> x \<in> set xs then insert x (repeated xs) else repeated xs)"
proof -
  have one: "filter (\<lambda>m. m = x) xs = [] \<longleftrightarrow> x \<notin> set xs" by (auto simp: filter_empty_conv)
  have "2 \<le> length (filter (\<lambda>m. m = n) (xs @ [x])) \<longleftrightarrow>
      2 \<le> length (filter (\<lambda>m. m = n) xs) \<or> (n = x \<and> x \<in> set xs)" for n
    using one by (cases "filter (\<lambda>m. m = n) xs") auto
  then show ?thesis unfolding repeated_def by auto
qed

lemma duplicate_loop:
  "fold duplicate_step names ([], []) = (seen, dups) \<Longrightarrow>
    set seen = set names - {[]} \<and> distinct dups \<and> set dups = repeated names"
proof (induction names arbitrary: seen dups rule: rev_induct)
  case Nil
  then show ?case by simp
next
  case (snoc x xs)
  obtain s d where sd: "fold duplicate_step xs ([], []) = (s, d)" by fastforce
  have IH: "set s = set xs - {[]}" "distinct d" "set d = repeated xs"
    using snoc.IH [OF sd] by auto
  have "(seen, dups) = duplicate_step x (s, d)" using snoc.prems sd by simp
  then show ?case using IH by (auto simp: duplicate_step_def repeated_snoc split: if_splits)
qed

lemma duplicate_names_spec:
  "distinct (duplicate_names names)" "set (duplicate_names names) = repeated names"
  using duplicate_loop [of names "fst (fold duplicate_step names ([], []))" "snd (fold duplicate_step names ([], []))"]
  by (auto simp: duplicate_names_def)

lemma repeated_empty: "repeated names = {} \<longleftrightarrow> distinct (filter (\<lambda>n. n \<noteq> []) names)"
  by (induction names rule: rev_induct) (auto simp: repeated_snoc)

lemma duplicate_names_Nil: "duplicate_names names = [] \<longleftrightarrow> distinct (filter (\<lambda>n. n \<noteq> []) names)"
  unfolding repeated_empty [symmetric] duplicate_names_spec(2) [symmetric] by simp

lemma unused_name_spec:
  "unused_name used base \<notin> set used"
  "unused_name used base = base \<or> (\<exists>k\<ge>2. unused_name used base = suffixed base k \<and> base \<in> set used \<and>
     (\<forall>j. 2 \<le> j \<longrightarrow> j < k \<longrightarrow> suffixed base j \<in> set used))"
  using next_suffix_free [of base used 2] next_suffix_ge [of 2 used base]
  by (auto simp: unused_name_def intro: next_suffix_least)

text \<open>the events reported as duplicated are, once each, the names that two or more HTTP or
  messaging events have; there is none exactly when the names are pairwise different.\<close>

theorem duplicateTelemetryEventNames_exact:
  "distinct (duplicateTelemetryEventNames policy) \<and>
   set (duplicateTelemetryEventNames policy) =
     {n. n \<noteq> [] \<and> 2 \<le> length (filter (\<lambda>e. event_name_text e = n) (telemetry_events policy))} \<and>
   (duplicateTelemetryEventNames policy = [] \<longleftrightarrow>
      distinct (filter (\<lambda>n. n \<noteq> []) (map event_name_text (telemetry_events policy))))"
  using duplicate_names_spec [of "map event_name_text (telemetry_events policy)"]
    duplicate_names_Nil [of "map event_name_text (telemetry_events policy)"]
  by (simp add: duplicateTelemetryEventNames_def repeated_def filter_map o_def)

text \<open>C35: the name proposed for a new messaging event is used by no event of the policy, so adding the
  event creates no duplicate; it is the base itself, or the base with the least number from 2 on
  that is free.\<close>

theorem nextMessagingEventName_is_fresh:
  fixes policy base
  defines "new \<equiv> nextMessagingEventName policy base"
  shows "new \<notin> set (map event_name_text (telemetry_events policy)) \<and>
    set (duplicate_names (map event_name_text (telemetry_events policy) @ [new])) =
      set (duplicateTelemetryEventNames policy) \<and>
    (new = base \<or> (\<exists>k\<ge>2. new = suffixed base k \<and>
       (\<forall>j\<in>{2..<k}. suffixed base j \<in> set (map event_name_text (telemetry_events policy)))))"
proof -
  let ?used = "map event_name_text (telemetry_events policy)"
  have free: "new \<notin> set ?used" unfolding new_def nextMessagingEventName_def by (rule unused_name_spec)
  then have "repeated (?used @ [new]) = repeated ?used" by (simp add: repeated_snoc)
  then have "set (duplicate_names (?used @ [new])) = set (duplicateTelemetryEventNames policy)"
    unfolding duplicateTelemetryEventNames_def duplicate_names_spec(2) .
  then show ?thesis
    using free unused_name_spec(2) [of ?used base] unfolding new_def nextMessagingEventName_def by auto
qed

theorem nextMessagingEventName_is_fresh_witness:
  "nextMessagingEventName [(''bodyEventPolicies'', Arr [Obj [(''eventName'', Str ''m'')]])] ''m'' = suffixed ''m'' 2 \<and>
   suffixed ''m'' 2 \<notin> set (map event_name_text (telemetry_events [(''bodyEventPolicies'', Arr [Obj [(''eventName'', Str ''m'')]])]))"
proof -
  have "nextMessagingEventName [(''bodyEventPolicies'', Arr [Obj [(''eventName'', Str ''m'')]])] ''m'' = suffixed ''m'' 2"
    by code_simp
  then show ?thesis
    using nextMessagingEventName_is_fresh [of "[(''bodyEventPolicies'', Arr [Obj [(''eventName'', Str ''m'')]])]" "''m''"]
    by simp
qed

subsection \<open>The output \<open>event.name\<close> of an event\<close>

lemma span_or_log_idem [simp]: "span_or_log (span_or_log ds) = span_or_log ds"
  by (simp add: span_or_log_def)

lemma names_event_fields [simp]:
  "names_event (Obj (event_name_fields v ds))"
  "names_event (Obj (obj_spread ob (event_name_fields v ds)))"
  by (simp_all add: names_event_def event_name_fields_def fld_def obj_spread_def fld_obj_put)

lemma with_event_name_replaced:
  "with_event_name v ds True as = filter (\<lambda>a. \<not> names_event a) as"
  by (induction as) auto

lemma with_no_event_name: "with_event_name [] ds r as = filter (\<lambda>a. \<not> names_event a) as"
  by (induction as arbitrary: r) auto

lemma with_event_name_found:
  assumes "v \<noteq> []"
  shows "\<exists>a. find names_event (with_event_name v ds False as) = Some a \<and>
    get a ''value'' = Str v \<and> get a ''destinations'' = Arr ds \<and> get a ''type'' = Str ''STRING''"
  using assms
proof (induction as)
  case Nil
  have "get (Obj (event_name_fields v ds)) ''value'' = Str v"
    "get (Obj (event_name_fields v ds)) ''destinations'' = Arr ds"
    "get (Obj (event_name_fields v ds)) ''type'' = Str ''STRING''"
    by (simp_all add: event_name_fields_def fld_def)
  with Nil show ?case by simp
next
  case (Cons a as)
  have "get (Obj (obj_spread ob (event_name_fields v ds))) ''value'' = Str v"
    "get (Obj (obj_spread ob (event_name_fields v ds))) ''destinations'' = Arr ds"
    "get (Obj (obj_spread ob (event_name_fields v ds))) ''type'' = Str ''STRING''" for ob
    by (simp_all add: event_name_fields_def obj_spread_def fld_obj_put)
  with Cons show ?case by (cases "names_event a") simp_all
qed

lemma with_event_name_others:
  "filter (\<lambda>a. \<not> names_event a) (with_event_name v ds r as) = filter (\<lambda>a. \<not> names_event a) as"
  by (induction as arbitrary: r) auto

lemma with_event_name_count:
  "length (filter names_event (with_event_name v ds r as)) = (if v \<noteq> [] \<and> \<not> r then 1 else 0)"
  by (induction as arbitrary: r) (auto simp: with_event_name_replaced)

lemma find_none_filtered: "find names_event (filter (\<lambda>a. \<not> names_event a) as) = None"
  by (simp add: find_None_iff)

lemma eventNameOutput_result:
  assumes "readable_list (fld p ''staticAttributes'')" and "withEventNameOutput p v ds = Some q"
  shows "eventNameOutput q = Some \<lparr>no_value = v, no_destinations = if v = [] then [] else span_or_log ds\<rparr>"
    "fld q ''staticAttributes'' = Arr (with_event_name v (span_or_log ds) False (array (fld p ''staticAttributes'')))"
proof -
  let ?as = "with_event_name v (span_or_log ds) False (array (fld p ''staticAttributes''))"
  show q: "fld q ''staticAttributes'' = Arr ?as"
    using assms by (auto simp: withEventNameOutput_def fld_obj_put)
  show "eventNameOutput q = Some \<lparr>no_value = v, no_destinations = if v = [] then [] else span_or_log ds\<rparr>"
  proof (cases "v = []")
    case True
    then show ?thesis
      by (simp add: eventNameOutput_def q with_no_event_name find_none_filtered)
        (simp add: span_or_log_def)
  next
    case False
    then show ?thesis
      using with_event_name_found [of v "span_or_log ds" "array (fld p ''staticAttributes'')"]
      by (auto simp: eventNameOutput_def q)
  qed
qed

lemma event_name_output_of:
  assumes "readable_list (fld event ''staticAttributes'')"
  shows "\<exists>result. withEventNameOutput event v destinations = Some result \<and>
    eventNameOutput result =
      Some \<lparr>no_value = v, no_destinations = if v = [] then [] else span_or_log destinations\<rparr> \<and>
    length (filter names_event (array (fld result ''staticAttributes''))) = (if v = [] then 0 else 1) \<and>
    filter (\<lambda>a. \<not> names_event a) (array (fld result ''staticAttributes'')) =
      filter (\<lambda>a. \<not> names_event a) (array (fld event ''staticAttributes''))"
proof -
  obtain q where q: "withEventNameOutput event v destinations = Some q"
    using assms by (simp add: withEventNameOutput_def)
  note r = eventNameOutput_result [OF assms q]
  show ?thesis
    by (intro exI [of _ q] conjI q r(1)) (simp_all add: r(2) with_event_name_count with_event_name_others)
qed

text \<open>setting the output name of an event and reading it back gives the name and, of the
  destinations, those that are a span or a log; there is then exactly one such attribute (none for
  an empty name), and the other attributes are unchanged and in their order.\<close>

theorem event_name_output_roundtrip:
  assumes "readable_list (fld event ''staticAttributes'')"
  shows "\<exists>result. withEventNameOutput event v destinations = Some result \<and>
    eventNameOutput result =
      Some \<lparr>no_value = v, no_destinations = if v = [] then [] else span_or_log destinations\<rparr> \<and>
    length (filter names_event (array (fld result ''staticAttributes''))) = (if v = [] then 0 else 1) \<and>
    filter (\<lambda>a. \<not> names_event a) (array (fld result ''staticAttributes'')) =
      filter (\<lambda>a. \<not> names_event a) (array (fld event ''staticAttributes''))"
  using event_name_output_of [OF assms] .

theorem event_name_output_roundtrip_witness:
  "\<exists>result. withEventNameOutput [(''staticAttributes'', Arr [Obj [(''attribute'', Str ''event.name'')]])] ''paid'' [Str ''SPAN'', Str ''X''] = Some result \<and>
     eventNameOutput result = Some \<lparr>no_value = ''paid'', no_destinations = [Str ''SPAN'']\<rparr>"
proof -
  have "readable_list (fld [(''staticAttributes'', Arr [Obj [(''attribute'', Str ''event.name'')]])] ''staticAttributes'')"
    by code_simp
  from event_name_output_roundtrip [OF this, of "''paid''" "[Str ''SPAN'', Str ''X'']"] show ?thesis
    by (auto simp: span_or_log_def)
qed

subsection \<open>Schema versions\<close>

lemma policySchemaRank_ge: "-1 \<le> policySchemaRank v"
  by (auto simp: policySchemaRank_def split: option.splits)

text \<open>raising the schema of a document never lowers it: the result is one of the two versions, its
  rank is the greater of the two, and an agent that supports a schema supports every valid schema
  of a lower rank.\<close>

theorem policy_schema_is_monotone:
  "ensurePolicySchema current required \<in> {current, required} \<and>
   policySchemaRank (ensurePolicySchema current required) = max (policySchemaRank current) (policySchemaRank required) \<and>
   (if agentSupportsPolicySchema agent high \<and> 0 \<le> policySchemaRank (Str low) \<and>
       policySchemaRank (Str low) \<le> policySchemaRank (Str high)
    then agentSupportsPolicySchema agent low else True)"
proof -
  have "agentSupportsPolicySchema agent low"
    if "agentSupportsPolicySchema agent high" "0 \<le> policySchemaRank (Str low)"
      "policySchemaRank (Str low) \<le> policySchemaRank (Str high)"
    using that unfolding agentSupportsPolicySchema_def Let_def by (auto split: if_splits)
  then show ?thesis by (auto simp: ensurePolicySchema_def)
qed

lemma bind_if:
  "(B \<bind> (\<lambda>b. if b then X else R)) = Some s \<longleftrightarrow> (B = Some True \<and> X = Some s) \<or> (B = Some False \<and> R = Some s)"
  by (cases B) auto

lemma bind_if_or:
  "(B \<bind> (\<lambda>b. if b \<or> Q then X else R)) = Some s \<longleftrightarrow>
    (\<exists>b. B = Some b \<and> (b \<or> Q) \<and> X = Some s) \<or> (B = Some False \<and> \<not> Q \<and> R = Some s)"
  by (cases B) auto

lemma bind_choice:
  "(B \<bind> (\<lambda>b. Some (if b then x else y))) = Some s \<longleftrightarrow> (B = Some True \<and> s = x) \<or> (B = Some False \<and> s = y)"
  by (cases B) auto

lemma ranks:
  "policySchemaRank (Str ''1.7'') = 1007" "policySchemaRank (Str ''1.6'') = 1006"
  "policySchemaRank (Str ''1.5'') = 1005" "policySchemaRank (Str ''1.4'') = 1004"
  "policySchemaRank (Str ''1.3'') = 1003"
  by code_simp+

text \<open>the schema a policy requires covers every feature it uses: values that are passed through
  need 1.7, standard attributes on event metrics 1.6, messaging and path parameters 1.5, headers
  and queries as sources 1.4; with none of them it is the version the document declares.\<close>

theorem requiredPolicySchema_covers_features:
  assumes "requiredPolicySchema policy = Some schema"
  shows "policySchemaRank (Str schema) \<ge>
    (if policyUsesPassthroughValuePolicy policy = Some True then 1007
     else if metricsUseStandardAttributes policy = Some True then 1006
     else if httpEventUsesPathParameters policy = Some True \<or> array (fld policy ''messagingEventPolicies'') \<noteq> [] \<or>
       array (fld policy ''messagingMetricPolicies'') \<noteq> [] then 1005
     else if httpEventUsesExtendedSources policy = Some True then 1004 else policySchemaRank (Str schema)) \<and>
    (schema \<in> {''1.4'', ''1.5'', ''1.6'', ''1.7''} \<or> schema = str_or (fld policy ''schemaVersion'') ''1.3'')"
proof -
  have len: "truthy (get (js_or v (Arr [])) ''length'')" if "array v \<noteq> []" for v
    using that by (cases v) (auto simp: js_or_def)
  let ?P = "policyUsesPassthroughValuePolicy policy" and ?S = "metricsUseStandardAttributes policy"
  let ?T = "httpEventUsesPathParameters policy" and ?E = "httpEventUsesExtendedSources policy"
  let ?M = "array (fld policy ''messagingEventPolicies'') \<noteq> [] \<or> array (fld policy ''messagingMetricPolicies'') \<noteq> []"
  consider "?P = Some True" "schema = ''1.7''" | "?P = Some False" "?S = Some True" "schema = ''1.6''"
    | "?P = Some False" "?S = Some False" "schema = ''1.5''"
    | "?P = Some False" "?S = Some False" "?T = Some False" "\<not> ?M" "?E = Some True" "schema = ''1.4''"
    | "?P = Some False" "?S = Some False" "?T = Some False" "\<not> ?M" "?E = Some False"
        "schema = str_or (fld policy ''schemaVersion'') ''1.3''"
    using assms len unfolding requiredPolicySchema_def bind_if bind_if_or bind_choice option.inject by blast
  then show ?thesis
    by cases (simp_all add: ranks)
qed

theorem requiredPolicySchema_covers_features_witness:
  "requiredPolicySchema [(''messagingEventPolicies'', Arr [Obj []])] = Some ''1.5'' \<and>
   policySchemaRank (Str ''1.5'') \<ge> 1005"
proof -
  have r: "requiredPolicySchema [(''messagingEventPolicies'', Arr [Obj []])] = Some ''1.5''" by code_simp
  have f: "policyUsesPassthroughValuePolicy [(''messagingEventPolicies'', Arr [Obj []])] = Some False"
    "metricsUseStandardAttributes [(''messagingEventPolicies'', Arr [Obj []])] = Some False"
    "array (fld [(''messagingEventPolicies'', Arr [Obj []])] ''messagingEventPolicies'') \<noteq> []" by code_simp+
  show ?thesis using requiredPolicySchema_covers_features [OF r] r f by simp
qed

end
