(* ===== verification/Status_Labels.thy ===== *)
theory Status_Labels
  imports Policy Collector Deployment
begin

section \<open>Status labels and status filters (\<open>ui/src/main.jsx\<close>)\<close>

text \<open>
  The tables of the application: the options of each status filter as pairs of value and label,
  and the label, tone and help text of each status. \<open>statusMeta\<close> looks its table up by property
  name, so the name of a member every object inherits finds a function, which cannot be
  destructured: \<open>None\<close>.
\<close>

definition collectorStatusFilterOptions :: "(string \<times> string) list" where
  "collectorStatusFilterOptions =
     [(''ACTIVE'', (''Administradas activas'')),
      (''DEACTIVATED'', (''Administradas retiradas'')),
      (''APPLIED'', (''Aplicadas'')),
      (''NO_LIVE_TARGETS'', (''Sin destinos vivos'')),
      (''CONFIG_PENDING'', (''Pendientes'')),
      (''FAILED'', (''Rechazadas'')),
      (''BASE_PENDING'', (''Activando base'')),
      (''BASE_APPLIED'', (''Base activa'')),
      (''REMOVED'', (''Retirada por reemplazo'')),
      (''BASE_FAILED'', (''Base rechazada''))]"

definition policyStatusFilterOptions :: "(string \<times> string) list" where
  "policyStatusFilterOptions =
     [(''ACTIVE'', (''Activas'')),
      (''DEACTIVATED'', (''Retiradas'')),
      (''APPLIED'', ((''Aplicadas y en l'' @ [CHR 0xED] @ ''nea''))),
      (''NO_LIVE_TARGETS'', (''Sin destinos vivos'')),
      (''APPLIED_PENDING_REPLACEMENT'', (''Reemplazo pendiente'')),
      (''PARTIAL'', ((''Aplicaci'' @ [CHR 0xF3] @ ''n parcial''))),
      (''CONFIG_PENDING'', (''Pendiente'')),
      (''FAILED'', (''Rechazada'')),
      (''REMOVAL_PENDING'', (''Retiro pendiente'')),
      (''REMOVED'', (''Retiradas de destinos''))]"

definition destinationStatusFilterOptions :: "(string \<times> string) list" where
  "destinationStatusFilterOptions =
     [(''APPLIED'', ((''Aplicada y en l'' @ [CHR 0xED] @ ''nea''))),
      (''IN_SCOPE_DEGRADED'', ((''Se'' @ [CHR 0xF1] @ ''al OpAMP degradada''))),
      (''HISTORICAL'', ((''Registro hist'' @ [CHR 0xF3] @ ''rico''))),
      (''UNKNOWN'', (''Estado desconocido'')),
      (''APPLIED_PENDING_REPLACEMENT'', (''Reemplazo pendiente'')),
      (''CONFIG_PENDING'', (''Pendiente'')),
      (''FAILED'', (''Rechazada'')),
      (''SUPERSEDED'', (''Reemplazada'')),
      (''REMOVAL_PENDING'', (''Retiro pendiente'')),
      (''REMOVED'', (''Retirada de destinos'')),
      (''BASE_PENDING'', (''Activando base'')),
      (''BASE_APPLIED'', (''Base activa'')),
      (''BASE_FAILED'', (''Base rechazada''))]"

definition targetFilterOptions :: "(string \<times> string) list" where
  "targetFilterOptions =
     [(''java-extension'', (''Java extension'')),
      (''collector'', (''Collector''))]"

definition versionStatusFilterOptions :: "(string \<times> string) list" where
  "versionStatusFilterOptions =
     [(''APPLIED'', (''Aplicada'')),
      (''PARTIAL'', (''Parcial'')),
      (''CONFIG_PENDING'', (''Pendiente'')),
      (''FAILED'', (''Rechazada'')),
      (''DEACTIVATED'', (''Retirada'')),
      (''BASE_PENDING'', (''Activando base'')),
      (''BASE_APPLIED'', (''Base activa'')),
      (''BASE_FAILED'', (''Base rechazada'')),
      (''NOT_IN_USE'', ((''No est'' @ [CHR 0xE1] @ '' en uso''))),
      (''NO_LIVE_TARGETS'', (''Sin destinos vivos'')),
      (''NO_TARGETS'', (''Sin destinos''))]"

definition connectionMeta :: "(string \<times> string \<times> string \<times> string) list" where
  "connectionMeta =
     [(''CONNECTED'', (''Conectado''), ''ok'', 
        ((''El cliente mantiene una se'' @ [CHR 0xF1] @ ''al OpAMP reciente.''))),
      (''DISCONNECTED'', (''Desconectado''), ''bad'', 
        ((''No existe una se'' @ [CHR 0xF1] @ ''al OpAMP activa; esto no determina el estado de la infraestructura.''))),
      (''ONLINE'', ((''En l'' @ [CHR 0xED] @ ''nea'')), ''ok'', 
        ((''El cliente respondi'' @ [CHR 0xF3] @ '' dentro de tres intervalos de polling.''))),
      (''DEGRADED'', (''Degradado''), ''warn'', 
        (''Se perdieron entre tres y seis intervalos de polling.'')),
      (''OFFLINE'', ((''Sin se'' @ [CHR 0xF1] @ ''al OpAMP'')), ''bad'', 
        (''No se reciben mensajes OpAMP recientes; esto no determina si el workload existe.'')),
      (''STALE'', ((''Se'' @ [CHR 0xF1] @ ''al degradada'')), ''warn'', 
        ((''La se'' @ [CHR 0xF1] @ ''al OpAMP perdi'' @ [CHR 0xF3] @ '' varios intervalos y no se considera cobertura viva.''))),
      (''UNREACHABLE'', ((''Sin se'' @ [CHR 0xF1] @ ''al OpAMP'')), ''bad'', 
        ((''El cliente dej'' @ [CHR 0xF3] @ '' de reportar; sin un reconciliador de infraestructura no se afirma que est'' @ [CHR 0xE9] @ '' eliminado.''))),
      (''UNKNOWN'', (''Estado desconocido''), ''neutral'', 
        (''No hay evidencia suficiente para determinar la disponibilidad actual.''))]"

definition deploymentMeta :: "(string \<times> string \<times> string \<times> string) list" where
  "deploymentMeta =
     [(''APPLIED'', (''Aplicada''), ''ok'', 
        ((''El agente valid'' @ [CHR 0xF3] @ '' y activ'' @ [CHR 0xF3] @ '' esta versi'' @ [CHR 0xF3] @ ''n.''))),
      (''APPLIED_OFFLINE'', ((''Aplicada '' @ [CHR 0xB7] @ '' sin se'' @ [CHR 0xF1] @ ''al'')), ''warn'', 
        ((''La '' @ [CHR 0xFA] @ ''ltima confirmaci'' @ [CHR 0xF3] @ ''n fue APPLIED, pero ya no existe una se'' @ [CHR 0xF1] @ ''al OpAMP reciente; la infraestructura no est'' @ [CHR 0xE1] @ '' verificada.''))),
      (''APPLIED_STALE'', (([CHR 0xDA] @ ''ltima aplicaci'' @ [CHR 0xF3] @ ''n '' @ [CHR 0xB7] @ '' degradada'')), ''warn'', 
        ((''El agente conserva esta versi'' @ [CHR 0xF3] @ ''n como '' @ [CHR 0xFA] @ ''ltima aplicaci'' @ [CHR 0xF3] @ ''n conocida, pero sus reportes est'' @ [CHR 0xE1] @ ''n degradados.''))),
      (''APPLIED_PENDING_REPLACEMENT'', (''Reemplazo pendiente''), ''warn'', 
        ((''La versi'' @ [CHR 0xF3] @ ''n anterior a'' @ [CHR 0xFA] @ ''n est'' @ [CHR 0xE1] @ '' aplicada mientras el agente valida y activa el bundle de reemplazo.''))),
      (''SUPERSEDED'', (''Reemplazada''), ''neutral'', 
        ((''El agente usa actualmente otra configuraci'' @ [CHR 0xF3] @ ''n o versi'' @ [CHR 0xF3] @ ''n.''))),
      (''MATCHED'', (''Coincidente''), ''neutral'', 
        ((''El selector coincide; a'' @ [CHR 0xFA] @ ''n no existe confirmaci'' @ [CHR 0xF3] @ ''n de aplicaci'' @ [CHR 0xF3] @ ''n.''))),
      (''CONFIG_PENDING'', (''Pendiente''), ''warn'', 
        ((''Se envi'' @ [CHR 0xF3] @ '' la configuraci'' @ [CHR 0xF3] @ ''n; falta confirmaci'' @ [CHR 0xF3] @ ''n.''))),
      (''FAILED'', (''Rechazada''), ''bad'', 
        ((''El agente rechaz'' @ [CHR 0xF3] @ '' la configuraci'' @ [CHR 0xF3] @ ''n.''))),
      (''PARTIAL'', ((''Aplicaci'' @ [CHR 0xF3] @ ''n parcial'')), ''warn'', 
        ((''Al menos un destino la aplic'' @ [CHR 0xF3] @ '', pero el despliegue no termin'' @ [CHR 0xF3] @ '' correctamente en todos.''))),
      (''NOT_IN_USE'', ((''No est'' @ [CHR 0xE1] @ '' en uso'')), ''neutral'', 
        ((''Ning'' @ [CHR 0xFA] @ ''n destino coincidente reporta actualmente esta versi'' @ [CHR 0xF3] @ ''n.''))),
      (''NO_TARGETS'', (''Sin destinos''), ''neutral'', 
        ((''No hay destinos actuales o hist'' @ [CHR 0xF3] @ ''ricos que permitan confirmar esta versi'' @ [CHR 0xF3] @ ''n.''))),
      (''NO_LIVE_TARGETS'', (''Sin destinos vivos''), ''neutral'', 
        ((''No hay clientes actualmente en l'' @ [CHR 0xED] @ ''nea que coincidan. Los registros hist'' @ [CHR 0xF3] @ ''ricos no determinan la cobertura viva.''))),
      (''HISTORICAL'', ((''Hist'' @ [CHR 0xF3] @ ''rico'')), ''neutral'', 
        ((''Este registro se conserva para auditor'' @ [CHR 0xED] @ ''a y no participa en la cobertura viva. No determina si el workload todav'' @ [CHR 0xED] @ ''a existe.''))),
      (''IN_SCOPE_DEGRADED'', ((''Se'' @ [CHR 0xF1] @ ''al degradada'')), ''warn'', 
        ((''El destino coincide, pero su se'' @ [CHR 0xF1] @ ''al OpAMP no es suficientemente reciente para contar como cobertura viva.''))),
      (''UNKNOWN'', (''Estado desconocido''), ''neutral'', 
        ((''No existe evidencia suficiente para afirmar si la instancia est'' @ [CHR 0xE1] @ '' activa o eliminada.''))),
      (''DEACTIVATED'', (''Retirada''), ''neutral'', 
        (''La policy ya no se entrega a destinos actuales ni futuros.'')),
      (''REMOVAL_PENDING'', (''Retiro pendiente''), ''warn'', 
        ((''La policy dej'' @ [CHR 0xF3] @ '' de ser deseada; falta que el agente confirme que removi'' @ [CHR 0xF3] @ '' la versi'' @ [CHR 0xF3] @ ''n.''))),
      (''REMOVED'', (''Retirada de destinos''), ''ok'', 
        ((''El agente confirm'' @ [CHR 0xF3] @ '' que la policy ya no forma parte de su bundle activo.''))),
      (''BASE_PENDING'', (''Activando base''), ''warn'', 
        ((''La configuraci'' @ [CHR 0xF3] @ ''n administrada fue retirada; falta que el Supervisor confirme la base NOP.''))),
      (''BASE_APPLIED'', ((''Base activa '' @ [CHR 0xB7] @ '' NOP'')), ''ok'', 
        ((''El Supervisor confirm'' @ [CHR 0xF3] @ '' la configuraci'' @ [CHR 0xF3] @ ''n base inmutable del ConfigMap.''))),
      (''BASE_FAILED'', (''Base rechazada''), ''bad'', 
        ((''El Supervisor no pudo activar su configuraci'' @ [CHR 0xF3] @ ''n base inmutable.''))),
      (''NOT_REPORTED'', (''Sin reporte''), ''neutral'', 
        ((''A'' @ [CHR 0xFA] @ ''n no existe confirmaci'' @ [CHR 0xF3] @ ''n.''))),
      (''REPORT_ONLY'', ((''S'' @ [CHR 0xF3] @ ''lo reporte'')), ''neutral'', 
        ((''Este cliente OpAMP no acepta configuraci'' @ [CHR 0xF3] @ ''n remota.''))),
      (''VALIDATED'', (''Validado''), ''ok'', 
        ((''La configuraci'' @ [CHR 0xF3] @ ''n fue comprobada contra el proveedor de identidad.''))),
      (''CONFIGURED'', (''Configurado''), ''warn'', 
        ((''La configuraci'' @ [CHR 0xF3] @ ''n est'' @ [CHR 0xE1] @ '' guardada, pero todav'' @ [CHR 0xED] @ ''a no super'' @ [CHR 0xF3] @ '' la validaci'' @ [CHR 0xF3] @ ''n operativa.''))),
      (''ERROR'', (''Error''), ''bad'', 
        ((''La '' @ [CHR 0xFA] @ ''ltima validaci'' @ [CHR 0xF3] @ ''n del proveedor no fue satisfactoria.''))),
      (''INACTIVE'', (''Inactivo''), ''neutral'', 
        ((''El recurso no est'' @ [CHR 0xE1] @ '' activo.''))),
      (''ACTIVE'', (''Activo''), ''ok'', 
        ((''El usuario puede iniciar sesi'' @ [CHR 0xF3] @ ''n.'')))]"
definition statusMeta :: "jsval \<Rightarrow> string \<Rightarrow> (string \<times> string \<times> string) option" where
  "statusMeta status type =
     (let table = (if type = ''connection'' then connectionMeta else deploymentMeta);
          fallback = (if type = ''connection''
            then (str_or status ''Desconocido'', ''neutral'', ''Estado de transporte OpAMP.'')
            else (str_or status ''Sin reporte'', ''neutral'', ''Estado OpAMP.''))
      in case map_of table (to_str status) of
           Some meta \<Rightarrow> Some meta
         | None \<Rightarrow> if to_str status \<in> set object_prototype then None else Some fallback)"

declare collectorStatusFilterOptions_def [js_eval] policyStatusFilterOptions_def [js_eval]
  destinationStatusFilterOptions_def [js_eval] targetFilterOptions_def [js_eval]
  versionStatusFilterOptions_def [js_eval] connectionMeta_def [js_eval]
  deploymentMeta_def [js_eval] statusMeta_def [js_eval]

subsection \<open>Every computed status has a label\<close>

definition labelled :: "string \<Rightarrow> bool" where
  "labelled s \<longleftrightarrow> map_of deploymentMeta s \<noteq> None"

lemma labelled_statuses:
  "labelled ''DEACTIVATED'' \<and> labelled ''NO_LIVE_TARGETS'' \<and> labelled ''REMOVED'' \<and> labelled ''FAILED'' \<and>
   labelled ''REMOVAL_PENDING'' \<and> labelled ''APPLIED'' \<and> labelled ''APPLIED_PENDING_REPLACEMENT'' \<and>
   labelled ''PARTIAL'' \<and> labelled ''CONFIG_PENDING'' \<and> labelled ''NOT_IN_USE'' \<and> labelled ''BASE_APPLIED'' \<and>
   labelled ''BASE_FAILED'' \<and> labelled ''BASE_PENDING'' \<and> labelled ''APPLIED_OFFLINE''"
  by code_simp

lemmas labelled_if = if_distrib [of labelled] labelled_statuses if_cancel

lemma policy_status_labelled: "labelled (policy_summary_status s d)" if "labelled (ps_status s)"
  unfolding policy_summary_status_def by (simp only: labelled_if that simp_thms)

lemma collector_status_labelled: "labelled (collector_summary_status s a)"
  unfolding collector_summary_status_def Let_def by (simp only: labelled_if simp_thms)

lemma version_status_labelled: "labelled (deployment_status_of v s)" if "labelled (dp_status s)"
  unfolding deployment_status_of_def by (simp only: labelled_if that simp_thms)

text \<open>every status that a policy, a collector configuration or a stored version can be in has an entry of
  its own in the table of labels, so that none is shown by the fallback; a status without one is
  shown by its own text, unless it is the name of a member that every object inherits.\<close>

theorem every_status_has_a_label:
  "map_of deploymentMeta (ps_status (summarizePolicyDestinations policyRecords deactivated)) \<noteq> None \<and>
   map_of deploymentMeta (cs_status (summarizeCollectorRecords collectorRecords active)) \<noteq> None \<and>
   (case deploymentStatusForVersion version agents of
      Some d \<Rightarrow> map_of deploymentMeta (dp_status d) \<noteq> None | None \<Rightarrow> True) \<and>
   (statusMeta (Str s) ''deployment'' = None \<longleftrightarrow> s \<in> set object_prototype)"
proof -
  have "list_all (\<lambda>s. \<not> labelled s) object_prototype" by code_simp
  then have "map_of deploymentMeta s = None" if "s \<in> set object_prototype"
    using that by (simp only: list_all_iff labelled_def simp_thms)
  moreover have "(''deployment'' :: string) \<noteq> ''connection''" by simp
  ultimately have "statusMeta (Str s) ''deployment'' = None \<longleftrightarrow> s \<in> set object_prototype"
    unfolding statusMeta_def Let_def to_str.simps by (simp only: if_False) (cases "map_of deploymentMeta s"; auto)
  moreover have "labelled (ps_status (fold policy_tally policyRecords (policy_summary_init policyRecords)))"
    by (simp only: js_count policy_summary_init_def policy_summary.simps labelled_statuses)
  then have "labelled (ps_status (summarizePolicyDestinations policyRecords deactivated))"
    unfolding summarizePolicyDestinations_def Let_def by (simp add: policy_status_labelled)
  moreover have "labelled (cs_status (summarizeCollectorRecords collectorRecords active))"
    unfolding summarizeCollectorRecords_def Let_def by (simp add: collector_status_labelled)
  moreover have "labelled (dp_status d)" if d: "deploymentStatusForVersion version agents = Some d" for d
  proof -
    obtain cs where "d = (let s = fold (deployment_tally version) (filter agentCountsForLiveCoverage cs) (deployment_init cs)
      in s\<lparr>dp_status := deployment_status_of version s\<rparr>)"
      using d by (rule deployment_unfold)
    moreover have "labelled (dp_status (fold (deployment_tally version) xs (deployment_init cs)))" for xs cs
      by (simp only: js_count deployment_init_def deployment.simps labelled_statuses)
    ultimately show ?thesis by (simp add: Let_def version_status_labelled)
  qed
  ultimately show ?thesis
    unfolding labelled_def by (auto split: option.split)
qed

subsection \<open>The status filters\<close>

definition offered :: "(string \<times> string) list \<Rightarrow> string \<Rightarrow> bool" where
  "offered options s \<longleftrightarrow> map_of options s \<noteq> None"

definition offered_or_unused :: "string \<Rightarrow> bool" where
  "offered_or_unused s \<longleftrightarrow> offered policyStatusFilterOptions s \<noteq> (s = ''NOT_IN_USE'')"

definition offered_version :: "string \<Rightarrow> bool" where
  "offered_version s \<longleftrightarrow> offered versionStatusFilterOptions s"

lemma offered_policy_statuses:
  "offered_or_unused ''DEACTIVATED'' \<and> offered_or_unused ''NO_LIVE_TARGETS'' \<and> offered_or_unused ''REMOVED'' \<and>
   offered_or_unused ''FAILED'' \<and> offered_or_unused ''REMOVAL_PENDING'' \<and> offered_or_unused ''APPLIED'' \<and>
   offered_or_unused ''APPLIED_PENDING_REPLACEMENT'' \<and> offered_or_unused ''PARTIAL'' \<and>
   offered_or_unused ''CONFIG_PENDING'' \<and> offered_or_unused ''NOT_IN_USE''"
  by code_simp

lemma offered_version_statuses:
  "offered_version ''NO_LIVE_TARGETS'' \<and> offered_version ''FAILED'' \<and> offered_version ''APPLIED'' \<and>
   offered_version ''PARTIAL'' \<and> offered_version ''CONFIG_PENDING'' \<and> offered_version ''NOT_IN_USE''"
  by code_simp

text \<open>the filter of the versions list offers every status a version can have. The filter of the
  policies offers every status of a policy except the one of a policy that none of its live
  destinations uses, which a policy can have, so that it cannot be filtered for.\<close>

theorem status_filters_offer:
  "(case deploymentStatusForVersion version agents of
      Some d \<Rightarrow> map_of versionStatusFilterOptions (dp_status d) \<noteq> None | None \<Rightarrow> True) \<and>
   (map_of policyStatusFilterOptions (ps_status (summarizePolicyDestinations records deactivated)) = None \<longleftrightarrow>
      ps_status (summarizePolicyDestinations records deactivated) = ''NOT_IN_USE'') \<and>
   ps_status (summarizePolicyDestinations [[(''Target'', Str ''java-extension''), (''LiveStatus'', Str ''NOT_APPLIED''),
      (''CountsForLiveCoverage'', Bool True)]] False) = ''NOT_IN_USE''"
proof -
  have "offered_version (dp_status d)" if d: "deploymentStatusForVersion version agents = Some d" for d
  proof -
    obtain cs where "d = (let s = fold (deployment_tally version) (filter agentCountsForLiveCoverage cs) (deployment_init cs)
      in s\<lparr>dp_status := deployment_status_of version s\<rparr>)"
      using d by (rule deployment_unfold)
    moreover have "offered_version (deployment_status_of v (fold (deployment_tally version) xs (deployment_init cs)))"
      for v xs cs
      unfolding deployment_status_of_def
      by (simp only: if_distrib [of offered_version] offered_version_statuses if_cancel js_count deployment_init_def
          deployment.simps)
    ultimately show ?thesis by (simp add: Let_def)
  qed
  moreover have "offered_or_unused (ps_status (summarizePolicyDestinations records deactivated))"
  proof -
    have "ps_status (fold policy_tally records (policy_summary_init records)) = ''NO_LIVE_TARGETS''"
      by (simp only: js_count policy_summary_init_def policy_summary.simps)
    then have "offered_or_unused (policy_summary_status (fold policy_tally records (policy_summary_init records)) deactivated)"
      unfolding policy_summary_status_def
      by (simp only: if_distrib [of offered_or_unused] offered_policy_statuses if_cancel)
    then show ?thesis by (simp add: summarizePolicyDestinations_def Let_def)
  qed
  moreover have "ps_status (summarizePolicyDestinations [[(''Target'', Str ''java-extension''), (''LiveStatus'', Str ''NOT_APPLIED''),
      (''CountsForLiveCoverage'', Bool True)]] False) = ''NOT_IN_USE''" by code_simp
  ultimately show ?thesis
    unfolding offered_or_unused_def offered_version_def offered_def by (auto split: option.split)
qed

end
