(* ===== verification/Policy_Document.thy ===== *)
theory Policy_Document
  imports Telemetry_Props
begin

section \<open>The policy document the editor holds (\<open>ui/src/main.jsx\<close>)\<close>

text \<open>
  The constructors of the editor (an empty policy, a new rule, a new metric) and
  \<open>normalizePolicy\<close>, which every loaded document passes through. \<open>Date.now()\<close> is the argument
  \<open>now\<close>. Reading a missing item, or calling \<open>map\<close> on what is not an array, raises (\<open>None\<close>).
\<close>

definition strs :: "string list \<Rightarrow> jsval" where
  "strs xs = Arr (map Str xs)"

definition defaultBuckets :: "jsval list" where
  "defaultBuckets = map (\<lambda>q. Num (Fin q))
     [5/1000, 1/100, 25/1000, 5/100, 75/1000, 1/10, 25/100, 1/2, 75/100, 1, 5/2, 5, 15/2, 10]"

definition bounded :: "string list \<Rightarrow> jsobj" where
  "bounded allowed =
     [(''type'', Str ''ENUM''), (''allowed'', strs allowed), (''fallback'', Str ''OTHER''), (''ranges'', Arr [])]"

definition range_item :: "jsval \<Rightarrow> string \<Rightarrow> jsval" where
  "range_item m label = Obj [(''max'', m), (''label'', Str label)]"

definition rangePolicy :: jsobj where
  "rangePolicy =
     [(''type'', Str ''RANGE''), (''allowed'', Arr []), (''fallback'', Str ''OTHER''),
      (''ranges'', Arr [range_item (Num (Fin 1000)) ''0-1000'', range_item (Num (Fin 3000)) ''1000-3000'',
         range_item (Num (Fin 10000)) ''3000-10000'', range_item Null ''10000+''])]"

definition emptyPolicy :: jsobj where
  "emptyPolicy =
     [(''schemaVersion'', Str ''1.5''), (''requestHeaders'', Arr []), (''responseHeaders'', Arr []),
      (''deniedHeaders'', Arr []), (''deniedBodyPaths'', Arr []), (''metricPolicies'', Arr []),
      (''methodPolicies'', Arr []), (''bodyEventPolicies'', Arr []), (''eventMetricPolicies'', Arr []),
      (''messagingEventPolicies'', Arr []), (''messagingMetricPolicies'', Arr [])]"

definition capture :: "string \<Rightarrow> int \<Rightarrow> string \<Rightarrow> string \<Rightarrow> string \<Rightarrow> string list \<Rightarrow> jsobj \<Rightarrow> jsobj" where
  "capture source argumentIndex path attribute type destinations valuePolicy =
     [(''source'', Str source), (''argumentIndex'', Num (Fin (of_int argumentIndex))), (''path'', Str path),
      (''constant'', Num (Fin 1)), (''attribute'', Str attribute), (''type'', Str type),
      (''destinations'', strs destinations), (''valuePolicy'', Obj valuePolicy)]"

definition metric :: jsobj where
  "metric =
     [(''name'', Str ''custom.java.method.events''), (''instrument'', Str ''COUNTER''), (''unit'', Str ''1''),
      (''description'', Str ''Eventos registrados por la policy''),
      (''value'', Obj [(''source'', Str ''CONSTANT''), (''argumentIndex'', Num (Fin (-1))),
         (''path'', Str ''''), (''constant'', Num (Fin 1))]),
      (''buckets'', Arr [])]"

definition log_settings :: "string \<Rightarrow> jsval" where
  "log_settings body = Obj [(''enabled'', Bool False), (''severity'', Str ''INFO''), (''body'', Str body)]"

definition newMethodPolicy :: "nat \<Rightarrow> jsobj" where
  "newMethodPolicy now =
     [(''id'', Str (''method-'' @ nat_str now)), (''enabled'', Bool True), (''packagePrefix'', Str ''''),
      (''className'', Str ''''), (''methodName'', Str ''''), (''captures'', Arr []), (''metrics'', Arr []),
      (''log'', log_settings ''Method policy matched'')]"

definition bodyCondition :: "string \<Rightarrow> string list \<Rightarrow> string \<Rightarrow> string \<Rightarrow> jsobj" where
  "bodyCondition source vs path operator =
     [(''source'', Str source), (''path'', Str path), (''operator'', Str operator), (''values'', strs vs)]"

definition bodyField :: "string \<Rightarrow> string \<Rightarrow> string \<Rightarrow> string \<Rightarrow> string list \<Rightarrow> jsobj" where
  "bodyField source path attribute type destinations =
     [(''source'', Str source), (''path'', Str path), (''attribute'', Str attribute), (''type'', Str type),
      (''destinations'', strs destinations), (''valuePolicy'', Obj (bounded [''VALUE_A'', ''VALUE_B'']))]"

definition derivedField :: jsobj where
  "derivedField =
     [(''attribute'', Str ''''), (''expression'', Str ''''), (''type'', Str ''DOUBLE''),
      (''destinations'', strs [''SPAN'', ''LOG'']), (''valuePolicy'', Obj rangePolicy)]"

definition newBodyEventPolicy :: "nat \<Rightarrow> string \<Rightarrow> string \<Rightarrow> jsobj" where
  "newBodyEventPolicy now direction eventName =
     [(''id'', Str (''http-event-'' @ nat_str now)), (''enabled'', Bool True), (''ruleName'', Str ''Regla HTTP''),
      (''direction'', Str direction), (''requestContentType'', Str ''application/json''),
      (''responseContentType'', Str ''application/json''),
      (''conditions'', Arr [Obj (bodyCondition ''REQUEST_PATH'' [''''] '''' ''EQUALS''),
         Obj (bodyCondition ''REQUEST_METHOD'' [''POST''] '''' ''EQUALS''),
         Obj (bodyCondition ''RESPONSE_STATUS'' [''200'', ''201''] '''' ''IN'')]),
      (''eventName'', Str eventName), (''staticAttributes'', Arr []), (''maxBodyBytes'', Num (Fin 65536)),
      (''fields'', Arr []), (''derivedFields'', Arr []), (''log'', log_settings ''HTTP telemetry event matched'')]"

definition newEventMetric :: "nat \<Rightarrow> string \<Rightarrow> jsobj" where
  "newEventMetric now eventName =
     [(''id'', Str (''event-metric-'' @ nat_str now)), (''enabled'', Bool True), (''eventName'', Str eventName),
      (''name'', Str ''''), (''instrument'', Str ''COUNTER''), (''unit'', Str ''1''), (''description'', Str ''''),
      (''valueField'', Str ''''), (''dimensions'', Arr []), (''standardAttributes'', Arr []), (''buckets'', Arr [])]"

text \<open>A callback that reads or destructures its item, and one whose parameter defaults to \<open>{}\<close>.\<close>

definition on_item :: "(jsobj \<Rightarrow> jsobj option) \<Rightarrow> jsval \<Rightarrow> jsval option" where
  "on_item f item = (if nullish item then None else map_option Obj (f (own_entries item)))"

definition on_default_item :: "(jsobj \<Rightarrow> jsobj option) \<Rightarrow> jsval \<Rightarrow> jsval option" where
  "on_default_item f item =
     (if item = Undef then map_option Obj (f []) else on_item f item)"

definition map_list :: "(jsval \<Rightarrow> jsval option) \<Rightarrow> jsval \<Rightarrow> jsval option" where
  "map_list f v = do { xs \<leftarrow> list_or v; ys \<leftarrow> map_opt f xs; Some (Arr ys) }"

definition normalize_header :: "jsobj \<Rightarrow> jsobj" where
  "normalize_header header =
     obj_put ''direction'' (Str (normalizeHTTPDirection (fld header ''direction''))) (obj_spread [] header)"

definition without_source :: "jsobj \<Rightarrow> jsobj" where
  "without_source m = filter (\<lambda>(k, _). k \<noteq> ''source'') m"

definition normalizePolicy :: "jsval \<Rightarrow> jsobj option" where
  "normalizePolicy v = do {
     requestHeaders \<leftarrow> map_list (on_item (Some \<circ> normalize_header)) (get v ''requestHeaders'');
     responseHeaders \<leftarrow> map_list (on_item (Some \<circ> normalize_header)) (get v ''responseHeaders'');
     metricPolicies \<leftarrow> map_list (on_item (Some \<circ> normalizeHTTPMetricPolicy \<circ> without_source)) (get v ''metricPolicies'');
     bodyEventPolicies \<leftarrow> map_list (on_default_item normalizeHTTPEventPolicy) (get v ''bodyEventPolicies'');
     eventMetricPolicies \<leftarrow> map_list (on_default_item (Some \<circ> normalizeHTTPEventMetric)) (get v ''eventMetricPolicies'');
     messagingEventPolicies \<leftarrow>
       map_list (on_default_item (Some \<circ> normalizeMessagingEventPolicy)) (get v ''messagingEventPolicies'');
     messagingMetricPolicies \<leftarrow>
       map_list (on_default_item (Some \<circ> normalizeMessagingMetric)) (get v ''messagingMetricPolicies'');
     Some (obj_spread (obj_spread emptyPolicy (own_entries v))
       [(''requestHeaders'', requestHeaders), (''responseHeaders'', responseHeaders),
        (''deniedHeaders'', Arr []), (''deniedBodyPaths'', Arr []),
        (''metricPolicies'', metricPolicies), (''methodPolicies'', js_or (get v ''methodPolicies'') (Arr [])),
        (''bodyEventPolicies'', bodyEventPolicies), (''eventMetricPolicies'', eventMetricPolicies),
        (''messagingEventPolicies'', messagingEventPolicies), (''messagingMetricPolicies'', messagingMetricPolicies)]) }"

declare strs_def [js_eval] defaultBuckets_def [js_eval] bounded_def [js_eval]
  range_item_def [js_eval] rangePolicy_def [js_eval] emptyPolicy_def [js_eval]
  capture_def [js_eval] metric_def [js_eval] log_settings_def [js_eval]
  newMethodPolicy_def [js_eval] bodyCondition_def [js_eval] bodyField_def [js_eval]
  derivedField_def [js_eval] newBodyEventPolicy_def [js_eval] newEventMetric_def [js_eval]
  on_item_def [js_eval] on_default_item_def [js_eval] map_list_def [js_eval]
  normalize_header_def [js_eval] without_source_def [js_eval] normalizePolicy_def [js_eval]

subsection \<open>Normal forms are stable\<close>

text \<open>What \<open>{...x, k: v}\<close> holds, and that it is unchanged when its values are.\<close>

lemma map_of_spread_ups:
  "distinct (map fst ups) \<Longrightarrow> (k, v) \<in> set ups \<Longrightarrow> map_of (obj_spread ob ups) k = Some v"
  by (simp add: obj_spread_def map_of_fold_put map_add_def)
    (metis distinct_rev map_of_is_SomeI rev_map set_rev option.simps(5))

lemma fld_spread_ups:
  "distinct (map fst ups) \<Longrightarrow> (k, v) \<in> set ups \<Longrightarrow> fld (obj_spread ob ups) k = v"
  by (simp add: fld_def map_of_spread_ups)

lemma spread_stable:
  assumes "distinct (map fst ups)" "\<forall>k\<in>set (map fst ups). \<not> is_index_key k"
  shows "obj_spread (obj_spread ob ups) ups = obj_spread ob ups"
  using assms by (intro obj_spread_same) (auto intro: map_of_spread_ups)

lemma normalizeHTTPDirection_idem [simp]:
  "normalizeHTTPDirection (Str (normalizeHTTPDirection v)) = normalizeHTTPDirection v"
proof -
  have "js_upper (js_trim ''INCOMING'') = ''INCOMING''" by code_simp
  then show ?thesis by (auto simp: normalizeHTTPDirection_def Let_def)
qed

lemma array_or_empty_idem [simp]: "array_or_empty (array_or_empty v) = array_or_empty v"
  by (simp add: array_or_empty_def)

lemma keys_not_index:
  "list_all (\<lambda>k. \<not> is_index_key k) [''direction'', ''value'', ''standardAttributes'', ''customAttributes'', ''buckets'',
     ''valuePolicy'', ''conditions'', ''staticAttributes'', ''fields'', ''derivedFields'', ''log'', ''dimensions'', ''scope'',
     ''attribute'', ''type'', ''destinations'', ''requestHeaders'', ''responseHeaders'', ''deniedHeaders'',
     ''deniedBodyPaths'', ''metricPolicies'', ''methodPolicies'', ''bodyEventPolicies'', ''eventMetricPolicies'',
     ''messagingEventPolicies'', ''messagingMetricPolicies'', ''schemaVersion'']"
  by code_simp

lemma normal_form_idem:
  assumes "\<And>m. N m = obj_spread m (ups m)" "ups (obj_spread m (ups m)) = ups m"
    and "distinct (map fst (ups m))" "\<forall>k\<in>set (map fst (ups m)). \<not> is_index_key k"
  shows "N (N m) = N m"
  by (simp only: assms(1,2) spread_stable [OF assms(3,4)])

lemma normalizeHTTPEventMetric_idem:
  "normalizeHTTPEventMetric (normalizeHTTPEventMetric m) = normalizeHTTPEventMetric m"
  by (rule normal_form_idem [OF normalizeHTTPEventMetric_def])
    (use keys_not_index in \<open>simp_all add: obj_spread_def fld_obj_put\<close>)

lemma normalizeMessagingMetric_idem:
  "normalizeMessagingMetric (normalizeMessagingMetric m) = normalizeMessagingMetric m"
  by (rule normal_form_idem [OF normalizeMessagingMetric_def])
    (use keys_not_index in \<open>simp_all add: obj_spread_def fld_obj_put\<close>)

text \<open>A property whose entries are spread over defaults: absent, or a plain object.\<close>

definition plain_entries :: "jsval \<Rightarrow> bool" where
  "plain_entries v \<longleftrightarrow> plain_obj (own_entries (js_or v (Obj [])))"

declare plain_entries_def [js_eval]

lemma entries_of_defaults:
  assumes "plain_obj d" "d \<noteq> []" "plain_entries v"
  shows "obj_spread d (own_entries (js_or (Obj (obj_spread d (own_entries (js_or v (Obj []))))) (Obj []))) =
    obj_spread d (own_entries (js_or v (Obj [])))"
  using assms spread_defaults_idem [of d "own_entries (js_or v (Obj []))"]
  by (simp add: js_or_def plain_entries_def plain_obj_def)

text \<open>The scope of a messaging event has a default for a missing value, but not for a blank one.\<close>

definition scope_given :: "jsobj \<Rightarrow> bool" where
  "scope_given e \<longleftrightarrow> js_trim (str_or (fld e ''scope'') ''KAFKA_PRODUCER'') \<noteq> []"

lemma normalizeMessagingEventPolicy_idem:
  assumes "plain_entries (fld e ''log'')" "scope_given e"
  shows "normalizeMessagingEventPolicy (normalizeMessagingEventPolicy e) = normalizeMessagingEventPolicy e"
proof -
  let ?d = "[(''enabled'', Bool False), (''severity'', Str ''INFO''), (''body'', Str ''Messaging rule matched'')]"
  have "plain_obj ?d" by code_simp
  note l = entries_of_defaults [OF this _ assms(1)]
  have "js_upper (js_trim (str_or (fld e ''scope'') ''KAFKA_PRODUCER'')) \<noteq> []"
    using assms(2) js_trim_ends js_upper_ends(1) unfolding scope_given_def by blast
  then show ?thesis
    by (intro normal_form_idem [OF normalizeMessagingEventPolicy_def])
      (use keys_not_index l in \<open>simp_all add: obj_spread_def fld_obj_put\<close>)
qed

text \<open>HTTP metrics: the value and the value policies are completed with defaults.\<close>

definition plain_attribute :: "jsval \<Rightarrow> bool" where
  "plain_attribute a \<longleftrightarrow> (case a of Obj ob \<Rightarrow> plain_obj ob \<and> plain_entries (fld ob ''valuePolicy'') | _ \<Rightarrow> False)"

declare scope_given_def [js_eval] plain_attribute_def [js_eval]

lemma normalize_custom_attribute_idem:
  assumes "plain_attribute a"
  shows "normalize_custom_attribute (normalize_custom_attribute a) = normalize_custom_attribute a"
proof -
  obtain ob where ob: "a = Obj ob" "plain_obj ob" "plain_entries (fld ob ''valuePolicy'')"
    using assms by (auto simp: plain_attribute_def split: jsval.splits)
  let ?d = "[(''source'', Str ''REQUEST_HEADER''), (''argumentIndex'', Num (Fin (-1))), (''path'', Str ''''),
     (''constant'', Num (Fin 1)), (''header'', Str ''''), (''attribute'', Str ''''), (''destinations'', Arr [])]"
  let ?V = "Obj (obj_spread value_policy_defaults (own_entries (js_or (fld ob ''valuePolicy'') (Obj []))))"
  have d: "plain_obj ?d" "plain_obj value_policy_defaults" "value_policy_defaults \<noteq> []" by code_simp+
  have n: "normalize_custom_attribute a = Obj (obj_put ''valuePolicy'' ?V (obj_spread ?d ob))"
    by (simp add: normalize_custom_attribute_def ob(1))
  have s: "obj_put ''valuePolicy'' ?V (obj_spread ?d ob) = obj_spread ?d (ob @ [(''valuePolicy'', ?V)])"
    by (simp add: obj_spread_def)
  have "obj_spread ?d (obj_put ''valuePolicy'' ?V (obj_spread ?d ob)) = obj_put ''valuePolicy'' ?V (obj_spread ?d ob)"
    unfolding s using keys_not_index ob(2) by (intro spread_defaults_idem d) (auto simp: plain_obj_def)
  moreover have "map_of (obj_put ''valuePolicy'' ?V (obj_spread ?d ob)) ''valuePolicy'' = Some ?V" by simp
  ultimately show ?thesis
    unfolding n using keys_not_index
    by (simp add: normalize_custom_attribute_def fld_obj_put entries_of_defaults [OF d(2,3) ob(3)] obj_put_same)
qed

definition plain_metric :: "jsobj \<Rightarrow> bool" where
  "plain_metric m \<longleftrightarrow> plain_entries (fld m ''value'') \<and> (\<forall>a\<in>set (array (fld m ''customAttributes'')). plain_attribute a)"

declare plain_metric_def [js_eval]

lemma normalizeHTTPMetricPolicy_idem:
  assumes "plain_metric m"
  shows "normalizeHTTPMetricPolicy (normalizeHTTPMetricPolicy m) = normalizeHTTPMetricPolicy m"
proof -
  have d: "plain_obj duration_value" "duration_value \<noteq> []" by code_simp+
  have "plain_entries (fld m ''value'')" using assms by (simp add: plain_metric_def)
  note v = entries_of_defaults [OF d this]
  have "map normalize_custom_attribute (map normalize_custom_attribute (array (fld m ''customAttributes''))) =
      map normalize_custom_attribute (array (fld m ''customAttributes''))"
    using assms by (simp add: plain_metric_def normalize_custom_attribute_idem)
  then show ?thesis
    by (intro normal_form_idem [OF normalizeHTTPMetricPolicy_def])
      (use keys_not_index v in \<open>simp_all add: obj_spread_def fld_obj_put\<close>)
qed

text \<open>HTTP events.\<close>

lemma http_event_shape_stable:
  assumes "plain_entries (fld e ''log'')"
  shows "http_event_shape (obj_put ''staticAttributes'' (Arr w) (http_event_shape e)) =
    obj_put ''staticAttributes'' (Arr w) (http_event_shape e)"
proof -
  let ?d = "[(''enabled'', Bool False), (''severity'', Str ''INFO''), (''body'', Str ''HTTP rule matched'')]"
  have "plain_obj ?d" by code_simp
  note l = entries_of_defaults [OF this _ assms]
  let ?q = "obj_put ''staticAttributes'' (Arr w) (http_event_shape e)"
  have r: "fld ?q ''direction'' = Str (normalizeHTTPDirection (fld e ''direction''))"
    "fld ?q ''conditions'' = array_or_empty (fld e ''conditions'')" "fld ?q ''staticAttributes'' = Arr w"
    "fld ?q ''fields'' = array_or_empty (fld e ''fields'')"
    "fld ?q ''derivedFields'' = array_or_empty (fld e ''derivedFields'')"
    "fld ?q ''log'' = Obj (obj_spread ?d (own_entries (js_or (fld e ''log'') (Obj []))))"
    by (simp_all add: http_event_shape_def obj_spread_def fld_obj_put)
  have m: "map_of ?q ''direction'' = Some (Str (normalizeHTTPDirection (fld e ''direction'')))"
    "map_of ?q ''conditions'' = Some (array_or_empty (fld e ''conditions''))" "map_of ?q ''staticAttributes'' = Some (Arr w)"
    "map_of ?q ''fields'' = Some (array_or_empty (fld e ''fields''))"
    "map_of ?q ''derivedFields'' = Some (array_or_empty (fld e ''derivedFields''))"
    "map_of ?q ''log'' = Some (Obj (obj_spread ?d (own_entries (js_or (fld e ''log'') (Obj [])))))"
    by (simp_all add: http_event_shape_def obj_spread_def)
  have a: "array_or_empty (Arr w) = Arr w" by (simp add: array_or_empty_def)
  show ?thesis
    unfolding http_event_shape_def [of ?q] r normalizeHTTPDirection_idem array_or_empty_idem a
      using l keys_not_index m by (intro obj_spread_same) simp
qed

lemma event_name_keys:
  "distinct (map fst (event_name_fields v ds))"
  "\<forall>k\<in>set (map fst (event_name_fields v ds)). \<not> is_index_key k"
  using keys_not_index by (simp_all add: event_name_fields_def)

lemma with_event_name_stable:
  "with_event_name v ds False (with_event_name v ds False as) = with_event_name v ds False as"
proof (induction as)
  case Nil
  have "\<forall>(k, u)\<in>set (event_name_fields v ds). \<not> is_index_key k \<and> map_of (event_name_fields v ds) k = Some u"
    using event_name_keys [of v ds] by (auto intro: map_of_is_SomeI)
  then have "obj_spread (event_name_fields v ds) (event_name_fields v ds) = event_name_fields v ds"
    by (rule obj_spread_same)
  then show ?case by simp
next
  case (Cons a as)
  have "obj_spread (obj_spread ob (event_name_fields v ds)) (event_name_fields v ds) =
      obj_spread ob (event_name_fields v ds)" for ob
    by (rule spread_stable [OF event_name_keys])
  moreover have "with_event_name v ds True (with_event_name v ds True as) = with_event_name v ds True as"
    by (simp add: with_event_name_replaced)
  ultimately show ?case
    using Cons by (cases "v = []") (auto simp: with_no_event_name)
qed

lemma normalizeHTTPEventPolicy_idem:
  assumes "plain_entries (fld e ''log'')" and n: "normalizeHTTPEventPolicy e = Some q"
  shows "normalizeHTTPEventPolicy q = Some q"
proof -
  let ?S = "http_event_shape e"
  have sA: "fld ?S ''staticAttributes'' = array_or_empty (fld e ''staticAttributes'')"
    by (simp add: http_event_shape_def obj_spread_def fld_obj_put)
  then have readable: "readable_list (fld ?S ''staticAttributes'')" by (simp add: array_or_empty_def)
  obtain out :: name_output where w: "withEventNameOutput ?S (no_value out) (no_destinations out) = Some q"
    using n by (auto simp: normalizeHTTPEventPolicy_def Let_def bind_eq_Some_conv)
  let ?v = "no_value out" and ?ds = "span_or_log (no_destinations out)"
  let ?w = "with_event_name ?v ?ds False (array (fld ?S ''staticAttributes''))"
  have q: "q = obj_put ''staticAttributes'' (Arr ?w) ?S"
    using w readable by (simp add: withEventNameOutput_def)
  have shape: "http_event_shape q = q" unfolding q by (rule http_event_shape_stable [OF assms(1)])
  have "withEventNameOutput q ?v ?ds = Some q"
    using with_event_name_stable [of ?v ?ds] keys_not_index eventNameOutput_result(2) [OF readable w]
    by (simp add: withEventNameOutput_def items_or_def js_or_def) (simp add: q obj_put_same)
  moreover have "withEventNameOutput q [] [] = Some q" if "?v = []"
    using that with_event_name_stable [of ?v ?ds] keys_not_index eventNameOutput_result(2) [OF readable w]
    by (simp add: withEventNameOutput_def items_or_def js_or_def with_no_event_name)
      (simp add: q obj_put_same with_no_event_name)
  ultimately show ?thesis
    using eventNameOutput_result(1) [OF readable w]
    by (cases "?v = []") (simp_all add: normalizeHTTPEventPolicy_def shape)
qed

subsection \<open>Loading a document twice\<close>

lemma normalize_header_idem: "plain_obj h \<Longrightarrow> normalize_header (normalize_header h) = normalize_header h"
proof -
  assume h: "plain_obj h"
  have k: "\<not> is_index_key ''direction''" using keys_not_index by simp
  then have p: "plain_obj (normalize_header h)" using h by (simp add: normalize_header_def spread_Nil_plain)
  then have "normalize_header (normalize_header h) =
      obj_put ''direction'' (Str (normalizeHTTPDirection (fld (normalize_header h) ''direction''))) (normalize_header h)"
    by (simp add: normalize_header_def [of "normalize_header h"] spread_Nil_plain)
  also have "\<dots> = normalize_header h"
    using k by (intro obj_put_same) (simp_all add: normalize_header_def fld_obj_put)
  finally show ?thesis .
qed

lemma without_source_metric:
  "without_source (normalizeHTTPMetricPolicy (without_source m)) = normalizeHTTPMetricPolicy (without_source m)"
proof -
  have keys: "set (map fst (obj_spread ob ups)) = set (map fst ob) \<union> set (map fst ups)" for ob ups
    unfolding obj_spread_def by (induction ups arbitrary: ob) (auto simp: keys_obj_put simp del: set_map)
  have "''source'' \<notin> set (map fst (without_source m))" by (auto simp: without_source_def)
  then have "''source'' \<notin> set (map fst (normalizeHTTPMetricPolicy (without_source m)))"
    unfolding normalizeHTTPMetricPolicy_def keys by simp
  then show ?thesis unfolding without_source_def [of "normalizeHTTPMetricPolicy _"] by (force intro!: filter_True)
qed

lemma map_list_stable:
  assumes "map_list f v = Some r" "\<And>x y. x \<in> set (array v) \<Longrightarrow> f x = Some y \<Longrightarrow> f y = Some y"
  shows "map_list f r = Some r"
proof -
  obtain xs ys where xs: "list_or v = Some xs" "map_opt f xs = Some ys" "r = Arr ys"
    using assms(1) by (auto simp: map_list_def bind_eq_Some_conv)
  have "xs = array v" using xs(1)
    by (cases v) (auto simp: list_or_def js_or_def split: if_splits)
  have "f y = Some y" if y: "y \<in> set ys" for y
  proof -
    obtain x where "x \<in> set xs" "f x = Some y" using map_opt_set [OF xs(2)] y by blast
    then show ?thesis using assms(2) \<open>xs = array v\<close> by blast
  qed
  then have "map_opt f ys = Some (map id ys)" by (intro map_opt_total) simp
  then show ?thesis by (simp add: map_list_def xs(3))
qed

lemma on_item_stable:
  assumes "on_item f x = Some y" "\<And>q. f (own_entries x) = Some q \<Longrightarrow> f q = Some q"
  shows "on_item f y = Some y"
  using assms by (auto simp: on_item_def nullish_def split: if_splits)

lemma on_default_item_stable:
  assumes "on_default_item f x = Some y" "\<And>q. f (own_entries x) = Some q \<Longrightarrow> f q = Some q"
  shows "on_default_item f y = Some y"
  using assms by (auto simp: on_default_item_def on_item_def nullish_def split: if_splits)

text \<open>
  The documents the editor is meant for: the headers, metrics and events have distinct property
  names that are not numbers, and each messaging event has no scope or one that is not blank.
\<close>

definition editor_document :: "jsobj \<Rightarrow> bool" where
  "editor_document policy \<longleftrightarrow> plain_obj policy \<and>
     (\<forall>h\<in>set (array (fld policy ''requestHeaders'') @ array (fld policy ''responseHeaders'')). plain_obj (own_entries h)) \<and>
     (\<forall>m\<in>set (array (fld policy ''metricPolicies'')). plain_metric (without_source (own_entries m))) \<and>
     (\<forall>e\<in>set (array (fld policy ''bodyEventPolicies'')). plain_entries (fld (own_entries e) ''log'')) \<and>
     (\<forall>e\<in>set (array (fld policy ''messagingEventPolicies'')).
        plain_entries (fld (own_entries e) ''log'') \<and> scope_given (own_entries e))"

declare editor_document_def [js_eval]

lemma normalized_lists_are_stable:
  assumes "editor_document policy"
    and l: "map_list (on_item (Some \<circ> normalize_header)) (fld policy ''requestHeaders'') = Some rh"
      "map_list (on_item (Some \<circ> normalize_header)) (fld policy ''responseHeaders'') = Some sh"
      "map_list (on_item (Some \<circ> normalizeHTTPMetricPolicy \<circ> without_source)) (fld policy ''metricPolicies'') = Some m"
      "map_list (on_default_item normalizeHTTPEventPolicy) (fld policy ''bodyEventPolicies'') = Some be"
      "map_list (on_default_item (Some \<circ> normalizeHTTPEventMetric)) (fld policy ''eventMetricPolicies'') = Some em"
      "map_list (on_default_item (Some \<circ> normalizeMessagingEventPolicy)) (fld policy ''messagingEventPolicies'') = Some me"
      "map_list (on_default_item (Some \<circ> normalizeMessagingMetric)) (fld policy ''messagingMetricPolicies'') = Some mm"
  shows "map_list (on_item (Some \<circ> normalize_header)) rh = Some rh"
    "map_list (on_item (Some \<circ> normalize_header)) sh = Some sh"
    "map_list (on_item (Some \<circ> normalizeHTTPMetricPolicy \<circ> without_source)) m = Some m"
    "map_list (on_default_item normalizeHTTPEventPolicy) be = Some be"
    "map_list (on_default_item (Some \<circ> normalizeHTTPEventMetric)) em = Some em"
    "map_list (on_default_item (Some \<circ> normalizeMessagingEventPolicy)) me = Some me"
    "map_list (on_default_item (Some \<circ> normalizeMessagingMetric)) mm = Some mm"
proof -
  note d = assms(1) [unfolded editor_document_def]
  show "map_list (on_item (Some \<circ> normalize_header)) rh = Some rh"
    using l(1) by (rule map_list_stable) (elim on_item_stable, use d in \<open>auto simp: normalize_header_idem\<close>)
  show "map_list (on_item (Some \<circ> normalize_header)) sh = Some sh"
    using l(2) by (rule map_list_stable) (elim on_item_stable, use d in \<open>auto simp: normalize_header_idem\<close>)
  show "map_list (on_item (Some \<circ> normalizeHTTPMetricPolicy \<circ> without_source)) m = Some m"
    using l(3) by (rule map_list_stable) (elim on_item_stable,
      use d in \<open>auto simp: without_source_metric normalizeHTTPMetricPolicy_idem\<close>)
  show "map_list (on_default_item normalizeHTTPEventPolicy) be = Some be"
    using l(4) by (rule map_list_stable) (elim on_default_item_stable, use d in \<open>auto intro: normalizeHTTPEventPolicy_idem\<close>)
  show "map_list (on_default_item (Some \<circ> normalizeHTTPEventMetric)) em = Some em"
    using l(5) by (rule map_list_stable) (elim on_default_item_stable, auto simp: normalizeHTTPEventMetric_idem)
  show "map_list (on_default_item (Some \<circ> normalizeMessagingEventPolicy)) me = Some me"
    using l(6) by (rule map_list_stable) (elim on_default_item_stable,
      use d in \<open>auto simp: normalizeMessagingEventPolicy_idem\<close>)
  show "map_list (on_default_item (Some \<circ> normalizeMessagingMetric)) mm = Some mm"
    using l(7) by (rule map_list_stable) (elim on_default_item_stable, auto simp: normalizeMessagingMetric_idem)
qed

text \<open>a document that was loaded and normalised is unchanged by loading it again: normalisation
  is idempotent on every document the editor is meant for.\<close>

theorem normalizePolicy_is_idempotent:
  assumes "editor_document policy" and "normalizePolicy (Obj policy) = Some loaded"
  shows "normalizePolicy (Obj loaded) = Some loaded"
proof -
  let ?g = "\<lambda>k. fld policy k"
  obtain rh sh m be em me mm where
    l: "map_list (on_item (Some \<circ> normalize_header)) (?g ''requestHeaders'') = Some rh"
      "map_list (on_item (Some \<circ> normalize_header)) (?g ''responseHeaders'') = Some sh"
      "map_list (on_item (Some \<circ> normalizeHTTPMetricPolicy \<circ> without_source)) (?g ''metricPolicies'') = Some m"
      "map_list (on_default_item normalizeHTTPEventPolicy) (?g ''bodyEventPolicies'') = Some be"
      "map_list (on_default_item (Some \<circ> normalizeHTTPEventMetric)) (?g ''eventMetricPolicies'') = Some em"
      "map_list (on_default_item (Some \<circ> normalizeMessagingEventPolicy)) (?g ''messagingEventPolicies'') = Some me"
      "map_list (on_default_item (Some \<circ> normalizeMessagingMetric)) (?g ''messagingMetricPolicies'') = Some mm"
    and q0: "loaded = obj_spread (obj_spread emptyPolicy policy)
       [(''requestHeaders'', rh), (''responseHeaders'', sh), (''deniedHeaders'', Arr []), (''deniedBodyPaths'', Arr []),
        (''metricPolicies'', m), (''methodPolicies'', js_or (?g ''methodPolicies'') (Arr [])),
        (''bodyEventPolicies'', be), (''eventMetricPolicies'', em),
        (''messagingEventPolicies'', me), (''messagingMetricPolicies'', mm)]"
    using assms(2) unfolding normalizePolicy_def by (auto simp: bind_eq_Some_conv)
  let ?ups = "[(''requestHeaders'', rh), (''responseHeaders'', sh), (''deniedHeaders'', Arr []), (''deniedBodyPaths'', Arr []),
        (''metricPolicies'', m), (''methodPolicies'', js_or (?g ''methodPolicies'') (Arr [])),
        (''bodyEventPolicies'', be), (''eventMetricPolicies'', em),
        (''messagingEventPolicies'', me), (''messagingMetricPolicies'', mm)]"
  have keys: "distinct (map fst ?ups)" "\<forall>k\<in>set (map fst ?ups). \<not> is_index_key k"
    using keys_not_index by simp_all
  have L: "fld loaded k = v" if "(k, v) \<in> set ?ups" for k v
    unfolding q0 by (rule fld_spread_ups [OF keys(1) that])
  note d = assms(1) [unfolded editor_document_def]
  note s = normalized_lists_are_stable [OF assms(1) l]
  have "plain_obj emptyPolicy" by code_simp
  then have "obj_spread emptyPolicy (obj_spread emptyPolicy (policy @ ?ups)) = obj_spread emptyPolicy (policy @ ?ups)"
    using keys(2) d by (intro spread_defaults_idem) (auto simp: plain_obj_def)
  then have empty: "obj_spread emptyPolicy loaded = loaded"
    unfolding q0 obj_spread_append .
  have same: "obj_spread loaded ?ups = loaded"
    unfolding q0 by (rule spread_stable [OF keys])
  have methods: "js_or (js_or (?g ''methodPolicies'') (Arr [])) (Arr []) = js_or (?g ''methodPolicies'') (Arr [])"
    by (simp add: js_or_def)
  have "fld loaded ''requestHeaders'' = rh" "fld loaded ''responseHeaders'' = sh" "fld loaded ''metricPolicies'' = m"
    "fld loaded ''bodyEventPolicies'' = be" "fld loaded ''eventMetricPolicies'' = em"
    "fld loaded ''messagingEventPolicies'' = me" "fld loaded ''messagingMetricPolicies'' = mm"
    "fld loaded ''methodPolicies'' = js_or (?g ''methodPolicies'') (Arr [])"
    by (rule L, simp)+
  then show ?thesis
    unfolding normalizePolicy_def get.simps own_entries.simps by (simp only: s bind.bind_lunit empty methods same)
qed

theorem normalizePolicy_is_idempotent_witness:
  "\<exists>loaded. normalizePolicy (Obj [(''requestHeaders'', Arr [Obj [(''direction'', Str '' outgoing'')]]),
       (''bodyEventPolicies'', Arr [Obj []])]) = Some loaded \<and> normalizePolicy (Obj loaded) = Some loaded"
proof -
  let ?p = "[(''requestHeaders'', Arr [Obj [(''direction'', Str '' outgoing'')]]), (''bodyEventPolicies'', Arr [Obj []])]"
  have d: "editor_document ?p" by code_simp
  have "\<not> Option.is_none (normalizePolicy (Obj ?p))" by code_simp
  then obtain loaded where l: "normalizePolicy (Obj ?p) = Some loaded"
    by (cases "normalizePolicy (Obj ?p)") auto
  show ?thesis using l normalizePolicy_is_idempotent [OF d l] by blast
qed

text \<open>a messaging event whose scope is blank is given an empty scope by one normalisation and the
  default scope by the next, so that loading it twice differs from loading it once; a missing
  scope and a blank HTTP direction get their default at once.\<close>

theorem blank_scope_is_not_defaulted:
  "fld (normalizeMessagingEventPolicy [(''scope'', Str '' '')]) ''scope'' = Str '''' \<and>
   fld (normalizeMessagingEventPolicy (normalizeMessagingEventPolicy [(''scope'', Str '' '')])) ''scope'' = Str ''KAFKA_PRODUCER'' \<and>
   fld (normalizeMessagingEventPolicy []) ''scope'' = Str ''KAFKA_PRODUCER'' \<and>
   normalizeHTTPDirection (Str '' '') = ''INCOMING''"
  by code_simp

end
