(* ===== verification/Capture_Security.thy ===== *)
theory Capture_Security
  imports Messaging
begin

section \<open>The capture denylist and the wire contract (\<open>ui/src/capture-security.js\<close>)\<close>

text \<open>
  A policy captures headers, body paths, query and path parameters, message properties and method
  values. \<open>captures_of\<close> lists what it captures in the order of the loops of
  \<open>policyCaptureDenyViolations\<close>; a capture that an entry of the denylist covers is a violation.
  The owner of a violation is compared by value (the identifiers and names of a policy are strings).
  A missing element of a list raises (\<open>None\<close>). The wire contract lists what the agents reject.
\<close>

definition normalizeHeaderName :: "jsval \<Rightarrow> string" where
  "normalizeHeaderName v = js_lower (js_trim (str_or v ''''))"

text \<open>\<open>.replace(/^\$\.?/, "")\<close>.\<close>

definition strip_root :: "string \<Rightarrow> string" where
  "strip_root s =
     (case s of
        d # rest \<Rightarrow> if d = CHR ''$'' then (case rest of p # r \<Rightarrow> if p = CHR ''.'' then r else rest | [] \<Rightarrow> []) else s
      | [] \<Rightarrow> [])"

definition normalizeBodyPath :: "jsval \<Rightarrow> string" where
  "normalizeBodyPath v = strip_root (js_trim (str_or v ''''))"

definition pathsOverlap :: "string \<Rightarrow> string \<Rightarrow> bool" where
  "pathsOverlap captured blocked \<longleftrightarrow>
     captured = blocked \<or> captured = '''' \<or> blocked = '''' \<or>
     starts_with captured (blocked @ ''.'') \<or> starts_with captured (blocked @ ''['') \<or>
     starts_with blocked (captured @ ''.'') \<or> starts_with blocked (captured @ ''['')"

definition canonical_capture :: "string \<Rightarrow> jsval \<Rightarrow> string" where
  "canonical_capture kind v =
     (if kind = ''HEADER'' then normalizeHeaderName v
      else if kind = ''BODY_PATH'' then normalizeBodyPath v
      else js_trim (str_or v ''''))"

text \<open>The list \<open>denied[kind]\<close>.\<close>

definition denied_values :: "jsobj list \<Rightarrow> string \<Rightarrow> string list" where
  "denied_values entries kind =
     map (\<lambda>entry. canonical_capture kind (fld entry ''Value''))
       (filter (\<lambda>entry. fld entry ''Kind'' = Str kind) entries)"

definition blocks :: "string \<Rightarrow> string \<Rightarrow> string \<Rightarrow> bool" where
  "blocks kind canonical blocked =
     (if kind \<in> {''HEADER'', ''QUERY_PARAM'', ''PATH_PARAM'', ''MESSAGE_PROPERTY''} then canonical = blocked
      else pathsOverlap canonical blocked)"

record captured =
  ca_kind :: string
  ca_value :: jsval
  ca_owner :: jsval

record violation =
  vi_kind :: string
  vi_value :: string
  vi_owner :: jsval

definition capture_at :: "string \<Rightarrow> jsval \<Rightarrow> jsval \<Rightarrow> captured" where
  "capture_at kind v owner = \<lparr>ca_kind = kind, ca_value = v, ca_owner = owner\<rparr>"

definition violation_of :: "jsobj list \<Rightarrow> captured \<Rightarrow> violation list" where
  "violation_of entries c =
     (let canonical = canonical_capture (ca_kind c) (ca_value c) in
      if \<exists>b\<in>set (denied_values entries (ca_kind c)). blocks (ca_kind c) canonical b
      then [\<lparr>vi_kind = ca_kind c, vi_value = (if canonical = [] then ''<root>'' else canonical), vi_owner = ca_owner c\<rparr>]
      else [])"

definition owner_of :: "jsval \<Rightarrow> string \<Rightarrow> string \<Rightarrow> jsval" where
  "owner_of item name fallback = js_or (js_or (get item ''id'') (get item name)) (Str fallback)"

definition header_captures :: "jsobj \<Rightarrow> string \<Rightarrow> captured list option" where
  "header_captures policy list_name =
     map_opt (\<lambda>header. do { name \<leftarrow> getx header ''name''; Some (capture_at ''HEADER'' name (Str list_name)) })
       (array (fld policy list_name))"

text \<open>\<open>if (item.enabled === false) continue;\<close> around the body of a loop.\<close>

definition unless_disabled :: "(jsval \<Rightarrow> 'a list option) \<Rightarrow> jsval \<Rightarrow> 'a list option" where
  "unless_disabled body item = do {
     enabled \<leftarrow> getx item ''enabled'';
     if enabled = Bool False then Some [] else body item }"

definition metric_captures :: "jsval \<Rightarrow> captured list option" where
  "metric_captures metric =
     map_opt (\<lambda>attribute. do {
         header \<leftarrow> getx attribute ''header'';
         Some (capture_at ''HEADER'' header (owner_of metric ''name'' ''httpMetric'')) })
       (array (get metric ''customAttributes''))"

definition http_selector_captures :: "jsval \<Rightarrow> string \<Rightarrow> jsval \<Rightarrow> captured list option" where
  "http_selector_captures event bodyOwner item = do {
     source \<leftarrow> getx item ''source'';
     Some (if source \<in> {Str ''REQUEST_BODY'', Str ''RESPONSE_BODY''}
           then [capture_at ''BODY_PATH'' (get item ''path'') (owner_of event ''eventName'' bodyOwner)]
           else if source \<in> {Str ''REQUEST_HEADER'', Str ''RESPONSE_HEADER''}
           then [capture_at ''HEADER'' (get item ''path'') (owner_of event ''eventName'' ''httpEvent'')]
           else if source = Str ''REQUEST_QUERY''
           then [capture_at ''QUERY_PARAM'' (get item ''path'') (owner_of event ''eventName'' ''httpEvent'')]
           else if source = Str ''REQUEST_PATH_PARAM''
           then [capture_at ''PATH_PARAM'' (get item ''path'') (owner_of event ''eventName'' ''httpEvent'')]
           else []) }"

definition http_event_captures :: "jsval \<Rightarrow> captured list option" where
  "http_event_captures event = do {
     conditions \<leftarrow> flat_map_opt (http_selector_captures event ''bodyEvent'') (array (get event ''conditions''));
     fields \<leftarrow> flat_map_opt (http_selector_captures event ''httpEvent'') (array (get event ''fields''));
     Some (conditions @ fields) }"

definition messaging_captures :: "jsval \<Rightarrow> captured list option" where
  "messaging_captures event =
     flat_map_opt (\<lambda>selector. do {
         source \<leftarrow> getx selector ''source'';
         let owner = owner_of event ''eventName'' ''messagingEvent'' in
         Some (if source = Str ''MESSAGE_HEADER'' then [capture_at ''HEADER'' (get selector ''path'') owner]
               else if source = Str ''MESSAGE_PROPERTY'' then [capture_at ''MESSAGE_PROPERTY'' (get selector ''path'') owner]
               else if source = Str ''PAYLOAD'' then [capture_at ''BODY_PATH'' (get selector ''path'') owner]
               else []) })
       (array (get event ''conditions'') @ array (get event ''fields''))"

definition method_captures :: "jsval \<Rightarrow> captured list option" where
  "method_captures method =
     (let owner = owner_of method ''methodName'' ''method'';
          from = (\<lambda>source path. if source \<in> {Str ''ARGUMENT'', Str ''RETURN''}
                                then [capture_at ''METHOD_PATH'' path owner] else []) in do {
        captures \<leftarrow> flat_map_opt (\<lambda>c. do { source \<leftarrow> getx c ''source''; Some (from source (get c ''path'')) })
          (array (get method ''captures''));
        metrics \<leftarrow> flat_map_opt (\<lambda>m. do { v \<leftarrow> getx m ''value''; Some (from (get v ''source'') (get v ''path'')) })
          (array (get method ''metrics''));
        Some (captures @ metrics) })"

definition captures_of :: "jsobj \<Rightarrow> captured list option" where
  "captures_of policy = do {
     requests \<leftarrow> header_captures policy ''requestHeaders'';
     responses \<leftarrow> header_captures policy ''responseHeaders'';
     metrics \<leftarrow> flat_map_opt (unless_disabled metric_captures) (array (fld policy ''metricPolicies''));
     events \<leftarrow> flat_map_opt (unless_disabled http_event_captures) (array (fld policy ''bodyEventPolicies''));
     messaging \<leftarrow> flat_map_opt (unless_disabled messaging_captures) (array (fld policy ''messagingEventPolicies''));
     methods \<leftarrow> flat_map_opt (unless_disabled method_captures) (array (fld policy ''methodPolicies''));
     Some (requests @ responses @ metrics @ events @ messaging @ methods) }"

definition policyCaptureDenyViolations :: "jsobj \<Rightarrow> jsobj list \<Rightarrow> violation list option" where
  "policyCaptureDenyViolations policy entries = do {
     captures \<leftarrow> captures_of policy;
     Some (nub (concat (map (violation_of entries) captures))) }"

subsection \<open>The wire contract\<close>

definition has_field :: "jsval \<Rightarrow> string \<Rightarrow> bool" where
  "has_field v k \<longleftrightarrow> is_object v \<and> has_own (own_entries v) k"

fun is_bool :: "jsval \<Rightarrow> bool" where
  "is_bool (Bool _) = True"
| "is_bool _ = False"

definition valueSourceContractErrors :: "jsval \<Rightarrow> string \<Rightarrow> string list" where
  "valueSourceContractErrors v owner =
     (if \<not> is_object v then []
      else if get v ''source'' = Str ''ARGUMENT'' \<and> \<not> has_field v ''argumentIndex''
      then [owner @ (('' requiere argumentIndex expl'' @ [CHR 0xED] @ ''cito para source=ARGUMENT.''))]
      else if get v ''source'' = Str ''CONSTANT'' \<and> \<not> has_field v ''constant''
      then [owner @ (('' requiere constant expl'' @ [CHR 0xED] @ ''cito para source=CONSTANT.''))]
      else [])"

definition sends_to_span :: "jsval \<Rightarrow> bool" where
  "sends_to_span attribute \<longleftrightarrow> Str ''SPAN'' \<in> set (array (get attribute ''destinations''))"

text \<open>The two output tests differ in the lists of attributes and in the list of metrics.\<close>

definition has_output :: "string list \<Rightarrow> string \<Rightarrow> jsobj \<Rightarrow> jsval \<Rightarrow> bool" where
  "has_output attribute_lists metric_list policy event0 =
     (let event = (if event0 = Undef then Obj [] else event0);
          eventName = str_or (get event ''eventName'') '''' in
      if \<not> is_object event \<or> is_array event then False
      else if get event ''enabled'' = Bool False then True
      else if truthy (get (get event ''log'') ''enabled'') then True
      else if \<exists>attribute\<in>set (concat (map (\<lambda>k. array (get event k)) attribute_lists)). sends_to_span attribute then True
      else eventName \<noteq> [] \<and>
           (\<exists>metric\<in>set (array (fld policy metric_list)).
              get metric ''enabled'' = Bool True \<and> get metric ''eventName'' = Str eventName))"

definition httpEventHasOutput :: "jsobj \<Rightarrow> jsval \<Rightarrow> bool" where
  "httpEventHasOutput policy event =
     has_output [''staticAttributes'', ''fields'', ''derivedFields''] ''eventMetricPolicies'' policy event"

definition messagingEventHasOutput :: "jsobj \<Rightarrow> jsval \<Rightarrow> bool" where
  "messagingEventHasOutput policy event =
     has_output [''staticAttributes'', ''fields''] ''messagingMetricPolicies'' policy event"

definition policyCollections :: "string list" where
  "policyCollections =
     [''metricPolicies'', ''methodPolicies'', ''bodyEventPolicies'', ''eventMetricPolicies'',
      ''messagingEventPolicies'', ''messagingMetricPolicies'']"

definition indexed :: "string \<Rightarrow> nat \<Rightarrow> string" where
  "indexed name i = name @ ''['' @ nat_str i @ '']''"

text \<open>\<open>for (const [index, item] of xs.entries()) errors.push(...f(index, item))\<close>.\<close>

definition each_entry :: "(nat \<Rightarrow> jsval \<Rightarrow> string list) \<Rightarrow> jsval \<Rightarrow> string list" where
  "each_entry f v = concat (map (\<lambda>(i, item). f i item) (enumerate 0 (array v)))"

definition collection_errors :: "jsobj \<Rightarrow> string \<Rightarrow> string list" where
  "collection_errors policy collection =
     (let items = fld policy collection in
      if items \<noteq> Undef \<and> \<not> is_array items then [collection @ '' debe ser un arreglo.'']
      else each_entry (\<lambda>i item.
             if \<not> has_field item ''enabled'' \<or> \<not> is_bool (get item ''enabled'')
             then [indexed collection i @ (('' requiere enabled boolean expl'' @ [CHR 0xED] @ ''cito.''))] else []) items)"

definition method_contract_errors :: "nat \<Rightarrow> jsval \<Rightarrow> string list" where
  "method_contract_errors methodIndex method =
     each_entry (\<lambda>i capture. valueSourceContractErrors capture
         (indexed ''methodPolicies'' methodIndex @ indexed ''.captures'' i)) (get method ''captures'') @
     each_entry (\<lambda>i metric. valueSourceContractErrors (get metric ''value'')
         (indexed ''methodPolicies'' methodIndex @ indexed ''.metrics'' i @ ''.value'')) (get method ''metrics'')"

definition no_output_error :: "string \<Rightarrow> nat \<Rightarrow> string" where
  "no_output_error collection i = indexed collection i @ '' no tiene una salida efectiva: '' @
     ((''a'' @ [CHR 0xF1] @ ''ade un atributo al span, habilita el log o crea una m'' @ [CHR 0xE9] @ ''trica para el evento.''))"

definition policyWireContractErrors :: "jsval \<Rightarrow> string list" where
  "policyWireContractErrors policy =
     (case policy of
        Obj p \<Rightarrow>
          concat (map (collection_errors p) policyCollections) @
          each_entry (\<lambda>i metric. valueSourceContractErrors (get metric ''value'')
              (indexed ''metricPolicies'' i @ ''.value'')) (fld p ''metricPolicies'') @
          each_entry method_contract_errors (fld p ''methodPolicies'') @
          map (\<lambda>eventName. ((''eventName debe ser '' @ [CHR 0xFA] @ ''nico entre bodyEventPolicies y messagingEventPolicies; duplicado: '')) @
              eventName @ ''.'') (duplicateTelemetryEventNames p) @
          each_entry (\<lambda>i event. if httpEventHasOutput p event then [] else [no_output_error ''bodyEventPolicies'' i])
            (fld p ''bodyEventPolicies'') @
          each_entry (\<lambda>i event. if messagingEventHasOutput p event then [] else [no_output_error ''messagingEventPolicies'' i])
            (fld p ''messagingEventPolicies'')
      | _ \<Rightarrow> [''La policy debe ser un objeto JSON.''])"

declare normalizeHeaderName_def [js_eval] strip_root_def [js_eval] normalizeBodyPath_def [js_eval]
  pathsOverlap_def [js_eval] canonical_capture_def [js_eval] denied_values_def [js_eval]
  blocks_def [js_eval] capture_at_def [js_eval] violation_of_def [js_eval] owner_of_def [js_eval]
  header_captures_def [js_eval] unless_disabled_def [js_eval] metric_captures_def [js_eval]
  http_selector_captures_def [js_eval] http_event_captures_def [js_eval]
  messaging_captures_def [js_eval] method_captures_def [js_eval] captures_of_def [js_eval]
  policyCaptureDenyViolations_def [js_eval] has_field_def [js_eval]
  valueSourceContractErrors_def [js_eval] sends_to_span_def [js_eval] has_output_def [js_eval]
  httpEventHasOutput_def [js_eval] messagingEventHasOutput_def [js_eval]
  policyCollections_def [js_eval] indexed_def [js_eval] each_entry_def [js_eval]
  collection_errors_def [js_eval] method_contract_errors_def [js_eval]
  no_output_error_def [js_eval] policyWireContractErrors_def [js_eval]

end
