(* ===== verification/Capture_Props.thy ===== *)
theory Capture_Props
  imports Capture_Security Telemetry_Props
begin

section \<open>Properties of the denylist and of the wire contract\<close>

text \<open>
  Two specifications that do not mention the loops of the program: \<open>policy_captures\<close>, the places of a
  document where something of the traffic is captured, with \<open>covers\<close>, what an entry of the denylist covers; and the
  documents that the wire contract accepts. The lemmas in between read each loop in the words of the first.
\<close>

subsection \<open>Overlapping paths\<close>

text \<open>\<open>under p q\<close>: the path \<open>q\<close> is \<open>p\<close>, or continues it at a segment boundary.\<close>

definition under :: "string \<Rightarrow> string \<Rightarrow> bool" where
  "under p q \<longleftrightarrow> p = [] \<or> (\<exists>r. q = p @ r \<and> (r = [] \<or> hd r = CHR ''.'' \<or> hd r = CHR ''[''))"

lemma starts_with_boundary: "starts_with q (p @ [c]) \<longleftrightarrow> (\<exists>r. q = p @ c # r)"
  by (auto simp: starts_with_def prefix_def)

lemma pathsOverlap_under: "pathsOverlap p q \<longleftrightarrow> under p q \<or> under q p"
proof -
  have u: "under p q \<longleftrightarrow> p = [] \<or> q = p \<or> starts_with q (p @ ''.'') \<or> starts_with q (p @ ''['')" for p q
  proof -
    have "(\<exists>r. q = p @ r \<and> (r = [] \<or> hd r = CHR ''.'' \<or> hd r = CHR ''['')) \<longleftrightarrow>
        q = p \<or> (\<exists>r. q = p @ CHR ''.'' # r) \<or> (\<exists>r. q = p @ CHR ''['' # r)" (is "?L \<longleftrightarrow> ?R")
    proof
      assume ?L
      then obtain r where r: "q = p @ r" "r = [] \<or> hd r = CHR ''.'' \<or> hd r = CHR ''[''" by blast
      then show ?R by (cases r) auto
    next
      assume ?R
      then show ?L by fastforce
    qed
    then show ?thesis by (simp add: under_def starts_with_boundary)
  qed
  show ?thesis unfolding pathsOverlap_def u by blast
qed

text \<open>two paths overlap exactly when one of them continues the other at a segment boundary (a dot
  or an opening bracket) or is the root; the relation is reflexive and symmetric, and a blocked path
  covers every path below it.\<close>

theorem pathsOverlap_is_segment_prefix:
  "(pathsOverlap captured blocked \<longleftrightarrow> under captured blocked \<or> under blocked captured) \<and>
   pathsOverlap captured captured \<and> pathsOverlap captured blocked = pathsOverlap blocked captured \<and>
   pathsOverlap (blocked @ ''.'' @ rest) blocked \<and> pathsOverlap (blocked @ ''['' @ rest) blocked \<and> pathsOverlap [] blocked"
  by (auto simp: pathsOverlap_under under_def)

subsection \<open>What a policy captures\<close>

text \<open>
  The specification of a capture, read off the document and not off the loops: one rule for each place of the
  document where a name of the traffic stands, with the kind of the denylist it belongs to and the rule of the
  policy that is named with it. An item captures unless it says \<open>enabled: false\<close>.
\<close>

definition known_as :: "jsval \<Rightarrow> string \<Rightarrow> string \<Rightarrow> jsval" where
  "known_as item name fallback =
     (if truthy (get item ''id'') then get item ''id''
      else if truthy (get item name) then get item name else Str fallback)"

definition enabled_in :: "jsobj \<Rightarrow> string \<Rightarrow> jsval \<Rightarrow> bool" where
  "enabled_in policy collection item \<longleftrightarrow> item \<in> set (array (fld policy collection)) \<and> get item ''enabled'' \<noteq> Bool False"

definition http_sources :: "(string \<times> string) list" where
  "http_sources = [(''REQUEST_BODY'', ''BODY_PATH''), (''RESPONSE_BODY'', ''BODY_PATH''), (''REQUEST_HEADER'', ''HEADER''),
     (''RESPONSE_HEADER'', ''HEADER''), (''REQUEST_QUERY'', ''QUERY_PARAM''), (''REQUEST_PATH_PARAM'', ''PATH_PARAM'')]"

definition message_sources :: "(string \<times> string) list" where
  "message_sources = [(''MESSAGE_HEADER'', ''HEADER''), (''MESSAGE_PROPERTY'', ''MESSAGE_PROPERTY''), (''PAYLOAD'', ''BODY_PATH'')]"

definition method_sources :: "(string \<times> string) list" where
  "method_sources = [(''ARGUMENT'', ''METHOD_PATH''), (''RETURN'', ''METHOD_PATH'')]"

inductive policy_captures :: "jsobj \<Rightarrow> string \<Rightarrow> jsval \<Rightarrow> jsval \<Rightarrow> bool" for policy where
  header: "side \<in> {''requestHeaders'', ''responseHeaders''} \<Longrightarrow> h \<in> set (array (fld policy side)) \<Longrightarrow>
     policy_captures policy ''HEADER'' (get h ''name'') (Str side)"
| metric: "enabled_in policy ''metricPolicies'' m \<Longrightarrow> x \<in> set (array (get m ''customAttributes'')) \<Longrightarrow>
     policy_captures policy ''HEADER'' (get x ''header'') (known_as m ''name'' ''httpMetric'')"
| condition: "enabled_in policy ''bodyEventPolicies'' e \<Longrightarrow> x \<in> set (array (get e ''conditions'')) \<Longrightarrow>
     get x ''source'' = Str source \<Longrightarrow> (source, kind) \<in> set http_sources \<Longrightarrow>
     policy_captures policy kind (get x ''path'') (known_as e ''eventName'' (if kind = ''BODY_PATH'' then ''bodyEvent'' else ''httpEvent''))"
| field: "enabled_in policy ''bodyEventPolicies'' e \<Longrightarrow> x \<in> set (array (get e ''fields'')) \<Longrightarrow>
     get x ''source'' = Str source \<Longrightarrow> (source, kind) \<in> set http_sources \<Longrightarrow>
     policy_captures policy kind (get x ''path'') (known_as e ''eventName'' ''httpEvent'')"
| message: "enabled_in policy ''messagingEventPolicies'' e \<Longrightarrow>
     x \<in> set (array (get e ''conditions'')) \<or> x \<in> set (array (get e ''fields'')) \<Longrightarrow>
     get x ''source'' = Str source \<Longrightarrow> (source, kind) \<in> set message_sources \<Longrightarrow>
     policy_captures policy kind (get x ''path'') (known_as e ''eventName'' ''messagingEvent'')"
| method_value: "enabled_in policy ''methodPolicies'' m \<Longrightarrow> x \<in> set (array (get m ''captures'')) \<Longrightarrow>
     get x ''source'' = Str source \<Longrightarrow> (source, kind) \<in> set method_sources \<Longrightarrow>
     policy_captures policy kind (get x ''path'') (known_as m ''methodName'' ''method'')"
| method_metric: "enabled_in policy ''methodPolicies'' m \<Longrightarrow> x \<in> set (array (get m ''metrics'')) \<Longrightarrow>
     get (get x ''value'') ''source'' = Str source \<Longrightarrow> (source, kind) \<in> set method_sources \<Longrightarrow>
     policy_captures policy kind (get (get x ''value'') ''path'') (known_as m ''methodName'' ''method'')"

text \<open>A document in which no list has a gap where the rules look: the loops of the source raise on \<open>null\<close>.\<close>

definition no_gaps :: "jsval \<Rightarrow> bool" where
  "no_gaps v \<longleftrightarrow> (\<forall>x\<in>set (array v). \<not> nullish x)"

definition whole :: "jsobj \<Rightarrow> string \<Rightarrow> string list \<Rightarrow> bool" where
  "whole policy collection parts \<longleftrightarrow> no_gaps (fld policy collection) \<and>
     (\<forall>item. enabled_in policy collection item \<longrightarrow> (\<forall>k\<in>set parts. no_gaps (get item k)))"

definition readable_policy :: "jsobj \<Rightarrow> bool" where
  "readable_policy policy \<longleftrightarrow> no_gaps (fld policy ''requestHeaders'') \<and> no_gaps (fld policy ''responseHeaders'') \<and>
     whole policy ''metricPolicies'' [''customAttributes''] \<and> whole policy ''bodyEventPolicies'' [''conditions'', ''fields''] \<and>
     whole policy ''messagingEventPolicies'' [''conditions'', ''fields''] \<and> whole policy ''methodPolicies'' [''captures'', ''metrics'']"

text \<open>How a captured value is written, and which entries of its kind cover it: a header whatever its case, a parameter
  or a property literally, and a path the path itself, what is below it and what is above it.\<close>

definition trimmed_value :: "jsval \<Rightarrow> string" where
  "trimmed_value v = js_trim (str_or v [])"

definition below_root :: "string \<Rightarrow> string" where
  "below_root s = (if starts_with s ''$.'' then drop 2 s else if starts_with s ''$'' then drop 1 s else s)"

definition written :: "string \<Rightarrow> jsval \<Rightarrow> string" where
  "written kind v =
     (if kind = ''HEADER'' then js_lower (trimmed_value v)
      else if kind = ''BODY_PATH'' then below_root (trimmed_value v) else trimmed_value v)"

definition covers :: "string \<Rightarrow> jsval \<Rightarrow> jsval \<Rightarrow> bool" where
  "covers kind listed v \<longleftrightarrow>
     (if kind \<in> {''BODY_PATH'', ''METHOD_PATH''}
      then under (written kind listed) (written kind v) \<or> under (written kind v) (written kind listed)
      else written kind v = written kind listed)"

subsection \<open>The loops find these captures\<close>

lemma owner_known: "owner_of item name fallback = known_as item name fallback"
  by (simp add: owner_of_def known_as_def js_or_def)

lemma flat_map_opt_set: "flat_map_opt f xs = Some ys \<Longrightarrow> y \<in> set ys \<longleftrightarrow> (\<exists>x\<in>set xs. \<exists>zs. f x = Some zs \<and> y \<in> set zs)"
  by (fastforce simp: flat_map_opt_def map_opt_set)

lemma flat_map_opt_total: "(\<And>x. x \<in> set xs \<Longrightarrow> f x \<noteq> None) \<Longrightarrow> \<exists>ys. flat_map_opt f xs = Some ys"
  unfolding flat_map_opt_def using map_opt_None [of f xs] by (metis not_None_eq option.map_disc_iff)

lemma flat_map_opt_parts:
  assumes "flat_map_opt f xs = Some ys" "\<And>x zs. f x = Some zs \<Longrightarrow> y \<in> set zs \<longleftrightarrow> P x"
  shows "y \<in> set ys \<longleftrightarrow> (\<exists>x\<in>set xs. P x)"
proof -
  have "f x \<noteq> None" if "x \<in> set xs" for x
    using assms(1) that map_opt_all [of f xs] by (fastforce simp: flat_map_opt_def)
  then show ?thesis using assms(2) unfolding flat_map_opt_set [OF assms(1)] by fastforce
qed

lemma getx_whole: "\<not> nullish v \<Longrightarrow> getx v k = Some (get v k)"
  by (simp add: getx_def)

lemma getx_SomeD: "getx v k = Some w \<Longrightarrow> w = get v k"
  by (simp add: getx_def split: if_splits)

text \<open>The items of a collection that are not disabled, one after the other.\<close>

lemma collection_captured:
  assumes "flat_map_opt (unless_disabled body) (array (fld policy collection)) = Some cs"
  shows "c \<in> set cs \<longleftrightarrow> (\<exists>item zs. enabled_in policy collection item \<and> body item = Some zs \<and> c \<in> set zs)"
  unfolding flat_map_opt_set [OF assms]
proof (intro iffI)
  assume "\<exists>x\<in>set (array (fld policy collection)). \<exists>zs. unless_disabled body x = Some zs \<and> c \<in> set zs"
  then show "\<exists>item zs. enabled_in policy collection item \<and> body item = Some zs \<and> c \<in> set zs"
    by (auto simp: unless_disabled_def enabled_in_def bind_eq_Some_conv dest!: getx_SomeD split: if_splits)
next
  assume "\<exists>item zs. enabled_in policy collection item \<and> body item = Some zs \<and> c \<in> set zs"
  then obtain item zs where i: "enabled_in policy collection item" "body item = Some zs" "c \<in> set zs" by blast
  have "unless_disabled body item \<noteq> None"
    using assms i(1) map_opt_all [of "unless_disabled body"] by (fastforce simp: flat_map_opt_def enabled_in_def)
  then have "unless_disabled body item = Some zs"
    using i by (auto simp: unless_disabled_def enabled_in_def getx_def split: if_splits)
  then show "\<exists>x\<in>set (array (fld policy collection)). \<exists>zs. unless_disabled body x = Some zs \<and> c \<in> set zs"
    using i by (auto simp: enabled_in_def)
qed

lemma collection_total:
  assumes "whole policy collection parts" "\<And>item. enabled_in policy collection item \<Longrightarrow> body item \<noteq> None"
  shows "\<exists>cs. flat_map_opt (unless_disabled body) (array (fld policy collection)) = Some cs"
  using assms by (intro flat_map_opt_total) (auto simp: whole_def no_gaps_def unless_disabled_def enabled_in_def getx_whole)

text \<open>Each loop, in the words of the rules.\<close>

definition captured_in :: "(string \<Rightarrow> jsval \<Rightarrow> jsval \<Rightarrow> bool) \<Rightarrow> captured \<Rightarrow> bool" where
  "captured_in P c \<longleftrightarrow> P (ca_kind c) (ca_value c) (ca_owner c)"

lemma captured_at: "c = capture_at kind v owner \<longleftrightarrow> ca_kind c = kind \<and> ca_value c = v \<and> ca_owner c = owner"
  by (auto simp: capture_at_def)

lemma header_captured:
  assumes "header_captures policy side = Some cs"
  shows "c \<in> set cs \<longleftrightarrow> (\<exists>h\<in>set (array (fld policy side)). c = capture_at ''HEADER'' (get h ''name'') (Str side))"
proof -
  have "\<not> nullish h" if "h \<in> set (array (fld policy side))" for h
    using map_opt_all [OF assms [unfolded header_captures_def] that] by (auto simp: getx_def split: if_splits)
  then show ?thesis using map_opt_set [OF assms [unfolded header_captures_def]] by (fastforce simp: getx_def)
qed

lemma metric_captured:
  assumes "metric_captures m = Some cs"
  shows "c \<in> set cs \<longleftrightarrow>
    (\<exists>x\<in>set (array (get m ''customAttributes'')). c = capture_at ''HEADER'' (get x ''header'') (known_as m ''name'' ''httpMetric''))"
proof -
  have "\<not> nullish x" if "x \<in> set (array (get m ''customAttributes''))" for x
    using map_opt_all [OF assms [unfolded metric_captures_def] that] by (auto simp: getx_def split: if_splits)
  then show ?thesis using map_opt_set [OF assms [unfolded metric_captures_def]] by (fastforce simp: getx_def owner_known)
qed

lemma http_selector_captured:
  assumes "http_selector_captures e fallback x = Some cs"
  shows "c \<in> set cs \<longleftrightarrow> (\<exists>source kind. get x ''source'' = Str source \<and> (source, kind) \<in> set http_sources \<and>
    c = capture_at kind (get x ''path'') (known_as e ''eventName'' (if kind = ''BODY_PATH'' then fallback else ''httpEvent'')))"
proof -
  let ?v = "get x ''source''"
  have v: "getx x ''source'' = Some ?v" using assms by (auto simp: http_selector_captures_def bind_eq_Some_conv getx_def split: if_splits)
  note cs = assms [unfolded http_selector_captures_def v owner_known, simplified, symmetric]
  consider "?v = Str ''REQUEST_BODY''" | "?v = Str ''RESPONSE_BODY''" | "?v = Str ''REQUEST_HEADER''" | "?v = Str ''RESPONSE_HEADER''"
    | "?v = Str ''REQUEST_QUERY''" | "?v = Str ''REQUEST_PATH_PARAM''"
    | (other) "\<forall>source\<in>set (map fst http_sources). ?v \<noteq> Str source" by (fastforce simp: http_sources_def)
  then show ?thesis
  proof cases
    case other
    then have "?v \<noteq> Str ''REQUEST_BODY''" "?v \<noteq> Str ''RESPONSE_BODY''" "?v \<noteq> Str ''REQUEST_HEADER''" "?v \<noteq> Str ''RESPONSE_HEADER''"
      "?v \<noteq> Str ''REQUEST_QUERY''" "?v \<noteq> Str ''REQUEST_PATH_PARAM''" by (simp_all add: http_sources_def)
    then have "cs = []" using cs by simp
    moreover have "(source, kind) \<notin> set http_sources" if "?v = Str source" for source kind
      using other that by force
    ultimately show ?thesis by auto
  qed (simp_all add: cs http_sources_def)
qed

definition message_selector :: "jsval \<Rightarrow> jsval \<Rightarrow> captured list option" where
  "message_selector event selector = do {
     source \<leftarrow> getx selector ''source'';
     let owner = owner_of event ''eventName'' ''messagingEvent'' in
     Some (if source = Str ''MESSAGE_HEADER'' then [capture_at ''HEADER'' (get selector ''path'') owner]
           else if source = Str ''MESSAGE_PROPERTY'' then [capture_at ''MESSAGE_PROPERTY'' (get selector ''path'') owner]
           else if source = Str ''PAYLOAD'' then [capture_at ''BODY_PATH'' (get selector ''path'') owner]
           else []) }"

lemma message_selector_captured:
  assumes "message_selector e x = Some cs"
  shows "c \<in> set cs \<longleftrightarrow> (\<exists>source kind. get x ''source'' = Str source \<and> (source, kind) \<in> set message_sources \<and>
    c = capture_at kind (get x ''path'') (known_as e ''eventName'' ''messagingEvent''))"
proof -
  let ?v = "get x ''source''"
  have v: "getx x ''source'' = Some ?v" using assms by (auto simp: message_selector_def bind_eq_Some_conv getx_def split: if_splits)
  note cs = assms [unfolded message_selector_def v owner_known Let_def, simplified, symmetric]
  consider "?v = Str ''MESSAGE_HEADER''" | "?v = Str ''MESSAGE_PROPERTY''" | "?v = Str ''PAYLOAD''"
    | (other) "\<forall>source\<in>set (map fst message_sources). ?v \<noteq> Str source" by (fastforce simp: message_sources_def)
  then show ?thesis
  proof cases
    case other
    then have "?v \<noteq> Str ''MESSAGE_HEADER''" "?v \<noteq> Str ''MESSAGE_PROPERTY''" "?v \<noteq> Str ''PAYLOAD''" by (simp_all add: message_sources_def)
    then have "cs = []" using cs by simp
    moreover have "(source, kind) \<notin> set message_sources" if "?v = Str source" for source kind
      using other that by force
    ultimately show ?thesis by auto
  qed (simp_all add: cs message_sources_def)
qed

lemma http_event_captured:
  assumes "http_event_captures e = Some cs"
  shows "c \<in> set cs \<longleftrightarrow>
    (\<exists>x source kind. x \<in> set (array (get e ''conditions'')) \<and> get x ''source'' = Str source \<and> (source, kind) \<in> set http_sources \<and>
       c = capture_at kind (get x ''path'') (known_as e ''eventName'' (if kind = ''BODY_PATH'' then ''bodyEvent'' else ''httpEvent''))) \<or>
    (\<exists>x source kind. x \<in> set (array (get e ''fields'')) \<and> get x ''source'' = Str source \<and> (source, kind) \<in> set http_sources \<and>
       c = capture_at kind (get x ''path'') (known_as e ''eventName'' ''httpEvent''))"
proof -
  obtain conditions fields where cs: "cs = conditions @ fields"
    and con: "flat_map_opt (http_selector_captures e ''bodyEvent'') (array (get e ''conditions'')) = Some conditions"
    and fie: "flat_map_opt (http_selector_captures e ''httpEvent'') (array (get e ''fields'')) = Some fields"
    using assms by (auto simp: http_event_captures_def bind_eq_Some_conv)
  note here = flat_map_opt_parts [where y = c, OF con http_selector_captured] flat_map_opt_parts [where y = c, OF fie http_selector_captured]
  show ?thesis by (simp only: cs set_append Un_iff here if_cancel) blast
qed

lemma messaging_captured:
  assumes "messaging_captures e = Some cs"
  shows "c \<in> set cs \<longleftrightarrow>
    (\<exists>x source kind. (x \<in> set (array (get e ''conditions'')) \<or> x \<in> set (array (get e ''fields''))) \<and> get x ''source'' = Str source \<and>
       (source, kind) \<in> set message_sources \<and> c = capture_at kind (get x ''path'') (known_as e ''eventName'' ''messagingEvent''))"
proof -
  have "flat_map_opt (message_selector e) (array (get e ''conditions'') @ array (get e ''fields'')) = Some cs"
    using assms unfolding messaging_captures_def message_selector_def [abs_def] .
  from flat_map_opt_parts [where y = c, OF this message_selector_captured] show ?thesis by auto
qed

definition method_selector :: "jsval \<Rightarrow> jsval \<Rightarrow> jsval \<Rightarrow> captured list" where
  "method_selector method source path = (if source \<in> {Str ''ARGUMENT'', Str ''RETURN''}
     then [capture_at ''METHOD_PATH'' path (owner_of method ''methodName'' ''method'')] else [])"

lemma method_selector_captured:
  "c \<in> set (method_selector m v path) \<longleftrightarrow> (\<exists>source kind. v = Str source \<and> (source, kind) \<in> set method_sources \<and>
    c = capture_at kind path (known_as m ''methodName'' ''method''))"
  by (auto simp: method_selector_def method_sources_def owner_known)

lemma method_captured:
  assumes "method_captures m = Some cs"
  shows "c \<in> set cs \<longleftrightarrow>
    (\<exists>x source kind. x \<in> set (array (get m ''captures'')) \<and> get x ''source'' = Str source \<and> (source, kind) \<in> set method_sources \<and>
       c = capture_at kind (get x ''path'') (known_as m ''methodName'' ''method'')) \<or>
    (\<exists>x source kind. x \<in> set (array (get m ''metrics'')) \<and> get (get x ''value'') ''source'' = Str source \<and>
       (source, kind) \<in> set method_sources \<and>
       c = capture_at kind (get (get x ''value'') ''path'') (known_as m ''methodName'' ''method''))"
proof -
  obtain captures metrics where cs: "cs = captures @ metrics"
    and cap: "flat_map_opt (\<lambda>c. do { source \<leftarrow> getx c ''source''; Some (method_selector m source (get c ''path'')) })
      (array (get m ''captures'')) = Some captures"
    and met: "flat_map_opt (\<lambda>x. do { v \<leftarrow> getx x ''value''; Some (method_selector m (get v ''source'') (get v ''path'')) })
      (array (get m ''metrics'')) = Some metrics"
    using assms by (auto simp: method_captures_def method_selector_def Let_def bind_eq_Some_conv)
  have cap': "c \<in> set zs \<longleftrightarrow> c \<in> set (method_selector m (get x ''source'') (get x ''path''))"
    if "do { source \<leftarrow> getx x ''source''; Some (method_selector m source (get x ''path'')) } = Some zs" for x zs
    using that by (auto simp: bind_eq_Some_conv dest!: getx_SomeD)
  have met': "c \<in> set zs \<longleftrightarrow> c \<in> set (method_selector m (get (get x ''value'') ''source'') (get (get x ''value'') ''path''))"
    if "do { v \<leftarrow> getx x ''value''; Some (method_selector m (get v ''source'') (get v ''path'')) } = Some zs" for x zs
    using that by (auto simp: bind_eq_Some_conv dest!: getx_SomeD)
  note here = flat_map_opt_parts [where P = "\<lambda>x. c \<in> set (method_selector m (get x ''source'') (get x ''path''))", OF cap cap']
    flat_map_opt_parts [where P = "\<lambda>x. c \<in> set (method_selector m (get (get x ''value'') ''source'') (get (get x ''value'') ''path''))",
      OF met met']
  show ?thesis by (simp only: cs set_append Un_iff here method_selector_captured) blast
qed

text \<open>All loops together: the same seven places, in the same words.\<close>

lemma collection_parts:
  assumes "flat_map_opt (unless_disabled body) (array (fld policy collection)) = Some cs"
    "\<And>item zs. body item = Some zs \<Longrightarrow> c \<in> set zs \<longleftrightarrow> P item"
  shows "c \<in> set cs \<longleftrightarrow> (\<exists>item. enabled_in policy collection item \<and> P item)"
proof -
  have "body item \<noteq> None" if "enabled_in policy collection item" for item
  proof -
    have "unless_disabled body item \<noteq> None"
      using assms(1) that map_opt_all [of "unless_disabled body"] by (fastforce simp: flat_map_opt_def enabled_in_def)
    then show ?thesis using that by (auto simp: unless_disabled_def enabled_in_def getx_def split: if_splits)
  qed
  then show ?thesis using assms(2) unfolding collection_captured [OF assms(1)] by blast
qed

lemma captures_places:
  "captured_in (policy_captures policy) c \<longleftrightarrow>
    (\<exists>h\<in>set (array (fld policy ''requestHeaders'')). c = capture_at ''HEADER'' (get h ''name'') (Str ''requestHeaders'')) \<or>
    (\<exists>h\<in>set (array (fld policy ''responseHeaders'')). c = capture_at ''HEADER'' (get h ''name'') (Str ''responseHeaders'')) \<or>
    (\<exists>m. enabled_in policy ''metricPolicies'' m \<and>
      (\<exists>x\<in>set (array (get m ''customAttributes'')). c = capture_at ''HEADER'' (get x ''header'') (known_as m ''name'' ''httpMetric''))) \<or>
    (\<exists>e. enabled_in policy ''bodyEventPolicies'' e \<and>
      ((\<exists>x source kind. x \<in> set (array (get e ''conditions'')) \<and> get x ''source'' = Str source \<and> (source, kind) \<in> set http_sources \<and>
         c = capture_at kind (get x ''path'') (known_as e ''eventName'' (if kind = ''BODY_PATH'' then ''bodyEvent'' else ''httpEvent''))) \<or>
       (\<exists>x source kind. x \<in> set (array (get e ''fields'')) \<and> get x ''source'' = Str source \<and> (source, kind) \<in> set http_sources \<and>
         c = capture_at kind (get x ''path'') (known_as e ''eventName'' ''httpEvent'')))) \<or>
    (\<exists>e. enabled_in policy ''messagingEventPolicies'' e \<and>
      (\<exists>x source kind. (x \<in> set (array (get e ''conditions'')) \<or> x \<in> set (array (get e ''fields''))) \<and> get x ''source'' = Str source \<and>
         (source, kind) \<in> set message_sources \<and> c = capture_at kind (get x ''path'') (known_as e ''eventName'' ''messagingEvent''))) \<or>
    (\<exists>m. enabled_in policy ''methodPolicies'' m \<and>
      ((\<exists>x source kind. x \<in> set (array (get m ''captures'')) \<and> get x ''source'' = Str source \<and> (source, kind) \<in> set method_sources \<and>
         c = capture_at kind (get x ''path'') (known_as m ''methodName'' ''method'')) \<or>
       (\<exists>x source kind. x \<in> set (array (get m ''metrics'')) \<and> get (get x ''value'') ''source'' = Str source \<and>
         (source, kind) \<in> set method_sources \<and>
         c = capture_at kind (get (get x ''value'') ''path'') (known_as m ''methodName'' ''method''))))"
   (is "_ \<longleftrightarrow> ?requests \<or> ?responses \<or> ?metrics \<or> ?events \<or> ?messages \<or> ?methods")
proof
  assume "captured_in (policy_captures policy) c"
  then have "policy_captures policy (ca_kind c) (ca_value c) (ca_owner c)" by (simp only: captured_in_def)
  then show "?requests \<or> ?responses \<or> ?metrics \<or> ?events \<or> ?messages \<or> ?methods"
  proof cases
    case (header side h)
    then have "?requests \<or> ?responses" unfolding captured_at by blast
    then show ?thesis by (elim disjE) ((rule disjI1, assumption | rule disjI2 | assumption)+)
  next
    case (metric m x)
    then have ?metrics unfolding captured_at by blast
    then show ?thesis by - ((rule disjI1, assumption | rule disjI2 | assumption)+)
  next
    case (condition e x source)
    then have ?events unfolding captured_at by blast
    then show ?thesis by - ((rule disjI1, assumption | rule disjI2 | assumption)+)
  next
    case (field e x source)
    then have ?events unfolding captured_at by blast
    then show ?thesis by - ((rule disjI1, assumption | rule disjI2 | assumption)+)
  next
    case (message e x source)
    then have ?messages unfolding captured_at by blast
    then show ?thesis by - ((rule disjI1, assumption | rule disjI2 | assumption)+)
  next
    case (method_value m x source)
    then have ?methods unfolding captured_at by blast
    then show ?thesis by - ((rule disjI1, assumption | rule disjI2 | assumption)+)
  next
    case (method_metric m x source)
    then have ?methods unfolding captured_at by blast
    then show ?thesis by - ((rule disjI1, assumption | rule disjI2 | assumption)+)
  qed
next
  have [simp]: "ca_kind (capture_at k v w) = k" "ca_value (capture_at k v w) = v" "ca_owner (capture_at k v w) = w" for k v w
    by (simp_all add: capture_at_def)
  assume "?requests \<or> ?responses \<or> ?metrics \<or> ?events \<or> ?messages \<or> ?methods"
  then show "captured_in (policy_captures policy) c"
    by (elim disjE bexE exE conjE) (simp_all add: captured_in_def policy_captures.intros)
qed

lemma captures_of_captures:
  assumes "captures_of policy = Some cs"
  shows "c \<in> set cs \<longleftrightarrow> captured_in (policy_captures policy) c"
proof -
  obtain requests responses metrics events messages methods where
    cs: "cs = requests @ responses @ metrics @ events @ messages @ methods"
    and rq: "header_captures policy ''requestHeaders'' = Some requests" and rp: "header_captures policy ''responseHeaders'' = Some responses"
    and ms: "flat_map_opt (unless_disabled metric_captures) (array (fld policy ''metricPolicies'')) = Some metrics"
    and es: "flat_map_opt (unless_disabled http_event_captures) (array (fld policy ''bodyEventPolicies'')) = Some events"
    and ss: "flat_map_opt (unless_disabled messaging_captures) (array (fld policy ''messagingEventPolicies'')) = Some messages"
    and ts: "flat_map_opt (unless_disabled method_captures) (array (fld policy ''methodPolicies'')) = Some methods"
    using assms by (auto simp: captures_of_def bind_eq_Some_conv)
  show ?thesis
    by (simp only: captures_places cs set_append Un_iff header_captured [OF rq] header_captured [OF rp]
      collection_parts [where c = c, OF ms metric_captured] collection_parts [where c = c, OF es http_event_captured]
      collection_parts [where c = c, OF ss messaging_captured] collection_parts [where c = c, OF ts method_captured])
qed

text \<open>A readable policy is read to the end.\<close>

lemma captures_of_readable:
  assumes "readable_policy policy"
  shows "captures_of policy \<noteq> None"
proof -
  note gaps = assms [unfolded readable_policy_def]
  have hs: "header_captures policy side \<noteq> None" if "no_gaps (fld policy side)" for side
    using that by (simp add: header_captures_def map_opt_None no_gaps_def getx_whole del: not_None_eq)
  have ms: "metric_captures m \<noteq> None" if "no_gaps (get m ''customAttributes'')" for m
    using that by (simp add: metric_captures_def map_opt_None no_gaps_def getx_whole del: not_None_eq)
  have es: "http_event_captures e \<noteq> None" if gaps: "no_gaps (get e ''conditions'')" "no_gaps (get e ''fields'')" for e
  proof -
    have "\<exists>cs. flat_map_opt (http_selector_captures e fallback) (array (get e k)) = Some cs" if "no_gaps (get e k)" for k fallback
      using that by (intro flat_map_opt_total) (simp add: http_selector_captures_def no_gaps_def getx_whole)
    from this [OF gaps(1)] this [OF gaps(2)] obtain cs fs where
      "flat_map_opt (http_selector_captures e ''bodyEvent'') (array (get e ''conditions'')) = Some cs"
      "flat_map_opt (http_selector_captures e ''httpEvent'') (array (get e ''fields'')) = Some fs" by blast
    then show ?thesis by (simp add: http_event_captures_def)
  qed
  have ss: "messaging_captures e \<noteq> None" if "no_gaps (get e ''conditions'')" "no_gaps (get e ''fields'')" for e
  proof -
    have "\<exists>cs. messaging_captures e = Some cs" unfolding messaging_captures_def
      using that by (intro flat_map_opt_total) (auto simp: no_gaps_def getx_whole Let_def)
    then show ?thesis by simp
  qed
  have ts: "method_captures m \<noteq> None" if gaps: "no_gaps (get m ''captures'')" "no_gaps (get m ''metrics'')" for m
  proof -
    have "\<exists>cs. flat_map_opt (\<lambda>x. do { v \<leftarrow> getx x f; Some (g x v) }) (array (get m k)) = Some cs"
      if "no_gaps (get m k)" for k f and g :: "jsval \<Rightarrow> jsval \<Rightarrow> captured list"
      using that by (intro flat_map_opt_total) (simp add: no_gaps_def getx_whole)
    from this [OF gaps(1), of "''source''" "\<lambda>x source. method_selector m source (get x ''path'')"]
      this [OF gaps(2), of "''value''" "\<lambda>x v. method_selector m (get v ''source'') (get v ''path'')"]
    show ?thesis by (auto simp: method_captures_def method_selector_def Let_def)
  qed
  have "\<exists>cs. flat_map_opt (unless_disabled metric_captures) (array (fld policy ''metricPolicies'')) = Some cs"
    by (rule collection_total [of _ _ "[''customAttributes'']"]) (use gaps ms in \<open>auto simp: whole_def\<close>)
  moreover have "\<exists>cs. flat_map_opt (unless_disabled http_event_captures) (array (fld policy ''bodyEventPolicies'')) = Some cs"
    by (rule collection_total [of _ _ "[''conditions'', ''fields'']"]) (use gaps es in \<open>auto simp: whole_def\<close>)
  moreover have "\<exists>cs. flat_map_opt (unless_disabled messaging_captures) (array (fld policy ''messagingEventPolicies'')) = Some cs"
    by (rule collection_total [of _ _ "[''conditions'', ''fields'']"]) (use gaps ss in \<open>auto simp: whole_def\<close>)
  moreover have "\<exists>cs. flat_map_opt (unless_disabled method_captures) (array (fld policy ''methodPolicies'')) = Some cs"
    by (rule collection_total [of _ _ "[''captures'', ''metrics'']"]) (use gaps ts in \<open>auto simp: whole_def\<close>)
  ultimately show ?thesis using hs [of "''requestHeaders''"] hs [of "''responseHeaders''"] gaps by (auto simp: captures_of_def)
qed

subsection \<open>Violations\<close>

lemma canonical_written: "canonical_capture kind v = written kind v"
proof -
  have "strip_root s = below_root s" for s
    by (cases s rule: list.exhaust; cases "tl s") (auto simp: strip_root_def below_root_def starts_with_def)
  then show ?thesis by (simp add: canonical_capture_def written_def normalizeHeaderName_def normalizeBodyPath_def trimmed_value_def)
qed

lemma captures_kind:
  "policy_captures policy kind v owner \<Longrightarrow>
     kind \<in> {''HEADER'', ''QUERY_PARAM'', ''PATH_PARAM'', ''MESSAGE_PROPERTY'', ''BODY_PATH'', ''METHOD_PATH''}"
proof (induction rule: policy_captures.induct)
  case (header side h)
  show ?case by simp
qed (auto simp: http_sources_def message_sources_def method_sources_def)

lemma blocks_covers:
  assumes "policy_captures policy kind v owner"
  shows "blocks kind (canonical_capture kind v) (canonical_capture kind listed) \<longleftrightarrow> covers kind listed v"
proof -
  from captures_kind [OF assms] have "kind \<in> {''HEADER'', ''QUERY_PARAM'', ''PATH_PARAM'', ''MESSAGE_PROPERTY''} \<longleftrightarrow>
      kind \<notin> {''BODY_PATH'', ''METHOD_PATH''}"
    by (elim insertE emptyE) simp_all
  then show ?thesis unfolding blocks_def covers_def canonical_written pathsOverlap_under by (simp only: split: if_split) blast
qed

lemma violations_set:
  assumes "policyCaptureDenyViolations policy entries = Some vs"
  obtains cs where "captures_of policy = Some cs" "distinct vs" "set vs = (\<Union>c\<in>set cs. set (violation_of entries c))"
  using assms by (auto simp: policyCaptureDenyViolations_def bind_eq_Some_conv)

lemma violation_of_iff:
  "x \<in> set (violation_of entries c) \<longleftrightarrow>
     (\<exists>entry\<in>set entries. fld entry ''Kind'' = Str (ca_kind c) \<and>
        blocks (ca_kind c) (canonical_capture (ca_kind c) (ca_value c)) (canonical_capture (ca_kind c) (fld entry ''Value''))) \<and>
     x = \<lparr>vi_kind = ca_kind c,
        vi_value = (let v = canonical_capture (ca_kind c) (ca_value c) in if v = [] then ''<root>'' else v),
        vi_owner = ca_owner c\<rparr>"
  by (auto simp: violation_of_def denied_values_def Let_def)

lemma denied_values_mono: "set entries \<subseteq> set others \<Longrightarrow> set (denied_values entries k) \<subseteq> set (denied_values others k)"
  by (auto simp: denied_values_def)

lemma violation_of_mono: "set entries \<subseteq> set others \<Longrightarrow> set (violation_of entries c) \<subseteq> set (violation_of others c)"
  using denied_values_mono [of entries others] by (auto simp: violation_of_def Let_def)

text \<open>C33: The violations of a policy are, each once, what its document captures and the denylist covers. A capture is
  a header, body path, parameter, message property or method path that stands in one of the places of the
  document listed by \<open>policy_captures\<close> (the header lists; the attributes of the HTTP metrics; the conditions and fields of
  the HTTP and of the messaging events; the captures and metrics of the methods), in a rule that is not disabled.
  An entry of the denylist covers it when it has its kind and names the same header whatever the case, the same
  parameter or property, or a path that is equal to it, above it or below it. The violation shows what was
  captured, without the root of a body path, and the rule it stands in. The lists of the policy have no \<open>null\<close>.\<close>

theorem deny_violations_are_exact:
  assumes "readable_policy policy"
  shows "\<exists>vs. policyCaptureDenyViolations policy entries = Some vs \<and> distinct vs \<and>
    (\<forall>kind v owner. \<lparr>vi_kind = kind, vi_value = v, vi_owner = owner\<rparr> \<in> set vs \<longleftrightarrow>
       (\<exists>w. policy_captures policy kind w owner \<and>
          (\<exists>entry\<in>set entries. fld entry ''Kind'' = Str kind \<and> covers kind (fld entry ''Value'') w) \<and>
          v = (if written kind w = [] then ''<root>'' else written kind w)))"
proof -
  obtain cs where cs: "captures_of policy = Some cs" using captures_of_readable [OF assms] by blast
  have "\<lparr>vi_kind = kind, vi_value = v, vi_owner = owner\<rparr> \<in> set (concat (map (violation_of entries) cs)) \<longleftrightarrow>
      (\<exists>w. policy_captures policy kind w owner \<and>
          (\<exists>entry\<in>set entries. fld entry ''Kind'' = Str kind \<and> covers kind (fld entry ''Value'') w) \<and>
          v = (if written kind w = [] then ''<root>'' else written kind w))" (is "?L \<longleftrightarrow> ?R") for kind v owner
  proof
    assume ?L
    then obtain c where c: "captured_in (policy_captures policy) c"
      and x: "\<lparr>vi_kind = kind, vi_value = v, vi_owner = owner\<rparr> \<in> set (violation_of entries c)"
      using captures_of_captures [OF cs] by auto
    have p: "policy_captures policy kind (ca_value c) owner" "ca_kind c = kind"
      using c x by (auto simp: captured_in_def violation_of_iff)
    then show ?R using x blocks_covers [OF p(1)] by (auto simp: violation_of_iff canonical_written Let_def)
  next
    assume ?R
    then obtain w where w: "policy_captures policy kind w owner"
      "\<exists>entry\<in>set entries. fld entry ''Kind'' = Str kind \<and> covers kind (fld entry ''Value'') w"
      "v = (if written kind w = [] then ''<root>'' else written kind w)" by blast
    then have "capture_at kind w owner \<in> set cs"
      using captures_of_captures [OF cs, of "capture_at kind w owner"] by (simp add: captured_in_def capture_at_def)
    moreover have "\<lparr>vi_kind = kind, vi_value = v, vi_owner = owner\<rparr> \<in> set (violation_of entries (capture_at kind w owner))"
      using w blocks_covers [OF w(1)] by (auto simp: violation_of_iff capture_at_def canonical_written Let_def)
    ultimately show ?L by (auto simp only: set_concat set_map)
  qed
  then show ?thesis using cs by (simp add: policyCaptureDenyViolations_def)
qed

text \<open>A header of a message, written in another case and named with the event that reads it.\<close>

definition header_policy :: jsobj where
  "header_policy = [(''messagingEventPolicies'', Arr [Obj [(''id'', Str ''orders''),
     (''conditions'', Arr [Obj [(''source'', Str ''MESSAGE_HEADER''), (''path'', Str '' Cookie'')]])]])]"

theorem deny_violations_are_exact_witness:
  "\<exists>vs. policyCaptureDenyViolations header_policy [[(''Kind'', Str ''HEADER''), (''Value'', Str ''cookie'')]] = Some vs \<and>
     \<lparr>vi_kind = ''HEADER'', vi_value = ''cookie'', vi_owner = Str ''orders''\<rparr> \<in> set vs"
proof -
  let ?x = "Obj [(''source'', Str ''MESSAGE_HEADER''), (''path'', Str '' Cookie'')]"
  let ?e = "Obj [(''id'', Str ''orders''), (''conditions'', Arr [?x])]"
  have fields: "array (fld header_policy ''messagingEventPolicies'') = [?e]" "array (fld header_policy ''requestHeaders'') = []"
    "array (fld header_policy ''responseHeaders'') = []" "array (fld header_policy ''metricPolicies'') = []"
    "array (fld header_policy ''bodyEventPolicies'') = []" "array (fld header_policy ''methodPolicies'') = []"
    "array (get ?e ''conditions'') = [?x]" "array (get ?e ''fields'') = []" "get ?e ''enabled'' = Undef" by code_simp+
  then have "readable_policy header_policy"
    by (simp add: readable_policy_def whole_def no_gaps_def enabled_in_def nullish_def del: get.simps)
  note exact = deny_violations_are_exact [OF this, of "[[(''Kind'', Str ''HEADER''), (''Value'', Str ''cookie'')]]"]
  have known: "known_as ?e ''eventName'' ''messagingEvent'' = Str ''orders''" "get ?x ''path'' = Str '' Cookie''"
    "written ''HEADER'' (Str '' Cookie'') = ''cookie''" "written ''HEADER'' (Str ''cookie'') = ''cookie''"
    "fld [(''Kind'', Str ''HEADER''), (''Value'', Str ''cookie'')] ''Kind'' = Str ''HEADER''"
    "fld [(''Kind'', Str ''HEADER''), (''Value'', Str ''cookie'')] ''Value'' = Str ''cookie''" by code_simp+
  have "policy_captures header_policy ''HEADER'' (get ?x ''path'') (known_as ?e ''eventName'' ''messagingEvent'')"
    by (rule policy_captures.message [of _ ?e ?x "''MESSAGE_HEADER''"])
      (use fields in \<open>auto simp: enabled_in_def message_sources_def fld_def\<close>)
  then have c: "policy_captures header_policy ''HEADER'' (Str '' Cookie'') (Str ''orders'')" unfolding known .
  have "covers ''HEADER'' (Str ''cookie'') (Str '' Cookie'')" by (simp add: covers_def known(3,4))
  then have "\<exists>w. policy_captures header_policy ''HEADER'' w (Str ''orders'') \<and>
      (\<exists>entry\<in>set [[(''Kind'', Str ''HEADER''), (''Value'', Str ''cookie'')]].
        fld entry ''Kind'' = Str ''HEADER'' \<and> covers ''HEADER'' (fld entry ''Value'') w) \<and>
      ''cookie'' = (if written ''HEADER'' w = [] then ''<root>'' else written ''HEADER'' w)"
    using c by (intro exI [of _ "Str '' Cookie''"]) (simp add: known(3,5,6))
  then show ?thesis using exact by blast
qed

text \<open>an empty denylist reports nothing, a longer one never hides a violation, and the result does
  not depend on the order or the repetition of its entries.\<close>

theorem deny_violations_monotone:
  assumes "captures_of policy = Some captures" and "set entries \<subseteq> set others"
  shows "\<exists>vs ws. policyCaptureDenyViolations policy entries = Some vs \<and> policyCaptureDenyViolations policy others = Some ws \<and>
    set vs \<subseteq> set ws \<and> policyCaptureDenyViolations policy [] = Some [] \<and> (set others \<subseteq> set entries \<longrightarrow> vs = ws)"
proof -
  let ?v = "\<lambda>es. nub (concat (map (violation_of es) captures))"
  have v: "policyCaptureDenyViolations policy es = Some (?v es)" for es
    using assms(1) by (simp add: policyCaptureDenyViolations_def)
  have "violation_of [] c = []" for c by (simp add: violation_of_def denied_values_def)
  then have "?v [] = []" by simp
  moreover have "set (?v entries) \<subseteq> set (?v others)" using violation_of_mono [OF assms(2)] by fastforce
  moreover have "?v entries = ?v others" if "set others \<subseteq> set entries"
  proof -
    have "set (denied_values entries k) = set (denied_values others k)" for k
      using denied_values_mono [OF assms(2)] denied_values_mono [OF that] by blast
    then have "violation_of entries = violation_of others" by (intro ext) (simp add: violation_of_def)
    then show ?thesis by simp
  qed
  ultimately show ?thesis unfolding v by auto
qed

theorem deny_violations_monotone_witness:
  "policyCaptureDenyViolations [] [] = Some []"
proof -
  have "captures_of [] = Some []" by code_simp
  from deny_violations_monotone [OF this, of "[]" "[]"] show ?thesis by auto
qed

subsection \<open>The wire contract\<close>










text \<open>An enabled metric that names an event is an output of the event.\<close>

lemma httpEventHasOutput_by_metric:
  assumes "get event ''eventName'' = Str name" "name \<noteq> []" "\<exists>ob. event = Obj ob"
    and "m \<in> set (array (fld policy ''eventMetricPolicies''))"
    and "get m ''enabled'' = Bool True" "get m ''eventName'' = Str name"
  shows "httpEventHasOutput policy event"
  using assms by (auto simp: httpEventHasOutput_def has_output_def Let_def)

end
