(* ===== verification/Providers.thy ===== *)
theory Providers
  imports Comparator
begin

section \<open>Identity providers (\<open>ui/src/auth-providers.js\<close>)\<close>

text \<open>
  The forms of the identity providers: how a provider reported under several property names is
  read, what is sent back, and which drafts are valid. The origin of the page is the argument
  \<open>origin\<close>. The gate of the last definitions decides which of several requests in flight may still
  change the state.
\<close>

subsection \<open>Protocol, status and callback\<close>

definition strip_slash :: "string \<Rightarrow> string" where
  "strip_slash s = (if s \<noteq> [] \<and> last s = CHR ''/'' then butlast s else s)"

definition providerProtocol :: "jsval \<Rightarrow> string" where
  "providerProtocol provider =
     (let v = js_upper (js_trim (text_value (first_value provider [''protocol'', ''Protocol'', ''type'', ''Type'']
            (Str ''OIDC'')) ''''))
      in if js_includes v ''SAML'' \<and> \<not> js_includes v ''OIDC'' then ''SAML'' else ''OIDC'')"

definition providerStatus :: "jsval \<Rightarrow> string" where
  "providerStatus provider =
     (let explicit = js_upper (js_trim (text_value (first_value provider
            [''status'', ''Status'', ''validationStatus'', ''ValidationStatus''] (Str '''')) ''''))
      in if explicit \<in> {''VALIDATED'', ''CONFIGURED'', ''ERROR'', ''INACTIVE''} then explicit
         else if get provider ''enabled'' = Bool True \<or> get provider ''Enabled'' = Bool True \<or>
                 get provider ''configured'' = Bool True \<or> get provider ''Configured'' = Bool True
         then ''CONFIGURED'' else ''INACTIVE'')"

definition providerLoginEnabled :: "jsval \<Rightarrow> bool" where
  "providerLoginEnabled provider \<longleftrightarrow>
     (get provider ''enabled'' = Bool True \<or> get provider ''Enabled'' = Bool True) \<and>
     providerStatus provider = ''VALIDATED''"

definition callbackURL :: "jsval \<Rightarrow> string \<Rightarrow> jsval" where
  "callbackURL provider origin =
     (let configured = first_value provider
            [''callbackUrl'', ''callbackURL'', ''CallbackURL'', ''acsUrl'', ''acsURL'', ''ACSURL''] (Str '''');
          ident = encode_uri_component (js_trim (text_value (first_value provider [''id'', ''ID''] (Str '''')) ''''));
          path = (if providerProtocol provider = ''SAML'' then ''/api/auth/saml/'' @ ident @ ''/acs''
                  else ''/api/auth/oidc/'' @ ident @ ''/callback'')
      in if truthy configured then configured else Str (strip_slash origin @ path))"

subsection \<open>Role mappings\<close>

record role_mapping =
  rm_externalRole :: string
  rm_localRole :: string

definition normalizeRoleMappings :: "jsval \<Rightarrow> role_mapping list" where
  "normalizeRoleMappings v =
     (case v of
        Arr xs \<Rightarrow> map (\<lambda>mapping. \<lparr>
            rm_externalRole = text_value (first_value mapping
              [''externalRole'', ''ExternalRole'', ''external'', ''External''] (Str '''')) '''',
            rm_localRole = text_value (first_value mapping
              [''localRole'', ''LocalRole'', ''local'', ''Local''] (Str ''viewer'')) ''''\<rparr>) xs
      | Obj ob \<Rightarrow> map (\<lambda>(k, r). \<lparr>rm_externalRole = k, rm_localRole = text_value r ''''\<rparr>) ob
      | _ \<Rightarrow> [])"

record auth_provider =
  pv_id :: string
  pv_label :: string
  pv_protocol :: string
  pv_status :: string
  pv_validationMessage :: string
  pv_issuer :: string
  pv_clientId :: string
  pv_secretConfigured :: bool
  pv_credentialsUnavailable :: bool
  pv_userClaim :: string
  pv_roleClaim :: string
  pv_userAttribute :: string
  pv_roleAttribute :: string
  pv_spEntityId :: string
  pv_metadataUrl :: string
  pv_metadataXml :: string
  pv_nameIdAttribute :: string
  pv_callbackUrl :: jsval
  pv_spMetadataUrl :: string
  pv_enabled :: bool
  pv_updatedAt :: string
  pv_roleMappings :: "role_mapping list"
  pv_startUrl :: string

definition normalizeProvider :: "string \<Rightarrow> jsval \<Rightarrow> jsval \<Rightarrow> auth_provider" where
  "normalizeProvider origin provider model =
     (let txt = (\<lambda>keys. text_value (first_value provider keys (Str '''')) '''');
          flag = (\<lambda>keys. first_value provider keys (Bool False) = Bool True);
          ident = js_trim (txt [''id'', ''ID'', ''providerId'', ''ProviderID'']);
          providerMappings = js_default (js_default (js_default (js_default
            (first_value provider [''roleMappings'', ''RoleMappings''] Null)
            (get (get model ''providerRoleMappings'') ident))
            (get (get model ''roleMappingsByProvider'') ident))
            (get (get model ''roleMappings'') ident)) (Obj [])
      in \<lparr>pv_id = ident,
          pv_label = text_value (first_value provider [''label'', ''Label''] (Str ident)) '''',
          pv_protocol = providerProtocol provider,
          pv_status = providerStatus provider,
          pv_validationMessage = txt [''validationMessage'', ''ValidationMessage'', ''lastError'', ''LastError''],
          pv_issuer = txt [''issuer'', ''Issuer''],
          pv_clientId = txt [''clientId'', ''ClientID''],
          pv_secretConfigured = flag [''secretConfigured'', ''SecretConfigured''],
          pv_credentialsUnavailable = flag [''credentialsUnavailable'', ''CredentialsUnavailable''],
          pv_userClaim = text_value (first_value provider [''userClaim'', ''UserClaim''] (Str ''preferred_username'')) '''',
          pv_roleClaim = text_value (first_value provider [''roleClaim'', ''RoleClaim''] (Str ''roles'')) '''',
          pv_userAttribute = txt [''userAttribute'', ''UserAttribute''],
          pv_roleAttribute = txt [''roleAttribute'', ''RoleAttribute''],
          pv_spEntityId = txt [''spEntityId'', ''spEntityID'', ''SPEntityID''],
          pv_metadataUrl = txt [''metadataUrl'', ''metadataURL'', ''MetadataURL''],
          pv_metadataXml = txt [''metadataXml'', ''metadataXML'', ''MetadataXML''],
          pv_nameIdAttribute = txt [''nameIdAttribute'', ''nameIDAttribute'', ''NameIDAttribute''],
          pv_callbackUrl = callbackURL provider origin,
          pv_spMetadataUrl = txt [''spMetadataUrl'', ''SPMetadataURL''],
          pv_enabled = flag [''enabled'', ''Enabled''],
          pv_updatedAt = txt [''updatedAt'', ''UpdatedAt''],
          pv_roleMappings = normalizeRoleMappings providerMappings,
          pv_startUrl = txt [''startUrl'', ''StartURL'']\<rparr>)"

text \<open>The rows of the form; a missing list is \<open>[]\<close>. A missing row, or a list without \<open>map\<close>, raises.\<close>

definition role_pair :: "jsval \<Rightarrow> (string \<times> string) option" where
  "role_pair row = do {
     e \<leftarrow> getx row ''externalRole''; l \<leftarrow> getx row ''localRole'';
     Some (js_trim (text_value e ''''), js_trim (text_value l '''')) }"

definition roleMappingsPayload :: "jsval \<Rightarrow> jsobj option" where
  "roleMappingsPayload rows = do {
     xs \<leftarrow> (if rows = Undef then Some [] else receiver rows);
     pairs \<leftarrow> map_opt role_pair xs;
     Some (from_entries (map (\<lambda>(e, l). (e, Str l)) (filter (\<lambda>(e, l). e \<noteq> [] \<and> l \<noteq> []) pairs))) }"

definition trimmed :: "jsobj \<Rightarrow> string \<Rightarrow> string" where
  "trimmed draft k = js_trim (text_value (fld draft k) '''')"

definition providerPayload :: "jsobj \<Rightarrow> jsobj option" where
  "providerPayload draft = do {
     mappings \<leftarrow> roleMappingsPayload (fld draft ''roleMappings'');
     let common = [(''protocol'', fld draft ''protocol''), (''label'', Str (trimmed draft ''label'')),
           (''roleMappings'', Obj mappings)] @
           (if truthy (fld draft ''updatedAt'') then [(''expectedUpdatedAt'', fld draft ''updatedAt'')] else [])
     in Some (if fld draft ''protocol'' = Str ''SAML'' then
          obj_spread common
            [(''spEntityId'', Str (trimmed draft ''spEntityId'')), (''metadataUrl'', Str (trimmed draft ''metadataUrl'')),
             (''metadataXml'', Str (trimmed draft ''metadataXml'')),
             (''nameIdAttribute'', Str (trimmed draft ''nameIdAttribute'')),
             (''userAttribute'', Str (trimmed draft ''userAttribute'')),
             (''roleAttribute'', Str (trimmed draft ''roleAttribute''))]
        else
          obj_spread common
            [(''issuer'', Str (strip_slash (trimmed draft ''issuer''))), (''clientId'', Str (trimmed draft ''clientId'')),
             (''clientSecret'', js_or (fld draft ''clientSecret'') (Str '''')),
             (''userClaim'', Str (trimmed draft ''userClaim'')), (''roleClaim'', Str (trimmed draft ''roleClaim''))]) }"

definition require :: "bool \<Rightarrow> string \<Rightarrow> string list" where
  "require present message = (if present then [] else [message])"

definition validateProviderDraft :: "jsobj \<Rightarrow> string list option" where
  "validateProviderDraft draft = do {
     mappings \<leftarrow> roleMappingsPayload (fld draft ''roleMappings'');
     let saml = (fld draft ''protocol'' = Str ''SAML''); given = (\<lambda>k. trimmed draft k \<noteq> []) in
     Some (require (given ''label'') ((''El texto del bot'' @ [CHR 0xF3] @ ''n es obligatorio.'')) @
       require (mappings \<noteq> []) ''Agrega al menos un mapeo de rol externo a rol local.'' @
       (if saml then
          require (given ''spEntityId'') ''El SP Entity ID es obligatorio.'' @
          require (given ''metadataUrl'' \<or> given ''metadataXml'') ''Ingresa la URL o el XML de metadata del IdP.''
        else
          require (given ''issuer'') ''El issuer OIDC es obligatorio.'' @
          require (given ''clientId'') ''El client ID es obligatorio.'' @
          require (truthy (fld draft ''secretConfigured'') \<or> given ''clientSecret'') ''El client secret es obligatorio.'') @
       (if saml then
          require (given ''userAttribute'') ''El atributo de usuario es obligatorio.'' @
          require (given ''roleAttribute'') ''El atributo de roles es obligatorio.''
        else
          require (given ''userClaim'') ''El claim de usuario es obligatorio.'' @
          require (given ''roleClaim'') ''El claim de roles es obligatorio.'')) }"

subsection \<open>The gate of the latest request\<close>

text \<open>\<open>createLatestRequestGate\<close>: its state is the generation; \<open>begin\<close> returns the new one.\<close>

definition gate_init :: nat where
  "gate_init = 0"

definition gate_begin :: "nat \<Rightarrow> nat \<times> nat" where
  "gate_begin generation = (generation + 1, generation + 1)"

definition gate_invalidate :: "nat \<Rightarrow> nat" where
  "gate_invalidate generation = generation + 1"

definition gate_isCurrent :: "nat \<Rightarrow> nat \<Rightarrow> bool" where
  "gate_isCurrent generation candidate \<longleftrightarrow> candidate = generation"

declare strip_slash_def [js_eval] providerProtocol_def [js_eval] providerStatus_def [js_eval]
  providerLoginEnabled_def [js_eval] callbackURL_def [js_eval] normalizeRoleMappings_def [js_eval]
  normalizeProvider_def [js_eval] roleMappingsPayload_def [js_eval] trimmed_def [js_eval]
  providerPayload_def [js_eval] require_def [js_eval] validateProviderDraft_def [js_eval]
  gate_init_def [js_eval] gate_begin_def [js_eval] gate_invalidate_def [js_eval]
  gate_isCurrent_def [js_eval]

text \<open>What happens at a gate, and the tokens it has given out.\<close>

datatype gate_event = Begin | Invalidate

definition gate_step :: "gate_event \<Rightarrow> nat \<times> nat list \<Rightarrow> nat \<times> nat list" where
  "gate_step e = (\<lambda>(generation, tokens).
     case e of
       Begin \<Rightarrow> (let (g, token) = gate_begin generation in (g, tokens @ [token]))
     | Invalidate \<Rightarrow> (gate_invalidate generation, tokens))"

definition gate_run :: "gate_event list \<Rightarrow> nat \<times> nat list" where
  "gate_run es = fold gate_step es (gate_init, [])"

declare role_pair_def [js_eval] gate_step_def [js_eval] gate_run_def [js_eval]

lemma gate_run_snoc: "gate_run (es @ [e]) = gate_step e (gate_run es)"
  by (simp add: gate_run_def)

lemma gate_tokens:
  "distinct (snd (gate_run es)) \<and> (\<forall>t\<in>set (snd (gate_run es)). t \<le> fst (gate_run es)) \<and>
   length (snd (gate_run es)) = length (filter (\<lambda>e. e = Begin) es)"
proof (induction es rule: rev_induct)
  case Nil
  then show ?case by (simp add: gate_run_def)
next
  case (snoc e es)
  obtain g ts where "gate_run es = (g, ts)" by (cases "gate_run es")
  with snoc show ?case
    by (cases e) (auto simp: gate_run_snoc gate_step_def gate_begin_def gate_invalidate_def)
qed

text \<open>among the requests that ever began at a gate, the tokens are pairwise different, and the only
  one that can be current is the one that began last, as long as nothing happened at the gate since.\<close>

theorem gate_admits_only_the_latest:
  "distinct (snd (gate_run events)) \<and>
   (\<forall>token\<in>set (snd (gate_run events)).
      gate_isCurrent (fst (gate_run events)) token =
        (events \<noteq> [] \<and> last events = Begin \<and> token = last (snd (gate_run events))))"
proof (cases events rule: rev_cases)
  case Nil
  then show ?thesis by (simp add: gate_run_def)
next
  case (snoc es e)
  obtain g ts where gt: "gate_run es = (g, ts)" by (cases "gate_run es")
  then have "\<forall>t\<in>set ts. t \<le> g" using gate_tokens [of es] by simp
  then show ?thesis
    using gate_tokens [of events] gt snoc
    by (cases e) (auto simp: gate_run_snoc gate_step_def gate_begin_def gate_invalidate_def gate_isCurrent_def)
qed

theorem gate_admits_only_the_latest_witness:
  "\<not> gate_isCurrent (fst (gate_run [Begin, Begin])) 1 \<and> gate_isCurrent (fst (gate_run [Begin, Begin])) 2"
proof -
  have r: "snd (gate_run [Begin, Begin]) = [1, 2]"
    by (simp add: gate_run_def gate_step_def gate_init_def gate_begin_def)
  then have "1 \<in> set (snd (gate_run [Begin, Begin]))" "2 \<in> set (snd (gate_run [Begin, Begin]))" by simp_all
  then show ?thesis using gate_admits_only_the_latest [of "[Begin, Begin]"] unfolding r by simp
qed

subsection \<open>What a valid draft sends\<close>

lemma roleMappings_pairs:
  assumes "roleMappingsPayload rows = Some mappings"
  shows "wf_obj mappings \<and> (\<forall>(e, l)\<in>set mappings. e \<noteq> [] \<and> js_trim e = e \<and> (\<exists>r. l = Str r \<and> r \<noteq> [] \<and> js_trim r = r))"
proof -
  obtain xs pairs where p: "map_opt role_pair xs = Some pairs"
    and m: "mappings = from_entries (map (\<lambda>(e, l). (e, Str l)) (filter (\<lambda>(e, l). e \<noteq> [] \<and> l \<noteq> []) pairs))"
    using assms unfolding roleMappingsPayload_def bind_eq_Some_conv by blast
  have tr: "js_trim e = e \<and> js_trim l = l" if el: "(e, l) \<in> set pairs" for e l
  proof -
    obtain row where "role_pair row = Some (e, l)" using el map_opt_set [OF p, of "(e, l)"] by blast
    then show ?thesis by (auto simp: role_pair_def bind_eq_Some_conv)
  qed
  have "e \<noteq> [] \<and> js_trim e = e \<and> (\<exists>r. l = Str r \<and> r \<noteq> [] \<and> js_trim r = r)" if el: "(e, l) \<in> set mappings" for e l
  proof -
    have "(e, l) \<in> set (map (\<lambda>(e, l). (e, Str l)) (filter (\<lambda>(e, l). e \<noteq> [] \<and> l \<noteq> []) pairs))"
      using el unfolding m set_from_entries by (auto dest: map_of_SomeD)
    then obtain r where r: "(e, r) \<in> set pairs" "e \<noteq> []" "r \<noteq> []" "l = Str r" by auto
    then show ?thesis using tr [OF r(1)] by simp
  qed
  moreover have "wf_obj mappings" unfolding m by simp
  ultimately show ?thesis by blast
qed

text \<open>A draft with no validation error sends a label, at least one role mapping, and only mappings
  whose roles on both sides are given and trimmed; with OIDC it sends an issuer and a client, and
  with SAML an entity identifier and the metadata of the identity provider.\<close>

lemma valid_provider_draft_payload:
  assumes "validateProviderDraft draft = Some []"
  shows "\<exists>payload mappings. providerPayload draft = Some payload \<and> fld payload ''roleMappings'' = Obj mappings \<and>
    mappings \<noteq> [] \<and> fld payload ''label'' \<noteq> Str '''' \<and>
    (\<forall>(e, l)\<in>set mappings. e \<noteq> [] \<and> js_trim e = e \<and> l \<noteq> Str '''') \<and>
    (if fld draft ''protocol'' = Str ''SAML''
     then fld payload ''spEntityId'' \<noteq> Str '''' \<and> (fld payload ''metadataUrl'' \<noteq> Str '''' \<or> fld payload ''metadataXml'' \<noteq> Str '''') \<and>
          fld payload ''userAttribute'' \<noteq> Str '''' \<and> fld payload ''roleAttribute'' \<noteq> Str ''''
     else fld payload ''clientId'' \<noteq> Str '''' \<and> fld payload ''userClaim'' \<noteq> Str '''' \<and> fld payload ''roleClaim'' \<noteq> Str '''')"
proof -
  obtain m where m: "roleMappingsPayload (fld draft ''roleMappings'') = Some m"
    using assms by (auto simp: validateProviderDraft_def bind_eq_Some_conv)
  have v: "trimmed draft ''label'' \<noteq> []" "m \<noteq> []"
    "fld draft ''protocol'' = Str ''SAML'' \<Longrightarrow> trimmed draft ''spEntityId'' \<noteq> [] \<and>
       (trimmed draft ''metadataUrl'' \<noteq> [] \<or> trimmed draft ''metadataXml'' \<noteq> []) \<and>
       trimmed draft ''userAttribute'' \<noteq> [] \<and> trimmed draft ''roleAttribute'' \<noteq> []"
    "fld draft ''protocol'' \<noteq> Str ''SAML'' \<Longrightarrow> trimmed draft ''clientId'' \<noteq> [] \<and>
       trimmed draft ''userClaim'' \<noteq> [] \<and> trimmed draft ''roleClaim'' \<noteq> []"
    using assms m by (simp_all add: validateProviderDraft_def require_def Let_def split: if_splits)
  have mm: "\<forall>(e, l)\<in>set m. e \<noteq> [] \<and> js_trim e = e \<and> l \<noteq> Str ''''"
    using roleMappings_pairs [OF m] by fastforce
  show ?thesis
  proof (cases "fld draft ''protocol'' = Str ''SAML''")
    case True
    then show ?thesis
      using v(1,2) v(3) mm by (simp add: providerPayload_def m Let_def obj_spread_def fld_obj_put) (simp add: fld_def)
  next
    case False
    then show ?thesis
      using v(1,2) v(4) mm by (simp add: providerPayload_def m Let_def obj_spread_def fld_obj_put) (simp add: fld_def)
  qed
qed

lemma valid_provider_draft_payload_witness:
  "let draft = [(''protocol'', Str ''SAML''), (''label'', Str ''SSO''), (''spEntityId'', Str ''sp''), (''metadataUrl'', Str ''u''),
      (''userAttribute'', Str ''uid''), (''roleAttribute'', Str ''role''),
      (''roleMappings'', Arr [Obj [(''externalRole'', Str '' ops ''), (''localRole'', Str ''viewer'')]])]
   in \<exists>payload mappings. providerPayload draft = Some payload \<and> fld payload ''roleMappings'' = Obj mappings \<and> mappings \<noteq> []"
proof -
  let ?d = "[(''protocol'', Str ''SAML''), (''label'', Str ''SSO''), (''spEntityId'', Str ''sp''), (''metadataUrl'', Str ''u''),
      (''userAttribute'', Str ''uid''), (''roleAttribute'', Str ''role''),
      (''roleMappings'', Arr [Obj [(''externalRole'', Str '' ops ''), (''localRole'', Str ''viewer'')]])]"
  have "validateProviderDraft ?d = Some []" by code_simp
  from valid_provider_draft_payload [OF this] show ?thesis unfolding Let_def by blast
qed

end
