(* ===== verification/Account.thy ===== *)
theory Account
  imports Js_Object Providers
begin

section \<open>Accounts, permissions and email settings (\<open>ui/src/account-settings.js\<close>)\<close>

text \<open>
  What an identity may do, the payloads of the account forms and their validation. The regular
  expressions are written out as matchers. \<open>String.prototype.trim\<close> on a value that is not a string,
  and \<open>includes\<close> or \<open>some\<close> on what is not an array, raise (\<open>None\<close>).
\<close>

subsection \<open>Permissions\<close>

definition identityPermissions :: "jsval \<Rightarrow> jsval" where
  "identityPermissions identity = first_value identity [''permissions'', ''Permissions''] (Arr [])"

definition identityRoles :: "jsval \<Rightarrow> jsval" where
  "identityRoles identity = first_value identity [''roles'', ''Roles''] (Arr [])"

text \<open>\<open>a || b\<close> for tests that may raise, and \<open>permissions.includes(p) || ...\<close>.\<close>

definition or_else :: "bool option \<Rightarrow> bool option \<Rightarrow> bool option" where
  "or_else a b = do { x \<leftarrow> a; if x then Some True else b }"

definition canManageSecurity :: "jsval \<Rightarrow> bool option" where
  "canManageSecurity identity =
     (let permissions = identityPermissions identity; roles = identityRoles identity
      in or_else (val_includes permissions (Str ''*''))
        (or_else (val_includes permissions (Str ''auth.admin''))
          (do { rs \<leftarrow> receiver roles; Some (\<exists>r\<in>set rs. r = Str ''admin'' \<or> r = Str ''security-admin'') })))"

definition canManageEmail :: "jsval \<Rightarrow> bool option" where
  "canManageEmail identity =
     (let permissions = identityPermissions identity
      in or_else (val_includes permissions (Str ''*''))
        (or_else (val_includes permissions (Str ''settings.email.view''))
          (val_includes permissions (Str ''settings.email.edit''))))"

definition canEditEmail :: "jsval \<Rightarrow> bool option" where
  "canEditEmail identity =
     (let permissions = identityPermissions identity
      in or_else (val_includes permissions (Str ''*'')) (val_includes permissions (Str ''settings.email.edit'')))"

subsection \<open>Matchers\<close>

text \<open>\<open>/^[^\s@]+@[^\s@]+\.[^\s@]+$/\<close>.\<close>

definition is_email :: "string \<Rightarrow> bool" where
  "is_email s =
     (let name = takeWhile (\<lambda>c. c \<noteq> CHR ''@'') s; domain = tl (dropWhile (\<lambda>c. c \<noteq> CHR ''@'') s)
      in CHR ''@'' \<in> set s \<and> name \<noteq> [] \<and> CHR ''@'' \<notin> set domain \<and> (\<forall>c\<in>set s. \<not> is_space c) \<and>
         CHR ''.'' \<in> set (butlast (tl domain)))"

text \<open>\<open>/^[a-z0-9][a-z0-9._-]{2,63}$/\<close>.\<close>

definition is_username :: "string \<Rightarrow> bool" where
  "is_username s =
     (case s of
        [] \<Rightarrow> False
      | c # r \<Rightarrow> (is_lower_az c \<or> is_digit c) \<and> 2 \<le> length r \<and> length r \<le> 63 \<and>
          (\<forall>d\<in>set r. is_lower_az d \<or> is_digit d \<or> d \<in> {CHR ''.'', CHR ''_'', CHR ''-''}))"

text \<open>\<open>/^[A-Za-z0-9.-]+$/\<close> and \<open>/^[a-z]{2}(?:-gov)?-[a-z]+-\d$/\<close>.\<close>

definition is_host :: "string \<Rightarrow> bool" where
  "is_host s \<longleftrightarrow> s \<noteq> [] \<and>
     (\<forall>c\<in>set s. is_lower_az c \<or> is_upper_az c \<or> is_digit c \<or> c = CHR ''.'' \<or> c = CHR ''-'')"

definition is_region_parts :: "string \<Rightarrow> string \<Rightarrow> string \<Rightarrow> bool" where
  "is_region_parts country area number \<longleftrightarrow>
     length country = 2 \<and> (\<forall>c\<in>set country. is_lower_az c) \<and> area \<noteq> [] \<and> (\<forall>c\<in>set area. is_lower_az c) \<and>
     length number = 1 \<and> (\<forall>c\<in>set number. is_digit c)"

definition is_aws_region :: "string \<Rightarrow> bool" where
  "is_aws_region s =
     (case split_char CHR ''-'' s of
        [country, area, number] \<Rightarrow> is_region_parts country area number
      | [country, gov, area, number] \<Rightarrow> gov = ''gov'' \<and> is_region_parts country area number
      | _ \<Rightarrow> False)"

subsection \<open>The profile\<close>

record profile =
  pf_username :: string
  pf_firstName :: string
  pf_lastName :: string
  pf_email :: string
  pf_provider :: string
  pf_roles :: jsval
  pf_permissions :: jsval

definition normalizeProfile :: "jsval \<Rightarrow> jsval \<Rightarrow> profile" where
  "normalizeProfile profile identity =
     (let txt = (\<lambda>keys. text_value (first_value profile keys (Str '''')) '''') in
      \<lparr>pf_username = text_value (first_value profile [''username'', ''Username'']
         (first_value identity [''username'', ''Username''] (Str ''''))) '''',
       pf_firstName = txt [''firstName'', ''FirstName''],
       pf_lastName = txt [''lastName'', ''LastName''],
       pf_email = txt [''email'', ''Email''],
       pf_provider = text_value (first_value profile [''provider'', ''Provider'']
         (first_value identity [''provider'', ''Provider''] (Str ''local''))) '''',
       pf_roles = first_value profile [''roles'', ''Roles''] (identityRoles identity),
       pf_permissions = first_value profile [''permissions'', ''Permissions''] (identityPermissions identity)\<rparr>)"

record profile_payload =
  pp_firstName :: string
  pp_lastName :: string
  pp_email :: string
  pp_currentPassword :: "string option"

definition profilePayload :: "jsobj \<Rightarrow> string \<Rightarrow> profile_payload" where
  "profilePayload profile currentPassword =
     \<lparr>pp_firstName = trimmed profile ''firstName'', pp_lastName = trimmed profile ''lastName'',
      pp_email = js_lower (trimmed profile ''email''),
      pp_currentPassword = (if currentPassword = [] then None else Some currentPassword)\<rparr>"

definition name_errors :: "string \<Rightarrow> string \<Rightarrow> string list" where
  "name_errors firstName lastName =
     require (firstName \<noteq> []) ''El nombre es obligatorio.'' @
     require (lastName \<noteq> []) ''Los apellidos son obligatorios.'' @
     require (\<not> (length firstName > 120 \<or> length lastName > 120)) ''Nombre y apellidos admiten hasta 120 caracteres.''"

definition validateProfile :: "jsobj \<Rightarrow> string list" where
  "validateProfile profile =
     (let payload = profilePayload profile '''' in
      name_errors (pp_firstName payload) (pp_lastName payload) @
      require (is_email (pp_email payload)) ((''Ingresa un correo electr'' @ [CHR 0xF3] @ ''nico v'' @ [CHR 0xE1] @ ''lido.'')))"

definition validatePasswordChange :: "string \<Rightarrow> string \<Rightarrow> string \<Rightarrow> string list" where
  "validatePasswordChange currentPassword newPassword confirmPassword =
     require (currentPassword \<noteq> []) ((''Ingresa tu contrase'' @ [CHR 0xF1] @ ''a actual.'')) @
     require (\<not> length newPassword < 12) ((''La nueva contrase'' @ [CHR 0xF1] @ ''a debe tener al menos 12 caracteres.'')) @
     require (\<not> utf8_length newPassword > 72) ((''La nueva contrase'' @ [CHR 0xF1] @ ''a admite hasta 72 bytes.'')) @
     require (\<not> (newPassword \<noteq> [] \<and> newPassword = currentPassword))
       ((''La nueva contrase'' @ [CHR 0xF1] @ ''a debe ser diferente de la actual.'')) @
     require (newPassword = confirmPassword) ((''La confirmaci'' @ [CHR 0xF3] @ ''n no coincide con la nueva contrase'' @ [CHR 0xF1] @ ''a.''))"

subsection \<open>Email settings\<close>

definition smtp_defaults :: jsobj where
  "smtp_defaults = [(''host'', Str ''''), (''port'', Num (Fin 587)), (''username'', Str ''''), (''password'', Str ''''),
     (''tlsMode'', Str ''STARTTLS'')]"

definition ses_defaults :: jsobj where
  "ses_defaults = [(''region'', Str ''''), (''accessKeyId'', Str ''''), (''secretAccessKey'', Str ''''),
     (''sessionToken'', Str ''''), (''endpoint'', Str '''')]"

definition acs_defaults :: jsobj where
  "acs_defaults = [(''endpoint'', Str ''''), (''accessKey'', Str ''''), (''apiVersion'', Str ''2025-09-01'')]"

definition secret_defaults :: jsobj where
  "secret_defaults = [(''smtpPassword'', Bool False), (''awsSecretAccessKey'', Bool False),
     (''awsSessionToken'', Bool False), (''azureAccessKey'', Bool False)]"

definition emptyEmailSettings :: jsobj where
  "emptyEmailSettings =
     [(''enabled'', Bool False), (''provider'', Str ''SMTP''), (''fromName'', Str ''o11y Control Plane''),
      (''fromAddress'', Str ''''), (''smtp'', Obj smtp_defaults), (''awsSes'', Obj ses_defaults),
      (''azureAcs'', Obj acs_defaults), (''secretsConfigured'', Obj secret_defaults),
      (''credentialsUnavailable'', Bool False), (''clearSecrets'', Bool False)]"

text \<open>\<open>{ ...defaults, ...(v || {}), secret: "" }\<close>.\<close>

definition without_secrets :: "jsobj \<Rightarrow> string list \<Rightarrow> jsval \<Rightarrow> jsval" where
  "without_secrets defaults secrets v =
     Obj (obj_spread (obj_spread defaults (own_entries (js_or v (Obj [])))) (map (\<lambda>s. (s, Str '''')) secrets))"

definition normalizeEmailSettings :: "jsobj \<Rightarrow> jsobj" where
  "normalizeEmailSettings settings =
     obj_spread (obj_spread emptyEmailSettings settings)
       [(''enabled'', Bool (fld settings ''enabled'' = Bool True)),
        (''provider'', if fld settings ''provider'' \<in> {Str ''SMTP'', Str ''AWS_SES'', Str ''AZURE_ACS''}
           then fld settings ''provider'' else Str ''SMTP''),
        (''smtp'', without_secrets smtp_defaults [''password''] (fld settings ''smtp'')),
        (''awsSes'', without_secrets ses_defaults [''secretAccessKey'', ''sessionToken''] (fld settings ''awsSes'')),
        (''azureAcs'', without_secrets acs_defaults [''accessKey''] (fld settings ''azureAcs'')),
        (''secretsConfigured'', Obj (obj_spread secret_defaults (own_entries (js_or (fld settings ''secretsConfigured'') (Obj []))))),
        (''credentialsUnavailable'', Bool (fld settings ''credentialsUnavailable'' = Bool True)),
        (''clearSecrets'', Bool (fld settings ''credentialsUnavailable'' = Bool True \<or> fld settings ''clearSecrets'' = Bool True))]"

record email_payload =
  ep_enabled :: jsval
  ep_provider :: jsval
  ep_fromName :: string
  ep_fromAddress :: string
  ep_smtp_host :: string
  ep_smtp_port :: jsnum
  ep_smtp_username :: string
  ep_smtp_password :: string
  ep_smtp_tlsMode :: jsval
  ep_ses_region :: string
  ep_ses_accessKeyId :: string
  ep_ses_secretAccessKey :: string
  ep_ses_sessionToken :: string
  ep_ses_endpoint :: string
  ep_acs_endpoint :: string
  ep_acs_accessKey :: string
  ep_acs_apiVersion :: string
  ep_expectedUpdatedAt :: "jsval option"
  ep_clearSecrets :: bool

fun trim_x :: "jsval \<Rightarrow> string option" where
  "trim_x (Str s) = Some (js_trim s)"
| "trim_x _ = None"

definition emailSettingsPayload :: "jsobj \<Rightarrow> email_payload option" where
  "emailSettingsPayload settings =
     (let n = normalizeEmailSettings settings;
          smtp = fld n ''smtp''; ses = fld n ''awsSes''; acs = fld n ''azureAcs'' in do {
        fromName \<leftarrow> trim_x (fld n ''fromName'');
        fromAddress \<leftarrow> trim_x (fld n ''fromAddress'');
        host \<leftarrow> trim_x (get smtp ''host'');
        username \<leftarrow> trim_x (get smtp ''username'');
        region \<leftarrow> trim_x (get ses ''region'');
        accessKeyId \<leftarrow> trim_x (get ses ''accessKeyId'');
        sesEndpoint \<leftarrow> trim_x (get ses ''endpoint'');
        acsEndpoint \<leftarrow> trim_x (get acs ''endpoint'');
        apiVersion \<leftarrow> trim_x (get acs ''apiVersion'');
        Some \<lparr>ep_enabled = fld n ''enabled'', ep_provider = fld n ''provider'', ep_fromName = fromName,
          ep_fromAddress = js_lower fromAddress,
          ep_smtp_host = host, ep_smtp_port = num_or (to_num (get smtp ''port'')) (Fin 0), ep_smtp_username = username,
          ep_smtp_password = text_value (get (fld settings ''smtp'') ''password'') '''',
          ep_smtp_tlsMode = get smtp ''tlsMode'',
          ep_ses_region = region, ep_ses_accessKeyId = accessKeyId,
          ep_ses_secretAccessKey = text_value (get (fld settings ''awsSes'') ''secretAccessKey'') '''',
          ep_ses_sessionToken = text_value (get (fld settings ''awsSes'') ''sessionToken'') '''',
          ep_ses_endpoint = sesEndpoint,
          ep_acs_endpoint = acsEndpoint, ep_acs_accessKey = text_value (get (fld settings ''azureAcs'') ''accessKey'') '''',
          ep_acs_apiVersion = apiVersion,
          ep_expectedUpdatedAt = (if truthy (fld settings ''updatedAt'') then Some (fld settings ''updatedAt'') else None),
          ep_clearSecrets = (fld settings ''clearSecrets'' = Bool True)\<rparr> })"

definition smtp_errors :: "email_payload \<Rightarrow> jsval \<Rightarrow> string list" where
  "smtp_errors p preserved =
     (let kept = truthy (get preserved ''smtpPassword''); user = (ep_smtp_username p \<noteq> []); pass = (ep_smtp_password p \<noteq> [])
      in require (is_host (ep_smtp_host p)) ((''Ingresa un host SMTP v'' @ [CHR 0xE1] @ ''lido.'')) @
         require (\<not> (num_lt (ep_smtp_port p) (Fin 1) \<or> num_lt (Fin 65535) (ep_smtp_port p)))
           ''El puerto SMTP debe estar entre 1 y 65535.'' @
         require (\<not> (user \<and> \<not> pass \<and> \<not> kept)) ((''La contrase'' @ [CHR 0xF1] @ ''a SMTP es obligatoria.'')) @
         require (\<not> (\<not> user \<and> (pass \<or> kept)))
           ((''Ingresa el usuario SMTP o elimina tambi'' @ [CHR 0xE9] @ ''n su contrase'' @ [CHR 0xF1] @ ''a guardada.'')) @
         require (\<not> (ep_smtp_tlsMode p = Str ''NONE'' \<and>
             js_lower (ep_smtp_host p) \<notin> {''localhost'', ''127.0.0.1'', ''::1''}))
           ((''SMTP sin TLS s'' @ [CHR 0xF3] @ ''lo se permite para pruebas locales.'')))"

definition ses_errors :: "email_payload \<Rightarrow> jsval \<Rightarrow> string list" where
  "ses_errors p preserved =
     require (is_aws_region (ep_ses_region p)) ((''Ingresa una regi'' @ [CHR 0xF3] @ ''n v'' @ [CHR 0xE1] @ ''lida de AWS SES.'')) @
     require (ep_ses_accessKeyId p \<noteq> []) ''El access key ID de AWS es obligatorio.'' @
     require (ep_ses_secretAccessKey p \<noteq> [] \<or> truthy (get preserved ''awsSecretAccessKey''))
       ''El secret access key de AWS es obligatorio.''"

definition acs_errors :: "email_payload \<Rightarrow> jsval \<Rightarrow> string list" where
  "acs_errors p preserved =
     require (ep_acs_endpoint p \<noteq> []) ''El endpoint de Azure ACS es obligatorio.'' @
     require (ep_acs_accessKey p \<noteq> [] \<or> truthy (get preserved ''azureAccessKey''))
       ''La access key de Azure ACS es obligatoria.'' @
     require (ep_acs_apiVersion p = ''2025-09-01'') ''La API version de Azure ACS debe ser 2025-09-01.''"

definition preservedSecrets :: "jsobj \<Rightarrow> jsval" where
  "preservedSecrets settings =
     (if truthy (fld settings ''clearSecrets'') then Obj [] else js_or (fld settings ''secretsConfigured'') (Obj []))"

definition validateEmailSettings :: "jsobj \<Rightarrow> string list option" where
  "validateEmailSettings settings = do {
     p \<leftarrow> emailSettingsPayload settings;
     let preserved = preservedSecrets settings in
     Some (if \<not> truthy (ep_enabled p) then [] else
       require (ep_fromName p \<noteq> []) ''El nombre del remitente es obligatorio.'' @
       require (\<not> length (ep_fromName p) > 128) ''El nombre del remitente admite hasta 128 caracteres.'' @
       require (is_email (ep_fromAddress p)) ((''Ingresa una direcci'' @ [CHR 0xF3] @ ''n de remitente v'' @ [CHR 0xE1] @ ''lida.'')) @
       (if ep_provider p = Str ''SMTP'' then smtp_errors p preserved else []) @
       (if ep_provider p = Str ''AWS_SES'' then ses_errors p preserved else []) @
       (if ep_provider p = Str ''AZURE_ACS'' then acs_errors p preserved else [])) }"

subsection \<open>Users\<close>

record user_account =
  ua_username :: string
  ua_firstName :: string
  ua_lastName :: string
  ua_email :: string
  ua_roles :: jsval
  ua_active :: bool
  ua_root :: bool
  ua_createdAt :: jsval
  ua_updatedAt :: jsval
  ua_revision :: jsnum

definition normalizeUser :: "jsval \<Rightarrow> user_account" where
  "normalizeUser user =
     (let txt = (\<lambda>keys. text_value (first_value user keys (Str '''')) '''') in
      \<lparr>ua_username = txt [''username'', ''Username''], ua_firstName = txt [''firstName'', ''FirstName''],
       ua_lastName = txt [''lastName'', ''LastName''], ua_email = txt [''email'', ''Email''],
       ua_roles = first_value user [''roles'', ''Roles''] (Arr []),
       ua_active = (first_value user [''active'', ''Active''] (Bool True) \<noteq> Bool False),
       ua_root = (first_value user [''root'', ''Root''] (Bool False) = Bool True),
       ua_createdAt = first_value user [''createdAt'', ''CreatedAt''] (Str ''''),
       ua_updatedAt = first_value user [''updatedAt'', ''UpdatedAt''] (Str ''''),
       ua_revision = num_or (to_num (first_value user [''revision'', ''Revision''] (Num (Fin 0)))) (Fin 0)\<rparr>)"

record user_payload =
  up_username :: string
  up_firstName :: string
  up_lastName :: string
  up_email :: string
  up_roles :: "jsval list"
  up_active :: bool
  up_password :: "string option"
  up_revision :: "jsnum option"

definition userPayload :: "jsobj \<Rightarrow> bool \<Rightarrow> user_payload" where
  "userPayload user includePassword =
     \<lparr>up_username = js_lower (trimmed user ''username''), up_firstName = trimmed user ''firstName'',
      up_lastName = trimmed user ''lastName'', up_email = js_lower (trimmed user ''email''),
      up_roles = filter truthy (array (fld user ''roles'')), up_active = (fld user ''active'' \<noteq> Bool False),
      up_password = (if includePassword then Some (text_value (fld user ''password'') '''') else None),
      up_revision = (if includePassword then None else Some (num_or (to_num (fld user ''revision'')) (Fin 0)))\<rparr>"

definition validateUser :: "jsobj \<Rightarrow> bool \<Rightarrow> string list" where
  "validateUser user includePassword =
     (let p = userPayload user includePassword in
      require (is_username (up_username p))
        ((''El usuario debe tener entre 3 y 64 caracteres: min'' @ [CHR 0xFA] @ ''sculas, n'' @ [CHR 0xFA] @ ''meros, punto, guion o guion bajo.'')) @
      name_errors (up_firstName p) (up_lastName p) @
      require (is_email (up_email p)) ((''Ingresa un correo electr'' @ [CHR 0xF3] @ ''nico v'' @ [CHR 0xE1] @ ''lido.'')) @
      require (up_roles p \<noteq> []) ''Asigna al menos un rol.'' @
      (case up_revision p of
         Some r \<Rightarrow> require (num_lt (Fin 0) r)
           ((''Recarga el usuario antes de guardar para obtener su revisi'' @ [CHR 0xF3] @ ''n actual.''))
       | None \<Rightarrow> []) @
      (case up_password p of
         Some w \<Rightarrow> require (\<not> (length w < 12 \<or> utf8_length w > 72))
           ((''La contrase'' @ [CHR 0xF1] @ ''a inicial debe tener al menos 12 caracteres y hasta 72 bytes.''))
       | None \<Rightarrow> []))"

declare identityPermissions_def [js_eval] identityRoles_def [js_eval] or_else_def [js_eval]
  canManageSecurity_def [js_eval] canManageEmail_def [js_eval] canEditEmail_def [js_eval]
  is_email_def [js_eval] is_username_def [js_eval] is_host_def [js_eval]
  is_region_parts_def [js_eval] is_aws_region_def [js_eval] normalizeProfile_def [js_eval]
  profilePayload_def [js_eval] name_errors_def [js_eval] validateProfile_def [js_eval]
  validatePasswordChange_def [js_eval] smtp_defaults_def [js_eval] ses_defaults_def [js_eval]
  acs_defaults_def [js_eval] secret_defaults_def [js_eval] emptyEmailSettings_def [js_eval]
  without_secrets_def [js_eval] normalizeEmailSettings_def [js_eval]
  emailSettingsPayload_def [js_eval] smtp_errors_def [js_eval] ses_errors_def [js_eval]
  acs_errors_def [js_eval] preservedSecrets_def [js_eval] validateEmailSettings_def [js_eval]
  normalizeUser_def [js_eval] userPayload_def [js_eval] validateUser_def [js_eval]

end
