(* ===== verification/Account_Props.thy ===== *)
theory Account_Props
  imports Account
begin

section \<open>Properties of accounts and email settings\<close>

subsection \<open>Permissions\<close>

text \<open>whoever may edit the email settings may see them, and the permission for everything gives both
  and the management of security, whatever the roles are.\<close>

theorem email_permissions_are_nested:
  "(if canEditEmail identity = Some True then canManageEmail identity = Some True else True) \<and>
   (if Str ''*'' \<in> set (array (identityPermissions identity))
    then canEditEmail identity = Some True \<and> canManageEmail identity = Some True \<and> canManageSecurity identity = Some True
    else True)"
proof -
  have "canManageEmail identity = Some True" if "canEditEmail identity = Some True"
    using that
    by (cases "identityPermissions identity")
      (auto simp: canEditEmail_def canManageEmail_def or_else_def Let_def split: if_splits)
  moreover have "val_includes v (Str ''*'') = Some True" if "Str ''*'' \<in> set (array v)" for v
    using that by (cases v) auto
  ultimately show ?thesis
    by (simp add: canEditEmail_def canManageEmail_def canManageSecurity_def or_else_def Let_def)
qed

subsection \<open>Matchers\<close>

lemma no_dot_split:
  "CHR ''.'' \<in> set (butlast (tl d)) \<longleftrightarrow> (\<exists>a b. d = a @ ''.'' @ b \<and> a \<noteq> [] \<and> b \<noteq> [])"
proof
  assume "CHR ''.'' \<in> set (butlast (tl d))"
  then obtain u v where uv: "butlast (tl d) = u @ CHR ''.'' # v" by (auto simp: in_set_conv_decomp)
  then have "tl d \<noteq> []" by auto
  then have "tl d = (u @ CHR ''.'' # v) @ [last (tl d)]" using uv by (metis append_butlast_last_id)
  moreover have "d \<noteq> []" using \<open>tl d \<noteq> []\<close> by auto
  ultimately have "d = (hd d # u) @ ''.'' @ (v @ [last (tl d)])" by (metis append.assoc append_Cons append_Nil list.collapse)
  then show "\<exists>a b. d = a @ ''.'' @ b \<and> a \<noteq> [] \<and> b \<noteq> []" by blast
next
  assume "\<exists>a b. d = a @ ''.'' @ b \<and> a \<noteq> [] \<and> b \<noteq> []"
  then obtain a b where "d = a @ ''.'' @ b" "a \<noteq> []" "b \<noteq> []" by blast
  then show "CHR ''.'' \<in> set (butlast (tl d))" by (cases a) (auto simp: butlast_append)
qed

lemma email_splits:
  assumes e: "is_email s"
  shows "\<exists>name a b. s = name @ ''@'' @ a @ ''.'' @ b \<and> name \<noteq> [] \<and> a \<noteq> [] \<and> b \<noteq> [] \<and>
     (\<forall>c\<in>set name \<union> set a \<union> set b. \<not> is_space c \<and> c \<noteq> CHR ''@'')"
proof -
  let ?P = "\<lambda>c. c \<noteq> CHR ''@''"
  obtain d where d: "dropWhile ?P s = CHR ''@'' # d"
  proof (cases "dropWhile ?P s")
    case Nil
    then show ?thesis using e by (auto simp: is_email_def dropWhile_eq_Nil_conv Let_def)
  next
    case (Cons c d)
    have "c = CHR ''@''" using Cons dropWhile_eq_Cons_conv [of ?P s c d] by simp
    with Cons that show ?thesis by simp
  qed
  have s: "s = takeWhile ?P s @ ''@'' @ d" using d by (metis append_Cons append_Nil takeWhile_dropWhile_id)
  obtain a b where ab: "d = a @ ''.'' @ b" "a \<noteq> []" "b \<noteq> []"
    using e no_dot_split by (auto simp: is_email_def d Let_def)
  have "\<forall>c\<in>set (takeWhile ?P s). c \<noteq> CHR ''@''" by (auto dest: set_takeWhileD)
  moreover have "\<forall>c\<in>set s. \<not> is_space c" "takeWhile ?P s \<noteq> []" "CHR ''@'' \<notin> set d"
    using e by (simp_all add: is_email_def d Let_def)
  ultimately have q: "\<forall>c\<in>set s. \<not> is_space c" "takeWhile ?P s \<noteq> []" "CHR ''@'' \<notin> set d"
    and n: "\<forall>c\<in>set (takeWhile ?P s). c \<noteq> CHR ''@''" by blast+
  have "set s = set (takeWhile ?P s @ dropWhile ?P s)" by (simp only: takeWhile_dropWhile_id)
  then have "set s = set (takeWhile ?P s) \<union> insert (CHR ''@'') (set d)" by (simp only: d set_append list.set)
  then have sub: "set (takeWhile ?P s) \<subseteq> set s" "set d \<subseteq> set s" by blast+
  have sub': "set a \<subseteq> set d" "set b \<subseteq> set d" using ab(1) by auto
  have "s = takeWhile ?P s @ ''@'' @ a @ ''.'' @ b" using s unfolding ab(1) .
  moreover have "\<forall>c\<in>set (takeWhile ?P s) \<union> set a \<union> set b. \<not> is_space c \<and> c \<noteq> CHR ''@''"
  proof (rule ballI, elim UnE)
    fix c assume "c \<in> set (takeWhile ?P s)"
    then show "\<not> is_space c \<and> c \<noteq> CHR ''@''" using q(1) n sub(1) by (simp add: subset_iff)
  next
    fix c assume "c \<in> set a"
    then have "c \<in> set d" using sub'(1) by (rule subsetD [rotated])
    then show "\<not> is_space c \<and> c \<noteq> CHR ''@''" using q(1,3) subsetD [OF sub(2)] by fast
  next
    fix c assume "c \<in> set b"
    then have "c \<in> set d" using sub'(2) by (rule subsetD [rotated])
    then show "\<not> is_space c \<and> c \<noteq> CHR ''@''" using q(1,3) subsetD [OF sub(2)] by fast
  qed
  ultimately show "\<exists>name a b. s = name @ ''@'' @ a @ ''.'' @ b \<and> name \<noteq> [] \<and> a \<noteq> [] \<and> b \<noteq> [] \<and>
     (\<forall>c\<in>set name \<union> set a \<union> set b. \<not> is_space c \<and> c \<noteq> CHR ''@'')"
    using q(2) ab(2,3) by (intro exI conjI)
qed

lemma email_of_parts:
  assumes s: "s = name @ ''@'' @ a @ ''.'' @ b" "name \<noteq> []" "a \<noteq> []" "b \<noteq> []"
    and g: "\<forall>c\<in>set name \<union> set a \<union> set b. \<not> is_space c \<and> c \<noteq> CHR ''@''"
  shows "is_email s"
proof -
  let ?P = "\<lambda>c. c \<noteq> CHR ''@''"
  have t: "takeWhile ?P (name @ CHR ''@'' # r) = name" "dropWhile ?P (name @ CHR ''@'' # r) = CHR ''@'' # r" for r
  proof -
    have "\<forall>c\<in>set name. c \<noteq> CHR ''@''" using g by simp
    then show "takeWhile ?P (name @ CHR ''@'' # r) = name" "dropWhile ?P (name @ CHR ''@'' # r) = CHR ''@'' # r"
      by (induction name) simp_all
  qed
  have sp: "\<not> is_space CHR ''@''" "\<not> is_space CHR ''.''" by code_simp+
  have dot: "CHR ''.'' \<in> set (butlast (tl (a @ ''.'' @ b)))" using no_dot_split s(3,4) by blast
  have "\<forall>c\<in>set s. \<not> is_space c" using g sp by (simp add: s(1) ball_Un)
  moreover have "CHR ''@'' \<notin> set (a @ ''.'' @ b)" using g by auto
  ultimately show ?thesis
    using s(2) dot t [of "a @ ''.'' @ b"] by (simp add: is_email_def Let_def s(1))
qed

text \<open>the matcher of addresses accepts exactly the strings of the regular expression: a name, an at
  sign and a domain with a dot inside, without white space or another at sign.\<close>

theorem is_email_matches_pattern:
  "is_email s \<longleftrightarrow> (\<exists>name a b. s = name @ ''@'' @ a @ ''.'' @ b \<and> name \<noteq> [] \<and> a \<noteq> [] \<and> b \<noteq> [] \<and>
     (\<forall>c\<in>set name \<union> set a \<union> set b. \<not> is_space c \<and> c \<noteq> CHR ''@''))"
  by (intro iffI, erule email_splits) (elim exE conjE, rule email_of_parts)

theorem is_email_matches_pattern_witness:
  "is_email ''ana@x.pe''"
proof -
  have "''ana@x.pe'' = ''ana'' @ ''@'' @ ''x'' @ ''.'' @ ''pe'' \<and> ''ana'' \<noteq> [] \<and> ''x'' \<noteq> [] \<and> ''pe'' \<noteq> [] \<and>
    (\<forall>c\<in>set ''ana'' \<union> set ''x'' \<union> set ''pe''. \<not> is_space c \<and> c \<noteq> CHR ''@'')"
    by (intro conjI) code_simp+
  then show ?thesis unfolding is_email_matches_pattern by (intro exI)
qed

subsection \<open>Secrets\<close>

text \<open>The settings kept by the form never hold a secret: the password, the secret access key, the
  session token and the access key of the normalised settings are empty whatever was received, and
  when the stored credentials are unavailable they are marked to be cleared.\<close>

lemma normalized_settings_hold_no_secret:
  "get (fld (normalizeEmailSettings settings) ''smtp'') ''password'' = Str '''' \<and>
   get (fld (normalizeEmailSettings settings) ''awsSes'') ''secretAccessKey'' = Str '''' \<and>
   get (fld (normalizeEmailSettings settings) ''awsSes'') ''sessionToken'' = Str '''' \<and>
   get (fld (normalizeEmailSettings settings) ''azureAcs'') ''accessKey'' = Str '''' \<and>
   (fld (normalizeEmailSettings settings) ''credentialsUnavailable'' = Bool False \<or>
      fld (normalizeEmailSettings settings) ''clearSecrets'' = Bool True)"
  by (simp add: normalizeEmailSettings_def without_secrets_def obj_spread_def fld_obj_put)

text \<open>enabled settings without an error can be delivered: there is a sender with a valid address, and
  the chosen provider has its endpoint and a credential, typed now or kept from before; SMTP without
  TLS is accepted only for the local host.\<close>

theorem valid_email_settings_are_complete:
  assumes "validateEmailSettings settings = Some []" and "fld settings ''enabled'' = Bool True"
  shows "\<exists>p. emailSettingsPayload settings = Some p \<and> ep_fromName p \<noteq> [] \<and> length (ep_fromName p) \<le> 128 \<and>
    is_email (ep_fromAddress p) \<and>
    (if ep_provider p = Str ''SMTP'' then is_host (ep_smtp_host p) \<and>
       (ep_smtp_username p = [] \<or> ep_smtp_password p \<noteq> [] \<or> truthy (get (preservedSecrets settings) ''smtpPassword'')) \<and>
       (ep_smtp_tlsMode p = Str ''NONE'' \<longrightarrow> js_lower (ep_smtp_host p) \<in> {''localhost'', ''127.0.0.1'', ''::1''})
     else if ep_provider p = Str ''AWS_SES'' then is_aws_region (ep_ses_region p) \<and> ep_ses_accessKeyId p \<noteq> [] \<and>
       (ep_ses_secretAccessKey p \<noteq> [] \<or> truthy (get (preservedSecrets settings) ''awsSecretAccessKey''))
     else ep_acs_endpoint p \<noteq> [] \<and> (ep_acs_accessKey p \<noteq> [] \<or> truthy (get (preservedSecrets settings) ''azureAccessKey'')))"
proof -
  obtain p where p: "emailSettingsPayload settings = Some p"
    using assms(1) by (auto simp: validateEmailSettings_def bind_eq_Some_conv)
  have e: "ep_enabled p = fld (normalizeEmailSettings settings) ''enabled''"
    "ep_provider p = fld (normalizeEmailSettings settings) ''provider''"
    using p unfolding emailSettingsPayload_def Let_def bind_eq_Some_conv by fastforce+
  have en: "truthy (ep_enabled p)"
    unfolding e by (simp add: normalizeEmailSettings_def obj_spread_def fld_obj_put assms(2))
  have pr: "ep_provider p \<in> {Str ''SMTP'', Str ''AWS_SES'', Str ''AZURE_ACS''}"
    unfolding e by (simp add: normalizeEmailSettings_def obj_spread_def fld_obj_put)
  have "require (ep_fromName p \<noteq> []) ''El nombre del remitente es obligatorio.'' = [] \<and>
      require (\<not> length (ep_fromName p) > 128) ''El nombre del remitente admite hasta 128 caracteres.'' = [] \<and>
      is_email (ep_fromAddress p) \<and>
      (ep_provider p = Str ''SMTP'' \<longrightarrow> smtp_errors p (preservedSecrets settings) = []) \<and>
      (ep_provider p = Str ''AWS_SES'' \<longrightarrow> ses_errors p (preservedSecrets settings) = []) \<and>
      (ep_provider p = Str ''AZURE_ACS'' \<longrightarrow> acs_errors p (preservedSecrets settings) = [])"
    using assms(1) en by (simp add: validateEmailSettings_def p Let_def require_def split: if_splits)
  then show ?thesis
    using p pr by (intro exI [of _ p])
      (auto simp: require_def smtp_errors_def ses_errors_def acs_errors_def Let_def split: if_splits)
qed

theorem valid_email_settings_are_complete_witness:
  "\<exists>p. emailSettingsPayload [(''enabled'', Bool True), (''fromAddress'', Str ''a@b.c''), (''smtp'', Obj [(''host'', Str ''mail'')])] = Some p \<and>
     is_email (ep_fromAddress p)"
proof -
  let ?s = "[(''enabled'', Bool True), (''fromAddress'', Str ''a@b.c''), (''smtp'', Obj [(''host'', Str ''mail'')])]"
  have "validateEmailSettings ?s = Some []" by code_simp
  moreover have "fld ?s ''enabled'' = Bool True" by code_simp
  ultimately show ?thesis using valid_email_settings_are_complete by blast
qed

subsection \<open>Passwords and users\<close>

text \<open>a change of password is accepted exactly when the current one is given, the new one has at least
  12 characters and at most 72 bytes, differs from the current one and is confirmed; the bytes bound
  the characters.\<close>

theorem validatePasswordChange_accepts:
  "(validatePasswordChange current new confirmation = [] \<longleftrightarrow>
     current \<noteq> [] \<and> 12 \<le> length new \<and> utf8_length new \<le> 72 \<and> new \<noteq> current \<and> confirmation = new) \<and>
   (if validatePasswordChange current new confirmation = [] then length new \<le> 72 else True)"
  using utf8_length_bounds(1) [of new] by (auto simp: validatePasswordChange_def require_def)

text \<open>a user without an error is sent with a name of 3 to 64 characters that is already in lower case,
  with given names of at most 120 characters, an address, a role, and a password of 12 to 72 bytes
  for a new user or a positive revision for an existing one.\<close>

theorem valid_user_payload:
  assumes "validateUser user isNew = []"
  shows "3 \<le> length (up_username (userPayload user isNew)) \<and> length (up_username (userPayload user isNew)) \<le> 64 \<and>
    js_lower (up_username (userPayload user isNew)) = up_username (userPayload user isNew) \<and>
    up_firstName (userPayload user isNew) \<noteq> [] \<and> length (up_firstName (userPayload user isNew)) \<le> 120 \<and>
    is_email (up_email (userPayload user isNew)) \<and> up_roles (userPayload user isNew) \<noteq> [] \<and>
    (if isNew then \<exists>w. up_password (userPayload user isNew) = Some w \<and> 12 \<le> length w \<and> utf8_length w \<le> 72
     else \<exists>r. up_revision (userPayload user isNew) = Some r \<and> num_lt (Fin 0) r)"
proof -
  have u: "3 \<le> length n \<and> length n \<le> 64" if "is_username n" for n
    using that by (cases n) (auto simp: is_username_def)
  show ?thesis
    using assms u [of "up_username (userPayload user isNew)"] unfolding validateUser_def Let_def
    by (cases isNew) (simp_all add: userPayload_def require_def name_errors_def split: if_splits)
qed

theorem valid_user_payload_witness:
  "3 \<le> length (up_username (userPayload [(''username'', Str '' Ana.Q''), (''firstName'', Str ''A''), (''lastName'', Str ''Q''),
     (''email'', Str ''a@b.c''), (''roles'', Arr [Str ''viewer'']), (''revision'', Num (Fin 2))] False))"
proof -
  have "validateUser [(''username'', Str '' Ana.Q''), (''firstName'', Str ''A''), (''lastName'', Str ''Q''),
     (''email'', Str ''a@b.c''), (''roles'', Arr [Str ''viewer'']), (''revision'', Num (Fin 2))] False = []" by code_simp
  then show ?thesis using valid_user_payload by blast
qed

end
