(* ===== verification/Network.thy ===== *)
theory Network
  imports Account
begin

section \<open>Network settings (\<open>ui/src/network-settings.js\<close>)\<close>

text \<open>
  What the network page shows: the settings received are normalised to known shapes before they
  are displayed. Lemmas: the normalised settings are well formed whatever was received, and
  normalising them again changes nothing.
\<close>

definition stringValue :: "jsval \<Rightarrow> string" where
  "stringValue v = (if nullish v then [] else js_trim (to_str v))"

definition uniqueStrings :: "jsval \<Rightarrow> string list" where
  "uniqueStrings v =
     (if \<not> is_array v then [] else nub (filter (\<lambda>s. s \<noteq> []) (map stringValue (array v))))"

definition canViewNetwork :: "jsval \<Rightarrow> bool option" where
  "canViewNetwork identity =
     (let permissions = identityPermissions identity
      in or_else (val_includes permissions (Str ''*'')) (val_includes permissions (Str ''agents.view'')))"

record network_settings =
  ns_publicUrl :: string
  ns_publicUrlSource :: jsval
  ns_opampPublicUrl :: string
  ns_trustedProxyCidrs :: "string list"
  ns_proxyMode :: string
  ns_httpListenAddress :: string
  ns_opampListenAddress :: string
  ns_subpathSupported :: bool
  ns_publicUrlValid :: bool

definition publicUrlSources :: "jsval list" where
  "publicUrlSources = [Str ''SERVER_PUBLIC_URL'', Str ''AUTH_PUBLIC_URL'', Str ''request'']"

definition normalizeNetworkSettings :: "jsobj \<Rightarrow> network_settings" where
  "normalizeNetworkSettings payload =
     \<lparr>ns_publicUrl = stringValue (fld payload ''publicUrl''),
      ns_publicUrlSource =
        (if fld payload ''publicUrlSource'' \<in> set publicUrlSources then fld payload ''publicUrlSource''
         else Str ''request''),
      ns_opampPublicUrl = stringValue (fld payload ''opampPublicUrl''),
      ns_trustedProxyCidrs = uniqueStrings (fld payload ''trustedProxyCidrs''),
      ns_proxyMode = (if fld payload ''proxyMode'' = Str ''TRUSTED'' then ''TRUSTED'' else ''DIRECT''),
      ns_httpListenAddress = stringValue (fld payload ''httpListenAddress''),
      ns_opampListenAddress = stringValue (fld payload ''opampListenAddress''),
      ns_subpathSupported = (fld payload ''subpathSupported'' = Bool True),
      ns_publicUrlValid = (fld payload ''publicUrlValid'' = Bool True)\<rparr>"

record source_details =
  sd_label :: string
  sd_detail :: string
  sd_legacy :: bool

definition publicUrlSourceDetails :: "jsval \<Rightarrow> source_details" where
  "publicUrlSourceDetails source =
     (if source = Str ''SERVER_PUBLIC_URL'' then
        \<lparr>sd_label = ''SERVER_PUBLIC_URL'', sd_detail = (''Configuraci'' @ [CHR 0xF3] @ ''n actual recomendada.''), sd_legacy = False\<rparr>
      else if source = Str ''AUTH_PUBLIC_URL'' then
        \<lparr>sd_label = ''AUTH_PUBLIC_URL'', sd_detail = ''Variable heredada mantenida por compatibilidad.'',
         sd_legacy = True\<rparr>
      else \<lparr>sd_label = ''Solicitud entrante'', sd_detail = (''Fallback calculado desde la petici'' @ [CHR 0xF3] @ ''n actual.''),
         sd_legacy = False\<rparr>)"

definition proxyModeDetails :: "jsval \<Rightarrow> string \<times> string" where
  "proxyModeDetails mode =
     (if mode = Str ''TRUSTED''
      then (''Proxy confiable'', (''Los headers forwarded s'' @ [CHR 0xF3] @ ''lo se aceptan desde los CIDR configurados.''))
      else (''Acceso directo'', (''La URL p'' @ [CHR 0xFA] @ ''blica no depende de headers forwarded del proxy.'')))"

subsection \<open>The normalised settings\<close>

text \<open>The settings as the object the page keeps in its state.\<close>

definition network_object :: "network_settings \<Rightarrow> jsobj" where
  "network_object n =
     [(''publicUrl'', Str (ns_publicUrl n)), (''publicUrlSource'', ns_publicUrlSource n),
      (''opampPublicUrl'', Str (ns_opampPublicUrl n)),
      (''trustedProxyCidrs'', Arr (map Str (ns_trustedProxyCidrs n))),
      (''proxyMode'', Str (ns_proxyMode n)), (''httpListenAddress'', Str (ns_httpListenAddress n)),
      (''opampListenAddress'', Str (ns_opampListenAddress n)),
      (''subpathSupported'', Bool (ns_subpathSupported n)), (''publicUrlValid'', Bool (ns_publicUrlValid n))]"

lemma stringValue_trimmed [simp]: "js_trim (stringValue v) = stringValue v"
  by (simp add: stringValue_def)

lemma stringValue_Str [simp]: "stringValue (Str s) = js_trim s"
  by (simp add: stringValue_def nullish_def)

lemma uniqueStrings_spec:
  "distinct (uniqueStrings v)" "s \<in> set (uniqueStrings v) \<Longrightarrow> s \<noteq> [] \<and> js_trim s = s"
  by (auto simp: uniqueStrings_def split: if_splits)

lemma uniqueStrings_idem [simp]: "uniqueStrings (Arr (map Str (uniqueStrings v))) = uniqueStrings v"
proof -
  have "map stringValue (map Str (uniqueStrings v)) = uniqueStrings v"
    using uniqueStrings_spec(2) by (simp add: map_idI)
  moreover have "filter (\<lambda>s. s \<noteq> []) (uniqueStrings v) = uniqueStrings v"
    using uniqueStrings_spec(2) by (simp add: filter_id_conv)
  ultimately show ?thesis
    using uniqueStrings_spec(1) by (simp add: uniqueStrings_def [of "Arr _"] nub_distinct)
qed

text \<open>the network page shows only settings of a known shape: a known source of the URL, a known proxy
  mode, and the trusted networks without blanks or repetitions; and normalising what it already
  keeps changes nothing.\<close>

theorem normalizeNetworkSettings_is_idempotent:
  "ns_publicUrlSource (normalizeNetworkSettings p) \<in> {Str ''SERVER_PUBLIC_URL'', Str ''AUTH_PUBLIC_URL'', Str ''request''} \<and>
   ns_proxyMode (normalizeNetworkSettings p) \<in> {''TRUSTED'', ''DIRECT''} \<and>
   distinct (ns_trustedProxyCidrs (normalizeNetworkSettings p)) \<and>
   [] \<notin> set (ns_trustedProxyCidrs (normalizeNetworkSettings p)) \<and>
   normalizeNetworkSettings (network_object (normalizeNetworkSettings p)) = normalizeNetworkSettings p"
  using uniqueStrings_spec
  by (auto simp: normalizeNetworkSettings_def network_object_def fld_def publicUrlSources_def)

declare stringValue_def [js_eval] uniqueStrings_def [js_eval] canViewNetwork_def [js_eval]
  publicUrlSources_def [js_eval] normalizeNetworkSettings_def [js_eval]
  publicUrlSourceDetails_def [js_eval] proxyModeDetails_def [js_eval] network_object_def [js_eval]

end
