(* ===== verification/Draft.thy ===== *)
theory Draft
  imports Js_Object
begin

section \<open>The stored draft, units and selectors\<close>

text \<open>
  \<open>ui/src/policy-draft.js\<close>: the draft of the policy editor in the browser's storage. A storage is
  given by the key it maps, by whether it can be used at all (a browser in private mode raises on
  every call) and by a quota; \<open>None\<close> is a missing storage. \<open>JSON.parse\<close> and \<open>JSON.stringify\<close> are
  parameters of the functions that use them, with the hypothesis, where needed, that parsing inverts
  printing; a parameter returns \<open>None\<close> where it raises.

  \<open>ui/src/metric-unit.js\<close>: how a unit is displayed.
\<close>

subsection \<open>The storage\<close>

record web_storage =
  ws_usable :: bool
  ws_quota :: nat
  ws_items :: "(string \<times> string) list"

definition policyDraftStorageKey :: string where
  "policyDraftStorageKey = ''o11y.policy-studio.draft.v2''"

fun item_put :: "string \<Rightarrow> string \<Rightarrow> (string \<times> string) list \<Rightarrow> (string \<times> string) list" where
  "item_put k v [] = [(k, v)]"
| "item_put k v ((k', v') # r) = (if k = k' then (k, v) # r else (k', v') # item_put k v r)"

text \<open>\<open>getItem\<close>, \<open>setItem\<close> and \<open>removeItem\<close>; \<open>None\<close> is an exception.\<close>

definition get_item :: "web_storage \<Rightarrow> string \<Rightarrow> string option option" where
  "get_item s k = (if ws_usable s then Some (map_of (ws_items s) k) else None)"

definition set_item :: "web_storage \<Rightarrow> string \<Rightarrow> string \<Rightarrow> web_storage option" where
  "set_item s k v =
     (if ws_usable s \<and> length v \<le> ws_quota s then Some (s\<lparr>ws_items := item_put k v (ws_items s)\<rparr>) else None)"

definition remove_item :: "web_storage \<Rightarrow> string \<Rightarrow> web_storage option" where
  "remove_item s k =
     (if ws_usable s then Some (s\<lparr>ws_items := filter (\<lambda>(k', _). k' \<noteq> k) (ws_items s)\<rparr>) else None)"

lemma map_of_item_put [simp]: "map_of (item_put k v xs) = (map_of xs)(k \<mapsto> v)"
  by (induction xs) auto

lemma map_of_removed [simp]: "map_of (filter (\<lambda>(k', _). k' \<noteq> k) xs) = (map_of xs)(k := None)"
  by (induction xs) auto

subsection \<open>The draft\<close>

definition readPolicyDraft :: "(string \<Rightarrow> jsval option) \<Rightarrow> web_storage option \<Rightarrow> jsval" where
  "readPolicyDraft json_parse storage =
     (let stored = (case storage of None \<Rightarrow> Some None | Some s \<Rightarrow> get_item s policyDraftStorageKey) in
      case stored of
        None \<Rightarrow> Null
      | Some item \<Rightarrow>
          (case json_parse (case item of Some t \<Rightarrow> if t = [] then ''null'' else t | None \<Rightarrow> ''null'') of
             None \<Rightarrow> Null
           | Some value \<Rightarrow> if is_object value \<and> \<not> is_array value then value else Null))"

text \<open>The result and the storage afterwards; a missing storage counts as written.\<close>

definition writePolicyDraft ::
  "(jsval \<Rightarrow> string option) \<Rightarrow> web_storage option \<Rightarrow> jsval \<Rightarrow> bool \<times> web_storage option" where
  "writePolicyDraft json_print storage draft =
     (case storage of
        None \<Rightarrow> (True, None)
      | Some s \<Rightarrow>
          (case Option.bind (json_print draft) (set_item s policyDraftStorageKey) of
             None \<Rightarrow> (False, Some s)
           | Some s' \<Rightarrow> (True, Some s')))"

definition clearPolicyDraft :: "web_storage option \<Rightarrow> web_storage option" where
  "clearPolicyDraft storage =
     (case storage of
        None \<Rightarrow> None
      | Some s \<Rightarrow> (case remove_item s policyDraftStorageKey of None \<Rightarrow> Some s | Some s' \<Rightarrow> Some s'))"

subsection \<open>Units\<close>

text \<open>\<open>/^\{([^{}]+)\}$/\<close>: an annotation of the unit, shown without its braces.\<close>

definition annotation_of :: "string \<Rightarrow> string option" where
  "annotation_of s =
     (let inner = butlast (tl s) in
      if 2 < length s \<and> hd s = CHR 0x7B \<and> last s = CHR 0x7D \<and> CHR 0x7B \<notin> set inner \<and> CHR 0x7D \<notin> set inner
      then Some inner else None)"

definition displayMetricUnit :: "jsval \<Rightarrow> string" where
  "displayMetricUnit unit =
     (let normalized = js_trim (to_str (if unit = Undef then Str '''' else unit))
      in (case annotation_of normalized of Some inner \<Rightarrow> inner | None \<Rightarrow> normalized))"

subsection \<open>Properties\<close>

lemma is_plain_object: "is_object v \<and> \<not> is_array v \<longleftrightarrow> (\<exists>ob. v = Obj ob)"
  by (cases v) auto

text \<open>a draft that was written is read back as it was, in whatever storage that accepted it; a storage
  that refuses keeps what it held, and what is read is an object or nothing.\<close>

theorem policy_draft_roundtrip:
  assumes parse: "\<And>v t. json_print v = Some t \<Longrightarrow> t \<noteq> [] \<and> json_parse t = Some v"
    and wrote: "writePolicyDraft json_print (Some s) (Obj draft) = (accepted, s')"
  shows "(if accepted then readPolicyDraft json_parse s' = Obj draft
          else s' = Some s) \<and>
         (readPolicyDraft json_parse s' = Null \<or> (\<exists>ob. readPolicyDraft json_parse s' = Obj ob))"
proof -
  have "accepted \<Longrightarrow> readPolicyDraft json_parse s' = Obj draft"
  proof -
    assume "accepted"
    then obtain t where t: "json_print (Obj draft) = Some t" "set_item s policyDraftStorageKey t = s'" "s' \<noteq> None"
      using wrote by (auto simp: writePolicyDraft_def bind_eq_Some_conv split: option.splits)
    then show ?thesis
      using parse [OF t(1)] by (auto simp: readPolicyDraft_def set_item_def get_item_def split: if_splits)
  qed
  moreover have "\<not> accepted \<Longrightarrow> s' = Some s"
    using wrote by (auto simp: writePolicyDraft_def split: option.splits)
  moreover have "readPolicyDraft json_parse s' = Null \<or> (\<exists>ob. readPolicyDraft json_parse s' = Obj ob)"
    by (auto simp: readPolicyDraft_def Let_def is_plain_object split: option.splits)
  ultimately show ?thesis by simp
qed

text \<open>A printer and a parser that satisfy the hypothesis: empty drafts only.\<close>

definition print_empty :: "jsval \<Rightarrow> string option" where
  "print_empty v = (if v = Obj [] then Some ''{}'' else None)"

definition parse_empty :: "string \<Rightarrow> jsval option" where
  "parse_empty s = (if s = ''{}'' then Some (Obj []) else None)"

theorem policy_draft_roundtrip_witness:
  "\<exists>s'. writePolicyDraft print_empty (Some \<lparr>ws_usable = True, ws_quota = 10, ws_items = []\<rparr>) (Obj []) = (True, s') \<and>
     readPolicyDraft parse_empty s' = Obj []"
proof -
  let ?s = "\<lparr>ws_usable = True, ws_quota = 10, ws_items = []\<rparr>"
  have p: "t \<noteq> [] \<and> parse_empty t = Some v" if "print_empty v = Some t" for v t
    using that by (auto simp: print_empty_def parse_empty_def split: if_splits)
  have "fst (writePolicyDraft print_empty (Some ?s) (Obj []))" by code_simp
  then obtain s' where w: "writePolicyDraft print_empty (Some ?s) (Obj []) = (True, s')"
    by (metis (full_types) prod.collapse)
  show ?thesis
    using w policy_draft_roundtrip [OF p w] by auto
qed

text \<open>The braces of an annotation disappear, and nothing else of a unit changes.\<close>

lemma displayMetricUnit_annotation:
  assumes "inner \<noteq> []" "CHR 0x7B \<notin> set inner" "CHR 0x7D \<notin> set inner"
  shows "annotation_of (CHR 0x7B # inner @ [CHR 0x7D]) = Some inner"
  using assms by (cases inner) (auto simp: annotation_of_def butlast_append)

lemma annotation_of_Some:
  assumes "annotation_of s = Some inner"
  shows "s = CHR 0x7B # inner @ [CHR 0x7D]"
proof -
  have "2 < length s" "hd s = CHR 0x7B" "last s = CHR 0x7D" "inner = butlast (tl s)"
    using assms by (auto simp: annotation_of_def Let_def split: if_splits)
  have "2 < length s" using assms by (auto simp: annotation_of_def Let_def split: if_splits)
  then obtain c d r where "s = c # d # r" by (cases s rule: remdups_adj.cases) auto
  then obtain c r where s: "s = c # r" "r \<noteq> []" by blast
  then have "c = CHR 0x7B" "last r = CHR 0x7D" "inner = butlast r"
    using \<open>hd s = _\<close> \<open>last s = _\<close> \<open>inner = _\<close> by simp_all
  moreover have "r = butlast r @ [last r]" using s(2) by simp
  ultimately show ?thesis by (simp add: s(1))
qed

declare policyDraftStorageKey_def [js_eval] get_item_def [js_eval] set_item_def [js_eval]
  remove_item_def [js_eval] readPolicyDraft_def [js_eval] writePolicyDraft_def [js_eval]
  clearPolicyDraft_def [js_eval] annotation_of_def [js_eval] displayMetricUnit_def [js_eval]
  print_empty_def [js_eval] parse_empty_def [js_eval]

end
