(* ===== verification/Effective_Config.thy ===== *)
theory Effective_Config
  imports Js_Value
begin

section \<open>The effective configuration of a Collector (\<open>ui/src/collector-effective-config.js\<close>)\<close>

text \<open>
  The configuration a Collector reports is offered as a draft after the parts its Supervisor adds
  are taken out. The code edits the text line by line: it looks for a nested mapping by indentation
  and removes lines, in place, from an array. Here the array is a list of lines; a block is the
  range of lines of a mapping. Loops over an index are recursive functions with the distance to the
  bound as measure. Indices are always in range where a line is read.
\<close>

subsection \<open>Blocks\<close>

definition yamlIndent :: "string \<Rightarrow> nat" where
  "yamlIndent line = length (takeWhile is_space line)"

record yaml_block =
  yb_start :: nat
  yb_end :: nat
  yb_indent :: nat

definition belongs_below :: "nat \<Rightarrow> string \<Rightarrow> bool" where
  "belongs_below indent line \<longleftrightarrow> js_trim line = [] \<or> indent < yamlIndent line"

function block_end :: "string list \<Rightarrow> nat \<Rightarrow> nat \<Rightarrow> nat \<Rightarrow> nat" where
  "block_end lines searchEnd indent e =
     (if e < searchEnd \<and> belongs_below indent (lines ! e) then block_end lines searchEnd indent (Suc e) else e)"
  by pat_completeness auto
termination by (relation "measure (\<lambda>(lines, searchEnd, indent, e). searchEnd - e)") auto

declare block_end.simps [simp del]

text \<open>The indentation of the parent starts at -1; the limit passed here is one more than it.\<close>

definition opens_key :: "string \<Rightarrow> nat \<Rightarrow> string \<Rightarrow> bool" where
  "opens_key key lo line \<longleftrightarrow>
     js_trim line \<noteq> [] \<and> \<not> starts_with (trim_start line) ''#'' \<and> lo \<le> yamlIndent line \<and> js_trim line = key @ '':''"

function find_key :: "string list \<Rightarrow> nat \<Rightarrow> nat \<Rightarrow> string \<Rightarrow> nat \<Rightarrow> yaml_block option" where
  "find_key lines searchEnd lo key i =
     (if searchEnd \<le> i then None
      else if opens_key key lo (lines ! i)
      then Some \<lparr>yb_start = i, yb_end = block_end lines searchEnd (yamlIndent (lines ! i)) (Suc i),
                 yb_indent = yamlIndent (lines ! i)\<rparr>
      else find_key lines searchEnd lo key (Suc i))"
  by pat_completeness auto
termination by (relation "measure (\<lambda>(lines, searchEnd, lo, key, i). searchEnd - i)") auto

declare find_key.simps [simp del]

fun find_path :: "string list \<Rightarrow> nat \<Rightarrow> nat \<Rightarrow> nat \<Rightarrow> string list \<Rightarrow> yaml_block option \<Rightarrow> yaml_block option" where
  "find_path lines searchStart searchEnd lo [] block = block"
| "find_path lines searchStart searchEnd lo (key # path) block =
     (case find_key lines searchEnd lo key searchStart of
        None \<Rightarrow> None
      | Some b \<Rightarrow> find_path lines (Suc (yb_start b)) (yb_end b) (Suc (yb_indent b)) path (Some b))"

definition yamlMappingBlock :: "string list \<Rightarrow> string list \<Rightarrow> yaml_block option" where
  "yamlMappingBlock lines path = find_path lines 0 (length lines) 0 path None"

subsection \<open>Removals\<close>

definition cut_out :: "nat \<Rightarrow> nat \<Rightarrow> 'a list \<Rightarrow> 'a list" where
  "cut_out start count xs = take start xs @ drop (start + count) xs"

definition removeYamlMappingPath :: "string list \<Rightarrow> string list \<Rightarrow> bool \<times> string list" where
  "removeYamlMappingPath path lines =
     (case yamlMappingBlock lines path of
        None \<Rightarrow> (False, lines)
      | Some block \<Rightarrow> (True, cut_out (yb_start block) (yb_end block - yb_start block) lines))"

text \<open>The loop from the last line of the block down to the one after its key.\<close>

fun remove_below :: "string \<Rightarrow> nat \<Rightarrow> nat \<Rightarrow> bool \<times> string list \<Rightarrow> bool \<times> string list" where
  "remove_below wanted start 0 (removed, lines) = (removed, lines)"
| "remove_below wanted start (Suc n) (removed, lines) =
     remove_below wanted start n
       (if js_trim (lines ! (start + Suc n)) = wanted then (True, cut_out (start + Suc n) 1 lines)
        else (removed, lines))"

definition remove_in_block :: "string list \<Rightarrow> string \<Rightarrow> string list \<Rightarrow> bool \<times> string list" where
  "remove_in_block path wanted lines =
     (case yamlMappingBlock lines path of
        None \<Rightarrow> (False, lines)
      | Some block \<Rightarrow> remove_below wanted (yb_start block) (yb_end block - 1 - yb_start block) (False, lines))"

definition removeYamlListValue :: "string list \<Rightarrow> string \<Rightarrow> string list \<Rightarrow> bool \<times> string list" where
  "removeYamlListValue path v = remove_in_block path (''- '' @ v)"

definition removeYamlNullKey :: "string list \<Rightarrow> string \<Rightarrow> string list \<Rightarrow> bool \<times> string list" where
  "removeYamlNullKey path key = remove_in_block path (key @ '': null'')"

subsection \<open>The sanitised document\<close>

fun unix_newlines :: "string \<Rightarrow> string" where
  "unix_newlines [] = []"
| "unix_newlines (c # s) =
     (if c = CHR 0x0D \<and> s \<noteq> [] \<and> hd s = CHR 0x0A then unix_newlines s else c # unix_newlines s)"

definition removals :: "(string \<times> (string list \<Rightarrow> bool \<times> string list)) list" where
  "removals =
     [(''service.telemetry.resource'', removeYamlMappingPath [''service'', ''telemetry'', ''resource'']),
      (''extensions.opamp'', removeYamlMappingPath [''extensions'', ''opamp'']),
      (''service.extensions[opamp]'', removeYamlListValue [''service'', ''extensions''] ''opamp''),
      (''extensions.health_check.http=null'', removeYamlNullKey [''extensions'', ''health_check''] ''http''),
      (''extensions.health_check.grpc=null'', removeYamlNullKey [''extensions'', ''health_check''] ''grpc'')]"

fun run_removals :: "(string \<times> (string list \<Rightarrow> bool \<times> string list)) list \<Rightarrow> string list \<Rightarrow> string list \<times> string list" where
  "run_removals [] lines = ([], lines)"
| "run_removals ((name, remove) # rest) lines =
     (let (done_one, lines') = remove lines; (removed, lines'') = run_removals rest lines'
      in (if done_one then name # removed else removed, lines''))"

record sanitized =
  sz_body :: string
  sz_removed :: "string list"

definition document_lines :: "jsval \<Rightarrow> string list" where
  "document_lines body = split_char (CHR 0x0A) (unix_newlines (str_or body ''''))"

definition sanitizeEffectiveCollectorConfig :: "jsval \<Rightarrow> sanitized" where
  "sanitizeEffectiveCollectorConfig body =
     (let (removed, lines) = run_removals removals (document_lines body)
      in \<lparr>sz_body = trim_end (js_join [CHR 0x0A] lines) @ [CHR 0x0A], sz_removed = removed\<rparr>)"

subsection \<open>An identifier for the draft\<close>

definition slug_char :: "char \<Rightarrow> bool" where
  "slug_char c \<longleftrightarrow> is_lower_az c \<or> is_digit c"

text \<open>\<open>replace(/[^a-z0-9]+/g, "-")\<close>: the flag says that the previous character was replaced.\<close>

fun hyphenate :: "bool \<Rightarrow> string \<Rightarrow> string" where
  "hyphenate replaced [] = []"
| "hyphenate replaced (c # s) =
     (if slug_char c then c # hyphenate False s
      else if replaced then hyphenate True s
      else CHR ''-'' # hyphenate True s)"

definition strip_hyphens :: "string \<Rightarrow> string" where
  "strip_hyphens s =
     (let a = (if s \<noteq> [] \<and> hd s = CHR ''-'' then tl s else s)
      in if a \<noteq> [] \<and> last a = CHR ''-'' then butlast a else a)"

definition slug :: "jsval \<Rightarrow> string" where
  "slug v = strip_hyphens (hyphenate False (js_lower (str_or v '''')))"

definition without_supervisor :: "string \<Rightarrow> string" where
  "without_supervisor s = (if ends_with s ''-supervisor'' then take (length s - 11) s else s)"

definition collectorConfigId :: "jsval \<Rightarrow> string" where
  "collectorConfigId agent =
     (let cluster = slug (get (get agent ''Attributes'') ''k8s.cluster.name'');
          role = slug (get (get agent ''Attributes'') ''collector.role'');
          service = without_supervisor (slug (get agent ''Service''))
      in js_join ''-'' (nub (filter (\<lambda>v. v \<noteq> [])
           [if cluster \<noteq> [] then cluster else if service \<noteq> [] then service else ''collector'',
            if role \<noteq> [] then role else ''config'', ''config''])))"

subsection \<open>What a block is\<close>

definition line_range :: "string list \<Rightarrow> nat \<Rightarrow> nat \<Rightarrow> nat \<Rightarrow> nat \<Rightarrow> bool" where
  "line_range ls searchEnd ind from to \<longleftrightarrow> from \<le> to \<and> to \<le> searchEnd \<and>
     (\<forall>i\<in>{from..<to}. belongs_below ind (ls ! i)) \<and> (to = searchEnd \<or> \<not> belongs_below ind (ls ! to))"

lemma block_end_range: "e \<le> searchEnd \<Longrightarrow> line_range ls searchEnd ind e (block_end ls searchEnd ind e)"
proof (induction ls searchEnd ind e rule: block_end.induct)
  case (1 ls searchEnd ind e)
  show ?case
  proof (cases "e < searchEnd \<and> belongs_below ind (ls ! e)")
    case True
    then have "block_end ls searchEnd ind e = block_end ls searchEnd ind (Suc e)"
      by (subst block_end.simps) simp
    moreover have "line_range ls searchEnd ind (Suc e) (block_end ls searchEnd ind (Suc e))"
      using 1 True by simp
    ultimately show ?thesis
      using True by (auto simp: line_range_def Suc_le_eq)
  next
    case False
    then have "block_end ls searchEnd ind e = e" by (subst block_end.simps) auto
    then show ?thesis using False 1(2) by (auto simp: line_range_def)
  qed
qed

lemma find_key_spec:
  "find_key ls searchEnd lo key i = Some b \<Longrightarrow> i \<le> yb_start b \<and> yb_start b < searchEnd \<and>
     opens_key key lo (ls ! yb_start b) \<and> (\<forall>j\<in>{i..<yb_start b}. \<not> opens_key key lo (ls ! j)) \<and>
     yb_indent b = yamlIndent (ls ! yb_start b) \<and>
     line_range ls searchEnd (yb_indent b) (Suc (yb_start b)) (yb_end b)"
proof (induction ls searchEnd lo key i rule: find_key.induct)
  case (1 ls searchEnd lo key i)
  have lt: "i < searchEnd" using 1(2) by (subst (asm) find_key.simps) (simp split: if_splits)
  show ?case
  proof (cases "opens_key key lo (ls ! i)")
    case True
    then have "b = \<lparr>yb_start = i, yb_end = block_end ls searchEnd (yamlIndent (ls ! i)) (Suc i), yb_indent = yamlIndent (ls ! i)\<rparr>"
      using 1(2) lt by (subst (asm) find_key.simps) simp
    then show ?thesis using True lt block_end_range [of "Suc i" searchEnd] by simp
  next
    case False
    then have "find_key ls searchEnd lo key (Suc i) = Some b"
      using 1(2) lt by (subst (asm) find_key.simps) simp
    from 1(1) [OF _ False this] lt have "Suc i \<le> yb_start b \<and> yb_start b < searchEnd \<and> opens_key key lo (ls ! yb_start b) \<and>
        (\<forall>j\<in>{Suc i..<yb_start b}. \<not> opens_key key lo (ls ! j)) \<and> yb_indent b = yamlIndent (ls ! yb_start b) \<and>
        line_range ls searchEnd (yb_indent b) (Suc (yb_start b)) (yb_end b)"
      by linarith
    moreover have "\<forall>j\<in>{i..<yb_start b}. \<not> opens_key key lo (ls ! j)"
      using calculation False by (metis atLeastLessThan_iff le_neq_implies_less Suc_leI)
    ultimately show ?thesis by (blast dest: Suc_leD)
  qed
qed

text \<open>A block of a path lies inside the document, opens with the last key of the path, and is followed,
  inside the block of its parent, by a line that is not below it.\<close>

definition is_block :: "string list \<Rightarrow> string \<Rightarrow> yaml_block \<Rightarrow> bool" where
  "is_block ls key b \<longleftrightarrow> yb_start b < yb_end b \<and> yb_end b \<le> length ls \<and>
     js_trim (ls ! yb_start b) = key @ '':'' \<and> yb_indent b = yamlIndent (ls ! yb_start b) \<and>
     (\<forall>i. yb_start b < i \<and> i < yb_end b \<longrightarrow> belongs_below (yb_indent b) (ls ! i))"

lemma find_path_block:
  assumes "find_path ls s e lo path b0 = Some b" "path \<noteq> []" "e \<le> length ls"
  shows "is_block ls (last path) b"
  using assms
proof (induction path arbitrary: s e lo b0)
  case (Cons key path)
  then obtain b1 where b1: "find_key ls e lo key s = Some b1"
    "find_path ls (Suc (yb_start b1)) (yb_end b1) (Suc (yb_indent b1)) path (Some b1) = Some b"
    by (auto split: option.splits)
  note k = find_key_spec [OF b1(1)]
  then have "yb_end b1 \<le> length ls" using Cons.prems(3) by (auto simp: line_range_def)
  show ?case
  proof (cases path)
    case Nil
    then show ?thesis
      using k b1 \<open>yb_end b1 \<le> length ls\<close> by (auto simp: is_block_def line_range_def opens_key_def)
  next
    case (Cons k2 p2)
    then show ?thesis using Cons.IH [OF b1(2)] \<open>yb_end b1 \<le> length ls\<close> by simp
  qed
qed simp

lemma yamlMappingBlock_is_block:
  "yamlMappingBlock ls path = Some b \<Longrightarrow> is_block ls (last path) b"
  using find_path_block [of ls 0 "length ls" 0 path None b] by (cases "path = []") (auto simp: yamlMappingBlock_def)

subsection \<open>What a removal does\<close>

lemma subseq_cut_out: "subseq (cut_out start count xs) xs"
proof -
  have "subseq (drop (start + count) xs) (drop start xs)"
    by (metis add.commute drop_drop suffix_drop suffix_imp_subseq)
  then have "subseq (take start xs @ drop (start + count) xs) (take start xs @ drop start xs)"
    by (intro list_emb_append_mono) simp_all
  then show ?thesis by (simp add: cut_out_def)
qed

text \<open>The removal of a mapping takes out exactly the lines of its block; the removal of lines inside a
  block takes out exactly the lines of it that read as wanted.\<close>

lemma remove_below_filter:
  "start + n < length ls \<Longrightarrow> remove_below wanted start n (r, ls) =
     (r \<or> (\<exists>l\<in>set (take n (drop (Suc start) ls)). js_trim l = wanted),
      take (Suc start) ls @ filter (\<lambda>l. js_trim l \<noteq> wanted) (take n (drop (Suc start) ls)) @ drop (Suc (start + n)) ls)"
proof (induction n arbitrary: r ls)
  case 0
  then show ?case by simp
next
  case (Suc n)
  let ?k = "Suc (start + n)"
  have nth: "take (Suc n) (drop (Suc start) xs) = take n (drop (Suc start) xs) @ [xs ! ?k]"
    if "?k < length xs" for xs :: "string list"
    using that by (simp add: take_Suc_conv_app_nth)
  show ?case
  proof (cases "js_trim (ls ! ?k) = wanted")
    case True
    let ?m = "cut_out ?k (Suc 0) ls"
    have m: "take (Suc start) ?m = take (Suc start) ls" "take n (drop (Suc start) ?m) = take n (drop (Suc start) ls)"
      "drop (Suc (start + n)) ?m = drop (Suc ?k) ls" "start + n < length ?m"
      using Suc.prems by (simp_all add: cut_out_def drop_take min_def) arith
    show ?thesis using True Suc.IH [OF m(4)] Suc.prems by (simp add: m nth)
  next
    case False
    have "drop (Suc (start + n)) ls = ls ! ?k # drop (Suc ?k) ls"
      using Suc.prems by (metis Cons_nth_drop_Suc add_Suc_right)
    then show ?thesis using False Suc.IH [of ls r] Suc.prems by (simp add: nth)
  qed
qed

definition removed_range :: "string list \<Rightarrow> nat \<Rightarrow> nat \<Rightarrow> string list" where
  "removed_range ls from to = take (to - from) (drop from ls)"

lemma remove_mapping_spec:
  "removeYamlMappingPath path ls = (done_one, ls') \<Longrightarrow>
    (if done_one then \<exists>b. yamlMappingBlock ls path = Some b \<and> is_block ls (last path) b \<and>
       ls = take (yb_start b) ls @ removed_range ls (yb_start b) (yb_end b) @ drop (yb_end b) ls \<and>
       ls' = take (yb_start b) ls @ drop (yb_end b) ls
     else yamlMappingBlock ls path = None \<and> ls' = ls)"
proof (cases "yamlMappingBlock ls path")
  case (Some b)
  moreover assume "removeYamlMappingPath path ls = (done_one, ls')"
  moreover note yamlMappingBlock_is_block [OF Some]
  ultimately show ?thesis
    by (auto simp: removeYamlMappingPath_def cut_out_def removed_range_def is_block_def)
      (metis append_take_drop_id drop_drop le_add_diff_inverse2 less_imp_le)
qed (auto simp: removeYamlMappingPath_def)

lemma remove_in_block_spec:
  assumes "remove_in_block path wanted ls = (done_one, ls')"
  shows "(case yamlMappingBlock ls path of
      None \<Rightarrow> \<not> done_one \<and> ls' = ls
    | Some b \<Rightarrow> (let inner = removed_range ls (Suc (yb_start b)) (yb_end b) in
        done_one = (\<exists>l\<in>set inner. js_trim l = wanted) \<and>
        ls' = take (Suc (yb_start b)) ls @ filter (\<lambda>l. js_trim l \<noteq> wanted) inner @ drop (yb_end b) ls))"
proof (cases "yamlMappingBlock ls path")
  case (Some b)
  then have b: "yb_start b < yb_end b" "yb_end b \<le> length ls"
    using yamlMappingBlock_is_block [OF Some] by (auto simp: is_block_def)
  let ?n = "yb_end b - 1 - yb_start b"
  have e: "Suc (yb_start b + ?n) = yb_end b" "yb_start b + ?n < length ls" using b by auto
  show ?thesis
    using assms remove_below_filter [OF e(2), of wanted False] unfolding e(1)
    by (simp add: remove_in_block_def Some removed_range_def Let_def)
qed (use assms in \<open>auto simp: remove_in_block_def\<close>)

definition only_removes :: "(string list \<Rightarrow> bool \<times> string list) \<Rightarrow> bool" where
  "only_removes f \<longleftrightarrow> (\<forall>ls. subseq (snd (f ls)) ls \<and> (fst (f ls) \<longleftrightarrow> snd (f ls) \<noteq> ls))"

lemma mapping_only_removes: "only_removes (removeYamlMappingPath path)"
  unfolding only_removes_def
proof
  fix ls
  obtain d ls' where r: "removeYamlMappingPath path ls = (d, ls')" by (cases "removeYamlMappingPath path ls")
  note sp = remove_mapping_spec [OF r]
  show "subseq (snd (removeYamlMappingPath path ls)) ls \<and>
      (fst (removeYamlMappingPath path ls) \<longleftrightarrow> snd (removeYamlMappingPath path ls) \<noteq> ls)"
  proof (cases d)
    case True
    with sp obtain b where b: "is_block ls (last path) b" "ls' = take (yb_start b) ls @ drop (yb_end b) ls"
      by auto
    then have "ls' = cut_out (yb_start b) (yb_end b - yb_start b) ls" "length ls' < length ls"
      by (auto simp: cut_out_def is_block_def)
    then show ?thesis using True r subseq_cut_out by auto
  next
    case False
    then show ?thesis using sp r by simp
  qed
qed

lemma inner_only_removes: "only_removes (remove_in_block path wanted)"
  unfolding only_removes_def
proof
  fix ls
  obtain d ls' where r: "remove_in_block path wanted ls = (d, ls')" by (cases "remove_in_block path wanted ls")
  note sp = remove_in_block_spec [OF r]
  show "subseq (snd (remove_in_block path wanted ls)) ls \<and>
      (fst (remove_in_block path wanted ls) \<longleftrightarrow> snd (remove_in_block path wanted ls) \<noteq> ls)"
  proof (cases "yamlMappingBlock ls path")
    case None
    then show ?thesis using sp r by simp
  next
    case (Some b)
    let ?inner = "removed_range ls (Suc (yb_start b)) (yb_end b)"
    have "is_block ls (last path) b" using Some by (rule yamlMappingBlock_is_block)
    then have "Suc (yb_start b) \<le> yb_end b" by (simp add: is_block_def)
    then have whole: "ls = take (Suc (yb_start b)) ls @ ?inner @ drop (yb_end b) ls"
      by (simp add: removed_range_def) (metis append_take_drop_id drop_drop le_add_diff_inverse2)
    have ls': "ls' = take (Suc (yb_start b)) ls @ filter (\<lambda>l. js_trim l \<noteq> wanted) ?inner @ drop (yb_end b) ls"
      and d: "d \<longleftrightarrow> (\<exists>l\<in>set ?inner. js_trim l = wanted)"
      using sp Some by (simp_all add: Let_def)
    have "subseq ls' ls"
      unfolding ls' by (subst (4) whole) (intro list_emb_append_mono subseq_filter_left subseq_order.order_refl)
    moreover have "d \<longleftrightarrow> ls' \<noteq> ls"
      using d unfolding ls' by (subst (4) whole) (simp add: filter_id_conv)
    ultimately show ?thesis using r by simp
  qed
qed

lemma run_only_removes:
  assumes "\<forall>(name, f)\<in>set rs. only_removes f" "run_removals rs ls = (removed, ls')"
  shows "subseq ls' ls \<and> subseq removed (map fst rs) \<and> (removed = [] \<longleftrightarrow> ls' = ls)"
  using assms
proof (induction rs arbitrary: ls removed)
  case (Cons r rs)
  obtain name f where r: "r = (name, f)" by (cases r)
  obtain d l1 where f: "f ls = (d, l1)" by (cases "f ls")
  obtain rem where run: "run_removals rs l1 = (rem, ls')" "removed = (if d then name # rem else rem)"
    using Cons.prems(2) by (auto simp: r f Let_def split: prod.splits)
  have one: "subseq l1 ls" "d \<longleftrightarrow> l1 \<noteq> ls"
    using Cons.prems(1) f by (auto simp: r only_removes_def) (metis fst_conv snd_conv)+
  have rest: "subseq ls' l1" "subseq rem (map fst rs)" "rem = [] \<longleftrightarrow> ls' = l1"
    using Cons.IH [OF _ run(1)] Cons.prems(1) by auto
  have "subseq ls' ls" using one rest subseq_order.order_trans by blast
  moreover have "d \<Longrightarrow> ls' \<noteq> ls" using one rest subseq_order.antisym by blast
  ultimately show ?case using one rest run(2) by (auto simp: r)
qed simp

lemma removals_only_remove: "\<forall>(name, f)\<in>set removals. only_removes f"
  by (simp add: removals_def mapping_only_removes inner_only_removes removeYamlListValue_def [abs_def]
      removeYamlNullKey_def [abs_def])

text \<open>Whatever is taken out, the lines of the draft are lines of the document, in their order, before the white space
  at the end of the text is cut.\<close>

theorem sanitize_only_removes_lines:
  "\<exists>kept. sz_body (sanitizeEffectiveCollectorConfig body) = trim_end (js_join [CHR 0x0A] kept) @ [CHR 0x0A] \<and>
     subseq kept (document_lines body) \<and>
     subseq (sz_removed (sanitizeEffectiveCollectorConfig body)) (map fst removals) \<and>
     (sz_removed (sanitizeEffectiveCollectorConfig body) = [] \<longleftrightarrow> kept = document_lines body)"
proof -
  obtain removed kept where r: "run_removals removals (document_lines body) = (removed, kept)"
    by (cases "run_removals removals (document_lines body)")
  show ?thesis
    using run_only_removes [OF removals_only_remove r]
    by (intro exI [of _ kept]) (simp add: sanitizeEffectiveCollectorConfig_def r)
qed

subsection \<open>What exactly is taken out\<close>

text \<open>
  The mapping that a path addresses, without positions: \<open>addressed lo path ls before head inner after\<close> says
  that in the lines \<open>ls\<close> the mapping opened by the line \<open>head\<close>, with the lines \<open>inner\<close> below it, stands between
  \<open>before\<close> and \<open>after\<close>. A mapping is opened by the first line that reads as its key and is indented by at least
  \<open>lo\<close>; below it is every following line that is blank or indented more. The rest of a path is looked up in
  the lines below, with a greater indentation than the line that opens them.
\<close>

definition below :: "string \<Rightarrow> string \<Rightarrow> bool" where
  "below head line \<longleftrightarrow> js_trim line = [] \<or> yamlIndent head < yamlIndent line"

definition reads_key :: "nat \<Rightarrow> string \<Rightarrow> string \<Rightarrow> bool" where
  "reads_key lo key line \<longleftrightarrow> js_trim line = key @ '':'' \<and> lo \<le> yamlIndent line"

definition mapping_of :: "nat \<Rightarrow> string \<Rightarrow> string list \<Rightarrow> string list \<Rightarrow> string \<Rightarrow> string list \<Rightarrow> string list \<Rightarrow> bool" where
  "mapping_of lo key ls before head inner after \<longleftrightarrow> ls = before @ head # inner @ after \<and>
     reads_key lo key head \<and> (\<forall>line\<in>set before. \<not> reads_key lo key line) \<and>
     (\<forall>line\<in>set inner. below head line) \<and> (after = [] \<or> \<not> below head (hd after))"

inductive addressed :: "nat \<Rightarrow> string list \<Rightarrow> string list \<Rightarrow> string list \<Rightarrow> string \<Rightarrow> string list \<Rightarrow> string list \<Rightarrow> bool" where
  key: "mapping_of lo key ls before head inner after \<Longrightarrow> addressed lo [key] ls before head inner after"
| path: "mapping_of lo key ls before head inner after \<Longrightarrow>
    addressed (Suc (yamlIndent head)) path inner before' head' inner' after' \<Longrightarrow>
    addressed lo (key # path) ls (before @ head # before') head' inner' (after' @ after)"

inductive_cases addressed_NilE: "addressed lo [] ls before head inner after"
inductive_cases addressed_ConsE: "addressed lo (key # path) ls before head inner after"

text \<open>A document without the mapping of a path, and without certain lines below it.\<close>

definition without_mapping :: "string list \<Rightarrow> string list \<Rightarrow> string list \<Rightarrow> bool" where
  "without_mapping path ls ls' \<longleftrightarrow>
     (\<exists>before head inner after. addressed 0 path ls before head inner after \<and> ls' = before @ after) \<or>
     (\<nexists>before head inner after. addressed 0 path ls before head inner after) \<and> ls' = ls"

definition without_lines :: "string list \<Rightarrow> string \<Rightarrow> string list \<Rightarrow> string list \<Rightarrow> bool" where
  "without_lines path wanted ls ls' \<longleftrightarrow>
     (\<exists>before head inner after. addressed 0 path ls before head inner after \<and>
        ls' = before @ head # filter (\<lambda>line. js_trim line \<noteq> wanted) inner @ after) \<or>
     (\<nexists>before head inner after. addressed 0 path ls before head inner after) \<and> ls' = ls"

text \<open>The search on lists that finds this mapping.\<close>

type_synonym pieces = "string list \<times> string \<times> string list \<times> string list"

fun split_key :: "nat \<Rightarrow> string \<Rightarrow> string list \<Rightarrow> pieces option" where
  "split_key lo key [] = None"
| "split_key lo key (l # ls) =
     (if reads_key lo key l then Some ([], l, takeWhile (below l) ls, dropWhile (below l) ls)
      else map_option (\<lambda>(before, rest). (l # before, rest)) (split_key lo key ls))"

fun split_path :: "nat \<Rightarrow> string list \<Rightarrow> string list \<Rightarrow> pieces option" where
  "split_path lo [] ls = None"
| "split_path lo [key] ls = split_key lo key ls"
| "split_path lo (key # k # path) ls =
     (case split_key lo key ls of
        None \<Rightarrow> None
      | Some (before, head, inner, after) \<Rightarrow>
          map_option (\<lambda>(before', head', inner', after'). (before @ head # before', head', inner', after' @ after))
            (split_path (Suc (yamlIndent head)) (k # path) inner))"

lemma split_key_mapping: "split_key lo key ls = Some (before, head, inner, after) \<longleftrightarrow> mapping_of lo key ls before head inner after"
proof (induction ls arbitrary: before)
  case Nil
  then show ?case by (simp add: mapping_of_def)
next
  case (Cons l ls)
  have block: "takeWhile (below h) (xs @ ys) = xs \<and> dropWhile (below h) (xs @ ys) = ys"
    if "\<forall>x\<in>set xs. below h x" "ys = [] \<or> \<not> below h (hd ys)" for h xs ys
    using that by (cases ys) (auto simp: takeWhile_append dropWhile_append)
  show ?case
  proof (cases "reads_key lo key l")
    case True
    have "mapping_of lo key (l # ls) before head inner after \<longleftrightarrow>
        before = [] \<and> head = l \<and> inner = takeWhile (below l) ls \<and> after = dropWhile (below l) ls"
    proof
      assume m: "mapping_of lo key (l # ls) before head inner after"
      then have "before = []" using True by (cases before) (auto simp: mapping_of_def)
      then show "before = [] \<and> head = l \<and> inner = takeWhile (below l) ls \<and> after = dropWhile (below l) ls"
        using m block [of inner head after] by (auto simp: mapping_of_def)
    next
      assume "before = [] \<and> head = l \<and> inner = takeWhile (below l) ls \<and> after = dropWhile (below l) ls"
      then show "mapping_of lo key (l # ls) before head inner after"
        using True hd_dropWhile [of "below l" ls] by (auto simp: mapping_of_def dest: set_takeWhileD)
    qed
    then show ?thesis using True by auto
  next
    case False
    have "mapping_of lo key (l # ls) before head inner after \<longleftrightarrow>
        (\<exists>before'. before = l # before' \<and> mapping_of lo key ls before' head inner after)"
      using False by (cases before) (auto simp: mapping_of_def)
    then show ?thesis using False Cons.IH by (auto split: prod.splits)
  qed
qed

lemma split_path_addressed:
  "split_path lo path ls = Some (before, head, inner, after) \<longleftrightarrow> addressed lo path ls before head inner after"
proof (induction lo path ls arbitrary: before head inner after rule: split_path.induct)
  case (1 lo ls)
  then show ?case by (auto elim: addressed_NilE)
next
  case (2 lo key ls)
  then show ?case by (auto simp: split_key_mapping intro: addressed.key elim: addressed_ConsE addressed_NilE)
next
  case (3 lo key k path ls)
  show ?case
  proof
    assume "split_path lo (key # k # path) ls = Some (before, head, inner, after)"
    then obtain b h i a b' a' where first: "split_key lo key ls = Some (b, h, i, a)"
      and rest: "split_path (Suc (yamlIndent h)) (k # path) i = Some (b', head, inner, a')"
      and eq: "before = b @ h # b'" "after = a' @ a"
      by (auto split: option.splits)
    have "addressed (Suc (yamlIndent h)) (k # path) i b' head inner a'" using rest "3.IH" [OF first refl refl refl] by blast
    then show "addressed lo (key # k # path) ls before head inner after"
      using first unfolding eq by (auto simp: split_key_mapping intro: addressed.path)
  next
    assume "addressed lo (key # k # path) ls before head inner after"
    then obtain b h i a b' a' where first: "mapping_of lo key ls b h i a"
      and rest: "addressed (Suc (yamlIndent h)) (k # path) i b' head inner a'" and eq: "before = b @ h # b'" "after = a' @ a"
      by (auto elim: addressed_ConsE)
    have "split_key lo key ls = Some (b, h, i, a)" using first by (simp add: split_key_mapping)
    moreover have "split_path (Suc (yamlIndent h)) (k # path) i = Some (b', head, inner, a')"
      using rest "3.IH" [OF calculation refl refl refl] by blast
    ultimately show "split_path lo (key # k # path) ls = Some (before, head, inner, after)" by (simp add: eq)
  qed
qed

text \<open>The search by positions finds the same lines.\<close>

lemma range_nth: "from < to \<Longrightarrow> to \<le> length ls \<Longrightarrow> removed_range ls from to = ls ! from # removed_range ls (Suc from) to"
  by (simp add: removed_range_def Suc_diff_Suc [symmetric] Cons_nth_drop_Suc [symmetric])

lemma range_empty [simp]: "to \<le> from \<Longrightarrow> removed_range ls from to = []"
  by (simp add: removed_range_def)

lemma block_end_takeWhile:
  "e \<le> searchEnd \<Longrightarrow> searchEnd \<le> length ls \<Longrightarrow>
     block_end ls searchEnd ind e = e + length (takeWhile (belongs_below ind) (removed_range ls e searchEnd))"
proof (induction ls searchEnd ind e rule: block_end.induct)
  case (1 ls searchEnd ind e)
  show ?case
  proof (cases "e < searchEnd")
    case True
    then show ?thesis using 1 by (subst block_end.simps) (auto simp: range_nth)
  next
    case False
    then show ?thesis by (subst block_end.simps) simp
  qed
qed

definition block_of :: "nat \<Rightarrow> pieces \<Rightarrow> yaml_block" where
  "block_of from = (\<lambda>(before, head, inner, after).
     \<lparr>yb_start = from + length before, yb_end = Suc (from + length before + length inner), yb_indent = yamlIndent head\<rparr>)"

text \<open>The keys that are looked for do not begin as a comment.\<close>

definition plain_name :: "string \<Rightarrow> bool" where
  "plain_name key \<longleftrightarrow> key \<noteq> [] \<and> hd key \<noteq> CHR ''#''"

lemma opens_reads:
  assumes "plain_name key"
  shows "opens_key key lo line \<longleftrightarrow> reads_key lo key line"
proof -
  have "\<not> starts_with (trim_start line) ''#''" if t: "js_trim line = key @ '':''"
  proof
    assume "starts_with (trim_start line) ''#''"
    then obtain r where r: "trim_start line = CHR ''#'' # r" by (auto simp: starts_with_def prefix_def)
    have "prefix (js_trim line) (CHR ''#'' # r)" using trim_end_prefix [of "trim_start line"] r by (simp add: js_trim_def)
    then show False using t assms by (cases key) (auto simp: plain_name_def)
  qed
  then show ?thesis using assms by (auto simp: opens_key_def reads_key_def plain_name_def)
qed

lemma belongs_below: "belongs_below (yamlIndent head) = below head"
  by (auto simp: belongs_below_def below_def)

lemma find_key_split:
  "plain_name key \<Longrightarrow> searchEnd \<le> length ls \<Longrightarrow>
     find_key ls searchEnd lo key i = map_option (block_of i) (split_key lo key (removed_range ls i searchEnd))"
proof (induction ls searchEnd lo key i rule: find_key.induct)
  case (1 ls searchEnd lo key i)
  show ?case
  proof (cases "searchEnd \<le> i")
    case True
    then show ?thesis by (subst find_key.simps) simp
  next
    case inside: False
    then have r: "removed_range ls i searchEnd = ls ! i # removed_range ls (Suc i) searchEnd" using 1(3) by (simp add: range_nth)
    show ?thesis
    proof (cases "opens_key key lo (ls ! i)")
      case True
      moreover have "reads_key lo key (ls ! i)" using True opens_reads [OF 1(2)] by blast
      ultimately show ?thesis using inside 1(3) block_end_takeWhile [of "Suc i" searchEnd ls "yamlIndent (ls ! i)"]
        by (subst find_key.simps) (simp add: r block_of_def belongs_below)
    next
      case False
      then show ?thesis using inside 1
        by (subst find_key.simps) (auto simp: r opens_reads [OF 1(2)] block_of_def option.map_comp o_def split_def intro!: option.map_cong)
    qed
  qed
qed

lemma split_key_parts:
  assumes "split_key lo key ls = Some (before, head, inner, after)"
  shows "ls = before @ head # inner @ after"
  using assms by (simp add: split_key_mapping mapping_of_def)

lemma find_path_split:
  assumes "list_all plain_name path" "path \<noteq> []" "searchStart \<le> searchEnd" "searchEnd \<le> length ls"
  shows "find_path ls searchStart searchEnd lo path b0 =
    map_option (block_of searchStart) (split_path lo path (removed_range ls searchStart searchEnd))"
  using assms
proof (induction path arbitrary: searchStart searchEnd lo b0)
  case (Cons key path)
  let ?seg = "removed_range ls searchStart searchEnd"
  have k: "find_key ls searchEnd lo key searchStart = map_option (block_of searchStart) (split_key lo key ?seg)"
    using find_key_split Cons.prems by simp
  show ?case
  proof (cases path)
    case Nil
    then show ?thesis by (simp add: k split: option.split)
  next
    case path: (Cons k2 rest)
    show ?thesis
    proof (cases "split_key lo key ?seg")
      case None
      then show ?thesis by (simp add: k path)
    next
      case (Some p)
      obtain b h i a where p: "p = (b, h, i, a)" by (cases p)
      have seg: "?seg = b @ h # i @ a" using split_key_parts Some p by blast
      then have len: "searchEnd = searchStart + length b + Suc (length i + length a)"
        using Cons.prems(3,4) arg_cong [OF seg [unfolded removed_range_def], of length] by simp
      let ?s = "Suc (searchStart + length b)" and ?e = "Suc (searchStart + length b + length i)"
      have "drop searchStart ls = ?seg @ drop searchEnd ls"
        using Cons.prems(3) by (simp add: removed_range_def) (metis add.commute append_take_drop_id drop_drop le_add_diff_inverse)
      then have "drop (Suc (length b)) (drop searchStart ls) = i @ a @ drop searchEnd ls" by (simp add: seg)
      then have "drop ?s ls = i @ a @ drop searchEnd ls" by (simp add: add.commute)
      then have inner: "removed_range ls ?s ?e = i" by (simp add: removed_range_def)
      have "find_path ls ?s ?e (Suc (yamlIndent h)) path (Some (block_of searchStart p)) =
          map_option (block_of ?s) (split_path (Suc (yamlIndent h)) path i)"
        using Cons.IH [of ?s ?e] Cons.prems path len by (simp add: inner)
      then show ?thesis
        by (auto simp: k Some p path block_of_def option.map_comp o_def split_def intro!: option.map_cong)
    qed
  qed
qed simp

lemma yamlMappingBlock_split:
  "list_all plain_name path \<Longrightarrow> path \<noteq> [] \<Longrightarrow> yamlMappingBlock ls path = map_option (block_of 0) (split_path 0 path ls)"
  using find_path_split [of path 0 "length ls" ls 0 None] by (simp add: yamlMappingBlock_def removed_range_def)

lemma addressed_parts: "addressed lo path ls before head inner after \<Longrightarrow> ls = before @ head # inner @ after"
  by (induction rule: addressed.induct) (auto simp: mapping_of_def)

lemma without_mapping_removes:
  assumes "list_all plain_name path" "path \<noteq> []" "removeYamlMappingPath path ls = (done_one, ls')"
  shows "without_mapping path ls ls' \<and> (done_one \<longleftrightarrow> ls' \<noteq> ls)"
proof (cases "split_path 0 path ls")
  case None
  then have "\<not> addressed 0 path ls before head inner after" for before head inner after
    using split_path_addressed [of 0 path ls before head inner after] by simp
  then show ?thesis using None assms yamlMappingBlock_split [OF assms(1,2), of ls]
    by (auto simp: without_mapping_def removeYamlMappingPath_def)
next
  case (Some p)
  then obtain before head inner after where a: "addressed 0 path ls before head inner after" and p: "p = (before, head, inner, after)"
    using split_path_addressed by (cases p) blast
  have "ls' = before @ after" "done_one"
    using Some p assms(3) yamlMappingBlock_split [OF assms(1,2), of ls] addressed_parts [OF a]
    by (auto simp: removeYamlMappingPath_def block_of_def cut_out_def)
  moreover have "before @ after \<noteq> ls" using arg_cong [OF addressed_parts [OF a], of length] by auto
  ultimately show ?thesis using a by (auto simp: without_mapping_def)
qed

lemma without_lines_removes:
  assumes "list_all plain_name path" "path \<noteq> []" "remove_in_block path wanted ls = (done_one, ls')"
  shows "without_lines path wanted ls ls' \<and> (done_one \<longleftrightarrow> ls' \<noteq> ls)"
proof (cases "split_path 0 path ls")
  case None
  then have "\<not> addressed 0 path ls before head inner after" for before head inner after
    using split_path_addressed [of 0 path ls before head inner after] by simp
  then show ?thesis using None assms yamlMappingBlock_split [OF assms(1,2), of ls]
    by (auto simp: without_lines_def remove_in_block_def)
next
  case (Some p)
  then obtain before head inner after where a: "addressed 0 path ls before head inner after" and p: "p = (before, head, inner, after)"
    using split_path_addressed by (cases p) blast
  note parts = addressed_parts [OF a]
  let ?kept = "before @ head # filter (\<lambda>line. js_trim line \<noteq> wanted) inner @ after"
  have "ls' = ?kept" "done_one \<longleftrightarrow> (\<exists>line\<in>set inner. js_trim line = wanted)"
    using Some p remove_in_block_spec [OF assms(3)] yamlMappingBlock_split [OF assms(1,2), of ls] parts
    by (auto simp: block_of_def removed_range_def Let_def)
  moreover have "?kept = ls \<longleftrightarrow> (\<forall>line\<in>set inner. js_trim line \<noteq> wanted)"
    unfolding parts by (simp add: filter_id_conv)
  moreover have "without_lines path wanted ls ?kept" unfolding without_lines_def using a by blast
  ultimately show ?thesis by auto
qed

text \<open>What a path addresses is unique, and so is what remains.\<close>

lemma addressed_unique:
  assumes "addressed lo path ls b h i a" "addressed lo path ls b' h' i' a'"
  shows "b' = b \<and> h' = h \<and> i' = i \<and> a' = a"
  using assms unfolding split_path_addressed [symmetric] by simp

lemma without_mapping_unique: "without_mapping path ls x \<Longrightarrow> without_mapping path ls y \<Longrightarrow> x = y"
  unfolding without_mapping_def using addressed_unique by blast

lemma without_lines_unique: "without_lines path wanted ls x \<Longrightarrow> without_lines path wanted ls y \<Longrightarrow> x = y"
  unfolding without_lines_def using addressed_unique by blast

text \<open>C40: Preparing a reported configuration takes out five things where they are found, one after the other, and
  nothing else: the mapping \<open>service.telemetry.resource\<close>, the mapping \<open>extensions.opamp\<close>, the lines that read
  \<open>- opamp\<close> below \<open>service.extensions\<close>, and the lines that read \<open>http: null\<close> and then \<open>grpc: null\<close> below
  \<open>extensions.health_check\<close>. Each path addresses what \<open>addressed\<close> says: for the first key the first line that reads
  as it, at any depth, for every further key the first such line below that is indented more than its parent, and
  with the last one what follows it blank or indented more. Every other line stays, in its order; the lines are
  joined by single newlines, and the white space at the end of the text, blank lines included, becomes one newline.
  The names reported as removed are, in this order, those of the things of which a line was taken out.\<close>

theorem sanitize_takes_out_exactly:
  "\<exists>a b c d e.
     without_mapping [''service'', ''telemetry'', ''resource''] (document_lines body) a \<and>
     without_mapping [''extensions'', ''opamp''] a b \<and>
     without_lines [''service'', ''extensions''] ''- opamp'' b c \<and>
     without_lines [''extensions'', ''health_check''] ''http: null'' c d \<and>
     without_lines [''extensions'', ''health_check''] ''grpc: null'' d e \<and>
     sz_body (sanitizeEffectiveCollectorConfig body) = trim_end (js_join [CHR 0x0A] e) @ [CHR 0x0A] \<and>
     sz_removed (sanitizeEffectiveCollectorConfig body) =
       (if a \<noteq> document_lines body then [''service.telemetry.resource''] else []) @
       (if b \<noteq> a then [''extensions.opamp''] else []) @
       (if c \<noteq> b then [''service.extensions[opamp]''] else []) @
       (if d \<noteq> c then [''extensions.health_check.http=null''] else []) @
       (if e \<noteq> d then [''extensions.health_check.grpc=null''] else [])"
proof -
  obtain r1 a where 1: "removeYamlMappingPath [''service'', ''telemetry'', ''resource''] (document_lines body) = (r1, a)" by (metis surj_pair)
  obtain r2 b where 2: "removeYamlMappingPath [''extensions'', ''opamp''] a = (r2, b)" by (metis surj_pair)
  obtain r3 c where 3: "removeYamlListValue [''service'', ''extensions''] ''opamp'' b = (r3, c)" by (metis surj_pair)
  obtain r4 d where 4: "removeYamlNullKey [''extensions'', ''health_check''] ''http'' c = (r4, d)" by (metis surj_pair)
  obtain r5 e where 5: "removeYamlNullKey [''extensions'', ''health_check''] ''grpc'' d = (r5, e)" by (metis surj_pair)
  have run: "run_removals removals (document_lines body) =
      ((if r1 then [''service.telemetry.resource''] else []) @ (if r2 then [''extensions.opamp''] else []) @
       (if r3 then [''service.extensions[opamp]''] else []) @ (if r4 then [''extensions.health_check.http=null''] else []) @
       (if r5 then [''extensions.health_check.grpc=null''] else []), e)"
    by (simp add: removals_def 1 2 3 4 5)
  have names: "list_all plain_name [''service'', ''telemetry'', ''resource'']" "list_all plain_name [''extensions'', ''opamp'']"
    "list_all plain_name [''service'', ''extensions'']" "list_all plain_name [''extensions'', ''health_check'']"
    by (simp_all add: plain_name_def)
  have A: "without_mapping [''service'', ''telemetry'', ''resource''] (document_lines body) a" "r1 \<longleftrightarrow> a \<noteq> document_lines body"
    using without_mapping_removes [OF names(1) _ 1] by simp_all
  have B: "without_mapping [''extensions'', ''opamp''] a b" "r2 \<longleftrightarrow> b \<noteq> a"
    using without_mapping_removes [OF names(2) _ 2] by simp_all
  have C: "without_lines [''service'', ''extensions''] ''- opamp'' b c" "r3 \<longleftrightarrow> c \<noteq> b"
    using without_lines_removes [OF names(3) _ 3 [unfolded removeYamlListValue_def]] by simp_all
  have D: "without_lines [''extensions'', ''health_check''] ''http: null'' c d" "r4 \<longleftrightarrow> d \<noteq> c"
    using without_lines_removes [OF names(4) _ 4 [unfolded removeYamlNullKey_def]] by simp_all
  have E: "without_lines [''extensions'', ''health_check''] ''grpc: null'' d e" "r5 \<longleftrightarrow> e \<noteq> d"
    using without_lines_removes [OF names(4) _ 5 [unfolded removeYamlNullKey_def]] by simp_all
  have result: "sanitizeEffectiveCollectorConfig body = \<lparr>sz_body = trim_end (js_join [CHR 0x0A] e) @ [CHR 0x0A],
      sz_removed = fst (run_removals removals (document_lines body))\<rparr>"
    by (simp add: sanitizeEffectiveCollectorConfig_def run)
  show ?thesis
    unfolding result sanitized.simps run fst_conv A(2) B(2) C(2) D(2) E(2)
    using A(1) B(1) C(1) D(1) E(1) by blast
qed

text \<open>The search for a key starts at any depth. A document that lists the extensions of the service before it
  declares them keeps the declaration of \<open>opamp\<close>: the key found for \<open>extensions\<close> is the one below \<open>service\<close>.\<close>

theorem nested_key_hides_the_outer_one:
  "sz_removed (sanitizeEffectiveCollectorConfig (Str (js_join [CHR 0x0A]
     [''service:'', ''  extensions:'', ''    - opamp'', ''extensions:'', ''  opamp:'', ''    instance_uid: 1'']))) =
     [''service.extensions[opamp]''] \<and>
   sz_removed (sanitizeEffectiveCollectorConfig (Str (js_join [CHR 0x0A]
     [''extensions:'', ''  opamp:'', ''    instance_uid: 1'', ''service:'', ''  extensions:'', ''    - opamp'']))) =
     [''extensions.opamp'', ''service.extensions[opamp]'']"
  by (intro conjI; code_simp)

subsection \<open>The identifier\<close>

definition is_hyphen_pair :: "char \<Rightarrow> char \<Rightarrow> bool" where
  "is_hyphen_pair a b \<longleftrightarrow> a = CHR ''-'' \<and> b = CHR ''-''"

definition slug_text :: "string \<Rightarrow> bool" where
  "slug_text s \<longleftrightarrow> (\<forall>c\<in>set s. slug_char c \<or> c = CHR ''-'') \<and> successively (\<lambda>a b. \<not> is_hyphen_pair a b) s"

definition is_slug :: "string \<Rightarrow> bool" where
  "is_slug s \<longleftrightarrow> s \<noteq> [] \<and> slug_text s \<and> hd s \<noteq> CHR ''-'' \<and> last s \<noteq> CHR ''-''"

lemma hyphen_no_slug: "\<not> slug_char (CHR ''-'')"
  by code_simp

lemma hyphenate_text:
  "slug_text (hyphenate replaced s) \<and> (replaced \<longrightarrow> hyphenate replaced s = [] \<or> hd (hyphenate replaced s) \<noteq> CHR ''-'')"
proof (induction s arbitrary: replaced)
  case (Cons c s)
  show ?case
    using Cons [of False] Cons [of True] hyphen_no_slug
    by (auto simp: slug_text_def is_hyphen_pair_def successively_Cons)
qed (simp add: slug_text_def)

lemma slug_text_tl: "slug_text s \<Longrightarrow> slug_text (tl s)"
  by (cases s) (auto simp: slug_text_def successively_Cons)

lemma slug_text_append: "slug_text (s @ t) \<Longrightarrow> slug_text s"
  by (auto simp: slug_text_def successively_append_iff)

lemma hyphen_pair_end: "slug_text (s @ [CHR ''-'']) \<Longrightarrow> s \<noteq> [] \<Longrightarrow> last s \<noteq> CHR ''-''"
  by (auto simp: slug_text_def successively_append_iff is_hyphen_pair_def)

lemma strip_hyphens_slug:
  assumes "slug_text s"
  shows "strip_hyphens s = [] \<or> is_slug (strip_hyphens s)"
proof -
  define a where "a = (if s \<noteq> [] \<and> hd s = CHR ''-'' then tl s else s)"
  have a: "slug_text a" "a = [] \<or> hd a \<noteq> CHR ''-''"
    using assms slug_text_tl [OF assms]
    by (cases s; auto simp: a_def slug_text_def successively_Cons is_hyphen_pair_def)+
  show ?thesis
  proof (cases "a \<noteq> [] \<and> last a = CHR ''-''")
    case True
    then obtain b where b: "a = b @ [CHR ''-'']" by (metis append_butlast_last_id)
    then have "strip_hyphens s = b" using True by (simp add: strip_hyphens_def a_def [symmetric])
    moreover have "b = [] \<or> is_slug b"
      using a slug_text_append [of b] hyphen_pair_end [of b] unfolding b by (cases b) (auto simp: is_slug_def)
    ultimately show ?thesis by simp
  next
    case False
    then show ?thesis using a by (auto simp: strip_hyphens_def a_def [symmetric] is_slug_def)
  qed
qed

lemma slug_cases: "slug v = [] \<or> is_slug (slug v)"
  using strip_hyphens_slug hyphenate_text unfolding slug_def by blast

lemma without_supervisor_slug:
  assumes "is_slug s"
  shows "is_slug (without_supervisor s)"
proof (cases "ends_with s ''-supervisor''")
  case True
  then obtain p where p: "s = p @ ''-supervisor''"
    by (auto simp: ends_with_def prefix_def)
  have "p \<noteq> []" using assms by (auto simp: p is_slug_def)
  moreover have "last p \<noteq> CHR ''-''"
    using hyphen_pair_end [of p] slug_text_append [of "p @ ''-''" "''supervisor''"] assms \<open>p \<noteq> []\<close>
    by (simp add: p is_slug_def)
  moreover have "slug_text p" using slug_text_append [of p "''-supervisor''"] assms by (simp add: p is_slug_def)
  ultimately show ?thesis using True assms by (cases p) (auto simp: without_supervisor_def p is_slug_def)
qed (use assms in \<open>simp add: without_supervisor_def\<close>)

lemma is_slug_joined: "is_slug a \<Longrightarrow> is_slug b \<Longrightarrow> is_slug (a @ ''-'' @ b)"
  by (cases b) (auto simp: is_slug_def slug_text_def successively_append_iff successively_Cons is_hyphen_pair_def)

lemma is_slug_join: "xs \<noteq> [] \<Longrightarrow> \<forall>x\<in>set xs. is_slug x \<Longrightarrow> is_slug (js_join ''-'' xs)"
proof (induction xs)
  case (Cons s xs)
  then show ?case
    using is_slug_joined [of s "js_join ''-'' xs"] by (cases xs) simp_all
qed simp

lemma is_slug_name:
  assumes "cluster = [] \<or> is_slug cluster" "service = [] \<or> is_slug service" "role = [] \<or> is_slug role"
  shows "is_slug (js_join ''-'' (nub (filter (\<lambda>v. v \<noteq> [])
    [if cluster \<noteq> [] then cluster else if service \<noteq> [] then service else ''collector'',
     if role \<noteq> [] then role else ''config'', ''config''])))"
proof -
  have "is_slug ''collector'' \<and> is_slug ''config''"
    unfolding is_slug_def slug_text_def is_hyphen_pair_def by code_simp
  moreover define xs where "xs = filter (\<lambda>v. v \<noteq> [])
    [if cluster \<noteq> [] then cluster else if service \<noteq> [] then service else ''collector'',
     if role \<noteq> [] then role else ''config'', ''config'']"
  ultimately have "\<forall>x\<in>set xs. is_slug x" and "xs \<noteq> []" using assms by (auto simp: xs_def)
  then show ?thesis using is_slug_join [of "nub xs"] unfolding xs_def [symmetric] by simp
qed

text \<open>the identifier proposed for a draft can always be used as one: whatever the agent reports, it
  is not empty, has only lower case letters, digits and single hyphens, and neither starts nor
  ends with a hyphen.\<close>

theorem collectorConfigId_is_slug:
  "is_slug (collectorConfigId agent)"
proof -
  let ?service = "slug (get agent ''Service'')"
  have "without_supervisor ?service = [] \<or> is_slug (without_supervisor ?service)"
  proof (cases "?service = []")
    case False
    then show ?thesis using slug_cases [of "get agent ''Service''"] without_supervisor_slug by blast
  qed (simp add: without_supervisor_def)
  then show ?thesis
    unfolding collectorConfigId_def Let_def using slug_cases by (intro is_slug_name)
qed

declare yamlIndent_def [js_eval] belongs_below_def [js_eval] opens_key_def [js_eval]
  yamlMappingBlock_def [js_eval] cut_out_def [js_eval] removeYamlMappingPath_def [js_eval]
  remove_in_block_def [js_eval] removeYamlListValue_def [js_eval] removeYamlNullKey_def [js_eval]
  removals_def [js_eval] document_lines_def [js_eval]
  sanitizeEffectiveCollectorConfig_def [js_eval] slug_char_def [js_eval]
  strip_hyphens_def [js_eval] slug_def [js_eval] without_supervisor_def [js_eval]
  collectorConfigId_def [js_eval] line_range_def [js_eval] is_block_def [js_eval]
  removed_range_def [js_eval] only_removes_def [js_eval] is_hyphen_pair_def [js_eval]
  slug_text_def [js_eval] is_slug_def [js_eval]

end
