(* ===== verification/Url.thy ===== *)
theory Url
  imports Js_Value
begin

section \<open>Query strings (\<open>URLSearchParams\<close>)\<close>

text \<open>
  The parser and the serializer of \<open>application/x-www-form-urlencoded\<close> behind \<open>URLSearchParams\<close>, on the
  code units the development represents: a text is encoded in UTF-8 (two bytes for a code unit of 128
  or more), and a byte sequence that decodes to a code point beyond Latin-1 (or to none) is read as
  the control character SUB. The main lemma: parsing a serialised list gives the list back.
\<close>

type_synonym url_params = "(string \<times> string) list"

subsection \<open>Bytes\<close>

definition utf8_bytes :: "char \<Rightarrow> nat list" where
  "utf8_bytes c = (let n = code c in if n < 128 then [n] else [192 + n div 64, 128 + n mod 64])"

definition substitute :: char where
  "substitute = char_of (26::nat)"

definition is_continuation :: "nat \<Rightarrow> bool" where
  "is_continuation b \<longleftrightarrow> 128 \<le> b \<and> b < 192"

function utf8_decode :: "nat list \<Rightarrow> string" where
  "utf8_decode [] = []"
| "utf8_decode (b # bs) =
     (if b < 128 then char_of b # utf8_decode bs
      else case bs of
          [] \<Rightarrow> [substitute]
        | c # cs \<Rightarrow>
            if (b = 194 \<or> b = 195) \<and> is_continuation c then char_of ((b - 192) * 64 + (c - 128)) # utf8_decode cs
            else substitute # utf8_decode (dropWhile is_continuation bs))"
  by pat_completeness auto
termination by (relation "measure length") (auto intro: le_less_trans [OF length_dropWhile_le])

definition hex_val :: "char \<Rightarrow> nat option" where
  "hex_val c = (let n = code c in
     if 48 \<le> n \<and> n \<le> 57 then Some (n - 48)
     else if 65 \<le> n \<and> n \<le> 70 then Some (n - 55)
     else if 97 \<le> n \<and> n \<le> 102 then Some (n - 87) else None)"

text \<open>Percent decoding; a percent sign without two hexadecimal digits stands for itself.\<close>

fun percent_decode :: "string \<Rightarrow> nat list" where
  "percent_decode [] = []"
| "percent_decode (c # s) =
     (if c = CHR ''+'' then 32 # percent_decode s
      else if c = CHR ''%'' then
        (case s of
           h # l # r \<Rightarrow> (case (hex_val h, hex_val l) of
               (Some x, Some y) \<Rightarrow> (16 * x + y) # percent_decode r
             | _ \<Rightarrow> utf8_bytes c @ percent_decode s)
         | _ \<Rightarrow> utf8_bytes c @ percent_decode s)
      else utf8_bytes c @ percent_decode s)"

definition form_decode :: "string \<Rightarrow> string" where
  "form_decode s = utf8_decode (percent_decode s)"

definition form_kept :: "char \<Rightarrow> bool" where
  "form_kept c \<longleftrightarrow> is_digit c \<or> is_lower_az c \<or> is_upper_az c \<or> c \<in> set ''*-._''"

definition form_char :: "char \<Rightarrow> string" where
  "form_char c =
     (if form_kept c then [c] else if c = CHR '' '' then ''+'' else concat (map percent (utf8_bytes c)))"

definition form_encode :: "string \<Rightarrow> string" where
  "form_encode s = concat (map form_char s)"

subsection \<open>Lists of parameters\<close>

definition parse_pair :: "string \<Rightarrow> string \<times> string" where
  "parse_pair s =
     (form_decode (takeWhile (\<lambda>c. c \<noteq> CHR ''='') s), form_decode (tl (dropWhile (\<lambda>c. c \<noteq> CHR ''='') s)))"

definition parse_params :: "string \<Rightarrow> url_params" where
  "parse_params s =
     map parse_pair (filter (\<lambda>p. p \<noteq> [])
       (split_char CHR ''&'' (if s \<noteq> [] \<and> hd s = CHR ''?'' then tl s else s)))"

definition print_params :: "url_params \<Rightarrow> string" where
  "print_params ps = js_join ''&'' (map (\<lambda>(k, v). form_encode k @ ''='' @ form_encode v) ps)"

definition param_get :: "url_params \<Rightarrow> string \<Rightarrow> string option" where
  "param_get ps k = map_of ps k"

definition param_has :: "url_params \<Rightarrow> string \<Rightarrow> bool" where
  "param_has ps k \<longleftrightarrow> k \<in> set (map fst ps)"

text \<open>\<open>set\<close>: the first parameter of the name gets the value, the others of the name disappear.\<close>

fun param_set :: "string \<Rightarrow> string \<Rightarrow> url_params \<Rightarrow> url_params" where
  "param_set k v [] = [(k, v)]"
| "param_set k v ((k', v') # ps) =
     (if k' = k then (k, v) # filter (\<lambda>(n, _). n \<noteq> k) ps else (k', v') # param_set k v ps)"

subsection \<open>Decoding inverts encoding\<close>

lemma hex_val_char [simp]: "d < 16 \<Longrightarrow> hex_val (hex_char d) = Some d"
  by (auto simp: hex_val_def hex_char_def Let_def)

lemma utf8_bytes_bound: "b \<in> set (utf8_bytes c) \<Longrightarrow> b < 256"
proof -
  have "code c div 64 < 64" using code_bound [of c] by linarith
  moreover assume "b \<in> set (utf8_bytes c)"
  ultimately show ?thesis by (auto simp: utf8_bytes_def Let_def split: if_splits)
qed

lemma percent_decode_percent [simp]: "b < 256 \<Longrightarrow> percent_decode (percent b @ s) = b # percent_decode s"
  by (simp add: percent_def)

lemma percent_decode_percents:
  "\<forall>b\<in>set bs. b < 256 \<Longrightarrow> percent_decode (concat (map percent bs) @ s) = bs @ percent_decode s"
  by (induction bs) simp_all

lemma percent_decode_form: "percent_decode (form_char c @ s) = utf8_bytes c @ percent_decode s"
proof -
  have "\<not> form_kept CHR ''+''" "\<not> form_kept CHR ''%''" "utf8_bytes CHR '' '' = [32]" by code_simp+
  then show ?thesis
    using percent_decode_percents [of "utf8_bytes c"] utf8_bytes_bound by (auto simp: form_char_def)
qed

lemma percent_decode_encode: "percent_decode (form_encode s) = concat (map utf8_bytes s)"
proof -
  have "percent_decode (concat (map form_char s) @ []) = concat (map utf8_bytes s) @ percent_decode []"
    by (induction s) (simp_all add: percent_decode_form)
  then show ?thesis by (simp add: form_encode_def)
qed

lemma utf8_decode_char: "utf8_decode (utf8_bytes c @ bs) = c # utf8_decode bs"
proof (cases "code c < 128")
  case True
  then show ?thesis by (simp add: utf8_bytes_def Let_def) (simp add: code_def)
next
  case False
  then have "code c div 64 = 2 \<or> code c div 64 = 3" using code_bound [of c] by linarith
  moreover have "code c div 64 * 64 + code c mod 64 = code c" by simp
  ultimately show ?thesis
    using False by (auto simp: utf8_bytes_def Let_def is_continuation_def) (simp_all add: code_def)
qed

lemma form_roundtrip [simp]: "form_decode (form_encode s) = s"
proof -
  have "utf8_decode (concat (map utf8_bytes s)) = s"
    by (induction s) (simp_all add: utf8_decode_char)
  then show ?thesis by (simp add: form_decode_def percent_decode_encode)
qed

lemma hex_char_kept: "d < 16 \<Longrightarrow> form_kept (hex_char d)"
  by (auto simp: form_kept_def hex_char_def is_digit_def is_upper_az_def)

lemma form_encode_chars: "c \<in> set (form_encode s) \<Longrightarrow> form_kept c \<or> c = CHR ''+'' \<or> c = CHR ''%''"
  using utf8_bytes_bound hex_char_kept
  by (fastforce simp: form_encode_def form_char_def percent_def split: if_splits)

lemma no_separators: "CHR ''&'' \<notin> set (form_encode s)" "CHR ''='' \<notin> set (form_encode s)" "CHR ''?'' \<notin> set (form_encode s)"
proof -
  have "\<not> form_kept CHR ''&''" "\<not> form_kept CHR ''=''" "\<not> form_kept CHR ''?''" by code_simp+
  then show "CHR ''&'' \<notin> set (form_encode s)" "CHR ''='' \<notin> set (form_encode s)" "CHR ''?'' \<notin> set (form_encode s)"
    using form_encode_chars [of _ s] by fastforce+
qed

definition print_pair :: "string \<times> string \<Rightarrow> string" where
  "print_pair = (\<lambda>(k, v). form_encode k @ ''='' @ form_encode v)"

lemma parse_print_pair [simp]: "parse_pair (print_pair p) = p"
proof (cases p)
  case (Pair k v)
  have "takeWhile (\<lambda>c. c \<noteq> CHR ''='') (s @ CHR ''='' # t) = s \<and>
      dropWhile (\<lambda>c. c \<noteq> CHR ''='') (s @ CHR ''='' # t) = CHR ''='' # t" if "CHR ''='' \<notin> set s" for s t
    using that by (induction s) auto
  then have "takeWhile (\<lambda>c. c \<noteq> CHR ''='') (form_encode k @ CHR ''='' # form_encode v) = form_encode k"
    "dropWhile (\<lambda>c. c \<noteq> CHR ''='') (form_encode k @ CHR ''='' # form_encode v) = CHR ''='' # form_encode v"
    using no_separators(2) [of k] by blast+
  then show ?thesis by (simp add: Pair parse_pair_def print_pair_def)
qed

lemma params_roundtrip: "parse_params (print_params ps) = ps"
proof (cases "ps = []")
  case False
  let ?xs = "map print_pair ps"
  have amp: "\<forall>x\<in>set ?xs. CHR ''&'' \<notin> set x \<and> x \<noteq> []"
    using no_separators by (auto simp: print_pair_def)
  have q: "\<not> (js_join ''&'' ?xs \<noteq> [] \<and> hd (js_join ''&'' ?xs) = CHR ''?'')"
  proof -
    obtain k v r where "ps = (k, v) # r" using False by (cases ps) auto
    then have "\<exists>t. js_join ''&'' ?xs = form_encode k @ CHR ''='' # t"
      by (cases r) (simp_all add: print_pair_def)
    then show ?thesis using no_separators(3) [of k] by (cases "form_encode k") auto
  qed
  have "split_char CHR ''&'' (js_join ''&'' ?xs) = ?xs" using amp False by (intro split_char_join) auto
  moreover have "filter (\<lambda>p. p \<noteq> []) ?xs = ?xs" using amp by (simp add: filter_id_conv)
  moreover have "map parse_pair ?xs = ps" by (simp add: map_idI)
  moreover have "print_params ps = js_join ''&'' ?xs" by (simp add: print_params_def print_pair_def)
  moreover have "(if js_join ''&'' ?xs \<noteq> [] \<and> hd (js_join ''&'' ?xs) = CHR ''?'' then tl (js_join ''&'' ?xs)
      else js_join ''&'' ?xs) = js_join ''&'' ?xs" using q by (simp only: if_False)
  ultimately show ?thesis by (simp only: parse_params_def)
qed (simp add: print_params_def parse_params_def)

declare utf8_bytes_def [js_eval] substitute_def [js_eval] is_continuation_def [js_eval]
  hex_val_def [js_eval] form_decode_def [js_eval] form_kept_def [js_eval] form_char_def [js_eval]
  form_encode_def [js_eval] parse_pair_def [js_eval] parse_params_def [js_eval]
  print_params_def [js_eval] param_get_def [js_eval] param_has_def [js_eval]
  print_pair_def [js_eval]

end
