(* ===== verification/Navigation.thy ===== *)
theory Navigation
  imports Url
begin

section \<open>Tabs and addresses (\<open>ui/src/navigation.js\<close>)\<close>

text \<open>
  The tab shown for an address and the address of a tab. The address bar splits an address at the
  first question mark; \<open>path_of\<close> and \<open>search_of\<close> are that split. The link of a password reset
  (\<open>passwordResetToken\<close> of \<open>account-settings.js\<close>) and the parameters of the editor that \<open>main.jsx\<close>
  reads from the address are here too.
\<close>

definition tabPaths :: "(string \<times> string) list" where
  "tabPaths =
     [(''policy'', ''/policy-studio''), (''agents'', ''/agents''), (''deployments'', ''/remote-management''),
      (''history'', ''/versions''), (''profile'', ''/profile''), (''settings'', ''/settings'')]"

definition pathTabs :: "(string \<times> string) list" where
  "pathTabs = map (\<lambda>(tab, path). (path, tab)) tabPaths"

definition legacyTabs :: "string list" where
  "legacyTabs = map fst tabPaths"

definition normalized_path :: "string \<Rightarrow> string" where
  "normalized_path pathname =
     (if 1 < length pathname then rev (dropWhile (\<lambda>c. c = CHR ''/'') (rev pathname)) else pathname)"

definition tabFromLocation :: "string \<Rightarrow> string \<Rightarrow> string" where
  "tabFromLocation pathname search =
     (case map_of pathTabs (normalized_path pathname) of
        Some tab \<Rightarrow> tab
      | None \<Rightarrow>
          (if normalized_path pathname = ''/'' then
             (case param_get (parse_params search) ''tab'' of
                Some requested \<Rightarrow>
                  if requested \<in> set [''security'', ''access''] then ''settings''
                  else if requested \<in> set legacyTabs then requested else ''policy''
              | None \<Rightarrow> ''policy'')
           else ''policy''))"

definition policy_query :: "string \<Rightarrow> url_params" where
  "policy_query search =
     fold (\<lambda>key query. case param_get (parse_params search) key of
         Some v \<Rightarrow> param_set key v query | None \<Rightarrow> query) [''target'', ''step''] []"

definition urlForTab :: "string \<Rightarrow> string \<Rightarrow> string" where
  "urlForTab tab search =
     (let safeTab = (if tab \<in> set legacyTabs then tab else ''policy'')
      in if safeTab \<noteq> ''policy'' then the (map_of tabPaths safeTab)
         else (let query = print_params (policy_query search)
               in ''/policy-studio'' @ (if query \<noteq> [] then ''?'' @ query else [])))"

definition passwordResetToken :: "jsval \<Rightarrow> string" where
  "passwordResetToken hash =
     (let h = to_str (if hash = Undef then Str '''' else hash)
      in (case param_get (parse_params (if h \<noteq> [] \<and> hd h = CHR ''#'' then tl h else h)) ''token'' of
            Some v \<Rightarrow> v | None \<Rightarrow> []))"

text \<open>The parameters the editor starts with: the target and the step of the address.\<close>

definition initialTarget :: "url_params \<Rightarrow> string" where
  "initialTarget query = (if param_get query ''target'' = Some ''collector'' then ''collector'' else ''java-extension'')"

definition workflow_length :: nat where
  "workflow_length = 4"

definition initialStep :: "url_params \<Rightarrow> jsnum" where
  "initialStep query =
     (let requested = (case param_get query ''step'' of Some s \<Rightarrow> parse_num s | None \<Rightarrow> Fin 0)
      in if \<not> num_lt requested (Fin 1) \<and> requested \<noteq> NaN \<and> \<not> num_lt (Fin (of_nat workflow_length)) requested
         then requested else Fin 1)"

text \<open>The target and the step a click keeps in the address: a click on another tab goes through both
  functions, and \<open>navigateToTab\<close> pushes the new address only when it differs.\<close>

definition path_of :: "string \<Rightarrow> string" where
  "path_of url = takeWhile (\<lambda>c. c \<noteq> CHR ''?'') url"

definition search_of :: "string \<Rightarrow> string" where
  "search_of url = dropWhile (\<lambda>c. c \<noteq> CHR ''?'') url"

record browser_history =
  bh_entries :: "string list"
  bh_tab :: string

definition navigateToTab :: "bool \<Rightarrow> string \<Rightarrow> browser_history \<Rightarrow> browser_history" where
  "navigateToTab replace destination h =
     (let current = hd (bh_entries h);
          nextTab = tabFromLocation (path_of (urlForTab destination '''')) '''';
          nextURL = urlForTab nextTab (search_of current)
      in h\<lparr>bh_entries := (if path_of current @ search_of current = nextURL then bh_entries h
                          else if replace then nextURL # tl (bh_entries h) else nextURL # bh_entries h),
           bh_tab := nextTab\<rparr>)"

definition go_back :: "browser_history \<Rightarrow> browser_history" where
  "go_back h =
     (if tl (bh_entries h) = [] then h
      else h\<lparr>bh_entries := tl (bh_entries h),
             bh_tab := tabFromLocation (path_of (hd (tl (bh_entries h)))) (search_of (hd (tl (bh_entries h))))\<rparr>)"

subsection \<open>Addresses and tabs agree\<close>

definition safe_tab :: "string \<Rightarrow> string" where
  "safe_tab tab = (if tab \<in> set legacyTabs then tab else ''policy'')"

lemma policy_query_eq:
  "policy_query search =
     (case param_get (parse_params search) ''target'' of Some v \<Rightarrow> [(''target'', v)] | None \<Rightarrow> []) @
     (case param_get (parse_params search) ''step'' of Some v \<Rightarrow> [(''step'', v)] | None \<Rightarrow> [])"
  by (auto simp: policy_query_def split: option.splits)

lemma split_address:
  assumes "CHR ''?'' \<notin> set p"
  shows "path_of (p @ (if q \<noteq> [] then ''?'' @ q else [])) = p"
    "search_of (p @ (if q \<noteq> [] then ''?'' @ q else [])) = (if q \<noteq> [] then ''?'' @ q else [])"
  using assms by (induction p) (auto simp: path_of_def search_of_def)

lemma policy_query_head: "print_params (policy_query search) = [] \<or> hd (print_params (policy_query search)) \<noteq> CHR ''?''"
proof (cases "policy_query search")
  case (Cons p ps)
  then obtain k v where p: "p = (k, v)" "k = ''target'' \<or> k = ''step''"
    by (auto simp: policy_query_eq split: option.splits)
  have "\<exists>t. print_params (policy_query search) = form_encode k @ CHR ''='' # t"
    unfolding Cons by (cases ps) (auto simp: print_params_def p(1))
  moreover have "form_encode k \<noteq> [] \<and> hd (form_encode k) \<noteq> CHR ''?''" using p(2) by (elim disjE; hypsubst; code_simp)
  ultimately show ?thesis by (auto simp: hd_append)
qed (simp add: print_params_def)

lemma parse_policy_query:
  "parse_params (if print_params (policy_query search) \<noteq> [] then ''?'' @ print_params (policy_query search) else []) =
     policy_query search"
  using params_roundtrip [of "policy_query search"] policy_query_head [of search] by (auto simp: parse_params_def)

lemma policy_url:
  "path_of (urlForTab ''policy'' search) = ''/policy-studio''"
  "parse_params (search_of (urlForTab ''policy'' search)) = policy_query search"
proof -
  have pol: "''policy'' \<in> set legacyTabs" and np: "CHR ''?'' \<notin> set ''/policy-studio''" by code_simp+
  from pol have u: "urlForTab ''policy'' search = ''/policy-studio'' @
      (if print_params (policy_query search) \<noteq> [] then ''?'' @ print_params (policy_query search) else [])"
    by (simp add: urlForTab_def Let_def)
  show "path_of (urlForTab ''policy'' search) = ''/policy-studio''"
    "parse_params (search_of (urlForTab ''policy'' search)) = policy_query search"
    unfolding u by (simp_all only: split_address [OF np] parse_policy_query)
qed

lemma other_url:
  assumes "tab \<in> set legacyTabs" "tab \<noteq> ''policy''"
  shows "urlForTab tab search = the (map_of tabPaths tab)"
    "path_of (urlForTab tab search) = the (map_of tabPaths tab)" "search_of (urlForTab tab search) = []"
proof -
  show u: "urlForTab tab search = the (map_of tabPaths tab)" using assms by (simp add: urlForTab_def)
  have "list_all (\<lambda>(tab, p). path_of p = p \<and> search_of p = []) tabPaths" by code_simp
  moreover have "(tab, the (map_of tabPaths tab)) \<in> set tabPaths"
    using assms(1) by (auto simp: legacyTabs_def) (metis map_of_eq_None_iff option.exhaust_sel map_of_SomeD fst_conv image_eqI)
  ultimately show "path_of (urlForTab tab search) = the (map_of tabPaths tab)" "search_of (urlForTab tab search) = []"
    unfolding u by (auto simp: list_all_iff)
qed

lemma tab_of_path: "tab \<in> set legacyTabs \<Longrightarrow> tabFromLocation (the (map_of tabPaths tab)) search = tab"
proof -
  have "list_all (\<lambda>t. map_of pathTabs (normalized_path (the (map_of tabPaths t))) = Some t) legacyTabs" by code_simp
  then show "tab \<in> set legacyTabs \<Longrightarrow> ?thesis" by (auto simp: list_all_iff tabFromLocation_def)
qed

text \<open>The step of the address may be a fraction: it is between the first and the last step, and none of them.\<close>

lemma fractional_step_is_accepted:
  "initialStep (parse_params ''?step=2.5'') = Fin (5 / 2)"
  by code_simp

text \<open>the address of a tab leads back to the tab, and an unknown tab to the editor; the address of
  the editor keeps the target and the step of the address it replaces and nothing else, so that
  going to the editor again changes nothing, and the other tabs keep no parameters.\<close>

theorem address_of_a_tab_roundtrip:
  "tabFromLocation (path_of (urlForTab tab search)) (search_of (urlForTab tab search)) = safe_tab tab \<and>
   parse_params (search_of (urlForTab tab search)) = (if safe_tab tab = ''policy'' then policy_query search else []) \<and>
   param_get (policy_query search) ''target'' = param_get (parse_params search) ''target'' \<and>
   param_get (policy_query search) ''step'' = param_get (parse_params search) ''step'' \<and>
   urlForTab tab (search_of (urlForTab tab search)) = urlForTab tab search"
proof -
  have pol: "''policy'' \<in> set legacyTabs" "the (map_of tabPaths ''policy'') = ''/policy-studio''" by code_simp+
  have get: "param_get (policy_query search) ''target'' = param_get (parse_params search) ''target''"
    "param_get (policy_query search) ''step'' = param_get (parse_params search) ''step''"
    by (auto simp: policy_query_eq param_get_def split: option.splits)
  show ?thesis
  proof (cases "safe_tab tab = ''policy''")
    case True
    then have u: "urlForTab tab s = urlForTab ''policy'' s" for s
      using pol(1) by (simp add: urlForTab_def safe_tab_def)
    have "policy_query (search_of (urlForTab ''policy'' search)) = policy_query search"
      unfolding policy_query_eq [of "search_of _"] policy_url(2) using get by (simp add: policy_query_eq [of search])
    then have "urlForTab ''policy'' (search_of (urlForTab ''policy'' search)) = urlForTab ''policy'' search"
      by (simp only: urlForTab_def)
    then show ?thesis
      using True get tab_of_path [OF pol(1)] policy_url unfolding u pol(2) by simp
  next
    case False
    then have t: "tab \<in> set legacyTabs" "tab \<noteq> ''policy''" "safe_tab tab = tab" by (auto simp: safe_tab_def split: if_splits)
    then show ?thesis
      using False get other_url [OF t(1,2)] tab_of_path [OF t(1)] by (simp add: parse_params_def)
  qed
qed

declare tabPaths_def [js_eval] pathTabs_def [js_eval] legacyTabs_def [js_eval]
  normalized_path_def [js_eval] tabFromLocation_def [js_eval] policy_query_def [js_eval]
  urlForTab_def [js_eval] passwordResetToken_def [js_eval] initialTarget_def [js_eval]
  workflow_length_def [js_eval] initialStep_def [js_eval] path_of_def [js_eval]
  search_of_def [js_eval] navigateToTab_def [js_eval] go_back_def [js_eval] safe_tab_def [js_eval]

end
