(* ===== verification/App_State.thy ===== *)
theory App_State
  imports Draft Policy_Document Providers Targets Effective_Config Fleet Navigation
begin

section \<open>The state of the application (\<open>App\<close> of \<open>ui/src/main.jsx\<close>)\<close>

text \<open>
  The root component keeps the draft of the editor, the data it loaded, the session and two request
  gates. The state is a record; a handler is a function on it that does what the handler's calls of
  the setters do, in their order. The draft is also kept in the browser's storage. The host
  provides \<open>JSON.parse\<close>, \<open>JSON.stringify\<close> (without and with indentation), the translation of messages
  and the texts of its own errors (a text that is not JSON, a property read from \<open>null\<close>): they are the
  fields of \<open>host\<close>, \<open>None\<close> where they raise.
\<close>

record host =
  h_parse :: "string \<Rightarrow> jsval option"
  h_print :: "jsval \<Rightarrow> string option"
  h_pretty :: "jsval \<Rightarrow> string"
  h_t :: "string \<Rightarrow> string"
  h_syntax_error :: "string \<Rightarrow> string"
  h_null_error :: "string \<Rightarrow> string"

text \<open>The draft. What is restored from the storage can be any JSON value.\<close>

record editor =
  ed_configId :: jsval
  ed_target :: jsval
  ed_baseVersionKey :: jsval
  ed_policy :: jsobj
  ed_editorMode :: jsval
  ed_editorFocus :: string
  ed_rawPolicyBody :: jsval
  ed_collectorBody :: jsval
  ed_collectorValidation :: jsval
  ed_reportedConfigKey :: string
  ed_selectedAgentIds :: jsval
  ed_selectedServices :: jsval
  ed_selectorAttributes :: jsval
  ed_agentQuery :: string
  ed_activeStep :: jsval
  ed_snapshot :: "jsval list option"

record app =
  ap_editor :: editor
  ap_agents :: jsval
  ap_collectorBases :: jsval
  ap_deployments :: jsval
  ap_configs :: jsval
  ap_securityDenylist :: jsval
  ap_reserved :: jsval
  ap_auditEvents :: jsval
  ap_storage :: jsval
  ap_notice :: string
  ap_busy :: bool
  ap_draftRecoveryVisible :: bool
  ap_authIdentity :: jsval
  ap_loginRequired :: bool
  ap_accessModel :: jsval
  ap_actor :: jsval
  ap_localStorage :: "web_storage option"
  ap_loadGate :: nat
  ap_liveLoadGate :: nat
  ap_browser :: browser_history
  ap_menuCollapsed :: bool
  ap_collectorValidationBusy :: bool

subsection \<open>The first state\<close>

definition collector_template :: string where
  "collector_template = (''# Escribe una configuraci'' @ [CHR 0xF3] @ ''n completa del OpenTelemetry Collector'') @ [CHR 0x0A]"

definition first_template :: string where
  "first_template = (''# Escribe o carga una configuraci'' @ [CHR 0xF3] @ ''n completa del OpenTelemetry Collector'') @ [CHR 0x0A]"

definition initial_editor :: "host \<Rightarrow> url_params \<Rightarrow> jsval \<Rightarrow> editor option" where
  "initial_editor h query restored = do {
     policy \<leftarrow> (if truthy (get restored ''policy'') then normalizePolicy (get restored ''policy'') else Some emptyPolicy);
     Some \<lparr>ed_configId = js_or (get restored ''configId'') (Str ''''),
       ed_target = (if \<not> param_has query ''target'' \<and> truthy (get restored ''target'') then get restored ''target''
                    else Str (initialTarget query)),
       ed_baseVersionKey = js_or (get restored ''baseVersionKey'') (Str ''''),
       ed_policy = policy,
       ed_editorMode = js_or (get restored ''editorMode'') (Str ''form''),
       ed_editorFocus = normalizeTelemetryEditorFocus (get restored ''editorFocus''),
       ed_rawPolicyBody = js_or (get restored ''rawPolicyBody'') (Str (h_pretty h (Obj emptyPolicy))),
       ed_collectorBody = js_or (get restored ''collectorBody'') (Str first_template),
       ed_collectorValidation = Null, ed_reportedConfigKey = [],
       ed_selectedAgentIds = js_or (get restored ''selectedAgentIds'') (Arr []),
       ed_selectedServices = js_or (get restored ''selectedServices'') (Arr []),
       ed_selectorAttributes = js_or (get restored ''selectorAttributes'') (Arr []),
       ed_agentQuery = [],
       ed_activeStep = (if \<not> param_has query ''step'' \<and> truthy (get restored ''activeStep'') then get restored ''activeStep''
                        else Num (initialStep query)),
       ed_snapshot = None\<rparr> }"

text \<open>The preference of the menu is read and written without a guard: a storage that is missing or that
  raises stops the application.\<close>

definition sidebar_key :: string where
  "sidebar_key = ''o11y.sidebar.collapsed''"

definition initial_app :: "host \<Rightarrow> string \<Rightarrow> web_storage option \<Rightarrow> app option" where
  "initial_app h url storage =
     (let query = parse_params (search_of url); restored = readPolicyDraft (h_parse h) storage in do {
        ed \<leftarrow> initial_editor h query restored;
        s \<leftarrow> storage;
        collapsed \<leftarrow> get_item s sidebar_key;
        Some \<lparr>ap_editor = ed, ap_agents = Arr [], ap_collectorBases = Arr [], ap_deployments = Arr [], ap_configs = Obj [],
          ap_securityDenylist = Arr [], ap_reserved = Arr [], ap_auditEvents = Arr [],
          ap_storage = Obj [(''driver'', Str ''PostgreSQL''), (''status'', Str ''unknown'')],
          ap_notice = [], ap_busy = False, ap_draftRecoveryVisible = truthy restored,
          ap_authIdentity = Null, ap_loginRequired = True, ap_accessModel = Null, ap_actor = Str ''local-admin'',
          ap_localStorage = storage, ap_loadGate = gate_init, ap_liveLoadGate = gate_init,
          ap_browser = \<lparr>bh_entries = [url], bh_tab = tabFromLocation (path_of url) (search_of url)\<rparr>,
          ap_menuCollapsed = (collapsed = Some ''true''), ap_collectorValidationBusy = False\<rparr> })"

definition sidebarEffect :: "app \<Rightarrow> app option" where
  "sidebarEffect a = do {
     s \<leftarrow> ap_localStorage a;
     s' \<leftarrow> set_item s sidebar_key (if ap_menuCollapsed a then ''true'' else ''false'');
     Some (a\<lparr>ap_localStorage := Some s'\<rparr>) }"

definition toggleMenu :: "app \<Rightarrow> app option" where
  "toggleMenu a = sidebarEffect (a\<lparr>ap_menuCollapsed := \<not> ap_menuCollapsed a\<rparr>)"

definition showTab :: "bool \<Rightarrow> string \<Rightarrow> app \<Rightarrow> app" where
  "showTab replace destination a = a\<lparr>ap_browser := navigateToTab replace destination (ap_browser a)\<rparr>"

definition goBack :: "app \<Rightarrow> app" where
  "goBack a = a\<lparr>ap_browser := go_back (ap_browser a)\<rparr>"

subsection \<open>The stored draft follows the editor\<close>

definition username_of :: "jsval \<Rightarrow> jsval" where
  "username_of identity = js_or (js_or (get identity ''username'') (get identity ''Username'')) (Str '''')"

definition draft_of :: "jsval \<Rightarrow> string \<Rightarrow> editor \<Rightarrow> jsobj" where
  "draft_of owner savedAt ed =
     [(''owner'', owner), (''savedAt'', Str savedAt), (''configId'', ed_configId ed), (''target'', ed_target ed),
      (''baseVersionKey'', ed_baseVersionKey ed), (''policy'', Obj (ed_policy ed)), (''editorMode'', ed_editorMode ed),
      (''editorFocus'', Str (ed_editorFocus ed)), (''rawPolicyBody'', ed_rawPolicyBody ed),
      (''collectorBody'', ed_collectorBody ed), (''selectedAgentIds'', ed_selectedAgentIds ed),
      (''selectedServices'', ed_selectedServices ed), (''selectorAttributes'', ed_selectorAttributes ed),
      (''activeStep'', ed_activeStep ed)]"

definition persist :: "host \<Rightarrow> string \<Rightarrow> app \<Rightarrow> app" where
  "persist h savedAt a =
     (if \<not> truthy (ap_authIdentity a) \<or> \<not> truthy (username_of (ap_authIdentity a)) then a
      else a\<lparr>ap_localStorage := snd (writePolicyDraft (h_print h) (ap_localStorage a)
              (Obj (draft_of (username_of (ap_authIdentity a)) savedAt (ap_editor a))))\<rparr>)"

definition replaceCollectorBody :: "jsval \<Rightarrow> editor \<Rightarrow> editor" where
  "replaceCollectorBody v ed = ed\<lparr>ed_collectorBody := v, ed_collectorValidation := Null\<rparr>"

definition blank_editor :: "host \<Rightarrow> editor \<Rightarrow> editor" where
  "blank_editor h ed =
     (replaceCollectorBody (Str collector_template) (ed\<lparr>
        ed_baseVersionKey := Str '''', ed_configId := Str '''', ed_selectedAgentIds := Arr [], ed_selectedServices := Arr [],
        ed_selectorAttributes := Arr [], ed_policy := emptyPolicy, ed_rawPolicyBody := Str (h_pretty h (Obj emptyPolicy))\<rparr>))
     \<lparr>ed_reportedConfigKey := [], ed_snapshot := None, ed_activeStep := Num (Fin 1)\<rparr>"

definition resetPolicyDraftState :: "host \<Rightarrow> string \<Rightarrow> app \<Rightarrow> app" where
  "resetPolicyDraftState h message a = a\<lparr>ap_editor := blank_editor h (ap_editor a), ap_notice := message\<rparr>"

definition forget_draft :: "app \<Rightarrow> app" where
  "forget_draft a = a\<lparr>ap_localStorage := clearPolicyDraft (ap_localStorage a), ap_draftRecoveryVisible := False\<rparr>"

definition isolates :: "host \<Rightarrow> jsval \<Rightarrow> app \<Rightarrow> bool" where
  "isolates h identity a \<longleftrightarrow>
     (let username = username_of identity; stored = readPolicyDraft (h_parse h) (ap_localStorage a)
      in \<not> truthy username \<or> (truthy (get stored ''owner'') \<and> \<not> strict_eq (get stored ''owner'') username))"

definition isolatePolicyDraft :: "host \<Rightarrow> jsval \<Rightarrow> app \<Rightarrow> app" where
  "isolatePolicyDraft h identity a =
     (if isolates h identity a then resetPolicyDraftState h [] (forget_draft a) else a)"

definition requireLogin :: "host \<Rightarrow> app \<Rightarrow> app" where
  "requireLogin h a =
     (resetPolicyDraftState h [] (forget_draft a))\<lparr>ap_loginRequired := True, ap_authIdentity := Null\<rparr>"

subsection \<open>Loading\<close>

text \<open>A response is its status; \<open>ok\<close> is a status from 200 to 299.\<close>

definition response_ok :: "nat \<Rightarrow> bool" where
  "response_ok status \<longleftrightarrow> 200 \<le> status \<and> status \<le> 299"

definition load_begin :: "app \<Rightarrow> app \<times> nat" where
  "load_begin a = (let (g, sequence) = gate_begin (ap_loadGate a) in (a\<lparr>ap_loadGate := g\<rparr>, sequence))"

definition load_failed :: "host \<Rightarrow> nat \<Rightarrow> app \<Rightarrow> app" where
  "load_failed h sequence a =
     (if gate_isCurrent (ap_loadGate a) sequence then a\<lparr>ap_notice := h_t h ''No se pudo consultar el Control Plane.''\<rparr>
      else a)"

text \<open>The ten responses arrived; the result says whether their bodies are read.\<close>

definition load_responded :: "host \<Rightarrow> nat \<Rightarrow> nat list \<Rightarrow> app \<Rightarrow> app \<times> bool" where
  "load_responded h sequence statuses a =
     (if \<not> gate_isCurrent (ap_loadGate a) sequence then (a, False)
      else if 401 \<in> set statuses then (requireLogin h a, False)
      else if \<exists>s\<in>set statuses. \<not> response_ok s then (load_failed h sequence a, False)
      else (a, True))"

record load_data =
  ld_agents :: jsval
  ld_configs :: jsval
  ld_metrics :: jsval
  ld_audit :: jsval
  ld_storage :: jsval
  ld_security :: jsval
  ld_deployments :: jsval
  ld_identity :: jsval
  ld_access :: jsval
  ld_collectorBases :: jsval

definition actor_of :: "jsval \<Rightarrow> jsval" where
  "actor_of identity = js_or (js_or (get identity ''Username'') (get identity ''username'')) (Str ''authenticated-user'')"

definition load_data_set :: "load_data \<Rightarrow> app \<Rightarrow> app" where
  "load_data_set d a = a\<lparr>ap_agents := ld_agents d, ap_collectorBases := ld_collectorBases d, ap_configs := ld_configs d,
     ap_reserved := ld_metrics d, ap_auditEvents := ld_audit d, ap_storage := ld_storage d,
     ap_securityDenylist := ld_security d, ap_deployments := array_or_empty (ld_deployments d)\<rparr>"

text \<open>The bodies were read (\<open>None\<close>: one of them is not JSON). Reading the name of a missing identity
  raises after the identity was set.\<close>

definition load_finished :: "host \<Rightarrow> nat \<Rightarrow> load_data option \<Rightarrow> app \<Rightarrow> app" where
  "load_finished h sequence data a =
     (if \<not> gate_isCurrent (ap_loadGate a) sequence then a
      else (case data of
          None \<Rightarrow> load_failed h sequence a
        | Some d \<Rightarrow>
            (let a1 = (isolatePolicyDraft h (ld_identity d) (load_data_set d a))
                   \<lparr>ap_authIdentity := ld_identity d, ap_accessModel := ld_access d\<rparr>
             in if nullish (ld_identity d) then load_failed h sequence a1
                else a1\<lparr>ap_actor := actor_of (ld_identity d), ap_loginRequired := False\<rparr>)))"

definition live_begin :: "app \<Rightarrow> app \<times> nat" where
  "live_begin a = (let (g, sequence) = gate_begin (ap_liveLoadGate a) in (a\<lparr>ap_liveLoadGate := g\<rparr>, sequence))"

definition live_responded :: "host \<Rightarrow> nat \<Rightarrow> nat list \<Rightarrow> app \<Rightarrow> app \<times> bool" where
  "live_responded h sequence statuses a =
     (if \<not> gate_isCurrent (ap_liveLoadGate a) sequence then (a, False)
      else if 401 \<in> set statuses then (requireLogin h a, False)
      else if \<exists>s\<in>set statuses. \<not> response_ok s then (a, False)
      else (a, True))"

definition live_finished :: "nat \<Rightarrow> load_data option \<Rightarrow> app \<Rightarrow> app" where
  "live_finished sequence data a =
     (if \<not> gate_isCurrent (ap_liveLoadGate a) sequence then a
      else (case data of
          None \<Rightarrow> a
        | Some d \<Rightarrow> a\<lparr>ap_agents := ld_agents d, ap_configs := ld_configs d,
            ap_deployments := array_or_empty (ld_deployments d), ap_collectorBases := ld_collectorBases d\<rparr>))"

text \<open>The effects of the first rendering: the address, the preference of the menu, the first load. While
  nobody is signed in, the effects of the draft and of the inventory do nothing.\<close>

definition mount :: "app \<Rightarrow> (app \<times> nat) option" where
  "mount a = map_option load_begin (sidebarEffect (showTab True (bh_tab (ap_browser a)) a))"

subsection \<open>Signing in and out\<close>

definition authenticated :: "host \<Rightarrow> jsval \<Rightarrow> app \<Rightarrow> app \<times> nat option" where
  "authenticated h identity a =
     (let a1 = (isolatePolicyDraft h identity a)\<lparr>ap_authIdentity := identity\<rparr> in
      if nullish identity then (a1, None)
      else let (a2, sequence) = load_begin (a1\<lparr>ap_actor := actor_of identity, ap_loginRequired := False\<rparr>)
           in (a2, Some sequence))"

definition logout_begin :: "app \<Rightarrow> app" where
  "logout_begin a = a\<lparr>ap_loadGate := gate_invalidate (ap_loadGate a), ap_liveLoadGate := gate_invalidate (ap_liveLoadGate a)\<rparr>"

definition logout_end :: "host \<Rightarrow> app \<Rightarrow> app" where
  "logout_end h a =
     (resetPolicyDraftState h [] (forget_draft a))\<lparr>ap_authIdentity := Null, ap_loginRequired := True\<rparr>"

declare sidebar_key_def [js_eval] sidebarEffect_def [js_eval] toggleMenu_def [js_eval] showTab_def [js_eval]
  goBack_def [js_eval] mount_def [js_eval] collector_template_def [js_eval] first_template_def [js_eval] initial_editor_def [js_eval]
  initial_app_def [js_eval] username_of_def [js_eval] draft_of_def [js_eval] persist_def [js_eval]
  replaceCollectorBody_def [js_eval] blank_editor_def [js_eval]
  resetPolicyDraftState_def [js_eval] forget_draft_def [js_eval] isolates_def [js_eval]
  isolatePolicyDraft_def [js_eval] requireLogin_def [js_eval] response_ok_def [js_eval]
  load_begin_def [js_eval] load_failed_def [js_eval] load_responded_def [js_eval]
  actor_of_def [js_eval] load_data_set_def [js_eval] load_finished_def [js_eval]
  live_begin_def [js_eval] live_responded_def [js_eval] live_finished_def [js_eval]
  authenticated_def [js_eval] logout_begin_def [js_eval] logout_end_def [js_eval]

subsection \<open>A storage that cannot be used\<close>

text \<open>the draft is read, written and cleared safely on a storage that raises, but the application reads
  the preference of its menu without that care: on such a storage, or with a storage that has no
  room left for it, it stops before it shows anything.\<close>

theorem unusable_storage_stops_the_application:
  "readPolicyDraft (h_parse h) (Some \<lparr>ws_usable = False, ws_quota = q, ws_items = items\<rparr>) = Null \<and>
   initial_app h url (Some \<lparr>ws_usable = False, ws_quota = q, ws_items = items\<rparr>) = None \<and>
   Option.bind (initial_app h url (Some \<lparr>ws_usable = True, ws_quota = 0, ws_items = items\<rparr>)) mount = None"
proof (intro conjI)
  show "readPolicyDraft (h_parse h) (Some \<lparr>ws_usable = False, ws_quota = q, ws_items = items\<rparr>) = Null"
    by (simp add: readPolicyDraft_def get_item_def)
  show "initial_app h url (Some \<lparr>ws_usable = False, ws_quota = q, ws_items = items\<rparr>) = None"
    by (simp add: initial_app_def get_item_def Let_def bind_eq_None_conv)
  have "mount a = None" if "ap_localStorage a = Some \<lparr>ws_usable = True, ws_quota = 0, ws_items = items\<rparr>" for a
    using that by (simp add: mount_def sidebarEffect_def showTab_def set_item_def)
  moreover have "ap_localStorage a = storage" if "initial_app h url storage = Some a" for a storage
    using that by (auto simp: initial_app_def Let_def bind_eq_Some_conv)
  ultimately show "Option.bind (initial_app h url (Some \<lparr>ws_usable = True, ws_quota = 0, ws_items = items\<rparr>)) mount = None"
    by (simp add: bind_eq_None_conv) (metis option.collapse)
qed

end
