(* ===== verification/Publication.thy ===== *)
theory Publication
  imports App_State Capture_Props Collector
begin

section \<open>What is published, and what blocks it (\<open>App\<close> of \<open>ui/src/main.jsx\<close>)\<close>

text \<open>
  Every rendering of the application computes from its state which agents can be chosen, the
  document and the selector a publication would send, and the reasons that block it. \<open>render\<close> is
  that computation; it is \<open>None\<close> where it raises, which unmounts the application.
\<close>

subsection \<open>The names of the instruments\<close>

definition item_fields :: "string \<Rightarrow> jsval \<Rightarrow> jsval list option" where
  "item_fields k v = Option.bind (receiver v) (map_opt (\<lambda>item. getx item k))"

definition policyNames :: "jsobj \<Rightarrow> jsval list option" where
  "policyNames policy = do {
     http \<leftarrow> item_fields ''name'' (fld policy ''metricPolicies'');
     events \<leftarrow> item_fields ''name'' (fld policy ''eventMetricPolicies'');
     messaging \<leftarrow> item_fields ''name'' (fld policy ''messagingMetricPolicies'');
     methods \<leftarrow> receiver (fld policy ''methodPolicies'');
     ofMethods \<leftarrow> flat_map_opt (\<lambda>item. do { ms \<leftarrow> getx item ''metrics''; item_fields ''name'' ms }) methods;
     Some (http @ events @ messaging @ ofMethods) }"

text \<open>\<open>names.indexOf(name)\<close>; \<open>None\<close> is \<open>-1\<close>.\<close>

fun index_of :: "jsval list \<Rightarrow> jsval \<Rightarrow> nat option" where
  "index_of [] v = None"
| "index_of (x # xs) v = (if strict_eq x v then Some 0 else map_option Suc (index_of xs v))"

definition reserved_for_another :: "jsval \<Rightarrow> jsval \<Rightarrow> jsval \<Rightarrow> bool option" where
  "reserved_for_another reserved configId name = do {
     items \<leftarrow> receiver reserved;
     some_opt (\<lambda>item. do {
       n \<leftarrow> getx item ''name'';
       Some (strict_eq n name \<and> \<not> strict_eq (get item ''owner'') configId) }) items }"

definition is_name_error :: "jsval \<Rightarrow> jsval \<Rightarrow> jsval list \<Rightarrow> nat \<times> jsval \<Rightarrow> bool option" where
  "is_name_error reserved configId names = (\<lambda>(index, name).
     if \<not> truthy name \<or> index_of names name \<noteq> Some index then Some True
     else reserved_for_another reserved configId name)"

definition nameErrors :: "app \<Rightarrow> jsval list option" where
  "nameErrors a = (let ed = ap_editor a in do {
     names \<leftarrow> policyNames (ed_policy ed);
     if ed_target ed = Str ''java-extension'' \<and> ed_editorMode ed = Str ''form'' then do {
       wrong \<leftarrow> filter_opt (is_name_error (ap_reserved a) (ed_configId ed) names) (enumerate 0 names);
       Some (map snd wrong) }
     else Some [] })"

subsection \<open>The agents a version can be sent to\<close>

definition connected :: "jsval \<Rightarrow> bool" where
  "connected agent = isConnectedTarget (own_entries agent)"

definition targetAgents :: "app \<Rightarrow> jsval list option" where
  "targetAgents a = do {
     agents \<leftarrow> receiver (ap_agents a);
     agents \<leftarrow> map_opt (\<lambda>agent. if nullish agent then None else Some agent) agents;
     Some (filter connected (compatibleTargetAgents (ed_target (ap_editor a)) agents)) }"

definition step_at_least_3 :: "editor \<Rightarrow> bool" where
  "step_at_least_3 ed \<longleftrightarrow>
     (let step = to_num (ed_activeStep ed) in step \<noteq> NaN \<and> \<not> num_lt step (Fin 3))"

definition destinationAgents :: "app \<Rightarrow> jsval list option" where
  "destinationAgents a = do {
     connected \<leftarrow> targetAgents a;
     Some (case ed_snapshot (ap_editor a) of
         Some snapshot \<Rightarrow> if step_at_least_3 (ap_editor a) then snapshot else connected
       | None \<Rightarrow> connected) }"

text \<open>The effect that runs when the step, the target or the session changes, and the button that
  takes a new snapshot of the inventory.\<close>

definition snapshotEffect :: "(string \<Rightarrow> string \<Rightarrow> jsnum) \<Rightarrow> app \<Rightarrow> app option" where
  "snapshotEffect collate a =
     (let ed = ap_editor a in
      if ap_loginRequired a then Some a
      else if step_at_least_3 ed then do {
        agents \<leftarrow> targetAgents a;
        Some (a\<lparr>ap_editor := ed\<lparr>ed_snapshot := (case ed_snapshot ed of
            Some s \<Rightarrow> Some s | None \<Rightarrow> Some (createTargetInventorySnapshot collate (Arr agents)))\<rparr>\<rparr>) }
      else Some (a\<lparr>ap_editor := ed\<lparr>ed_snapshot := None\<rparr>\<rparr>))"

definition refreshInventory :: "(string \<Rightarrow> string \<Rightarrow> jsnum) \<Rightarrow> app \<Rightarrow> app option" where
  "refreshInventory collate a = do {
     agents \<leftarrow> targetAgents a;
     Some (a\<lparr>ap_editor := (ap_editor a)\<lparr>ed_snapshot := Some (createTargetInventorySnapshot collate (Arr agents))\<rparr>\<rparr>) }"

definition editorSelection :: "editor \<Rightarrow> jsobj" where
  "editorSelection ed =
     [(''selectedAgentIds'', ed_selectedAgentIds ed), (''selectedServices'', ed_selectedServices ed),
      (''selectorAttributes'', ed_selectorAttributes ed)]"

definition editorSelector :: "editor \<Rightarrow> jsval option" where
  "editorSelector ed = do {
     attributes \<leftarrow> receiver (ed_selectorAttributes ed);
     usable \<leftarrow> filter_opt (\<lambda>attribute. do {
       key \<leftarrow> getx attribute ''key''; Some (truthy key \<and> truthy (get attribute ''value'')) }) attributes;
     Some (Obj [(''InstanceUIDs'', ed_selectedAgentIds ed), (''Services'', ed_selectedServices ed),
       (''Attributes'', Obj (from_entries (map (\<lambda>attribute. (to_str (get attribute ''key''), get attribute ''value'')) usable)))]) }"

subsection \<open>The document\<close>

text \<open>\<open>v.trim()\<close>, which only a string has.\<close>

fun trimmed_text :: "jsval \<Rightarrow> string option" where
  "trimmed_text (Str s) = Some (js_trim s)"
| "trimmed_text _ = None"

definition publicationBody :: "host \<Rightarrow> editor \<Rightarrow> jsval" where
  "publicationBody h ed =
     (if ed_target ed = Str ''collector'' then ed_collectorBody ed
      else if ed_editorMode ed = Str ''raw'' then ed_rawPolicyBody ed
      else Str (h_pretty h (Obj (ed_policy ed))))"

text \<open>\<open>rawPolicyValid\<close> and \<open>policyForClientValidation\<close>.\<close>

definition clientPolicy :: "host \<Rightarrow> editor \<Rightarrow> bool \<times> jsval" where
  "clientPolicy h ed =
     (if ed_target ed = Str ''java-extension'' \<and> ed_editorMode ed = Str ''raw'' then
        (case h_parse h (to_str (ed_rawPolicyBody ed)) of
           Some v \<Rightarrow> (True, v) | None \<Rightarrow> (False, Obj (ed_policy ed)))
      else (True, Obj (ed_policy ed)))"

text \<open>The properties of the policy that is checked: reading one of \<open>null\<close> raises.\<close>

definition policy_fields :: "jsval \<Rightarrow> jsobj option" where
  "policy_fields v = (if nullish v then None else Some (case v of Obj p \<Rightarrow> p | _ \<Rightarrow> []))"

definition invalidPolicyHeaders :: "jsval \<Rightarrow> jsval list option" where
  "invalidPolicyHeaders policy = do {
     request \<leftarrow> getx policy ''requestHeaders'';
     requestNames \<leftarrow> map_opt (\<lambda>item. getx item ''name'') (array request);
     responseNames \<leftarrow> map_opt (\<lambda>item. getx item ''name'') (array (get policy ''responseHeaders''));
     attributes \<leftarrow> flat_map_opt (\<lambda>item. do {
         custom \<leftarrow> getx item ''customAttributes''; map_opt (\<lambda>attribute. getx attribute ''header'') (array custom) })
       (array (get policy ''metricPolicies''));
     Some (filter (\<lambda>name. js_trim (str_or name '''') = []) (requestNames @ responseNames @ attributes)) }"

definition denylist_entries :: "jsval \<Rightarrow> jsobj list option" where
  "denylist_entries v =
     (if v = Undef then Some []
      else Option.bind (receiver v) (map_opt (\<lambda>entry. if nullish entry then None else Some (own_entries entry))))"

definition collectorValidationCurrent :: "editor \<Rightarrow> bool" where
  "collectorValidationCurrent ed \<longleftrightarrow>
     ed_target ed \<noteq> Str ''collector'' \<or>
     truthy (get (ed_collectorValidation ed) ''valid'') \<and>
       strict_eq (get (ed_collectorValidation ed) ''body'') (ed_collectorBody ed)"

definition reservedCollectorBaseID :: "app \<Rightarrow> bool option" where
  "reservedCollectorBaseID a =
     (if ed_target (ap_editor a) \<noteq> Str ''collector'' then Some False
      else do {
        bases \<leftarrow> receiver (ap_collectorBases a);
        ids \<leftarrow> map_opt (\<lambda>base. if base = Null then None
                 else Some (fld (normalizeCollectorBase (own_entries base)) ''ID'')) bases;
        configId \<leftarrow> trimmed_text (ed_configId (ap_editor a));
        Some (\<exists>x\<in>set ids. same_value_zero x (Str configId)) })"

subsection \<open>One rendering\<close>

record view =
  vw_nameErrors :: "jsval list"
  vw_matching :: "jsval list"
  vw_selector :: jsval
  vw_configId :: string
  vw_body :: jsval
  vw_blank :: bool
  vw_rawPolicyValid :: bool
  vw_schema :: string
  vw_incompatible :: "jsval list"
  vw_denyViolations :: "violation list"
  vw_wireErrors :: "string list"
  vw_invalidHeaders :: "jsval list"
  vw_validationCurrent :: bool
  vw_reservedBase :: bool

definition matchingTargetAgents :: "app \<Rightarrow> jsval list option" where
  "matchingTargetAgents a =
     map_option (filter (\<lambda>agent. matchesTargetSelector agent (editorSelection (ap_editor a)))) (destinationAgents a)"

definition render :: "host \<Rightarrow> app \<Rightarrow> view option" where
  "render h a = (let ed = ap_editor a; java = (ed_target ed = Str ''java-extension'');
       (rawPolicyValid, policy) = clientPolicy h ed; checks = (java \<and> rawPolicyValid) in do {
     names \<leftarrow> nameErrors a;
     matching \<leftarrow> matchingTargetAgents a;
     selector \<leftarrow> editorSelector ed;
     schema \<leftarrow> (if checks then Option.bind (policy_fields policy) requiredPolicySchema else Some ''1.3'');
     violations \<leftarrow> (if checks then do {
         p \<leftarrow> policy_fields policy; es \<leftarrow> denylist_entries (ap_securityDenylist a); policyCaptureDenyViolations p es }
       else Some []);
     headers \<leftarrow> (if checks then invalidPolicyHeaders policy else Some []);
     reservedBase \<leftarrow> reservedCollectorBaseID a;
     configId \<leftarrow> trimmed_text (ed_configId ed);
     body \<leftarrow> trimmed_text (publicationBody h ed);
     Some \<lparr>vw_nameErrors = names, vw_matching = matching, vw_selector = selector, vw_configId = configId,
       vw_body = publicationBody h ed, vw_blank = (body = []), vw_rawPolicyValid = rawPolicyValid, vw_schema = schema,
       vw_incompatible = (if java then filter (\<lambda>agent. \<not> agentSupportsPolicySchema (own_entries agent) schema) matching else []),
       vw_denyViolations = violations, vw_wireErrors = (if checks then policyWireContractErrors policy else []),
       vw_invalidHeaders = headers, vw_validationCurrent = collectorValidationCurrent ed, vw_reservedBase = reservedBase\<rparr> })"

definition configurationReady :: "view \<Rightarrow> bool" where
  "configurationReady v \<longleftrightarrow>
     \<not> vw_blank v \<and> vw_nameErrors v = [] \<and> vw_invalidHeaders v = [] \<and> vw_denyViolations v = [] \<and>
     vw_wireErrors v = [] \<and> vw_rawPolicyValid v \<and> vw_validationCurrent v \<and> \<not> vw_reservedBase v"

definition publicationBlockers :: "jsval \<Rightarrow> view \<Rightarrow> string list" where
  "publicationBlockers target v =
     (if vw_configId v = [] then [(''Define un ID de configuraci'' @ [CHR 0xF3] @ ''n en el paso Origen.'')] else []) @
     (if vw_blank v then [(''La configuraci'' @ [CHR 0xF3] @ ''n est'' @ [CHR 0xE1] @ '' vac'' @ [CHR 0xED] @ ''a.'')] else []) @
     (if vw_nameErrors v \<noteq> [] then [(''Hay nombres de m'' @ [CHR 0xE9] @ ''tricas vac'' @ [CHR 0xED] @ ''os, repetidos o reservados.'')] else []) @
     (if vw_invalidHeaders v \<noteq> [] then [(''Hay capturas HTTP con un header vac'' @ [CHR 0xED] @ ''o.'')] else []) @
     (if vw_denyViolations v \<noteq> []
      then [''La policy intenta capturar datos bloqueados por la denylist del Control Plane.''] else []) @
     filter (\<lambda>s. s \<noteq> []) (take 1 (vw_wireErrors v)) @
     (if vw_incompatible v \<noteq> []
      then [''La policy requiere schema '' @ vw_schema v @ ''; '' @ nat_str (length (vw_incompatible v)) @
            ('' destino(s) coincidente(s) no reportan una versi'' @ [CHR 0xF3] @ ''n compatible en o11y.policy.schema.'')] else []) @
     (if vw_reservedBase v
      then [(''Ese ID pertenece a un ConfigMap base inmutable; usa otro ID para la configuraci'' @ [CHR 0xF3] @ ''n administrada.'')] else []) @
     (if \<not> vw_rawPolicyValid v then [(''El JSON de la policy no tiene una sintaxis v'' @ [CHR 0xE1] @ ''lida.'')] else []) @
     (if target = Str ''collector'' \<and> \<not> vw_validationCurrent v
      then [''Valida el YAML actual con otelcol-contrib antes de publicarlo.''] else []) @
     (if vw_matching v = [] then [''No hay destinos conectados que coincidan con los selectores.''] else [])"

text \<open>The button that publishes, and what it sends.\<close>

definition canPublish :: "host \<Rightarrow> app \<Rightarrow> bool" where
  "canPublish h a \<longleftrightarrow> \<not> ap_busy a \<and>
     (case render h a of None \<Rightarrow> False
      | Some v \<Rightarrow> configurationReady v \<and> publicationBlockers (ed_target (ap_editor a)) v = [])"

definition publicationRequest :: "editor \<Rightarrow> view \<Rightarrow> jsobj" where
  "publicationRequest ed v =
     [(''ID'', ed_configId ed), (''Target'', ed_target ed), (''Body'', vw_body v), (''Selector'', vw_selector v)]"

declare item_fields_def [js_eval] policyNames_def [js_eval] reserved_for_another_def [js_eval]
  is_name_error_def [js_eval] nameErrors_def [js_eval] connected_def [js_eval]
  targetAgents_def [js_eval] step_at_least_3_def [js_eval] destinationAgents_def [js_eval]
  snapshotEffect_def [js_eval] refreshInventory_def [js_eval] editorSelection_def [js_eval]
  editorSelector_def [js_eval] publicationBody_def [js_eval] clientPolicy_def [js_eval]
  policy_fields_def [js_eval] invalidPolicyHeaders_def [js_eval] denylist_entries_def [js_eval]
  collectorValidationCurrent_def [js_eval] reservedCollectorBaseID_def [js_eval]
  matchingTargetAgents_def [js_eval] render_def [js_eval] configurationReady_def [js_eval]
  publicationBlockers_def [js_eval] canPublish_def [js_eval] publicationRequest_def [js_eval]

subsection \<open>What the blockers guarantee\<close>

lemma render_parts:
  assumes "render h a = Some v"
  shows "nameErrors a = Some (vw_nameErrors v)" "matchingTargetAgents a = Some (vw_matching v)"
    "editorSelector (ap_editor a) = Some (vw_selector v)" "vw_body v = publicationBody h (ap_editor a)"
    "vw_validationCurrent v = collectorValidationCurrent (ap_editor a)"
    "reservedCollectorBaseID a = Some (vw_reservedBase v)" "vw_rawPolicyValid v = fst (clientPolicy h (ap_editor a))"
    "trimmed_text (ed_configId (ap_editor a)) = Some (vw_configId v)"
  using assms by (auto simp: render_def Let_def bind_eq_Some_conv split: prod.splits)

text \<open>Everything that must hold for a policy of the Java extension, over the parsed policy.\<close>

lemma render_java:
  assumes "render h a = Some v" "ed_target (ap_editor a) = Str ''java-extension''" "clientPolicy h (ap_editor a) = (True, policy)"
  obtains p entries where "policy_fields policy = Some p" "requiredPolicySchema p = Some (vw_schema v)"
    "denylist_entries (ap_securityDenylist a) = Some entries" "policyCaptureDenyViolations p entries = Some (vw_denyViolations v)"
    "invalidPolicyHeaders policy = Some (vw_invalidHeaders v)" "vw_wireErrors v = policyWireContractErrors policy"
    "vw_incompatible v = filter (\<lambda>agent. \<not> agentSupportsPolicySchema (own_entries agent) (vw_schema v)) (vw_matching v)"
  using assms by (auto simp: render_def Let_def bind_eq_Some_conv)

lemma one_reason: "(if c then [x] else []) = [] \<longleftrightarrow> \<not> c"
  by simp

lemma no_blockers:
  "publicationBlockers target v = [] \<longleftrightarrow>
     vw_configId v \<noteq> [] \<and> \<not> vw_blank v \<and> vw_nameErrors v = [] \<and> vw_invalidHeaders v = [] \<and> vw_denyViolations v = [] \<and>
     filter (\<lambda>s. s \<noteq> []) (take 1 (vw_wireErrors v)) = [] \<and> vw_incompatible v = [] \<and> \<not> vw_reservedBase v \<and> vw_rawPolicyValid v \<and>
     (target = Str ''collector'' \<longrightarrow> vw_validationCurrent v) \<and> vw_matching v \<noteq> []"
  unfolding publicationBlockers_def append_is_Nil_conv one_reason by blast

lemma can_publish:
  assumes "canPublish h a"
  obtains v where "render h a = Some v" "configurationReady v" "publicationBlockers (ed_target (ap_editor a)) v = []"
  using assms by (auto simp: canPublish_def split: option.splits)

lemma no_violations:
  assumes "policyCaptureDenyViolations p entries = Some []"
  shows "\<exists>cs. captures_of p = Some cs \<and> (\<forall>c\<in>set cs. \<forall>b\<in>set (denied_values entries (ca_kind c)).
    \<not> blocks (ca_kind c) (canonical_capture (ca_kind c) (ca_value c)) b)"
proof -
  obtain cs where cs: "captures_of p = Some cs" and "\<forall>c\<in>set cs. set (violation_of entries c) = {}"
    using violations_set [OF assms] by (metis UN_I equals0D list.set(1) subsetI subset_antisym)
  then show ?thesis by (fastforce simp: violation_of_def Let_def split: if_splits)
qed

text \<open>C5: a policy can be published only after every check: the document that is sent is the JSON that
  was checked, an object that keeps the wire contract, none of its captures is covered by the denylist,
  and some agent matches, each of which supports the schema that the policy requires.\<close>

theorem published_policy_is_checked:
  assumes "canPublish h a" "ed_target (ap_editor a) = Str ''java-extension''"
  shows "\<exists>v p entries captures. render h a = Some v \<and>
    (if ed_editorMode (ap_editor a) = Str ''raw'' then h_parse h (to_str (vw_body v)) = Some (Obj p)
     else vw_body v = Str (h_pretty h (Obj p)) \<and> p = ed_policy (ap_editor a)) \<and>
    policyWireContractErrors (Obj p) = [] \<and>
    denylist_entries (ap_securityDenylist a) = Some entries \<and> captures_of p = Some captures \<and>
    (\<forall>c\<in>set captures. \<forall>b\<in>set (denied_values entries (ca_kind c)).
       \<not> blocks (ca_kind c) (canonical_capture (ca_kind c) (ca_value c)) b) \<and>
    vw_matching v \<noteq> [] \<and> requiredPolicySchema p = Some (vw_schema v) \<and>
    (\<forall>agent\<in>set (vw_matching v). agentSupportsPolicySchema (own_entries agent) (vw_schema v))"
proof -
  obtain v where v: "render h a = Some v" and ready: "configurationReady v"
    and none: "publicationBlockers (ed_target (ap_editor a)) v = []"
    using assms(1) by (rule can_publish)
  have "fst (clientPolicy h (ap_editor a))" using render_parts(7) [OF v] ready by (simp add: configurationReady_def)
  then obtain policy where c: "clientPolicy h (ap_editor a) = (True, policy)" by (cases "clientPolicy h (ap_editor a)") simp
  obtain p entries where p: "policy_fields policy = Some p" "requiredPolicySchema p = Some (vw_schema v)"
    "denylist_entries (ap_securityDenylist a) = Some entries" "policyCaptureDenyViolations p entries = Some (vw_denyViolations v)"
    "vw_wireErrors v = policyWireContractErrors policy"
    "vw_incompatible v = filter (\<lambda>agent. \<not> agentSupportsPolicySchema (own_entries agent) (vw_schema v)) (vw_matching v)"
    using render_java [OF v assms(2) c] by metis
  have wire: "policyWireContractErrors policy = []" using ready p(5) by (simp add: configurationReady_def)
  then have policy: "policy = Obj p" using p(1) by (cases policy) (auto simp: policy_fields_def nullish_def policyWireContractErrors_def)
  obtain cs where "captures_of p = Some cs" "\<forall>c\<in>set cs. \<forall>b\<in>set (denied_values entries (ca_kind c)).
      \<not> blocks (ca_kind c) (canonical_capture (ca_kind c) (ca_value c)) b"
    using no_violations p(4) ready by (metis configurationReady_def)
  moreover have "\<forall>agent\<in>set (vw_matching v). agentSupportsPolicySchema (own_entries agent) (vw_schema v)"
    "vw_matching v \<noteq> []"
    using none p(6) by (auto simp: no_blockers filter_empty_conv)
  moreover have "if ed_editorMode (ap_editor a) = Str ''raw'' then h_parse h (to_str (vw_body v)) = Some (Obj p)
     else vw_body v = Str (h_pretty h (Obj p)) \<and> p = ed_policy (ap_editor a)"
    using c assms(2) policy render_parts(4) [OF v]
    by (auto simp: clientPolicy_def publicationBody_def split: option.splits if_splits)
  ultimately show ?thesis using v wire p(2,3) policy by blast
qed

definition plain_host :: host where
  "plain_host = \<lparr>h_parse = (\<lambda>_. None), h_print = (\<lambda>_. None), h_pretty = (\<lambda>_. ''{}''), h_t = id,
     h_syntax_error = (\<lambda>_. ''SyntaxError''), h_null_error = (\<lambda>_. ''TypeError'')\<rparr>"

definition example_editor :: editor where
  "example_editor =
     \<lparr>ed_configId = Str ''orders'', ed_target = Str ''java-extension'', ed_baseVersionKey = Str [],
      ed_policy = emptyPolicy, ed_editorMode = Str ''form'', ed_editorFocus = ''http-incoming'', ed_rawPolicyBody = Str ''{}'',
      ed_collectorBody = Str [], ed_collectorValidation = Null, ed_reportedConfigKey = [], ed_selectedAgentIds = Arr [],
      ed_selectedServices = Arr [], ed_selectorAttributes = Arr [], ed_agentQuery = [], ed_activeStep = Num (Fin 4),
      ed_snapshot = None\<rparr>"

definition example_app :: app where
  "example_app =
     \<lparr>ap_editor = example_editor,
      ap_agents = Arr [Obj [(''UID'', Str ''a''), (''Kind'', Str ''java-extension''), (''LiveStatus'', Str ''CONNECTED''),
        (''Attributes'', Obj [(''o11y.policy.schema'', Str ''1.7'')])]],
      ap_collectorBases = Arr [], ap_deployments = Arr [], ap_configs = Obj [], ap_securityDenylist = Arr [],
      ap_reserved = Arr [], ap_auditEvents = Arr [], ap_storage = Obj [], ap_notice = [], ap_busy = False,
      ap_draftRecoveryVisible = False, ap_authIdentity = Obj [(''username'', Str ''ana'')], ap_loginRequired = False,
      ap_accessModel = Null, ap_actor = Str ''ana'',
      ap_localStorage = Some \<lparr>ws_usable = True, ws_quota = 100, ws_items = []\<rparr>, ap_loadGate = 0, ap_liveLoadGate = 0,
      ap_browser = \<lparr>bh_entries = [''/policy-studio''], bh_tab = ''policy''\<rparr>, ap_menuCollapsed = False,
      ap_collectorValidationBusy = False\<rparr>"

lemma example_app_publishes:
  "canPublish plain_host example_app" "ed_target (ap_editor example_app) = Str ''java-extension''"
  by code_simp+

theorem published_policy_is_checked_witness:
  "\<exists>v p. render plain_host example_app = Some v \<and> p = ed_policy (ap_editor example_app) \<and>
     vw_body v = Str (h_pretty plain_host (Obj p)) \<and> policyWireContractErrors (Obj p) = [] \<and> vw_matching v \<noteq> []"
proof -
  have "ed_editorMode (ap_editor example_app) \<noteq> Str ''raw''" by code_simp
  then show ?thesis using published_policy_is_checked [OF example_app_publishes] by auto
qed

subsection \<open>The names of a published policy\<close>

lemma index_of_Str:
  "index_of (map Str ns) (Str n) = Some i \<longleftrightarrow> i < length ns \<and> ns ! i = n \<and> n \<notin> set (take i ns)"
proof (induction ns arbitrary: i)
  case (Cons m ns)
  then show ?case by (cases i) auto
qed simp

lemma first_everywhere: "(\<forall>i<length ns. index_of (map Str ns) (Str (ns ! i)) = Some i) \<longleftrightarrow> distinct ns"
proof -
  have "distinct ns \<longleftrightarrow> (\<forall>i<length ns. ns ! i \<notin> set (take i ns))"
    by (auto simp: distinct_conv_nth in_set_conv_nth) (metis linorder_neqE_nat less_trans)
  then show ?thesis by (simp add: index_of_Str)
qed

lemma filter_opt_Nil: "filter_opt p xs = Some [] \<longleftrightarrow> (\<forall>x\<in>set xs. p x = Some False)"
  by (induction xs) (auto split: bind_splits)

lemma some_opt_False: "some_opt p xs = Some False \<longleftrightarrow> (\<forall>x\<in>set xs. p x = Some False)"
  by (induction xs) (auto split: bind_splits)

text \<open>The reserved names of other configurations.\<close>

definition reserved_names :: "jsval list \<Rightarrow> jsval \<Rightarrow> string set" where
  "reserved_names items configId =
     {n. \<exists>item\<in>set items. get item ''name'' = Str n \<and> \<not> strict_eq (get item ''owner'') configId}"

lemma reserved_for_another_iff:
  assumes "\<forall>item\<in>set items. \<not> nullish item"
  shows "reserved_for_another (Arr items) configId (Str n) = Some (n \<in> reserved_names items configId)"
proof -
  have "some_opt (\<lambda>item. do { m \<leftarrow> getx item ''name''; Some (strict_eq m (Str n) \<and> \<not> strict_eq (get item ''owner'') configId) }) items
      = Some (\<exists>item\<in>set items. strict_eq (get item ''name'') (Str n) \<and> \<not> strict_eq (get item ''owner'') configId)"
    using assms by (intro some_opt_total) (simp add: getx_def)
  moreover have "strict_eq m (Str n) \<longleftrightarrow> m = Str n" for m by (cases m) auto
  ultimately show ?thesis by (simp add: reserved_for_another_def reserved_names_def)
qed

text \<open>C9: When a Java policy is edited with the form, the names of all its instruments (of HTTP, of events, of
  messaging and of methods) are strings, as the inputs of the form make them, and the list of reserved names has no missing entry, the form
  reports no wrong name exactly when no name is the empty string, the names are pairwise distinct and none is
  reserved by another configuration. The names are compared as they are written, so that a name of blanks
  passes, and so do two names that differ in the blanks around them.\<close>

theorem instrument_names_are_unique:
  assumes "ed_target (ap_editor a) = Str ''java-extension''" "ed_editorMode (ap_editor a) = Str ''form''"
    and "policyNames (ed_policy (ap_editor a)) = Some (map Str ns)"
    and "ap_reserved a = Arr items" "\<forall>item\<in>set items. \<not> nullish item"
  shows "nameErrors a = Some [] \<longleftrightarrow>
    [] \<notin> set ns \<and> distinct ns \<and> set ns \<inter> reserved_names items (ed_configId (ap_editor a)) = {}"
proof -
  let ?id = "ed_configId (ap_editor a)"
  let ?p = "is_name_error (ap_reserved a) ?id (map Str ns)"
  have p: "?p (i, Str n) = Some False \<longleftrightarrow>
      n \<noteq> [] \<and> index_of (map Str ns) (Str n) = Some i \<and> n \<notin> reserved_names items ?id" for i n
    using assms(5) by (auto simp: is_name_error_def assms(4) reserved_for_another_iff)
  have "nameErrors a = Some [] \<longleftrightarrow> filter_opt ?p (enumerate 0 (map Str ns)) = Some []"
    using assms(1-3) by (auto simp: nameErrors_def Let_def bind_eq_Some_conv)
  also have "\<dots> \<longleftrightarrow> (\<forall>i<length ns. ?p (i, Str (ns ! i)) = Some False)"
    by (auto simp: filter_opt_Nil in_set_enumerate_eq)
  also have "\<dots> \<longleftrightarrow> (\<forall>n\<in>set ns. n \<noteq> [] \<and> n \<notin> reserved_names items ?id) \<and> distinct ns"
    unfolding p first_everywhere [symmetric] by (auto simp: all_set_conv_all_nth)
  finally show ?thesis by auto
qed

theorem instrument_names_are_unique_witness:
  "nameErrors (example_app\<lparr>ap_reserved := Arr [Obj [(''name'', Str ''orders.total''), (''owner'', Str ''billing'')]],
      ap_editor := (ap_editor example_app)\<lparr>ed_policy :=
        obj_put ''metricPolicies'' (Arr [Obj [(''name'', Str ''orders.total'')]]) emptyPolicy\<rparr>\<rparr>) \<noteq> Some []"
proof -
  let ?items = "[Obj [(''name'', Str ''orders.total''), (''owner'', Str ''billing'')]]"
  let ?ed = "(ap_editor example_app)\<lparr>ed_policy :=
        obj_put ''metricPolicies'' (Arr [Obj [(''name'', Str ''orders.total'')]]) emptyPolicy\<rparr>"
  let ?a = "example_app\<lparr>ap_reserved := Arr ?items, ap_editor := ?ed\<rparr>"
  have "policyNames (ed_policy ?ed) = Some (map Str [''orders.total''])" by code_simp
  moreover have "ed_target ?ed = Str ''java-extension''" "ed_editorMode ?ed = Str ''form''" "ed_configId ?ed = Str ''orders''"
    by code_simp+
  ultimately show ?thesis
    using instrument_names_are_unique [of ?a "[''orders.total'']" ?items]
    by (auto simp: reserved_names_def fld_def nullish_def)
qed

subsection \<open>A document the checks cannot read\<close>

text \<open>JSON that is \<open>null\<close>, or a policy whose list of metrics is a truthy value that is not a list: some of what
  \<open>policyWireContractErrors\<close> is there to report.\<close>

definition unreadable_policy :: "jsval \<Rightarrow> bool" where
  "unreadable_policy v \<longleftrightarrow> v = Null \<or>
     (\<exists>p. v = Obj p \<and> truthy (fld p ''metricPolicies'') \<and> \<not> is_array (fld p ''metricPolicies''))"

lemma unreadable_list: "truthy v \<Longrightarrow> \<not> is_array v \<Longrightarrow> list_or v = None"
  by (cases v) (auto simp: list_or_def js_or_def)

lemma unreadable_schema:
  assumes "truthy (fld p ''metricPolicies'')" "\<not> is_array (fld p ''metricPolicies'')"
  shows "requiredPolicySchema p = None"
  using unreadable_list [OF assms]
  by (simp add: requiredPolicySchema_def policyUsesPassthroughValuePolicy_def nested_value_policies_def)

text \<open>C10: in the JSON mode, text that parses to \<open>null\<close>, or to a policy whose \<open>metricPolicies\<close> is a truthy value that
  is not a list (a text that is not empty, a number other than zero, \<open>true\<close>, an object), is a policy the wire
  contract rejects with a message; but computing the schema of the policy raises before the message can be
  shown, so the application stops rendering while the user types.\<close>

theorem unreadable_json_stops_the_rendering:
  assumes "ed_target (ap_editor a) = Str ''java-extension''" "ed_editorMode (ap_editor a) = Str ''raw''"
    and "h_parse h (to_str (ed_rawPolicyBody (ap_editor a))) = Some v" "unreadable_policy v"
  shows "policyWireContractErrors v \<noteq> [] \<and> render h a = None"
proof
  show "policyWireContractErrors v \<noteq> []"
  proof (cases "v = Null")
    case False
    then obtain p where p: "v = Obj p" "truthy (fld p ''metricPolicies'')" "\<not> is_array (fld p ''metricPolicies'')"
      using assms(4) by (auto simp: unreadable_policy_def)
    then have "collection_errors p ''metricPolicies'' \<noteq> []" by (cases "fld p ''metricPolicies''") (auto simp: collection_errors_def Let_def)
    then show ?thesis using p by (auto simp: policyWireContractErrors_def policyCollections_def)
  qed (simp add: policyWireContractErrors_def)
  have c: "clientPolicy h (ap_editor a) = (True, v)" using assms by (simp add: clientPolicy_def)
  have "Option.bind (policy_fields v) requiredPolicySchema = None"
    using assms(4) unreadable_schema by (auto simp: unreadable_policy_def policy_fields_def nullish_def)
  then show "render h a = None" using render_java [OF _ assms(1) c] by (metis bind.bind_lunit not_None_eq)
qed

theorem unreadable_json_stops_the_rendering_witness:
  "render (plain_host\<lparr>h_parse := (\<lambda>s. if s = ''null'' then Some Null else None)\<rparr>)
     (example_app\<lparr>ap_editor := (ap_editor example_app)\<lparr>ed_editorMode := Str ''raw'', ed_rawPolicyBody := Str ''null''\<rparr>\<rparr>) = None"
proof -
  let ?h = "plain_host\<lparr>h_parse := (\<lambda>s. if s = ''null'' then Some Null else None)\<rparr>"
  let ?ed = "(ap_editor example_app)\<lparr>ed_editorMode := Str ''raw'', ed_rawPolicyBody := Str ''null''\<rparr>"
  have "ed_target ?ed = Str ''java-extension''" by code_simp
  then show ?thesis
    using unreadable_json_stops_the_rendering [of "example_app\<lparr>ap_editor := ?ed\<rparr>" ?h Null] by (simp add: unreadable_policy_def)
qed

declare plain_host_def [js_eval] example_editor_def [js_eval] example_app_def [js_eval]
  reserved_names_def [js_eval] unreadable_policy_def [js_eval]

end
