(* ===== verification/App_Handlers.thy ===== *)
theory App_Handlers
  imports Publication Versions Policy_Catalog Collector_Catalog Account Network
begin

section \<open>The handlers of the application (\<open>App\<close> of \<open>ui/src/main.jsx\<close>)\<close>

text \<open>
  What the buttons and fields of the editor do to the state of the application, and the requests
  that publish, restore and retire versions. A request is split at its response: \<open>..._begin\<close> runs
  up to the call, \<open>..._end\<close> from the reply on. The ellipsis of a notice, which has no Latin-1 code,
  is written as its three UTF-8 bytes.
\<close>

definition ellipsis :: string where
  "ellipsis = [CHR 0xE2, CHR 0x80, CHR 0xA6]"

subsection \<open>Fields of the editor\<close>

definition edit :: "(editor \<Rightarrow> editor) \<Rightarrow> app \<Rightarrow> app" where
  "edit f a = a\<lparr>ap_editor := f (ap_editor a)\<rparr>"

definition changeTarget :: "string \<Rightarrow> app \<Rightarrow> app" where
  "changeTarget v a = (edit (\<lambda>ed. ed\<lparr>ed_target := Str v, ed_baseVersionKey := Str [], ed_configId := Str [],
     ed_selectedAgentIds := Arr [], ed_selectedServices := Arr [], ed_selectorAttributes := Arr [], ed_agentQuery := [],
     ed_reportedConfigKey := [], ed_collectorValidation := Null, ed_snapshot := None, ed_activeStep := Num (Fin 1)\<rparr>) a)
     \<lparr>ap_notice := []\<rparr>"

record type_option =
  to_id :: string
  to_target :: string
  to_editorFocus :: "string option"

definition configurationTypeOptions :: "type_option list" where
  "configurationTypeOptions =
     [\<lparr>to_id = ''telemetry-events'', to_target = ''java-extension'', to_editorFocus = Some ''http-incoming''\<rparr>,
      \<lparr>to_id = ''collector'', to_target = ''collector'', to_editorFocus = None\<rparr>]"

definition chooseConfigurationType :: "type_option \<Rightarrow> app \<Rightarrow> app" where
  "chooseConfigurationType option a =
     (let a1 = (if strict_eq (Str (to_target option)) (ed_target (ap_editor a)) then a
                else changeTarget (to_target option) a)
      in if to_target option = ''java-extension''
         then edit (\<lambda>ed. ed\<lparr>ed_editorFocus := (case to_editorFocus option of
                Some f \<Rightarrow> if f = [] then ''http-incoming'' else f | None \<Rightarrow> ''http-incoming'')\<rparr>) a1
         else a1)"

definition startBlank :: "host \<Rightarrow> app \<Rightarrow> app" where
  "startBlank h a = resetPolicyDraftState h (h_t h (''Editor reiniciado. No se public'' @ [CHR 0xF3] @ '' ning'' @ [CHR 0xFA] @ ''n cambio.'')) a"

definition discardDraft :: "host \<Rightarrow> app \<Rightarrow> app" where
  "discardDraft h a =
     resetPolicyDraftState h (h_t h (''Borrador local descartado. No se public'' @ [CHR 0xF3] @ '' ning'' @ [CHR 0xFA] @ ''n cambio.'')) (forget_draft a)"

text \<open>The steps: a click on the stepper, and the buttons below a step, which a condition disables.\<close>

definition chooseStep :: "nat \<Rightarrow> app \<Rightarrow> app" where
  "chooseStep number a =
     (if 1 \<le> number \<and> number \<le> workflow_length then edit (\<lambda>ed. ed\<lparr>ed_activeStep := Num (Fin (of_nat number))\<rparr>) a else a)"

definition nextDisabled :: "host \<Rightarrow> app \<Rightarrow> bool" where
  "nextDisabled h a =
     (case render h a of None \<Rightarrow> True
      | Some v \<Rightarrow>
          (if ed_activeStep (ap_editor a) = Num (Fin 1) then vw_configId v = []
           else if ed_activeStep (ap_editor a) = Num (Fin 2) then \<not> configurationReady v
           else if ed_activeStep (ap_editor a) = Num (Fin 3) then vw_matching v = [] \<or> vw_incompatible v \<noteq> []
           else True))"

definition nextStep :: "host \<Rightarrow> app \<Rightarrow> app" where
  "nextStep h a =
     (if nextDisabled h a then a
      else edit (\<lambda>ed. ed\<lparr>ed_activeStep := (case ed_activeStep ed of Num (Fin q) \<Rightarrow> Num (Fin (q + 1)) | v \<Rightarrow> v)\<rparr>) a)"

subsection \<open>The mode of the editor\<close>

definition switchEditorMode :: "host \<Rightarrow> string \<Rightarrow> app \<Rightarrow> app" where
  "switchEditorMode h nextMode a =
     (let ed = ap_editor a in
      if ed_editorMode ed = Str nextMode then a
      else if nextMode = ''raw'' then
        edit (\<lambda>ed. ed\<lparr>ed_rawPolicyBody := Str (h_pretty h (Obj (ed_policy ed))), ed_editorMode := Str ''raw''\<rparr>) a
      else (case Option.bind (h_parse h (to_str (ed_rawPolicyBody ed))) normalizePolicy of
          Some policy \<Rightarrow> (edit (\<lambda>ed. ed\<lparr>ed_policy := policy, ed_editorMode := Str ''form''\<rparr>) a)\<lparr>ap_notice := []\<rparr>
        | None \<Rightarrow> a\<lparr>ap_notice := h_t h (''El JSON debe ser v'' @ [CHR 0xE1] @ ''lido antes de volver al formulario.'')\<rparr>))"

subsection \<open>Opening a version\<close>

definition httpItems :: "jsobj \<Rightarrow> jsval list option" where
  "httpItems policy = flat_map_opt (\<lambda>k. iterate (fld policy k))
     [''requestHeaders'', ''responseHeaders'', ''metricPolicies'', ''bodyEventPolicies'']"

definition has_direction :: "string \<Rightarrow> jsval list \<Rightarrow> bool option" where
  "has_direction dir = some_opt (\<lambda>item. do { d \<leftarrow> getx item ''direction''; Some (normalizeHTTPDirection d = dir) })"

definition focusOfPolicy :: "jsobj \<Rightarrow> string option" where
  "focusOfPolicy policy = do {
     items \<leftarrow> httpItems policy;
     hasIncomingHTTP \<leftarrow> has_direction ''INCOMING'' items;
     hasOutgoingHTTP \<leftarrow> has_direction ''OUTGOING'' items;
     family \<leftarrow> (if truthy (get (fld policy ''messagingEventPolicies'') ''length'')
        then map_option messagingFamilyForScope (getx (elem_at (fld policy ''messagingEventPolicies'') 0) ''scope'')
        else Some []);
     Some (if hasIncomingHTTP then ''http-incoming''
       else if truthy (get (fld policy ''methodPolicies'') ''length'') then ''method''
       else if hasOutgoingHTTP then ''http-outgoing''
       else if family \<noteq> [] then family else ''http-incoming'') }"

definition selectorRows :: "jsval \<Rightarrow> jsval" where
  "selectorRows attributes =
     Arr (map (\<lambda>(key, v). Obj [(''key'', Str key), (''value'', v)]) (own_entries (js_or attributes (Obj []))))"

definition openPolicy :: "host \<Rightarrow> jsval \<Rightarrow> app \<Rightarrow> app" where
  "openPolicy h body a =
     (let a1 = edit (\<lambda>ed. ed\<lparr>ed_rawPolicyBody := body\<rparr>) a;
          unreadable = (\<lambda>a. (edit (\<lambda>ed. ed\<lparr>ed_editorMode := Str ''raw''\<rparr>) a)
             \<lparr>ap_notice := h_t h (''La versi'' @ [CHR 0xF3] @ ''n se carg'' @ [CHR 0xF3] @ '' en modo JSON porque no pudo abrirse como formulario.'')\<rparr>)
      in case Option.bind (h_parse h (to_str body)) normalizePolicy of
           None \<Rightarrow> unreadable a1
         | Some policy \<Rightarrow>
             (let a2 = edit (\<lambda>ed. ed\<lparr>ed_policy := policy\<rparr>) a1
              in case focusOfPolicy policy of
                   None \<Rightarrow> unreadable a2
                 | Some focus \<Rightarrow> edit (\<lambda>ed. ed\<lparr>ed_editorFocus := focus\<rparr>) a2))"

definition versionFields :: "jsobj \<Rightarrow> editor \<Rightarrow> editor" where
  "versionFields version ed =
     (let selector = fld version ''Selector'' in
      ed\<lparr>ed_configId := js_or (fld version ''ID'') (fld version ''configId''),
         ed_target := fld version ''Target'',
         ed_baseVersionKey := Str (to_str (js_or (fld version ''configId'') (fld version ''ID'')) @ ''::'' @
           to_str (fld version ''Version'')),
         ed_selectedAgentIds := js_or (get selector ''InstanceUIDs'') (Arr []),
         ed_selectedServices := js_or (get selector ''Services'') (Arr []),
         ed_selectorAttributes := selectorRows (get selector ''Attributes'')\<rparr>)"

definition loadVersion :: "host \<Rightarrow> jsobj \<Rightarrow> app \<Rightarrow> app" where
  "loadVersion h version a =
     (let a1 = edit (versionFields version) a;
          a2 = (if fld version ''Target'' = Str ''java-extension'' then openPolicy h (fld version ''Body'') a1
                else edit (replaceCollectorBody (fld version ''Body'')) a1)
      in edit (\<lambda>ed. ed\<lparr>ed_activeStep := Num (Fin 2)\<rparr>) (showTab False ''policy'' a2))"

definition currentVersions :: "(jsval \<Rightarrow> jsnum) \<Rightarrow> (string \<Rightarrow> string \<Rightarrow> jsnum) \<Rightarrow> app \<Rightarrow> jsobj list option" where
  "currentVersions date_parse collate a = flattenStoredVersions date_parse collate (own_entries (ap_configs a))"

definition targetVersions :: "jsobj list \<Rightarrow> app \<Rightarrow> jsobj list" where
  "targetVersions versions a = filter (\<lambda>version. strict_eq (fld version ''Target'') (ed_target (ap_editor a))) versions"

definition loadSelectedVersion :: "host \<Rightarrow> jsobj list \<Rightarrow> app \<Rightarrow> app" where
  "loadSelectedVersion h versions a =
     (case find (\<lambda>version. Str (to_str (fld version ''configId'') @ ''::'' @ to_str (fld version ''Version'')) =
             ed_baseVersionKey (ap_editor a)) (targetVersions versions a) of
        Some version \<Rightarrow> loadVersion h version a
      | None \<Rightarrow> a)"

subsection \<open>Opening the configuration of a Collector\<close>

record reported_config =
  rc_key :: string
  rc_agent :: jsval
  rc_name :: string
  rc_file :: jsval

definition reportedCollectorConfigs :: "jsval list \<Rightarrow> reported_config list" where
  "reportedCollectorConfigs agents =
     concat (map (\<lambda>agent. map (\<lambda>(name, file).
         \<lparr>rc_key = to_str (get agent ''UID'') @ ''::'' @ name, rc_agent = agent, rc_name = name, rc_file = file\<rparr>)
       (own_entries (js_or (get agent ''EffectiveConfig'') (Obj [])))) agents)"

definition importedNotice :: "host \<Rightarrow> jsval \<Rightarrow> string list \<Rightarrow> string" where
  "importedNotice h agent removed =
     (let origin = js_upper (str_or (get agent ''EffectiveConfigOrigin'') ''MANAGED'')
      in h_t h (if origin = ''BASE'' then ''Base inmutable'' else (''Configuraci'' @ [CHR 0xF3] @ ''n administrada'')) @ '' '' @
         h_t h ''reportada por'' @ '' '' @ to_str (get agent ''Service'') @ '' '' @ h_t h ''cargada como borrador.'' @ '' '' @
         (if removed \<noteq> [] then h_t h (''Se retir'' @ [CHR 0xF3] @ '' autom'' @ [CHR 0xE1] @ ''ticamente'') @ '': '' @ js_join '', '' removed @ ''. '' else []) @
         h_t h (''El documento de origen no fue modificado y a'' @ [CHR 0xFA] @ ''n no se public'' @ [CHR 0xF3] @ '' ning'' @ [CHR 0xFA] @ ''n cambio.''))"

text \<open>A file that is missing raises before anything is set, and nothing happens; an identifier that is not
  a string raises in the rendering that follows (\<open>None\<close>).\<close>

definition loadReportedCollectorConfig :: "host \<Rightarrow> app \<Rightarrow> app option" where
  "loadReportedCollectorConfig h a = do {
     agents \<leftarrow> targetAgents a;
     case find (\<lambda>item. rc_key item = ed_reportedConfigKey (ap_editor a)) (reportedCollectorConfigs agents) of
       None \<Rightarrow> Some a
     | Some selected \<Rightarrow>
         (if nullish (rc_file selected) then Some a
          else do {
            current \<leftarrow> trimmed_text (ed_configId (ap_editor a));
            let sanitized = sanitizeEffectiveCollectorConfig (get (rc_file selected) ''Body'');
                configId = (if current \<noteq> [] then current else collectorConfigId (rc_agent selected))
            in Some ((edit (\<lambda>ed. (replaceCollectorBody (Str (sz_body sanitized)) ed)\<lparr>ed_configId := Str configId,
                   ed_baseVersionKey := Str [], ed_activeStep := Num (Fin 2)\<rparr>) a)
                 \<lparr>ap_notice := importedNotice h (rc_agent selected) (sz_removed sanitized)\<rparr>) }) }"

text \<open>A file chosen on this computer; reading it gives its text, or the message of an error.\<close>

record local_file =
  lf_name :: string
  lf_size :: nat
  lf_content :: "string + string"

definition max_file_size :: nat where
  "max_file_size = 1024 * 1024"

definition loadCollectorFile :: "host \<Rightarrow> local_file option \<Rightarrow> app \<Rightarrow> app" where
  "loadCollectorFile h file a =
     (let failed = (\<lambda>message. a\<lparr>ap_notice := h_t h ''No se pudo cargar el YAML local'' @ '': '' @ message\<rparr>) in
      case file of
        None \<Rightarrow> a
      | Some f \<Rightarrow>
          (if max_file_size < lf_size f then a\<lparr>ap_notice := h_t h ''El YAML local no puede superar 1 MiB.''\<rparr>
           else (case lf_content f of
               Inl message \<Rightarrow> failed message
             | Inr content \<Rightarrow>
                 (if js_trim content = [] then failed (h_t h (''el archivo est'' @ [CHR 0xE1] @ '' vac'' @ [CHR 0xED] @ ''o''))
                  else (edit (\<lambda>ed. (replaceCollectorBody (Str content) ed)\<lparr>ed_baseVersionKey := Str [],
                          ed_reportedConfigKey := [], ed_activeStep := Num (Fin 2)\<rparr>) a)
                        \<lparr>ap_notice := h_t h ''YAML local'' @ '' '' @ lf_name f @ '' '' @
                           h_t h (''cargado en el editor. A'' @ [CHR 0xFA] @ ''n no se public'' @ [CHR 0xF3] @ '' ning'' @ [CHR 0xFA] @ ''n cambio.'')\<rparr>))))"

subsection \<open>Replies\<close>

text \<open>A request fails with the message of an error, or it has a status and a text.\<close>

datatype reply = Unreachable string | Reply nat string

definition errorNotice :: "host \<Rightarrow> string \<Rightarrow> string \<Rightarrow> app \<Rightarrow> app" where
  "errorNotice h label message a = a\<lparr>ap_notice := h_t h label @ '': '' @ message\<rparr>"

subsection \<open>Validating the configuration of a Collector\<close>

definition validate_begin :: "host \<Rightarrow> app \<Rightarrow> app \<times> jsval" where
  "validate_begin h a =
     ((edit (\<lambda>ed. ed\<lparr>ed_collectorValidation := Null\<rparr>) a)\<lparr>ap_collectorValidationBusy := True,
        ap_notice := h_t h (''Validando YAML con otelcol-contrib'' @ ellipsis)\<rparr>, ed_collectorBody (ap_editor a))"

definition validation_result :: "host \<Rightarrow> string \<Rightarrow> jsval" where
  "validation_result h message =
     (case h_parse h message of Some v \<Rightarrow> v
      | None \<Rightarrow> Obj [(''valid'', Bool False), (''output'', Str (js_trim message))])"

definition validate_end :: "host \<Rightarrow> jsval \<Rightarrow> reply \<Rightarrow> app \<Rightarrow> app" where
  "validate_end h bodyBeingValidated r a =
     (let invalid = (\<lambda>message. errorNotice h (''YAML inv'' @ [CHR 0xE1] @ ''lido'') message) in
      (case r of
         Unreachable message \<Rightarrow> invalid message a
       | Reply status message \<Rightarrow>
           (let result = validation_result h message;
                a1 = edit (\<lambda>ed. ed\<lparr>ed_collectorValidation :=
                  Obj (obj_put ''body'' bodyBeingValidated (obj_spread [] (own_entries result)))\<rparr>) a
            in if nullish result then invalid (h_null_error h (if response_ok status then ''valid'' else ''output'')) a1
               else if \<not> response_ok status \<or> \<not> truthy (get result ''valid'')
               then invalid (to_str (js_or (get result ''output'') (Str (h_t h (''El Collector rechaz'' @ [CHR 0xF3] @ '' el YAML.''))))) a1
               else a1\<lparr>ap_notice := h_t h (''YAML v'' @ [CHR 0xE1] @ ''lido con otelcol-contrib'') @ '' '' @ to_str (get result ''validatorVersion'') @
                 ''. '' @ h_t h ''Ya puedes seleccionar destinos.''\<rparr>))
      \<lparr>ap_collectorValidationBusy := False\<rparr>)"

text \<open>The button is enabled while no validation is under way and the document is not blank.\<close>

definition canValidate :: "app \<Rightarrow> bool" where
  "canValidate a \<longleftrightarrow> \<not> ap_collectorValidationBusy a \<and>
     (case trimmed_text (ed_collectorBody (ap_editor a)) of Some s \<Rightarrow> s \<noteq> [] | None \<Rightarrow> False)"

subsection \<open>Publishing, restoring and retiring\<close>

text \<open>
  The four requests that change what is published end alike: an error is shown and the page is idle
  again; a saved version is announced and the data is loaded, and the page is idle when that load ends
  (\<open>action_done\<close>). The result is the new state and the sequence of that load.
\<close>

definition action_end ::
  "host \<Rightarrow> (string \<Rightarrow> string) \<Rightarrow> string \<Rightarrow> (jsval \<Rightarrow> string) \<Rightarrow> reply \<Rightarrow> app \<Rightarrow> app \<times> nat option" where
  "action_end h error_text property success r a =
     (let failed = (\<lambda>message. ((errorNotice h ''Error'' message a)\<lparr>ap_busy := False\<rparr>, None)) in
      case r of
        Unreachable message \<Rightarrow> failed message
      | Reply status message \<Rightarrow>
          (if \<not> response_ok status then failed (error_text message)
           else case h_parse h message of
               None \<Rightarrow> failed (h_syntax_error h message)
             | Some saved \<Rightarrow>
                 (if nullish saved then failed (h_null_error h property)
                  else let (a1, sequence) = load_begin (a\<lparr>ap_notice := success saved\<rparr>) in (a1, Some sequence))))"

definition action_done :: "app \<Rightarrow> app" where
  "action_done a = a\<lparr>ap_busy := False\<rparr>"

definition publish_begin :: "host \<Rightarrow> app \<Rightarrow> app" where
  "publish_begin h a = a\<lparr>ap_busy := True, ap_notice := h_t h (''Validando y publicando'' @ ellipsis)\<rparr>"

definition publish_error :: "host \<Rightarrow> string \<Rightarrow> string" where
  "publish_error h message =
     (case h_parse h message of
        Some v \<Rightarrow> if nullish v then js_trim message else to_str (js_or (get v ''output'') (Str (js_trim message)))
      | None \<Rightarrow> js_trim message)"

definition publish_end :: "host \<Rightarrow> reply \<Rightarrow> app \<Rightarrow> app \<times> nat option" where
  "publish_end h = action_end h (publish_error h) ''Version''
     (\<lambda>saved. h_t h (''Versi'' @ [CHR 0xF3] @ ''n'') @ '' '' @ to_str (get saved ''Version'') @ '' '' @
        h_t h (''guardada y enviada. A'' @ [CHR 0xFA] @ ''n no est'' @ [CHR 0xE1] @ '' aplicada: espera la confirmaci'' @ [CHR 0xF3] @ ''n individual de los destinos coincidentes.''))"

definition restoreQuestion :: "host \<Rightarrow> jsobj \<Rightarrow> string" where
  "restoreQuestion h version =
     h_t h (([CHR 0xBF] @ ''Restaurar '') @ to_str (fld version ''configId'') @ '' v'' @ to_str (fld version ''Version'') @ ('' como una versi'' @ [CHR 0xF3] @ ''n nueva?''))"

definition restoreEndpoint :: "jsobj \<Rightarrow> string" where
  "restoreEndpoint version =
     ''/api/configs/'' @ encode_uri_component (to_str (fld version ''configId'')) @ ''/versions/'' @
     to_str (fld version ''Version'') @ ''/rollback''"

definition restore_begin :: "host \<Rightarrow> bool \<Rightarrow> jsobj \<Rightarrow> app \<Rightarrow> app \<times> string option" where
  "restore_begin h agreed version a =
     (if \<not> agreed then (a, None)
      else (a\<lparr>ap_busy := True, ap_notice := h_t h ((''Creando una restauraci'' @ [CHR 0xF3] @ ''n auditable del Collector'') @ ellipsis)\<rparr>,
            Some (restoreEndpoint version)))"

definition restore_end :: "host \<Rightarrow> reply \<Rightarrow> app \<Rightarrow> app \<times> nat option" where
  "restore_end h = action_end h js_trim ''ID''
     (\<lambda>saved. h_t h (''Configuraci'' @ [CHR 0xF3] @ ''n restaurada como'') @ '' '' @ to_str (get saved ''ID'') @ '' v'' @ to_str (get saved ''Version'') @
        ''; '' @ h_t h (''la versi'' @ [CHR 0xF3] @ ''n original no fue alterada.''))"

definition policyLifecycle_begin :: "host \<Rightarrow> bool \<Rightarrow> managed_policy \<Rightarrow> app \<Rightarrow> app \<times> string option" where
  "policyLifecycle_begin h agreed policy a =
     (if policyLifecycleConfirmation policy = [] \<or> \<not> agreed then (a, None)
      else (a\<lparr>ap_busy := True, ap_notice :=
              (if mp_action policy = ''DEACTIVATE''
               then h_t h ''Retirando'' @ '' '' @ to_str (mp_id policy) @ '' '' @ h_t h (''de sus destinos'' @ ellipsis)
               else h_t h (''Creando una nueva versi'' @ [CHR 0xF3] @ ''n de'') @ '' '' @ to_str (mp_id policy) @ '' '' @
                 h_t h ((''desde la versi'' @ [CHR 0xF3] @ ''n anterior'') @ ellipsis))\<rparr>,
            Some (policyLifecycleEndpoint (to_str (mp_id policy)))))"

definition policyLifecycle_end :: "host \<Rightarrow> managed_policy \<Rightarrow> reply \<Rightarrow> app \<Rightarrow> app \<times> nat option" where
  "policyLifecycle_end h policy = action_end h js_trim ''Version''
     (\<lambda>saved. if mp_action policy = ''DEACTIVATE''
        then to_str (mp_id policy) @ '' '' @ h_t h ''fue retirada de sus destinos como'' @ '' v'' @ to_str (get saved ''Version'') @
          ''. '' @ h_t h ''El historial se conserva.''
        else to_str (mp_id policy) @ '' '' @ h_t h (''volvi'' @ [CHR 0xF3] @ '' al contenido de'') @ '' v'' @
          num_str (policyVersionNumber (case mp_previousVersion policy of Some p \<Rightarrow> p | None \<Rightarrow> [])) @ '' '' @
          h_t h ''mediante la nueva'' @ '' v'' @ to_str (get saved ''Version'') @ ''.'')"

definition collectorLifecycle_begin :: "host \<Rightarrow> bool \<Rightarrow> managed_collector \<Rightarrow> app \<Rightarrow> app \<times> string option" where
  "collectorLifecycle_begin h agreed config a =
     (if collectorDeactivateConfirmation config = [] \<or> \<not> agreed then (a, None)
      else (a\<lparr>ap_busy := True, ap_notice := h_t h ''Retirando'' @ '' '' @ to_str (mc_id config) @ '' '' @
              h_t h (''y solicitando la base NOP'' @ ellipsis)\<rparr>,
            Some (collectorDeactivateEndpoint (to_str (mc_id config)))))"

definition collectorLifecycle_end :: "host \<Rightarrow> managed_collector \<Rightarrow> reply \<Rightarrow> app \<Rightarrow> app \<times> nat option" where
  "collectorLifecycle_end h config = action_end h js_trim ''Version''
     (\<lambda>saved. to_str (mc_id config) @ '' '' @ h_t h ''fue retirada como'' @ '' v'' @ to_str (get saved ''Version'') @ ''. '' @
        h_t h (''Espera la confirmaci'' @ [CHR 0xF3] @ ''n BASE_APPLIED de cada Supervisor; los ConfigMap base y el historial permanecen intactos.''))"

subsection \<open>The shell\<close>

definition settingsAvailable :: "app \<Rightarrow> bool option" where
  "settingsAvailable a =
     or_else (canManageSecurity (ap_authIdentity a))
       (or_else (canManageEmail (ap_authIdentity a)) (canViewNetwork (ap_authIdentity a)))"

definition displayName :: "host \<Rightarrow> jsval \<Rightarrow> string" where
  "displayName h identity =
     (let username = js_or (js_or (get identity ''username'') (get identity ''Username'')) (Str (h_t h ''servidor disponible''));
          full = join_vals '' '' (filter truthy [get identity ''firstName'', get identity ''lastName''])
      in if full \<noteq> [] then full else to_str username)"

definition avatarLabel :: "string \<Rightarrow> string" where
  "avatarLabel name =
     (let initials = concat (map (\<lambda>part. js_upper (take 1 part)) (take 2 (js_words name)))
      in if initials \<noteq> [] then initials else ''U'')"

record nav_item =
  ni_id :: string
  ni_label :: string
  ni_count :: "nat option"

definition navItems :: "host \<Rightarrow> jsval list \<Rightarrow> jsobj list \<Rightarrow> managed_policy list \<Rightarrow> managed_collector list \<Rightarrow> nav_item list" where
  "navItems h agents versions policies collectors =
     [\<lparr>ni_id = ''policy'', ni_label = h_t h ''Editor OTel'', ni_count = None\<rparr>,
      \<lparr>ni_id = ''agents'', ni_label = h_t h ''Agentes'', ni_count = Some (length (filter connected agents))\<rparr>,
      \<lparr>ni_id = ''deployments'', ni_label = h_t h (''Gesti'' @ [CHR 0xF3] @ ''n remota''),
       ni_count = Some (length (filter mp_active policies) + length (filter mc_active collectors))\<rparr>,
      \<lparr>ni_id = ''history'', ni_label = h_t h ''Versiones'', ni_count = Some (length versions)\<rparr>]"

subsection \<open>Opening a version and publishing it again\<close>

text \<open>The selector the server stores: lists, and attributes with a name and a value.\<close>

definition stored_selector :: "jsval list \<Rightarrow> jsval list \<Rightarrow> jsobj \<Rightarrow> jsval" where
  "stored_selector ids services attributes =
     Obj [(''InstanceUIDs'', Arr ids), (''Services'', Arr services), (''Attributes'', Obj attributes)]"

definition sound_attributes :: "jsobj \<Rightarrow> bool" where
  "sound_attributes attributes \<longleftrightarrow> plain_obj attributes \<and> (\<forall>(k, v)\<in>set attributes. k \<noteq> [] \<and> truthy v)"

lemma edit_simps [simp]: "ap_editor (edit f a) = f (ap_editor a)" "ap_reserved (edit f a) = ap_reserved a"
  by (simp_all add: edit_def)

lemma showTab_editor [simp]: "ap_editor (showTab r d a) = ap_editor a"
  by (simp add: showTab_def)

lemma filter_opt_all: "\<forall>x\<in>set xs. p x = Some True \<Longrightarrow> filter_opt p xs = Some xs"
  by (induction xs) auto

lemma selector_of_rows:
  assumes "sound_attributes attributes"
  shows "editorSelector (ed\<lparr>ed_selectedAgentIds := Arr ids, ed_selectedServices := Arr services,
     ed_selectorAttributes := selectorRows (Obj attributes)\<rparr>) = Some (stored_selector ids services attributes)"
proof -
  let ?row = "\<lambda>(key, v). Obj [(''key'', Str key), (''value'', v)]"
  have rows: "selectorRows (Obj attributes) = Arr (map ?row attributes)"
    by (simp add: selectorRows_def js_or_def)
  have "\<forall>x\<in>set (map ?row attributes).
      (do { key \<leftarrow> getx x ''key''; Some (truthy key \<and> truthy (get x ''value'')) }) = Some True"
    using assms by (auto simp: sound_attributes_def getx_def nullish_def fld_def)
  moreover have "map (\<lambda>attribute. (to_str (get attribute ''key''), get attribute ''value'')) (map ?row attributes) = attributes"
    by (auto simp: fld_def intro: map_idI)
  moreover have "from_entries attributes = attributes"
    using assms spread_Nil_plain by (simp add: from_entries_def sound_attributes_def)
  ultimately show ?thesis
    by (simp add: editorSelector_def rows filter_opt_all stored_selector_def del: map_map)
qed

text \<open>What opening a policy leaves: the stored text in the JSON mode, the normalised policy in the form.\<close>

definition opened_body :: "host \<Rightarrow> jsval \<Rightarrow> editor \<Rightarrow> bool" where
  "opened_body h body ed \<longleftrightarrow>
     (if ed_editorMode ed = Str ''raw'' then publicationBody h ed = body
      else \<exists>policy. Option.bind (h_parse h (to_str body)) normalizePolicy = Some policy \<and>
             publicationBody h ed = Str (h_pretty h (Obj policy)))"

lemma openPolicy_editor:
  "\<exists>policy focus mode. ap_editor (openPolicy h body a) =
       (ap_editor a)\<lparr>ed_rawPolicyBody := body, ed_policy := policy, ed_editorFocus := focus, ed_editorMode := mode\<rparr> \<and>
     (mode = Str ''raw'' \<or> mode = ed_editorMode (ap_editor a) \<and>
        Option.bind (h_parse h (to_str body)) normalizePolicy = Some policy)"
proof (cases "Option.bind (h_parse h (to_str body)) normalizePolicy")
  case None
  then have "ap_editor (openPolicy h body a) = (ap_editor a)\<lparr>ed_rawPolicyBody := body, ed_policy := ed_policy (ap_editor a),
      ed_editorFocus := ed_editorFocus (ap_editor a), ed_editorMode := Str ''raw''\<rparr>"
    by (simp add: openPolicy_def)
  then show ?thesis by blast
next
  case (Some policy)
  show ?thesis
  proof (cases "focusOfPolicy policy")
    case None
    have "ap_editor (openPolicy h body a) = (ap_editor a)\<lparr>ed_rawPolicyBody := body, ed_policy := policy,
        ed_editorFocus := ed_editorFocus (ap_editor a), ed_editorMode := Str ''raw''\<rparr>"
      using Some None by (simp add: openPolicy_def)
    then show ?thesis by blast
  next
    case focus: (Some focus)
    have "ap_editor (openPolicy h body a) = (ap_editor a)\<lparr>ed_rawPolicyBody := body, ed_policy := policy,
        ed_editorFocus := focus, ed_editorMode := ed_editorMode (ap_editor a)\<rparr>"
      using Some focus by (simp add: openPolicy_def)
    then show ?thesis using Some by blast
  qed
qed

lemma loadVersion_java:
  assumes "fld version ''Target'' = Str ''java-extension''"
  obtains policy focus mode where "ap_editor (loadVersion h version a) = (versionFields version (ap_editor a))
      \<lparr>ed_rawPolicyBody := fld version ''Body'', ed_policy := policy, ed_editorFocus := focus, ed_editorMode := mode,
       ed_activeStep := Num (Fin 2)\<rparr>"
    "mode = Str ''raw'' \<or> Option.bind (h_parse h (to_str (fld version ''Body''))) normalizePolicy = Some policy"
proof -
  obtain policy focus mode where
    e: "ap_editor (openPolicy h (fld version ''Body'') (edit (versionFields version) a)) = (versionFields version (ap_editor a))
      \<lparr>ed_rawPolicyBody := fld version ''Body'', ed_policy := policy, ed_editorFocus := focus, ed_editorMode := mode\<rparr>"
    and m: "mode = Str ''raw'' \<or> Option.bind (h_parse h (to_str (fld version ''Body''))) normalizePolicy = Some policy"
    using openPolicy_editor [of h "fld version ''Body''" "edit (versionFields version) a"] by auto
  show thesis by (rule that [OF _ m]) (simp add: loadVersion_def Let_def assms e)
qed

lemma loadVersion_collector:
  assumes "fld version ''Target'' \<noteq> Str ''java-extension''"
  shows "ap_editor (loadVersion h version a) =
    (replaceCollectorBody (fld version ''Body'') (versionFields version (ap_editor a)))\<lparr>ed_activeStep := Num (Fin 2)\<rparr>"
  using assms by (simp add: loadVersion_def Let_def)

lemma editorSelector_cong:
  "ed_selectedAgentIds ed = ed_selectedAgentIds ed' \<Longrightarrow> ed_selectedServices ed = ed_selectedServices ed' \<Longrightarrow>
   ed_selectorAttributes ed = ed_selectorAttributes ed' \<Longrightarrow> editorSelector ed = editorSelector ed'"
  by (simp add: editorSelector_def)

lemma versionFields_selector:
  assumes "fld version ''Selector'' = stored_selector ids services attributes" "sound_attributes attributes"
  shows "editorSelector (versionFields version ed) = Some (stored_selector ids services attributes)"
proof -
  have "get (fld version ''Selector'') ''InstanceUIDs'' = Arr ids" "get (fld version ''Selector'') ''Services'' = Arr services"
    "get (fld version ''Selector'') ''Attributes'' = Obj attributes"
    unfolding assms(1) by (simp_all add: stored_selector_def fld_def)
  then have "editorSelector (versionFields version ed) = editorSelector (ed\<lparr>ed_selectedAgentIds := Arr ids,
      ed_selectedServices := Arr services, ed_selectorAttributes := selectorRows (Obj attributes)\<rparr>)"
    by (intro editorSelector_cong) (simp_all add: versionFields_def Let_def js_or_def)
  then show ?thesis using selector_of_rows [OF assms(2)] by simp
qed

text \<open>C7: opening a stored version and publishing it again sends what was stored: the same identifier,
  target and selector, and the stored document, either verbatim or, in the form, as the normalised
  policy it parses to. A configuration of a Collector has to be validated again first.\<close>

theorem opened_version_is_what_is_published:
  assumes "fld version ''Selector'' = stored_selector ids services attributes" "sound_attributes attributes"
    and "fld version ''Target'' = Str target" "target = ''java-extension'' \<or> target = ''collector''"
    and "editor = ap_editor (loadVersion h version a)"
  shows "editorSelector editor = Some (stored_selector ids services attributes) \<and> ed_target editor = Str target \<and>
    ed_configId editor = js_or (fld version ''ID'') (fld version ''configId'') \<and>
    (if target = ''java-extension'' then opened_body h (fld version ''Body'') editor
     else publicationBody h editor = fld version ''Body'' \<and> \<not> collectorValidationCurrent editor)"
proof (cases "target = ''java-extension''")
  case True
  then have t: "fld version ''Target'' = Str ''java-extension''" using assms(3) by simp
  obtain policy focus mode where e: "editor = (versionFields version (ap_editor a))
      \<lparr>ed_rawPolicyBody := fld version ''Body'', ed_policy := policy, ed_editorFocus := focus, ed_editorMode := mode,
       ed_activeStep := Num (Fin 2)\<rparr>"
    and m: "mode = Str ''raw'' \<or> Option.bind (h_parse h (to_str (fld version ''Body''))) normalizePolicy = Some policy"
    using loadVersion_java [OF t] assms(5) by metis
  have "editorSelector editor = editorSelector (versionFields version (ap_editor a))"
    by (rule editorSelector_cong) (simp_all add: e)
  then show ?thesis
    using versionFields_selector [OF assms(1,2)] m True t
    by (auto simp: e opened_body_def publicationBody_def versionFields_def Let_def)
next
  case False
  then have t: "fld version ''Target'' \<noteq> Str ''java-extension''" "target = ''collector''" using assms(3,4) by auto
  have e: "editor = (replaceCollectorBody (fld version ''Body'') (versionFields version (ap_editor a)))
      \<lparr>ed_activeStep := Num (Fin 2)\<rparr>"
    using loadVersion_collector [OF t(1)] assms(5) by simp
  have "editorSelector editor = editorSelector (versionFields version (ap_editor a))"
    by (rule editorSelector_cong) (simp_all add: e replaceCollectorBody_def)
  then show ?thesis
    using versionFields_selector [OF assms(1,2)] t assms(3)
    by (simp add: e publicationBody_def versionFields_def Let_def replaceCollectorBody_def collectorValidationCurrent_def)
qed

theorem opened_version_is_what_is_published_witness:
  "editorSelector (ap_editor (loadVersion plain_host
      [(''configId'', Str ''edge''), (''Target'', Str ''collector''), (''Body'', Str ''receivers: {}''),
       (''Selector'', stored_selector [] [Str ''edge''] [(''env'', Str ''prod'')])] example_app)) =
    Some (stored_selector [] [Str ''edge''] [(''env'', Str ''prod'')])"
proof -
  have "sound_attributes [(''env'', Str ''prod'')]" by code_simp
  then show ?thesis
    using opened_version_is_what_is_published [of "[(''configId'', Str ''edge''), (''Target'', Str ''collector''),
       (''Body'', Str ''receivers: {}''), (''Selector'', stored_selector [] [Str ''edge''] [(''env'', Str ''prod'')])]"
      "[]" "[Str ''edge'']" "[(''env'', Str ''prod'')]" "''collector''"] by (simp add: fld_def)
qed

subsection \<open>Changing the mode\<close>

text \<open>going from the form to JSON does not change what would be published, and coming back without an
  edit restores the same policy; text that is not JSON keeps the editor as it is.\<close>

theorem mode_switch_roundtrip:
  assumes "ed_target (ap_editor a) \<noteq> Str ''collector''" "ed_editorMode (ap_editor a) = Str ''form''"
    and "ed_policy (ap_editor a) = policy" "normalizePolicy (Obj policy) = Some policy"
    and "h_parse h (h_pretty h (Obj policy)) = Some (Obj policy)" "h_parse h bad = None"
  shows "publicationBody h (ap_editor (switchEditorMode h ''raw'' a)) = publicationBody h (ap_editor a) \<and>
    ap_editor (switchEditorMode h ''form'' (switchEditorMode h ''raw'' a)) =
      (ap_editor a)\<lparr>ed_rawPolicyBody := Str (h_pretty h (Obj policy))\<rparr> \<and>
    (let typed = edit (\<lambda>ed. ed\<lparr>ed_rawPolicyBody := Str bad\<rparr>) (switchEditorMode h ''raw'' a)
     in ap_editor (switchEditorMode h ''form'' typed) = ap_editor typed)"
  using assms by (simp add: switchEditorMode_def Let_def publicationBody_def)

theorem mode_switch_roundtrip_witness:
  "ap_editor (switchEditorMode (plain_host\<lparr>h_parse := (\<lambda>s. if s = ''{}'' then Some (Obj emptyPolicy) else None)\<rparr>) ''form''
      (switchEditorMode (plain_host\<lparr>h_parse := (\<lambda>s. if s = ''{}'' then Some (Obj emptyPolicy) else None)\<rparr>) ''raw'' example_app)) =
    (ap_editor example_app)\<lparr>ed_rawPolicyBody := Str ''{}''\<rparr>"
proof -
  have "normalizePolicy (Obj emptyPolicy) = Some emptyPolicy" by code_simp
  moreover have "ed_target (ap_editor example_app) \<noteq> Str ''collector''" "ed_editorMode (ap_editor example_app) = Str ''form''"
    "ed_policy (ap_editor example_app) = emptyPolicy" by code_simp+
  ultimately show ?thesis
    using mode_switch_roundtrip [of example_app emptyPolicy
        "plain_host\<lparr>h_parse := (\<lambda>s. if s = ''{}'' then Some (Obj emptyPolicy) else None)\<rparr>" "''x''"]
    by (simp add: plain_host_def)
qed

declare ellipsis_def [js_eval] edit_def [js_eval] changeTarget_def [js_eval]
  configurationTypeOptions_def [js_eval] chooseConfigurationType_def [js_eval]
  startBlank_def [js_eval] discardDraft_def [js_eval] chooseStep_def [js_eval]
  nextDisabled_def [js_eval] nextStep_def [js_eval] switchEditorMode_def [js_eval]
  httpItems_def [js_eval] has_direction_def [js_eval] focusOfPolicy_def [js_eval]
  selectorRows_def [js_eval] openPolicy_def [js_eval] versionFields_def [js_eval]
  loadVersion_def [js_eval] currentVersions_def [js_eval] targetVersions_def [js_eval]
  loadSelectedVersion_def [js_eval] reportedCollectorConfigs_def [js_eval]
  importedNotice_def [js_eval] loadReportedCollectorConfig_def [js_eval]
  max_file_size_def [js_eval] loadCollectorFile_def [js_eval] errorNotice_def [js_eval]
  validate_begin_def [js_eval] validation_result_def [js_eval] validate_end_def [js_eval]
  canValidate_def [js_eval] action_end_def [js_eval] action_done_def [js_eval]
  publish_begin_def [js_eval] publish_error_def [js_eval] publish_end_def [js_eval]
  restoreQuestion_def [js_eval] restoreEndpoint_def [js_eval] restore_begin_def [js_eval]
  restore_end_def [js_eval] policyLifecycle_begin_def [js_eval] policyLifecycle_end_def [js_eval]
  collectorLifecycle_begin_def [js_eval] collectorLifecycle_end_def [js_eval]
  settingsAvailable_def [js_eval] displayName_def [js_eval] avatarLabel_def [js_eval]
  navItems_def [js_eval] stored_selector_def [js_eval] sound_attributes_def [js_eval]
  opened_body_def [js_eval]

end
