(* ===== verification/Session.thy ===== *)
theory Session
  imports App_Handlers
begin

section \<open>Sessions: users, requests and effects as steps\<close>

text \<open>
  The application as a transition system. A user acts only on the page of a signed-in user; the
  requests under way are answered in any order and with any reply; the effects that store the draft
  and take the inventory may run at any moment, which allows more than the scheduler of the views
  does. Two ghost fields record the documents that the validator accepted and the versions that were
  sent. The server's sessions are assumed to name their user; one tab uses the storage.
\<close>

subsection \<open>What a signed-in user can do\<close>

datatype action =
    ChooseType type_option | StartBlank | DiscardDraft | KeepDraft
  | ChooseBaseVersion string | LoadSelected | OpenVersion jsobj
  | ChooseReported string | LoadReported | LoadFile "local_file option"
  | TypeConfigId string | TypeCollectorBody string | TypeRawPolicy string
  | SetPolicy jsobj | SetFocus string | SwitchMode string
  | ChooseStep nat | NextStep | SetQuery string
  | SetSelection "jsval list" "jsval list" "jsval list" | RefreshInventory
  | ShowTab string | GoBack | ToggleMenu

type_synonym collation = "string \<Rightarrow> string \<Rightarrow> jsnum"

fun perform :: "host \<Rightarrow> (jsval \<Rightarrow> jsnum) \<Rightarrow> collation \<Rightarrow> action \<Rightarrow> app \<Rightarrow> app option" where
  "perform h dp collate (ChooseType option) a = Some (chooseConfigurationType option a)"
| "perform h dp collate StartBlank a = Some (startBlank h a)"
| "perform h dp collate DiscardDraft a = Some (discardDraft h a)"
| "perform h dp collate KeepDraft a = Some (a\<lparr>ap_draftRecoveryVisible := False\<rparr>)"
| "perform h dp collate (ChooseBaseVersion key) a = Some (edit (\<lambda>ed. ed\<lparr>ed_baseVersionKey := Str key\<rparr>) a)"
| "perform h dp collate LoadSelected a =
     map_option (\<lambda>versions. loadSelectedVersion h versions a) (currentVersions dp collate a)"
| "perform h dp collate (OpenVersion version) a = Some (loadVersion h version a)"
| "perform h dp collate (ChooseReported key) a = Some (edit (\<lambda>ed. ed\<lparr>ed_reportedConfigKey := key\<rparr>) a)"
| "perform h dp collate LoadReported a = loadReportedCollectorConfig h a"
| "perform h dp collate (LoadFile file) a = Some (loadCollectorFile h file a)"
| "perform h dp collate (TypeConfigId s) a = Some (edit (\<lambda>ed. ed\<lparr>ed_configId := Str s\<rparr>) a)"
| "perform h dp collate (TypeCollectorBody s) a = Some (edit (replaceCollectorBody (Str s)) a)"
| "perform h dp collate (TypeRawPolicy s) a = Some (edit (\<lambda>ed. ed\<lparr>ed_rawPolicyBody := Str s\<rparr>) a)"
| "perform h dp collate (SetPolicy policy) a = Some (edit (\<lambda>ed. ed\<lparr>ed_policy := policy\<rparr>) a)"
| "perform h dp collate (SetFocus focus) a = Some (edit (\<lambda>ed. ed\<lparr>ed_editorFocus := focus\<rparr>) a)"
| "perform h dp collate (SwitchMode mode) a = Some (switchEditorMode h mode a)"
| "perform h dp collate (ChooseStep n) a = Some (chooseStep n a)"
| "perform h dp collate NextStep a = Some (nextStep h a)"
| "perform h dp collate (SetQuery s) a = Some (edit (\<lambda>ed. ed\<lparr>ed_agentQuery := s\<rparr>) a)"
| "perform h dp collate (SetSelection ids services rows) a =
     Some (edit (\<lambda>ed. ed\<lparr>ed_selectedAgentIds := Arr ids, ed_selectedServices := Arr services, ed_selectorAttributes := Arr rows\<rparr>) a)"
| "perform h dp collate RefreshInventory a = refreshInventory collate a"
| "perform h dp collate (ShowTab tab) a = Some (showTab False tab a)"
| "perform h dp collate GoBack a = Some (goBack a)"
| "perform h dp collate ToggleMenu a = toggleMenu a"

text \<open>The three requests on stored versions, and the kind of request that is under way.\<close>

datatype managed = Restoring jsobj | PolicyLifecycle managed_policy | CollectorLifecycle managed_collector

fun manage_begin :: "host \<Rightarrow> bool \<Rightarrow> managed \<Rightarrow> app \<Rightarrow> app \<times> string option" where
  "manage_begin h agreed (Restoring version) a = restore_begin h agreed version a"
| "manage_begin h agreed (PolicyLifecycle policy) a = policyLifecycle_begin h agreed policy a"
| "manage_begin h agreed (CollectorLifecycle config) a = collectorLifecycle_begin h agreed config a"

fun manage_end :: "host \<Rightarrow> managed \<Rightarrow> reply \<Rightarrow> app \<Rightarrow> app \<times> nat option" where
  "manage_end h (Restoring version) r a = restore_end h r a"
| "manage_end h (PolicyLifecycle policy) r a = policyLifecycle_end h policy r a"
| "manage_end h (CollectorLifecycle config) r a = collectorLifecycle_end h config r a"

text \<open>A load that ends a publication makes the page idle when it ends.\<close>

datatype request =
    LoadSent nat bool | LoadReading nat bool | LiveSent nat | LiveReading nat
  | Validating jsval | Publishing | Managing managed | LoggingOut

definition finish :: "bool \<Rightarrow> app \<Rightarrow> app" where
  "finish idle a = (if idle then action_done a else a)"

definition loads :: "nat option \<Rightarrow> request list" where
  "loads started = (case started of Some sequence \<Rightarrow> [LoadSent sequence True] | None \<Rightarrow> [])"

record world =
  w_app :: app
  w_requests :: "request list"
  w_accepted :: "jsval list"
  w_published :: "jsobj list"

text \<open>A session names its user; a reply of the validator accepts when the copy of its body says so.\<close>

definition known_identity :: "jsval \<Rightarrow> bool" where
  "known_identity identity \<longleftrightarrow> (case username_of identity of Str s \<Rightarrow> s \<noteq> [] | _ \<Rightarrow> False)"

definition accepts :: "host \<Rightarrow> reply \<Rightarrow> bool" where
  "accepts h r \<longleftrightarrow> (case r of
       Reply status message \<Rightarrow> truthy (fld (obj_spread [] (own_entries (validation_result h message))) ''valid'')
     | Unreachable _ \<Rightarrow> False)"

inductive step :: "host \<Rightarrow> (jsval \<Rightarrow> jsnum) \<Rightarrow> collation \<Rightarrow> world \<Rightarrow> world \<Rightarrow> bool" for h dp collate where
  act: "\<not> ap_loginRequired (w_app w) \<Longrightarrow> perform h dp collate action (w_app w) = Some a \<Longrightarrow>
    step h dp collate w (w\<lparr>w_app := a\<rparr>)"
| store: "step h dp collate w (w\<lparr>w_app := persist h savedAt (w_app w)\<rparr>)"
| inventory: "snapshotEffect collate (w_app w) = Some a \<Longrightarrow> step h dp collate w (w\<lparr>w_app := a\<rparr>)"
| validate: "\<not> ap_loginRequired (w_app w) \<Longrightarrow> canValidate (w_app w) \<Longrightarrow> validate_begin h (w_app w) = (a, body) \<Longrightarrow>
    step h dp collate w (w\<lparr>w_app := a, w_requests := Validating body # w_requests w\<rparr>)"
| validated: "Validating body \<in> set (w_requests w) \<Longrightarrow>
    step h dp collate w (w\<lparr>w_app := validate_end h body r (w_app w), w_requests := remove1 (Validating body) (w_requests w),
      w_accepted := (if accepts h r then body # w_accepted w else w_accepted w)\<rparr>)"
| publish: "\<not> ap_loginRequired (w_app w) \<Longrightarrow> canPublish h (w_app w) \<Longrightarrow> render h (w_app w) = Some v \<Longrightarrow>
    step h dp collate w (w\<lparr>w_app := publish_begin h (w_app w), w_requests := Publishing # w_requests w,
      w_published := publicationRequest (ap_editor (w_app w)) v # w_published w\<rparr>)"
| published: "Publishing \<in> set (w_requests w) \<Longrightarrow> publish_end h r (w_app w) = (a, started) \<Longrightarrow>
    step h dp collate w (w\<lparr>w_app := a, w_requests := loads started @ remove1 Publishing (w_requests w)\<rparr>)"
| manage: "\<not> ap_loginRequired (w_app w) \<Longrightarrow> \<not> ap_busy (w_app w) \<Longrightarrow> manage_begin h agreed m (w_app w) = (a, Some endpoint) \<Longrightarrow>
    step h dp collate w (w\<lparr>w_app := a, w_requests := Managing m # w_requests w\<rparr>)"
| managed: "Managing m \<in> set (w_requests w) \<Longrightarrow> manage_end h m r (w_app w) = (a, started) \<Longrightarrow>
    step h dp collate w (w\<lparr>w_app := a, w_requests := loads started @ remove1 (Managing m) (w_requests w)\<rparr>)"
| load: "load_begin (w_app w) = (a, sequence) \<Longrightarrow>
    step h dp collate w (w\<lparr>w_app := a, w_requests := LoadSent sequence False # w_requests w\<rparr>)"
| load_lost: "LoadSent sequence idle \<in> set (w_requests w) \<Longrightarrow>
    step h dp collate w (w\<lparr>w_app := finish idle (load_failed h sequence (w_app w)),
      w_requests := remove1 (LoadSent sequence idle) (w_requests w)\<rparr>)"
| load_answered: "LoadSent sequence idle \<in> set (w_requests w) \<Longrightarrow> length statuses = 10 \<Longrightarrow>
    load_responded h sequence statuses (w_app w) = (a, reading) \<Longrightarrow>
    step h dp collate w (w\<lparr>w_app := (if reading then a else finish idle a), w_requests :=
      (if reading then [LoadReading sequence idle] else []) @ remove1 (LoadSent sequence idle) (w_requests w)\<rparr>)"
| load_read: "LoadReading sequence idle \<in> set (w_requests w) \<Longrightarrow> pred_option (known_identity \<circ> ld_identity) data \<Longrightarrow>
    step h dp collate w (w\<lparr>w_app := finish idle (load_finished h sequence data (w_app w)),
      w_requests := remove1 (LoadReading sequence idle) (w_requests w)\<rparr>)"
| live: "live_begin (w_app w) = (a, sequence) \<Longrightarrow>
    step h dp collate w (w\<lparr>w_app := a, w_requests := LiveSent sequence # w_requests w\<rparr>)"
| live_lost: "LiveSent sequence \<in> set (w_requests w) \<Longrightarrow>
    step h dp collate w (w\<lparr>w_requests := remove1 (LiveSent sequence) (w_requests w)\<rparr>)"
| live_answered: "LiveSent sequence \<in> set (w_requests w) \<Longrightarrow> length statuses = 4 \<Longrightarrow>
    live_responded h sequence statuses (w_app w) = (a, reading) \<Longrightarrow>
    step h dp collate w (w\<lparr>w_app := a, w_requests :=
      (if reading then [LiveReading sequence] else []) @ remove1 (LiveSent sequence) (w_requests w)\<rparr>)"
| live_read: "LiveReading sequence \<in> set (w_requests w) \<Longrightarrow>
    step h dp collate w (w\<lparr>w_app := live_finished sequence data (w_app w),
      w_requests := remove1 (LiveReading sequence) (w_requests w)\<rparr>)"
| sign_in: "ap_loginRequired (w_app w) \<Longrightarrow> known_identity identity \<Longrightarrow> authenticated h identity (w_app w) = (a, Some sequence) \<Longrightarrow>
    step h dp collate w (w\<lparr>w_app := a, w_requests := LoadSent sequence False # w_requests w\<rparr>)"
| sign_out: "\<not> ap_loginRequired (w_app w) \<Longrightarrow>
    step h dp collate w (w\<lparr>w_app := logout_begin (w_app w), w_requests := LoggingOut # w_requests w\<rparr>)"
| signed_out: "LoggingOut \<in> set (w_requests w) \<Longrightarrow>
    step h dp collate w (w\<lparr>w_app := logout_end h (w_app w), w_requests := remove1 LoggingOut (w_requests w)\<rparr>)"
| profile: "\<not> ap_loginRequired (w_app w) \<Longrightarrow> username_of identity = username_of (ap_authIdentity (w_app w)) \<Longrightarrow>
    step h dp collate w (w\<lparr>w_app := (w_app w)\<lparr>ap_authIdentity := identity\<rparr>\<rparr>)"

subsection \<open>Invariants\<close>

text \<open>A property that every step keeps holds in every state that is reached.\<close>

locale invariant_of =
  fixes trans :: "'w \<Rightarrow> 'w \<Rightarrow> bool" and inv :: "'w \<Rightarrow> bool"
  assumes kept: "trans w w' \<Longrightarrow> inv w \<Longrightarrow> inv w'"
begin

lemma always: "trans\<^sup>*\<^sup>* w w' \<Longrightarrow> inv w \<Longrightarrow> inv w'"
  by (induction rule: rtranclp_induct) (auto intro: kept)

end

declare finish_def [js_eval] loads_def [js_eval] known_identity_def [js_eval] accepts_def [js_eval]

end
