(* ===== verification/Session_Validation.thy ===== *)
theory Session_Validation
  imports Session
begin

section \<open>A Collector receives only what its validator accepted\<close>

text \<open>
  An invariant of the transition system: the validation the editor shows is one the validator gave, of
  the text it names, so that a configuration is sent only as it was validated. No handler but the
  one that takes the reply of the validator ever sets a validation other than none.
\<close>

subsection \<open>The validation that is shown is one the validator gave\<close>

abbreviation validation :: "app \<Rightarrow> jsval" where
  "validation a \<equiv> ed_collectorValidation (ap_editor a)"

definition keeps_validation :: "app \<Rightarrow> app \<Rightarrow> bool" where
  "keeps_validation a a' \<longleftrightarrow> validation a' = Null \<or> validation a' = validation a"

named_theorems validation_kept

lemma resetPolicyDraftState_validation [validation_kept]: "validation (resetPolicyDraftState h m a) = Null"
  by (simp add: resetPolicyDraftState_def blank_editor_def replaceCollectorBody_def)

lemma isolate_validation [validation_kept]: "keeps_validation a (isolatePolicyDraft h identity a)"
  by (simp add: keeps_validation_def isolatePolicyDraft_def validation_kept)

lemma openPolicy_validation [validation_kept]: "validation (openPolicy h body a) = validation a"
  using openPolicy_editor [of h body a] by auto

lemma loadVersion_validation [validation_kept]: "keeps_validation a (loadVersion h version a)"
  by (simp add: keeps_validation_def loadVersion_def Let_def validation_kept versionFields_def replaceCollectorBody_def)

lemma perform_validation: "perform h dp collate action a = Some a' \<Longrightarrow> keeps_validation a a'"
proof (cases action)
  case LoadReported
  assume "perform h dp collate action a = Some a'"
  with LoadReported show ?thesis
    by (auto simp: keeps_validation_def loadReportedCollectorConfig_def Let_def bind_eq_Some_conv replaceCollectorBody_def
        split: option.splits if_splits)
next
  case (LoadFile chosen)
  assume "perform h dp collate action a = Some a'"
  with LoadFile show ?thesis
    by (auto simp: keeps_validation_def loadCollectorFile_def Let_def replaceCollectorBody_def split: option.splits if_splits sum.splits)
next
  case LoadSelected
  assume "perform h dp collate action a = Some a'"
  with LoadSelected show ?thesis
    using loadVersion_validation by (auto simp: loadSelectedVersion_def keeps_validation_def split: option.splits)
next
  case (SwitchMode mode)
  assume "perform h dp collate action a = Some a'"
  with SwitchMode show ?thesis
    by (auto simp: keeps_validation_def switchEditorMode_def Let_def split: option.splits if_splits)
next
  case (OpenVersion version)
  assume "perform h dp collate action a = Some a'"
  with OpenVersion show ?thesis using loadVersion_validation by auto
qed (auto simp: keeps_validation_def chooseConfigurationType_def changeTarget_def startBlank_def discardDraft_def forget_draft_def
      chooseStep_def nextStep_def refreshInventory_def showTab_def goBack_def toggleMenu_def sidebarEffect_def Let_def
      bind_eq_Some_conv validation_kept replaceCollectorBody_def split: if_splits)

text \<open>The handlers that answer requests.\<close>

lemma answers_validation [validation_kept]:
  "validation (persist h savedAt a) = validation a"
  "validation (publish_begin h a) = validation a"
  "validation (finish idle a) = validation a"
  "validation (load_failed h sequence a) = validation a"
  "validation (live_finished sequence data a) = validation a"
  "validation (logout_begin a) = validation a"
  "validation (logout_end h a) = Null"
  "validation (requireLogin h a) = Null"
  by (auto simp: persist_def publish_begin_def finish_def action_done_def load_failed_def live_finished_def logout_begin_def
      logout_end_def requireLogin_def validation_kept split: option.splits)

lemma begins_validation:
  "load_begin a = (a', sequence) \<Longrightarrow> validation a' = validation a"
  "live_begin a = (a', sequence) \<Longrightarrow> validation a' = validation a"
  "snapshotEffect collate a = Some a' \<Longrightarrow> validation a' = validation a"
  "validate_begin h a = (a', body) \<Longrightarrow> validation a' = Null"
  by (auto simp: load_begin_def live_begin_def snapshotEffect_def validate_begin_def Let_def bind_eq_Some_conv
      split: prod.splits if_splits)

lemma action_end_validation: "action_end h f property success r a = (a', started) \<Longrightarrow> validation a' = validation a"
  by (auto simp: action_end_def errorNotice_def load_begin_def Let_def split: reply.splits if_splits option.splits prod.splits)

lemma managed_validation:
  "publish_end h r a = (a', started) \<Longrightarrow> validation a' = validation a"
  "manage_end h m r a = (a', started) \<Longrightarrow> validation a' = validation a"
  "manage_begin h agreed m a = (a', endpoint) \<Longrightarrow> validation a' = validation a"
  by (cases m; auto simp: publish_end_def restore_end_def policyLifecycle_end_def collectorLifecycle_end_def
      restore_begin_def policyLifecycle_begin_def collectorLifecycle_begin_def dest: action_end_validation split: if_splits)+

lemma session_validation:
  "load_responded h sequence statuses a = (a', reading) \<Longrightarrow> keeps_validation a a'"
  "live_responded h sequence statuses a = (a', reading) \<Longrightarrow> keeps_validation a a'"
  "authenticated h identity a = (a', started) \<Longrightarrow> keeps_validation a a'"
proof -
  show "load_responded h sequence statuses a = (a', reading) \<Longrightarrow> keeps_validation a a'"
    by (auto simp: load_responded_def keeps_validation_def validation_kept split: if_splits)
  show "live_responded h sequence statuses a = (a', reading) \<Longrightarrow> keeps_validation a a'"
    by (auto simp: live_responded_def keeps_validation_def validation_kept split: if_splits)
  show "authenticated h identity a = (a', started) \<Longrightarrow> keeps_validation a a'"
    using isolate_validation [of a h identity]
    by (auto simp: authenticated_def load_begin_def keeps_validation_def Let_def split: if_splits prod.splits)
qed

lemma load_finished_validation: "keeps_validation a (load_finished h sequence data a)"
proof -
  have "validation (load_data_set d a) = validation a" for d by (simp add: load_data_set_def)
  then show ?thesis
    using isolate_validation [of "load_data_set (the data) a" h "ld_identity (the data)"]
    by (auto simp: load_finished_def keeps_validation_def validation_kept Let_def split: option.splits)
qed

definition honest :: "world \<Rightarrow> bool" where
  "honest w \<longleftrightarrow>
     (truthy (get (validation (w_app w)) ''valid'') \<longrightarrow> get (validation (w_app w)) ''body'' \<in> set (w_accepted w)) \<and>
     (\<forall>r\<in>set (w_published w). fld r ''Target'' = Str ''collector'' \<longrightarrow> fld r ''Body'' \<in> set (w_accepted w))"

lemma honest_kept:
  "honest w \<Longrightarrow> keeps_validation (w_app w) (w_app w') \<Longrightarrow> w_published w' = w_published w \<Longrightarrow>
   set (w_accepted w) \<subseteq> set (w_accepted w') \<Longrightarrow> honest w'"
  by (auto simp: honest_def keeps_validation_def)

lemma validated_honest:
  assumes "honest w"
  shows "honest (w\<lparr>w_app := validate_end h body r (w_app w), w_requests := rs,
    w_accepted := (if accepts h r then body # w_accepted w else w_accepted w)\<rparr>)"
proof (cases r)
  case (Reply status message)
  let ?copy = "obj_spread [] (own_entries (validation_result h message))"
  have "validation (validate_end h body r (w_app w)) = Obj (obj_put ''body'' body ?copy)"
    by (auto simp: validate_end_def errorNotice_def Reply Let_def)
  moreover have "fld (obj_put ''body'' body ?copy) ''valid'' = fld ?copy ''valid''" "fld (obj_put ''body'' body ?copy) ''body'' = body"
    by (simp_all add: fld_def)
  ultimately show ?thesis using assms by (auto simp: honest_def accepts_def Reply)
next
  case (Unreachable message)
  then have "validation (validate_end h body r (w_app w)) = validation (w_app w)"
    by (simp add: validate_end_def errorNotice_def Let_def)
  then show ?thesis using assms by (auto simp: honest_def)
qed

lemma published_honest:
  assumes "honest w" "canPublish h (w_app w)" "render h (w_app w) = Some v"
    and "ed_target (ap_editor (w_app w)) = Str ''collector''"
  shows "vw_body v \<in> set (w_accepted w)"
proof -
  let ?ed = "ap_editor (w_app w)"
  have "vw_validationCurrent v" using can_publish [OF assms(2)] assms(3) by (auto simp: configurationReady_def)
  then have "collectorValidationCurrent ?ed" using render_parts(5) [OF assms(3)] by simp
  moreover have "vw_body v = ed_collectorBody ?ed" using render_parts(4) [OF assms(3)] assms(4) by (simp add: publicationBody_def)
  moreover obtain s where "ed_collectorBody ?ed = Str s"
    using assms(3,4) by (cases "ed_collectorBody ?ed") (auto simp: render_def publicationBody_def Let_def bind_eq_Some_conv split: prod.splits)
  ultimately show ?thesis using assms(1,4) by (auto simp: honest_def collectorValidationCurrent_def strict_eq_Str)
qed

lemma step_honest: "step h dp collate w w' \<Longrightarrow> honest w \<Longrightarrow> honest w'"
proof (induction rule: step.induct)
  case (act w action a)
  then show ?case using perform_validation by (auto elim: honest_kept)
next
  case (publish w v)
  then show ?case
    using published_honest [OF publish.prems publish.hyps(2,3)]
    by (auto simp: honest_def validation_kept publicationRequest_def fld_def)
next
  case (load_read sequence idle w data)
  then show ?case
    using load_finished_validation [of "w_app w" h sequence data]
    by (auto intro!: honest_kept [of w] simp: keeps_validation_def validation_kept)
next
  case (validated body w r)
  show ?case by (rule validated_honest [OF validated.prems])
qed (auto elim!: honest_kept dest: session_validation begins_validation managed_validation
    simp: keeps_validation_def validation_kept)

interpretation honesty: invariant_of "step h dp collate" honest for h dp collate
  by unfold_locales (rule step_honest)

text \<open>C4: whatever the user does and in whatever order the replies arrive, a configuration of a Collector
  is sent only with a document that the validator accepted, character by character: an edit after the
  validation, or a late reply about an older text, never lets another text through.\<close>

theorem published_collector_was_validated:
  assumes "(step h dp collate)\<^sup>*\<^sup>* w w'" "w_published w = []" "validation (w_app w) = Null"
    and "r \<in> set (w_published w')" "fld r ''Target'' = Str ''collector''"
  shows "fld r ''Body'' \<in> set (w_accepted w')"
proof -
  have "honest w" using assms(2,3) by (simp add: honest_def)
  then have "honest w'" using assms(1) honesty.always by blast
  then show ?thesis using assms(4,5) by (simp add: honest_def)
qed

definition example_host :: host where
  "example_host = plain_host\<lparr>h_parse := (\<lambda>s. if s = ''ok'' then Some (Obj [(''valid'', Bool True)]) else None)\<rparr>"

definition collector_app :: app where
  "collector_app = example_app\<lparr>ap_editor := example_editor\<lparr>ed_target := Str ''collector'', ed_collectorBody := Str ''receivers:''\<rparr>,
     ap_agents := Arr [Obj [(''UID'', Str ''edge''), (''Kind'', Str ''collector''), (''RemoteConfig'', Bool True),
       (''LiveStatus'', Str ''CONNECTED'')]]\<rparr>"

definition validated_app :: app where
  "validated_app = validate_end example_host (Str ''receivers:'') (Reply 200 ''ok'') (fst (validate_begin example_host collector_app))"

lemma example_publication:
  "canValidate collector_app" "validate_begin example_host collector_app = (fst (validate_begin example_host collector_app), Str ''receivers:'')"
  "accepts example_host (Reply 200 ''ok'')" "canPublish example_host validated_app"
  "\<not> ap_loginRequired collector_app" "\<not> ap_loginRequired validated_app" "validation collector_app = Null"
  "ed_target (ap_editor validated_app) = Str ''collector''"
  by code_simp+

theorem published_collector_was_validated_witness:
  "\<exists>w' r. (step example_host (\<lambda>_. NaN) code_unit_collate)\<^sup>*\<^sup>*
      \<lparr>w_app = collector_app, w_requests = [], w_accepted = [], w_published = []\<rparr> w' \<and>
    r \<in> set (w_published w') \<and> fld r ''Target'' = Str ''collector'' \<and> fld r ''Body'' \<in> set (w_accepted w')"
proof -
  let ?step = "step example_host (\<lambda>_. NaN) code_unit_collate" and ?b = "Str ''receivers:''"
  let ?w0 = "\<lparr>w_app = collector_app, w_requests = [], w_accepted = [], w_published = []\<rparr>"
  let ?w1 = "\<lparr>w_app = fst (validate_begin example_host collector_app), w_requests = [Validating ?b], w_accepted = [], w_published = []\<rparr>"
  let ?w2 = "\<lparr>w_app = validated_app, w_requests = [], w_accepted = [?b], w_published = []\<rparr>"
  obtain v where v: "render example_host validated_app = Some v" using example_publication(4) by (rule can_publish)
  let ?r = "publicationRequest (ap_editor validated_app) v"
  let ?w3 = "\<lparr>w_app = publish_begin example_host validated_app, w_requests = [Publishing], w_accepted = [?b], w_published = [?r]\<rparr>"
  have "?step ?w0 ?w1" using step.validate [of ?w0 example_host _ ?b] example_publication by simp
  moreover have "?step ?w1 ?w2"
    using step.validated [of ?b ?w1 example_host _ _ "Reply 200 ''ok''"] example_publication(3) by (simp add: validated_app_def)
  moreover have "?step ?w2 ?w3" using step.publish [of ?w2 example_host v] example_publication v by simp
  ultimately have run: "?step\<^sup>*\<^sup>* ?w0 ?w3" by (meson rtranclp.rtrancl_into_rtrancl rtranclp.rtrancl_refl)
  have r: "?r \<in> set (w_published ?w3)" "fld ?r ''Target'' = Str ''collector''"
    using example_publication(8) by (simp_all add: publicationRequest_def fld_def)
  have "fld ?r ''Body'' \<in> set (w_accepted ?w3)"
    by (rule published_collector_was_validated [OF run _ _ r]) (simp_all add: example_publication)
  with run r show ?thesis by blast
qed

declare keeps_validation_def [js_eval] honest_def [js_eval] example_host_def [js_eval]
  collector_app_def [js_eval] validated_app_def [js_eval]

end
