(* ===== verification/Session_Draft.thy ===== *)
theory Session_Draft
  imports Session
begin

section \<open>Whose draft it is\<close>

text \<open>
  The draft of a user is in the editor and in the storage of the browser. An invariant of the
  transition system: what is stored while a user is signed in is theirs. Then what signing out
  leaves, and two ways in which a session outlives its end or changes hands.
\<close>

subsection \<open>The stored draft belongs to the user who is signed in\<close>


definition stored_owner :: "host \<Rightarrow> web_storage option \<Rightarrow> jsval" where
  "stored_owner h storage = get (readPolicyDraft (h_parse h) storage) ''owner''"

definition usable_storage :: "web_storage option \<Rightarrow> bool" where
  "usable_storage storage \<longleftrightarrow> (\<exists>s. storage = Some s \<and> ws_usable s)"

definition owned_by :: "host \<Rightarrow> jsval \<Rightarrow> web_storage option \<Rightarrow> bool" where
  "owned_by h username storage \<longleftrightarrow> \<not> truthy (stored_owner h storage) \<or> stored_owner h storage = username"

definition owned :: "host \<Rightarrow> app \<Rightarrow> bool" where
  "owned h a \<longleftrightarrow> usable_storage (ap_localStorage a) \<and>
     (\<not> ap_loginRequired a \<longrightarrow> known_identity (ap_authIdentity a) \<and> owned_by h (username_of (ap_authIdentity a)) (ap_localStorage a))"







lemma known_identity_name:
  "known_identity identity \<Longrightarrow> \<exists>c s. username_of identity = Str (c # s)"
  by (auto simp: known_identity_def split: jsval.splits) (metis neq_Nil_conv)









lemma finish_owned [simp]: "owned h (finish idle a) = owned h a"
  by (simp add: finish_def action_done_def owned_def)




lemma known_not_nullish: "known_identity identity \<Longrightarrow> \<not> nullish identity"
  by (cases identity) (auto simp: known_identity_def username_of_def nullish_def js_or_def)







definition owner_host :: host where
  "owner_host = plain_host\<lparr>
     h_print := (\<lambda>v. case get v ''owner'' of Str s \<Rightarrow> Some (CHR ''#'' # s) | _ \<Rightarrow> None),
     h_parse := (\<lambda>s. case s of c # r \<Rightarrow> if c = CHR ''#'' then Some (Obj [(''owner'', Str r)]) else if s = ''null'' then Some Null else None
        | [] \<Rightarrow> None)\<rparr>"


definition signed_out_app :: app where
  "signed_out_app = example_app\<lparr>ap_loginRequired := True, ap_authIdentity := Null\<rparr>"

definition ana :: jsval where
  "ana = Obj [(''username'', Str ''ana'')]"

definition signed_in_app :: app where
  "signed_in_app = fst (authenticated owner_host ana signed_out_app)"

lemma example_sign_in:
  "authenticated owner_host ana signed_out_app = (signed_in_app, Some 1)" "known_identity ana"
  "ap_loginRequired signed_out_app" "\<not> ap_loginRequired (persist owner_host ''now'' signed_in_app)"
  "username_of (ap_authIdentity (persist owner_host ''now'' signed_in_app)) = Str ''ana''"
  "truthy (stored_owner owner_host (ap_localStorage (persist owner_host ''now'' signed_in_app)))"
  "ws_usable (the (ap_localStorage signed_out_app))" "ap_localStorage signed_out_app \<noteq> None"
  by code_simp+


subsection \<open>Signing out\<close>



text \<open>C12: signing out stops the loads that are under way when it begins, and only those: a load that begins
  while the request to sign out is being answered is still current when the session has ended, and
  its data signs the user in again.\<close>

theorem signing_out_stops_earlier_loads_only:
  assumes "known_identity (ld_identity d)" "\<forall>s\<in>set statuses. response_ok s"
  shows "(let (a1, sequence) = load_begin a; a2 = logout_end h (logout_begin a1)
      in load_responded h sequence statuses a2 = (a2, False) \<and> load_finished h sequence (Some d) a2 = a2) \<and>
    (let (a1, sequence) = load_begin (logout_begin a); a2 = logout_end h a1; a3 = load_finished h sequence (Some d) a2
      in load_responded h sequence statuses a2 = (a2, True) \<and> ap_loginRequired a2 \<and>
         \<not> ap_loginRequired a3 \<and> ap_authIdentity a3 = ld_identity d)"
proof -
  have ok: "401 \<notin> set statuses" using assms(2) by (auto simp: response_ok_def)
  have gates: "ap_loadGate (logout_end h b) = ap_loadGate b" "ap_loadGate (isolatePolicyDraft h i b) = ap_loadGate b" for b i
    by (simp_all add: logout_end_def isolatePolicyDraft_def resetPolicyDraftState_def forget_draft_def)
  show ?thesis
    using ok assms(2) known_not_nullish [OF assms(1)]
    by (auto simp: load_begin_def load_responded_def load_finished_def gates logout_begin_def gate_begin_def gate_invalidate_def
        gate_isCurrent_def Let_def split: prod.splits) (simp_all add: logout_end_def)
qed

theorem signing_out_stops_earlier_loads_only_witness:
  "\<not> ap_loginRequired (load_finished owner_host 2
     (Some \<lparr>ld_agents = Arr [], ld_configs = Obj [], ld_metrics = Arr [], ld_audit = Arr [], ld_storage = Obj [], ld_security = Arr [],
       ld_deployments = Arr [], ld_identity = ana, ld_access = Null, ld_collectorBases = Arr []\<rparr>)
     (logout_end owner_host (fst (load_begin (logout_begin example_app)))))"
proof -
  let ?d = "\<lparr>ld_agents = Arr [], ld_configs = Obj [], ld_metrics = Arr [], ld_audit = Arr [], ld_storage = Obj [], ld_security = Arr [],
       ld_deployments = Arr [], ld_identity = ana, ld_access = Null, ld_collectorBases = Arr []\<rparr>"
  have "load_begin (logout_begin example_app) = (fst (load_begin (logout_begin example_app)), 2)" by code_simp
  then show ?thesis
    using signing_out_stops_earlier_loads_only [of ?d "[200]" example_app owner_host] example_sign_in(2)
    by (simp add: response_ok_def Let_def split: prod.splits)
qed

text \<open>C13: the isolation of drafts compares the new user with the owner of the stored draft, not with the user
  whose draft is in the editor. So when the session of a tab changes hands (another tab signed in as
  somebody else, which stored a draft of theirs or none), the next load keeps the editor, and what the
  first user wrote is stored as the draft of the second.\<close>

theorem a_draft_in_the_editor_changes_hands:
  assumes "known_identity (ld_identity d)" "owned_by h (username_of (ld_identity d)) (ap_localStorage a)"
    and "gate_isCurrent (ap_loadGate a) sequence"
  shows "ap_editor (load_finished h sequence (Some d) a) = ap_editor a \<and>
    ap_authIdentity (load_finished h sequence (Some d) a) = ld_identity d \<and>
    ap_localStorage (persist h savedAt (load_finished h sequence (Some d) a)) =
      snd (writePolicyDraft (h_print h) (ap_localStorage a) (Obj (draft_of (username_of (ld_identity d)) savedAt (ap_editor a))))"
proof -
  obtain c s where u: "username_of (ld_identity d) = Str (c # s)" using known_identity_name [OF assms(1)] by blast
  then have "\<not> isolates h (ld_identity d) (load_data_set d a)"
    using assms(2) by (auto simp: isolates_def owned_by_def stored_owner_def load_data_set_def strict_eq_Str Let_def)
  moreover have "truthy (ld_identity d)"
    using u by (cases "ld_identity d") (auto simp: username_of_def js_or_def fld_def object_prototype_def split: if_splits)
  ultimately show ?thesis using assms(3) u known_not_nullish [OF assms(1)]
    by (simp add: load_finished_def isolatePolicyDraft_def persist_def load_data_set_def Let_def)
qed

theorem a_draft_in_the_editor_changes_hands_witness:
  "\<exists>d a. ap_authIdentity a = ana \<and> ap_editor a = example_editor \<and>
     ap_authIdentity (load_finished owner_host 0 (Some d) a) = Obj [(''username'', Str ''bob'')] \<and>
     ap_editor (load_finished owner_host 0 (Some d) a) = example_editor"
proof -
  let ?bob = "Obj [(''username'', Str ''bob'')]"
  let ?d = "\<lparr>ld_agents = Arr [], ld_configs = Obj [], ld_metrics = Arr [], ld_audit = Arr [], ld_storage = Obj [], ld_security = Arr [],
       ld_deployments = Arr [], ld_identity = ?bob, ld_access = Null, ld_collectorBases = Arr []\<rparr>"
  let ?a = "example_app\<lparr>ap_authIdentity := ana, ap_localStorage := Some
      \<lparr>ws_usable = True, ws_quota = 100, ws_items = [(policyDraftStorageKey, ''#bob'')]\<rparr>\<rparr>"
  have "known_identity ?bob" "stored_owner owner_host (ap_localStorage ?a) = username_of ?bob"
    "gate_isCurrent (ap_loadGate ?a) 0" by code_simp+
  then have "ap_editor (load_finished owner_host 0 (Some ?d) ?a) = ap_editor ?a"
    "ap_authIdentity (load_finished owner_host 0 (Some ?d) ?a) = ?bob"
    using a_draft_in_the_editor_changes_hands [of ?d owner_host ?a 0] by (simp_all add: owned_by_def)
  then show ?thesis by (intro exI [of _ ?d] exI [of _ ?a]) (simp add: example_app_def)
qed


end
