(* ===== verification/Value_Editors.thy ===== *)
theory Value_Editors
  imports Policy_Document
begin

section \<open>Editing values as text\<close>

text \<open>
  The parts of a policy that are edited as text: the control of the cardinality of an attribute
  (\<open>ValuePolicyEditor\<close>, of which \<open>main.jsx\<close> and \<open>messaging-editor.jsx\<close> hold a copy each, with
  different default ranges), the input that normalises when it loses the focus
  (\<open>components/NormalizedInput.jsx\<close>), and the denylist (\<open>SecurityView\<close> of \<open>main.jsx\<close>). The lemmas
  show that printing and parsing are inverse, so that leaving an input never changes what it edits.
\<close>

subsection \<open>Lists of words\<close>

text \<open>\<open>text.split(sep).map((item) => item.trim()).filter(Boolean)\<close>.\<close>

definition text_items :: "char \<Rightarrow> string \<Rightarrow> string list" where
  "text_items sep text = filter (\<lambda>s. s \<noteq> []) (map js_trim (split_char sep text))"

definition clean_item :: "char \<Rightarrow> string \<Rightarrow> bool" where
  "clean_item sep s \<longleftrightarrow> s \<noteq> [] \<and> js_trim s = s \<and> sep \<notin> set s"

lemma set_js_trim: "set (js_trim s) \<subseteq> set s"
proof -
  have "set (trim_end t) \<subseteq> set t" for t
    using trim_end_prefix [of t] set_mono_prefix by blast
  moreover have "set (trim_start t) \<subseteq> set t" for t
    by (auto simp: trim_start_def dest: set_dropWhileD)
  ultimately show ?thesis unfolding js_trim_def by fastforce
qed

lemma text_items_clean: "s \<in> set (text_items sep text) \<Longrightarrow> clean_item sep s"
  using split_char_no_sep set_js_trim by (fastforce simp: text_items_def clean_item_def)

lemma text_items_join: "\<forall>x\<in>set xs. clean_item sep x \<Longrightarrow> text_items sep (js_join [sep] xs) = xs"
proof (cases "xs = []")
  case False
  assume c: "\<forall>x\<in>set xs. clean_item sep x"
  then have "split_char sep (js_join [sep] xs) = xs" using False by (intro split_char_join) (auto simp: clean_item_def)
  moreover have "map js_trim xs = xs" "filter (\<lambda>s. s \<noteq> []) xs = xs"
    using c by (auto simp: clean_item_def map_idI filter_id_conv)
  ultimately show ?thesis by (simp add: text_items_def)
qed (simp add: text_items_def)

lemma text_items_stable [simp]: "text_items sep (js_join [sep] (text_items sep text)) = text_items sep text"
  using text_items_clean text_items_join by blast

subsection \<open>The control of the cardinality\<close>

definition change_type :: "jsval \<Rightarrow> string \<Rightarrow> jsobj \<Rightarrow> jsobj" where
  "change_type default_ranges type v =
     fold (\<lambda>(k, x). obj_put k x)
       [(''type'', Str type),
        (''allowed'', if type = ''ENUM'' then strs [''VALUE_A'', ''VALUE_B''] else Arr []),
        (''ranges'', if type = ''RANGE'' then default_ranges else Arr []),
        (''fallback'', Str (if type = ''PASSTHROUGH'' then '''' else if type = ''BOOLEAN'' then ''false'' else ''OTHER''))]
       v"

text \<open>The schema the editor asks for when a type is chosen.\<close>

definition required_by_type :: "string \<Rightarrow> string option" where
  "required_by_type type = (if type = ''PASSTHROUGH'' then Some ''1.7'' else None)"

definition set_allowed :: "string \<Rightarrow> jsobj \<Rightarrow> jsobj" where
  "set_allowed text v = obj_put ''allowed'' (strs (text_items CHR '','' text)) v"

definition allowed_text :: "jsobj \<Rightarrow> string option" where
  "allowed_text v = map_option (join_vals '','') (list_or (fld v ''allowed''))"

definition range_text :: "jsval \<Rightarrow> string option" where
  "range_text item = do {
     m \<leftarrow> getx item ''max''; l \<leftarrow> getx item ''label'';
     Some (to_str (js_default m (Str ''*'')) @ '':'' @ to_str l) }"

definition rangesText :: "jsobj \<Rightarrow> string option" where
  "rangesText v = do { rs \<leftarrow> list_or (fld v ''ranges''); ts \<leftarrow> map_opt range_text rs; Some (js_join '','' ts) }"

definition parse_range :: "string \<Rightarrow> jsval \<times> string" where
  "parse_range item =
     (let parts = split_char CHR '':'' item; maximum = hd parts
      in (if js_trim maximum = ''*'' then Null else Num (parse_num maximum),
          case tl parts of [] \<Rightarrow> [] | label # _ \<Rightarrow> js_trim label))"

fun is_finite :: "jsval \<Rightarrow> bool" where
  "is_finite (Num (Fin q)) = True"
| "is_finite _ = False"

definition parse_ranges :: "string \<Rightarrow> jsval list" where
  "parse_ranges text =
     map (\<lambda>(m, l). range_item m l)
       (filter (\<lambda>(m, l). l \<noteq> [] \<and> (m = Null \<or> is_finite m)) (map parse_range (split_char CHR '','' text)))"

definition set_ranges :: "string \<Rightarrow> jsobj \<Rightarrow> jsobj" where
  "set_ranges text v = obj_put ''ranges'' (Arr (parse_ranges text)) v"

definition set_fallback :: "string \<Rightarrow> jsobj \<Rightarrow> jsobj" where
  "set_fallback text v = obj_put ''fallback'' (Str text) v"

text \<open>The default ranges of the messaging editor.\<close>

definition messaging_rangePolicy :: jsobj where
  "messaging_rangePolicy =
     [(''type'', Str ''RANGE''), (''allowed'', Arr []),
      (''ranges'', Arr [range_item (Num (Fin 100)) ''0-100'', range_item (Num (Fin 1000)) ''100-1000'',
         range_item Null ''1000+'']),
      (''fallback'', Str ''OTHER'')]"

definition main_change_type :: "string \<Rightarrow> jsobj \<Rightarrow> jsobj" where
  "main_change_type = change_type (fld rangePolicy ''ranges'')"

definition messaging_change_type :: "string \<Rightarrow> jsobj \<Rightarrow> jsobj" where
  "messaging_change_type = change_type (fld messaging_rangePolicy ''ranges'')"

subsection \<open>The input that normalises on leaving\<close>

text \<open>
  The state of \<open>NormalizedInput\<close>: the text shown and whether it is being edited. \<open>Given\<close> is a new
  value from the parent (the effect on \<open>normalizedValue\<close>), \<open>Typed\<close> a key press.
\<close>

record input_state =
  in_draft :: string
  in_editing :: bool

datatype input_event = Focused | Typed string | Blurred | Given

fun input_step :: "string \<Rightarrow> input_event \<Rightarrow> input_state \<Rightarrow> input_state" where
  "input_step normalized Focused s = s\<lparr>in_editing := True\<rparr>"
| "input_step normalized (Typed text) s = s\<lparr>in_draft := text\<rparr>"
| "input_step normalized Blurred s = s\<lparr>in_editing := False, in_draft := normalized\<rparr>"
| "input_step normalized Given s = (if in_editing s then s else s\<lparr>in_draft := normalized\<rparr>)"

text \<open>An input over a list of words: what is typed is parsed at once, and the value of the input is the
  parsed list printed again.\<close>

definition words_input_step :: "input_event \<Rightarrow> input_state \<times> string list \<Rightarrow> input_state \<times> string list" where
  "words_input_step ev = (\<lambda>(s, ws).
     let ws' = (case ev of Typed text \<Rightarrow> text_items CHR '','' text | _ \<Rightarrow> ws)
     in (input_step (js_join '','' ws') ev s, ws'))"

definition words_input_run :: "input_event list \<Rightarrow> string list \<Rightarrow> input_state \<times> string list" where
  "words_input_run evs ws = fold words_input_step evs (\<lparr>in_draft = js_join '','' ws, in_editing = False\<rparr>, ws)"

subsection \<open>Ranges as text\<close>

text \<open>A range whose limit is a natural number or absent, with a label that the notation can hold.\<close>

definition range_of :: "nat option \<times> string \<Rightarrow> jsval" where
  "range_of r = range_item (case fst r of None \<Rightarrow> Null | Some n \<Rightarrow> Num (Fin (of_nat n))) (snd r)"

definition printable_range :: "nat option \<times> string \<Rightarrow> bool" where
  "printable_range r \<longleftrightarrow> clean_item CHR '','' (snd r) \<and> CHR '':'' \<notin> set (snd r)"

lemma digits_no_space: "\<forall>c\<in>set s. is_digit c \<Longrightarrow> js_trim s = s"
proof -
  have "\<not> is_space c" if "is_digit c" for c
    using that by (auto simp: is_space_def is_digit_def Let_def)
  moreover assume "\<forall>c\<in>set s. is_digit c"
  ultimately show ?thesis
    by (cases "s = []") (auto simp: js_trim_def trim_end_fixed trim_start_fixed)
qed

lemma takeWhile_digits: "\<forall>c\<in>set s. is_digit c \<Longrightarrow> takeWhile is_digit s = s \<and> dropWhile is_digit s = []"
  by (simp add: takeWhile_eq_all_conv dropWhile_eq_Nil_conv)

lemma parse_num_digits:
  assumes "\<forall>c\<in>set s. is_digit c" "s \<noteq> []"
  shows "parse_num s = Fin (of_nat (digits_val s))"
proof -
  obtain c r where s: "s = c # r" using assms(2) by (cases s) auto
  have no: "\<not> is_digit CHR ''-''" "\<not> is_digit CHR ''+''" "\<not> is_digit CHR ''I''" "\<not> is_digit CHR ''x''" "\<not> is_digit CHR ''X''"
    "\<not> is_digit CHR ''o''" "\<not> is_digit CHR ''O''" "\<not> is_digit CHR ''b''" "\<not> is_digit CHR ''B''" by code_simp+
  have c: "c \<noteq> CHR ''-''" "c \<noteq> CHR ''+''" "c \<noteq> CHR ''I''" using assms(1) no by (auto simp: s)
  have "radix_literal s = None"
  proof (cases r)
    case (Cons x ds)
    then have "is_digit x" using assms(1) by (simp add: s)
    then show ?thesis using no by (auto simp: radix_literal_def s Cons)
  qed (simp add: radix_literal_def s)
  moreover have "parse_unsigned s = Fin (of_nat (digits_val s))"
  proof -
    have r: "\<forall>c\<in>set r. is_digit c" "is_digit c" using assms(1) by (simp_all add: s)
    then show ?thesis using c by (simp add: parse_unsigned_def Let_def s takeWhile_digits [OF r(1)])
  qed
  ultimately show ?thesis
    using c digits_no_space [OF assms(1)] by (simp add: parse_num_def s)
qed

lemma parse_num_nat_str [simp]: "parse_num (nat_str n) = Fin (of_nat n)"
  using parse_num_digits [of "nat_str n"] nat_str_digits by simp

lemma num_str_nat [simp]: "num_str (Fin (of_nat n)) = nat_str n"
  by simp

lemma range_text_of: "range_text (range_of (m, l)) = Some ((case m of None \<Rightarrow> ''*'' | Some n \<Rightarrow> nat_str n) @ '':'' @ l)"
  by (auto simp: range_text_def range_of_def range_item_def getx_def fld_def nullish_def js_default_def
      simp del: num_str.simps split: option.splits)

lemma parse_range_text:
  assumes "printable_range (m, l)"
  shows "parse_range ((case m of None \<Rightarrow> ''*'' | Some n \<Rightarrow> nat_str n) @ '':'' @ l) =
    (case m of None \<Rightarrow> Null | Some n \<Rightarrow> Num (Fin (of_nat n)), l)"
proof -
  let ?m = "case m of None \<Rightarrow> ''*'' | Some n \<Rightarrow> nat_str n"
  have colon: "\<not> is_digit CHR '':''" "\<not> is_digit CHR ''*''" by code_simp+
  then have "CHR '':'' \<notin> set ?m" using nat_str_digits by (auto split: option.splits)
  then have "split_char CHR '':'' (?m @ '':'' @ l) = [?m, l]"
    using assms by (simp add: split_char_append split_char_none printable_range_def)
  moreover have "js_trim (nat_str n) \<noteq> ''*''" for n
    using digits_no_space [of "nat_str n"] nat_str_digits [of n] nat_str_nonempty [of n] colon(2) by auto
  moreover have "js_trim ''*'' = ''*''" by code_simp
  ultimately show ?thesis
    using assms by (auto simp: parse_range_def printable_range_def clean_item_def split: option.splits)
qed

text \<open>the ranges of a value policy survive their own text: for ranges with whole or absent limits and
  labels without commas or colons, the text shown for them is parsed back to the same ranges.\<close>

theorem ranges_text_roundtrip:
  assumes "\<forall>r\<in>set rs. printable_range r" "fld v ''ranges'' = Arr (map range_of rs)"
  shows "\<exists>text. rangesText v = Some text \<and> parse_ranges text = map range_of rs"
proof -
  let ?text = "\<lambda>(m, l). (case m of None \<Rightarrow> ''*'' | Some n \<Rightarrow> nat_str n) @ '':'' @ l"
  have "map_opt range_text (map range_of rs) = Some (map ?text rs)"
    by (induction rs) (auto simp: range_text_of)
  then have shown: "rangesText v = Some (js_join '','' (map ?text rs))"
    by (simp add: rangesText_def assms(2))
  have comma: "\<not> is_digit CHR '',''" by code_simp
  have nc: "\<forall>x\<in>set (map ?text rs). CHR '','' \<notin> set x"
    using assms(1) nat_str_digits comma
    by (auto simp: printable_range_def clean_item_def split: option.splits)
  have "parse_ranges (js_join '','' (map ?text rs)) = map range_of rs"
  proof (cases "rs = []")
    case True
    have "parse_ranges [] = []" by code_simp
    then show ?thesis by (simp add: True)
  next
    case False
    let ?parsed = "\<lambda>(m, l). (case m of None \<Rightarrow> Null | Some n \<Rightarrow> Num (Fin (of_nat n)), l)"
    have sp: "split_char CHR '','' (js_join '','' (map ?text rs)) = map ?text rs"
      using nc False by (intro split_char_join) auto
    have mp: "map parse_range (map ?text rs) = map ?parsed rs"
      using assms(1) parse_range_text by auto
    have fl: "filter (\<lambda>(m, l). l \<noteq> [] \<and> (m = Null \<or> is_finite m)) (map ?parsed rs) = map ?parsed rs"
      using assms(1) by (auto simp: filter_id_conv printable_range_def clean_item_def split: option.splits)
    have "parse_ranges (js_join '','' (map ?text rs)) = map (\<lambda>(m, l). range_item m l) (map ?parsed rs)"
      by (simp only: parse_ranges_def sp mp fl)
    also have "\<dots> = map range_of rs" by (simp add: range_of_def case_prod_beta)
    finally show ?thesis .
  qed
  with shown show ?thesis by blast
qed

theorem ranges_text_roundtrip_witness:
  "\<exists>text. rangesText rangePolicy = Some text \<and>
     parse_ranges text = map range_of [(Some 1000, ''0-1000''), (Some 3000, ''1000-3000''), (Some 10000, ''3000-10000''), (None, ''10000+'')]"
proof (rule ranges_text_roundtrip)
  show "\<forall>r\<in>set [(Some 1000, ''0-1000''), (Some 3000, ''1000-3000''), (Some 10000, ''3000-10000''), (None, ''10000+'')].
      printable_range r" unfolding printable_range_def clean_item_def by code_simp
  show "fld rangePolicy ''ranges'' =
      Arr (map range_of [(Some 1000, ''0-1000''), (Some 3000, ''1000-3000''), (Some 10000, ''3000-10000''), (None, ''10000+'')])"
    by (simp add: rangePolicy_def fld_def range_of_def)
qed

subsection \<open>Leaving an input\<close>

lemma words_input_snoc: "words_input_run (evs @ [ev]) ws = words_input_step ev (words_input_run evs ws)"
  by (simp add: words_input_run_def)

lemma words_input_clean:
  "\<forall>w\<in>set ws. clean_item CHR '','' w \<Longrightarrow> \<forall>w\<in>set (snd (words_input_run evs ws)). clean_item CHR '','' w"
proof (induction evs rule: rev_induct)
  case (snoc ev evs)
  then show ?case
    using text_items_clean by (cases ev) (auto simp: words_input_snoc words_input_step_def case_prod_beta)
qed (simp add: words_input_run_def)

text \<open>leaving an input of words changes what is shown, never what is edited: whatever was typed before,
  the list stays as it was parsed, the text shown becomes the list printed, and parsing that text
  gives the list again.\<close>

theorem leaving_an_input_keeps_the_value:
  assumes "\<forall>w\<in>set ws. clean_item CHR '','' w"
  shows "snd (words_input_run (evs @ [Blurred]) ws) = snd (words_input_run evs ws) \<and>
    in_draft (fst (words_input_run (evs @ [Blurred]) ws)) = js_join '','' (snd (words_input_run evs ws)) \<and>
    text_items CHR '','' (in_draft (fst (words_input_run (evs @ [Blurred]) ws))) = snd (words_input_run evs ws)"
  using words_input_clean [OF assms, of evs] text_items_join
  by (simp add: words_input_snoc words_input_step_def case_prod_beta)

theorem leaving_an_input_keeps_the_value_witness:
  "text_items CHR '','' (in_draft (fst (words_input_run ([Focused, Typed '' b,, c ''] @ [Blurred]) [''a'']))) = [''b'', ''c'']"
proof -
  have c: "\<forall>w\<in>set [''a'']. clean_item CHR '','' w" unfolding clean_item_def by code_simp
  have "snd (words_input_run [Focused, Typed '' b,, c ''] [''a'']) = [''b'', ''c'']" by code_simp
  then show ?thesis
    using leaving_an_input_keeps_the_value [OF c, of "[Focused, Typed '' b,, c '']", THEN conjunct2, THEN conjunct2]
    by (simp only:)
qed

declare text_items_def [js_eval] clean_item_def [js_eval] change_type_def [js_eval]
  required_by_type_def [js_eval] set_allowed_def [js_eval] allowed_text_def [js_eval]
  range_text_def [js_eval] rangesText_def [js_eval] parse_range_def [js_eval]
  parse_ranges_def [js_eval] set_ranges_def [js_eval] set_fallback_def [js_eval]
  messaging_rangePolicy_def [js_eval] main_change_type_def [js_eval]
  messaging_change_type_def [js_eval] words_input_step_def [js_eval] words_input_run_def [js_eval]

end
