(* ===== verification/Views.thy ===== *)
theory Views
  imports Versions Targets Value_Editors Policy_Catalog Collector_Catalog
begin

section \<open>Views of the application (\<open>ui/src/main.jsx\<close>, \<open>ui/src/components\<close>)\<close>

text \<open>
  What the pages compute from the data of the application: the list of destinations and of versions
  with their filters, the picker of a stored version, the options of a multi-select filter, the
  selection of destinations and the denylist. Rendering is left out.
\<close>

subsection \<open>The denylist (\<open>SecurityView\<close>)\<close>

record denylist_kind =
  dk_kind :: string
  dk_label :: string
  dk_placeholder :: string
  dk_help :: string

definition denylistKinds :: "denylist_kind list" where
  "denylistKinds =
     [\<lparr>dk_kind = ''HEADER'', dk_label = ''Headers HTTP'',
       dk_placeholder = js_join [CHR 0x0A] [''authorization'', ''cookie'', ''x-api-key''],
       dk_help = (''Coincidencia exacta, sin distinguir may'' @ [CHR 0xFA] @ ''sculas y min'' @ [CHR 0xFA] @ ''sculas.'')\<rparr>,
      \<lparr>dk_kind = ''BODY_PATH'', dk_label = ''Paths JSON de request/response'',
       dk_placeholder = js_join [CHR 0x0A] [''password'', ''customer.email'', ''customer.accountNumber''],
       dk_help = ''Usa paths JSON sin $. Bloquear un padre bloquea sus descendientes.''\<rparr>,
      \<lparr>dk_kind = ''QUERY_PARAM'', dk_label = ''Query params HTTP'',
       dk_placeholder = js_join [CHR 0x0A] [''access_token'', ''api_key'', ''password''],
       dk_help = (''Coincidencia exacta y sensible a may'' @ [CHR 0xFA] @ ''sculas; aplica a REQUEST_QUERY.'')\<rparr>,
      \<lparr>dk_kind = ''PATH_PARAM'', dk_label = ''Path params HTTP'',
       dk_placeholder = js_join [CHR 0x0A] [''customerId'', ''accountId''],
       dk_help = (''Coincidencia exacta con el nombre l'' @ [CHR 0xF3] @ ''gico declarado en la plantilla del path.'')\<rparr>,
      \<lparr>dk_kind = ''MESSAGE_PROPERTY'', dk_label = ''Properties JMS'',
       dk_placeholder = js_join [CHR 0x0A] [''customerId'', ''accountNumber''],
       dk_help = ''Coincidencia exacta con el nombre de la propiedad JMS; los message headers usan la denylist de headers.''\<rparr>,
      \<lparr>dk_kind = ''METHOD_PATH'', dk_label = ''Paths de argumentos/retornos'',
       dk_placeholder = js_join [CHR 0x0A] [''password'', ''customer.email'', ''account.number''],
       dk_help = (''Se compara con el object path configurado en la captura del m'' @ [CHR 0xE9] @ ''todo.'')\<rparr>]"

definition serialize_denied :: "jsobj list \<Rightarrow> string \<Rightarrow> string" where
  "serialize_denied entries kind =
     join_vals [CHR 0x0A] (map (\<lambda>e. fld e ''Value'') (filter (\<lambda>e. fld e ''Kind'' = Str kind) entries))"

text \<open>The texts of the editor, by kind, and whether they were edited.\<close>

record denylist_editor =
  de_draft :: "string \<Rightarrow> string"
  de_dirty :: bool

definition denylist_open :: "jsobj list \<Rightarrow> denylist_editor" where
  "denylist_open entries = \<lparr>de_draft = serialize_denied entries, de_dirty = False\<rparr>"

definition denylist_received :: "jsobj list \<Rightarrow> denylist_editor \<Rightarrow> denylist_editor" where
  "denylist_received entries ed = (if de_dirty ed then ed else ed\<lparr>de_draft := serialize_denied entries\<rparr>)"

definition denylist_typed :: "string \<Rightarrow> string \<Rightarrow> denylist_editor \<Rightarrow> denylist_editor" where
  "denylist_typed kind text ed = ed\<lparr>de_draft := (de_draft ed)(kind := text), de_dirty := True\<rparr>"

definition denylist_payload :: "denylist_editor \<Rightarrow> jsobj list" where
  "denylist_payload ed =
     concat (map (\<lambda>k. map (\<lambda>v. [(''Kind'', Str (dk_kind k)), (''Value'', Str v)])
         (nub (text_items (CHR 0x0A) (de_draft ed (dk_kind k))))) denylistKinds)"

definition denylist_saved :: "denylist_editor \<Rightarrow> denylist_editor" where
  "denylist_saved ed = ed\<lparr>de_dirty := False\<rparr>"

subsection \<open>Selecting destinations (\<open>TargetSelector\<close>)\<close>

record target_selection =
  ts_agents :: "jsval list"
  ts_services :: "jsval list"
  ts_attributes :: "jsval list"

definition selection_object :: "target_selection \<Rightarrow> jsobj" where
  "selection_object s = destinationSelection (ts_agents s) (ts_services s) (ts_attributes s)"

definition offered_services :: "jsval list \<Rightarrow> jsval list" where
  "offered_services agents = sort_texts (unique_values (filter truthy (map (\<lambda>a. get a ''Service'') agents)))"

definition has_value :: "jsval list \<Rightarrow> jsval \<Rightarrow> bool" where
  "has_value vs v \<longleftrightarrow> (\<exists>x\<in>set vs. same_value_zero x v)"

definition unavailableSelectedIds :: "jsval list \<Rightarrow> target_selection \<Rightarrow> jsval list" where
  "unavailableSelectedIds agents s = filter (\<lambda>i. \<not> has_value (map (\<lambda>a. get a ''UID'') agents) i) (ts_agents s)"

definition unavailableSelectedServices :: "jsval list \<Rightarrow> target_selection \<Rightarrow> jsval list" where
  "unavailableSelectedServices agents s = filter (\<lambda>v. \<not> has_value (offered_services agents) v) (ts_services s)"

definition drop_unavailable :: "jsval list \<Rightarrow> target_selection \<Rightarrow> target_selection" where
  "drop_unavailable agents s =
     s\<lparr>ts_agents := filter (has_value (map (\<lambda>a. get a ''UID'') agents)) (ts_agents s),
       ts_services := filter (has_value (offered_services agents)) (ts_services s)\<rparr>"

definition toggle_value :: "jsval \<Rightarrow> jsval list \<Rightarrow> jsval list" where
  "toggle_value v current =
     (if has_value current v then filter (\<lambda>x. \<not> strict_eq x v) current else current @ [v])"

definition toggleService :: "jsval \<Rightarrow> target_selection \<Rightarrow> target_selection" where
  "toggleService service s = s\<lparr>ts_services := toggle_value service (ts_services s)\<rparr>"

definition toggle_agent :: "jsval \<Rightarrow> target_selection \<Rightarrow> target_selection" where
  "toggle_agent agent s = s\<lparr>ts_agents := toggle_value (get agent ''UID'') (ts_agents s)\<rparr>"

definition add_attribute_row :: "target_selection \<Rightarrow> target_selection" where
  "add_attribute_row s = s\<lparr>ts_attributes := ts_attributes s @ [Obj [(''key'', Str ''''), (''value'', Str '''')]]\<rparr>"

definition edit_attribute_row :: "nat \<Rightarrow> string \<Rightarrow> string \<Rightarrow> target_selection \<Rightarrow> target_selection" where
  "edit_attribute_row i side text s =
     s\<lparr>ts_attributes := map (\<lambda>(j, item). if j = i then Obj (obj_put side (Str text) (obj_spread [] (own_entries item))) else item)
        (enumerate 0 (ts_attributes s))\<rparr>"

definition remove_attribute_row :: "nat \<Rightarrow> target_selection \<Rightarrow> target_selection" where
  "remove_attribute_row i s = s\<lparr>ts_attributes := remove_at i (ts_attributes s)\<rparr>"

definition matching_agents :: "jsval list \<Rightarrow> target_selection \<Rightarrow> jsval list" where
  "matching_agents agents s = filter (\<lambda>a. matchesTargetSelector a (selection_object s)) agents"

definition visible_agents :: "jsval list \<Rightarrow> string \<Rightarrow> target_selection \<Rightarrow> jsval list" where
  "visible_agents agents query s =
     filterVisibleTargetAgents (Arr agents) (selection_object s @ [(''query'', Str query)])"

definition select_visible :: "jsval list \<Rightarrow> string \<Rightarrow> target_selection \<Rightarrow> target_selection" where
  "select_visible agents query s = s\<lparr>ts_agents := map (\<lambda>a. get a ''UID'') (visible_agents agents query s)\<rparr>"

definition clear_selection :: "target_selection \<Rightarrow> target_selection" where
  "clear_selection s = \<lparr>ts_agents = [], ts_services = [], ts_attributes = []\<rparr>"

subsection \<open>Destinations and versions\<close>

text \<open>\<open>xs.some((value) => String(value || "").toLowerCase().includes(needle))\<close>.\<close>

definition some_text_has :: "string \<Rightarrow> jsval list \<Rightarrow> bool" where
  "some_text_has needle vs \<longleftrightarrow> (\<exists>v\<in>set vs. js_includes (js_lower (str_or v '''')) needle)"

definition destination_status :: "jsobj \<Rightarrow> jsval" where
  "destination_status rec = js_or (Str (coverageStatusForDisplay rec)) (deploymentRecordStatus rec)"

definition destination_visible :: "string \<Rightarrow> jsval \<Rightarrow> jsval \<Rightarrow> jsval \<Rightarrow> jsobj \<Rightarrow> bool" where
  "destination_visible needle statuses targets policies rec \<longleftrightarrow>
     (if \<not> matchesAnySelection statuses (destination_status rec) then False
      else if \<not> matchesAnySelection targets (fld rec ''Target'') then False
      else if \<not> matchesAnySelection policies (fld rec ''ConfigID'') then False
      else if needle = [] then True
      else some_text_has needle
        ([fld rec ''ConfigID'', fld rec ''Version'', fld rec ''Service'', fld rec ''AgentUID'', fld rec ''PublishedBy''] @
         map (\<lambda>(key, v). Str (key @ ''='' @ to_str v)) (own_entries (js_or (fld rec ''AgentAttributes'') (Obj [])))))"

definition visibleDestinations ::
  "(string \<Rightarrow> string \<Rightarrow> jsnum) \<Rightarrow> jsobj list \<Rightarrow> string \<Rightarrow> jsval \<Rightarrow> jsval \<Rightarrow> jsval \<Rightarrow> jsobj list" where
  "visibleDestinations collate deployments query statuses targets policies =
     sortDestinationRecords collate
       (filter (destination_visible (js_lower (js_trim query)) statuses targets policies) deployments)"

definition applied_destinations :: "jsobj list \<Rightarrow> nat" where
  "applied_destinations deployments =
     length (filter (\<lambda>rec. cov_counts (deploymentCoverage rec) \<and> deploymentRecordStatus rec = Str ''APPLIED'') deployments)"

definition config_options :: "jsobj list \<Rightarrow> jsval list" where
  "config_options deployments = sort_texts (unique_values (filter truthy (map (\<lambda>rec. fld rec ''ConfigID'') deployments)))"

text \<open>The status a version is listed and filtered by: of a withdrawn version, the one of the
  destinations of its configuration; \<open>managed\<close> is the map of the managed configurations.\<close>

definition version_status :: "jsobj list \<Rightarrow> (jsval \<times> managed_collector) list \<Rightarrow> jsobj \<Rightarrow> jsval option" where
  "version_status agents managed version =
     (if isDeactivatedPolicyVersion version then
        Some (if fld version ''Target'' = Str ''collector'' then
            (case map_of (rev managed) (fld version ''configId'') of
               Some config \<Rightarrow> js_or (Str (cs_status (mc_destinationSummary config))) (Str ''DEACTIVATED'')
             | None \<Rightarrow> Str ''DEACTIVATED'')
          else Str ''DEACTIVATED'')
      else map_option (\<lambda>d. Str (dp_status d)) (deploymentStatusForVersion version agents))"

definition version_visible ::
  "jsobj list \<Rightarrow> (jsval \<times> managed_collector) list \<Rightarrow> string \<Rightarrow> jsval \<Rightarrow> jsval \<Rightarrow> jsobj \<Rightarrow> bool option" where
  "version_visible agents managed needle targets statuses version = do {
     status \<leftarrow> version_status agents managed version;
     Some (if \<not> matchesAnySelection targets (fld version ''Target'') then False
       else if \<not> matchesAnySelection statuses status then False
       else needle = [] \<or> some_text_has needle
         [fld version ''configId'', fld version ''Version'', fld version ''Target'', fld version ''CreatedBy'',
          fld version ''Hash'', Str (publicationActionLabel (fld version ''Action''))]) }"

definition visibleVersions ::
  "jsobj list \<Rightarrow> managed_collector list \<Rightarrow> jsobj list \<Rightarrow> string \<Rightarrow> jsval \<Rightarrow> jsval \<Rightarrow> jsobj list option" where
  "visibleVersions agents collectors versions query targets statuses =
     filter_opt (version_visible agents (map (\<lambda>c. (mc_id c, c)) collectors) (js_lower (js_trim query)) targets statuses)
       versions"

subsection \<open>Pickers\<close>

definition versionKey :: "jsobj \<Rightarrow> string" where
  "versionKey version = to_str (fld version ''configId'') @ ''::'' @ to_str (fld version ''Version'')"

definition picker_options ::
  "(jsval \<Rightarrow> jsnum) \<Rightarrow> (string \<Rightarrow> string \<Rightarrow> jsnum) \<Rightarrow> jsobj list \<Rightarrow> string \<Rightarrow> string \<Rightarrow> jsobj list" where
  "picker_options date_parse collate versions v query =
     (let matches = filterStoredVersions date_parse collate versions (Str query);
          selected = find (\<lambda>version. versionKey version = v) versions
      in (case selected of
            Some s \<Rightarrow> if \<exists>version\<in>set matches. versionKey version = v then matches else s # matches
          | None \<Rightarrow> matches))"

definition normalizedOptions :: "jsval \<Rightarrow> (string \<times> string) list option" where
  "normalizedOptions options = do {
     xs \<leftarrow> list_or options;
     Some (filter (\<lambda>(v, _). v \<noteq> []) (map (\<lambda>option. case option of
         Str s \<Rightarrow> (s, s)
       | _ \<Rightarrow> (str_or (get option ''value'') '''', str_or (js_or (get option ''label'') (get option ''value'')) '''')) xs)) }"

definition selectorText :: "(string \<Rightarrow> string) \<Rightarrow> (string \<Rightarrow> string \<Rightarrow> jsnum) \<Rightarrow> jsobj \<Rightarrow> string" where
  "selectorText t collate version =
     (let sel = storedVersionSelectorSummary collate version;
          parts =
            (if sv_services sel = [] then [] else [t ''Servicios'' @ '': '' @ join_vals '', '' (sv_services sel)]) @
            (if sv_instances sel = [] then [] else [''InstanceUID: '' @ join_vals '', '' (sv_instances sel)]) @
            (if sv_attributes sel = [] then [] else [t ''Atributos'' @ '': '' @ js_join '', '' (sv_attributes sel)]);
          joined = js_join ('' '' @ [CHR 0xB7] @ '' '') parts
      in if joined \<noteq> [] then joined else t (''Sin restricci'' @ [CHR 0xF3] @ ''n''))"

declare selectorText_def [js_eval]

subsection \<open>The denylist survives its text\<close>

lemma concat_single: "distinct ks \<Longrightarrow> concat (map (\<lambda>k'. if k' = k then f k' else []) ks) = (if k \<in> set ks then f k else [])"
  by (induction ks) auto

lemma distinct_tagged:
  assumes "distinct (map key ks)" "\<And>k. distinct (f k)" "\<And>k x. x \<in> set (f k) \<Longrightarrow> tag x = key k"
  shows "distinct (concat (map f ks))"
  using assms(1)
proof (induction ks)
  case (Cons k ks)
  have "set (f k) \<inter> set (concat (map f ks)) = {}"
    using Cons.prems assms(3) by (auto simp: image_iff) metis
  with Cons assms(2) show ?case by auto
qed simp

lemma denied_of_kind:
  assumes "k \<in> set denylistKinds"
  shows "filter (\<lambda>e. fld e ''Kind'' = Str (dk_kind k)) (denylist_payload ed) =
    map (\<lambda>v. [(''Kind'', Str (dk_kind k)), (''Value'', Str v)]) (nub (text_items (CHR 0x0A) (de_draft ed (dk_kind k))))"
proof -
  have d: "distinct (map dk_kind denylistKinds)" by code_simp
  let ?f = "\<lambda>k. map (\<lambda>v. [(''Kind'', Str (dk_kind k)), (''Value'', Str v)]) (nub (text_items (CHR 0x0A) (de_draft ed (dk_kind k))))"
  have "filter (\<lambda>e. fld e ''Kind'' = Str (dk_kind k)) (?f k') = (if k' = k then ?f k' else [])"
    if "k' \<in> set denylistKinds" for k'
    using d that assms by (auto simp: distinct_map inj_on_def filter_empty_conv filter_id_conv fld_def)
  then have "filter (\<lambda>e. fld e ''Kind'' = Str (dk_kind k)) (denylist_payload ed) =
      concat (map (\<lambda>k'. if k' = k then ?f k' else []) denylistKinds)"
    unfolding denylist_payload_def filter_concat map_map by (intro arg_cong [where f = concat] map_cong) simp_all
  then show ?thesis using assms concat_single [of denylistKinds k ?f] d by (simp add: distinct_map)
qed

lemma serialize_payload:
  assumes "k \<in> set denylistKinds"
  shows "serialize_denied (denylist_payload ed) (dk_kind k) =
    js_join [CHR 0x0A] (nub (text_items (CHR 0x0A) (de_draft ed (dk_kind k))))"
  unfolding serialize_denied_def denied_of_kind [OF assms] join_vals_def
  by (simp add: o_def fld_def elem_str_def nullish_def)

text \<open>the denylist survives its editor: what is saved has no blank or repeated entry, and opening the
  saved entries and saving again, without typing, saves the same entries in the same order.\<close>

theorem denylist_text_roundtrip:
  "denylist_payload (denylist_open (denylist_payload ed)) = denylist_payload ed \<and>
   distinct (denylist_payload ed) \<and>
   [] \<notin> (\<lambda>e. to_str (fld e ''Value'')) ` set (denylist_payload ed)"
proof (intro conjI)
  let ?items = "\<lambda>k. text_items (CHR 0x0A) (de_draft ed (dk_kind k))"
  have "text_items (CHR 0x0A) (serialize_denied (denylist_payload ed) (dk_kind k)) = nub (?items k)"
    if "k \<in> set denylistKinds" for k
  proof -
    have "\<forall>x\<in>set (nub (?items k)). clean_item (CHR 0x0A) x" using text_items_clean by auto
    then show ?thesis unfolding serialize_payload [OF that] by (rule text_items_join)
  qed
  then show "denylist_payload (denylist_open (denylist_payload ed)) = denylist_payload ed"
    unfolding denylist_payload_def [of "denylist_open _"]
    by (simp add: denylist_open_def denylist_payload_def [of ed] cong: map_cong)
  have d: "distinct (map dk_kind denylistKinds)" by code_simp
  then show "distinct (denylist_payload ed)"
    unfolding denylist_payload_def
    by (rule distinct_tagged [where tag = "\<lambda>e. to_str (fld e ''Kind'')"]) (auto simp: distinct_map inj_on_def fld_def)
  show "[] \<notin> (\<lambda>e. to_str (fld e ''Value'')) ` set (denylist_payload ed)"
  proof -
    have "[] \<notin> set (text_items sep s)" for sep s by (simp add: text_items_def)
    then show ?thesis by (auto simp: denylist_payload_def fld_def)
  qed
qed

subsection \<open>Selecting the visible destinations\<close>

definition identified :: "jsval list \<Rightarrow> bool" where
  "identified agents \<longleftrightarrow> distinct (map (\<lambda>a. get a ''UID'') agents) \<and> (\<forall>a\<in>set agents. \<exists>c u. get a ''UID'' = Str (c # u))"

lemma identified_truthy: "get a ''UID'' = Str (c # u) \<Longrightarrow> truthy a"
  by (cases a) (auto simp: fld_def object_prototype_def split: if_splits)

lemma matches_selection:
  "matchesTargetSelector a (selection_object s) \<longleftrightarrow>
     (filter truthy (ts_agents s) = [] \<or> (\<exists>y\<in>set (filter truthy (ts_agents s)). same_value_zero y (get a ''UID''))) \<and>
     (filter truthy (ts_services s) = [] \<or> (\<exists>y\<in>set (filter truthy (ts_services s)). same_value_zero y (get a ''Service''))) \<and>
     (\<forall>r\<in>{r \<in> set (ts_attributes s). usable r}.
        strict_eq (get (get a ''Attributes'') (to_str (get r ''key''))) (get r ''value''))"
  unfolding matchesTargetSelector_def selection_object_def destinationSelection_lists Let_def ..

lemma matches_with_query:
  "matchesTargetSelector a (selection_object s @ [(''query'', q)]) = matchesTargetSelector a (selection_object s)"
proof -
  have "fld (selection_object s @ [(''query'', q)]) k = fld (selection_object s) k"
    if "k \<in> {''selectedAgentIds'', ''selectedServices'', ''selectorAttributes''}" for k
    using that by (auto simp: selection_object_def destinationSelection_def fld_def)
  then show ?thesis by (simp add: matchesTargetSelector_def param_def)
qed

text \<open>selecting the visible instances selects exactly them, as long as one is visible: then the
  destinations that will receive the version are the visible ones. When none is visible the
  selection of instances is emptied, and every instance that the services and the attributes
  admit will receive it.\<close>

theorem select_visible_selects_the_visible:
  assumes "identified agents"
  shows "matching_agents agents (select_visible agents query s) =
    (if visible_agents agents query s = [] then matching_agents agents (s\<lparr>ts_agents := []\<rparr>)
     else visible_agents agents query s)"
proof (cases "visible_agents agents query s = []")
  case True
  then show ?thesis by (simp add: select_visible_def)
next
  case False
  let ?vis = "visible_agents agents query s" and ?uid = "\<lambda>a. get a ''UID''"
  have "filter truthy agents = agents"
    using assms identified_truthy by (fastforce simp: identified_def filter_id_conv)
  then have vis: "?vis = filter (\<lambda>a. matchesTargetSelector a (selection_object s) \<and>
      matchesTargetQuery a (Str query)) agents"
    by (simp add: visible_agents_def filterVisibleTargetAgents_def normalizedValues_def matches_with_query)
      (simp add: selection_object_def destinationSelection_def fld_def)
  have ids: "filter truthy (map ?uid ?vis) = map ?uid ?vis"
    using assms by (fastforce simp: identified_def filter_id_conv vis)
  have "matchesTargetSelector a (selection_object (select_visible agents query s)) \<longleftrightarrow> a \<in> set ?vis"
    if a: "a \<in> set agents" for a
  proof -
    obtain c u where u: "?uid a = Str (c # u)" using assms a by (auto simp: identified_def)
    have inj: "inj_on ?uid (set agents)" using assms by (simp add: identified_def distinct_map)
    have "(\<exists>y\<in>set (map ?uid ?vis). same_value_zero y (?uid a)) \<longleftrightarrow> a \<in> set ?vis"
    proof -
      have "(\<exists>y\<in>set (map ?uid ?vis). same_value_zero y (?uid a)) \<longleftrightarrow> (\<exists>b\<in>set ?vis. ?uid b = ?uid a)"
        unfolding u by (auto simp: same_value_zero_Str intro: rev_image_eqI)
      also have "\<dots> \<longleftrightarrow> a \<in> set ?vis" using inj a by (auto simp: vis dest: inj_onD)
      finally show ?thesis .
    qed
    then show ?thesis
      using False ids by (auto simp: matches_selection select_visible_def) (auto simp: vis matches_selection)
  qed
  then have "matching_agents agents (select_visible agents query s) = filter (\<lambda>a. a \<in> set ?vis) agents"
    by (auto simp: matching_agents_def intro: filter_cong)
  also have "\<dots> = ?vis" unfolding vis by (auto intro: filter_cong)
  finally show ?thesis using False by simp
qed

theorem select_visible_selects_the_visible_witness:
  "matching_agents [Obj [(''UID'', Str ''a'')], Obj [(''UID'', Str ''b'')]]
     (select_visible [Obj [(''UID'', Str ''a'')], Obj [(''UID'', Str ''b'')]] ''B'' (clear_selection undefined)) = [Obj [(''UID'', Str ''b'')]]"
proof -
  let ?agents = "[Obj [(''UID'', Str ''a'')], Obj [(''UID'', Str ''b'')]]"
  let ?s = "\<lparr>ts_agents = [], ts_services = [], ts_attributes = []\<rparr>"
  have "identified ?agents" by (simp add: identified_def fld_def)
  moreover have "visible_agents ?agents ''B'' ?s = [Obj [(''UID'', Str ''b'')]]" by code_simp
  ultimately show ?thesis
    using select_visible_selects_the_visible [of ?agents "''B''" ?s] by (simp add: clear_selection_def)
qed

subsection \<open>Listed destinations, versions and picker options\<close>

text \<open>the list of destinations shows exactly the records the three filters and the search admit, each
  as often as it is stored, ordered by configuration, newest version first, service and instance.\<close>

theorem visibleDestinations_exact:
  assumes "comparator collate (\<lambda>_. True)" and "\<forall>r\<in>set deployments. record_number r \<noteq> NaN"
  shows "(\<forall>r. length (filter (\<lambda>x. x = r) (visibleDestinations collate deployments query statuses targets policies)) =
      (if destination_visible (js_lower (js_trim query)) statuses targets policies r
       then length (filter (\<lambda>x. x = r) deployments) else 0)) \<and>
    sorted_wrt (\<lambda>a b. num_sign (compareDestinationRecords collate a b) \<le> 0)
      (visibleDestinations collate deployments query statuses targets policies) \<and>
    set (visibleDestinations collate deployments [] (Arr []) (Arr []) (Arr [])) = set deployments"
proof (intro conjI allI)
  let ?p = "destination_visible (js_lower (js_trim query)) statuses targets policies"
  note c = destination_record_comparator [OF assms(1)]
  fix r
  have "filter (\<lambda>x. x = r) (filter ?p deployments) = (if ?p r then filter (\<lambda>x. x = r) deployments else [])"
    by (auto intro!: filter_cong simp: filter_empty_conv)
  then show "length (filter (\<lambda>x. x = r) (visibleDestinations collate deployments query statuses targets policies)) =
      (if ?p r then length (filter (\<lambda>x. x = r) deployments) else 0)"
    by (simp add: visibleDestinations_def sortDestinationRecords_def)
next
  show "sorted_wrt (\<lambda>a b. num_sign (compareDestinationRecords collate a b) \<le> 0)
      (visibleDestinations collate deployments query statuses targets policies)"
    unfolding visibleDestinations_def sortDestinationRecords_def
    using assms by (intro comparator.sort_by_sorted [OF destination_record_comparator]) auto
next
  have "normalizeSelection (Arr []) = []" by code_simp
  then show "set (visibleDestinations collate deployments [] (Arr []) (Arr []) (Arr [])) = set deployments"
    by (auto simp: visibleDestinations_def sortDestinationRecords_def destination_visible_def matchesAny_iff)
qed

theorem visibleDestinations_exact_witness:
  "set (visibleDestinations code_unit_collate [[(''ConfigID'', Str ''a'')]] [] (Arr []) (Arr []) (Arr [])) = {[(''ConfigID'', Str ''a'')]}"
proof -
  have "record_number [(''ConfigID'', Str ''a'')] \<noteq> NaN" by code_simp
  then show ?thesis
    using visibleDestinations_exact [OF code_units.comparator_axioms, of "[[(''ConfigID'', Str ''a'')]]"] by simp
qed

text \<open>the picker never hides the version it has selected, offers only stored versions, and a search
  adds nothing to the versions it finds but that selection.\<close>

theorem picker_keeps_the_selection:
  "(find (\<lambda>v. versionKey v = key) versions = None) = (key \<notin> versionKey ` set versions) \<and>
   versionKey ` set (picker_options dp collate versions key query) =
     versionKey ` set (filterStoredVersions dp collate versions (Str query)) \<union>
       (if key \<in> versionKey ` set versions then {key} else {}) \<and>
   set (picker_options dp collate versions key query) \<subseteq> set versions"
proof -
  have sub: "set (filterStoredVersions dp collate versions (Str query)) \<subseteq> set versions"
    by (auto simp: filterStoredVersions_alt)
  have none: "(find (\<lambda>v. versionKey v = key) versions = None) = (key \<notin> versionKey ` set versions)"
    by (auto simp: find_None_iff)
  show ?thesis
  proof (cases "find (\<lambda>v. versionKey v = key) versions")
    case None
    then show ?thesis using none sub by (simp add: picker_options_def)
  next
    case (Some v)
    then have v: "v \<in> set versions" "versionKey v = key" by (auto simp: find_Some_iff)
    then show ?thesis using none sub Some by (auto simp: picker_options_def Let_def intro: rev_image_eqI)
  qed
qed

declare denylistKinds_def [js_eval] serialize_denied_def [js_eval] denylist_open_def [js_eval]
  denylist_received_def [js_eval] denylist_typed_def [js_eval] denylist_payload_def [js_eval]
  denylist_saved_def [js_eval] selection_object_def [js_eval] offered_services_def [js_eval]
  has_value_def [js_eval] unavailableSelectedIds_def [js_eval]
  unavailableSelectedServices_def [js_eval] drop_unavailable_def [js_eval]
  toggle_value_def [js_eval] toggleService_def [js_eval] toggle_agent_def [js_eval]
  add_attribute_row_def [js_eval] edit_attribute_row_def [js_eval]
  remove_attribute_row_def [js_eval] matching_agents_def [js_eval] visible_agents_def [js_eval]
  select_visible_def [js_eval] clear_selection_def [js_eval] some_text_has_def [js_eval]
  destination_status_def [js_eval] destination_visible_def [js_eval]
  visibleDestinations_def [js_eval] applied_destinations_def [js_eval]
  config_options_def [js_eval] version_status_def [js_eval] version_visible_def [js_eval]
  visibleVersions_def [js_eval] versionKey_def [js_eval] picker_options_def [js_eval]
  normalizedOptions_def [js_eval]

end
