(* ===== verification/Form_Base.thy ===== *)
theory Form_Base
  imports Value_Editors Event_Props
begin

section \<open>The forms of the policy editor: how a control changes the document\<close>

text \<open>
  The visual editor of \<open>ui/src/main.jsx\<close> and \<open>ui/src/messaging-editor.jsx\<close> is a tree of controls,
  each with a handler that builds the next policy from the rendered one. This theory holds what the
  handlers share: replacing, adding and removing an item of a list, ticking a destination, changing
  a value policy, and raising the schema version. A handler that raises a \<open>TypeError\<close> is \<open>None\<close>; a
  control that is not on the page, or is disabled, changes nothing.
\<close>

subsection \<open>Lists of items\<close>

text \<open>\<open>xs.map((item, index) => index === i ? f(item) : item)\<close>.\<close>

definition map_at :: "nat \<Rightarrow> ('a \<Rightarrow> 'a) \<Rightarrow> 'a list \<Rightarrow> 'a list" where
  "map_at i f xs = (if i < length xs then xs[i := f (xs ! i)] else xs)"

text \<open>\<open>{...ob, k: f(ob.k)}\<close> for a list method \<open>f\<close>, \<open>{...ob, k: [...ob.k, v]}\<close>, and the latter with
  \<open>...(ob.k || [])\<close>.\<close>

definition edit_list :: "string \<Rightarrow> (jsval list \<Rightarrow> jsval list) \<Rightarrow> jsobj \<Rightarrow> jsobj option" where
  "edit_list k f ob = do { xs \<leftarrow> receiver (fld ob k); Some (obj_put k (Arr (f xs)) ob) }"

definition append_item :: "string \<Rightarrow> jsval \<Rightarrow> jsobj \<Rightarrow> jsobj option" where
  "append_item k v ob = do { xs \<leftarrow> iterate (fld ob k); Some (obj_put k (Arr (xs @ [v])) ob) }"

definition append_item_or :: "string \<Rightarrow> jsval \<Rightarrow> jsobj \<Rightarrow> jsobj option" where
  "append_item_or k v ob = do { xs \<leftarrow> items_or (fld ob k); Some (obj_put k (Arr (xs @ [v])) ob) }"

definition edit_item :: "string \<Rightarrow> nat \<Rightarrow> (jsval \<Rightarrow> jsval) \<Rightarrow> jsobj \<Rightarrow> jsobj option" where
  "edit_item k i f = edit_list k (map_at i f)"

definition drop_item :: "string \<Rightarrow> nat \<Rightarrow> jsobj \<Rightarrow> jsobj option" where
  "drop_item k i = edit_list k (remove_at i)"

definition item_put :: "string \<Rightarrow> jsval \<Rightarrow> jsval \<Rightarrow> jsval" where
  "item_put k v item = Obj (obj_put k v (own_entries item))"

text \<open>A control of row \<open>i\<close> of the list \<open>k\<close> is on the page when the row is.\<close>

definition has_row :: "string \<Rightarrow> nat \<Rightarrow> jsobj \<Rightarrow> bool" where
  "has_row k i ob \<longleftrightarrow> i < length (array (fld ob k))"

definition row :: "string \<Rightarrow> nat \<Rightarrow> jsobj \<Rightarrow> jsval" where
  "row k i ob = elem_at (fld ob k) i"

text \<open>The rendered item is rebuilt by a handler and replaces the current one.\<close>

definition update_item :: "string \<Rightarrow> nat \<Rightarrow> (jsobj \<Rightarrow> jsobj option) \<Rightarrow> jsobj \<Rightarrow> jsobj option" where
  "update_item k i f p = do { item \<leftarrow> f (own_entries (row k i p)); edit_item k i (\<lambda>_. Obj item) p }"

subsection \<open>Check boxes over a list\<close>

text \<open>\<open>v.includes(x) ? v.filter((item) => item !== x) : [...v, x]\<close>, and the same over \<open>v || []\<close>.\<close>

definition toggled_in :: "jsval \<Rightarrow> string \<Rightarrow> jsval option" where
  "toggled_in v x = do {
     selected \<leftarrow> val_includes v (Str x);
     if selected then do { xs \<leftarrow> receiver v; Some (Arr (filter (\<lambda>y. \<not> strict_eq y (Str x)) xs)) }
     else do { xs \<leftarrow> iterate v; Some (Arr (xs @ [Str x])) } }"

definition toggled :: "jsval \<Rightarrow> string \<Rightarrow> jsval option" where
  "toggled v x = toggled_in (js_or v (Arr [])) x"

definition toggle_key :: "string \<Rightarrow> string \<Rightarrow> jsobj \<Rightarrow> jsobj option" where
  "toggle_key k x ob = do { v \<leftarrow> toggled (fld ob k) x; Some (obj_put k v ob) }"

definition toggle_destination :: "string \<Rightarrow> nat \<Rightarrow> string \<Rightarrow> jsobj \<Rightarrow> jsobj option" where
  "toggle_destination k i x ob = do {
     destinations \<leftarrow> toggled (get (row k i ob) ''destinations'') x;
     edit_item k i (item_put ''destinations'' destinations) ob }"

subsection \<open>Numbers and lists typed as text\<close>

text \<open>\<open>Number(text)\<close>, \<open>text.split(",").map(Number).filter(Number.isFinite)\<close>, and
  \<open>text.split(",").map((value) => value.trim()).filter(Boolean)\<close>.\<close>

definition typed_number :: "string \<Rightarrow> jsval" where
  "typed_number text = Num (parse_num text)"

definition typed_buckets :: "string \<Rightarrow> jsval" where
  "typed_buckets text = Arr (filter is_finite (map typed_number (split_char CHR '','' text)))"

definition typed_words :: "string \<Rightarrow> jsval" where
  "typed_words text = strs (text_items CHR '','' text)"

subsection \<open>Value policies\<close>

datatype value_edit = ChooseType string | AllowedText string | RangesText string | FallbackText string

fun edit_value :: "(string \<Rightarrow> jsobj \<Rightarrow> jsobj) \<Rightarrow> value_edit \<Rightarrow> jsobj \<Rightarrow> jsobj" where
  "edit_value change (ChooseType t) v = change t v"
| "edit_value change (AllowedText s) v = set_allowed s v"
| "edit_value change (RangesText s) v = set_ranges s v"
| "edit_value change (FallbackText s) v = set_fallback s v"

fun value_schema :: "value_edit \<Rightarrow> string option" where
  "value_schema (ChooseType t) = required_by_type t"
| "value_schema _ = None"

text \<open>The value policy of a row, which the editor completes with a default when there is none.\<close>

definition edit_value_policy ::
  "(string \<Rightarrow> jsobj \<Rightarrow> jsobj) \<Rightarrow> jsobj \<Rightarrow> string \<Rightarrow> nat \<Rightarrow> value_edit \<Rightarrow> jsobj \<Rightarrow> jsobj option" where
  "edit_value_policy change init k i ed ob =
     (let v = own_entries (js_or (get (row k i ob) ''valuePolicy'') (Obj init))
      in edit_item k i (item_put ''valuePolicy'' (Obj (edit_value change ed v))) ob)"

subsection \<open>The schema version\<close>

text \<open>\<open>{...current, schemaVersion: ensurePolicySchema(current.schemaVersion, required)}\<close>, where asked.\<close>

definition require_schema :: "string \<Rightarrow> jsobj \<Rightarrow> jsobj" where
  "require_schema required p =
     obj_put ''schemaVersion'' (ensurePolicySchema (fld p ''schemaVersion'') (Str required)) p"

definition require_if :: "string option \<Rightarrow> jsobj \<Rightarrow> jsobj" where
  "require_if required p = (case required of Some s \<Rightarrow> require_schema s p | None \<Rightarrow> p)"

declare map_at_def [js_eval] edit_list_def [js_eval] append_item_def [js_eval]
  append_item_or_def [js_eval] edit_item_def [js_eval] drop_item_def [js_eval]
  item_put_def [js_eval] has_row_def [js_eval] row_def [js_eval] update_item_def [js_eval]
  toggled_in_def [js_eval] toggled_def [js_eval] toggle_key_def [js_eval]
  toggle_destination_def [js_eval] typed_number_def [js_eval] typed_buckets_def [js_eval]
  typed_words_def [js_eval] edit_value_policy_def [js_eval] require_schema_def [js_eval]
  require_if_def [js_eval]

end
