(* ===== verification/Form_Types.thy ===== *)
theory Form_Types
  imports Form_Base
begin

section \<open>Types of documents\<close>

text \<open>
  What a handler may rely on: a document type says which properties of an object hold lists of items
  of a type, and which satisfy a predicate. The lemmas are the typing rules of what the forms are
  built from: on a document of the type none of them raises, and the result has the type.
\<close>

datatype ty = Sat "jsval \<Rightarrow> bool" | Items ty | Rec "(string \<times> ty) list"

fun is_obj :: "jsval \<Rightarrow> bool" where
  "is_obj (Obj _) = True"
| "is_obj _ = False"

fun fits :: "ty \<Rightarrow> jsval \<Rightarrow> bool" where
  "fits (Sat P) v = P v"
| "fits (Items t) v = (is_array v \<and> (\<forall>x\<in>set (array v). fits t x))"
| "fits (Rec ts) v = (is_obj v \<and> (\<forall>(k, t)\<in>set ts. fits t (get v k)))"

definition makes :: "ty \<Rightarrow> jsobj option \<Rightarrow> bool" where
  "makes t r \<longleftrightarrow> (\<exists>ob. r = Some ob \<and> fits t (Obj ob))"

named_theorems typing \<open>typing rules of the handlers\<close>

abbreviation "Anything \<equiv> Sat (\<lambda>_. True)"
abbreviation "Present \<equiv> Sat (\<lambda>v. \<not> nullish v)"
abbreviation "List_Or_Nothing \<equiv> Sat readable_list"

text \<open>The type a record gives to a property.\<close>

definition at_key :: "(string \<times> ty) list \<Rightarrow> string \<Rightarrow> ty \<Rightarrow> bool" where
  "at_key ts k t \<longleftrightarrow> map_of ts k = Some t \<and> distinct (map fst ts)"

definition admits_at :: "(string \<times> ty) list \<Rightarrow> string \<Rightarrow> jsval \<Rightarrow> bool" where
  "admits_at ts k v \<longleftrightarrow> (\<forall>(j, t)\<in>set ts. j = k \<longrightarrow> fits t v)"

lemma admits_at_key: "at_key ts k t \<Longrightarrow> admits_at ts k v \<longleftrightarrow> fits t v"
  unfolding at_key_def admits_at_def by (auto dest: map_of_SomeD)

lemma fits_at: "at_key ts k t \<Longrightarrow> fits (Rec ts) (Obj ob) \<Longrightarrow> fits t (fld ob k)"
  by (auto simp: at_key_def dest!: map_of_SomeD)

lemma makes_Some [simp]: "makes t (Some ob) \<longleftrightarrow> fits t (Obj ob)"
  by (simp add: makes_def)

lemma makes_bind: "makes t r \<Longrightarrow> (\<And>ob. fits t (Obj ob) \<Longrightarrow> makes u (f ob)) \<Longrightarrow> makes u (r \<bind> f)"
  by (auto simp: makes_def)

lemma makes_map: "makes t r \<Longrightarrow> (\<And>ob. fits t (Obj ob) \<Longrightarrow> fits u (Obj (f ob))) \<Longrightarrow> makes u (map_option f r)"
  by (auto simp: makes_def)

subsection \<open>Objects\<close>

lemma fits_put [typing]:
  "fits (Rec ts) (Obj ob) \<Longrightarrow> admits_at ts k v \<Longrightarrow> fits (Rec ts) (Obj (obj_put k v ob))"
  by (auto simp: admits_at_def fld_obj_put)

lemma fits_Rec_Obj: "fits (Rec ts) x \<Longrightarrow> \<exists>ob. x = Obj ob"
  by (cases x) auto

lemma fits_item_put [typing]:
  assumes "fits (Rec ts) x" "admits_at ts k v"
  shows "fits (Rec ts) (item_put k v x)"
proof -
  obtain ob where x: "x = Obj ob" using fits_Rec_Obj [OF assms(1)] by blast
  show ?thesis using fits_put assms by (simp add: item_put_def x del: fits.simps)
qed

lemma fits_spread:
  "fits (Rec ts) (Obj ob) \<Longrightarrow> \<forall>(k, v)\<in>set ups. admits_at ts k v \<Longrightarrow> fits (Rec ts) (Obj (obj_spread ob ups))"
proof (induction ups arbitrary: ob)
  case (Cons u ups)
  then show ?case using fits_put [OF Cons.prems(1)] by (auto simp: obj_spread_def split_def simp del: fits.simps)
qed (simp add: obj_spread_def)

lemma fits_own [simp]: "fits (Rec ts) x \<Longrightarrow> Obj (own_entries x) = x"
  by (cases x) auto

subsection \<open>Lists\<close>

lemma map_at_all: "\<forall>x\<in>set xs. P x \<Longrightarrow> (\<And>x. P x \<Longrightarrow> P (f x)) \<Longrightarrow> \<forall>y\<in>set (map_at i f xs). P y"
  by (auto simp: map_at_def dest!: set_update_subset_insert [THEN subsetD])

lemma remove_at_all: "\<forall>x\<in>set xs. P x \<Longrightarrow> \<forall>y\<in>set (remove_at i xs). P y"
  using set_remove_at by fastforce

lemma edit_list_typing:
  assumes "fits (Rec ts) (Obj ob)" "at_key ts k (Items t)"
    and "\<And>xs. \<forall>x\<in>set xs. fits t x \<Longrightarrow> \<forall>y\<in>set (f xs). fits t y"
  shows "makes (Rec ts) (edit_list k f ob)"
proof -
  have "fits (Items t) (fld ob k)" using assms(1,2) fits_at by blast
  then obtain xs where xs: "fld ob k = Arr xs" "\<forall>x\<in>set xs. fits t x" by (cases "fld ob k") auto
  have "fits (Rec ts) (Obj (obj_put k (Arr (f xs)) ob))"
    using assms xs(2) by (intro fits_put) (auto simp: admits_at_key)
  then show ?thesis by (simp add: edit_list_def xs(1) del: fits.simps)
qed

lemma edit_item_typing [typing]:
  "fits (Rec ts) (Obj ob) \<Longrightarrow> at_key ts k (Items t) \<Longrightarrow> (\<And>x. fits t x \<Longrightarrow> fits t (f x)) \<Longrightarrow>
    makes (Rec ts) (edit_item k i f ob)"
  unfolding edit_item_def by (erule edit_list_typing, assumption) (rule map_at_all)

lemma drop_item_typing [typing]:
  "fits (Rec ts) (Obj ob) \<Longrightarrow> at_key ts k (Items t) \<Longrightarrow> makes (Rec ts) (drop_item k i ob)"
  unfolding drop_item_def by (erule edit_list_typing, assumption) (rule remove_at_all)

lemma append_item_typing [typing]:
  assumes "fits (Rec ts) (Obj ob)" "at_key ts k (Items t)" "fits t v"
  shows "makes (Rec ts) (append_item k v ob)" "makes (Rec ts) (append_item_or k v ob)"
proof -
  have "fits (Items t) (fld ob k)" using assms(1,2) fits_at by blast
  then obtain xs where xs: "fld ob k = Arr xs" "\<forall>x\<in>set xs. fits t x" by (cases "fld ob k") auto
  have "fits (Rec ts) (Obj (obj_put k (Arr (xs @ [v])) ob))"
    using assms xs(2) by (intro fits_put) (auto simp: admits_at_key)
  then show "makes (Rec ts) (append_item k v ob)" "makes (Rec ts) (append_item_or k v ob)"
    by (simp_all add: append_item_def append_item_or_def items_or_def js_or_def xs(1) del: fits.simps)
qed

lemma row_typing:
  assumes "fits (Rec ts) (Obj ob)" "at_key ts k (Items t)"
  shows "has_row k i ob \<Longrightarrow> fits t (row k i ob)" "\<not> has_row k i ob \<Longrightarrow> row k i ob = Undef"
proof -
  have "fits (Items t) (fld ob k)" using assms fits_at by blast
  then obtain xs where "fld ob k = Arr xs" "\<forall>x\<in>set xs. fits t x" by (cases "fld ob k") auto
  then show "has_row k i ob \<Longrightarrow> fits t (row k i ob)" "\<not> has_row k i ob \<Longrightarrow> row k i ob = Undef"
    by (auto simp: has_row_def row_def elem_at_def)
qed

lemma update_item_typing:
  assumes "fits (Rec ts) (Obj p)" "at_key ts k (Items (Rec us))" "has_row k i p"
    and "\<And>x. fits (Rec us) (Obj x) \<Longrightarrow> makes (Rec us) (f x)"
  shows "makes (Rec ts) (update_item k i f p)"
proof -
  have r: "fits (Rec us) (row k i p)" using row_typing(1) [OF assms(1-3)] .
  then have "fits (Rec us) (Obj (own_entries (row k i p)))" by (simp only: fits_own)
  from assms(4) [OF this] obtain x where x: "f (own_entries (row k i p)) = Some x" "fits (Rec us) (Obj x)"
    unfolding makes_def by blast
  show ?thesis unfolding update_item_def x(1) bind.bind_lunit
    by (rule edit_item_typing [OF assms(1,2)]) (rule x(2))
qed

subsection \<open>Check boxes and value policies\<close>

lemma toggled_readable: "readable_list v \<Longrightarrow> \<exists>xs. toggled v x = Some (Arr xs)"
  by (cases v) (auto simp: toggled_def toggled_in_def js_or_def readable_list_def)

lemma toggle_key_typing [typing]:
  assumes "fits (Rec ts) (Obj ob)" "readable_list (fld ob k)" "\<And>xs. admits_at ts k (Arr xs)"
  shows "makes (Rec ts) (toggle_key k x ob)"
proof -
  obtain xs where "toggled (fld ob k) x = Some (Arr xs)" using toggled_readable [OF assms(2)] by blast
  then show ?thesis using fits_put [OF assms(1) assms(3)] by (simp add: toggle_key_def del: fits.simps)
qed

lemma toggle_destination_typing [typing]:
  assumes "fits (Rec ts) (Obj ob)" "at_key ts k (Items (Rec us))" "at_key us ''destinations'' List_Or_Nothing"
  shows "makes (Rec ts) (toggle_destination k i d ob)"
proof -
  have "readable_list (get (row k i ob) ''destinations'')"
  proof (cases "has_row k i ob")
    case True
    note r = row_typing(1) [OF assms(1,2) True]
    obtain x where "row k i ob = Obj x" using fits_Rec_Obj [OF r] by blast
    then show ?thesis using fits_at [OF assms(3)] r by (simp del: fits.simps(3))
  next
    case False
    then show ?thesis using row_typing(2) [OF assms(1,2)] by simp
  qed
  then obtain xs where xs: "toggled (get (row k i ob) ''destinations'') d = Some (Arr xs)"
    using toggled_readable by blast
  show ?thesis unfolding toggle_destination_def xs bind.bind_lunit
    by (rule edit_item_typing [OF assms(1,2)], rule fits_item_put)
      (simp_all add: admits_at_key [OF assms(3)] del: fits.simps(3))
qed

lemma edit_value_policy_typing [typing]:
  assumes "fits (Rec ts) (Obj ob)" "at_key ts k (Items (Rec us))" "at_key us ''valuePolicy'' (Sat P)"
    and "\<And>v. P v \<Longrightarrow> P (Obj (edit_value change ed (own_entries (js_or v (Obj init)))))" and "P Undef"
  shows "makes (Rec ts) (edit_value_policy change init k i ed ob)"
proof -
  have "P (get (row k i ob) ''valuePolicy'')"
  proof (cases "has_row k i ob")
    case True
    note r = row_typing(1) [OF assms(1,2) True]
    obtain x where "row k i ob = Obj x" using fits_Rec_Obj [OF r] by blast
    then show ?thesis using fits_at [OF assms(3)] r by (simp del: fits.simps(3))
  next
    case False
    then show ?thesis using row_typing(2) [OF assms(1,2)] assms(5) by simp
  qed
  note v = assms(4) [OF this]
  show ?thesis unfolding edit_value_policy_def Let_def
    by (rule edit_item_typing [OF assms(1,2)], rule fits_item_put)
      (simp_all add: admits_at_key [OF assms(3)] v del: fits.simps(3))
qed

end
