(* ===== verification/Form_Rules.thy ===== *)
theory Form_Rules
  imports Form_Base
begin

section \<open>The forms of a rule: conditions, fields, outputs and metrics\<close>

text \<open>
  The controls inside the card of a rule. HTTP rules (\<open>BodyEventPoliciesEditor\<close> and
  \<open>HTTPEventMetricsEditor\<close> of \<open>main.jsx\<close>) and messaging rules (\<open>MessagingPoliciesEditor\<close> and
  \<open>MessagingMetricsEditor\<close> of \<open>messaging-editor.jsx\<close>) have the same rows, written out in both files;
  what differs (how a new source changes a row, the new rows, the default value policy) is an
  argument here. Each function takes the rendered item and gives the item its handler builds.
\<close>

subsection \<open>Static attributes (HTTP only)\<close>

datatype static_edit = AddStatic | StaticName nat string | StaticValue nat string | StaticType nat string
  | RemoveStatic nat | ToggleStatic nat string

definition newStaticAttribute :: jsobj where
  "newStaticAttribute =
     [(''attribute'', Str ''''), (''value'', Str ''''), (''type'', Str ''STRING''), (''destinations'', strs [''SPAN'', ''LOG''])]"

fun edit_static :: "static_edit \<Rightarrow> jsobj \<Rightarrow> jsobj option" where
  "edit_static AddStatic e = append_item_or ''staticAttributes'' (Obj newStaticAttribute) e"
| "edit_static (StaticName i name) e =
     (if name = ''event.name'' then
        (let attribute = row ''staticAttributes'' i e; v = get attribute ''value'' in do {
           destinations \<leftarrow> list_or (get attribute ''destinations'');
           withEventNameOutput e (if v = Undef then [] else to_str v) destinations })
      else edit_item ''staticAttributes'' i (item_put ''attribute'' (Str name)) e)"
| "edit_static (StaticValue i v) e = edit_item ''staticAttributes'' i (item_put ''value'' (Str v)) e"
| "edit_static (StaticType i v) e = edit_item ''staticAttributes'' i (item_put ''type'' (Str v)) e"
| "edit_static (RemoveStatic i) e = drop_item ''staticAttributes'' i e"
| "edit_static (ToggleStatic i d) e = toggle_destination ''staticAttributes'' i d e"

subsection \<open>Conditions\<close>

datatype condition_edit = AddCondition | ConditionSource nat string | ConditionPath nat string
  | ConditionOperator nat string | ConditionValues nat string | RemoveCondition nat

text \<open>\<open>{...item, source, path: selector(source).disabled ? "" : item.path}\<close>.\<close>

definition change_source :: "(jsval \<Rightarrow> jsval) \<Rightarrow> string \<Rightarrow> jsval \<Rightarrow> jsval" where
  "change_source selector source item =
     item_put ''path'' (if truthy (get (selector (Str source)) ''disabled'') then Str '''' else get item ''path'')
       (item_put ''source'' (Str source) item)"

fun edit_condition :: "(jsval \<Rightarrow> jsval) \<Rightarrow> jsobj \<Rightarrow> condition_edit \<Rightarrow> jsobj \<Rightarrow> jsobj option" where
  "edit_condition selector fresh AddCondition e = append_item ''conditions'' (Obj fresh) e"
| "edit_condition selector fresh (ConditionSource i s) e = edit_item ''conditions'' i (change_source selector s) e"
| "edit_condition selector fresh (ConditionPath i s) e = edit_item ''conditions'' i (item_put ''path'' (Str s)) e"
| "edit_condition selector fresh (ConditionOperator i s) e = edit_item ''conditions'' i (item_put ''operator'' (Str s)) e"
| "edit_condition selector fresh (ConditionValues i s) e = edit_item ''conditions'' i (item_put ''values'' (typed_words s)) e"
| "edit_condition selector fresh (RemoveCondition i) e = drop_item ''conditions'' i e"

subsection \<open>Fields\<close>

datatype field_edit = AddField | FieldSource nat string | FieldPath nat string | FieldAttribute nat string
  | FieldType nat string | RemoveField nat | ToggleField nat string | FieldPolicy nat value_edit

fun edit_field ::
  "(string \<Rightarrow> jsval \<Rightarrow> jsval) \<Rightarrow> jsobj \<Rightarrow> (string \<Rightarrow> jsobj \<Rightarrow> jsobj) \<Rightarrow> jsobj \<Rightarrow> field_edit \<Rightarrow> jsobj \<Rightarrow> jsobj option" where
  "edit_field source fresh change init AddField e = append_item ''fields'' (Obj fresh) e"
| "edit_field source fresh change init (FieldSource i s) e = edit_item ''fields'' i (source s) e"
| "edit_field source fresh change init (FieldPath i s) e = edit_item ''fields'' i (item_put ''path'' (Str s)) e"
| "edit_field source fresh change init (FieldAttribute i s) e = edit_item ''fields'' i (item_put ''attribute'' (Str s)) e"
| "edit_field source fresh change init (FieldType i s) e = edit_item ''fields'' i (item_put ''type'' (Str s)) e"
| "edit_field source fresh change init (RemoveField i) e = drop_item ''fields'' i e"
| "edit_field source fresh change init (ToggleField i d) e = toggle_destination ''fields'' i d e"
| "edit_field source fresh change init (FieldPolicy i ed) e = edit_value_policy change init ''fields'' i ed e"

subsection \<open>Calculated fields (HTTP only)\<close>

datatype derived_edit = AddDerived | DerivedAttribute nat string | DerivedExpression nat string
  | RemoveDerived nat | ToggleDerived nat string | DerivedPolicy nat value_edit

definition is_numeric :: "jsval \<Rightarrow> bool option" where
  "is_numeric field = do { t \<leftarrow> getx field ''type''; Some (t = Str ''DOUBLE'' \<or> t = Str ''LONG'') }"

text \<open>The button that adds one is disabled while no field is numeric.\<close>

fun edit_derived :: "derived_edit \<Rightarrow> jsobj \<Rightarrow> jsobj option" where
  "edit_derived AddDerived e = do {
     fs \<leftarrow> receiver (fld e ''fields'');
     numeric \<leftarrow> some_opt is_numeric fs;
     if numeric then append_item_or ''derivedFields'' (Obj derivedField) e else Some e }"
| "edit_derived (DerivedAttribute i s) e = edit_item ''derivedFields'' i (item_put ''attribute'' (Str s)) e"
| "edit_derived (DerivedExpression i s) e = edit_item ''derivedFields'' i (item_put ''expression'' (Str s)) e"
| "edit_derived (RemoveDerived i) e = drop_item ''derivedFields'' i e"
| "edit_derived (ToggleDerived i d) e = toggle_destination ''derivedFields'' i d e"
| "edit_derived (DerivedPolicy i ed) e = edit_value_policy main_change_type rangePolicy ''derivedFields'' i ed e"

subsection \<open>Outputs: the name of the event and the log\<close>

datatype output_edit = NameOutput string | ToggleOutput string | ToggleLog | LogSeverity string | LogBody string

text \<open>The name goes to the span when it had no destination; its last destination cannot be cleared.\<close>

definition output_disabled :: "name_output \<Rightarrow> string \<Rightarrow> bool" where
  "output_disabled output d \<longleftrightarrow> no_value output = [] \<or>
     (Str d \<in> set (no_destinations output) \<and> length (no_destinations output) = 1)"

definition edit_log :: "string \<Rightarrow> jsval \<Rightarrow> jsobj \<Rightarrow> jsobj" where
  "edit_log k v e = obj_put ''log'' (Obj (obj_put k v (own_entries (fld e ''log'')))) e"

fun edit_output :: "output_edit \<Rightarrow> jsobj \<Rightarrow> jsobj option" where
  "edit_output (NameOutput v) e = do {
     output \<leftarrow> eventNameOutput e;
     withEventNameOutput e v
       (if v \<noteq> [] \<and> no_destinations output = [] then [Str ''SPAN''] else no_destinations output) }"
| "edit_output (ToggleOutput d) e = do {
     output \<leftarrow> eventNameOutput e;
     if output_disabled output d then Some e else
       withEventNameOutput e (no_value output)
         (if Str d \<in> set (no_destinations output) then filter (\<lambda>x. x \<noteq> Str d) (no_destinations output)
          else no_destinations output @ [Str d]) }"
| "edit_output ToggleLog e = do {
     enabled \<leftarrow> getx (fld e ''log'') ''enabled'';
     Some (edit_log ''enabled'' (Bool (\<not> truthy enabled)) e) }"
| "edit_output (LogSeverity s) e = Some (edit_log ''severity'' (Str s) e)"
| "edit_output (LogBody s) e = Some (edit_log ''body'' (Str s) e)"

subsection \<open>Metrics of a rule\<close>

datatype metric_edit = MetricName string | MetricIntent string | MetricValueField string
  | ToggleDimension string | MetricUnit string | MetricDescription string | MetricBuckets string

definition numericFields :: "jsval list \<Rightarrow> jsval list option" where
  "numericFields fs = filter_opt is_numeric fs"

definition dimensionFields :: "jsval list \<Rightarrow> jsval list option" where
  "dimensionFields fs =
     filter_opt (\<lambda>f. do { d \<leftarrow> getx f ''destinations''; val_includes (js_or d (Arr [])) (Str ''METRIC'') }) fs"

text \<open>\<open>numericFields[0]?.attribute || ""\<close>.\<close>

definition first_numeric :: "jsval list \<Rightarrow> jsval option" where
  "first_numeric fs = do {
     numeric \<leftarrow> numericFields fs;
     Some (js_or (case numeric of [] \<Rightarrow> Undef | f # _ \<Rightarrow> get f ''attribute'') (Str '''')) }"

fun edit_metric :: "jsval list \<Rightarrow> metric_edit \<Rightarrow> jsobj \<Rightarrow> jsobj option" where
  "edit_metric fs (MetricName s) m = Some (obj_put ''name'' (Str s) m)"
| "edit_metric fs (MetricIntent s) m = map_option (configureEventMetricIntent m s) (first_numeric fs)"
| "edit_metric fs (MetricValueField s) m = Some (obj_put ''valueField'' (Str s) m)"
| "edit_metric fs (ToggleDimension s) m = toggle_key ''dimensions'' s m"
| "edit_metric fs (MetricUnit s) m = Some (obj_put ''unit'' (Str s) m)"
| "edit_metric fs (MetricDescription s) m = Some (obj_put ''description'' (Str s) m)"
| "edit_metric fs (MetricBuckets s) m = Some (obj_put ''buckets'' (typed_buckets s) m)"

text \<open>The dimensions that no field offers any more (HTTP only), and the button that drops them.\<close>

definition unavailableDimensions :: "jsval list \<Rightarrow> jsobj \<Rightarrow> jsval list option" where
  "unavailableDimensions fs m = do {
     offered \<leftarrow> dimensionFields fs;
     dimensions \<leftarrow> list_or (fld m ''dimensions'');
     Some (filter (\<lambda>d. \<not> (\<exists>f\<in>set offered. strict_eq (get f ''attribute'') d)) dimensions) }"

definition drop_unavailable_dimensions :: "jsval list \<Rightarrow> jsobj \<Rightarrow> jsobj option" where
  "drop_unavailable_dimensions fs m = do {
     unavailable \<leftarrow> unavailableDimensions fs m;
     dimensions \<leftarrow> list_or (fld m ''dimensions'');
     Some (obj_put ''dimensions''
       (Arr (filter (\<lambda>d. \<not> (\<exists>u\<in>set unavailable. same_value_zero u d)) dimensions)) m) }"

declare newStaticAttribute_def [js_eval] change_source_def [js_eval] is_numeric_def [js_eval]
  output_disabled_def [js_eval] edit_log_def [js_eval] numericFields_def [js_eval]
  dimensionFields_def [js_eval] first_numeric_def [js_eval] unavailableDimensions_def [js_eval]
  drop_unavailable_dimensions_def [js_eval]

end
