(* ===== verification/Http_Form.thy ===== *)
theory Http_Form
  imports Form_Rules Telemetry_Schema
begin

section \<open>The HTTP form (\<open>BodyEventPoliciesEditor\<close>, \<open>HTTPEventMetricsEditor\<close>, \<open>HTTPGlobalMetricsEditor\<close>)\<close>

text \<open>
  The form of the HTTP rules of one direction and of the metrics that count every exchange. A
  handler first replaces its rule or metric and then, where the source asks for it, raises the schema
  version of the document, in that order.
\<close>

subsection \<open>Rules\<close>

datatype body_edit = RequestContentType string | ResponseContentType string | MaxBodyBytes string

datatype rule_edit = RuleName string | Static static_edit | Body body_edit | Condition condition_edit
  | Field field_edit | Derived derived_edit | Output output_edit

text \<open>The content types and the limit are on the page only where the rule reads a body.\<close>

definition edit_body :: "body_edit \<Rightarrow> jsobj \<Rightarrow> jsobj option" where
  "edit_body ed e = do {
     uses \<leftarrow> httpEventUsesBody e;
     Some (if uses then
       (case ed of
          RequestContentType s \<Rightarrow> obj_put ''requestContentType'' (Str s) e
        | ResponseContentType s \<Rightarrow> obj_put ''responseContentType'' (Str s) e
        | MaxBodyBytes s \<Rightarrow> obj_put ''maxBodyBytes'' (typed_number s) e) else e) }"

definition http_condition :: "condition_edit \<Rightarrow> jsobj \<Rightarrow> jsobj option" where
  "http_condition = edit_condition httpSourceSelector (bodyCondition ''RESPONSE_BODY'' [''''] '''' ''EQUALS'')"

definition http_field :: "field_edit \<Rightarrow> jsobj \<Rightarrow> jsobj option" where
  "http_field = edit_field (\<lambda>s. item_put ''source'' (Str s))
     (bodyField ''REQUEST_BODY'' '''' '''' ''STRING'' [''SPAN'', ''LOG'']) main_change_type
     (bounded [''VALUE_A'', ''VALUE_B''])"

fun edit_rule :: "rule_edit \<Rightarrow> jsobj \<Rightarrow> jsobj option" where
  "edit_rule (RuleName s) e = Some (obj_put ''ruleName'' (Str s) e)"
| "edit_rule (Static ed) e = edit_static ed e"
| "edit_rule (Body ed) e = edit_body ed e"
| "edit_rule (Condition ed) e = http_condition ed e"
| "edit_rule (Field ed) e = http_field ed e"
| "edit_rule (Derived ed) e = edit_derived ed e"
| "edit_rule (Output ed) e = edit_output ed e"

text \<open>What a handler asks of the schema after its change.\<close>

definition source_schema :: "string \<Rightarrow> string option" where
  "source_schema source =
     (if source = ''REQUEST_PATH_PARAM'' then Some ''1.5''
      else if source \<in> {''REQUEST_HEADER'', ''RESPONSE_HEADER'', ''REQUEST_QUERY''} then Some ''1.4'' else None)"

fun rule_schema :: "rule_edit \<Rightarrow> string option" where
  "rule_schema (Condition (ConditionSource i s)) = source_schema s"
| "rule_schema (Field (FieldSource i s)) = source_schema s"
| "rule_schema (Field (FieldPolicy i ed)) = value_schema ed"
| "rule_schema (Derived (DerivedPolicy i ed)) = value_schema ed"
| "rule_schema _ = None"

subsection \<open>Metrics of a rule\<close>

datatype http_metric_edit = Metric metric_edit | ToggleStandard string | DropUnavailable

fun edit_http_metric :: "jsval list \<Rightarrow> http_metric_edit \<Rightarrow> jsobj \<Rightarrow> jsobj option" where
  "edit_http_metric fs (Metric ed) m = edit_metric fs ed m"
| "edit_http_metric fs (ToggleStandard a) m = toggle_key ''standardAttributes'' a m"
| "edit_http_metric fs DropUnavailable m = drop_unavailable_dimensions fs m"

text \<open>Selecting a standard attribute needs schema 1.6; clearing one needs nothing.\<close>

fun metric_schema :: "http_metric_edit \<Rightarrow> jsobj \<Rightarrow> string option option" where
  "metric_schema (ToggleStandard a) m = do {
     selected \<leftarrow> val_includes (js_or (fld m ''standardAttributes'') (Arr [])) (Str a);
     Some (if selected then None else Some ''1.6'') }"
| "metric_schema _ m = Some None"

subsection \<open>Metrics of every exchange\<close>

datatype global_edit = GlobalName string | GlobalSource string | GlobalInstrument string | GlobalUnit string
  | GlobalConstant string | GlobalAttribute string | GlobalStandard string | AddLabel | LabelHeader nat string
  | LabelAttribute nat string | LabelSpan nat | RemoveLabel nat | LabelPolicy nat value_edit
  | GlobalDescription string | GlobalBuckets string

text \<open>\<open>metricPolicy.buckets.length\<close>, which raises when there are no buckets.\<close>

definition bucketsOr :: "jsval \<Rightarrow> jsval option" where
  "bucketsOr buckets = do { n \<leftarrow> getx buckets ''length''; Some (if truthy n then buckets else Arr defaultBuckets) }"

definition newLabel :: jsobj where
  "newLabel =
     [(''source'', Str ''REQUEST_HEADER''), (''argumentIndex'', Num (Fin (-1))), (''path'', Str ''''),
      (''constant'', Num (Fin 1)), (''header'', Str ''''), (''attribute'', Str ''''), (''destinations'', Arr []),
      (''valuePolicy'', Obj (bounded [''VALUE_A'', ''VALUE_B'']))]"

definition global_source :: "string \<Rightarrow> jsobj \<Rightarrow> jsobj option" where
  "global_source source m = do {
     buckets \<leftarrow> (if source = ''DURATION'' then bucketsOr (fld m ''buckets'') else Some (fld m ''buckets''));
     Some (obj_spread m
       [(''value'', Obj [(''source'', Str source), (''argumentIndex'', Num (Fin (-1))),
           (''path'', Str (if source = ''ATTRIBUTE'' then ''http.response.status_code'' else '''')),
           (''constant'', Num (Fin 1))]),
        (''instrument'', if source = ''DURATION'' then Str ''HISTOGRAM'' else fld m ''instrument''),
        (''unit'', if source = ''DURATION'' then Str ''s'' else fld m ''unit''),
        (''buckets'', buckets)]) }"

definition global_instrument :: "string \<Rightarrow> jsobj \<Rightarrow> jsobj option" where
  "global_instrument instrument m = do {
     buckets \<leftarrow> (if instrument = ''HISTOGRAM'' then bucketsOr (fld m ''buckets'') else Some (Arr []));
     Some (obj_spread m [(''instrument'', Str instrument), (''buckets'', buckets)]) }"

definition value_put :: "string \<Rightarrow> jsval \<Rightarrow> jsobj \<Rightarrow> jsobj" where
  "value_put k v m = obj_put ''value'' (Obj (obj_put k v (own_entries (fld m ''value'')))) m"

definition label_span :: "nat \<Rightarrow> jsobj \<Rightarrow> jsobj option" where
  "label_span i m = do {
     selected \<leftarrow> val_includes (js_or (get (row ''customAttributes'' i m) ''destinations'') (Arr [])) (Str ''SPAN'');
     edit_item ''customAttributes'' i (item_put ''destinations'' (strs (if selected then [] else [''SPAN'']))) m }"

fun edit_global :: "global_edit \<Rightarrow> jsobj \<Rightarrow> jsobj option" where
  "edit_global (GlobalName s) m = Some (obj_put ''name'' (Str s) m)"
| "edit_global (GlobalSource s) m = global_source s m"
| "edit_global (GlobalInstrument s) m = global_instrument s m"
| "edit_global (GlobalUnit s) m = Some (obj_put ''unit'' (Str s) m)"
| "edit_global (GlobalConstant s) m = Some (value_put ''constant'' (typed_number s) m)"
| "edit_global (GlobalAttribute s) m = Some (value_put ''path'' (Str s) m)"
| "edit_global (GlobalStandard a) m = toggle_key ''standardAttributes'' a m"
| "edit_global AddLabel m = append_item_or ''customAttributes'' (Obj newLabel) m"
| "edit_global (LabelHeader i s) m = edit_item ''customAttributes'' i (item_put ''header'' (Str s)) m"
| "edit_global (LabelAttribute i s) m = edit_item ''customAttributes'' i (item_put ''attribute'' (Str s)) m"
| "edit_global (LabelSpan i) m = label_span i m"
| "edit_global (RemoveLabel i) m = drop_item ''customAttributes'' i m"
| "edit_global (LabelPolicy i ed) m =
     edit_value_policy main_change_type (bounded [''VALUE_A'', ''VALUE_B'']) ''customAttributes'' i ed m"
| "edit_global (GlobalDescription s) m = Some (obj_put ''description'' (Str s) m)"
| "edit_global (GlobalBuckets s) m = Some (obj_put ''buckets'' (typed_buckets s) m)"

fun global_schema :: "global_edit \<Rightarrow> string option" where
  "global_schema (LabelPolicy i ed) = value_schema ed"
| "global_schema _ = None"

subsection \<open>The form\<close>

datatype http_op = AddRule nat | RemoveRule nat | RenameRule nat string | EditRule nat rule_edit
  | AddMetric nat nat | RemoveMetric nat nat | EditMetric nat nat http_metric_edit
  | AddGlobal string | RemoveGlobal nat | EditGlobal nat global_edit

definition add_rule :: "nat \<Rightarrow> string \<Rightarrow> jsobj \<Rightarrow> jsobj option" where
  "add_rule now direction p = do {
     events \<leftarrow> receiver (fld p ''bodyEventPolicies'');
     let eventName = nextHTTPEventName events ''http-event'';
         q = require_schema ''1.5'' p
     in Some (obj_put ''bodyEventPolicies'' (Arr (events @ [Obj (newBodyEventPolicy now direction eventName)])) q) }"

definition edit_rule_at :: "nat \<Rightarrow> rule_edit \<Rightarrow> jsobj \<Rightarrow> jsobj option" where
  "edit_rule_at i ed p = map_option (require_if (rule_schema ed)) (update_item ''bodyEventPolicies'' i (edit_rule ed) p)"

definition rule_name :: "nat \<Rightarrow> jsobj \<Rightarrow> jsval" where
  "rule_name i p = get (row ''bodyEventPolicies'' i p) ''eventName''"

text \<open>\<open>newEventMetric(eventPolicy.eventName)\<close>, whose parameter has a default.\<close>

definition new_metric :: "nat \<Rightarrow> jsval \<Rightarrow> jsobj" where
  "new_metric now name =
     (let m = newEventMetric now ''http-event'' in if name = Undef then m else obj_put ''eventName'' name m)"

definition add_metric :: "nat \<Rightarrow> nat \<Rightarrow> jsobj \<Rightarrow> jsobj option" where
  "add_metric now i p =
     append_item ''eventMetricPolicies'' (Obj (new_metric now (rule_name i p))) p"

definition edit_metric_at :: "string \<Rightarrow> nat \<Rightarrow> nat \<Rightarrow> http_metric_edit \<Rightarrow> jsobj \<Rightarrow> jsobj option" where
  "edit_metric_at direction i j ed p = do {
     fs \<leftarrow> fieldsForHTTPEvent p (rule_name i p) direction;
     schema \<leftarrow> metric_schema ed (own_entries (row ''eventMetricPolicies'' j p));
     q \<leftarrow> update_item ''eventMetricPolicies'' j (edit_http_metric fs ed) p;
     Some (require_if schema q) }"

definition add_global :: "string \<Rightarrow> string \<Rightarrow> jsobj \<Rightarrow> jsobj option" where
  "add_global ident direction p =
     append_item ''metricPolicies'' (Obj (createHTTPDurationMetricPolicy (Str direction) ident)) (require_schema ''1.3'' p)"

definition edit_global_at :: "nat \<Rightarrow> global_edit \<Rightarrow> jsobj \<Rightarrow> jsobj option" where
  "edit_global_at i ed p = map_option (require_if (global_schema ed)) (update_item ''metricPolicies'' i (edit_global ed) p)"

text \<open>The rules and metrics of the direction that is shown.\<close>

definition shown :: "string \<Rightarrow> string \<Rightarrow> nat \<Rightarrow> jsobj \<Rightarrow> bool" where
  "shown direction k i p \<longleftrightarrow> has_row k i p \<and> normalizeHTTPDirection (get (row k i p) ''direction'') = direction"

definition shown_metric :: "string \<Rightarrow> nat \<Rightarrow> nat \<Rightarrow> jsobj \<Rightarrow> bool" where
  "shown_metric direction i j p \<longleftrightarrow> shown direction ''bodyEventPolicies'' i p \<and> has_row ''eventMetricPolicies'' j p \<and>
     strict_eq (get (row ''eventMetricPolicies'' j p) ''eventName'') (rule_name i p)"

fun http_change :: "string \<Rightarrow> http_op \<Rightarrow> jsobj \<Rightarrow> jsobj option" where
  "http_change direction (AddRule now) p = add_rule now direction p"
| "http_change direction (RemoveRule i) p =
     (if shown direction ''bodyEventPolicies'' i p then removeHTTPEventAt p i else Some p)"
| "http_change direction (RenameRule i name) p =
     (if shown direction ''bodyEventPolicies'' i p then renameHTTPEventAt p i name else Some p)"
| "http_change direction (EditRule i ed) p =
     (if shown direction ''bodyEventPolicies'' i p then edit_rule_at i ed p else Some p)"
| "http_change direction (AddMetric now i) p =
     (if shown direction ''bodyEventPolicies'' i p then add_metric now i p else Some p)"
| "http_change direction (RemoveMetric i j) p =
     (if shown_metric direction i j p then drop_item ''eventMetricPolicies'' j p else Some p)"
| "http_change direction (EditMetric i j ed) p =
     (if shown_metric direction i j p then edit_metric_at direction i j ed p else Some p)"
| "http_change direction (AddGlobal ident) p = add_global ident direction p"
| "http_change direction (RemoveGlobal i) p =
     (if shown direction ''metricPolicies'' i p then drop_item ''metricPolicies'' i p else Some p)"
| "http_change direction (EditGlobal i ed) p =
     (if shown direction ''metricPolicies'' i p then edit_global_at i ed p else Some p)"

declare edit_body_def [js_eval] http_condition_def [js_eval] http_field_def [js_eval]
  source_schema_def [js_eval] bucketsOr_def [js_eval] newLabel_def [js_eval]
  global_source_def [js_eval] global_instrument_def [js_eval] value_put_def [js_eval]
  label_span_def [js_eval] add_rule_def [js_eval] edit_rule_at_def [js_eval]
  rule_name_def [js_eval] add_metric_def [js_eval] edit_metric_at_def [js_eval]
  add_global_def [js_eval] edit_global_at_def [js_eval]
  shown_metric_def [js_eval]

declare new_metric_def [js_eval] shown_def [js_eval]

end
