(* ===== verification/Method_Form.thy ===== *)
theory Method_Form
  imports Form_Base Telemetry_Schema
begin

section \<open>The form of the Java methods (\<open>MethodPoliciesEditor\<close> of \<open>main.jsx\<close>)\<close>

text \<open>
  The methods to observe, the values captured from each and the instruments they feed. Unlike the
  rules, the lists of a method are read without a default, so a method without them raises.
\<close>

datatype method_edit = MethodPackage string | MethodClass string | MethodName string
  | AddCapture | CaptureSource nat string | CaptureArgument nat string | CapturePath nat string
  | CaptureAttribute nat string | CaptureType nat string | ToggleCapture nat string | CapturePolicy nat value_edit
  | RemoveCapture nat
  | AddInstrument | InstrumentName nat string | InstrumentKind nat string | InstrumentUnit nat string
  | InstrumentDescription nat string | InstrumentSource nat string | InstrumentArgument nat string
  | InstrumentPath nat string | InstrumentConstant nat string | InstrumentBuckets nat string | RemoveInstrument nat
  | MethodLog bool | MethodLogSeverity string | MethodLogBody string

definition argument_index :: "string \<Rightarrow> jsval" where
  "argument_index source = Num (Fin (if source = ''ARGUMENT'' then 0 else -1))"

text \<open>\<open>{...item, value: {...item.value, k: v, ...}}\<close>.\<close>

definition put_value :: "jsobj \<Rightarrow> jsval \<Rightarrow> jsval" where
  "put_value ups item = item_put ''value'' (Obj (obj_spread (own_entries (get item ''value'')) ups)) item"

definition capture_source :: "string \<Rightarrow> jsval \<Rightarrow> jsval" where
  "capture_source s item = item_put ''argumentIndex'' (argument_index s) (item_put ''source'' (Str s) item)"

definition instrument_kind :: "string \<Rightarrow> jsval \<Rightarrow> jsval" where
  "instrument_kind s item =
     item_put ''buckets'' (Arr (if s = ''HISTOGRAM'' then defaultBuckets else [])) (item_put ''instrument'' (Str s) item)"

text \<open>The destinations of a capture are read without a default, in the row and in the callback.\<close>

definition toggle_capture :: "nat \<Rightarrow> string \<Rightarrow> jsobj \<Rightarrow> jsobj option" where
  "toggle_capture i d m =
     (if has_row ''captures'' i m then do {
        destinations \<leftarrow> toggled_in (get (row ''captures'' i m) ''destinations'') d;
        edit_item ''captures'' i (item_put ''destinations'' destinations) m }
      else Some m)"

text \<open>\<open><ValuePolicyEditor value={item.valuePolicy} ...>\<close>, without a default.\<close>

definition capture_policy :: "nat \<Rightarrow> value_edit \<Rightarrow> jsobj \<Rightarrow> jsobj option" where
  "capture_policy i ed m =
     (let v = get (row ''captures'' i m) ''valuePolicy''
      in if \<not> has_row ''captures'' i m then Some m
         else if nullish v then None
         else edit_item ''captures'' i (item_put ''valuePolicy'' (Obj (edit_value main_change_type ed (own_entries v)))) m)"

definition new_capture :: jsobj where
  "new_capture = capture ''ARGUMENT'' 0 '''' ''custom.attribute'' ''STRING'' [''SPAN''] (bounded [''VALUE_A'', ''VALUE_B''])"

fun edit_capture :: "method_edit \<Rightarrow> jsobj \<Rightarrow> jsobj option" where
  "edit_capture AddCapture m = append_item ''captures'' (Obj new_capture) m"
| "edit_capture (CaptureSource i s) m = edit_item ''captures'' i (capture_source s) m"
| "edit_capture (CaptureArgument i s) m = edit_item ''captures'' i (item_put ''argumentIndex'' (typed_number s)) m"
| "edit_capture (CapturePath i s) m = edit_item ''captures'' i (item_put ''path'' (Str s)) m"
| "edit_capture (CaptureAttribute i s) m = edit_item ''captures'' i (item_put ''attribute'' (Str s)) m"
| "edit_capture (CaptureType i s) m = edit_item ''captures'' i (item_put ''type'' (Str s)) m"
| "edit_capture (ToggleCapture i d) m = toggle_capture i d m"
| "edit_capture (CapturePolicy i ed) m = capture_policy i ed m"
| "edit_capture (RemoveCapture i) m = drop_item ''captures'' i m"
| "edit_capture _ m = Some m"

fun edit_instrument :: "method_edit \<Rightarrow> jsobj \<Rightarrow> jsobj option" where
  "edit_instrument AddInstrument m = append_item ''metrics'' (Obj metric) m"
| "edit_instrument (InstrumentName i s) m = edit_item ''metrics'' i (item_put ''name'' (Str s)) m"
| "edit_instrument (InstrumentKind i s) m = edit_item ''metrics'' i (instrument_kind s) m"
| "edit_instrument (InstrumentUnit i s) m = edit_item ''metrics'' i (item_put ''unit'' (Str s)) m"
| "edit_instrument (InstrumentDescription i s) m = edit_item ''metrics'' i (item_put ''description'' (Str s)) m"
| "edit_instrument (InstrumentSource i s) m =
     edit_item ''metrics'' i (put_value [(''source'', Str s), (''argumentIndex'', argument_index s)]) m"
| "edit_instrument (InstrumentArgument i s) m = edit_item ''metrics'' i (put_value [(''argumentIndex'', typed_number s)]) m"
| "edit_instrument (InstrumentPath i s) m = edit_item ''metrics'' i (put_value [(''path'', Str s)]) m"
| "edit_instrument (InstrumentConstant i s) m = edit_item ''metrics'' i (put_value [(''constant'', typed_number s)]) m"
| "edit_instrument (InstrumentBuckets i s) m = edit_item ''metrics'' i (item_put ''buckets'' (typed_buckets s)) m"
| "edit_instrument (RemoveInstrument i) m = drop_item ''metrics'' i m"
| "edit_instrument _ m = Some m"

definition method_log :: "string \<Rightarrow> jsval \<Rightarrow> jsobj \<Rightarrow> jsobj" where
  "method_log k v m = obj_put ''log'' (Obj (obj_put k v (own_entries (fld m ''log'')))) m"

fun edit_header :: "method_edit \<Rightarrow> jsobj \<Rightarrow> jsobj option" where
  "edit_header (MethodPackage s) m = Some (obj_put ''packagePrefix'' (Str s) m)"
| "edit_header (MethodClass s) m = Some (obj_put ''className'' (Str s) m)"
| "edit_header (MethodName s) m = Some (obj_put ''methodName'' (Str s) m)"
| "edit_header (MethodLog b) m = Some (method_log ''enabled'' (Bool b) m)"
| "edit_header (MethodLogSeverity s) m = Some (method_log ''severity'' (Str s) m)"
| "edit_header (MethodLogBody s) m = Some (method_log ''body'' (Str s) m)"
| "edit_header _ m = Some m"

text \<open>Every control belongs to one of the three parts of the card.\<close>

definition edit_method :: "method_edit \<Rightarrow> jsobj \<Rightarrow> jsobj option" where
  "edit_method ed m = do { m1 \<leftarrow> edit_header ed m; m2 \<leftarrow> edit_capture ed m1; edit_instrument ed m2 }"

fun method_schema :: "method_edit \<Rightarrow> string option" where
  "method_schema (CapturePolicy i ed) = value_schema ed"
| "method_schema _ = None"

datatype method_op = AddMethod nat | RemoveMethod nat | EditMethod nat method_edit

fun method_change :: "method_op \<Rightarrow> jsobj \<Rightarrow> jsobj option" where
  "method_change (AddMethod now) p = append_item ''methodPolicies'' (Obj (newMethodPolicy now)) p"
| "method_change (RemoveMethod i) p = (if has_row ''methodPolicies'' i p then drop_item ''methodPolicies'' i p else Some p)"
| "method_change (EditMethod i ed) p =
     (if has_row ''methodPolicies'' i p
      then map_option (require_if (method_schema ed)) (update_item ''methodPolicies'' i (edit_method ed) p) else Some p)"

declare argument_index_def [js_eval] put_value_def [js_eval] capture_source_def [js_eval]
  instrument_kind_def [js_eval] toggle_capture_def [js_eval] capture_policy_def [js_eval]
  new_capture_def [js_eval] method_log_def [js_eval] edit_method_def [js_eval]

end
