(* ===== verification/Messaging_Form.thy ===== *)
theory Messaging_Form
  imports Form_Rules Telemetry_Schema
begin

section \<open>The messaging form (\<open>ui/src/messaging-editor.jsx\<close>)\<close>

text \<open>
  The form of the Kafka or JMS rules and of their metrics. Every change of a rule or of a metric
  also writes \<open>schemaVersion: "1.5"\<close>, whatever the document declared before.
\<close>

definition newCondition :: "string \<Rightarrow> jsobj" where
  "newCondition source =
     [(''source'', Str source), (''path'', Str ''''), (''operator'', Str ''EQUALS''), (''values'', strs [''''])]"

definition messaging_bounded :: jsobj where
  "messaging_bounded =
     [(''type'', Str ''ENUM''), (''allowed'', strs [''VALUE_A'', ''VALUE_B'']), (''ranges'', Arr []),
      (''fallback'', Str ''OTHER'')]"

definition newField :: jsobj where
  "newField =
     [(''source'', Str ''PAYLOAD''), (''path'', Str ''''), (''attribute'', Str ''''), (''type'', Str ''STRING''),
      (''destinations'', strs [''SPAN'']), (''valuePolicy'', Obj messaging_bounded)]"

definition newEvent :: "nat \<Rightarrow> string \<Rightarrow> string \<Rightarrow> jsobj" where
  "newEvent now scope eventName =
     [(''id'', Str (''messaging-event-'' @ nat_str now)), (''enabled'', Bool True),
      (''ruleName'', Str (if starts_with scope ''JMS_'' then ''Regla JMS'' else ''Regla Kafka'')),
      (''scope'', Str scope), (''conditions'', Arr [Obj (newCondition ''DESTINATION'')]),
      (''eventName'', Str eventName), (''staticAttributes'', Arr []), (''maxPayloadBytes'', Num (Fin 65536)),
      (''fields'', Arr []), (''log'', log_settings ''Messaging telemetry event matched'')]"

definition newMetric :: "nat \<Rightarrow> jsval \<Rightarrow> jsobj" where
  "newMetric now eventName =
     [(''id'', Str (''messaging-metric-'' @ nat_str now)), (''enabled'', Bool True), (''eventName'', eventName),
      (''name'', Str ''''), (''instrument'', Str ''COUNTER''), (''unit'', Str ''1''), (''description'', Str ''''),
      (''valueField'', Str ''''), (''dimensions'', Arr []), (''buckets'', Arr [])]"

definition declare_1_5 :: "jsobj \<Rightarrow> jsobj" where
  "declare_1_5 p = obj_put ''schemaVersion'' (Str ''1.5'') p"

subsection \<open>Rules\<close>

datatype messaging_edit = MessagingName string | Scope string | MaxPayloadBytes string
  | MessagingCondition condition_edit | MessagingField field_edit | MessagingOutput output_edit

text \<open>Choosing a Kafka operation drops what reads a JMS property.\<close>

definition reads_property :: "string \<Rightarrow> jsval \<Rightarrow> bool option" where
  "reads_property scope item =
     (if starts_with scope ''KAFKA_'' then do { s \<leftarrow> getx item ''source''; Some (s = Str ''MESSAGE_PROPERTY'') }
      else Some False)"

definition without_property :: "string \<Rightarrow> string \<Rightarrow> jsobj \<Rightarrow> jsval option" where
  "without_property scope k e = do {
     xs \<leftarrow> receiver (fld e k);
     kept \<leftarrow> filter_opt (\<lambda>x. map_option Not (reads_property scope x)) xs;
     Some (Arr kept) }"

definition change_scope :: "string \<Rightarrow> jsobj \<Rightarrow> jsobj option" where
  "change_scope scope e = do {
     conditions \<leftarrow> without_property scope ''conditions'' e;
     fs \<leftarrow> without_property scope ''fields'' e;
     Some (obj_spread e [(''scope'', Str scope), (''conditions'', conditions), (''fields'', fs)]) }"

definition messaging_condition :: "condition_edit \<Rightarrow> jsobj \<Rightarrow> jsobj option" where
  "messaging_condition = edit_condition messagingSourceSelector (newCondition ''PAYLOAD'')"

definition messaging_field :: "field_edit \<Rightarrow> jsobj \<Rightarrow> jsobj option" where
  "messaging_field = edit_field (change_source messagingSourceSelector) newField messaging_change_type messaging_bounded"

fun edit_messaging :: "messaging_edit \<Rightarrow> jsobj \<Rightarrow> jsobj option" where
  "edit_messaging (MessagingName s) e = Some (obj_put ''ruleName'' (Str s) e)"
| "edit_messaging (Scope s) e = change_scope s e"
| "edit_messaging (MaxPayloadBytes s) e = Some (obj_put ''maxPayloadBytes'' (typed_number s) e)"
| "edit_messaging (MessagingCondition ed) e = messaging_condition ed e"
| "edit_messaging (MessagingField ed) e = messaging_field ed e"
| "edit_messaging (MessagingOutput ed) e = edit_output ed e"

fun messaging_schema :: "messaging_edit \<Rightarrow> string option" where
  "messaging_schema (MessagingField (FieldPolicy i ed)) = value_schema ed"
| "messaging_schema _ = None"

subsection \<open>The form\<close>

datatype messaging_op = AddEvent nat | RemoveEvent nat | RenameEvent nat string | EditEvent nat messaging_edit
  | AddEventMetric nat nat | RemoveEventMetric nat nat | EditEventMetric nat nat metric_edit

text \<open>\<open>messagingScopeOptions[family] || messagingScopeOptions.kafka\<close>, and its first scope.\<close>

definition first_scope :: "string \<Rightarrow> string" where
  "first_scope family =
     (case map_of messagingScopeOptions family of
        Some (option # _) \<Rightarrow> fst option
      | _ \<Rightarrow> ''KAFKA_PRODUCER'')"

definition add_event :: "nat \<Rightarrow> string \<Rightarrow> jsobj \<Rightarrow> jsobj option" where
  "add_event now family p =
     append_item ''messagingEventPolicies''
       (Obj (newEvent now (first_scope family) (nextMessagingEventName p (family @ ''-event'')))) (declare_1_5 p)"

definition shown_event :: "string \<Rightarrow> nat \<Rightarrow> jsobj \<Rightarrow> bool" where
  "shown_event family i p \<longleftrightarrow> has_row ''messagingEventPolicies'' i p \<and>
     messagingFamilyForScope (get (row ''messagingEventPolicies'' i p) ''scope'') = family"

definition event_name_at :: "nat \<Rightarrow> jsobj \<Rightarrow> jsval" where
  "event_name_at i p = get (row ''messagingEventPolicies'' i p) ''eventName''"

definition shown_event_metric :: "string \<Rightarrow> nat \<Rightarrow> nat \<Rightarrow> jsobj \<Rightarrow> bool" where
  "shown_event_metric family i j p \<longleftrightarrow> shown_event family i p \<and> has_row ''messagingMetricPolicies'' j p \<and>
     strict_eq (get (row ''messagingMetricPolicies'' j p) ''eventName'') (event_name_at i p)"

definition edit_event_at :: "nat \<Rightarrow> messaging_edit \<Rightarrow> jsobj \<Rightarrow> jsobj option" where
  "edit_event_at i ed p =
     map_option (require_if (messaging_schema ed))
       (update_item ''messagingEventPolicies'' i (edit_messaging ed) (declare_1_5 p))"

definition edit_event_metric_at :: "nat \<Rightarrow> nat \<Rightarrow> metric_edit \<Rightarrow> jsobj \<Rightarrow> jsobj option" where
  "edit_event_metric_at i j ed p = do {
     fs \<leftarrow> list_or (get (row ''messagingEventPolicies'' i p) ''fields'');
     update_item ''messagingMetricPolicies'' j (edit_metric fs ed) (declare_1_5 p) }"

fun messaging_change :: "string \<Rightarrow> messaging_op \<Rightarrow> jsobj \<Rightarrow> jsobj option" where
  "messaging_change family (AddEvent now) p = add_event now family p"
| "messaging_change family (RemoveEvent i) p = (if shown_event family i p then removeMessagingEventAt p i else Some p)"
| "messaging_change family (RenameEvent i name) p =
     (if shown_event family i p then renameMessagingEventAt p i name else Some p)"
| "messaging_change family (EditEvent i ed) p = (if shown_event family i p then edit_event_at i ed p else Some p)"
| "messaging_change family (AddEventMetric now i) p =
     (if shown_event family i p
      then append_item ''messagingMetricPolicies'' (Obj (newMetric now (event_name_at i p))) (declare_1_5 p) else Some p)"
| "messaging_change family (RemoveEventMetric i j) p =
     (if shown_event_metric family i j p then drop_item ''messagingMetricPolicies'' j p else Some p)"
| "messaging_change family (EditEventMetric i j ed) p =
     (if shown_event_metric family i j p then edit_event_metric_at i j ed p else Some p)"

declare newCondition_def [js_eval] messaging_bounded_def [js_eval] newField_def [js_eval]
  newEvent_def [js_eval] newMetric_def [js_eval] declare_1_5_def [js_eval]
  reads_property_def [js_eval] without_property_def [js_eval] change_scope_def [js_eval]
  messaging_condition_def [js_eval] messaging_field_def [js_eval] first_scope_def [js_eval]
  add_event_def [js_eval] shown_event_def [js_eval] event_name_at_def [js_eval]
  shown_event_metric_def [js_eval] edit_event_at_def [js_eval] edit_event_metric_at_def [js_eval]

end
