(* ===== verification/Form_Typing.thy ===== *)
theory Form_Typing
  imports Form_Types Http_Form Method_Form Messaging_Form
begin

section \<open>The type of a policy document, and that every form keeps it\<close>

text \<open>
  \<open>policy_type P S\<close> is the type of the documents the editor holds: what the handlers of the forms
  read is present, every value policy satisfies \<open>P\<close> and the standard attributes of every event metric
  satisfy \<open>S\<close>. The locale states what the two predicates owe to the edits that are admitted; in it,
  every control of the three forms is total on documents of the type and keeps the type. It is
  interpreted three times: with no restriction, for documents without values that are passed through,
  and for documents whose metrics select no standard attribute.
\<close>

abbreviation "main_bounded \<equiv> bounded [''VALUE_A'', ''VALUE_B'']"

definition "condition_type = Rec [(''values'', List_Or_Nothing)]"

definition "static_type = Rec [(''destinations'', List_Or_Nothing)]"

definition "field_type P =
  Rec [(''destinations'', List_Or_Nothing), (''valuePolicy'', Sat P), (''values'', List_Or_Nothing)]"

definition "rule_fields P =
  [(''conditions'', Items condition_type), (''fields'', Items (field_type P)),
    (''derivedFields'', Items (field_type P)), (''staticAttributes'', Items static_type), (''log'', Present)]"

definition "rule_type P = Rec (rule_fields P)"

definition "event_metric_fields S =
  [(''dimensions'', List_Or_Nothing), (''standardAttributes'', Sat (\<lambda>v. readable_list v \<and> S v))]"

definition "event_metric_type S = Rec (event_metric_fields S)"

definition "global_fields P =
  [(''buckets'', Present), (''standardAttributes'', List_Or_Nothing), (''customAttributes'', Items (field_type P))]"

definition "global_type P = Rec (global_fields P)"

definition "capture_type P = Rec [(''destinations'', Sat is_array), (''valuePolicy'', Sat (\<lambda>v. \<not> nullish v \<and> P v))]"

definition "method_fields P =
  [(''captures'', Items (capture_type P)), (''metrics'', Items (Rec []))]"

definition "method_type P = Rec (method_fields P)"

definition "message_fields P =
  [(''conditions'', Items condition_type), (''fields'', Items (field_type P)),
    (''staticAttributes'', Items static_type), (''log'', Present)]"

definition "message_type P = Rec (message_fields P)"

definition "message_metric_fields = [(''dimensions'', List_Or_Nothing)]"

definition "message_metric_type = Rec message_metric_fields"

definition "policy_fields P S =
     [(''metricPolicies'', Items (global_type P)), (''methodPolicies'', Items (method_type P)),
       (''bodyEventPolicies'', Items (rule_type P)), (''eventMetricPolicies'', Items (event_metric_type S)),
       (''messagingEventPolicies'', Items (message_type P)),
       (''messagingMetricPolicies'', Items message_metric_type)]"

definition policy_type :: "(jsval \<Rightarrow> bool) \<Rightarrow> (jsval \<Rightarrow> bool) \<Rightarrow> ty" where
  "policy_type P S = Rec (policy_fields P S)"

lemmas field_defs = rule_fields_def event_metric_fields_def global_fields_def method_fields_def
  message_fields_def message_metric_fields_def policy_fields_def

lemmas type_defs = rule_type_def event_metric_type_def global_type_def method_type_def message_type_def
  message_metric_type_def policy_type_def

lemma policy_keys:
  "at_key (policy_fields P S) ''metricPolicies'' (Items (global_type P))"
  "at_key (policy_fields P S) ''methodPolicies'' (Items (method_type P))"
  "at_key (policy_fields P S) ''bodyEventPolicies'' (Items (rule_type P))"
  "at_key (policy_fields P S) ''eventMetricPolicies'' (Items (event_metric_type S))"
  "at_key (policy_fields P S) ''messagingEventPolicies'' (Items (message_type P))"
  "at_key (policy_fields P S) ''messagingMetricPolicies'' (Items message_metric_type)"
  by (simp_all add: at_key_def policy_fields_def)

lemma rule_keys:
  "at_key (rule_fields P) ''conditions'' (Items condition_type)" "at_key (rule_fields P) ''fields'' (Items (field_type P))"
  "at_key (rule_fields P) ''derivedFields'' (Items (field_type P))"
  "at_key (rule_fields P) ''staticAttributes'' (Items static_type)" "at_key (rule_fields P) ''log'' Present"
  by (simp_all add: at_key_def rule_fields_def)

lemma message_keys:
  "at_key (message_fields P) ''conditions'' (Items condition_type)" "at_key (message_fields P) ''fields'' (Items (field_type P))"
  "at_key (message_fields P) ''staticAttributes'' (Items static_type)" "at_key (message_fields P) ''log'' Present"
  by (simp_all add: at_key_def message_fields_def)

lemma metric_keys:
  "at_key (event_metric_fields S) ''dimensions'' List_Or_Nothing"
  "at_key (event_metric_fields S) ''standardAttributes'' (Sat (\<lambda>v. readable_list v \<and> S v))"
  "at_key message_metric_fields ''dimensions'' List_Or_Nothing"
  "at_key (global_fields P) ''buckets'' Present" "at_key (global_fields P) ''standardAttributes'' List_Or_Nothing"
  "at_key (global_fields P) ''customAttributes'' (Items (field_type P))"
  "at_key (method_fields P) ''captures'' (Items (capture_type P))" "at_key (method_fields P) ''metrics'' (Items (Rec []))"
  by (simp_all add: at_key_def field_defs)

text \<open>The value policy an operation edits, and whether it ticks a standard attribute.\<close>

fun http_value_edit :: "http_op \<Rightarrow> value_edit option" where
  "http_value_edit (EditRule i (Field (FieldPolicy j ed))) = Some ed"
| "http_value_edit (EditRule i (Derived (DerivedPolicy j ed))) = Some ed"
| "http_value_edit (EditGlobal i (LabelPolicy j ed)) = Some ed"
| "http_value_edit _ = None"

fun ticks_standard :: "http_op \<Rightarrow> bool" where
  "ticks_standard (EditMetric i j (ToggleStandard a)) = True"
| "ticks_standard _ = False"

fun method_value_edit :: "method_op \<Rightarrow> value_edit option" where
  "method_value_edit (EditMethod i (CapturePolicy j ed)) = Some ed"
| "method_value_edit _ = None"

fun messaging_value_edit :: "messaging_op \<Rightarrow> value_edit option" where
  "messaging_value_edit (EditEvent i (MessagingField (FieldPolicy j ed))) = Some ed"
| "messaging_value_edit _ = None"

lemma configure_keys:
  "k \<notin> {''instrument'', ''valueField'', ''buckets''} \<Longrightarrow> fld (configureEventMetricIntent m s d) k = fld m k"
  by (auto simp: configureEventMetricIntent_def obj_spread_def fld_obj_put)

lemma fits_configure:
  assumes "fits (Rec ts) (Obj m)" "set (map fst ts) \<inter> {''instrument'', ''valueField'', ''buckets''} = {}"
  shows "fits (Rec ts) (Obj (configureEventMetricIntent m s d))"
proof -
  have "fld (configureEventMetricIntent m s d) k = fld m k" if "(k, t) \<in> set ts" for k t
    using that assms(2) by (intro configure_keys) force
  then show ?thesis using assms(1) by fastforce
qed

lemma fits_untouched:
  assumes "fits (Rec ts) (Obj ob)" "k \<notin> set (map fst ts)"
  shows "fits (Rec ts) (Obj (obj_put k v ob))"
  using assms by (intro fits_put) (auto simp: admits_at_def image_iff)

lemma fits_item_untouched:
  assumes "fits (Rec ts) x" "k \<notin> set (map fst ts)"
  shows "fits (Rec ts) (item_put k v x)"
  using assms by (intro fits_item_put) (auto simp: admits_at_def image_iff)

lemma is_numeric_obj: "is_obj x \<Longrightarrow> is_numeric x = Some (get x ''type'' = Str ''DOUBLE'' \<or> get x ''type'' = Str ''LONG'')"
  by (cases x) (auto simp: is_numeric_def getx_def nullish_def)

lemma numeric_total:
  assumes "\<forall>x\<in>set xs. is_obj x"
  shows "\<exists>b. some_opt is_numeric xs = Some b" "\<exists>ys. filter_opt is_numeric xs = Some ys"
proof -
  have n: "\<forall>x\<in>set xs. is_numeric x = Some (get x ''type'' = Str ''DOUBLE'' \<or> get x ''type'' = Str ''LONG'')"
    using assms is_numeric_obj by blast
  show "\<exists>b. some_opt is_numeric xs = Some b" using some_opt_total [OF n] by (rule exI)
  show "\<exists>ys. filter_opt is_numeric xs = Some ys" using filter_opt_total [OF n] by (rule exI)
qed

lemma items_of:
  assumes "fits (Rec ts) (Obj ob)" "at_key ts k (Items t)"
  obtains xs where "fld ob k = Arr xs" "\<forall>x\<in>set xs. fits t x"
proof -
  have "fits (Items t) (fld ob k)" using fits_at [OF assms(2,1)] .
  then show ?thesis using that by (cases "fld ob k") auto
qed

subsection \<open>The name of the event\<close>

text \<open>Both read and write the static attributes, which stay a list of objects.\<close>

lemma span_or_log_readable: "\<exists>xs. list_or (get x ''destinations'') = Some xs" if "fits static_type x"
  using that by (auto simp: static_type_def)

lemma eventNameOutput_total:
  assumes "fits (Rec ts) (Obj e)" "at_key ts ''staticAttributes'' (Items static_type)"
  shows "\<exists>out. eventNameOutput e = Some out"
proof -
  obtain xs where xs: "fld e ''staticAttributes'' = Arr xs" "\<forall>x\<in>set xs. fits static_type x"
    using items_of [OF assms] by blast
  have "\<exists>ds. list_or (get (case find names_event xs of Some a \<Rightarrow> a | None \<Rightarrow> Undef) ''destinations'') = Some ds"
    using xs(2) span_or_log_readable by (auto split: option.splits simp: find_Some_iff)
  then show ?thesis by (auto simp: eventNameOutput_def xs(1) Let_def)
qed

lemma with_event_name_typing:
  "\<forall>x\<in>set xs. fits static_type x \<Longrightarrow> \<forall>y\<in>set (with_event_name v ds b xs). fits static_type y"
proof (induction v ds b xs rule: with_event_name.induct)
  case (2 v ds b x xs)
  have x: "fits static_type x" using 2 by simp
  then obtain ob where "x = Obj ob" using fits_Rec_Obj unfolding static_type_def by blast
  then have "fits static_type (Obj (obj_spread (own_entries x) (event_name_fields v ds)))"
    using x unfolding static_type_def
    by (auto intro!: fits_spread simp: admits_at_def event_name_fields_def simp del: fits.simps(3))
  with 2 x show ?case by auto
qed (simp add: static_type_def event_name_fields_def fld_def)

lemma withEventNameOutput_typing:
  assumes "fits (Rec ts) (Obj e)" "at_key ts ''staticAttributes'' (Items static_type)"
  shows "makes (Rec ts) (withEventNameOutput e v ds)"
proof -
  obtain xs where xs: "fld e ''staticAttributes'' = Arr xs" "\<forall>x\<in>set xs. fits static_type x"
    using items_of [OF assms] by blast
  have "admits_at ts ''staticAttributes'' (Arr (with_event_name v (span_or_log ds) False xs))"
    using with_event_name_typing [OF xs(2)] by (simp add: admits_at_key [OF assms(2)])
  then show ?thesis using fits_put [OF assms(1)]
    by (simp add: withEventNameOutput_def xs(1) items_or_def js_or_def del: fits.simps)
qed

subsection \<open>The parts of a rule\<close>

lemma edit_condition_typing:
  assumes "fits (Rec ts) (Obj e)" "at_key ts ''conditions'' (Items condition_type)"
    and "fits condition_type (Obj fresh)"
  shows "makes (Rec ts) (edit_condition selector fresh ed e)"
proof -
  have put: "fits condition_type (item_put k v x)" if "fits condition_type x" "k \<noteq> ''values''" for k v x
    using that unfolding condition_type_def by (intro fits_item_untouched) auto
  have vals: "fits condition_type (item_put ''values'' (typed_words s) x)" if "fits condition_type x" for s x
    using that unfolding condition_type_def
    by (intro fits_item_put) (auto simp: admits_at_def typed_words_def strs_def)
  show ?thesis
    by (cases ed) (use assms put vals in \<open>auto intro!: append_item_typing edit_item_typing drop_item_typing
      simp: change_source_def simp del: fits.simps\<close>)
qed

lemma edit_static_typing:
  assumes "fits (Rec ts) (Obj e)" "at_key ts ''staticAttributes'' (Items static_type)"
  shows "makes (Rec ts) (edit_static ed e)"
proof -
  have put: "fits static_type (item_put k v x)" if "fits static_type x" "k \<noteq> ''destinations''" for k v x
    using that unfolding static_type_def by (intro fits_item_untouched) auto
  have fresh: "fits static_type (Obj newStaticAttribute)"
    by (simp add: static_type_def newStaticAttribute_def fld_def strs_def)
  have key: "at_key [(''destinations'', List_Or_Nothing)] ''destinations'' List_Or_Nothing" by (simp add: at_key_def)
  show ?thesis
  proof (cases ed)
    case (StaticName i name)
    have "\<exists>ds. list_or (get (row ''staticAttributes'' i e) ''destinations'') = Some ds"
    proof (cases "has_row ''staticAttributes'' i e")
      case True
      then show ?thesis using row_typing(1) [OF assms True] span_or_log_readable by blast
    next
      case False
      then show ?thesis using row_typing(2) [OF assms False] by (simp add: list_or_def js_or_def)
    qed
    then obtain ds where ds: "list_or (get (row ''staticAttributes'' i e) ''destinations'') = Some ds" by blast
    show ?thesis
    proof (cases "name = ''event.name''")
      case True
      then show ?thesis using withEventNameOutput_typing [OF assms]
        by (simp add: StaticName Let_def ds del: fits.simps)
    next
      case False
      then show ?thesis using put edit_item_typing [OF assms] by (simp add: StaticName del: fits.simps)
    qed
  next
    case (ToggleStatic i d)
    then show ?thesis
      using toggle_destination_typing [OF assms(1) assms(2) [unfolded static_type_def] key] by simp
  qed (use assms put fresh in \<open>auto intro!: append_item_typing edit_item_typing drop_item_typing simp del: fits.simps\<close>)
qed

lemma edit_output_typing:
  assumes "fits (Rec ts) (Obj e)" "at_key ts ''staticAttributes'' (Items static_type)" "at_key ts ''log'' Present"
  shows "makes (Rec ts) (edit_output ed e)"
proof -
  obtain out where out: "eventNameOutput e = Some out" using eventNameOutput_total [OF assms(1,2)] by blast
  have log: "fits (Rec ts) (Obj (edit_log k v e))" for k v
    unfolding edit_log_def by (rule fits_put [OF assms(1)]) (simp add: admits_at_key [OF assms(3)] nullish_def)
  have "\<not> nullish (fld e ''log'')" using fits_at [OF assms(3,1)] by simp
  then obtain v where v: "getx (fld e ''log'') ''enabled'' = Some v" by (simp add: getx_def)
  show ?thesis
    by (cases ed) (use withEventNameOutput_typing [OF assms(1,2)] assms(1) in
      \<open>simp_all add: out v log del: fits.simps\<close>)
qed

lemma filter_opt_exists: "\<forall>x\<in>set xs. \<exists>b. p x = Some b \<Longrightarrow> \<exists>ys. filter_opt p xs = Some ys"
  by (induction xs) auto

lemma dimension_fields_total:
  assumes "\<forall>x\<in>set xs. fits (field_type P) x"
  shows "\<exists>ys. dimensionFields xs = Some ys"
proof -
  have "\<exists>b. getx x ''destinations'' \<bind> (\<lambda>d. val_includes (js_or d (Arr [])) (Str ''METRIC'')) = Some b"
    if f: "fits (field_type P) x" for x
  proof -
    obtain ob where x: "x = Obj ob" using fits_Rec_Obj [OF f [unfolded field_type_def]] by blast
    then have "readable_list (fld ob ''destinations'')" using f by (simp add: field_type_def)
    then show ?thesis by (cases "fld ob ''destinations''") (auto simp: x getx_def nullish_def js_or_def readable_list_def)
  qed
  then show ?thesis unfolding dimensionFields_def by (intro filter_opt_exists) (use assms in blast)
qed

lemma edit_metric_typing:
  assumes "fits (Rec ts) (Obj m)" "at_key ts ''dimensions'' List_Or_Nothing"
    and "set (map fst ts) \<subseteq> {''dimensions'', ''standardAttributes''}" "\<forall>x\<in>set xs. is_obj x"
  shows "makes (Rec ts) (edit_metric xs ed m)"
proof -
  have put: "fits (Rec ts) (Obj (obj_put k v m))" if "k \<noteq> ''dimensions''" "k \<noteq> ''standardAttributes''" for k v
    using that assms(3) by (intro fits_untouched [OF assms(1)]) blast
  show ?thesis
proof (cases ed)
  case (MetricIntent s)
  obtain ys where "filter_opt is_numeric xs = Some ys" using numeric_total(2) [OF assms(4)] by blast
  moreover have "set (map fst ts) \<inter> {''instrument'', ''valueField'', ''buckets''} = {}" using assms(3) by auto
  ultimately show ?thesis using fits_configure [OF assms(1)]
    by (simp add: MetricIntent first_numeric_def numericFields_def del: fits.simps)
next
  case (ToggleDimension s)
  have "readable_list (fld m ''dimensions'')" using fits_at [OF assms(2,1)] by simp
  then show ?thesis
    using toggle_key_typing [OF assms(1)] admits_at_key [OF assms(2)] by (simp add: ToggleDimension del: fits.simps(3))
qed (use put in \<open>simp_all del: fits.simps\<close>)
qed

subsection \<open>The contract between the predicates and the edits\<close>

text \<open>
  \<open>P\<close> is what a value policy satisfies, \<open>S\<close> what the standard attributes of a metric satisfy, \<open>E\<close> the
  edits of a value policy that are admitted, and \<open>T\<close> whether ticking a standard attribute is.
\<close>

locale document_contract =
  fixes P S :: "jsval \<Rightarrow> bool" and E :: "value_edit \<Rightarrow> bool" and T :: bool
  assumes P_Undef: "P Undef"
    and P_defaults: "P (Obj main_bounded)" "P (Obj rangePolicy)" "P (Obj messaging_bounded)"
    and P_main: "P v \<Longrightarrow> E ed \<Longrightarrow> P (Obj (edit_value main_change_type ed (own_entries v)))"
    and P_messaging: "P v \<Longrightarrow> E ed \<Longrightarrow> P (Obj (edit_value messaging_change_type ed (own_entries v)))"
    and S_none: "S (Arr [])"
    and S_ticked: "T \<Longrightarrow> S (Arr xs)"
begin

lemma P_default: "P v \<Longrightarrow> P (Obj init) \<Longrightarrow> P (js_or v (Obj init))"
  by (simp add: js_or_def)

lemma field_put:
  "fits (field_type P) x \<Longrightarrow> k \<notin> {''destinations'', ''valuePolicy'', ''values''} \<Longrightarrow> fits (field_type P) (item_put k v x)"
  unfolding field_type_def by (intro fits_item_untouched) auto

lemma field_keys:
  "at_key [(''destinations'', List_Or_Nothing), (''valuePolicy'', Sat P), (''values'', List_Or_Nothing)] ''destinations'' List_Or_Nothing"
  "at_key [(''destinations'', List_Or_Nothing), (''valuePolicy'', Sat P), (''values'', List_Or_Nothing)] ''valuePolicy'' (Sat P)"
  by (simp_all add: at_key_def)

lemma policy_of_row:
  assumes "fits (Rec ts) (Obj e)" "at_key ts k (Items (field_type P))" "E ed" "P (Obj init)"
  shows "makes (Rec ts) (edit_value_policy main_change_type init k i ed e)"
    "makes (Rec ts) (edit_value_policy messaging_change_type init k i ed e)"
  using assms P_default P_main P_messaging P_Undef
  by (auto intro!: edit_value_policy_typing [OF _ _ field_keys(2)] simp: field_type_def simp del: fits.simps)

lemma edit_field_typing:
  assumes "fits (Rec ts) (Obj e)" "at_key ts ''fields'' (Items (field_type P))"
    and "fits (field_type P) (Obj fresh)" "\<And>s x. fits (field_type P) x \<Longrightarrow> fits (field_type P) (source s x)"
    and "change = main_change_type \<or> change = messaging_change_type" "P (Obj init)"
    and "\<And>i v. ed = FieldPolicy i v \<Longrightarrow> E v"
  shows "makes (Rec ts) (edit_field source fresh change init ed e)"
proof (cases ed)
  case (ToggleField i d)
  then show ?thesis
    using toggle_destination_typing [OF assms(1) assms(2) [unfolded field_type_def] field_keys(1)] by simp
next
  case (FieldPolicy i v)
  then show ?thesis using policy_of_row [OF assms(1,2) assms(7) assms(6)] assms(5) by auto
qed (use assms(1-4) field_put in \<open>auto intro!: append_item_typing edit_item_typing drop_item_typing simp del: fits.simps\<close>)

lemma edit_derived_typing:
  assumes "fits (Rec ts) (Obj e)" "at_key ts ''derivedFields'' (Items (field_type P))"
    and "at_key ts ''fields'' (Items (field_type P))" "\<And>i v. ed = DerivedPolicy i v \<Longrightarrow> E v"
  shows "makes (Rec ts) (edit_derived ed e)"
proof (cases ed)
  case AddDerived
  obtain xs where xs: "fld e ''fields'' = Arr xs" "\<forall>x\<in>set xs. fits (field_type P) x"
    using items_of [OF assms(1,3)] by blast
  then have "\<forall>x\<in>set xs. is_obj x" by (simp add: field_type_def)
  then obtain b where b: "some_opt is_numeric xs = Some b" using numeric_total(1) by blast
  have "fits (field_type P) (Obj derivedField)"
    using P_defaults by (simp add: field_type_def derivedField_def fld_def strs_def object_prototype_def)
  then show ?thesis
    using append_item_typing(2) [OF assms(1,2)] assms(1) by (simp add: AddDerived xs(1) b del: fits.simps)
next
  case (ToggleDerived i d)
  then show ?thesis
    using toggle_destination_typing [OF assms(1) assms(2) [unfolded field_type_def] field_keys(1)] by simp
next
  case (DerivedPolicy i v)
  then show ?thesis using policy_of_row(1) [OF assms(1,2) assms(4) P_defaults(2)] by simp
qed (use assms(1,2) field_put in \<open>auto intro!: edit_item_typing drop_item_typing simp del: fits.simps\<close>)

end

end
