(* ===== verification/Form_Soundness.thy ===== *)
theory Form_Soundness
  imports Form_Typing
begin

section \<open>Every control keeps the type of the document\<close>

text \<open>
  The typing rules of \<open>Form_Typing\<close> put together: the operations of the HTTP, the method and the
  messaging form on a whole document, for any predicates that fulfil the contract.
\<close>

declare fits.simps(3) [simp del]

lemma fits_is_obj: "fits (Rec ts) x \<Longrightarrow> is_obj x"
  by (simp add: fits.simps(3))

lemma some_opt_exists: "\<forall>x\<in>set xs. \<exists>b. p x = Some b \<Longrightarrow> \<exists>b. some_opt p xs = Some b"
  by (induction xs) auto

lemma filter_opt_subset: "filter_opt p xs = Some ys \<Longrightarrow> set ys \<subseteq> set xs"
  by (induction xs arbitrary: ys) (auto split: bind_splits if_splits simp: bind_eq_Some_conv)

lemma has_event_name_obj: "is_obj x \<Longrightarrow> has_event_name n x = Some (strict_eq (get x ''eventName'') n)"
  by (cases x) (auto simp: has_event_name_def getx_def nullish_def)

lemma set_event_name_typing: "fits (Rec ts) x \<Longrightarrow> ''eventName'' \<notin> set (map fst ts) \<Longrightarrow>
    fits (Rec ts) (Obj (obj_put ''eventName'' v (own_entries x)))"
  using fits_untouched [of ts "own_entries x"] by (metis fits_own)

lemma spread_two: "obj_spread p [(a, u), (b, v)] = obj_put b v (obj_put a u p)"
  by (simp add: obj_spread_def)

subsection \<open>Removing and renaming\<close>

text \<open>Both modules of events have the same two lists; the lemmas are about any pair of lists.\<close>

locale paired_lists =
  fixes ts :: "(string \<times> ty) list" and ek mk :: string and us vs :: "(string \<times> ty) list"
  assumes ek: "at_key ts ek (Items (Rec us))" and mk: "at_key ts mk (Items (Rec vs))"
    and names: "''eventName'' \<notin> set (map fst us)" "''eventName'' \<notin> set (map fst vs)" and ne: "ek \<noteq> mk"
begin

lemma put_lists:
  assumes "fits (Rec ts) (Obj p)" "\<forall>x\<in>set xs. fits (Rec us) x" "\<forall>x\<in>set ys. fits (Rec vs) x"
  shows "fits (Rec ts) (Obj (obj_spread p [(ek, Arr xs), (mk, Arr ys)]))"
  unfolding spread_two using assms
  by (intro fits_put) (simp_all add: admits_at_key [OF ek] admits_at_key [OF mk])

lemma typed_lists:
  assumes "fits (Rec ts) (Obj p)"
  obtains es ms where "fld p ek = Arr es" "\<forall>x\<in>set es. fits (Rec us) x" "fld p mk = Arr ms" "\<forall>x\<in>set ms. fits (Rec vs) x"
  using items_of [OF assms ek] items_of [OF assms mk] by metis

lemma kept_metrics:
  assumes "\<forall>x\<in>set ms. fits (Rec vs) x"
  shows "\<exists>ks. filter_opt (\<lambda>m. map_option Not (has_event_name n m)) ms = Some ks \<and> (\<forall>x\<in>set ks. fits (Rec vs) x)"
proof -
  have "\<forall>x\<in>set ms. is_obj x" using assms fits_is_obj by blast
  then have "\<forall>x\<in>set ms. \<exists>b. map_option Not (has_event_name n x) = Some b" by (simp add: has_event_name_obj)
  from filter_opt_exists [OF this] obtain ks where
    ks: "filter_opt (\<lambda>m. map_option Not (has_event_name n m)) ms = Some ks" ..
  then have "set ks \<subseteq> set ms" by (rule filter_opt_subset)
  then show ?thesis using assms ks by blast
qed

lemma renamed_items:
  assumes "\<forall>x\<in>set ms. fits (Rec vs) x"
  shows "\<exists>ks. rename_metrics n b s ms = Some ks \<and> (\<forall>x\<in>set ks. fits (Rec vs) x)"
proof -
  let ?f = "\<lambda>m. if strict_eq (get m ''eventName'') n \<and> b then set_event_name s m else m"
  have "\<forall>x\<in>set ms. is_obj x" using assms fits_is_obj by blast
  then have "rename_metrics n b s ms = Some (map ?f ms)"
    unfolding rename_metrics_def by (intro map_opt_total) (simp add: has_event_name_obj)
  moreover have "fits (Rec vs) (set_event_name s x)" if "fits (Rec vs) x" for x
    using set_event_name_typing [OF that names(2)] by (simp add: set_event_name_def)
  ultimately show ?thesis using assms by auto
qed

lemma owners_exist:
  assumes "\<forall>x\<in>set es. fits (Rec us) x"
  shows "\<exists>os. filter_opt (has_event_name n) es = Some os" "\<exists>b. some_opt (has_event_name n) (remove_at i es) = Some b"
proof -
  have "\<forall>x\<in>set es. is_obj x" using assms fits_is_obj by blast
  then have o: "\<forall>x\<in>set es. \<exists>b. has_event_name n x = Some b" by (simp add: has_event_name_obj)
  show "\<exists>os. filter_opt (has_event_name n) es = Some os" using filter_opt_exists [OF o] .
  have "\<forall>x\<in>set (remove_at i es). \<exists>b. has_event_name n x = Some b" using o by (rule remove_at_all)
  then show "\<exists>b. some_opt (has_event_name n) (remove_at i es) = Some b" by (rule some_opt_exists)
qed

lemma renamed_event:
  assumes "\<forall>x\<in>set es. fits (Rec us) x"
  shows "\<forall>x\<in>set (map (\<lambda>(index, e). if index = i then set_event_name s e else e) (enumerate 0 es)). fits (Rec us) x"
  unfolding map_enumerate_update
proof -
  have "fits (Rec us) (set_event_name s x)" if "fits (Rec us) x" for x
    using set_event_name_typing [OF that names(1)] by (simp add: set_event_name_def)
  then show "\<forall>x\<in>set (if i < length es then es[i := set_event_name s (es ! i)] else es). fits (Rec us) x"
    using assms by (auto dest!: set_update_subset_insert [THEN subsetD])
qed

lemma target_at:
  assumes "\<forall>x\<in>set es. fits (Rec us) x"
  shows "truthy (elem_at (Arr es) i) \<longleftrightarrow> i < length es"
proof (cases "i < length es")
  case True
  then have "is_obj (es ! i)" using assms fits_is_obj by (metis nth_mem)
  then show ?thesis using True by (cases "es ! i") (simp_all add: elem_at_def)
qed (simp add: elem_at_def)

lemma removed_typing:
  assumes p: "fits (Rec ts) (Obj p)" and es: "fld p ek = Arr es" "\<forall>x\<in>set es. fits (Rec us) x"
    and ms: "fld p mk = Arr ms" "\<forall>x\<in>set ms. fits (Rec vs) x"
    and q: "\<And>b. some_opt (has_event_name n) (remove_at i es) = Some b \<Longrightarrow>
      q = (do { metrics \<leftarrow> (if b then Some (fld p mk) else do {
             kept \<leftarrow> filter_opt (\<lambda>m. map_option Not (has_event_name n m)) ms; Some (Arr kept) });
           Some (obj_spread p [(ek, Arr (remove_at i es)), (mk, metrics)]) })"
  shows "makes (Rec ts) q"
proof -
  obtain b where b: "some_opt (has_event_name n) (remove_at i es) = Some b" using owners_exist(2) [OF es(2)] by blast
  obtain ks where ks: "filter_opt (\<lambda>m. map_option Not (has_event_name n m)) ms = Some ks" "\<forall>x\<in>set ks. fits (Rec vs) x"
    using kept_metrics [OF ms(2)] by blast
  have r: "\<forall>x\<in>set (remove_at i es). fits (Rec us) x" using es(2) by (rule remove_at_all)
  show ?thesis using q [OF b] put_lists [OF p r ms(2)] put_lists [OF p r ks(2)]
    by (cases b) (simp_all add: ks(1) ms(1))
qed

lemma renamed_typing:
  assumes p: "fits (Rec ts) (Obj p)" and es: "\<forall>x\<in>set es. fits (Rec us) x" and ms: "\<forall>x\<in>set ms. fits (Rec vs) x"
    and q: "\<And>os ks. filter_opt (has_event_name n) es = Some os \<Longrightarrow> rename_metrics n (length os = 1) s ms = Some ks \<Longrightarrow>
      q = Some (obj_spread p [(ek, Arr (map (\<lambda>(index, e). if index = i then set_event_name s e else e) (enumerate 0 es))),
        (mk, Arr ks)])"
  shows "makes (Rec ts) q"
proof -
  obtain os where os: "filter_opt (has_event_name n) es = Some os" using owners_exist(1) [OF es] by blast
  obtain ks where ks: "rename_metrics n (length os = 1) s ms = Some ks" "\<forall>x\<in>set ks. fits (Rec vs) x"
    using renamed_items [OF ms] by blast
  show ?thesis using q [OF os ks(1)] put_lists [OF p renamed_event [OF es] ks(2)] by simp
qed

end

sublocale document_contract < http_lists: paired_lists "policy_fields P S" "''bodyEventPolicies''"
    "''eventMetricPolicies''" "rule_fields P" "event_metric_fields S"
  by unfold_locales (use policy_keys [of P S] in \<open>simp_all add: type_defs rule_fields_def event_metric_fields_def\<close>)

sublocale document_contract < messaging_lists: paired_lists "policy_fields P S" "''messagingEventPolicies''"
    "''messagingMetricPolicies''" "message_fields P" message_metric_fields
  by unfold_locales (use policy_keys [of P S] in \<open>simp_all add: type_defs message_fields_def message_metric_fields_def\<close>)

context document_contract
begin

lemma remove_http_typing:
  assumes p: "fits (policy_type P S) (Obj p)"
  shows "makes (policy_type P S) (removeHTTPEventAt p i)"
proof -
  note p' = p [unfolded policy_type_def]
  obtain es ms where l: "fld p ''bodyEventPolicies'' = Arr es" "\<forall>x\<in>set es. fits (Rec (rule_fields P)) x"
    "fld p ''eventMetricPolicies'' = Arr ms" "\<forall>x\<in>set ms. fits (Rec (event_metric_fields S)) x"
    using http_lists.typed_lists [OF p'] by blast
  show ?thesis
  proof (cases "i < length es")
    case True
    show ?thesis unfolding policy_type_def
    proof (rule http_lists.removed_typing [OF p' l])
      fix b assume "some_opt (has_event_name (get (elem_at (Arr es) i) ''eventName'')) (remove_at i es) = Some b"
      then show "removeHTTPEventAt p i = (do {
          metrics \<leftarrow> (if b then Some (fld p ''eventMetricPolicies'') else do {
             kept \<leftarrow> filter_opt (\<lambda>m. map_option Not (has_event_name (get (elem_at (Arr es) i) ''eventName'') m)) ms; Some (Arr kept) });
          Some (obj_spread p [(''bodyEventPolicies'', Arr (remove_at i es)), (''eventMetricPolicies'', metrics)]) })"
        using http_lists.target_at [OF l(2)] True
        by (simp add: removeHTTPEventAt_def Let_def l(1,3) list_or_def js_or_def)
    qed
  next
    case False
    then show ?thesis using http_lists.target_at [OF l(2)] p by (simp add: removeHTTPEventAt_def Let_def l(1))
  qed
qed

lemma rename_http_typing:
  assumes p: "fits (policy_type P S) (Obj p)"
  shows "makes (policy_type P S) (renameHTTPEventAt p i s)"
proof -
  note p' = p [unfolded policy_type_def]
  obtain es ms where l: "fld p ''bodyEventPolicies'' = Arr es" "\<forall>x\<in>set es. fits (Rec (rule_fields P)) x"
    "fld p ''eventMetricPolicies'' = Arr ms" "\<forall>x\<in>set ms. fits (Rec (event_metric_fields S)) x"
    using http_lists.typed_lists [OF p'] by blast
  show ?thesis
  proof (cases "i < length es")
    case True
    show ?thesis unfolding policy_type_def
    proof (rule http_lists.renamed_typing [OF p' l(2,4)])
      fix os ks
      assume "filter_opt (has_event_name (get (elem_at (Arr es) i) ''eventName'')) es = Some os"
        "rename_metrics (get (elem_at (Arr es) i) ''eventName'') (length os = 1) s ms = Some ks"
      then show "renameHTTPEventAt p i s = Some (obj_spread p
          [(''bodyEventPolicies'', Arr (map (\<lambda>(index, e). if index = i then set_event_name s e else e) (enumerate 0 es))),
           (''eventMetricPolicies'', Arr ks)])"
        using http_lists.target_at [OF l(2)] True
        by (simp add: renameHTTPEventAt_def Let_def l(1,3) list_or_def js_or_def)
    qed
  next
    case False
    then show ?thesis using http_lists.target_at [OF l(2)] p by (simp add: renameHTTPEventAt_def Let_def l(1))
  qed
qed

lemma remove_messaging_typing:
  assumes p: "fits (policy_type P S) (Obj p)"
  shows "makes (policy_type P S) (removeMessagingEventAt p i)"
proof -
  note p' = p [unfolded policy_type_def]
  obtain es ms where l: "fld p ''messagingEventPolicies'' = Arr es" "\<forall>x\<in>set es. fits (Rec (message_fields P)) x"
    "fld p ''messagingMetricPolicies'' = Arr ms" "\<forall>x\<in>set ms. fits (Rec message_metric_fields) x"
    using messaging_lists.typed_lists [OF p'] by blast
  show ?thesis
  proof (cases "i < length es")
    case True
    show ?thesis unfolding policy_type_def
    proof (rule messaging_lists.removed_typing [OF p' l])
      fix b assume "some_opt (has_event_name (get (elem_at (Arr es) i) ''eventName'')) (remove_at i es) = Some b"
      then show "removeMessagingEventAt p i = (do {
          metrics \<leftarrow> (if b then Some (fld p ''messagingMetricPolicies'') else do {
             kept \<leftarrow> filter_opt (\<lambda>m. map_option Not (has_event_name (get (elem_at (Arr es) i) ''eventName'') m)) ms; Some (Arr kept) });
          Some (obj_spread p [(''messagingEventPolicies'', Arr (remove_at i es)), (''messagingMetricPolicies'', metrics)]) })"
        using messaging_lists.target_at [OF l(2)] True
        by (simp add: removeMessagingEventAt_def Let_def l(1,3))
    qed
  next
    case False
    then show ?thesis using messaging_lists.target_at [OF l(2)] p by (simp add: removeMessagingEventAt_def Let_def l(1))
  qed
qed

lemma rename_messaging_typing:
  assumes p: "fits (policy_type P S) (Obj p)"
  shows "makes (policy_type P S) (renameMessagingEventAt p i s)"
proof -
  note p' = p [unfolded policy_type_def]
  obtain es ms where l: "fld p ''messagingEventPolicies'' = Arr es" "\<forall>x\<in>set es. fits (Rec (message_fields P)) x"
    "fld p ''messagingMetricPolicies'' = Arr ms" "\<forall>x\<in>set ms. fits (Rec message_metric_fields) x"
    using messaging_lists.typed_lists [OF p'] by blast
  show ?thesis
  proof (cases "i < length es")
    case True
    show ?thesis unfolding policy_type_def
    proof (rule messaging_lists.renamed_typing [OF p' l(2,4)])
      fix os ks
      assume "filter_opt (has_event_name (get (elem_at (Arr es) i) ''eventName'')) es = Some os"
        "rename_metrics (get (elem_at (Arr es) i) ''eventName'') (length os = 1) s ms = Some ks"
      then show "renameMessagingEventAt p i s = Some (obj_spread p
          [(''messagingEventPolicies'', Arr (map (\<lambda>(index, e). if index = i then set_event_name s e else e) (enumerate 0 es))),
           (''messagingMetricPolicies'', Arr ks)])"
        using messaging_lists.target_at [OF l(2)] True
        by (simp add: renameMessagingEventAt_def Let_def l(1,3))
    qed
  next
    case False
    then show ?thesis using messaging_lists.target_at [OF l(2)] p by (simp add: renameMessagingEventAt_def Let_def l(1))
  qed
qed

lemma edit_rule_typing:
  assumes e: "fits (rule_type P) (Obj e)"
    and E: "\<And>i v. ed = Field (FieldPolicy i v) \<or> ed = Derived (DerivedPolicy i v) \<Longrightarrow> E v"
  shows "makes (rule_type P) (edit_rule ed e)"
proof -
  note e' = e [unfolded rule_type_def]
  show ?thesis
  proof (cases ed)
    case (RuleName s)
    then show ?thesis using fits_untouched [OF e'] by (simp add: rule_type_def rule_fields_def)
  next
    case (Static x)
    then show ?thesis using edit_static_typing [OF e' rule_keys(4)] by (simp add: rule_type_def)
  next
    case (Body x)
    obtain cs fs where l: "fld e ''conditions'' = Arr cs" "fld e ''fields'' = Arr fs"
      using items_of [OF e' rule_keys(1)] items_of [OF e' rule_keys(2)] by metis
    have put: "fits (rule_type P) (Obj (obj_put k v e))" if "k \<notin> set (map fst (rule_fields P))" for k v
      using fits_untouched [OF e' that] by (simp add: rule_type_def)
    show ?thesis using e put
      by (cases x) (simp_all add: Body edit_body_def httpEventUsesBody_def l items_or_def js_or_def rule_fields_def)
  next
    case (Condition x)
    have "fits condition_type (Obj (bodyCondition ''RESPONSE_BODY'' [[]] [] ''EQUALS''))" by code_simp
    then show ?thesis using edit_condition_typing [OF e' rule_keys(1)] by (simp add: Condition http_condition_def rule_type_def)
  next
    case (Field x)
    have fresh: "fits (field_type P) (Obj (bodyField ''REQUEST_BODY'' [] [] ''STRING'' [''SPAN'', ''LOG'']))"
      using P_defaults(1) by (simp add: field_type_def bodyField_def fld_def strs_def fits.simps(3) object_prototype_def)
    show ?thesis using E P_defaults(1) edit_field_typing [OF e' rule_keys(2) fresh] field_put
      by (simp add: Field http_field_def rule_type_def)
  next
    case (Derived x)
    then show ?thesis using E edit_derived_typing [OF e' rule_keys(3,2)] by (simp add: rule_type_def)
  next
    case (Output x)
    then show ?thesis using edit_output_typing [OF e' rule_keys(4,5)] by (simp add: rule_type_def)
  qed
qed

lemma edit_http_metric_typing:
  assumes m: "fits (event_metric_type S) (Obj m)" and xs: "\<forall>x\<in>set xs. fits (field_type P) x"
    and T: "\<And>a. ed = ToggleStandard a \<Longrightarrow> T"
  shows "makes (event_metric_type S) (edit_http_metric xs ed m)"
proof -
  note m' = m [unfolded event_metric_type_def]
  have o: "\<forall>x\<in>set xs. is_obj x" using xs fits_is_obj unfolding field_type_def by blast
  have r: "readable_list (fld m ''dimensions'')" "readable_list (fld m ''standardAttributes'')"
    using fits_at [OF metric_keys(1) m'] fits_at [OF metric_keys(2) m'] by simp_all
  show ?thesis
  proof (cases ed)
    case (Metric x)
    have "set (map fst (event_metric_fields S)) \<subseteq> {''dimensions'', ''standardAttributes''}"
      by (simp add: event_metric_fields_def)
    then show ?thesis using edit_metric_typing [OF m' metric_keys(1) _ o] by (simp add: Metric event_metric_type_def)
  next
    case (ToggleStandard a)
    have "admits_at (event_metric_fields S) ''standardAttributes'' (Arr xs)" for xs
      using S_ticked T [OF ToggleStandard] by (simp add: admits_at_key [OF metric_keys(2)])
    then show ?thesis using toggle_key_typing [OF m' r(2)] by (simp add: ToggleStandard event_metric_type_def)
  next
    case DropUnavailable
    obtain ds where ds: "dimensionFields xs = Some ds" using dimension_fields_total [OF xs] by blast
    have "fits (Rec (event_metric_fields S)) (Obj (obj_put ''dimensions'' (Arr ys) m))" for ys
      by (rule fits_put [OF m']) (simp add: admits_at_key [OF metric_keys(1)])
    then show ?thesis
      by (simp add: DropUnavailable drop_unavailable_dimensions_def unavailableDimensions_def ds r event_metric_type_def)
  qed
qed

lemma global_source_typing:
  assumes m: "fits (Rec (global_fields P)) (Obj m)"
  shows "makes (Rec (global_fields P)) (global_source s m)" "makes (Rec (global_fields P)) (global_instrument s m)"
proof -
  have b: "\<not> nullish (fld m ''buckets'')" using fits_at [OF metric_keys(4) m] by simp
  have ok: "\<exists>v. bucketsOr (fld m ''buckets'') = Some v \<and> \<not> nullish v"
    using b by (simp add: bucketsOr_def getx_def) (auto simp: nullish_def)
  then obtain v where v: "bucketsOr (fld m ''buckets'') = Some v" "\<not> nullish v" by blast
  have ups: "fits (Rec (global_fields P)) (Obj (obj_spread m ups))"
    if "set (map fst ups) \<subseteq> {''value'', ''instrument'', ''unit'', ''buckets''}" "\<forall>(k, w)\<in>set ups. k = ''buckets'' \<longrightarrow> \<not> nullish w" for ups
  proof (rule fits_spread [OF m], clarify)
    fix k w assume kw: "(k, w) \<in> set ups"
    then have "k \<in> {''value'', ''instrument'', ''unit'', ''buckets''}" using that(1) by force
    then show "admits_at (global_fields P) k w"
      using kw that(2) by (auto simp: admits_at_def global_fields_def)
  qed
  have n: "\<not> nullish (Arr xs)" for xs by (simp add: nullish_def)
  show "makes (Rec (global_fields P)) (global_source s m)"
    unfolding global_source_def using v b by (auto intro!: ups)
  show "makes (Rec (global_fields P)) (global_instrument s m)"
    unfolding global_instrument_def using v n by (auto intro!: ups)
qed

lemma value_put_typing:
  "fits (Rec (global_fields P)) (Obj m) \<Longrightarrow> fits (Rec (global_fields P)) (Obj (value_put k v m))"
  unfolding value_put_def by (erule fits_untouched) (simp add: global_fields_def)

lemma label_span_typing:
  assumes m: "fits (Rec (global_fields P)) (Obj m)"
  shows "makes (Rec (global_fields P)) (label_span i m)"
proof -
  have "readable_list (get (row ''customAttributes'' i m) ''destinations'')"
  proof (cases "has_row ''customAttributes'' i m")
    case True
    note r = row_typing(1) [OF m metric_keys(6) True]
    obtain x where "row ''customAttributes'' i m = Obj x" using fits_Rec_Obj r unfolding field_type_def by blast
    then show ?thesis using r by (simp add: field_type_def fits.simps(3))
  next
    case False
    then show ?thesis using row_typing(2) [OF m metric_keys(6)] by simp
  qed
  then have "\<exists>b. val_includes (js_or (get (row ''customAttributes'' i m) ''destinations'') (Arr [])) (Str ''SPAN'') = Some b"
    by (cases "get (row ''customAttributes'' i m) ''destinations''") (auto simp: js_or_def readable_list_def)
  then obtain b where b: "val_includes (js_or (get (row ''customAttributes'' i m) ''destinations'') (Arr [])) (Str ''SPAN'') = Some b"
    by blast
  show ?thesis unfolding label_span_def b bind.bind_lunit
    by (rule edit_item_typing [OF m metric_keys(6)], unfold field_type_def, rule fits_item_put, assumption)
      (simp add: admits_at_key [OF field_keys(1)] strs_def)
qed

lemma edit_global_typing:
  assumes m: "fits (global_type P) (Obj m)" and E: "\<And>i v. ed = LabelPolicy i v \<Longrightarrow> E v"
  shows "makes (global_type P) (edit_global ed m)"
proof -
  note m' = m [unfolded global_type_def]
  have put: "fits (Rec (global_fields P)) (Obj (obj_put k v m))" if "k \<notin> {''buckets'', ''standardAttributes'', ''customAttributes''}" for k v
    using that by (intro fits_untouched [OF m']) (simp add: global_fields_def)
  have buckets: "fits (Rec (global_fields P)) (Obj (obj_put ''buckets'' (typed_buckets s) m))" for s
    by (rule fits_put [OF m']) (simp add: admits_at_key [OF metric_keys(4)] typed_buckets_def nullish_def)
  have standard: "makes (Rec (global_fields P)) (toggle_key ''standardAttributes'' a m)" for a
    using fits_at [OF metric_keys(5) m'] by (intro toggle_key_typing [OF m']) (simp_all add: admits_at_key [OF metric_keys(5)])
  have fresh: "fits (field_type P) (Obj newLabel)"
    using P_defaults(1) by (simp add: field_type_def newLabel_def fld_def fits.simps(3) object_prototype_def)
  have label: "makes (Rec (global_fields P)) (edit_item ''customAttributes'' i (item_put k v) m)"
    if "k \<notin> {''destinations'', ''valuePolicy'', ''values''}" for i k v
    using that field_put by (intro edit_item_typing [OF m' metric_keys(6)]) blast
  show ?thesis unfolding global_type_def
    by (cases ed) (use put buckets standard label label_span_typing [OF m'] global_source_typing [OF m'] value_put_typing [OF m']
        append_item_typing(2) [OF m' metric_keys(6) fresh] drop_item_typing [OF m' metric_keys(6)]
        policy_of_row(1) [OF m' metric_keys(6) E P_defaults(1)] in simp_all)
qed

subsection \<open>Methods\<close>

lemma capture_keys:
  "at_key [(''destinations'', Sat is_array), (''valuePolicy'', Sat (\<lambda>v. \<not> nullish v \<and> P v))] ''destinations'' (Sat is_array)"
  "at_key [(''destinations'', Sat is_array), (''valuePolicy'', Sat (\<lambda>v. \<not> nullish v \<and> P v))] ''valuePolicy''
     (Sat (\<lambda>v. \<not> nullish v \<and> P v))"
  by (simp_all add: at_key_def)

lemma capture_put:
  "fits (capture_type P) x \<Longrightarrow> k \<noteq> ''destinations'' \<Longrightarrow> k \<noteq> ''valuePolicy'' \<Longrightarrow> fits (capture_type P) (item_put k v x)"
  unfolding capture_type_def by (intro fits_item_untouched) auto

lemma edit_capture_typing:
  assumes m: "fits (Rec (method_fields P)) (Obj m)" and E: "\<And>i v. ed = CapturePolicy i v \<Longrightarrow> E v"
  shows "makes (Rec (method_fields P)) (edit_capture ed m)"
proof -
  have fresh: "fits (capture_type P) (Obj new_capture)"
    using P_defaults(1) by (simp add: capture_type_def new_capture_def capture_def fld_def strs_def nullish_def fits.simps(3))
  have row: "fits (capture_type P) (row ''captures'' i m)" if "has_row ''captures'' i m" for i
    using row_typing(1) [OF m metric_keys(7) that] .
  have destinations: "is_array (get (row ''captures'' i m) ''destinations'')"
    and policy: "\<not> nullish (get (row ''captures'' i m) ''valuePolicy'')" "P (get (row ''captures'' i m) ''valuePolicy'')"
    if "has_row ''captures'' i m" for i
    using row [OF that] by (simp_all add: capture_type_def fits.simps(3))
  have toggle: "makes (Rec (method_fields P)) (toggle_capture i d m)" for i d
  proof (cases "has_row ''captures'' i m")
    case True
    have "\<exists>xs. toggled_in v d = Some (Arr xs)" if "is_array v" for v
      using that by (cases v) (simp_all add: toggled_in_def)
    from this [OF destinations [OF True]] obtain xs where
      "toggled_in (get (row ''captures'' i m) ''destinations'') d = Some (Arr xs)" ..
    then show ?thesis using True unfolding toggle_capture_def
      by (auto intro!: edit_item_typing [OF m metric_keys(7)] fits_item_put simp: capture_type_def admits_at_key [OF capture_keys(1)])
  qed (simp add: toggle_capture_def m)
  have value_policy: "makes (Rec (method_fields P)) (capture_policy i v m)" if "E v" for i v
  proof (cases "has_row ''captures'' i m")
    case True
    note P_main [OF policy(2) [OF True] that]
    then show ?thesis using True policy(1) [OF True] unfolding capture_policy_def Let_def
      by (auto intro!: edit_item_typing [OF m metric_keys(7)] fits_item_put
          simp: capture_type_def admits_at_def nullish_def)
  qed (simp add: capture_policy_def m)
  have item: "makes (Rec (method_fields P)) (edit_item ''captures'' i f m)"
    if "\<And>x. fits (capture_type P) x \<Longrightarrow> fits (capture_type P) (f x)" for i f
    using that by (rule edit_item_typing [OF m metric_keys(7)])
  show ?thesis
    by (cases ed) (use m toggle value_policy E item append_item_typing(1) [OF m metric_keys(7) fresh]
        drop_item_typing [OF m metric_keys(7)] capture_put in \<open>simp_all add: capture_source_def\<close>)
qed

lemma edit_instrument_typing:
  assumes m: "fits (Rec (method_fields P)) (Obj m)"
  shows "makes (Rec (method_fields P)) (edit_instrument ed m)"
proof -
  have any: "fits (Rec []) (Obj x)" for x by (simp add: fits.simps(3))
  have item: "makes (Rec (method_fields P)) (edit_item ''metrics'' i f m)" if "\<And>x. \<exists>y. f x = Obj y" for i f
    using that any by (intro edit_item_typing [OF m metric_keys(8)]) metis
  show ?thesis
    by (cases ed) (use m append_item_typing(1) [OF m metric_keys(8) any] drop_item_typing [OF m metric_keys(8)] in
      \<open>auto intro!: item simp: item_put_def instrument_kind_def put_value_def\<close>)
qed

lemma edit_method_typing:
  assumes m: "fits (method_type P) (Obj m)" and E: "\<And>i v. ed = CapturePolicy i v \<Longrightarrow> E v"
  shows "makes (method_type P) (edit_method ed m)"
proof -
  note m' = m [unfolded method_type_def]
  have put: "fits (Rec (method_fields P)) (Obj (obj_put k v m))" if "k \<noteq> ''captures''" "k \<noteq> ''metrics''" for k v
    using that by (intro fits_untouched [OF m']) (simp add: method_fields_def)
  have "makes (Rec (method_fields P)) (edit_header ed m)"
    by (cases ed) (use m' put in \<open>simp_all add: method_log_def\<close>)
  then show ?thesis unfolding edit_method_def method_type_def
    using edit_capture_typing E edit_instrument_typing by (intro makes_bind) blast+
qed

subsection \<open>Messaging rules\<close>

lemma change_scope_typing:
  assumes e: "fits (Rec (message_fields P)) (Obj e)"
  shows "makes (Rec (message_fields P)) (change_scope s e)"
proof -
  have kept: "\<exists>ks. without_property s k e = Some (Arr ks) \<and> (\<forall>x\<in>set ks. fits (Rec us) x)"
    if "fld e k = Arr xs" "\<forall>x\<in>set xs. fits (Rec us) x" for k xs us
  proof -
    have "\<forall>x\<in>set xs. is_obj x" using that(2) fits_is_obj by blast
    then have "\<forall>x\<in>set xs. \<exists>b. map_option Not (reads_property s x) = Some b"
      by (auto simp: reads_property_def getx_def nullish_def)
    from filter_opt_exists [OF this] obtain ks where
      ks: "filter_opt (\<lambda>x. map_option Not (reads_property s x)) xs = Some ks" ..
    then show ?thesis using that filter_opt_subset [OF ks] by (auto simp: without_property_def)
  qed
  obtain cs where cs: "fld e ''conditions'' = Arr cs" "\<forall>x\<in>set cs. fits condition_type x"
    using items_of [OF e message_keys(1)] by blast
  obtain fs where fs: "fld e ''fields'' = Arr fs" "\<forall>x\<in>set fs. fits (field_type P) x"
    using items_of [OF e message_keys(2)] by blast
  obtain c where c: "without_property s ''conditions'' e = Some (Arr c)" "\<forall>x\<in>set c. fits condition_type x"
    using kept [OF cs(1)] cs(2) unfolding condition_type_def by blast
  obtain f where f: "without_property s ''fields'' e = Some (Arr f)" "\<forall>x\<in>set f. fits (field_type P) x"
    using kept [OF fs(1)] fs(2) unfolding field_type_def by blast
  have "fits (Rec (message_fields P)) (Obj (obj_spread e [(''scope'', Str s), (''conditions'', Arr c), (''fields'', Arr f)]))"
    by (rule fits_spread [OF e])
      (use c(2) f(2) in \<open>simp add: admits_at_key [OF message_keys(1)] admits_at_key [OF message_keys(2)],
        simp add: admits_at_def message_fields_def\<close>)
  then show ?thesis by (simp add: change_scope_def c(1) f(1))
qed

lemma edit_messaging_typing:
  assumes e: "fits (message_type P) (Obj e)" and E: "\<And>i v. ed = MessagingField (FieldPolicy i v) \<Longrightarrow> E v"
  shows "makes (message_type P) (edit_messaging ed e)"
proof -
  note e' = e [unfolded message_type_def]
  have put: "fits (Rec (message_fields P)) (Obj (obj_put k v e))" if "k \<in> {''ruleName'', ''maxPayloadBytes''}" for k v
    using that by (intro fits_untouched [OF e']) (auto simp: message_fields_def)
  have condition: "fits condition_type (Obj (newCondition ''PAYLOAD''))" by code_simp
  have fresh: "fits (field_type P) (Obj newField)"
    using P_defaults(3) by (simp add: field_type_def newField_def fld_def strs_def fits.simps(3) object_prototype_def)
  have field: "fits (field_type P) (change_source messagingSourceSelector s x)" if "fits (field_type P) x" for s x
    using that field_put by (simp add: change_source_def)
  show ?thesis unfolding message_type_def
    by (cases ed) (use put change_scope_typing [OF e'] edit_condition_typing [OF e' message_keys(1) condition]
        edit_field_typing [OF e' message_keys(2) fresh field _ P_defaults(3)] E edit_output_typing [OF e' message_keys(3,4)] in
      \<open>simp_all add: messaging_condition_def messaging_field_def\<close>)
qed

subsection \<open>The operations on the document\<close>

lemma policy_put:
  assumes "fits (policy_type P S) (Obj p)" "k \<notin> set (map fst (policy_fields P S))"
  shows "fits (policy_type P S) (Obj (obj_put k v p))"
  using fits_untouched [OF assms(1) [unfolded policy_type_def] assms(2)] by (simp add: policy_type_def)

lemma schema_typing:
  assumes "fits (policy_type P S) (Obj p)"
  shows "fits (policy_type P S) (Obj (require_schema s p))" "fits (policy_type P S) (Obj (require_if r p))"
    "fits (policy_type P S) (Obj (declare_1_5 p))"
proof -
  have put: "fits (policy_type P S) (Obj (obj_put ''schemaVersion'' v p))" for v
    using policy_put [OF assms] by (simp add: policy_fields_def)
  show "fits (policy_type P S) (Obj (require_schema s p))" "fits (policy_type P S) (Obj (require_if r p))"
    "fits (policy_type P S) (Obj (declare_1_5 p))"
    by (cases r; simp add: require_schema_def require_if_def declare_1_5_def assms put)+
qed

lemma fields_of_rule:
  assumes p: "fits (policy_type P S) (Obj p)"
  shows "\<exists>xs. fieldsForHTTPEvent p n d = Some xs \<and> (\<forall>x\<in>set xs. fits (field_type P) x)"
proof -
  let ?sel = "\<lambda>e. truthy (get e ''enabled'') \<and> js_upper (str_or (get e ''direction'') ''INCOMING'') = d \<and>
    strict_eq (get e ''eventName'') n"
  obtain es where es: "fld p ''bodyEventPolicies'' = Arr es" "\<forall>x\<in>set es. fits (rule_type P) x"
    using items_of [OF p [unfolded policy_type_def] policy_keys(3)] by blast
  show ?thesis
  proof (cases "filter ?sel es")
    case (Cons e r)
    then have "e \<in> set (filter ?sel es)" by simp
    then have e: "fits (rule_type P) e" using es(2) by simp
    then obtain ob where ob: "e = Obj ob" using fits_Rec_Obj unfolding rule_type_def by blast
    note e' = e [unfolded ob rule_type_def]
    obtain fs where fs: "fld ob ''fields'' = Arr fs" "\<forall>x\<in>set fs. fits (field_type P) x" using items_of [OF e' rule_keys(2)] by blast
    obtain ds where ds: "fld ob ''derivedFields'' = Arr ds" "\<forall>x\<in>set ds. fits (field_type P) x" using items_of [OF e' rule_keys(3)] by blast
    show ?thesis
      using fs ds by (cases r) (auto simp: fieldsForHTTPEvent_def es(1) Cons ob getx_def nullish_def items_or_def js_or_def)
  qed (simp add: fieldsForHTTPEvent_def es(1))
qed

lemma add_rule_typing:
  assumes p: "fits (policy_type P S) (Obj p)"
  shows "makes (policy_type P S) (http_change direction (AddRule now) p)"
proof -
  note p' = p [unfolded policy_type_def]
  obtain es where es: "fld p ''bodyEventPolicies'' = Arr es" "\<forall>x\<in>set es. fits (rule_type P) x"
    using items_of [OF p' policy_keys(3)] by blast
  have "fits (rule_type P) (Obj (newBodyEventPolicy now direction name))" for name
    unfolding rule_type_def rule_fields_def
    by (simp add: newBodyEventPolicy_def fld_def fits.simps(3) nullish_def log_settings_def condition_type_def bodyCondition_def strs_def)
  then have "fits (Items (rule_type P)) (Arr (es @ [Obj (newBodyEventPolicy now direction name)]))" for name
    using es(2) by auto
  then have "fits (policy_type P S) (Obj (obj_put ''bodyEventPolicies''
      (Arr (es @ [Obj (newBodyEventPolicy now direction name)])) (require_schema s p)))" for s name
    unfolding policy_type_def
    by (intro fits_put schema_typing(1) [OF p, unfolded policy_type_def]) (simp only: admits_at_key [OF policy_keys(3)])
  then show ?thesis by (simp add: add_rule_def es(1) Let_def)
qed

lemma edit_rule_at_typing:
  assumes p: "fits (policy_type P S) (Obj p)"
    and E: "\<And>v. http_value_edit (EditRule i ed) = Some v \<Longrightarrow> E v"
  shows "makes (policy_type P S) (http_change direction (EditRule i ed) p)"
proof -
  note p' = p [unfolded policy_type_def]
  have "makes (rule_type P) (edit_rule ed x)" if "fits (Rec (rule_fields P)) (Obj x)" for x
    using that E by (intro edit_rule_typing) (auto simp: rule_type_def)
  then have "makes (policy_type P S) (update_item ''bodyEventPolicies'' i (edit_rule ed) p)"
    if "has_row ''bodyEventPolicies'' i p"
    unfolding policy_type_def
    by (intro update_item_typing [OF p' policy_keys(3) [unfolded rule_type_def] that]) (simp add: rule_type_def)
  then have "makes (policy_type P S) (edit_rule_at i ed p)" if "has_row ''bodyEventPolicies'' i p"
    unfolding edit_rule_at_def using that schema_typing(2) by (intro makes_map) auto
  then show ?thesis using p by (simp add: shown_def)
qed

lemma edit_metric_at_typing:
  assumes p: "fits (policy_type P S) (Obj p)"
    and T: "ticks_standard (EditMetric i j ed) \<Longrightarrow> T"
  shows "makes (policy_type P S) (http_change direction (EditMetric i j ed) p)"
proof -
  note p' = p [unfolded policy_type_def]
  obtain xs where xs: "fieldsForHTTPEvent p (rule_name i p) direction = Some xs" "\<forall>x\<in>set xs. fits (field_type P) x"
    using fields_of_rule [OF p] by blast
  have "makes (policy_type P S) (edit_metric_at direction i j ed p)" if h: "has_row ''eventMetricPolicies'' j p"
  proof -
    note r = row_typing(1) [OF p' policy_keys(4) h, unfolded event_metric_type_def]
    obtain m where m: "row ''eventMetricPolicies'' j p = Obj m" using fits_Rec_Obj [OF r] by blast
    have "readable_list (fld m ''standardAttributes'')" using fits_at [OF metric_keys(2) r [unfolded m]] by simp
    then have "\<exists>s. metric_schema ed m = Some s"
      by (cases ed; cases "fld m ''standardAttributes''") (auto simp: js_or_def readable_list_def)
    then obtain s where s: "metric_schema ed m = Some s" by blast
    have "makes (event_metric_type S) (edit_http_metric xs ed x)" if "fits (Rec (event_metric_fields S)) (Obj x)" for x
      using that T by (intro edit_http_metric_typing xs(2)) (auto simp: event_metric_type_def)
    then have "makes (policy_type P S) (update_item ''eventMetricPolicies'' j (edit_http_metric xs ed) p)"
      unfolding policy_type_def
      by (intro update_item_typing [OF p' policy_keys(4) [unfolded event_metric_type_def] h]) (simp add: event_metric_type_def)
    then show ?thesis unfolding edit_metric_at_def xs(1) bind.bind_lunit m own_entries.simps s
      using schema_typing(2) by (intro makes_bind) auto
  qed
  then show ?thesis using p by (simp add: shown_metric_def)
qed

lemma edit_global_at_typing:
  assumes p: "fits (policy_type P S) (Obj p)"
    and E: "\<And>v. http_value_edit (EditGlobal i ed) = Some v \<Longrightarrow> E v"
  shows "makes (policy_type P S) (http_change direction (EditGlobal i ed) p)"
proof -
  note p' = p [unfolded policy_type_def]
  have "makes (global_type P) (edit_global ed x)" if "fits (Rec (global_fields P)) (Obj x)" for x
    using that E by (intro edit_global_typing) (auto simp: global_type_def)
  then have "makes (policy_type P S) (update_item ''metricPolicies'' i (edit_global ed) p)"
    if "has_row ''metricPolicies'' i p"
    unfolding policy_type_def
    by (intro update_item_typing [OF p' policy_keys(1) [unfolded global_type_def] that]) (simp add: global_type_def)
  then have "makes (policy_type P S) (edit_global_at i ed p)" if "has_row ''metricPolicies'' i p"
    unfolding edit_global_at_def using that schema_typing(2) by (intro makes_map) auto
  then show ?thesis using p by (simp add: shown_def)
qed

lemma http_change_typing:
  assumes p: "fits (policy_type P S) (Obj p)"
    and E: "\<And>v. http_value_edit op = Some v \<Longrightarrow> E v" and T: "ticks_standard op \<Longrightarrow> T"
  shows "makes (policy_type P S) (http_change direction op p)"
proof -
  note p' = p [unfolded policy_type_def]
  show ?thesis
  proof (cases op)
    case (AddRule now)
    then show ?thesis using add_rule_typing [OF p] by simp
  next
    case (EditRule i ed)
    then show ?thesis using E by (simp only: EditRule) (rule edit_rule_at_typing [OF p])
  next
    case (AddMetric now i)
    have "fits (event_metric_type S) (Obj (new_metric now name))" for name
      using S_none by (simp add: event_metric_type_def event_metric_fields_def new_metric_def newEventMetric_def Let_def
          fld_def fits.simps(3))
    then show ?thesis using p append_item_typing(1) [OF p' policy_keys(4)]
      by (simp add: AddMetric add_metric_def policy_type_def)
  next
    case (EditMetric i j ed)
    then show ?thesis using T by (simp only: EditMetric) (rule edit_metric_at_typing [OF p])
  next
    case (AddGlobal ident)
    have "fits (global_type P) (Obj (createHTTPDurationMetricPolicy d ident))" for d
      by (simp add: global_type_def global_fields_def createHTTPDurationMetricPolicy_def fld_def fits.simps(3) nullish_def)
    then show ?thesis using append_item_typing(1) [OF schema_typing(1) [OF p, unfolded policy_type_def] policy_keys(1)]
      by (simp add: AddGlobal add_global_def policy_type_def)
  next
    case (EditGlobal i ed)
    then show ?thesis using E by (simp only: EditGlobal) (rule edit_global_at_typing [OF p])
  qed (use p remove_http_typing [OF p] rename_http_typing [OF p] drop_item_typing [OF p' policy_keys(1)]
      drop_item_typing [OF p' policy_keys(4)] in \<open>simp_all add: policy_type_def\<close>)
qed

lemma method_change_typing:
  assumes p: "fits (policy_type P S) (Obj p)" and E: "\<And>v. method_value_edit op = Some v \<Longrightarrow> E v"
  shows "makes (policy_type P S) (method_change op p)"
proof -
  note p' = p [unfolded policy_type_def]
  show ?thesis
  proof (cases op)
    case (AddMethod now)
    have "fits (method_type P) (Obj (newMethodPolicy now))"
      by (simp add: method_type_def method_fields_def newMethodPolicy_def fld_def fits.simps(3))
    then show ?thesis using append_item_typing(1) [OF p' policy_keys(2)] by (simp add: AddMethod policy_type_def)
  next
    case (RemoveMethod i)
    then show ?thesis using p drop_item_typing [OF p' policy_keys(2)] by (simp add: policy_type_def)
  next
    case (EditMethod i ed)
    have "makes (method_type P) (edit_method ed x)" if "fits (Rec (method_fields P)) (Obj x)" for x
      using that E by (intro edit_method_typing) (auto simp: method_type_def EditMethod)
    then have "makes (policy_type P S) (update_item ''methodPolicies'' i (edit_method ed) p)"
      if "has_row ''methodPolicies'' i p"
      unfolding policy_type_def
      by (intro update_item_typing [OF p' policy_keys(2) [unfolded method_type_def] that]) (simp add: method_type_def)
    then show ?thesis using p schema_typing(2) by (auto simp: EditMethod intro!: makes_map)
  qed
qed

lemma row_declared: "k \<noteq> ''schemaVersion'' \<Longrightarrow> has_row k i (declare_1_5 p) = has_row k i p"
  by (simp add: has_row_def declare_1_5_def fld_obj_put)

lemma edit_event_typing:
  assumes p: "fits (policy_type P S) (Obj p)"
    and E: "\<And>v. messaging_value_edit (EditEvent i ed) = Some v \<Longrightarrow> E v"
  shows "makes (policy_type P S) (messaging_change family (EditEvent i ed) p)"
proof -
  note p' = p [unfolded policy_type_def]
  note d' = schema_typing(3) [OF p, unfolded policy_type_def]
  have "makes (message_type P) (edit_messaging ed x)" if "fits (Rec (message_fields P)) (Obj x)" for x
    using that E by (intro edit_messaging_typing) (auto simp: message_type_def)
  then have "makes (policy_type P S) (update_item ''messagingEventPolicies'' i (edit_messaging ed) (declare_1_5 p))"
    if "has_row ''messagingEventPolicies'' i p"
    unfolding policy_type_def using that
    by (intro update_item_typing [OF d' policy_keys(5) [unfolded message_type_def]]) (simp_all add: message_type_def row_declared)
  then have "makes (policy_type P S) (edit_event_at i ed p)" if "has_row ''messagingEventPolicies'' i p"
    unfolding edit_event_at_def using that schema_typing(2) by (intro makes_map) auto
  then show ?thesis using p by (simp add: shown_event_def)
qed

lemma edit_event_metric_typing:
  assumes p: "fits (policy_type P S) (Obj p)"
  shows "makes (policy_type P S) (messaging_change family (EditEventMetric i j ed) p)"
proof -
  note p' = p [unfolded policy_type_def]
  note d' = schema_typing(3) [OF p, unfolded policy_type_def]
  have "makes (policy_type P S) (edit_event_metric_at i j ed p)"
    if h: "has_row ''messagingEventPolicies'' i p" "has_row ''messagingMetricPolicies'' j p"
  proof -
    note r = row_typing(1) [OF p' policy_keys(5) h(1), unfolded message_type_def]
    obtain e where e: "row ''messagingEventPolicies'' i p = Obj e" using fits_Rec_Obj [OF r] by blast
    obtain xs where xs: "fld e ''fields'' = Arr xs" "\<forall>x\<in>set xs. fits (field_type P) x"
      using items_of [OF r [unfolded e] message_keys(2)] by blast
    then have o: "\<forall>x\<in>set xs. is_obj x" using fits_is_obj unfolding field_type_def by blast
    have "set (map fst message_metric_fields) \<subseteq> {''dimensions'', ''standardAttributes''}" by (simp add: message_metric_fields_def)
    then have "makes (Rec message_metric_fields) (edit_metric xs ed x)" if "fits (Rec message_metric_fields) (Obj x)" for x
      using that o by (intro edit_metric_typing metric_keys(3))
    then show ?thesis unfolding edit_event_metric_at_def e policy_type_def using h(2)
      by (simp add: xs(1) list_or_def js_or_def)
        (intro update_item_typing [OF d' policy_keys(6) [unfolded message_metric_type_def]], simp_all add: row_declared)
  qed
  then show ?thesis using p by (simp add: shown_event_metric_def shown_event_def)
qed

lemma messaging_change_typing:
  assumes p: "fits (policy_type P S) (Obj p)" and E: "\<And>v. messaging_value_edit op = Some v \<Longrightarrow> E v"
  shows "makes (policy_type P S) (messaging_change family op p)"
proof -
  note p' = p [unfolded policy_type_def]
  note d = schema_typing(3) [OF p]
  note d' = d [unfolded policy_type_def]
  show ?thesis
  proof (cases op)
    case (AddEvent now)
    have "fits (message_type P) (Obj (newEvent now scope name))" for scope name
      by (simp add: message_type_def message_fields_def newEvent_def fld_def fits.simps(3) nullish_def log_settings_def
          condition_type_def newCondition_def strs_def)
    then show ?thesis using append_item_typing(1) [OF d' policy_keys(5)] by (simp add: AddEvent add_event_def policy_type_def)
  next
    case (EditEvent i ed)
    then show ?thesis using E by (simp only: EditEvent) (rule edit_event_typing [OF p])
  next
    case (AddEventMetric now i)
    have "fits message_metric_type (Obj (newMetric now name))" for name
      by (simp add: message_metric_type_def message_metric_fields_def newMetric_def fld_def fits.simps(3))
    then show ?thesis using p append_item_typing(1) [OF d' policy_keys(6)] by (simp add: AddEventMetric policy_type_def)
  next
    case (EditEventMetric i j ed)
    then show ?thesis using edit_event_metric_typing [OF p] by simp
  qed (use p remove_messaging_typing [OF p] rename_messaging_typing [OF p] drop_item_typing [OF p' policy_keys(6)] in
      \<open>simp_all add: policy_type_def\<close>)
qed

end

end
