(* ===== verification/Form_Schema.thy ===== *)
theory Form_Schema
  imports Form_Soundness
begin

section \<open>What the forms guarantee: no failure, and a schema that covers the document\<close>

text \<open>
  The three forms together: no sequence of their changes raises, and the changes of the HTTP and of the
  method form keep a declared schema that covers what the document uses.
\<close>

definition no_passthrough :: "jsval \<Rightarrow> bool" where
  "no_passthrough v \<longleftrightarrow> get v ''type'' \<noteq> Str ''PASSTHROUGH''"

definition none_selected :: "jsval \<Rightarrow> bool" where
  "none_selected v \<longleftrightarrow> \<not> nonempty v"

definition document_type :: ty where
  "document_type = policy_type (\<lambda>_. True) (\<lambda>_. True)"

lemma type_not_index: "map_of (map (\<lambda>i. (nat_str i, f i)) is) ''type'' = None"
proof (induction "is")
  case (Cons i "is")
  have "\<not> is_digit (hd ''type'')" by code_simp
  then have "nat_str i \<noteq> ''type''"
    using nat_str_digits [of i] nat_str_nonempty [of i] by (metis hd_in_set)
  then show ?case using Cons by simp
qed simp

lemma own_type: "fld (own_entries v) ''type'' \<noteq> Undef \<Longrightarrow> fld (own_entries v) ''type'' = get v ''type''"
  by (cases v) (simp_all add: fld_def object_prototype_def type_not_index)

lemma no_passthrough_edit:
  assumes "no_passthrough v" "value_schema ed = None"
  shows "no_passthrough (Obj (edit_value main_change_type ed (own_entries v)))"
    "no_passthrough (Obj (edit_value messaging_change_type ed (own_entries v)))"
proof -
  have "fld (own_entries v) ''type'' \<noteq> Str ''PASSTHROUGH''"
    using assms(1) own_type [of v] by (auto simp: no_passthrough_def)
  then show "no_passthrough (Obj (edit_value main_change_type ed (own_entries v)))"
    "no_passthrough (Obj (edit_value messaging_change_type ed (own_entries v)))"
    using assms(2) by (cases ed; auto simp: no_passthrough_def main_change_type_def messaging_change_type_def
        change_type_def required_by_type_def set_allowed_def set_ranges_def set_fallback_def fld_obj_put split: if_splits)+
qed

text \<open>The contract for all documents, for those without values passed through, and for those whose
  metrics select no standard attribute.\<close>

interpretation anything: document_contract "\<lambda>_. True" "\<lambda>_. True" "\<lambda>_. True" True
  by unfold_locales auto

interpretation controlled: document_contract no_passthrough "\<lambda>_. True" "\<lambda>ed. value_schema ed = None" True
proof
  show "no_passthrough Undef" by (simp add: no_passthrough_def)
  show "no_passthrough (Obj main_bounded)" "no_passthrough (Obj rangePolicy)" "no_passthrough (Obj messaging_bounded)"
    by (simp_all add: no_passthrough_def bounded_def rangePolicy_def messaging_bounded_def fld_def)
qed (use no_passthrough_edit in auto)

interpretation unselected: document_contract "\<lambda>_. True" none_selected "\<lambda>_. True" False
  by unfold_locales (auto simp: none_selected_def nonempty_def js_or_def)

subsection \<open>The forms as one editor\<close>

datatype form_op = Http string http_op | Method method_op | Messaging string messaging_op

fun form_change :: "form_op \<Rightarrow> jsobj \<Rightarrow> jsobj option" where
  "form_change (Http direction op) p = http_change direction op p"
| "form_change (Method op) p = method_change op p"
| "form_change (Messaging family op) p = messaging_change family op p"

fun form_run :: "form_op list \<Rightarrow> jsobj \<Rightarrow> jsobj option" where
  "form_run [] p = Some p"
| "form_run (op # ops) p = do { q \<leftarrow> form_change op p; form_run ops q }"

lemma form_change_typing: "fits document_type (Obj p) \<Longrightarrow> makes document_type (form_change op p)"
  unfolding document_type_def
  by (cases op) (simp_all add: anything.http_change_typing anything.method_change_typing anything.messaging_change_typing)

lemma form_run_typing: "fits document_type (Obj p) \<Longrightarrow> makes document_type (form_run ops p)"
  by (induction ops arbitrary: p) (auto intro: makes_bind form_change_typing)

text \<open>C2: The forms never fail: on a document of the type, in particular on the blank one, every sequence of
  changes made with the controls of the HTTP, method and messaging forms, in any order, gives a document,
  again of the type; no handler raises.\<close>

theorem forms_never_fail:
  assumes "fits document_type (Obj policy)"
  shows "\<exists>result. form_run ops policy = Some result \<and> fits document_type (Obj result)"
  using form_run_typing [OF assms] by (simp add: makes_def)

theorem forms_never_fail_witness:
  "\<exists>result. form_run [Http ''INCOMING'' (AddRule 1), Method (AddMethod 2), Messaging ''kafka'' (AddEvent 3)] emptyPolicy =
     Some result \<and> fits document_type (Obj result)"
proof (rule forms_never_fail)
  show "fits document_type (Obj emptyPolicy)"
    by (simp add: document_type_def policy_type_def policy_fields_def emptyPolicy_def fits.simps(3) fld_def)
qed

end
