(* ===== verification/Schema_Props.thy ===== *)
theory Schema_Props
  imports Form_Schema
begin

section \<open>The declared schema covers what the document needs\<close>

text \<open>
  A typed document is one whose required schema can be computed; the schema a document declares
  covers it when its rank is at least the required one. The lemmas express the features that raise
  the required schema by the document types of \<open>Form_Schema\<close>, so that their preservation is a typing
  fact.
\<close>

subsection \<open>The features of a typed document\<close>

definition policies_below :: "string list \<Rightarrow> jsval list \<Rightarrow> jsval list" where
  "policies_below keys xs = concat (map (\<lambda>x. concat (map (\<lambda>k. map (\<lambda>y. get y ''valuePolicy'') (array (get x k))) keys)) xs)"

lemma all_policies_below:
  "(\<forall>v\<in>set (policies_below keys xs). Q v) \<longleftrightarrow>
    (\<forall>x\<in>set xs. \<forall>k\<in>set keys. \<forall>y\<in>set (array (get x k)). Q (get y ''valuePolicy''))"
  by (auto simp: policies_below_def)

definition has_lists :: "string list \<Rightarrow> jsval \<Rightarrow> bool" where
  "has_lists keys x \<longleftrightarrow> is_obj x \<and> (\<forall>k\<in>set keys. is_array (get x k) \<and> (\<forall>y\<in>set (array (get x k)). is_obj y))"

lemma getx_obj [simp]: "is_obj x \<Longrightarrow> getx x k = Some (get x k)"
  by (cases x) (auto simp: getx_def nullish_def)

lemma list_or_array [simp]: "is_array v \<Longrightarrow> list_or v = Some (array v)"
  by (cases v) (auto simp: list_or_def js_or_def)

lemma nested_value_policies_lists:
  assumes "is_array v" "\<forall>x\<in>set (array v). has_lists keys x"
  shows "nested_value_policies keys v = Some (policies_below keys (array v))"
proof -
  have vp: "value_policies w = Some (map (\<lambda>y. get y ''valuePolicy'') (array w))"
    if "is_array w" "\<forall>y\<in>set (array w). is_obj y" for w
    using that by (simp add: value_policies_def) (rule map_opt_total, simp)
  have "map_opt (\<lambda>k. getx x k \<bind> value_policies) keys = Some (map (\<lambda>k. map (\<lambda>y. get y ''valuePolicy'') (array (get x k))) keys)"
    if "has_lists keys x" for x
    using that by (intro map_opt_total) (simp add: has_lists_def vp)
  then have "map_opt (\<lambda>x. flat_map_opt (\<lambda>k. getx x k \<bind> value_policies) keys) (array v) =
      Some (map (\<lambda>x. concat (map (\<lambda>k. map (\<lambda>y. get y ''valuePolicy'') (array (get x k))) keys)) (array v))"
    using assms(2) by (intro map_opt_total) (simp add: flat_map_opt_def)
  then show ?thesis using assms(1) by (simp add: nested_value_policies_def flat_map_opt_def policies_below_def)
qed

text \<open>The value policies of the four collections of a typed document.\<close>

definition value_policies_of :: "jsobj \<Rightarrow> jsval list" where
  "value_policies_of p =
     policies_below [''customAttributes''] (array (fld p ''metricPolicies'')) @
     policies_below [''captures''] (array (fld p ''methodPolicies'')) @
     policies_below [''fields'', ''derivedFields''] (array (fld p ''bodyEventPolicies'')) @
     policies_below [''fields''] (array (fld p ''messagingEventPolicies''))"

lemma typed_collection:
  assumes "fits document_type (Obj p)"
  shows "fits (Items (global_type (\<lambda>_. True))) (fld p ''metricPolicies'')"
    "fits (Items (method_type (\<lambda>_. True))) (fld p ''methodPolicies'')"
    "fits (Items (rule_type (\<lambda>_. True))) (fld p ''bodyEventPolicies'')"
    "fits (Items (event_metric_type (\<lambda>_. True))) (fld p ''eventMetricPolicies'')"
    "fits (Items (message_type (\<lambda>_. True))) (fld p ''messagingEventPolicies'')"
    "fits (Items message_metric_type) (fld p ''messagingMetricPolicies'')"
  using fits_at [OF policy_keys(1) assms [unfolded document_type_def policy_type_def]]
    fits_at [OF policy_keys(2) assms [unfolded document_type_def policy_type_def]]
    fits_at [OF policy_keys(3) assms [unfolded document_type_def policy_type_def]]
    fits_at [OF policy_keys(4) assms [unfolded document_type_def policy_type_def]]
    fits_at [OF policy_keys(5) assms [unfolded document_type_def policy_type_def]]
    fits_at [OF policy_keys(6) assms [unfolded document_type_def policy_type_def]] by simp_all

lemma typed_lists_below:
  assumes "fits document_type (Obj p)"
  shows "is_array (fld p ''metricPolicies'')" "\<forall>x\<in>set (array (fld p ''metricPolicies'')). has_lists [''customAttributes''] x"
    "is_array (fld p ''methodPolicies'')" "\<forall>x\<in>set (array (fld p ''methodPolicies'')). has_lists [''captures''] x"
    "is_array (fld p ''bodyEventPolicies'')" "\<forall>x\<in>set (array (fld p ''bodyEventPolicies'')). has_lists [''fields'', ''derivedFields''] x"
    "is_array (fld p ''messagingEventPolicies'')" "\<forall>x\<in>set (array (fld p ''messagingEventPolicies'')). has_lists [''fields''] x"
  using typed_collection [OF assms]
  by (auto simp: has_lists_def type_defs field_defs field_type_def capture_type_def fits.simps(3))

lemma passthrough_of_typed:
  assumes "fits document_type (Obj p)"
  shows "policyUsesPassthroughValuePolicy p = Some (\<exists>v\<in>set (value_policies_of p). \<not> no_passthrough v)"
  unfolding policyUsesPassthroughValuePolicy_def
    nested_value_policies_lists [OF typed_lists_below(1,2) [OF assms]] nested_value_policies_lists [OF typed_lists_below(3,4) [OF assms]]
    nested_value_policies_lists [OF typed_lists_below(5,6) [OF assms]] nested_value_policies_lists [OF typed_lists_below(7,8) [OF assms]]
  by (simp add: value_policies_of_def no_passthrough_def bex_Un)

lemma controlled_iff:
  assumes "fits document_type (Obj p)"
  shows "fits (policy_type no_passthrough (\<lambda>_. True)) (Obj p) \<longleftrightarrow> (\<forall>v\<in>set (value_policies_of p). no_passthrough v)"
proof -
  note c = typed_collection [OF assms]
  have "fits (Items (global_type no_passthrough)) (fld p ''metricPolicies'') \<longleftrightarrow>
      (\<forall>v\<in>set (policies_below [''customAttributes''] (array (fld p ''metricPolicies''))). no_passthrough v)"
    using c(1) by (auto simp: all_policies_below global_type_def global_fields_def field_type_def fits.simps(3))
  moreover have "fits (Items (method_type no_passthrough)) (fld p ''methodPolicies'') \<longleftrightarrow>
      (\<forall>v\<in>set (policies_below [''captures''] (array (fld p ''methodPolicies''))). no_passthrough v)"
    using c(2) by (auto simp: all_policies_below method_type_def method_fields_def capture_type_def fits.simps(3))
  moreover have "fits (Items (rule_type no_passthrough)) (fld p ''bodyEventPolicies'') \<longleftrightarrow>
      (\<forall>v\<in>set (policies_below [''fields'', ''derivedFields''] (array (fld p ''bodyEventPolicies''))). no_passthrough v)"
    using c(3) by (auto simp: all_policies_below rule_type_def rule_fields_def field_type_def fits.simps(3))
  moreover have "fits (Items (message_type no_passthrough)) (fld p ''messagingEventPolicies'') \<longleftrightarrow>
      (\<forall>v\<in>set (policies_below [''fields''] (array (fld p ''messagingEventPolicies''))). no_passthrough v)"
    using c(5) by (auto simp: all_policies_below message_type_def message_fields_def field_type_def fits.simps(3))
  ultimately show ?thesis using c(4,6)
    by (simp add: policy_type_def policy_fields_def value_policies_of_def ball_Un fits.simps(3) del: fits.simps(2))
qed

lemma standard_of_typed:
  assumes "fits document_type (Obj p)"
  shows "metricsUseStandardAttributes p =
    Some (\<not> fits (policy_type (\<lambda>_. True) none_selected) (Obj p))"
proof -
  note c = typed_collection [OF assms]
  have o: "is_array (fld p ''eventMetricPolicies'')" "\<forall>m\<in>set (array (fld p ''eventMetricPolicies'')). is_obj m"
    using c(4) by (auto simp: event_metric_type_def fits.simps(3))
  have "metricsUseStandardAttributes p =
      Some (\<exists>m\<in>set (array (fld p ''eventMetricPolicies'')). nonempty (get m ''standardAttributes''))"
    unfolding metricsUseStandardAttributes_def using o by (simp add: some_opt_total)
  moreover have "fits (Items (event_metric_type none_selected)) (fld p ''eventMetricPolicies'') \<longleftrightarrow>
      (\<forall>m\<in>set (array (fld p ''eventMetricPolicies'')). \<not> nonempty (get m ''standardAttributes''))"
    using c(4) by (auto simp: event_metric_type_def event_metric_fields_def none_selected_def fits.simps(3))
  ultimately show ?thesis using c
    by (simp add: policy_type_def policy_fields_def fits.simps(3) del: fits.simps(2))
qed

lemma item_of_event:
  assumes "fits document_type (Obj p)" "\<And>x. is_obj x \<Longrightarrow> readable_list (get x ''values'') \<Longrightarrow> \<exists>b. q x = Some b"
  shows "\<exists>b. some_event_item q p = Some b"
proof -
  note c = typed_collection(3) [OF assms(1)]
  have inner: "\<exists>b. (do { c \<leftarrow> getx e ''conditions''; conditions \<leftarrow> items_or c; f \<leftarrow> getx e ''fields''; fs \<leftarrow> items_or f;
      some_opt q (conditions @ fs) }) = Some b" if "fits (rule_type (\<lambda>_. True)) e" for e
  proof -
    have e: "is_obj e" "is_array (get e ''conditions'')" "is_array (get e ''fields'')"
      "\<forall>x\<in>set (array (get e ''conditions'')). is_obj x \<and> readable_list (get x ''values'')"
      "\<forall>x\<in>set (array (get e ''fields'')). is_obj x \<and> readable_list (get x ''values'')"
      using that by (simp_all add: rule_type_def rule_fields_def condition_type_def field_type_def fits.simps(3))
    have "\<exists>b. some_opt q (array (get e ''conditions'') @ array (get e ''fields'')) = Some b"
      using e(4,5) assms(2) by (intro some_opt_exists) auto
    moreover have "items_or w = Some (array w)" if "is_array w" for w
      using that by (cases w) (auto simp: items_or_def js_or_def)
    ultimately show ?thesis using e by simp
  qed
  have "\<exists>b. some_opt (\<lambda>e. do { c \<leftarrow> getx e ''conditions''; conditions \<leftarrow> items_or c; f \<leftarrow> getx e ''fields''; fs \<leftarrow> items_or f;
      some_opt q (conditions @ fs) }) (array (fld p ''bodyEventPolicies'')) = Some b"
    by (rule some_opt_exists) (use c inner in simp)
  then show ?thesis using c by (simp add: some_event_item_def)
qed

lemma sources_of_typed:
  assumes "fits document_type (Obj p)"
  shows "\<exists>b. httpEventUsesPathParameters p = Some b" "\<exists>b. httpEventUsesExtendedSources p = Some b"
  unfolding httpEventUsesPathParameters_def httpEventUsesExtendedSources_def
  by (rule item_of_event [OF assms], auto simp: path_parameter_item_def extended_source_def)+

subsection \<open>The version a document declares\<close>

definition version :: "jsobj \<Rightarrow> int" where
  "version p = policySchemaRank (fld p ''schemaVersion'')"

definition covers :: "jsobj \<Rightarrow> bool" where
  "covers p \<longleftrightarrow> fits document_type (Obj p) \<and> 1005 \<le> version p \<and>
     (fits (policy_type no_passthrough (\<lambda>_. True)) (Obj p) \<or> 1007 \<le> version p) \<and>
     (fits (policy_type (\<lambda>_. True) none_selected) (Obj p) \<or> 1006 \<le> version p)"

lemma rank_of_text: "0 \<le> policySchemaRank v \<Longrightarrow> policySchemaRank (Str (str_or v ''1.3'')) = policySchemaRank v"
proof -
  assume "0 \<le> policySchemaRank v"
  moreover have "policySchemaRank v = -1" if "\<not> truthy v"
  proof -
    have "match_version (js_trim []) = None" by code_simp
    then show ?thesis using that by (simp add: policySchemaRank_def)
  qed
  ultimately have "truthy v" by fastforce
  then show ?thesis by (cases "to_str v = []") (auto simp: policySchemaRank_def str_or_def js_or_def)
qed

lemma covers_required:
  assumes "covers p"
  shows "\<exists>s. requiredPolicySchema p = Some s \<and> policySchemaRank (Str s) \<le> version p"
proof -
  have t: "fits document_type (Obj p)" "1005 \<le> version p"
    "fits (policy_type no_passthrough (\<lambda>_. True)) (Obj p) \<or> 1007 \<le> version p"
    "fits (policy_type (\<lambda>_. True) none_selected) (Obj p) \<or> 1006 \<le> version p" using assms by (simp_all add: covers_def)
  obtain b c where bc: "httpEventUsesPathParameters p = Some b" "httpEventUsesExtendedSources p = Some c"
    using sources_of_typed [OF t(1)] by blast
  have "policySchemaRank (Str (str_or (fld p ''schemaVersion'') ''1.3'')) = version p"
    using rank_of_text t(2) by (simp add: version_def)
  then show ?thesis using t(2-4)
    by (auto simp: requiredPolicySchema_def passthrough_of_typed [OF t(1)] standard_of_typed [OF t(1)] bc ranks
        controlled_iff [OF t(1)])
qed

lemma version_put [simp]: "k \<noteq> ''schemaVersion'' \<Longrightarrow> version (obj_put k v p) = version p"
  by (simp add: version_def fld_obj_put)

lemma version_require: "version (require_schema s p) = max (version p) (policySchemaRank (Str s))"
  by (simp add: version_def require_schema_def fld_obj_put ensurePolicySchema_def)

lemma version_require_if: "version p \<le> version (require_if r p)"
  "r = Some s \<Longrightarrow> policySchemaRank (Str s) \<le> version (require_if r p)"
  by (cases r; simp add: require_if_def version_require)+

lemma version_lists:
  assumes "k \<noteq> ''schemaVersion''"
  shows "edit_list k f p = Some q \<Longrightarrow> version q = version p" "append_item k v p = Some q \<Longrightarrow> version q = version p"
    "edit_item k i g p = Some q \<Longrightarrow> version q = version p" "drop_item k i p = Some q \<Longrightarrow> version q = version p"
    "update_item k i h p = Some q \<Longrightarrow> version q = version p"
  using assms by (auto simp: edit_list_def append_item_def edit_item_def drop_item_def update_item_def bind_eq_Some_conv)

lemma version_spread: "a \<noteq> ''schemaVersion'' \<Longrightarrow> b \<noteq> ''schemaVersion'' \<Longrightarrow> version (obj_spread p [(a, u), (b, v)]) = version p"
  by (simp add: spread_two)

lemma version_remove_rename:
  "removeHTTPEventAt p i = Some q \<Longrightarrow> version q = version p" "renameHTTPEventAt p i s = Some q \<Longrightarrow> version q = version p"
  by (auto simp: removeHTTPEventAt_def renameHTTPEventAt_def Let_def bind_eq_Some_conv version_spread split: if_splits)

lemma value_schema_1_7: "value_schema ed = Some s \<Longrightarrow> s = ''1.7''"
  by (cases ed) (auto simp: required_by_type_def split: if_splits)

lemma version_update:
  assumes "update_item k i f p = Some r" "k \<noteq> ''schemaVersion''"
  shows "version p \<le> version (require_if s r)" "s \<noteq> None \<Longrightarrow> s = value_schema v \<Longrightarrow> 1007 \<le> version (require_if s r)"
proof -
  have r: "version r = version p" using version_lists(5) [OF assms(2,1)] .
  then show "version p \<le> version (require_if s r)" using version_require_if(1) [of r s] by simp
  assume "s \<noteq> None" "s = value_schema v"
  then have "s = Some ''1.7''" using value_schema_1_7 by (cases s) auto
  then show "1007 \<le> version (require_if s r)" using version_require_if(2) ranks(1) by metis
qed

lemma rule_schema_value: "http_value_edit (EditRule i ed) = Some v \<Longrightarrow> rule_schema ed = value_schema v"
  by (cases "EditRule i ed" rule: http_value_edit.cases) auto

lemma global_schema_value: "http_value_edit (EditGlobal i ed) = Some v \<Longrightarrow> global_schema ed = value_schema v"
  by (cases ed) auto

lemma http_version:
  assumes "http_change direction op p = Some q"
  shows "version p \<le> version q \<and>
    (q = p \<or> (\<forall>ed. http_value_edit op = Some ed \<longrightarrow> value_schema ed \<noteq> None \<longrightarrow> 1007 \<le> version q))"
proof (cases op)
  case (EditRule i ed)
  have "q = p \<or> (\<exists>r. update_item ''bodyEventPolicies'' i (edit_rule ed) p = Some r \<and> q = require_if (rule_schema ed) r)"
    using assms by (auto simp: EditRule edit_rule_at_def split: if_splits)
  then consider "q = p" | r where "update_item ''bodyEventPolicies'' i (edit_rule ed) p = Some r" "q = require_if (rule_schema ed) r"
    by blast
  then show ?thesis
  proof cases
    case 2
    then show ?thesis using version_update [OF 2(1)] rule_schema_value by (auto simp: EditRule)
  qed simp
next
  case (EditGlobal i ed)
  have "q = p \<or> (\<exists>r. update_item ''metricPolicies'' i (edit_global ed) p = Some r \<and> q = require_if (global_schema ed) r)"
    using assms by (auto simp: EditGlobal edit_global_at_def split: if_splits)
  then consider "q = p" | r where "update_item ''metricPolicies'' i (edit_global ed) p = Some r" "q = require_if (global_schema ed) r"
    by blast
  then show ?thesis
  proof cases
    case 2
    then show ?thesis using version_update [OF 2(1)] global_schema_value by (auto simp: EditGlobal)
  qed simp
next
  case (EditMetric i j ed)
  have "q = p \<or> (\<exists>r s. version r = version p \<and> q = require_if s r)"
    using assms version_lists(5) [of "''eventMetricPolicies''"]
    by (fastforce simp: EditMetric edit_metric_at_def bind_eq_Some_conv split: if_splits)
  then obtain r s where "q = p \<or> (version r = version p \<and> q = require_if s r)" by blast
  then show ?thesis using version_require_if(1) [of r s] by (auto simp: EditMetric)
next
  case (AddRule now)
  then show ?thesis using assms
    by (auto simp: add_rule_def Let_def bind_eq_Some_conv version_require)
next
  case (AddMetric now i)
  then show ?thesis using assms version_lists(2) [of "''eventMetricPolicies''"]
    by (auto simp: add_metric_def split: if_splits)
next
  case (AddGlobal ident)
  then show ?thesis using assms version_lists(2) [of "''metricPolicies''"]
    by (fastforce simp: add_global_def version_require)
next
  case (RemoveRule i)
  then show ?thesis using assms version_remove_rename(1) [of p i q] by (auto split: if_splits)
next
  case (RenameRule i s)
  then show ?thesis using assms version_remove_rename(2) [of p i s q] by (auto split: if_splits)
next
  case (RemoveMetric i j)
  then show ?thesis using assms version_lists(4) [of "''eventMetricPolicies''" j p q] by (auto split: if_splits)
next
  case (RemoveGlobal i)
  then show ?thesis using assms version_lists(4) [of "''metricPolicies''" i p q] by (auto split: if_splits)
qed

lemma not_selected: "readable_list v \<Longrightarrow> none_selected v \<Longrightarrow> val_includes (js_or v (Arr [])) x = Some False"
  by (cases v) (auto simp: none_selected_def nonempty_def js_or_def readable_list_def)

lemma ticking_raises:
  assumes p: "fits (policy_type (\<lambda>_. True) none_selected) (Obj p)" and "ticks_standard op"
    and q: "http_change direction op p = Some q"
  shows "q = p \<or> 1006 \<le> version q"
proof -
  obtain i j a where op: "op = EditMetric i j (ToggleStandard a)"
    using assms(2) by (cases op rule: ticks_standard.cases) auto
  show ?thesis
  proof (cases "shown_metric direction i j p")
    case True
    then have h: "has_row ''eventMetricPolicies'' j p" by (simp add: shown_metric_def)
    note r = row_typing(1) [OF p [unfolded policy_type_def] policy_keys(4) h, unfolded event_metric_type_def]
    obtain m where m: "row ''eventMetricPolicies'' j p = Obj m" using fits_Rec_Obj [OF r] by blast
    have "readable_list (fld m ''standardAttributes'') \<and> none_selected (fld m ''standardAttributes'')"
      using fits_at [OF metric_keys(2) r [unfolded m]] by simp
    then have "metric_schema (ToggleStandard a) m = Some (Some ''1.6'')" by (simp add: not_selected)
    then obtain r where "q = require_if (Some ''1.6'') r"
      using q True by (auto simp: op edit_metric_at_def m bind_eq_Some_conv)
    then show ?thesis using version_require_if(2) ranks(2) by metis
  qed (use q in \<open>simp add: op\<close>)
qed

lemma http_covers:
  assumes "covers p"
  shows "\<exists>q. http_change direction op p = Some q \<and> covers q"
proof -
  have t: "fits document_type (Obj p)" using assms by (simp add: covers_def)
  obtain q where q: "http_change direction op p = Some q" "fits document_type (Obj q)"
    using anything.http_change_typing [OF t [unfolded document_type_def], of op direction]
    by (auto simp: document_type_def makes_def)
  note v = http_version [OF q(1)]
  have "fits (policy_type no_passthrough (\<lambda>_. True)) (Obj q) \<or> 1007 \<le> version q"
  proof (cases "fits (policy_type no_passthrough (\<lambda>_. True)) (Obj p) \<and> (\<forall>ed. http_value_edit op = Some ed \<longrightarrow> value_schema ed = None)")
    case True
    then show ?thesis using controlled.http_change_typing [of p op direction] q(1) by (simp add: makes_def)
  next
    case False
    then show ?thesis using v assms unfolding covers_def by auto
  qed
  moreover have "fits (policy_type (\<lambda>_. True) none_selected) (Obj q) \<or> 1006 \<le> version q"
  proof (cases "fits (policy_type (\<lambda>_. True) none_selected) (Obj p)")
    case True
    then show ?thesis
      using unselected.http_change_typing [of p op direction] ticking_raises [of p op direction q] q(1)
      by (cases "ticks_standard op") (auto simp: makes_def)
  next
    case False
    then show ?thesis using v assms unfolding covers_def by auto
  qed
  ultimately show ?thesis using q v assms unfolding covers_def by auto
qed

lemma method_version:
  assumes "method_change op p = Some q"
  shows "version p \<le> version q \<and>
    (q = p \<or> (\<forall>ed. method_value_edit op = Some ed \<longrightarrow> value_schema ed \<noteq> None \<longrightarrow> 1007 \<le> version q))"
proof (cases op)
  case (EditMethod i ed)
  consider "q = p" | r where "update_item ''methodPolicies'' i (edit_method ed) p = Some r" "q = require_if (method_schema ed) r"
    using assms by (auto simp: EditMethod split: if_splits)
  then show ?thesis
  proof cases
    case 2
    have "method_schema ed = value_schema v" if "method_value_edit op = Some v" for v
      using that by (cases ed) (auto simp: EditMethod)
    then show ?thesis using version_update [OF 2(1)] by (auto simp: 2(2))
  qed simp
qed (use assms version_lists(2,4) [of "''methodPolicies''"] in \<open>auto split: if_splits\<close>)

lemma method_covers:
  assumes "covers p"
  shows "\<exists>q. method_change op p = Some q \<and> covers q"
proof -
  have t: "fits document_type (Obj p)" using assms by (simp add: covers_def)
  obtain q where q: "method_change op p = Some q" "fits document_type (Obj q)"
    using anything.method_change_typing [OF t [unfolded document_type_def], of op]
    by (auto simp: document_type_def makes_def)
  note v = method_version [OF q(1)]
  have "fits (policy_type no_passthrough (\<lambda>_. True)) (Obj q) \<or> 1007 \<le> version q"
  proof (cases "fits (policy_type no_passthrough (\<lambda>_. True)) (Obj p) \<and> (\<forall>ed. method_value_edit op = Some ed \<longrightarrow> value_schema ed = None)")
    case True
    then show ?thesis using controlled.method_change_typing [of p op] q(1) by (simp add: makes_def)
  next
    case False
    then show ?thesis using v assms unfolding covers_def by auto
  qed
  moreover have "fits (policy_type (\<lambda>_. True) none_selected) (Obj q) \<or> 1006 \<le> version q"
  proof (cases "fits (policy_type (\<lambda>_. True) none_selected) (Obj p)")
    case True
    then show ?thesis using unselected.method_change_typing [of p op] q(1) by (simp add: makes_def)
  next
    case False
    then show ?thesis using v assms unfolding covers_def by auto
  qed
  ultimately show ?thesis using q v assms unfolding covers_def by auto
qed

subsection \<open>Properties\<close>

text \<open>Whether an operation belongs to the HTTP or the method form.\<close>

fun of_http_or_method :: "form_op \<Rightarrow> bool" where
  "of_http_or_method (Messaging family op) = False"
| "of_http_or_method _ = True"

lemma covers_run:
  "covers p \<Longrightarrow> \<forall>op\<in>set ops. of_http_or_method op \<Longrightarrow> \<exists>q. form_run ops p = Some q \<and> covers q"
proof (induction ops arbitrary: p)
  case (Cons op ops)
  then have "\<exists>q. form_change op p = Some q \<and> covers q"
    by (cases op) (use http_covers method_covers in auto)
  then show ?case using Cons by auto
qed simp

lemma covers_blank: "covers emptyPolicy"
proof -
  have "fits (policy_type P S) (Obj emptyPolicy)" for P S
    by (simp add: policy_type_def policy_fields_def emptyPolicy_def fits.simps(3) fld_def)
  moreover have "version emptyPolicy = 1005" by (simp add: version_def emptyPolicy_def fld_def ranks)
  ultimately show ?thesis by (simp add: covers_def document_type_def)
qed

text \<open>C1: From the blank document, whatever sequence of changes the controls of the HTTP and method forms make,
  the schema version the document declares covers the one its features require (values passed through,
  standard attributes, path parameters, headers and queries as sources).\<close>

theorem declared_schema_covers_the_required:
  assumes "\<forall>op\<in>set ops. of_http_or_method op"
  shows "\<exists>policy schema. form_run ops emptyPolicy = Some policy \<and> requiredPolicySchema policy = Some schema \<and>
    policySchemaRank (Str schema) \<le> policySchemaRank (fld policy ''schemaVersion'')"
  using covers_run [OF covers_blank assms] covers_required unfolding version_def by blast

theorem declared_schema_covers_the_required_witness:
  "\<exists>policy schema. form_run [Http ''INCOMING'' (AddGlobal ''g''), Http ''INCOMING'' (EditGlobal 0 AddLabel),
       Http ''INCOMING'' (EditGlobal 0 (LabelPolicy 0 (ChooseType ''PASSTHROUGH'')))] emptyPolicy = Some policy \<and>
     requiredPolicySchema policy = Some schema \<and>
     policySchemaRank (Str schema) \<le> policySchemaRank (fld policy ''schemaVersion'')"
  by (rule declared_schema_covers_the_required) simp

end
