(* ===== verification/Form_Props.thy ===== *)
theory Form_Props
  imports Schema_Props
begin

section \<open>What the forms do to the rest of the document\<close>

text \<open>
  A change of one rule leaves the others and every other property alone; the name of an event always
  goes somewhere; and the behaviours the handlers have that their texts do not announce: the schema
  version a messaging change writes, the row that stays when an attribute is called \<open>event.name\<close>, and
  the bucket that an empty text leaves.
\<close>

subsection \<open>Only the edited rule\<close>

lemma edit_item_frame:
  assumes "edit_item k i f p = Some q"
  shows "j \<noteq> k \<Longrightarrow> fld q j = fld p j" "length (array (fld q k)) = length (array (fld p k))"
    "n \<noteq> i \<Longrightarrow> array (fld q k) ! n = array (fld p k) ! n"
proof -
  obtain xs where "fld p k = Arr xs" "q = obj_put k (Arr (map_at i f xs)) p"
    using assms by (cases "fld p k") (auto simp: edit_item_def edit_list_def)
  then show "j \<noteq> k \<Longrightarrow> fld q j = fld p j" "length (array (fld q k)) = length (array (fld p k))"
    "n \<noteq> i \<Longrightarrow> array (fld q k) ! n = array (fld p k) ! n"
    by (auto simp: fld_obj_put map_at_def)
qed

lemma update_item_frame:
  assumes "update_item k i f p = Some q"
  shows "j \<noteq> k \<Longrightarrow> fld q j = fld p j" "length (array (fld q k)) = length (array (fld p k))"
    "n \<noteq> i \<Longrightarrow> array (fld q k) ! n = array (fld p k) ! n"
proof -
  obtain item where "edit_item k i (\<lambda>_. Obj item) p = Some q"
    using assms by (auto simp: update_item_def bind_eq_Some_conv)
  note edit_item_frame [OF this]
  then show "j \<noteq> k \<Longrightarrow> fld q j = fld p j" "length (array (fld q k)) = length (array (fld p k))"
    "n \<noteq> i \<Longrightarrow> array (fld q k) ! n = array (fld p k) ! n" by blast+
qed

lemma require_if_frame: "j \<noteq> ''schemaVersion'' \<Longrightarrow> fld (require_if s p) j = fld p j"
  by (cases s) (simp_all add: require_if_def require_schema_def fld_obj_put)

text \<open>Whatever control of an HTTP rule is used, only that rule changes: no other property of the document
  but the schema version, the number and the order of the rules, and no other rule.\<close>

theorem a_rule_edit_changes_only_its_rule:
  assumes "fits document_type (Obj policy)"
  shows "\<exists>result. form_change (Http direction (EditRule i ed)) policy = Some result \<and>
    (\<forall>k. k \<notin> {''bodyEventPolicies'', ''schemaVersion''} \<longrightarrow> fld result k = fld policy k) \<and>
    length (array (fld result ''bodyEventPolicies'')) = length (array (fld policy ''bodyEventPolicies'')) \<and>
    (\<forall>j. j \<noteq> i \<longrightarrow> array (fld result ''bodyEventPolicies'') ! j = array (fld policy ''bodyEventPolicies'') ! j)"
proof -
  obtain q where q: "form_change (Http direction (EditRule i ed)) policy = Some q"
    using form_change_typing [OF assms, of "Http direction (EditRule i ed)"] by (auto simp: makes_def)
  then consider "q = policy" | r where "update_item ''bodyEventPolicies'' i (edit_rule ed) policy = Some r"
      "q = require_if (rule_schema ed) r"
    by (auto simp: edit_rule_at_def split: if_splits)
  then show ?thesis
  proof cases
    case 2
    then show ?thesis using q update_item_frame [OF 2(1)] by (intro exI [of _ q]) (simp add: require_if_frame)
  qed (use q in blast)
qed

theorem a_rule_edit_changes_only_its_rule_witness:
  "\<exists>result. form_change (Http ''INCOMING'' (EditRule 0 (RuleName ''x''))) emptyPolicy = Some result \<and>
     fld result ''metricPolicies'' = fld emptyPolicy ''metricPolicies''"
proof -
  have "fits document_type (Obj emptyPolicy)" using covers_blank by (simp add: covers_def)
  from a_rule_edit_changes_only_its_rule [OF this, of "''INCOMING''" 0 "RuleName ''x''"] obtain q where
    "form_change (Http ''INCOMING'' (EditRule 0 (RuleName ''x''))) emptyPolicy = Some q"
    "\<forall>k. k \<notin> {''bodyEventPolicies'', ''schemaVersion''} \<longrightarrow> fld q k = fld emptyPolicy k" by blast
  moreover from this(2) have "fld q ''metricPolicies'' = fld emptyPolicy ''metricPolicies''" by simp
  ultimately show ?thesis by blast
qed

subsection \<open>The name of the event goes somewhere\<close>

definition name_goes_somewhere :: "jsobj \<Rightarrow> bool" where
  "name_goes_somewhere e \<longleftrightarrow>
     (case eventNameOutput e of
        Some output \<Rightarrow> distinct (no_destinations output) \<and> (no_value output = [] \<or> no_destinations output \<noteq> [])
      | None \<Rightarrow> False)"

definition offered_output :: "output_edit \<Rightarrow> bool" where
  "offered_output ed \<longleftrightarrow> (case ed of ToggleOutput d \<Rightarrow> d = ''SPAN'' \<or> d = ''LOG'' | _ \<Rightarrow> True)"

lemma output_of_static:
  assumes "fld e ''staticAttributes'' = fld e' ''staticAttributes''"
  shows "eventNameOutput e = eventNameOutput e'"
  using assms by (simp add: eventNameOutput_def)

lemma output_destinations: "eventNameOutput e = Some out \<Longrightarrow> span_or_log (no_destinations out) = no_destinations out"
  by (auto simp: eventNameOutput_def Let_def bind_eq_Some_conv)

lemma named_output:
  assumes "fits (rule_type (\<lambda>_. True)) (Obj e)" "distinct ds" "v = [] \<or> span_or_log ds \<noteq> []"
  shows "\<exists>q. withEventNameOutput e v ds = Some q \<and> name_goes_somewhere q"
proof -
  obtain xs where "fld e ''staticAttributes'' = Arr xs"
    using items_of [OF assms(1) [unfolded rule_type_def] rule_keys(4)] by blast
  then have r: "readable_list (fld e ''staticAttributes'')" by simp
  obtain q where q: "withEventNameOutput e v ds = Some q" using r by (simp add: withEventNameOutput_def)
  from eventNameOutput_result(1) [OF r q] show ?thesis
    using q assms(2,3) by (auto simp: name_goes_somewhere_def span_or_log_def)
qed

lemma ticked_destination:
  assumes "distinct (no_destinations out)" and only: "span_or_log (no_destinations out) = no_destinations out"
    and "d = ''SPAN'' \<or> d = ''LOG''" "\<not> output_disabled out d"
  shows "span_or_log (if Str d \<in> set (no_destinations out) then filter (\<lambda>x. x \<noteq> Str d) (no_destinations out)
    else no_destinations out @ [Str d]) \<noteq> []"
proof (cases "Str d \<in> set (no_destinations out)")
  case True
  then have "length (no_destinations out) \<noteq> 1" using assms(4) by (auto simp: output_disabled_def)
  then obtain x where "x \<in> set (no_destinations out)" "x \<noteq> Str d"
    using True assms(1) by (cases "no_destinations out"; cases "tl (no_destinations out)") auto
  then have "x \<in> set (span_or_log (filter (\<lambda>x. x \<noteq> Str d) (no_destinations out)))"
    using only True by (auto simp: span_or_log_def filter_id_conv)
  then show ?thesis using True by (metis empty_iff empty_set)
next
  case False
  then show ?thesis using assms(3) by (auto simp: span_or_log_def)
qed

text \<open>C19: An HTTP rule whose name is added to each of its destinations once and, when there is a name, to at
  least one (\<open>name_goes_somewhere\<close>, which holds of a new rule), is such a rule again after any use of the
  controls of its outputs: a first name goes to the span, and the last destination cannot be cleared.\<close>

theorem named_event_keeps_a_destination:
  assumes "fits (rule_type (\<lambda>_. True)) (Obj event)" "name_goes_somewhere event" "offered_output ed"
  shows "\<exists>result. edit_rule (Output ed) event = Some result \<and> name_goes_somewhere result"
proof -
  obtain out where out: "eventNameOutput event = Some out" "distinct (no_destinations out)"
    "no_value out = [] \<or> no_destinations out \<noteq> []"
    using assms(2) by (auto simp: name_goes_somewhere_def split: option.splits)
  note so = output_destinations [OF out(1)]
  have log: "name_goes_somewhere (edit_log k v event)" for k v
    using assms(2) output_of_static [of "edit_log k v event" event]
    by (simp add: name_goes_somewhere_def edit_log_def fld_obj_put)
  show ?thesis
  proof (cases ed)
    case (NameOutput v)
    let ?ds = "if v \<noteq> [] \<and> no_destinations out = [] then [Str ''SPAN''] else no_destinations out"
    have "distinct ?ds" "v = [] \<or> span_or_log ?ds \<noteq> []" using out(2) so by (auto simp: span_or_log_def)
    from named_output [OF assms(1) this] show ?thesis by (simp add: NameOutput out(1))
  next
    case (ToggleOutput d)
    then have d: "d = ''SPAN'' \<or> d = ''LOG''" using assms(3) by (simp add: offered_output_def)
    show ?thesis
    proof (cases "output_disabled out d")
      case True
      then show ?thesis using assms(2) by (simp add: ToggleOutput out(1))
    next
      case False
      let ?ds = "if Str d \<in> set (no_destinations out) then filter (\<lambda>x. x \<noteq> Str d) (no_destinations out)
        else no_destinations out @ [Str d]"
      have "span_or_log ?ds \<noteq> []" by (rule ticked_destination [OF out(2) so d False])
      moreover have "distinct ?ds" using out(2) by auto
      ultimately have "\<exists>q. withEventNameOutput event (no_value out) ?ds = Some q \<and> name_goes_somewhere q"
        by (intro named_output [OF assms(1)]) auto
      then show ?thesis using False by (simp add: ToggleOutput out(1))
    qed
  next
    case ToggleLog
    have "\<not> nullish (fld event ''log'')" using fits_at [OF rule_keys(5) assms(1) [unfolded rule_type_def]] by simp
    then show ?thesis using log by (simp add: ToggleLog getx_def)
  qed (use log in simp_all)
qed

theorem named_event_keeps_a_destination_witness:
  "\<exists>result. edit_rule (Output (NameOutput ''paid'')) (newBodyEventPolicy 1 ''INCOMING'' ''e'') = Some result \<and>
     name_goes_somewhere result"
proof (rule named_event_keeps_a_destination)
  show "fits (rule_type (\<lambda>_. True)) (Obj (newBodyEventPolicy 1 ''INCOMING'' ''e''))"
    unfolding rule_type_def rule_fields_def
    by (simp add: newBodyEventPolicy_def fld_def fits.simps(3) nullish_def log_settings_def condition_type_def bodyCondition_def strs_def)
  show "name_goes_somewhere (newBodyEventPolicy 1 ''INCOMING'' ''e'')" unfolding name_goes_somewhere_def by code_simp
qed (simp add: offered_output_def)

text \<open>A stored rule that lists a destination twice is not such a rule: unticking the box clears both.\<close>

lemma a_repeated_destination_can_be_cleared:
  "case edit_rule (Output (ToggleOutput ''SPAN'')) [(''staticAttributes'', Arr [Obj [(''attribute'', Str ''event.name''),
       (''value'', Str ''paid''), (''destinations'', strs [''SPAN'', ''SPAN''])]])] of
     Some result \<Rightarrow> \<not> name_goes_somewhere result | None \<Rightarrow> False"
  unfolding name_goes_somewhere_def by code_simp

subsection \<open>Behaviours the texts of the editor do not announce\<close>

lemma policies_below_update:
  assumes "\<And>k. k \<in> set keys \<Longrightarrow> get y k = get (xs ! i) k"
  shows "policies_below keys (map_at i (\<lambda>_. y) xs) = policies_below keys xs"
proof (cases "i < length xs")
  case True
  let ?f = "\<lambda>x. concat (map (\<lambda>k. map (\<lambda>y. get y ''valuePolicy'') (array (get x k))) keys)"
  have "?f y = ?f (xs ! i)" using assms by (intro arg_cong [where f = concat] map_cong) simp_all
  then have "map ?f (xs[i := y]) = map ?f xs" by (rule map_update_same)
  then show ?thesis using True by (simp only: policies_below_def map_at_def if_True)
qed (simp add: map_at_def)

text \<open>C18: In a document of the type the editor keeps (\<open>document_type\<close>) that passes some value through, renaming
  a messaging rule that is on the page makes the document declare schema 1.5 whatever it declared before,
  while the version it requires is still 1.7: the declared version is then lower than the required one.\<close>

theorem messaging_edit_downgrades_the_schema:
  assumes "fits document_type (Obj policy)" "shown_event family i policy"
    and "policyUsesPassthroughValuePolicy policy = Some True"
  shows "\<exists>result. form_change (Messaging family (EditEvent i (MessagingName name))) policy = Some result \<and>
    fld result ''schemaVersion'' = Str ''1.5'' \<and> requiredPolicySchema result = Some ''1.7''"
proof -
  let ?op = "Messaging family (EditEvent i (MessagingName name))" and ?k = "''messagingEventPolicies''"
  obtain q where q: "form_change ?op policy = Some q" "fits document_type (Obj q)"
    using form_change_typing [OF assms(1), of ?op] by (auto simp: makes_def)
  obtain xs where xs: "fld policy ?k = Arr xs" "\<forall>x\<in>set xs. is_obj x"
    using typed_lists_below(7,8) [OF assms(1)] by (cases "fld policy ?k") (auto simp: has_lists_def)
  have i: "i < length xs" using assms(2) by (simp add: shown_event_def has_row_def xs(1))
  then obtain e where e: "xs ! i = Obj e" using xs(2) by (metis is_obj.elims(2) nth_mem)
  have result: "q = obj_put ?k (Arr (map_at i (\<lambda>_. Obj (obj_put ''ruleName'' (Str name) e)) xs)) (declare_1_5 policy)"
    using q(1) assms(2) i
    by (simp add: edit_event_at_def update_item_def row_def declare_1_5_def fld_obj_put xs(1) elem_at_def e edit_item_def
        edit_list_def require_if_def)
  have "value_policies_of q = value_policies_of policy"
  proof -
    have "policies_below [''fields''] (map_at i (\<lambda>_. Obj (obj_put ''ruleName'' (Str name) e)) xs) = policies_below [''fields''] xs"
      by (rule policies_below_update) (simp add: e fld_obj_put)
    then show ?thesis by (simp add: value_policies_of_def result declare_1_5_def fld_obj_put xs(1))
  qed
  then have "policyUsesPassthroughValuePolicy q = Some True"
    using assms(3) by (simp add: passthrough_of_typed [OF q(2)] passthrough_of_typed [OF assms(1)])
  then have "requiredPolicySchema q = Some ''1.7''" by (simp add: requiredPolicySchema_def)
  moreover have "fld q ''schemaVersion'' = Str ''1.5''" by (simp add: result declare_1_5_def fld_obj_put)
  ultimately show ?thesis using q(1) by blast
qed

text \<open>A document with one Kafka rule, one of whose fields passes its value through.\<close>

definition passing_field :: jsobj where
  "passing_field = obj_put ''valuePolicy'' (Obj [(''type'', Str ''PASSTHROUGH'')]) newField"

definition passing_policy :: jsobj where
  "passing_policy =
     fold (\<lambda>(k, v). obj_put k v)
       [(''messagingEventPolicies'', Arr [Obj (obj_put ''fields'' (Arr [Obj passing_field]) (newEvent 1 ''KAFKA_PRODUCER'' ''e''))]),
        (''schemaVersion'', Str ''1.7'')] emptyPolicy"

theorem messaging_edit_downgrades_the_schema_witness:
  "\<exists>result. form_change (Messaging ''kafka'' (EditEvent 0 (MessagingName ''x''))) passing_policy = Some result \<and>
     fld result ''schemaVersion'' = Str ''1.5'' \<and> requiredPolicySchema result = Some ''1.7''"
proof (rule messaging_edit_downgrades_the_schema)
  show "fits document_type (Obj passing_policy)" by code_simp
  show "shown_event ''kafka'' 0 passing_policy" by code_simp
  show "policyUsesPassthroughValuePolicy passing_policy = Some True" by code_simp
qed

text \<open>Calling a static attribute \<open>event.name\<close> does not rename its row: the event is named by the value of the
  row, and the row itself stays with the name it had, so both are published.\<close>

theorem naming_an_attribute_leaves_its_row:
  assumes "fits (rule_type (\<lambda>_. True)) (Obj event)" "has_row ''staticAttributes'' i event"
    and "\<not> names_event (row ''staticAttributes'' i event)" "get (row ''staticAttributes'' i event) ''value'' = Str v" "v \<noteq> []"
  shows "\<exists>result output. edit_rule (Static (StaticName i ''event.name'')) event = Some result \<and>
    eventNameOutput result = Some output \<and> no_value output = v \<and>
    row ''staticAttributes'' i event \<in> set (array (fld result ''staticAttributes''))"
proof -
  note e = assms(1) [unfolded rule_type_def]
  obtain xs where xs: "fld event ''staticAttributes'' = Arr xs" "\<forall>x\<in>set xs. fits static_type x"
    using items_of [OF e rule_keys(4)] by blast
  have r: "row ''staticAttributes'' i event \<in> set xs" "fits static_type (row ''staticAttributes'' i event)"
    using assms(2) row_typing(1) [OF e rule_keys(4)] by (auto simp: has_row_def row_def elem_at_def xs(1))
  obtain ds where ds: "list_or (get (row ''staticAttributes'' i event) ''destinations'') = Some ds"
    using span_or_log_readable [OF r(2)] by blast
  have "readable_list (fld event ''staticAttributes'')" by (simp add: xs(1))
  from event_name_output_of [OF this, of v ds] obtain q where q: "withEventNameOutput event v ds = Some q"
    "eventNameOutput q = Some \<lparr>no_value = v, no_destinations = if v = [] then [] else span_or_log ds\<rparr>"
    "filter (\<lambda>a. \<not> names_event a) (array (fld q ''staticAttributes'')) = filter (\<lambda>a. \<not> names_event a) xs"
    by (auto simp: xs(1))
  have "row ''staticAttributes'' i event \<in> set (filter (\<lambda>a. \<not> names_event a) xs)" using r(1) assms(3) by simp
  then have "row ''staticAttributes'' i event \<in> set (array (fld q ''staticAttributes''))"
    unfolding q(3) [symmetric] by simp
  then show ?thesis using q(1,2) ds assms(4) by simp
qed

definition tagged_event :: jsobj where
  "tagged_event = obj_put ''staticAttributes''
     (Arr [Obj [(''attribute'', Str ''event.nam''), (''value'', Str ''paid''), (''destinations'', strs [''SPAN''])]])
     (newBodyEventPolicy 1 ''INCOMING'' ''e'')"

theorem naming_an_attribute_leaves_its_row_witness:
  "\<exists>result output. edit_rule (Static (StaticName 0 ''event.name'')) tagged_event = Some result \<and>
     eventNameOutput result = Some output \<and> no_value output = ''paid'' \<and>
     row ''staticAttributes'' 0 tagged_event \<in> set (array (fld result ''staticAttributes''))"
proof (rule naming_an_attribute_leaves_its_row)
  show "fits (rule_type (\<lambda>_. True)) (Obj tagged_event)" by code_simp
  show "has_row ''staticAttributes'' 0 tagged_event" by code_simp
  show "\<not> names_event (row ''staticAttributes'' 0 tagged_event)" by code_simp
  show "get (row ''staticAttributes'' 0 tagged_event) ''value'' = Str ''paid''" by code_simp
qed simp

text \<open>The text of the buckets of an instrument survives leaving the input, with one exception: for whole
  limits the text shown is parsed back to the same buckets, but an empty text, which shows no bucket, is
  parsed to the single bucket 0.\<close>

theorem buckets_text_roundtrip:
  "typed_buckets (to_str (Arr (map (\<lambda>n. Num (Fin (of_nat n))) ns))) =
     Arr (map (\<lambda>n. Num (Fin (of_nat n))) (if ns = [] then [0] else ns))"
proof (cases "ns = []")
  case True
  have "typed_buckets [] = Arr [Num (Fin 0)]" by code_simp
  then show ?thesis using True by simp
next
  case False
  have t: "to_str (Arr (map (\<lambda>n. Num (Fin (of_nat n))) ns)) = js_join '','' (map nat_str ns)"
    by (simp add: nullish_def o_def del: num_str.simps)
  have comma: "\<not> is_digit CHR '',''" by code_simp
  have split: "split_char CHR '','' (js_join '','' (map nat_str ns)) = map nat_str ns"
    using nat_str_digits comma False by (intro split_char_join) auto
  have "filter is_finite (map typed_number (map nat_str ns)) = map (\<lambda>n. Num (Fin (of_nat n))) ns"
    by (induction ns) (simp_all add: typed_number_def)
  then show ?thesis unfolding typed_buckets_def t split using False by simp
qed

declare name_goes_somewhere_def [js_eval] offered_output_def [js_eval] passing_field_def [js_eval]
  passing_policy_def [js_eval]

declare tagged_event_def [js_eval]

end
