(* ===== verification/Form_Book.thy ===== *)
theory Form_Book
  imports Form_Schema
begin

section \<open>The HTTP form refines a book of rules and references\<close>

text \<open>
  What the HTTP form means for the links between rules and metrics, stated on an abstract state: the
  list of the names of the rules and the list of the names the metrics refer to. The abstract steps
  are the contract; the refinement says that every operation of the form on a document is the
  abstract step on its two lists, when its control is on the page, and changes neither otherwise.
\<close>

type_synonym rule_book = "string list \<times> string list"

definition book :: "jsobj \<Rightarrow> rule_book" where
  "book p = (names_in ''bodyEventPolicies'' p, names_in ''eventMetricPolicies'' p)"

fun book_step :: "http_op \<Rightarrow> rule_book \<Rightarrow> rule_book" where
  "book_step (AddRule now) (names, refs) = (names @ [unused_name names ''http-event''], refs)"
| "book_step (RemoveRule i) (names, refs) =
     (remove_at i names,
      if names ! i \<in> set (remove_at i names) then refs else filter (\<lambda>r. r \<noteq> names ! i) refs)"
| "book_step (RenameRule i name) (names, refs) =
     (names[i := name],
      if length (filter (\<lambda>n. n = names ! i) names) = 1 then map (\<lambda>r. if r = names ! i then name else r) refs else refs)"
| "book_step (AddMetric now i) (names, refs) = (names, refs @ [names ! i])"
| "book_step (RemoveMetric i j) (names, refs) = (names, remove_at j refs)"
| "book_step _ b = b"

fun on_page :: "string \<Rightarrow> http_op \<Rightarrow> jsobj \<Rightarrow> bool" where
  "on_page direction (AddRule now) p = True"
| "on_page direction (RemoveRule i) p = shown direction ''bodyEventPolicies'' i p"
| "on_page direction (RenameRule i name) p = shown direction ''bodyEventPolicies'' i p"
| "on_page direction (EditRule i ed) p = shown direction ''bodyEventPolicies'' i p"
| "on_page direction (AddMetric now i) p = shown direction ''bodyEventPolicies'' i p"
| "on_page direction (RemoveMetric i j) p = shown_metric direction i j p"
| "on_page direction (EditMetric i j ed) p = shown_metric direction i j p"
| "on_page direction (AddGlobal ident) p = True"
| "on_page direction (RemoveGlobal i) p = shown direction ''metricPolicies'' i p"
| "on_page direction (EditGlobal i ed) p = shown direction ''metricPolicies'' i p"

subsection \<open>No control of a card writes the name of the event\<close>

lemma list_frames:
  assumes "j \<noteq> k"
  shows "edit_list k f ob = Some q \<Longrightarrow> fld q j = fld ob j" "append_item k v ob = Some q \<Longrightarrow> fld q j = fld ob j"
    "append_item_or k v ob = Some q \<Longrightarrow> fld q j = fld ob j" "edit_item k i g ob = Some q \<Longrightarrow> fld q j = fld ob j"
    "drop_item k i ob = Some q \<Longrightarrow> fld q j = fld ob j" "toggle_key k x ob = Some q \<Longrightarrow> fld q j = fld ob j"
    "toggle_destination k i x ob = Some q \<Longrightarrow> fld q j = fld ob j"
    "edit_value_policy change init k i ed ob = Some q \<Longrightarrow> fld q j = fld ob j"
    "update_item k i h ob = Some q \<Longrightarrow> fld q j = fld ob j"
  using assms by (auto simp: edit_list_def append_item_def append_item_or_def edit_item_def drop_item_def toggle_key_def
      toggle_destination_def edit_value_policy_def update_item_def Let_def bind_eq_Some_conv fld_obj_put)

lemmas name_frames = list_frames [where j = "''eventName''", rotated]

lemma name_output_frame: "withEventNameOutput e v ds = Some q \<Longrightarrow> fld q ''eventName'' = fld e ''eventName''"
  by (auto simp: withEventNameOutput_def bind_eq_Some_conv fld_obj_put)

lemma static_frame: "edit_static ed e = Some q \<Longrightarrow> fld q ''eventName'' = fld e ''eventName''"
  by (cases ed) (auto simp: Let_def bind_eq_Some_conv dest: name_frames(3-5,7) name_output_frame split: if_splits)

lemma condition_frame: "edit_condition s f ed e = Some q \<Longrightarrow> fld q ''eventName'' = fld e ''eventName''"
  by (cases ed) (auto dest: name_frames(2,4,5))

lemma field_frame: "edit_field s f c d ed e = Some q \<Longrightarrow> fld q ''eventName'' = fld e ''eventName''"
  by (cases ed) (auto dest: name_frames(2,4,5,7,8))

lemma derived_frame: "edit_derived ed e = Some q \<Longrightarrow> fld q ''eventName'' = fld e ''eventName''"
  by (cases ed) (auto simp: bind_eq_Some_conv dest: name_frames(3,4,5,7,8) split: if_splits)

lemma output_frame: "edit_output ed e = Some q \<Longrightarrow> fld q ''eventName'' = fld e ''eventName''"
  by (cases ed) (auto simp: bind_eq_Some_conv edit_log_def fld_obj_put dest: name_output_frame split: if_splits)

lemma rule_frame: "edit_rule ed e = Some q \<Longrightarrow> fld q ''eventName'' = fld e ''eventName''"
proof (cases ed)
  case (Body x)
  then show "edit_rule ed e = Some q \<Longrightarrow> ?thesis"
    by (cases x) (auto simp: edit_body_def bind_eq_Some_conv fld_obj_put)
qed (auto simp: http_condition_def http_field_def fld_obj_put dest: static_frame condition_frame field_frame derived_frame output_frame)

lemma metric_frame: "edit_http_metric xs ed m = Some q \<Longrightarrow> fld q ''eventName'' = fld m ''eventName''"
proof (cases ed)
  case (Metric x)
  then show "edit_http_metric xs ed m = Some q \<Longrightarrow> ?thesis"
    by (cases x) (auto simp: fld_obj_put configure_keys dest: name_frames(6))
qed (auto simp: drop_unavailable_dimensions_def bind_eq_Some_conv fld_obj_put dest: name_frames(6))

subsection \<open>Names of an edited list\<close>

definition tag :: "jsval \<Rightarrow> bool \<times> jsval" where
  "tag x = (is_obj x, get x ''eventName'')"

lemma named_by_tag: "named_item x \<longleftrightarrow> fst (tag x) \<and> (\<exists>s. snd (tag x) = Str s)" "name_of x = to_str (snd (tag x))"
  by (cases x) (auto simp: named_item_def name_of_def tag_def split: jsval.splits)

lemma same_tags:
  assumes "map tag xs = map tag ys"
  shows "map name_of xs = map name_of ys" "(\<forall>x\<in>set xs. named_item x) \<longleftrightarrow> (\<forall>y\<in>set ys. named_item y)"
proof -
  have "map (\<lambda>t. to_str (snd t)) (map tag xs) = map (\<lambda>t. to_str (snd t)) (map tag ys)" using assms by simp
  then show "map name_of xs = map name_of ys" by (simp add: named_by_tag(2) [abs_def] o_def)
  have "(\<forall>t\<in>set (map tag xs). fst t \<and> (\<exists>s. snd t = Str s)) \<longleftrightarrow> (\<forall>t\<in>set (map tag ys). fst t \<and> (\<exists>s. snd t = Str s))"
    using assms by simp
  then show "(\<forall>x\<in>set xs. named_item x) \<longleftrightarrow> (\<forall>y\<in>set ys. named_item y)" by (simp add: named_by_tag(1))
qed

lemma update_item_tags:
  assumes "update_item k i f p = Some q" "fld p k = Arr xs" "\<forall>x\<in>set xs. is_obj x"
    and "\<And>x y. f x = Some y \<Longrightarrow> fld y ''eventName'' = fld x ''eventName''"
  shows "\<exists>ys. fld q k = Arr ys \<and> map tag ys = map tag xs"
proof -
  obtain y where y: "f (own_entries (row k i p)) = Some y" "edit_item k i (\<lambda>_. Obj y) p = Some q"
    using assms(1) by (auto simp: update_item_def bind_eq_Some_conv)
  have q: "fld q k = Arr (map_at i (\<lambda>_. Obj y) xs)"
    using y(2) assms(2) by (auto simp: edit_item_def edit_list_def fld_obj_put)
  have "map tag (map_at i (\<lambda>_. Obj y) xs) = map tag xs"
  proof (cases "i < length xs")
    case True
    then obtain x where x: "xs ! i = Obj x" using assms(3) by (metis is_obj.elims(2) nth_mem)
    then have "tag (Obj y) = tag (xs ! i)"
      using assms(4) [OF y(1)] True by (simp add: tag_def row_def elem_at_def assms(2))
    then have "map tag (xs[i := Obj y]) = map tag xs" by (rule map_update_same)
    then show ?thesis using True by (simp add: map_at_def)
  qed (simp add: map_at_def)
  then show ?thesis using q by blast
qed

lemma update_item_names:
  assumes "update_item k i f p = Some q" "named_list (fld p k)" "is_array (fld p k)"
    and "\<And>x y. f x = Some y \<Longrightarrow> fld y ''eventName'' = fld x ''eventName''"
  shows "names_in k q = names_in k p" "named_list (fld q k)"
proof -
  obtain xs where xs: "fld p k = Arr xs" using assms(3) by (cases "fld p k") auto
  then have n: "\<forall>x\<in>set xs. named_item x" using assms(2) by (simp add: named_list_def)
  then have o: "\<forall>x\<in>set xs. is_obj x" using named_by_tag(1) by (simp add: tag_def)
  have "\<exists>ys. fld q k = Arr ys \<and> map tag ys = map tag xs"
    by (rule update_item_tags [OF assms(1) xs o]) (rule assms(4))
  then obtain ys where ys: "fld q k = Arr ys" "map tag ys = map tag xs" by (elim exE conjE)
  show "names_in k q = names_in k p" using same_tags(1) [OF ys(2)] by (simp add: names_in_def xs ys(1))
  show "named_list (fld q k)" using same_tags(2) [OF ys(2)] n by (simp add: named_list_def ys(1))
qed

lemma event_name_text_named: "named_item x \<Longrightarrow> event_name_text x = name_of x"
  by (auto simp: named_item_def name_of_def event_name_text_def split: jsval.splits)

lemma names_frame: "fld q k = fld p k \<Longrightarrow> names_in k q = names_in k p"
  by (simp add: names_in_def)

lemma require_if_keeps: "j \<noteq> ''schemaVersion'' \<Longrightarrow> fld (require_if s p) j = fld p j"
    "j \<noteq> ''schemaVersion'' \<Longrightarrow> fld (require_schema v p) j = fld p j"
  by (cases s) (simp_all add: require_if_def require_schema_def fld_obj_put)

subsection \<open>The refinement\<close>

abbreviation "ek \<equiv> ''bodyEventPolicies''"
abbreviation "mk \<equiv> ''eventMetricPolicies''"

lemma same_book:
  assumes "fld q ek = fld p ek" "fld q mk = fld p mk"
  shows "book q = book p" "event_lists ek mk q = event_lists ek mk p"
  using assms by (simp_all add: book_def names_in_def event_lists_def)

text \<open>The steps on the lists of a linked document, one group of operations at a time.\<close>

definition linked :: "jsobj \<Rightarrow> jsval list \<Rightarrow> jsval list \<Rightarrow> bool" where
  "linked p es ms \<longleftrightarrow> fld p ek = Arr es \<and> fld p mk = Arr ms \<and>
     (\<forall>x\<in>set es. named_item x) \<and> (\<forall>x\<in>set ms. named_item x)"

lemma linked_lists: "linked p es ms \<Longrightarrow> event_lists ek mk p"
  by (simp add: linked_def event_lists_def named_list_def)

lemma linked_book: "linked p es ms \<Longrightarrow> book p = (map name_of es, map name_of ms)"
  by (simp add: linked_def book_def names_in_def)

lemma linked_intro:
  assumes "fits document_type (Obj p)" "event_lists ek mk p"
  obtains es ms where "linked p es ms"
proof -
  note t = fits_at [OF policy_keys(3) assms(1) [unfolded document_type_def policy_type_def]]
    fits_at [OF policy_keys(4) assms(1) [unfolded document_type_def policy_type_def]]
  obtain es ms where "fld p ek = Arr es" "fld p mk = Arr ms"
    using t by (cases "fld p ek"; cases "fld p mk") auto
  then have "linked p es ms" using assms(2) by (simp add: linked_def event_lists_def named_list_def)
  then show thesis by (rule that)
qed

definition simulates :: "string \<Rightarrow> http_op \<Rightarrow> jsobj \<Rightarrow> jsobj \<Rightarrow> bool" where
  "simulates direction op p q \<longleftrightarrow> event_lists ek mk q \<and> book q = book_step op (book p)"

lemma add_rule_simulates:
  assumes "linked p es ms" "http_change direction (AddRule now) p = Some q"
  shows "simulates direction (AddRule now) p q"
proof -
  let ?e = "Obj (newBodyEventPolicy now direction (nextHTTPEventName es ''http-event''))"
  have "named_item ?e" "name_of ?e = nextHTTPEventName es ''http-event''"
    by (simp_all add: named_item_def name_of_def newBodyEventPolicy_def fld_def)
  moreover have "nextHTTPEventName es ''http-event'' = unused_name (map name_of es) ''http-event''"
    using assms(1) event_name_text_named by (simp add: linked_def nextHTTPEventName_def cong: map_cong)
  moreover have "fld q ek = Arr (es @ [?e])" "fld q mk = fld p mk"
    using assms by (auto simp: add_rule_def linked_def Let_def fld_obj_put require_if_keeps)
  ultimately show ?thesis using assms(1)
    by (simp add: simulates_def book_def names_in_def event_lists_def named_list_def linked_def)
qed

lemma rule_names_simulate:
  assumes "linked p es ms" "on_page direction op p" "http_change direction op p = Some q"
    and "op = RemoveRule i \<or> op = RenameRule i name"
  shows "simulates direction op p q"
proof -
  have i: "i < length (names_in ek p)" using assms(1,2,4) by (auto simp: shown_def has_row_def names_in_def linked_def)
  note l = linked_lists [OF assms(1)]
  from assms(4) show ?thesis
  proof
    assume op: "op = RemoveRule i"
    then have "removeHTTPEventAt p i = Some q" using assms(2,3) by simp
    with http_events.remove_law [OF l, of i] show ?thesis using i by (auto simp: op simulates_def book_def)
  next
    assume op: "op = RenameRule i name"
    then have "renameHTTPEventAt p i name = Some q" using assms(2,3) by simp
    with http_events.rename_law [OF l, of i name] show ?thesis using i by (auto simp: op simulates_def book_def)
  qed
qed

lemma metric_list_simulates:
  assumes "linked p es ms" "on_page direction op p" "http_change direction op p = Some q"
    and "op = AddMetric now i \<or> op = RemoveMetric i j"
  shows "simulates direction op p q"
proof -
  have n: "fld p ek = Arr es" "fld p mk = Arr ms" "\<forall>x\<in>set es. named_item x" "\<forall>x\<in>set ms. named_item x"
    using assms(1) by (simp_all add: linked_def)
  from assms(4) show ?thesis
  proof
    assume op: "op = AddMetric now i"
    then have i: "i < length es" using assms(2) by (simp add: shown_def has_row_def n)
    then have e: "named_item (es ! i)" using n(3) by simp
    have name: "rule_name i p = Str (name_of (es ! i))"
      using named_itemD(1) [OF e] i by (simp add: rule_name_def row_def elem_at_def n)
    let ?m = "Obj (new_metric now (Str (name_of (es ! i))))"
    have m: "named_item ?m" "name_of ?m = name_of (es ! i)"
      by (simp_all add: new_metric_def Let_def named_item_def name_of_def fld_obj_put)
    have "q = obj_put mk (Arr (ms @ [?m])) p"
      using assms(2,3) name by (simp add: op add_metric_def append_item_def n)
    then show ?thesis using m n i
      by (simp add: op simulates_def book_def names_in_def event_lists_def named_list_def fld_obj_put)
  next
    assume op: "op = RemoveMetric i j"
    then have "q = obj_put mk (Arr (remove_at j ms)) p"
      using assms(2,3) by (simp add: drop_item_def edit_list_def n)
    then show ?thesis using n remove_at_all [OF n(4), of j]
      by (simp add: op simulates_def book_def names_in_def event_lists_def named_list_def fld_obj_put map_remove_at)
  qed
qed

lemma row_edits_simulate:
  assumes "linked p es ms" "on_page direction op p" "http_change direction op p = Some q"
    and "op = EditRule i ed \<or> op = EditMetric i j md"
  shows "simulates direction op p q"
proof -
  have n: "fld p ek = Arr es" "fld p mk = Arr ms" "named_list (fld p ek)" "named_list (fld p mk)"
    using assms(1) by (simp_all add: linked_def named_list_def)
  from assms(4) show ?thesis
  proof
    assume op: "op = EditRule i ed"
    obtain r where r: "update_item ek i (edit_rule ed) p = Some r" "q = require_if (rule_schema ed) r"
      using assms(2,3) by (auto simp: op edit_rule_at_def)
    note u = update_item_names [OF r(1) n(3) _ rule_frame]
    have "fld r mk = fld p mk" using list_frames(9) [OF _ r(1)] by simp
    then show ?thesis using u n r(2)
      by (simp add: op simulates_def book_def names_in_def event_lists_def require_if_keeps)
  next
    assume op: "op = EditMetric i j md"
    obtain xs s r where r: "update_item mk j (edit_http_metric xs md) p = Some r" "q = require_if s r"
      using assms(2,3) by (auto simp: op edit_metric_at_def bind_eq_Some_conv)
    note u = update_item_names [OF r(1) n(4) _ metric_frame]
    have "fld r ek = fld p ek" using list_frames(9) [OF _ r(1)] by simp
    then show ?thesis using u n r(2)
      by (simp add: op simulates_def book_def names_in_def event_lists_def require_if_keeps)
  qed
qed

lemma global_edits_simulate:
  assumes "linked p es ms" "on_page direction op p" "http_change direction op p = Some q"
    and "op = AddGlobal ident \<or> op = RemoveGlobal i \<or> op = EditGlobal i ed"
  shows "simulates direction op p q"
proof -
  have "fld q ek = fld p ek \<and> fld q mk = fld p mk"
    using assms(4)
  proof (elim disjE)
    assume op: "op = AddGlobal ident"
    show ?thesis using assms(3) by (auto simp: op add_global_def append_item_def bind_eq_Some_conv fld_obj_put require_if_keeps)
  next
    assume op: "op = RemoveGlobal i"
    show ?thesis using assms(2,3) by (auto simp: op drop_item_def edit_list_def bind_eq_Some_conv fld_obj_put)
  next
    assume op: "op = EditGlobal i ed"
    obtain r where r: "update_item ''metricPolicies'' i (edit_global ed) p = Some r" "q = require_if (global_schema ed) r"
      using assms(2,3) by (auto simp: op edit_global_at_def)
    show ?thesis using list_frames(9) [OF _ r(1)] by (simp add: r(2) require_if_keeps)
  qed
  with same_book [of q p] show ?thesis using linked_lists [OF assms(1)] assms(4)
    by (auto simp: simulates_def book_def names_in_def)
qed

text \<open>C3: The HTTP form refines the book of rules and references: on a document whose rules and metrics are named,
  every operation whose control is on the page acts on the names of the rules and on the names the metrics
  refer to as the abstract step does (a new rule takes a name that is free, removing the last rule of a
  name removes its metrics, renaming the only rule of a name renames its metrics, every other control
  leaves both lists alone), and an operation whose control is not on the page changes neither.\<close>

theorem http_form_refines_the_book:
  assumes "fits document_type (Obj policy)" "event_lists ek mk policy"
  shows "\<exists>result. http_change direction op policy = Some result \<and> event_lists ek mk result \<and>
    book result = (if on_page direction op policy then book_step op (book policy) else book policy)"
proof -
  obtain q where q: "http_change direction op policy = Some q"
    using anything.http_change_typing [OF assms(1) [unfolded document_type_def], of op direction] by (auto simp: makes_def)
  obtain es ms where l: "linked policy es ms" using linked_intro [OF assms] .
  have "on_page direction op policy \<Longrightarrow> simulates direction op policy q"
    using add_rule_simulates [OF l] rule_names_simulate [OF l _ q] metric_list_simulates [OF l _ q]
      row_edits_simulate [OF l _ q] global_edits_simulate [OF l _ q] q by (cases op) simp_all
  moreover have "\<not> on_page direction op policy \<Longrightarrow> q = policy" using q by (cases op) auto
  ultimately show ?thesis using q assms(2) by (auto simp: simulates_def)
qed

theorem http_form_refines_the_book_witness:
  "\<exists>result. http_change ''INCOMING'' (AddRule 1) emptyPolicy = Some result \<and> book result = ([''http-event''], [])"
proof -
  have "fits document_type (Obj emptyPolicy)" "event_lists ek mk emptyPolicy" by code_simp+
  from http_form_refines_the_book [OF this, of "''INCOMING''" "AddRule 1"] obtain q where
    "http_change ''INCOMING'' (AddRule 1) emptyPolicy = Some q" "book q = book_step (AddRule 1) (book emptyPolicy)" by auto
  moreover have "book_step (AddRule 1) (book emptyPolicy) = ([''http-event''], [])" by code_simp
  ultimately show ?thesis by simp
qed

end
