(* ===== verification/English.thy ===== *)
theory English
  imports Js_Value
begin

section \<open>The English dictionary (\<open>ui/src/i18n.js\<close>)\<close>

text \<open>
  The object \<open>english\<close>: one entry per Spanish message, in the order of the source, in seven parts. A
  character outside Latin-1 (the ellipsis, the dash, the arrows and the curly quotes) is written as
  the bytes of its UTF-8 form; every other character is its code.
\<close>

type_synonym dictionary = "(string \<times> string) list"

definition english_1 :: dictionary where
  "english_1 =
    [(''Idioma'',
      ''Language''),
     (''Espa'' @ [CHR 0xF1] @ ''ol'',
      ''Spanish''),
     (''Ingl'' @ [CHR 0xE9] @ ''s'',
      ''English''),
     (''Cambiar idioma'',
      ''Change language''),
     (''AUTENTICACI'' @ [CHR 0xD3] @ ''N'',
      ''AUTHENTICATION''),
     (''Accede al Control Plane'',
      ''Sign in to the Control Plane''),
     (''Recupera tu contrase'' @ [CHR 0xF1] @ ''a'',
      ''Recover your password''),
     (''Define una nueva contrase'' @ [CHR 0xF1] @ ''a'',
      ''Set a new password''),
     (''Usuario'',
      ''Username''),
     (''Contrase'' @ [CHR 0xF1] @ ''a'',
      ''Password''),
     (''Usuario o correo'',
      ''Username or email''),
     (''Nueva contrase'' @ [CHR 0xF1] @ ''a'',
      ''New password''),
     (''Confirmar contrase'' @ [CHR 0xF1] @ ''a'',
      ''Confirm password''),
     (''M'' @ [CHR 0xED] @ ''nimo 12 caracteres y m'' @ [CHR 0xE1] @ ''ximo 72 bytes.'',
      ''At least 12 characters and at most 72 bytes.''),
     (''Procesando'' @ [CHR 0xE2, CHR 0x80, CHR 0xA6],
      ''Processing'' @ [CHR 0xE2, CHR 0x80, CHR 0xA6]),
     (''Ingresar'',
      ''Sign in''),
     (''Enviar enlace'',
      ''Send link''),
     (''Cambiar contrase'' @ [CHR 0xF1] @ ''a'',
      ''Change password''),
     ([CHR 0xBF] @ ''Olvidaste tu contrase'' @ [CHR 0xF1] @ ''a?'',
      ''Forgot your password?''),
     (''o usa tu organizaci'' @ [CHR 0xF3] @ ''n'',
      ''or use your organization''),
     ([CHR 0xE2, CHR 0x86, CHR 0x90] @ '' Volver al inicio de sesi'' @ [CHR 0xF3] @ ''n'',
      [CHR 0xE2, CHR 0x86, CHR 0x90] @ '' Back to sign in''),
     (''Ingresa tu usuario o correo. Si la cuenta local tiene un correo asociado, recibir'' @ [CHR 0xE1] @
       ''s un enlace temporal.'',
      ''Enter your username or email. If the local account has an associated email address, you will receive a temporary link.''),
     (''No se pudo autenticar.'',
      ''Authentication failed.''),
     (''No se pudo procesar la solicitud.'',
      ''The request could not be processed.''),
     (''Si la cuenta existe y tiene correo configurado, recibir'' @ [CHR 0xE1] @
       ''s un enlace para restablecer la contrase'' @ [CHR 0xF1] @ ''a.'',
      ''If the account exists and has email configured, you will receive a password reset link.''),
     (''El enlace no es v'' @ [CHR 0xE1] @ ''lido o ya venci'' @ [CHR 0xF3] @ ''.'',
      ''The link is invalid or has expired.''),
     (''Contrase'' @ [CHR 0xF1] @ ''a actualizada. Ya puedes iniciar sesi'' @ [CHR 0xF3] @ ''n.'',
      ''Password updated. You can now sign in.''),
     (''Ingresa tu contrase'' @ [CHR 0xF1] @ ''a actual.'',
      ''Enter your current password.''),
     (''La nueva contrase'' @ [CHR 0xF1] @ ''a debe tener al menos 12 caracteres.'',
      ''The new password must be at least 12 characters.''),
     (''La nueva contrase'' @ [CHR 0xF1] @ ''a admite hasta 72 bytes.'',
      ''The new password allows up to 72 bytes.''),
     (''La confirmaci'' @ [CHR 0xF3] @ ''n no coincide con la nueva contrase'' @ [CHR 0xF1] @ ''a.'',
      ''The confirmation does not match the new password.''),
     (''CONTROL PLANE'',
      ''CONTROL PLANE''),
     (''Editor OTel'',
      ''OTel Editor''),
     (''Agentes'',
      ''Agents''),
     (''Gesti'' @ [CHR 0xF3] @ ''n remota'',
      ''Remote management''),
     (''Policies'',
      ''Policies''),
     (''Versiones'',
      ''Versions''),
     (''Fleet de agentes'',
      ''Agent fleet''),
     (''Policies y destinos'',
      ''Policies and targets''),
     (''Historial'',
      ''History''),
     (''Mi perfil'',
      ''My profile''),
     (''Configuraci'' @ [CHR 0xF3] @ ''n'',
      ''Settings''),
     (''Abrir configuraci'' @ [CHR 0xF3] @ ''n'',
      ''Open settings''),
     (''Expandir men'' @ [CHR 0xFA],
      ''Expand menu''),
     (''Colapsar men'' @ [CHR 0xFA],
      ''Collapse menu''),
     (''Sin rol'',
      ''No role''),
     (''Salir'',
      ''Sign out''),
     (''servidor disponible'',
      ''available server''),
     (''conectados'',
      ''connected''),
     (''OpAMP HTTP polling'',
      ''OpAMP HTTP polling''),
     (''Agentes y Supervisors: HTTP '' @ [CHR 0xB7] @ '' 10s'',
      ''Agents and Supervisors: HTTP '' @ [CHR 0xB7] @ '' 10s''),
     (''PostgreSQL'',
      ''PostgreSQL''),
     (''FLEET'',
      ''FLEET''),
     (''Clientes OpAMP'',
      ''OpAMP clients''),
     (''Disponibilidad'',
      ''Availability''),
     (''y'',
      ''and''),
     (''de'',
      ''of''),
     (''clientes'',
      ''clients''),
     (''segundos'',
      ''seconds''),
     (''son estados diferentes. '' @ [CHR 0xE2, CHR 0x80, CHR 0x9C] @ ''Aplicada'' @ [CHR 0xE2, CHR 0x80, CHR 0x9D] @
       '' significa que el cliente valid'' @ [CHR 0xF3] @ '' la '' @ [CHR 0xFA] @ ''ltima versi'' @ [CHR 0xF3] @
       ''n recibida. La lista y el contador de conectados se actualizan autom'' @ [CHR 0xE1] @ ''ticamente cada'',
      ''are different states. '' @ [CHR 0xE2, CHR 0x80, CHR 0x9C] @ ''Applied'' @ [CHR 0xE2, CHR 0x80, CHR 0x9D] @
        '' means that the client validated the latest received version. The list and connected count refresh automatically every''),
     (''configuraci'' @ [CHR 0xF3] @ ''n'',
      ''configuration''),
     (''Aplicada'',
      ''Applied''),
     (''Actualizar'',
      ''Refresh''),
     (''Buscar clientes'',
      ''Search clients''),
     (''Servicio, instance ID, configuraci'' @ [CHR 0xF3] @ ''n o atributo'',
      ''Service, instance ID, configuration, or attribute''),
     (''Servicio'',
      ''Service''),
     (''Tipo'',
      ''Type''),
     (''Transporte'',
      ''Transport''),
     (''Estado efectivo'',
      ''Effective status''),
     (''Servicio / instance ID'',
      ''Service / instance ID''),
     (''Tipo / transporte'',
      ''Type / transport''),
     (''Configuraci'' @ [CHR 0xF3] @ ''n / fallback'',
      ''Configuration / fallback''),
     (''Atributos reportados'',
      ''Reported attributes''),
     (''Infraestructura'',
      ''Infrastructure''),
     (''no verificada'',
      ''not verified''),
     (''no reportada'',
      ''not reported''),
     (''Sin configuraci'' @ [CHR 0xF3] @ ''n'',
      ''No configuration''),
     (''Sin policies activas'',
      ''No active policies''),
     (''policy activa'',
      ''active policy''),
     (''policies activas'',
      ''active policies''),
     (''Fallback'',
      ''Fallback''),
     (''Esperando clientes OpAMP'' @ [CHR 0xE2, CHR 0x80, CHR 0xA6],
      ''Waiting for OpAMP clients'' @ [CHR 0xE2, CHR 0x80, CHR 0xA6]),
     (''No hay clientes que coincidan con los filtros.'',
      ''No clients match the filters.''),
     (''Sin atributos'',
      ''No attributes''),
     (''Ver atributos'',
      ''View attributes''),
     (''CLIENTE OPAMP'',
      ''OPAMP CLIENT''),
     (''Cerrar'',
      ''Close''),
     (''Conectado'',
      ''Connected''),
     (''Desconectado'',
      ''Disconnected''),
     (''En l'' @ [CHR 0xED] @ ''nea'',
      ''Online''),
     (''Degradado'',
      ''Degraded''),
     (''Sin se'' @ [CHR 0xF1] @ ''al OpAMP'',
      ''No OpAMP signal''),
     (''Se'' @ [CHR 0xF1] @ ''al degradada'',
      ''Degraded signal''),
     (''Estado desconocido'',
      ''Unknown status''),
     (''Desconocido'',
      ''Unknown''),
     (''Aplicada '' @ [CHR 0xB7] @ '' sin se'' @ [CHR 0xF1] @ ''al'',
      ''Applied '' @ [CHR 0xB7] @ '' no signal''),
     ([CHR 0xDA] @ ''ltima aplicaci'' @ [CHR 0xF3] @ ''n '' @ [CHR 0xB7] @ '' degradada'',
      ''Latest application '' @ [CHR 0xB7] @ '' degraded''),
     (''Reemplazo pendiente'',
      ''Replacement pending''),
     (''Reemplazada'',
      ''Replaced''),
     (''Coincidente'',
      ''Matched''),
     (''Pendiente'',
      ''Pending''),
     (''Rechazada'',
      ''Rejected''),
     (''No est'' @ [CHR 0xE1] @ '' en uso'',
      ''Not in use''),
     (''Sin destinos'',
      ''No targets''),
     (''Sin destinos vivos'',
      ''No live targets''),
     (''Hist'' @ [CHR 0xF3] @ ''rico'',
      ''Historical''),
     (''Retiro pendiente'',
      ''Withdrawal pending''),
     (''Retirada de destinos'',
      ''Withdrawn from targets''),
     (''Activando base'',
      ''Activating base''),
     (''Base activa '' @ [CHR 0xB7] @ '' NOP'',
      ''Active base '' @ [CHR 0xB7] @ '' NOP''),
     (''Base rechazada'',
      ''Base rejected''),
     (''Sin reporte'',
      ''No report''),
     (''S'' @ [CHR 0xF3] @ ''lo reporte'',
      ''Report only''),
     (''Validado'',
      ''Validated''),
     (''Configurado'',
      ''Configured''),
     (''Error'',
      ''Error''),
     (''Inactivo'',
      ''Inactive''),
     (''Activo'',
      ''Active''),
     (''Administradas activas'',
      ''Active managed''),
     (''Administradas retiradas'',
      ''Withdrawn managed''),
     (''Aplicadas'',
      ''Applied''),
     (''Pendientes'',
      ''Pending''),
     (''Rechazadas'',
      ''Rejected''),
     (''Base activa'',
      ''Active base''),
     (''Retirada por reemplazo'',
      ''Withdrawn by replacement''),
     (''Activas'',
      ''Active''),
     (''Aplicadas y en l'' @ [CHR 0xED] @ ''nea'',
      ''Applied and online''),
     (''Aplicaci'' @ [CHR 0xF3] @ ''n parcial'',
      ''Partial application''),
     (''Aplicada y en l'' @ [CHR 0xED] @ ''nea'',
      ''Applied and online''),
     (''Se'' @ [CHR 0xF1] @ ''al OpAMP degradada'',
      ''Degraded OpAMP signal''),
     (''Registro hist'' @ [CHR 0xF3] @ ''rico'',
      ''Historical record''),
     (''Retiradas de destinos'',
      ''Withdrawn from targets''),
     (''Java extension'',
      ''Java extension''),
     (''Parcial'',
      ''Partial''),
     (''Todos'',
      ''All''),
     (''Todas'',
      ''All''),
     (''Sin criterios disponibles'',
      ''No criteria available'')]"

definition english_2 :: dictionary where
  "english_2 =
    [(''CONFIGURACIONES COLLECTOR'',
      ''COLLECTOR CONFIGURATIONS''),
     (''Configuraci'' @ [CHR 0xF3] @ ''n administrada y fallback'',
      ''Managed configuration and fallback''),
     (''Policies activas'',
      ''Active policies''),
     (''Configs Collector administradas'',
      ''Managed Collector configs''),
     (''Destinos en l'' @ [CHR 0xED] @ ''nea y aplicados'',
      ''Online and applied targets''),
     (''Actualizaci'' @ [CHR 0xF3] @ ''n'',
      ''Refresh''),
     (''Buscar configuraci'' @ [CHR 0xF3] @ ''n'',
      ''Search configuration''),
     (''ID, Supervisor, base, autor o selector'',
      ''ID, Supervisor, base, author, or selector''),
     (''Estado'',
      ''Status''),
     (''Supervisor'',
      ''Supervisor''),
     (''Configuraci'' @ [CHR 0xF3] @ ''n / versi'' @ [CHR 0xF3] @ ''n'',
      ''Configuration / version''),
     (''Supervisors'',
      ''Supervisors''),
     (''Selectores'',
      ''Selectors''),
     (''Fallback inmutable'',
      ''Immutable fallback''),
     (''Live status'',
      ''Live status''),
     (''Documento'',
      ''Document''),
     (''Acciones'',
      ''Actions''),
     (''Todos los compatibles'',
      ''All compatible targets''),
     (''Base todav'' @ [CHR 0xED] @ ''a no reportada'',
      ''Base not reported yet''),
     (''Ver YAML'',
      ''View YAML''),
     (''La base es s'' @ [CHR 0xF3] @ ''lo lectura'',
      ''The base is read-only''),
     (''No hay configuraciones Collector administradas que coincidan.'',
      ''No managed Collector configurations match.''),
     (''GESTI'' @ [CHR 0xD3] @ ''N POR POLICY'',
      ''POLICY MANAGEMENT''),
     (''Policies por microservicio'',
      ''Policies by microservice''),
     (''Buscar policy'',
      ''Search policy''),
     (''Nombre, microservicio, autor o selector'',
      ''Name, microservice, author, or selector''),
     (''Microservicio'',
      ''Microservice''),
     (''Policy / versi'' @ [CHR 0xF3] @ ''n'',
      ''Policy / version''),
     (''Microservicios'',
      ''Microservices''),
     (''Activa'',
      ''Active''),
     (''Retirada'',
      ''Withdrawn''),
     (''Ver destinos'',
      ''View targets''),
     (''No hay policies que coincidan.'',
      ''No policies match.''),
     (''ESTADO POR DESTINO'',
      ''STATUS BY TARGET''),
     (''Confirmaci'' @ [CHR 0xF3] @ ''n viva de cada agente'',
      ''Live confirmation from each agent''),
     (''Ver todas'',
      ''View all''),
     (''Buscar destino'',
      ''Search target''),
     (''Servicio, pod, UID, autor o atributo'',
      ''Service, pod, UID, author, or attribute''),
     (''Policy / configuraci'' @ [CHR 0xF3] @ ''n'',
      ''Policy / configuration''),
     (''Estado vivo'',
      ''Live status''),
     (''Policy o configuraci'' @ [CHR 0xF3] @ ''n / versi'' @ [CHR 0xF3] @ ''n'',
      ''Policy or configuration / version''),
     (''Destino'',
      ''Target''),
     (''Alcance'',
      ''Scope''),
     (''Confirmaci'' @ [CHR 0xF3] @ ''n'',
      ''Confirmation''),
     (''Din'' @ [CHR 0xE1] @ ''mico'',
      ''Dynamic''),
     (''InstanceUID exacto'',
      ''Exact InstanceUID''),
     (''Sin confirmaci'' @ [CHR 0xF3] @ ''n'',
      ''No confirmation''),
     (''Confirmado por el '' @ [CHR 0xFA] @ ''ltimo reporte vivo'',
      ''Confirmed by the latest live report''),
     (''Visto'',
      ''Seen''),
     ([CHR 0xDA] @ ''ltima confirmaci'' @ [CHR 0xF3] @ ''n de configuraci'' @ [CHR 0xF3] @ ''n'',
      ''Latest configuration confirmation''),
     (''Cobertura viva'',
      ''Live coverage''),
     (''No hay destinos que coincidan con los filtros.'',
      ''No targets match the filters.''),
     (''La configuraci'' @ [CHR 0xF3] @ ''n remota puede retirarse. El Supervisor vuelve entonces a su base NOP inmutable del ConfigMap; esa base nunca se elimina desde el Control Plane.'',
      ''A remote configuration can be withdrawn. The Supervisor then returns to its immutable NOP base from the ConfigMap; that base is never deleted from the Control Plane.''),
     (''Cada fila representa una policy independiente. Un microservicio puede aparecer en varias filas; el estado indica qu'' @
       [CHR 0xE9] @ '' versi'' @ [CHR 0xF3] @ ''n confirma cada destino en este momento.'',
      ''Each row represents an independent policy. A microservice can appear in multiple rows; the status shows which version each target currently confirms.''),
     (''Un selector estable por servicio o resource attributes alcanza tambi'' @ [CHR 0xE9] @ ''n r'' @ [CHR 0xE9] @
       ''plicas futuras. Un InstanceUID exacto s'' @ [CHR 0xF3] @ ''lo alcanza ese proceso.'',
      ''A stable selector by service or resource attributes also reaches future replicas. An exact InstanceUID reaches only that process.''),
     (''La cobertura viva se calcula s'' @ [CHR 0xF3] @ ''lo con clientes actualmente en l'' @ [CHR 0xED] @
       ''nea que cumplen todos estos criterios.'',
      ''Live coverage is calculated only from currently online clients that satisfy all these criteria.''),
     (''S'' @ [CHR 0xF3] @ ''lo las instancias indicadas; una r'' @ [CHR 0xE9] @ ''plica nueva no hereda este alcance.'',
      ''Only the specified instances; a new replica does not inherit this scope.''),
     (''Las r'' @ [CHR 0xE9] @ ''plicas nuevas que coincidan tambi'' @ [CHR 0xE9] @ ''n reciben la configuraci'' @
       [CHR 0xF3] @ ''n.'',
      ''New matching replicas also receive the configuration.''),
     (''Persistencia'',
      ''Persistence''),
     (''Modelo'',
      ''Model''),
     (''Versionado + audit'',
      ''Versioning + audit''),
     (''INVENTARIO REPORTADO'',
      ''REPORTED INVENTORY''),
     (''Bases locales de Supervisor'',
      ''Local Supervisor bases''),
     (''Base'',
      ''Base''),
     (''Origen'',
      ''Source''),
     (''Comportamiento'',
      ''Behavior''),
     (''Descriptor'',
      ''Descriptor''),
     (''Reportada por Supervisor'',
      ''Reported by Supervisor''),
     (''Revisi'' @ [CHR 0xF3] @ ''n del artefacto'',
      ''Artifact revision''),
     (''Asignaci'' @ [CHR 0xF3] @ ''n por AgentUID'',
      ''Assignment by AgentUID''),
     (''Todas las r'' @ [CHR 0xE9] @ ''plicas del servicio'',
      ''All service replicas''),
     (''Inmutable'',
      ''Immutable''),
     (''Reportada'',
      ''Reported''),
     (''Ver descriptor'',
      ''View descriptor''),
     (''Ning'' @ [CHR 0xFA] @ ''n Supervisor ha reportado una base local.'',
      ''No Supervisor has reported a local base.''),
     (''Cada Supervisor es propietario de su binario y de su base NOP inmutable. El Control Plane s'' @ [CHR 0xF3] @
       ''lo muestra los metadatos reportados y no distribuye ni versiona esos artefactos.'',
      ''Each Supervisor owns its binary and immutable NOP base. The Control Plane only displays reported metadata and does not distribute or version those artifacts.''),
     (''CONFIGURACIONES'',
      ''CONFIGURATIONS''),
     (''Versiones inmutables'',
      ''Immutable versions''),
     ([CHR 0xE2, CHR 0x80, CHR 0x9C] @ ''Publicaci'' @ [CHR 0xF3] @ ''n registrada'' @ [CHR 0xE2, CHR 0x80, CHR 0x9D] @
       '' es la acci'' @ [CHR 0xF3] @ ''n auditable. El estado de aplicaci'' @ [CHR 0xF3] @ ''n cambia '' @ [CHR 0xFA] @
       ''nicamente cuando los destinos confirman por OpAMP si activaron o rechazaron la versi'' @ [CHR 0xF3] @
       ''n. Las acciones de ciclo de vida aparecen s'' @ [CHR 0xF3] @ ''lo sobre la versi'' @ [CHR 0xF3] @
       ''n activa: se vuelve a la predecesora o se retira la policy cuando todav'' @ [CHR 0xED] @
       ''a no existe una versi'' @ [CHR 0xF3] @ ''n anterior. En Collectors, retirar la configuraci'' @ [CHR 0xF3] @
       ''n administrada vuelve a la base NOP local reportada por el Supervisor.'',
      [CHR 0xE2, CHR 0x80, CHR 0x9C] @ ''Recorded publication'' @ [CHR 0xE2, CHR 0x80, CHR 0x9D] @
        '' is the auditable action. Application status changes only when targets confirm through OpAMP whether they activated or rejected the version. Lifecycle actions appear only on the active version: it returns to its predecessor, or the policy is withdrawn when no previous version exists. For Collectors, withdrawing the managed configuration returns to the local NOP base reported by the Supervisor.''),
     (''versi'' @ [CHR 0xF3] @ ''n'',
      ''version''),
     (''versiones'',
      ''versions''),
     (''Administrada'',
      ''Managed''),
     (''destino(s) observado(s)'',
      ''observed target(s)''),
     (''instancia(s)'',
      ''instance(s)''),
     (''Identidad auditada'',
      ''Audited identity''),
     (''Buscar'',
      ''Search''),
     (''ID, versi'' @ [CHR 0xF3] @ ''n, autor o hash'',
      ''ID, version, author, or hash''),
     (''Estado actual'',
      ''Current status''),
     (''No se entrega a ning'' @ [CHR 0xFA] @ ''n destino.'',
      ''It is not delivered to any target.''),
     (''Ver'',
      ''View''),
     (''Cargar en editor'',
      ''Load in editor''),
     (''Restaurar esta versi'' @ [CHR 0xF3] @ ''n'',
      ''Restore this version''),
     (''Retirar y activar base'',
      ''Withdraw and activate base''),
     (''No hay versiones que coincidan con los filtros.'',
      ''No versions match the filters.''),
     (''AUDITOR'' @ [CHR 0xCD] @ ''A POSTGRESQL'',
      ''POSTGRESQL AUDIT''),
     ([CHR 0xDA] @ ''ltimas acciones'',
      ''Latest actions''),
     (''Sin eventos de auditor'' @ [CHR 0xED] @ ''a.'',
      ''No audit events.''),
     (''DOCUMENTO INMUTABLE'',
      ''IMMUTABLE DOCUMENT''),
     (''BASE INMUTABLE'',
      ''IMMUTABLE BASE''),
     (''Configuraci'' @ [CHR 0xF3] @ ''n YAML'',
      ''YAML configuration''),
     (''Configuraci'' @ [CHR 0xF3] @ ''n base inmutable'',
      ''Immutable base configuration''),
     (''Descriptor del ConfigMap base'',
      ''Base ConfigMap descriptor''),
     (''Ver policy'',
      ''View policy''),
     (''Ver configuraci'' @ [CHR 0xF3] @ ''n'',
      ''View configuration''),
     (''Ver selectores'',
      ''View selectors''),
     (''ALCANCE DE PUBLICACI'' @ [CHR 0xD3] @ ''N'',
      ''PUBLICATION SCOPE''),
     (''Selectores aplicados'',
      ''Applied selectors''),
     (''Modalidad'',
      ''Mode''),
     (''Servicios'',
      ''Services''),
     (''Sin restricci'' @ [CHR 0xF3] @ ''n'',
      ''No restriction''),
     (''InstanceUID exactos'',
      ''Exact InstanceUIDs''),
     (''Cobertura actual'',
      ''Current coverage''),
     (''Eventos de telemetr'' @ [CHR 0xED] @ ''a'',
      ''Telemetry events''),
     (''HTTP entrante, m'' @ [CHR 0xE9] @ ''todo Java o HTTP saliente hacia spans, logs y m'' @ [CHR 0xE9] @ ''tricas.'',
      ''Incoming HTTP, Java methods, or outgoing HTTP to spans, logs, and metrics.''),
     (''HTTP, m'' @ [CHR 0xE9] @ ''todo Java, Kafka o JMS hacia spans, logs y m'' @ [CHR 0xE9] @ ''tricas.'',
      ''HTTP, Java methods, Kafka, or JMS to spans, logs, and metrics.''),
     (''Collector'',
      ''Collector''),
     (''Edita y valida la configuraci'' @ [CHR 0xF3] @ ''n completa de un Supervisor.'',
      ''Edit and validate a Supervisor'' @ [CHR 0x27] @ ''s complete configuration.''),
     (''Tipo de configuraci'' @ [CHR 0xF3] @ ''n'',
      ''Configuration type''),
     (''Trigger'',
      ''Trigger''),
     (''Capturas'',
      ''Captures''),
     (''M'' @ [CHR 0xE9] @ ''tricas'',
      ''Metrics''),
     (''Destinos'',
      ''Targets''),
     (''Cu'' @ [CHR 0xE1] @ ''ndo'',
      ''When''),
     (''Datos'',
      ''Data''),
     (''Salidas'',
      ''Outputs''),
     (''reglas'',
      ''rules''),
     (''m'' @ [CHR 0xE9] @ ''todos'',
      ''methods''),
     (''Paso siguiente'',
      ''Next step''),
     (''REGLAS HTTP'',
      ''HTTP RULES''),
     (''Cu'' @ [CHR 0xE1] @ ''ndo ocurre, qu'' @ [CHR 0xE9] @ '' datos usar y qu'' @ [CHR 0xE9] @ '' telemetr'' @
       [CHR 0xED] @ ''a emitir'',
      ''When it happens, which data to use, and which telemetry to emit''),
     (''+ agregar regla HTTP'',
      ''+ add HTTP rule''),
     (''Configuraci'' @ [CHR 0xF3] @ ''n HTTP heredada conservada'',
      ''Legacy HTTP configuration preserved''),
     (''captura de header'',
      ''header capture''),
     (''capturas de headers'',
      ''header captures''),
     (''del editor anterior. Se conserva y puede editarse en JSON.'',
      ''from the previous editor. It is preserved and can be edited as JSON.''),
     (''Esta policy contiene'',
      ''This policy contains''),
     (''captura o m'' @ [CHR 0xE9] @ ''trica'',
      ''capture or metric'')]"

definition english_3 :: dictionary where
  "english_3 =
    [(''capturas o m'' @ [CHR 0xE9] @ ''tricas'',
      ''captures or metrics''),
     (''del editor anterior. No se borran ni se modifican desde este formulario unificado.'',
      ''from the previous editor. They are not deleted or modified from this unified form.''),
     (''1 '' @ [CHR 0xB7] @ '' Trigger'',
      ''1 '' @ [CHR 0xB7] @ '' Trigger''),
     (''2 '' @ [CHR 0xB7] @ '' Capturas'',
      ''2 '' @ [CHR 0xB7] @ '' Captures''),
     (''3 '' @ [CHR 0xB7] @ '' Span / log'',
      ''3 '' @ [CHR 0xB7] @ '' Span / log''),
     (''4 '' @ [CHR 0xB7] @ '' M'' @ [CHR 0xE9] @ ''tricas'',
      ''4 '' @ [CHR 0xB7] @ '' Metrics''),
     (''5 '' @ [CHR 0xB7] @ '' Destinos'',
      ''5 '' @ [CHR 0xB7] @ '' Targets''),
     (''1 '' @ [CHR 0xB7] @ '' Cu'' @ [CHR 0xE1] @ ''ndo'',
      ''1 '' @ [CHR 0xB7] @ '' When''),
     (''2 '' @ [CHR 0xB7] @ '' Datos'',
      ''2 '' @ [CHR 0xB7] @ '' Data''),
     (''3 '' @ [CHR 0xB7] @ '' Salidas'',
      ''3 '' @ [CHR 0xB7] @ '' Outputs''),
     (''4 '' @ [CHR 0xB7] @ '' Destinos'',
      ''4 '' @ [CHR 0xB7] @ '' Targets''),
     (''Editar en JSON'',
      ''Edit as JSON''),
     (''No hay reglas HTTP para esta direcci'' @ [CHR 0xF3] @ ''n.'',
      ''There are no HTTP rules for this direction.''),
     (''Agrega una regla y completa el flujo Cu'' @ [CHR 0xE1] @ ''ndo '' @ [CHR 0xE2, CHR 0x86, CHR 0x92] @ '' Datos '' @
       [CHR 0xE2, CHR 0x86, CHR 0x92] @ '' Salidas.'',
      ''Add a rule and complete the When '' @ [CHR 0xE2, CHR 0x86, CHR 0x92] @ '' Data '' @
        [CHR 0xE2, CHR 0x86, CHR 0x92] @ '' Outputs flow.''),
     (''Eliminar'',
      ''Delete''),
     (''Nombre de la regla'',
      ''Rule name''),
     (''HTTP entrante'',
      ''Incoming HTTP''),
     (''HTTP saliente '' @ [CHR 0xB7] @ '' RestClient, Apache HttpClient u OkHttp'',
      ''Outgoing HTTP '' @ [CHR 0xB7] @ '' RestClient, Apache HttpClient, or OkHttp''),
     (''Opciones avanzadas de la regla'',
      ''Advanced rule options''),
     (''Identificador interno'',
      ''Internal identifier''),
     (''Atributos est'' @ [CHR 0xE1] @ ''ticos y l'' @ [CHR 0xED] @ ''mites de body'',
      ''Static attributes and body limits''),
     (''Atributos est'' @ [CHR 0xE1] @ ''ticos'',
      ''Static attributes''),
     (''+ atributo est'' @ [CHR 0xE1] @ ''tico'',
      ''+ static attribute''),
     (''Content-Type request'',
      ''Request Content-Type''),
     (''Content-Type response'',
      ''Response Content-Type''),
     (''L'' @ [CHR 0xED] @ ''mite por body (bytes)'',
      ''Limit per body (bytes)''),
     (''1 '' @ [CHR 0xB7] @ '' Cu'' @ [CHR 0xE1] @ ''ndo: condiciones AND'',
      ''1 '' @ [CHR 0xB7] @ '' When: AND conditions''),
     (''+ condici'' @ [CHR 0xF3] @ ''n'',
      ''+ condition''),
     (''Request path'',
      ''Request path''),
     (''HTTP method'',
      ''HTTP method''),
     (''Response status'',
      ''Response status''),
     (''No aplica'',
      ''Not applicable''),
     (''Operador'',
      ''Operator''),
     (''Valores'',
      ''Values''),
     (''Quitar condici'' @ [CHR 0xF3] @ ''n'',
      ''Remove condition''),
     (''2 '' @ [CHR 0xB7] @ '' Datos capturados'',
      ''2 '' @ [CHR 0xB7] @ '' Captured data''),
     (''+ campo'',
      ''+ field''),
     (''Fuente'',
      ''Source''),
     (''Selector (ruta JSON, header o query)'',
      ''Selector (JSON path, header, or query)''),
     (''Atributo OTel resultante'',
      ''Resulting OTel attribute''),
     (''Fuente HTTP'',
      ''HTTP source''),
     (''Atributo OTel'',
      ''OTel attribute''),
     (''Tipo de campo'',
      ''Field type''),
     (''Quitar campo'',
      ''Remove field''),
     (''A'' @ [CHR 0xF1] @ ''adir al span'',
      ''Add to span''),
     (''A'' @ [CHR 0xF1] @ ''adir al log'',
      ''Add to log''),
     (''Usar como label'',
      ''Use as label''),
     (''Datos avanzados: campos calculados'',
      ''Advanced data: calculated fields''),
     (''+ campo calculado'',
      ''+ calculated field''),
     (''Expresi'' @ [CHR 0xF3] @ ''n con atributos capturados'',
      ''Expression with captured attributes''),
     (''Atributo calculado OTel'',
      ''Calculated OTel attribute''),
     (''Expresi'' @ [CHR 0xF3] @ ''n aritm'' @ [CHR 0xE9] @ ''tica'',
      ''Arithmetic expression''),
     (''Tipo calculado'',
      ''Calculated type''),
     (''Quitar campo calculado'',
      ''Remove calculated field''),
     (''Disponibles'',
      ''Available''),
     (''3 '' @ [CHR 0xB7] @ '' Salidas: spans y logs'',
      ''3 '' @ [CHR 0xB7] @ '' Outputs: spans and logs''),
     (''Nombre del evento (opcional)'',
      ''Event name (optional)''),
     (''Emitir un log OTel correlacionado cuando toda la regla coincida'',
      ''Emit a correlated OTel log when the entire rule matches''),
     (''Severidad del log'',
      ''Log severity''),
     (''Mensaje del log'',
      ''Log message''),
     (''3 '' @ [CHR 0xB7] @ '' Salidas: m'' @ [CHR 0xE9] @ ''tricas'',
      ''3 '' @ [CHR 0xB7] @ '' Outputs: metrics''),
     (''+ agregar m'' @ [CHR 0xE9] @ ''trica'',
      ''+ add metric''),
     (''Eliminar m'' @ [CHR 0xE9] @ ''trica'',
      ''Delete metric''),
     (''Nombre OTel'',
      ''OTel name''),
     (''Intenci'' @ [CHR 0xF3] @ ''n'',
      ''Intent''),
     (''Contar coincidencias'',
      ''Count matches''),
     (''Acumular total'',
      ''Accumulate total''),
     (''Distribuir valores'',
      ''Distribute values''),
     (''Campo de valor'',
      ''Value field''),
     (''Unidad'',
      ''Unit''),
     (''Descripci'' @ [CHR 0xF3] @ ''n'',
      ''Description''),
     (''Dimensiones acotadas'',
      ''Bounded dimensions''),
     (''Buckets expl'' @ [CHR 0xED] @ ''citos'',
      ''Explicit buckets''),
     ([CHR 0xE2, CHR 0x86, CHR 0x90] @ '' Anterior'',
      [CHR 0xE2, CHR 0x86, CHR 0x90] @ '' Previous''),
     (''Modo de edici'' @ [CHR 0xF3] @ ''n'',
      ''Editing mode''),
     (''Formulario guiado'',
      ''Guided form''),
     (''PASO 1 '' @ [CHR 0xB7] @ '' ORIGEN'',
      ''STEP 1 '' @ [CHR 0xB7] @ '' SOURCE''),
     (''Carga o inicia una configuraci'' @ [CHR 0xF3] @ ''n'',
      ''Load or start a configuration''),
     (''Versi'' @ [CHR 0xF3] @ ''n guardada en PostgreSQL'',
      ''Version stored in PostgreSQL''),
     (''Selecciona una versi'' @ [CHR 0xF3] @ ''n'' @ [CHR 0xE2, CHR 0x80, CHR 0xA6],
      ''Select a version'' @ [CHR 0xE2, CHR 0x80, CHR 0xA6]),
     (''Cargar versi'' @ [CHR 0xF3] @ ''n'',
      ''Load version''),
     (''Nueva en blanco'',
      ''Start blank''),
     (''ID de configuraci'' @ [CHR 0xF3] @ ''n'',
      ''Configuration ID''),
     (''PASO 2 '' @ [CHR 0xB7] @ '' EDICI'' @ [CHR 0xD3] @ ''N'',
      ''STEP 2 '' @ [CHR 0xB7] @ '' EDITING''),
     (''Define capturas e instrumentos'',
      ''Define captures and instruments''),
     (''Edita la configuraci'' @ [CHR 0xF3] @ ''n del Collector'',
      ''Edit the Collector configuration''),
     (''Destinos conectados'',
      ''Connected targets''),
     (''M'' @ [CHR 0xE9] @ ''tricas en editor'',
      ''Metrics in editor''),
     (''Capturas bloqueadas por deny'',
      ''Captures blocked by deny''),
     (''Borrador local restaurado'',
      ''Local draft restored''),
     (''Borrador local descartado. No se public'' @ [CHR 0xF3] @ '' ning'' @ [CHR 0xFA] @ ''n cambio.'',
      ''Local draft discarded. No changes were published.''),
     (''Continuar con borrador'',
      ''Continue with draft''),
     (''Descartar'',
      ''Discard''),
     (''Control de cardinalidad'',
      ''Cardinality control''),
     (''Lista permitida'',
      ''Allowlist''),
     (''Rangos'',
      ''Ranges''),
     (''Booleano'',
      ''Boolean''),
     (''Valores permitidos'',
      ''Allowed values''),
     (''Rangos '' @ [CHR 0x60] @ ''m'' @ [CHR 0xE1] @ ''ximo:label'' @ [CHR 0x60],
      ''Ranges '' @ [CHR 0x60] @ ''maximum:label'' @ [CHR 0x60]),
     (''ENVIAR A DESTINOS'',
      ''SEND TO TARGETS''),
     (''Selecciona qui'' @ [CHR 0xE9] @ ''n recibir'' @ [CHR 0xE1] @ '' esta versi'' @ [CHR 0xF3] @ ''n'',
      ''Select who will receive this version''),
     (''coinciden'',
      ''match''),
     (''visibles'',
      ''visible''),
     (''Actualizar inventario'',
      ''Refresh inventory''),
     (''Buscar en el inventario'',
      ''Search inventory''),
     (''servicio, instance ID, cluster o resource attribute'',
      ''service, instance ID, cluster, or resource attribute''),
     (''No hay servicios conectados compatibles.'',
      ''There are no compatible connected services.''),
     (''Resource attributes exactos'',
      ''Exact resource attributes''),
     (''+ atributo'',
      ''+ attribute''),
     (''Valor exacto'',
      ''Exact value''),
     (''Eliminar selector'',
      ''Delete selector''),
     (''Instancia'',
      ''Instance''),
     (''Configuraci'' @ [CHR 0xF3] @ ''n actual'',
      ''Current configuration''),
     (''Resultado'',
      ''Result''),
     (''Recibir'' @ [CHR 0xE1],
      ''Will receive''),
     (''No coincide'',
      ''Does not match''),
     (''No hay destinos conectados con la b'' @ [CHR 0xFA] @ ''squeda.'',
      ''No connected targets match the search.''),
     (''Ninguno'',
      ''None''),
     (''No hay destinos que cumplan los selectores y la b'' @ [CHR 0xFA] @ ''squeda.'',
      ''No targets match both the selectors and the search.''),
     (''Seleccionar instancias visibles'',
      ''Select visible instances''),
     (''Limpiar selectores'',
      ''Clear selectors''),
     (''Instance IDs, servicios y resource attributes se combinan con l'' @ [CHR 0xF3] @ ''gica AND. Esta lista s'' @
       [CHR 0xF3] @ ''lo contiene clientes conectados: Supervisors en CONNECTED y extensiones Java en ONLINE. Un selector vac'' @
       [CHR 0xED] @ ''o abarca todos los destinos conectados mostrados.'',
      ''Instance IDs, services, and resource attributes are combined with AND logic. This list contains only connected clients: Supervisors in CONNECTED and Java extensions in ONLINE. An empty selector covers every displayed connected target.''),
     (''Instance IDs, servicios y resource attributes se combinan con l'' @ [CHR 0xF3] @
       ''gica AND. La tabla muestra s'' @ [CHR 0xF3] @ ''lo los destinos que cumplen los selectores y la b'' @
       [CHR 0xFA] @ ''squeda. El inventario permanece fijo mientras revisas; actual'' @ [CHR 0xED] @
       ''zalo manualmente cuando lo necesites.'',
      ''Instance IDs, services, and resource attributes are combined with AND logic. The table shows only targets that match the selectors and search. The inventory remains fixed while you review it; refresh it manually when needed.''),
     (''La versi'' @ [CHR 0xF3] @ ''n cargada contiene selectores que ahora est'' @ [CHR 0xE1] @
       ''n desconectados y no pueden recibir la configuraci'' @ [CHR 0xF3] @ ''n.'',
      ''The loaded version contains selectors that are now disconnected and cannot receive the configuration.''),
     (''Quitar selectores no disponibles'',
      ''Remove unavailable selectors''),
     (''Men'' @ [CHR 0xFA],
      ''Menu''),
     (''sin se'' @ [CHR 0xF1] @ ''al OpAMP excluidos'',
      ''without OpAMP signal excluded''),
     (''Este ID identifica un ConfigMap base inmutable. Usa un ID distinto para publicar una configuraci'' @ [CHR 0xF3] @
       ''n administrada.'',
      ''This ID identifies an immutable base ConfigMap. Use a different ID to publish a managed configuration.''),
     (''Edici'' @ [CHR 0xF3] @ ''n'',
      ''Editing''),
     (''Revisi'' @ [CHR 0xF3] @ ''n'',
      ''Review''),
     (''Define capturas, m'' @ [CHR 0xE9] @ ''tricas o YAML'',
      ''Define captures, metrics, or YAML''),
     (''Aplica selectores al inventario'',
      ''Apply selectors to inventory''),
     (''Valida y publica la versi'' @ [CHR 0xF3] @ ''n'',
      ''Validate and publish the version''),
     (''Flujo de publicaci'' @ [CHR 0xF3] @ ''n'',
      ''Publication flow''),
     (''Continuar'',
      ''Continue''),
     (''Categor'' @ [CHR 0xED] @ ''a del evento de telemetr'' @ [CHR 0xED] @ ''a'',
      ''Telemetry event category''),
     (''Flujo de la policy seleccionada'',
      ''Selected policy flow'')]"

definition english_4 :: dictionary where
  "english_4 =
    [(''M'' @ [CHR 0xE9] @ ''todo Java'',
      ''Java method''),
     (''HTTP saliente'',
      ''Outgoing HTTP''),
     (''Kafka'',
      ''Kafka''),
     (''JMS'',
      ''JMS''),
     (''Producer o consumer: topic, key, headers y payload JSON.'',
      ''Producer or consumer: topic, key, headers, and JSON payload.''),
     (''Producer o consumer: queue/topic, properties y payload JSON.'',
      ''Producer or consumer: queue/topic, properties, and JSON payload.''),
     (''Este evento usa '' @ [CHR 0xFA] @ ''nicamente datos disponibles en la invocaci'' @ [CHR 0xF3] @ ''n del m'' @
       [CHR 0xE9] @ ''todo.'',
      ''This event uses only data available in the method invocation.''),
     (''Cada regla de mensajer'' @ [CHR 0xED] @ ''a observa una operaci'' @ [CHR 0xF3] @
       ''n producer o consumer independiente; no espera ni une una respuesta posterior.'',
      ''Each messaging rule observes an independent producer or consumer operation; it does not wait for or join a later response.''),
     (''Los scopes no se mezclan en un '' @ [CHR 0xFA] @
       ''nico evento; pueden correlacionarse posteriormente por trace_id y contexto de mensajer'' @ [CHR 0xED] @ ''a.'',
      ''Scopes are not mixed into one event; they can be correlated later through trace_id and messaging context.''),
     (''Cada regla HTTP sigue el flujo Cu'' @ [CHR 0xE1] @ ''ndo '' @ [CHR 0xE2, CHR 0x86, CHR 0x92] @ '' Datos '' @
       [CHR 0xE2, CHR 0x86, CHR 0x92] @ '' Salidas y puede combinar request y response de la misma operaci'' @
       [CHR 0xF3] @ ''n.'',
      ''Each HTTP rule follows the When '' @ [CHR 0xE2, CHR 0x86, CHR 0x92] @ '' Data '' @
        [CHR 0xE2, CHR 0x86, CHR 0x92] @ '' Outputs flow and can combine the request and response of the same operation.''),
     (''HTTP y m'' @ [CHR 0xE9] @ ''todo no se mezclan en un '' @ [CHR 0xFA] @
       ''nico evento; pueden correlacionarse por trace_id.'',
      ''HTTP and method data are not mixed into one event; they can be correlated by trace_id.''),
     (''Contar coincidencias suma 1 por cada coincidencia. Total acumula un campo num'' @ [CHR 0xE9] @
       ''rico no negativo. Distribuci'' @ [CHR 0xF3] @ ''n registra sus valores para consultar count, sum y buckets.'',
      ''Count matches adds 1 for every match. Total accumulates a non-negative numeric field. Distribution records its values for count, sum, and bucket queries.''),
     (''Opcional. La extensi'' @ [CHR 0xF3] @ ''n crea la m'' @ [CHR 0xE9] @
       ''trica cuando esta regla coincide; el Collector s'' @ [CHR 0xF3] @ ''lo la transporta.'',
      ''Optional. The extension creates the metric when this rule matches; the Collector only transports it.''),
     (''Define un nombre OTel antes de publicar.'',
      ''Define an OTel name before publishing.''),
     (''Nombre reservado, duplicado o en uso.'',
      ''The name is reserved, duplicated, or already in use.''),
     (''Qu'' @ [CHR 0xE9] @ '' medir'',
      ''What to measure''),
     (''Qu'' @ [CHR 0xE9] @ '' medir con la m'' @ [CHR 0xE9] @ ''trica'',
      ''What to measure with the metric''),
     (''Contar coincidencias (+1)'',
      ''Count matches (+1)''),
     (''Total acumulado de un campo no negativo'',
      ''Accumulated total of a non-negative field''),
     (''Distribuci'' @ [CHR 0xF3] @ ''n de un campo'',
      ''Field distribution''),
     (''Campo num'' @ [CHR 0xE9] @ ''rico'',
      ''Numeric field''),
     (''A'' @ [CHR 0xF1] @ ''ade primero un dato num'' @ [CHR 0xE9] @ ''rico DOUBLE o LONG.'',
      ''First add a DOUBLE or LONG numeric data field.''),
     (''El campo seleccionado ya no existe o dej'' @ [CHR 0xF3] @ '' de ser num'' @ [CHR 0xE9] @
       ''rico. Elige uno disponible antes de publicar.'',
      ''The selected field no longer exists or is no longer numeric. Choose an available field before publishing.''),
     (''Labels de la m'' @ [CHR 0xE9] @ ''trica'',
      ''Metric labels''),
     (''Labels de negocio'',
      ''Business labels''),
     (''M'' @ [CHR 0xE9] @ ''tricas para todos los intercambios HTTP'',
      ''Metrics for all HTTP exchanges''),
     (''No usan la etapa Cu'' @ [CHR 0xE1] @ ''ndo: se registran una vez por cada intercambio HTTP de esta direcci'' @
       [CHR 0xF3] @ ''n. La duraci'' @ [CHR 0xF3] @ ''n y los atributos OTel provienen de la instrumentaci'' @
       [CHR 0xF3] @ ''n HTTP nativa.'',
      ''They do not use the When stage: they are recorded once for every HTTP exchange in this direction. Duration and OTel attributes come from native HTTP instrumentation.''),
     (''+ m'' @ [CHR 0xE9] @ ''trica para todo HTTP'',
      ''+ metric for all HTTP''),
     (''Usa esta opci'' @ [CHR 0xF3] @ ''n para replicar una m'' @ [CHR 0xE9] @
       ''trica como http.server.request.duration con otro nombre y labels propios, sin condiciones artificiales.'',
      ''Use this option to replicate a metric such as http.server.request.duration under another name and with custom labels, without artificial conditions.''),
     (''Debe ser distinto de la m'' @ [CHR 0xE9] @ ''trica est'' @ [CHR 0xE1] @ ''ndar ya creada por el Java Agent.'',
      ''It must differ from the standard metric already created by the Java Agent.''),
     (''Duraci'' @ [CHR 0xF3] @ ''n HTTP real'',
      ''Actual HTTP duration''),
     (''Constante por intercambio'',
      ''Constant per exchange''),
     (''Atributo HTTP num'' @ [CHR 0xE9] @ ''rico'',
      ''Numeric HTTP attribute''),
     (''Esquema HTTP o HTTPS conocido por la instrumentaci'' @ [CHR 0xF3] @ ''n.'',
      ''HTTP or HTTPS scheme known by the instrumentation.''),
     (''Nombre estable del protocolo cuando est'' @ [CHR 0xE1] @ '' disponible.'',
      ''Stable protocol name when available.''),
     (''Versi'' @ [CHR 0xF3] @ ''n del protocolo cuando est'' @ [CHR 0xE1] @ '' disponible.'',
      ''Protocol version when available.''),
     (''Labels de negocio desde request headers'',
      ''Business labels from request headers''),
     (''Cada fila extrae s'' @ [CHR 0xF3] @ ''lo el header indicado. El label siempre se a'' @ [CHR 0xF1] @
       ''ade a esta m'' @ [CHR 0xE9] @ ''trica.'',
      ''Each row extracts only the specified header. The label is always added to this metric.''),
     (''+ label de negocio'',
      ''+ business label''),
     (''A'' @ [CHR 0xF1] @ ''adir tambi'' @ [CHR 0xE9] @ ''n al span'',
      ''Also add to span''),
     (''Quitar label'',
      ''Remove label''),
     (''Descripci'' @ [CHR 0xF3] @ ''n y buckets'',
      ''Description and buckets''),
     (''Sin control (cualquier valor)'',
      ''Uncontrolled (any value)''),
     (''Se conservar'' @ [CHR 0xE1] @ '' cualquier valor capturado. Puede crear una cantidad no acotada de series; '' @
       [CHR 0xFA] @ ''salo s'' @ [CHR 0xF3] @ ''lo cuando aceptes ese costo.'',
      ''Every captured value will be preserved. This may create an unbounded number of series; use it only when you accept that cost.''),
     (''Atributos del contexto OTel disponibles al cerrar esta operaci'' @ [CHR 0xF3] @
       ''n HTTP. Los valores ausentes se omiten.'',
      ''OTel context attributes available when this HTTP operation completes. Missing values are omitted.''),
     (''M'' @ [CHR 0xE9] @ ''todo HTTP conocido.'',
      ''Known HTTP method.''),
     (''Plantilla de ruta coincidente; nunca se sustituye por la URL concreta.'',
      ''Matched route template; it is never replaced with the concrete URL.''),
     (''C'' @ [CHR 0xF3] @ ''digo de respuesta cuando la operaci'' @ [CHR 0xF3] @ ''n produjo uno.'',
      ''Response status code when the operation produced one.''),
     (''Se omite en operaciones exitosas. En errores contiene el c'' @ [CHR 0xF3] @
       ''digo HTTP, timeout o la clase de excepci'' @ [CHR 0xF3] @ ''n.'',
      ''Omitted for successful operations. For errors, it contains the HTTP status code, timeout, or exception class.''),
     (''Se exporta literalmente en OTLP. Las llaves, como {PEN}, son una anotaci'' @ [CHR 0xF3] @
       ''n UCUM; no una variable ni un campo.'',
      ''Exported literally in OTLP. Braces, as in {PEN}, are a UCUM annotation, not a variable or field.''),
     (''Unidad en'',
      ''Unit:''),
     (''cada bucket representa un l'' @ [CHR 0xED] @ ''mite de la unidad.'',
      ''each bucket represents a unit threshold.''),
     (''Define primero la unidad; cada bucket representa un l'' @ [CHR 0xED] @ ''mite expresado en ella.'',
      ''Define the unit first; each bucket represents a threshold expressed in that unit.''),
     (''En Datos, marca un campo como '' @ [CHR 0xE2, CHR 0x80, CHR 0x9C] @ ''Usar como label'' @
       [CHR 0xE2, CHR 0x80, CHR 0x9D] @ '' y controla sus valores con ENUM, RANGE o BOOLEAN.'',
      ''Under Data, mark a field as '' @ [CHR 0xE2, CHR 0x80, CHR 0x9C] @ ''Use as label'' @
        [CHR 0xE2, CHR 0x80, CHR 0x9D] @ '' and control its values with ENUM, RANGE, or BOOLEAN.''),
     (''En Datos, marca un campo como '' @ [CHR 0xE2, CHR 0x80, CHR 0x9C] @ ''Usar como label'' @
       [CHR 0xE2, CHR 0x80, CHR 0x9D] @ '' y controla su cardinalidad o elige Sin control.'',
      ''Under Data, mark a field as '' @ [CHR 0xE2, CHR 0x80, CHR 0x9C] @ ''Use as label'' @
        [CHR 0xE2, CHR 0x80, CHR 0x9D] @ '' and control its cardinality or choose Uncontrolled.''),
     (''Labels no disponibles'',
      ''Unavailable labels''),
     (''Quitar labels no disponibles'',
      ''Remove unavailable labels''),
     (''Opciones avanzadas de la m'' @ [CHR 0xE9] @ ''trica'',
      ''Advanced metric options''),
     (''Una regla puede combinar request y response del mismo intercambio. Define condiciones, extrae s'' @ [CHR 0xF3] @
       ''lo los datos necesarios y decide si van a spans, logs o m'' @ [CHR 0xE9] @
       ''tricas. Las condiciones se combinan con AND y nunca se exportan headers ni bodies completos.'',
      ''A rule can combine the request and response from the same exchange. Define conditions, extract only the necessary data, and decide whether it goes to spans, logs, or metrics. Conditions are combined with AND, and complete headers or bodies are never exported.''),
     (''Enlaza internamente las m'' @ [CHR 0xE9] @ ''tricas con esta regla; no se exporta por s'' @ [CHR 0xED] @ '' solo.'',
      ''Internally links metrics to this rule; it is not exported by itself.''),
     (''Debe ser '' @ [CHR 0xFA] @ ''nico en todo el documento, incluso en reglas deshabilitadas.'',
      ''It must be unique throughout the document, including disabled rules.''),
     (''Son opcionales y ning'' @ [CHR 0xFA] @ ''n nombre o valor se a'' @ [CHR 0xF1] @ ''ade impl'' @ [CHR 0xED] @
       ''citamente.'',
      ''They are optional, and no name or value is added implicitly.''),
     (''Nombre del atributo est'' @ [CHR 0xE1] @ ''tico'',
      ''Static attribute name''),
     (''Valor del atributo est'' @ [CHR 0xE1] @ ''tico'',
      ''Static attribute value''),
     (''Tipo del atributo est'' @ [CHR 0xE1] @ ''tico'',
      ''Static attribute type''),
     (''Quitar atributo est'' @ [CHR 0xE1] @ ''tico'',
      ''Remove static attribute''),
     (''Fuente de condici'' @ [CHR 0xF3] @ ''n'',
      ''Condition source''),
     (''Path y m'' @ [CHR 0xE9] @ ''todo son obligatorios; cualquier dato disponible del request o response puede confirmar el resultado.'',
      ''Path and method are required; any available request or response data can confirm the outcome.''),
     (''Los l'' @ [CHR 0xED] @ ''mites de body aparecer'' @ [CHR 0xE1] @ ''n cuando uses Request body o Response body.'',
      ''Body limits will appear when you use Request body or Response body.''),
     (''Cada selector crea s'' @ [CHR 0xF3] @ ''lo el atributo indicado; el dato original se descarta.'',
      ''Each selector creates only the specified attribute; the original data is discarded.''),
     (''Combina campos num'' @ [CHR 0xE9] @ ''ricos ya extra'' @ [CHR 0xED] @ ''dos con +, -, *, / y par'' @ [CHR 0xE9] @
       ''ntesis. Se eval'' @ [CHR 0xFA] @ ''an en orden y nunca se ejecuta c'' @ [CHR 0xF3] @ ''digo.'',
      ''Combine previously extracted numeric fields with +, -, *, /, and parentheses. They are evaluated in order and code is never executed.''),
     (''Los datos marcados se a'' @ [CHR 0xF1] @ ''aden s'' @ [CHR 0xF3] @ ''lo a la se'' @ [CHR 0xF1] @
       ''al elegida. Puedes asignar un nombre al evento y emitir un log correlacionado opcional.'',
      ''Marked data is added only to the selected signal. You can name the event and optionally emit a correlated log.''),
     (''Se serializa expl'' @ [CHR 0xED] @ ''citamente como el atributo OTel'',
      ''It is explicitly serialized as the OTel attribute''),
     (''Request path param'',
      ''Request path parameter''),
     (''Nombre l'' @ [CHR 0xF3] @ ''gico del path param'',
      ''Logical path parameter name''),
     (''REGLAS KAFKA'',
      ''KAFKA RULES''),
     (''REGLAS JMS'',
      ''JMS RULES''),
     (''Observa una operaci'' @ [CHR 0xF3] @ ''n de mensajer'' @ [CHR 0xED] @ ''a y decide qu'' @ [CHR 0xE9] @
       '' telemetr'' @ [CHR 0xED] @ ''a emitir'',
      ''Observe a messaging operation and decide which telemetry to emit''),
     (''+ agregar regla Kafka'',
      ''+ add Kafka rule''),
     (''+ agregar regla JMS'',
      ''+ add JMS rule''),
     (''Producer y consumer son operaciones independientes. Cada regla combina sus condiciones con AND y puede usar destino, key, headers, properties JMS o payload JSON.'',
      ''Producer and consumer are independent operations. Each rule combines its conditions with AND and can use destination, key, headers, JMS properties, or JSON payload.''),
     (''No hay reglas para esta tecnolog'' @ [CHR 0xED] @ ''a.'',
      ''There are no rules for this technology.''),
     (''Agrega una regla y completa Cu'' @ [CHR 0xE1] @ ''ndo '' @ [CHR 0xE2, CHR 0x86, CHR 0x92] @ '' Datos '' @
       [CHR 0xE2, CHR 0x86, CHR 0x92] @ '' Salidas.'',
      ''Add a rule and complete When '' @ [CHR 0xE2, CHR 0x86, CHR 0x92] @ '' Data '' @ [CHR 0xE2, CHR 0x86, CHR 0x92] @
        '' Outputs.''),
     (''Operaci'' @ [CHR 0xF3] @ ''n observada'',
      ''Observed operation''),
     (''Kafka producer'',
      ''Kafka producer''),
     (''Kafka consumer'',
      ''Kafka consumer''),
     (''JMS producer'',
      ''JMS producer''),
     (''JMS consumer'',
      ''JMS consumer''),
     (''Enlaza internamente las m'' @ [CHR 0xE9] @ ''tricas con la regla; no se exporta por s'' @ [CHR 0xED] @ '' solo.'',
      ''Internally links metrics to the rule; it is not exported by itself.''),
     (''L'' @ [CHR 0xED] @ ''mite de payload JSON (bytes)'',
      ''JSON payload limit (bytes)''),
     (''Debe ser '' @ [CHR 0xFA] @ ''nico entre reglas HTTP, Kafka y JMS, incluso deshabilitadas.'',
      ''It must be unique across HTTP, Kafka, and JMS rules, including disabled rules.''),
     (''Destino es obligatorio. Las dem'' @ [CHR 0xE1] @ ''s condiciones afinan la coincidencia de esta operaci'' @
       [CHR 0xF3] @ ''n.'',
      ''Destination is required. Other conditions refine the match for this operation.''),
     (''Selector'',
      ''Selector''),
     (''Destino (topic o queue)'',
      ''Destination (topic or queue)''),
     (''Message key'',
      ''Message key''),
     (''Message header'',
      ''Message header''),
     (''JMS property'',
      ''JMS property''),
     (''Payload JSON'',
      ''JSON payload''),
     (''Nombre del message header'',
      ''Message header name''),
     (''Nombre de la propiedad JMS'',
      ''JMS property name''),
     (''Ruta JSON del payload'',
      ''Payload JSON path''),
     (''Fuente de mensajer'' @ [CHR 0xED] @ ''a'',
      ''Messaging source''),
     (''Extrae '' @ [CHR 0xFA] @ ''nicamente el selector indicado y descarta el mensaje original.'',
      ''Extract only the specified selector and discard the original message.''),
     (''Los datos marcados se a'' @ [CHR 0xF1] @ ''aden s'' @ [CHR 0xF3] @ ''lo a la se'' @ [CHR 0xF1] @ ''al elegida.'',
      ''Marked data is added only to the selected signal.''),
     (''Cuenta mensajes coincidentes, suma un campo num'' @ [CHR 0xE9] @ ''rico no negativo o registra su distribuci'' @
       [CHR 0xF3] @ ''n.'',
      ''Count matching messages, add a non-negative numeric field, or record its distribution.''),
     (''Opcional. La extensi'' @ [CHR 0xF3] @ ''n crea la m'' @ [CHR 0xE9] @
       ''trica por producer o consumer; el Collector s'' @ [CHR 0xF3] @ ''lo la transporta.'',
      ''Optional. The extension creates the metric per producer or consumer; the Collector only transports it.''),
     (''En Datos, marca un campo como '' @ [CHR 0xE2, CHR 0x80, CHR 0x9C] @ ''Usar como label'' @
       [CHR 0xE2, CHR 0x80, CHR 0x9D] @ '' y limita su cardinalidad.'',
      ''Under Data, mark a field as '' @ [CHR 0xE2, CHR 0x80, CHR 0x9C] @ ''Use as label'' @
        [CHR 0xE2, CHR 0x80, CHR 0x9D] @ '' and control its cardinality or explicitly choose Uncontrolled.''),
     (''Selecciona al menos un destino para event.name.'',
      ''Select at least one target for event.name.''),
     (''Se recuperaron el formulario, los selectores y el paso anterior. No se public'' @ [CHR 0xF3] @
       '' ninguna versi'' @ [CHR 0xF3] @ ''n.'',
      ''The form, selectors, and previous step were recovered. No version was published.''),
     (''YAML efectivo reportado por un Supervisor'',
      ''Effective YAML reported by a Supervisor''),
     (''Selecciona un Supervisor'' @ [CHR 0xE2, CHR 0x80, CHR 0xA6],
      ''Select a Supervisor'' @ [CHR 0xE2, CHR 0x80, CHR 0xA6]),
     (''Importar EffectiveConfig'',
      ''Import EffectiveConfig''),
     (''No hay un Supervisor conectado que reporte EffectiveConfig.'',
      ''No connected Supervisor reports EffectiveConfig.''),
     (''O cargar YAML desde este equipo'',
      ''Or load YAML from this computer''),
     (''Se lee localmente en el navegador; no requiere un Supervisor conectado y no se publica hasta el paso final.'',
      ''It is read locally in the browser; it does not require a connected Supervisor and is not published until the final step.''),
     (''El ID agrupa el historial de versiones. Cargar o importar s'' @ [CHR 0xF3] @ ''lo abre el documento; todav'' @
       [CHR 0xED] @ ''a no lo publica.'',
      ''The ID groups the version history. Loading or importing only opens the document; it does not publish it yet.''),
     (''Policy JSON completa'',
      ''Complete policy JSON''),
     (''El JSON todav'' @ [CHR 0xED] @ ''a no es v'' @ [CHR 0xE1] @ ''lido.'',
      ''The JSON is not valid yet.''),
     (''Edita el documento completo. La validaci'' @ [CHR 0xF3] @
       ''n usa el mismo otelcol-contrib 0.156.0 y el backend vuelve a ejecutarla de forma obligatoria antes de guardar o enviar la versi'' @
       [CHR 0xF3] @ ''n.'',
      ''Edit the complete document. Validation uses the same otelcol-contrib 0.156.0, and the backend runs it again before saving or sending the version.''),
     (''Validando'' @ [CHR 0xE2, CHR 0x80, CHR 0xA6],
      ''Validating'' @ [CHR 0xE2, CHR 0x80, CHR 0xA6]),
     (''Validar YAML con Collector'',
      ''Validate YAML with Collector''),
     (''No crea versiones, no env'' @ [CHR 0xED] @ ''a cambios y no reinicia Collectors.'',
      ''It does not create versions, send changes, or restart Collectors.''),
     (''YAML v'' @ [CHR 0xE1] @ ''lido'',
      ''Valid YAML''),
     (''YAML rechazado'',
      ''Rejected YAML''),
     (''PASO 3 '' @ [CHR 0xB7] @ '' DESTINOS'',
      ''STEP 3 '' @ [CHR 0xB7] @ '' TARGETS''),
     (''Comprueba qui'' @ [CHR 0xE9] @ ''n recibir'' @ [CHR 0xE1] @ '' esta versi'' @ [CHR 0xF3] @ ''n'',
      ''Check who will receive this version''),
     (''Destinos incompatibles con schema'',
      ''Targets incompatible with schema''),
     (''Actualiza la extensi'' @ [CHR 0xF3] @ ''n o ajusta el selector. El backend no enviar'' @ [CHR 0xE1] @
       '' esta policy a un agente que reporte un m'' @ [CHR 0xE1] @ ''ximo menor.'',
      ''Update the extension or adjust the selector. The backend will not send this policy to an agent reporting a lower maximum.''),
     (''PASO 4 '' @ [CHR 0xB7] @ '' REVISI'' @ [CHR 0xD3] @ ''N'',
      ''STEP 4 '' @ [CHR 0xB7] @ '' REVIEW''),
     (''Valida el alcance y publica'',
      ''Validate scope and publish''),
     (''Sin definir'',
      ''Undefined''),
     (''Destinos conectados coincidentes'',
      ''Matching connected targets''),
     (''Schema requerido'',
      ''Required schema''),
     (''Todos conectados'',
      ''All connected''),
     (''todos los conectados compatibles'',
      ''all compatible connected targets''),
     (''Instancias exactas'',
      ''Exact instances''),
     (''sin restricci'' @ [CHR 0xF3] @ ''n'',
      ''no restriction'')]"

definition english_5 :: dictionary where
  "english_5 =
    [([CHR 0xE2, CHR 0x86, CHR 0x90] @ '' Volver a destinos'',
      [CHR 0xE2, CHR 0x86, CHR 0x90] @ '' Back to targets''),
     (''Publicando'' @ [CHR 0xE2, CHR 0x80, CHR 0xA6],
      ''Publishing'' @ [CHR 0xE2, CHR 0x80, CHR 0xA6]),
     (''Validar y enviar a destinos'',
      ''Validate and send to targets''),
     (''No se puede publicar todav'' @ [CHR 0xED] @ ''a'',
      ''Cannot publish yet''),
     (''Vista previa efectiva'',
      ''Effective preview''),
     (''Publicaci'' @ [CHR 0xF3] @ ''n bloqueada'',
      ''Publication blocked''),
     (''Policy independiente, PolicySet at'' @ [CHR 0xF3] @ ''mico'',
      ''Independent policy, atomic PolicySet''),
     (''Cada policy mantiene su historial. El agente recibe en una sola configuraci'' @ [CHR 0xF3] @
       ''n efectiva todas las policies activas que coinciden con sus selectores.'',
      ''Each policy keeps its history. The agent receives all active policies matching its selectors in one effective configuration.''),
     (''Instrumentos inmutables'',
      ''Immutable instruments''),
     (''Despu'' @ [CHR 0xE9] @ ''s de crear un nombre no se puede cambiar tipo, unidad ni buckets. Para cambiar su identidad usa otro nombre.'',
      ''After creating a name, its type, unit, and buckets cannot be changed. Use a different name to change its identity.''),
     (''No se pudo consultar el Control Plane.'',
      ''The Control Plane could not be queried.''),
     (''La versi'' @ [CHR 0xF3] @ ''n se carg'' @ [CHR 0xF3] @ '' en modo JSON porque no pudo abrirse como formulario.'',
      ''The version was loaded in JSON mode because it could not be opened as a form.''),
     (''El YAML local no puede superar 1 MiB.'',
      ''The local YAML cannot exceed 1 MiB.''),
     (''No se pudo cargar el YAML local'',
      ''The local YAML could not be loaded''),
     (''El JSON debe ser v'' @ [CHR 0xE1] @ ''lido antes de volver al formulario.'',
      ''The JSON must be valid before returning to the form.''),
     (''Validando YAML con otelcol-contrib'' @ [CHR 0xE2, CHR 0x80, CHR 0xA6],
      ''Validating YAML with otelcol-contrib'' @ [CHR 0xE2, CHR 0x80, CHR 0xA6]),
     (''YAML inv'' @ [CHR 0xE1] @ ''lido'',
      ''Invalid YAML''),
     (''Validando y publicando'' @ [CHR 0xE2, CHR 0x80, CHR 0xA6],
      ''Validating and publishing'' @ [CHR 0xE2, CHR 0x80, CHR 0xA6]),
     (''Creando una restauraci'' @ [CHR 0xF3] @ ''n auditable del Collector'' @ [CHR 0xE2, CHR 0x80, CHR 0xA6],
      ''Creating an auditable Collector restoration'' @ [CHR 0xE2, CHR 0x80, CHR 0xA6]),
     (''Retirando'',
      ''Withdrawing''),
     (''y solicitando la base NOP'' @ [CHR 0xE2, CHR 0x80, CHR 0xA6],
      ''and requesting the NOP base'' @ [CHR 0xE2, CHR 0x80, CHR 0xA6]),
     (''YAML v'' @ [CHR 0xE1] @ ''lido con otelcol-contrib'',
      ''Valid YAML with otelcol-contrib''),
     (''Ya puedes seleccionar destinos.'',
      ''You can now select targets.''),
     (''Versi'' @ [CHR 0xF3] @ ''n'',
      ''Version''),
     (''guardada y enviada. A'' @ [CHR 0xFA] @ ''n no est'' @ [CHR 0xE1] @ '' aplicada: espera la confirmaci'' @
       [CHR 0xF3] @ ''n individual de los destinos coincidentes.'',
      ''saved and sent. It is not applied yet: wait for individual confirmation from matching targets.''),
     (''Configuraci'' @ [CHR 0xF3] @ ''n restaurada como'',
      ''Configuration restored as''),
     (''la versi'' @ [CHR 0xF3] @ ''n original no fue alterada.'',
      ''the original version was not changed.''),
     (''de sus destinos'' @ [CHR 0xE2, CHR 0x80, CHR 0xA6],
      ''from its targets'' @ [CHR 0xE2, CHR 0x80, CHR 0xA6]),
     (''Creando una nueva versi'' @ [CHR 0xF3] @ ''n de'',
      ''Creating a new version of''),
     (''desde la versi'' @ [CHR 0xF3] @ ''n anterior'' @ [CHR 0xE2, CHR 0x80, CHR 0xA6],
      ''from the previous version'' @ [CHR 0xE2, CHR 0x80, CHR 0xA6]),
     (''fue retirada de sus destinos como'',
      ''was withdrawn from its targets as''),
     (''El historial se conserva.'',
      ''History is preserved.''),
     (''volvi'' @ [CHR 0xF3] @ '' al contenido de'',
      ''returned to the content of''),
     (''mediante la nueva'',
      ''through the new''),
     (''fue retirada como'',
      ''was withdrawn as''),
     (''Espera la confirmaci'' @ [CHR 0xF3] @
       ''n BASE_APPLIED de cada Supervisor; los ConfigMap base y el historial permanecen intactos.'',
      ''Wait for BASE_APPLIED confirmation from each Supervisor; base ConfigMaps and history remain intact.''),
     (''Define un ID de configuraci'' @ [CHR 0xF3] @ ''n en el paso Origen.'',
      ''Define a configuration ID in the Source step.''),
     (''La configuraci'' @ [CHR 0xF3] @ ''n est'' @ [CHR 0xE1] @ '' vac'' @ [CHR 0xED] @ ''a.'',
      ''The configuration is empty.''),
     (''Hay nombres de m'' @ [CHR 0xE9] @ ''tricas vac'' @ [CHR 0xED] @ ''os, repetidos o reservados.'',
      ''There are empty, duplicate, or reserved metric names.''),
     (''Hay capturas HTTP con un header vac'' @ [CHR 0xED] @ ''o.'',
      ''There are HTTP captures with an empty header.''),
     (''La policy intenta capturar datos bloqueados por la denylist del Control Plane.'',
      ''The policy attempts to capture data blocked by the Control Plane denylist.''),
     (''Ese ID pertenece a un ConfigMap base inmutable; usa otro ID para la configuraci'' @ [CHR 0xF3] @ ''n administrada.'',
      ''That ID belongs to an immutable base ConfigMap; use another ID for the managed configuration.''),
     (''El JSON de la policy no tiene una sintaxis v'' @ [CHR 0xE1] @ ''lida.'',
      ''The policy JSON does not have valid syntax.''),
     (''Valida el YAML actual con otelcol-contrib antes de publicarlo.'',
      ''Validate the current YAML with otelcol-contrib before publishing it.''),
     (''No hay destinos conectados que coincidan con los selectores.'',
      ''No connected targets match the selectors.''),
     (''Editor reiniciado. No se public'' @ [CHR 0xF3] @ '' ning'' @ [CHR 0xFA] @ ''n cambio.'',
      ''Editor reset. No changes were published.''),
     (''Base inmutable'',
      ''Immutable base''),
     (''Configuraci'' @ [CHR 0xF3] @ ''n administrada'',
      ''Managed configuration''),
     (''reportada por'',
      ''reported by''),
     (''cargada como borrador.'',
      ''loaded as a draft.''),
     (''Se retir'' @ [CHR 0xF3] @ '' autom'' @ [CHR 0xE1] @ ''ticamente'',
      ''Automatically removed''),
     (''El documento de origen no fue modificado y a'' @ [CHR 0xFA] @ ''n no se public'' @ [CHR 0xF3] @ '' ning'' @
       [CHR 0xFA] @ ''n cambio.'',
      ''The source document was not modified, and no changes have been published yet.''),
     (''el archivo est'' @ [CHR 0xE1] @ '' vac'' @ [CHR 0xED] @ ''o'',
      ''the file is empty''),
     (''YAML local'',
      ''Local YAML''),
     (''cargado en el editor. A'' @ [CHR 0xFA] @ ''n no se public'' @ [CHR 0xF3] @ '' ning'' @ [CHR 0xFA] @ ''n cambio.'',
      ''loaded in the editor. No changes have been published yet.''),
     (''El Collector rechaz'' @ [CHR 0xF3] @ '' el YAML.'',
      ''The Collector rejected the YAML.''),
     (''El Control Plane rechazar'' @ [CHR 0xE1],
      ''The Control Plane will reject''),
     (''Nombre del request header'',
      ''Request header name''),
     (''Nombre del response header'',
      ''Response header name''),
     (''Nombre del query param'',
      ''Query parameter name''),
     (''Ruta JSON del request body'',
      ''Request body JSON path''),
     (''Ruta JSON del response body'',
      ''Response body JSON path''),
     (''M'' @ [CHR 0xC9] @ ''TODO JAVA'',
      ''JAVA METHOD''),
     (''Argumentos, retornos y m'' @ [CHR 0xE9] @ ''tricas nuevas'',
      ''Arguments, return values, and new metrics''),
     (''+ m'' @ [CHR 0xE9] @ ''todo manual'',
      ''+ manual method''),
     (''La clase y el m'' @ [CHR 0xE9] @ ''todo cambian sin reinicio s'' @ [CHR 0xF3] @
       ''lo dentro de packages autorizados al iniciar el agente. Las capturas marcadas METRIC forman los labels de los instrumentos del m'' @
       [CHR 0xE9] @ ''todo. Las variables locales no son observables.'',
      ''The class and method can change without a restart only within packages authorized at agent startup. Captures marked METRIC become labels for method instruments. Local variables are not observable.''),
     (''Package permitido'',
      ''Allowed package''),
     (''Clase completa'',
      ''Fully qualified class''),
     (''M'' @ [CHR 0xE9] @ ''todo'',
      ''Method''),
     (''Valores capturados y labels'',
      ''Captured values and labels''),
     (''SPAN y LOG conservan el valor; para METRIC controla la cardinalidad o elige Sin control expl'' @ [CHR 0xED] @
       ''citamente.'',
      ''SPAN and LOG preserve the value; for METRIC, control cardinality or explicitly choose Uncontrolled.''),
     (''+ captura manual'',
      ''+ manual capture''),
     (''Argumento'',
      ''Argument''),
     (''Retorno'',
      ''Return value''),
     (''Duraci'' @ [CHR 0xF3] @ ''n'',
      ''Duration''),
     (''Constante'',
      ''Constant''),
     ([CHR 0xCD] @ ''ndice argumento'',
      ''Argument index''),
     (''Ruta / propiedad'',
      ''Path / property''),
     (''Atributo OTel / label'',
      ''OTel attribute / label''),
     (''Quitar captura'',
      ''Remove capture''),
     (''Nuevos instrumentos'',
      ''New instruments''),
     (''El valor puede venir de argumento, retorno, duraci'' @ [CHR 0xF3] @ ''n o constante.'',
      ''The value can come from an argument, return value, duration, or constant.''),
     (''+ instrumento'',
      ''+ instrument''),
     (''Nombre'',
      ''Name''),
     (''Instrumento'',
      ''Instrument''),
     (''Fuente del valor'',
      ''Value source''),
     (''Quitar instrumento'',
      ''Remove instrument''),
     (''Emitir un log OTel correlacionado con las capturas marcadas LOG'',
      ''Emit an OTel log correlated with captures marked LOG''),
     (''Severidad'',
      ''Severity''),
     (''Mensaje'',
      ''Message''),
     (''Restauraci'' @ [CHR 0xF3] @ ''n publicada'',
      ''Restoration published''),
     (''Retiro publicado'',
      ''Withdrawal published''),
     (''Publicaci'' @ [CHR 0xF3] @ ''n registrada'',
      ''Publication recorded''),
     (''Retirar policy'',
      ''Withdraw policy''),
     (''Retirar config y usar base NOP'',
      ''Withdraw config and use NOP base''),
     (''El cliente mantiene una se'' @ [CHR 0xF1] @ ''al OpAMP reciente.'',
      ''The client has a recent OpAMP signal.''),
     (''No existe una se'' @ [CHR 0xF1] @ ''al OpAMP activa; esto no determina el estado de la infraestructura.'',
      ''There is no active OpAMP signal; this does not determine infrastructure status.''),
     (''El cliente respondi'' @ [CHR 0xF3] @ '' dentro de tres intervalos de polling.'',
      ''The client responded within three polling intervals.''),
     (''Se perdieron entre tres y seis intervalos de polling.'',
      ''Between three and six polling intervals were missed.''),
     (''No se reciben mensajes OpAMP recientes; esto no determina si el workload existe.'',
      ''No recent OpAMP messages are being received; this does not determine whether the workload exists.''),
     (''La se'' @ [CHR 0xF1] @ ''al OpAMP perdi'' @ [CHR 0xF3] @ '' varios intervalos y no se considera cobertura viva.'',
      ''The OpAMP signal missed several intervals and is not considered live coverage.''),
     (''El cliente dej'' @ [CHR 0xF3] @ '' de reportar; sin un reconciliador de infraestructura no se afirma que est'' @
       [CHR 0xE9] @ '' eliminado.'',
      ''The client stopped reporting; without an infrastructure reconciler it is not considered deleted.''),
     (''No hay evidencia suficiente para determinar la disponibilidad actual.'',
      ''There is not enough evidence to determine current availability.''),
     (''Estado de transporte OpAMP.'',
      ''OpAMP transport status.''),
     (''El agente valid'' @ [CHR 0xF3] @ '' y activ'' @ [CHR 0xF3] @ '' esta versi'' @ [CHR 0xF3] @ ''n.'',
      ''The agent validated and activated this version.''),
     (''La versi'' @ [CHR 0xF3] @ ''n anterior a'' @ [CHR 0xFA] @ ''n est'' @ [CHR 0xE1] @
       '' aplicada mientras el agente valida y activa el bundle de reemplazo.'',
      ''The previous version remains applied while the agent validates and activates the replacement bundle.''),
     (''El agente usa actualmente otra configuraci'' @ [CHR 0xF3] @ ''n o versi'' @ [CHR 0xF3] @ ''n.'',
      ''The agent is currently using another configuration or version.''),
     (''El selector coincide; a'' @ [CHR 0xFA] @ ''n no existe confirmaci'' @ [CHR 0xF3] @ ''n de aplicaci'' @
       [CHR 0xF3] @ ''n.'',
      ''The selector matches; there is no application confirmation yet.''),
     (''Se envi'' @ [CHR 0xF3] @ '' la configuraci'' @ [CHR 0xF3] @ ''n; falta confirmaci'' @ [CHR 0xF3] @ ''n.'',
      ''The configuration was sent; confirmation is pending.''),
     (''El agente rechaz'' @ [CHR 0xF3] @ '' la configuraci'' @ [CHR 0xF3] @ ''n.'',
      ''The agent rejected the configuration.''),
     (''Al menos un destino la aplic'' @ [CHR 0xF3] @ '', pero el despliegue no termin'' @ [CHR 0xF3] @
       '' correctamente en todos.'',
      ''At least one target applied it, but deployment did not complete successfully on all targets.''),
     (''Ning'' @ [CHR 0xFA] @ ''n destino coincidente reporta actualmente esta versi'' @ [CHR 0xF3] @ ''n.'',
      ''No matching target currently reports this version.''),
     (''No hay clientes actualmente en l'' @ [CHR 0xED] @ ''nea que coincidan. Los registros hist'' @ [CHR 0xF3] @
       ''ricos no determinan la cobertura viva.'',
      ''There are no currently online matching clients. Historical records do not determine live coverage.''),
     (''La policy ya no se entrega a destinos actuales ni futuros.'',
      ''The policy is no longer delivered to current or future targets.''),
     (''La policy dej'' @ [CHR 0xF3] @ '' de ser deseada; falta que el agente confirme que removi'' @ [CHR 0xF3] @
       '' la versi'' @ [CHR 0xF3] @ ''n.'',
      ''The policy is no longer desired; the agent still needs to confirm version removal.''),
     (''El agente confirm'' @ [CHR 0xF3] @ '' que la policy ya no forma parte de su bundle activo.'',
      ''The agent confirmed that the policy is no longer part of its active bundle.''),
     (''La configuraci'' @ [CHR 0xF3] @ ''n administrada fue retirada; falta que el Supervisor confirme la base NOP.'',
      ''The managed configuration was withdrawn; the Supervisor still needs to confirm the NOP base.''),
     (''El Supervisor confirm'' @ [CHR 0xF3] @ '' la configuraci'' @ [CHR 0xF3] @ ''n base inmutable del ConfigMap.'',
      ''The Supervisor confirmed the immutable base configuration from the ConfigMap.''),
     (''El Supervisor no pudo activar su configuraci'' @ [CHR 0xF3] @ ''n base inmutable.'',
      ''The Supervisor could not activate its immutable base configuration.''),
     (''A'' @ [CHR 0xFA] @ ''n no existe confirmaci'' @ [CHR 0xF3] @ ''n.'',
      ''There is no confirmation yet.''),
     (''Este cliente OpAMP no acepta configuraci'' @ [CHR 0xF3] @ ''n remota.'',
      ''This OpAMP client does not accept remote configuration.''),
     (''Policies y configuraciones'',
      ''Policies and configurations''),
     (''Buscar versi'' @ [CHR 0xF3] @ ''n guardada'',
      ''Search saved version''),
     (''Nombre, vN, servicio, InstanceUID o atributo key=value'',
      ''Name, vN, service, InstanceUID, or key=value attribute''),
     (''Atributos'',
      ''Attributes''),
     (''versiones disponibles'',
      ''available versions''),
     (''versiones coincidentes'',
      ''matching versions''),
     (''No hay versiones que coincidan con la b'' @ [CHR 0xFA] @ ''squeda.'',
      ''No versions match the search.''),
     (''Gu'' @ [CHR 0xED] @ ''a r'' @ [CHR 0xE1] @ ''pida: ejemplo HTTP con span, log y m'' @ [CHR 0xE9] @ ''trica'',
      ''Quick guide: HTTP example with span, log, and metric''),
     (''La regla se lee de arriba hacia abajo: primero decide cu'' @ [CHR 0xE1] @
       ''ndo coincide, luego extrae datos con nombres OTel y finalmente elige a qu'' @ [CHR 0xE9] @ '' se'' @ [CHR 0xF1] @
       ''ales enviarlos.'',
      ''Read the rule from top to bottom: first decide when it matches, then extract data with OTel names, and finally choose which signals receive it.''),
     (''cada fila relaciona una fuente y ruta con un atributo OTel; nunca exporta el body o header completo.'',
      ''each row maps a source and path to an OTel attribute; it never exports the complete body or header.''),
     (''Ejemplo de datos capturados'',
      ''Captured data example''),
     (''Header de response'',
      ''Response header''),
     (''Body de request'',
      ''Request body''),
     (''Body de response'',
      ''Response body''),
     (''Ruta o header'',
      ''Path or header''),
     (''Label de m'' @ [CHR 0xE9] @ ''trica'',
      ''Metric label'')]"

definition english_6 :: dictionary where
  "english_6 =
    [(''Valor de m'' @ [CHR 0xE9] @ ''trica'',
      ''Metric value''),
     (''marca '' @ [CHR 0xAB] @ ''A'' @ [CHR 0xF1] @ ''adir al span'' @ [CHR 0xBB] @ '' para enriquecer la traza, '' @
       [CHR 0xAB] @ ''A'' @ [CHR 0xF1] @ ''adir al log'' @ [CHR 0xBB] @
       '' para copiar el dato al log correlacionado y '' @ [CHR 0xAB] @ ''Label de m'' @ [CHR 0xE9] @ ''trica'' @
       [CHR 0xBB] @ '' s'' @ [CHR 0xF3] @ ''lo para valores acotados. event.name identifica el evento en spans y logs; el nombre de la m'' @
       [CHR 0xE9] @ ''trica se define en su propio bloque.'',
      ''select '' @ [CHR 0xE2, CHR 0x80, CHR 0x98] @ ''Add to span'' @ [CHR 0xE2, CHR 0x80, CHR 0x99] @
        '' to enrich the trace, '' @ [CHR 0xE2, CHR 0x80, CHR 0x98] @ ''Add to log'' @ [CHR 0xE2, CHR 0x80, CHR 0x99] @
        '' to copy the value to the correlated log, and '' @ [CHR 0xE2, CHR 0x80, CHR 0x98] @ ''Metric label'' @
        [CHR 0xE2, CHR 0x80, CHR 0x99] @ '' only for bounded values. event.name identifies the event in spans and logs; define the metric name in its own block.''),
     (''Ruta, header o query'',
      ''Path, header, or query''),
     (''Valor(es)'',
      ''Value(s)''),
     (''Inmutable significa que una versi'' @ [CHR 0xF3] @
       ''n guardada nunca se sobrescribe ni se elimina. Publicar, restaurar o retirar crea la siguiente versi'' @
       [CHR 0xF3] @ ''n y conserva las anteriores para auditor'' @ [CHR 0xED] @ ''a.'',
      ''Immutable means that a saved version is never overwritten or deleted. Publishing, restoring, or withdrawing creates the next version and keeps previous versions for audit.''),
     (''Policy activa con una versi'' @ [CHR 0xF3] @ ''n anterior: restaura ese contenido como una versi'' @ [CHR 0xF3] @
       ''n nueva.'',
      ''Active policy with a previous version: restore that content as a new version.''),
     (''Policy activa sin predecesora: se puede retirar y deja de formar parte del PolicySet.'',
      ''Active policy without a predecessor: it can be withdrawn and is removed from the PolicySet.''),
     (''Collector: una versi'' @ [CHR 0xF3] @ ''n hist'' @ [CHR 0xF3] @
       ''rica se restaura como nueva; retirar la activa vuelve a la base NOP local.'',
      ''Collector: a historical version is restored as a new one; withdrawing the active version returns to the local NOP base.''),
     (''La acci'' @ [CHR 0xF3] @ ''n aparece en la fila correspondiente. Guardada no significa aplicada: el estado s'' @
       [CHR 0xF3] @ ''lo cambia cuando cada destino confirma por OpAMP.'',
      ''The action appears on the corresponding row. Saved does not mean applied: the status changes only after every target confirms through OpAMP.''),
     (''Restaurar como nueva versi'' @ [CHR 0xF3] @ ''n'',
      ''Restore as a new version''),
     (''SEGURIDAD CENTRAL'',
      ''CENTRAL SECURITY''),
     (''Denylist del Control Plane'',
      ''Control Plane denylist''),
     (''El servidor rechaza cualquier policy que intente leer una entrada bloqueada. La extensi'' @ [CHR 0xF3] @
       ''n recibe '' @ [CHR 0xFA] @ ''nicamente policies ya aprobadas y no contiene clasificaci'' @ [CHR 0xF3] @
       ''n de datos sensibles.'',
      ''The server rejects any policy that attempts to read a blocked entry. The extension only receives approved policies and does not classify sensitive data.''),
     (''Denylist guardada. Las siguientes publicaciones y rollbacks se validar'' @ [CHR 0xE1] @ ''n contra esta versi'' @
       [CHR 0xF3] @ ''n.'',
      ''Denylist saved. Subsequent publications and rollbacks will be validated against this version.''),
     (''Headers HTTP'',
      ''HTTP headers''),
     (''Paths JSON de request/response'',
      ''Request/response JSON paths''),
     (''Query params HTTP'',
      ''HTTP query parameters''),
     (''Paths de argumentos/retornos'',
      ''Argument/return paths''),
     (''Coincidencia exacta, sin distinguir may'' @ [CHR 0xFA] @ ''sculas y min'' @ [CHR 0xFA] @ ''sculas.'',
      ''Exact, case-insensitive match.''),
     (''Usa paths JSON sin $. Bloquear un padre bloquea sus descendientes.'',
      ''Use JSON paths without $. Blocking a parent also blocks its descendants.''),
     (''Coincidencia exacta y sensible a may'' @ [CHR 0xFA] @ ''sculas; aplica a REQUEST_QUERY.'',
      ''Exact, case-sensitive match; applies to REQUEST_QUERY.''),
     (''Se compara con el object path configurado en la captura del m'' @ [CHR 0xE9] @ ''todo.'',
      ''Compared with the object path configured in the method capture.''),
     (''Una entrada por l'' @ [CHR 0xED] @ ''nea.'',
      ''One entry per line.''),
     (''Validar y guardar denylist'',
      ''Validate and save denylist''),
     (''Si una policy activa viola la nueva lista, el cambio se rechaza. Retira primero esa captura de la policy y vuelve a publicar.'',
      ''If an active policy violates the new list, the change is rejected. Remove that capture from the policy first and publish again.''),
     (''MI CUENTA'',
      ''MY ACCOUNT''),
     (''Datos personales'',
      ''Personal details''),
     (''Estos datos identifican tus cambios en el Control Plane y permiten recuperar el acceso por correo.'',
      ''These details identify your changes in the Control Plane and allow account recovery by email.''),
     (''Apellidos'',
      ''Last name''),
     (''Correo electr'' @ [CHR 0xF3] @ ''nico'',
      ''Email address''),
     (''Se utiliza para recuperar la contrase'' @ [CHR 0xF1] @ ''a.'',
      ''Used for password recovery.''),
     (''Contrase'' @ [CHR 0xF1] @ ''a actual para cambiar el correo'',
      ''Current password to change the email address''),
     (''Proveedor'',
      ''Provider''),
     (''Roles'',
      ''Roles''),
     (''Nombre, apellidos, correo y credenciales se administran en'',
      ''First name, last name, email, and credentials are managed by''),
     (''Guardar perfil'',
      ''Save profile''),
     (''CREDENCIALES'',
      ''CREDENTIALS''),
     (''Contrase'' @ [CHR 0xF1] @ ''a actual'',
      ''Current password''),
     (''Confirmar nueva contrase'' @ [CHR 0xF1] @ ''a'',
      ''Confirm new password''),
     (''Usa al menos 12 caracteres y hasta 72 bytes. La sesi'' @ [CHR 0xF3] @ ''n se renueva al guardar.'',
      ''Use at least 12 characters and at most 72 bytes. The session is renewed when saved.''),
     (''Actualizando'' @ [CHR 0xE2, CHR 0x80, CHR 0xA6],
      ''Updating'' @ [CHR 0xE2, CHR 0x80, CHR 0xA6]),
     (''Tu acceso pertenece a'',
      ''Your account belongs to''),
     (''Cambia la contrase'' @ [CHR 0xF1] @ ''a en ese proveedor de identidad.'',
      ''Change the password in that identity provider.''),
     (''No se pudo cargar el perfil.'',
      ''The profile could not be loaded.''),
     (''No se pudo cargar el perfil'',
      ''The profile could not be loaded''),
     (''Ingresa tu contrase'' @ [CHR 0xF1] @ ''a actual para cambiar el correo de recuperaci'' @ [CHR 0xF3] @ ''n.'',
      ''Enter your current password to change the recovery email address.''),
     (''No se pudo actualizar el perfil.'',
      ''The profile could not be updated.''),
     (''Datos personales actualizados.'',
      ''Personal details updated.''),
     (''No se pudo guardar el perfil'',
      ''The profile could not be saved''),
     (''No se pudo cambiar la contrase'' @ [CHR 0xF1] @ ''a.'',
      ''The password could not be changed.''),
     (''No se pudo cambiar la contrase'' @ [CHR 0xF1] @ ''a'',
      ''The password could not be changed''),
     (''Contrase'' @ [CHR 0xF1] @ ''a actualizada y sesi'' @ [CHR 0xF3] @ ''n renovada.'',
      ''Password updated and session renewed.''),
     (''El nombre es obligatorio.'',
      ''First name is required.''),
     (''Los apellidos son obligatorios.'',
      ''Last name is required.''),
     (''Nombre y apellidos admiten hasta 120 caracteres.'',
      ''First and last names allow up to 120 characters.''),
     (''Ingresa un correo electr'' @ [CHR 0xF3] @ ''nico v'' @ [CHR 0xE1] @ ''lido.'',
      ''Enter a valid email address.''),
     (''La nueva contrase'' @ [CHR 0xF1] @ ''a debe ser diferente de la actual.'',
      ''The new password must be different from the current password.''),
     (''Proveedores'',
      ''Providers''),
     (''Roles locales'',
      ''Local roles''),
     (''Sesi'' @ [CHR 0xF3] @ ''n web'',
      ''Web session''),
     (''Proveedores y permisos efectivos'',
      ''Providers and effective permissions''),
     (''OIDC usa Authorization Code con PKCE y SAML usa un Service Provider nativo. Guardar deja el proveedor en CONFIGURADO; s'' @
       [CHR 0xF3] @ ''lo una prueba satisfactoria lo marca VALIDADO y habilita su bot'' @ [CHR 0xF3] @ ''n de login.'',
      ''OIDC uses Authorization Code with PKCE, and SAML uses a native Service Provider. Saving leaves the provider as CONFIGURED; only a successful test marks it as VALIDATED and enables its login button.''),
     (''No hay proveedores externos activos.'',
      ''There are no active external providers.''),
     (''Configuraci'' @ [CHR 0xF3] @ ''n de login externo'',
      ''External login configuration''),
     (''S'' @ [CHR 0xF3] @ ''lo admin y security-admin pueden editar. Los secretos se cifran antes de persistirse y nunca se devuelven al navegador.'',
      ''Only admin and security-admin can edit. Secrets are encrypted before persistence and are never returned to the browser.''),
     (''+ Agregar proveedor'',
      ''+ Add provider''),
     (''Permisos predefinidos'',
      ''Predefined permissions''),
     (''Nuevo proveedor'',
      ''New provider''),
     (''Continuar con SSO'',
      ''Continue with SSO''),
     (''Define un ID estable; no depende del nombre mostrado.'',
      ''Define a stable ID; it does not depend on the displayed name.''),
     (''Cambios sin guardar'',
      ''Unsaved changes''),
     (''ID estable'',
      ''Stable ID''),
     (''Protocolo'',
      ''Protocol''),
     (''Texto del bot'' @ [CHR 0xF3] @ ''n de login'',
      ''Login button text''),
     (''Callback URL'',
      ''Callback URL''),
     (''Configurado; deja vac'' @ [CHR 0xED] @ ''o para conservarlo'',
      ''Configured; leave empty to keep it''),
     (''La clave cambi'' @ [CHR 0xF3] @ ''; ingresa un secret nuevo'',
      ''The key changed; enter a new secret''),
     (''Requerido'',
      ''Required''),
     (''La credencial cifrada ya no est'' @ [CHR 0xE1] @
       '' disponible. Ingresa un client secret nuevo y guarda; no es necesario eliminar el proveedor.'',
      ''The encrypted credential is no longer available. Enter a new client secret and save; deleting the provider is not necessary.''),
     (''Claim de usuario'',
      ''User claim''),
     (''Claim de roles o grupos'',
      ''Role or group claim''),
     (''ACS URL (calculada)'',
      ''ACS URL (calculated)''),
     (''Copiar ACS'',
      ''Copy ACS''),
     (''Copiar metadata SP'',
      ''Copy SP metadata''),
     (''Descargar metadata SP'',
      ''Download SP metadata''),
     (''URL de metadata del IdP'',
      ''IdP metadata URL''),
     (''Atributo alternativo de usuario (opcional)'',
      ''Alternate user attribute (optional)''),
     (''Metadata XML del IdP (alternativa a la URL)'',
      ''IdP XML metadata (alternative to URL)''),
     (''Atributo de usuario'',
      ''User attribute''),
     (''Atributo de roles o grupos'',
      ''Role or group attribute''),
     (''Mapeo de roles externo '' @ [CHR 0xE2, CHR 0x86, CHR 0x92] @ '' local'',
      ''External '' @ [CHR 0xE2, CHR 0x86, CHR 0x92] @ '' local role mapping''),
     (''Si ning'' @ [CHR 0xFA] @ ''n rol coincide, el inicio de sesi'' @ [CHR 0xF3] @ ''n se rechaza.'',
      ''If no role matches, sign-in is rejected.''),
     (''+ mapeo'',
      ''+ mapping''),
     (''Rol o grupo externo'',
      ''External role or group''),
     (''Rol local'',
      ''Local role''),
     ('' (requiere permisos superiores)'',
      '' (requires higher permissions)''),
     (''Eliminar mapeo'',
      ''Remove mapping''),
     (''Sin mapeos expl'' @ [CHR 0xED] @ ''citos.'',
      ''No explicit mappings.''),
     (''Este proveedor asigna permisos superiores a los tuyos. S'' @ [CHR 0xF3] @
       ''lo un administrador con esos permisos puede modificarlo, validarlo o eliminarlo.'',
      ''This provider assigns permissions higher than yours. Only an administrator with those permissions can modify, validate, or delete it.''),
     (''Guardar configuraci'' @ [CHR 0xF3] @ ''n'',
      ''Save configuration''),
     (''Guardando'' @ [CHR 0xE2, CHR 0x80, CHR 0xA6],
      ''Saving'' @ [CHR 0xE2, CHR 0x80, CHR 0xA6]),
     (''Probar y validar'',
      ''Test and validate''),
     (''Cancelar'',
      ''Cancel''),
     (''El ID debe tener entre 1 y 63 caracteres, iniciar con una letra y usar s'' @ [CHR 0xF3] @ ''lo min'' @
       [CHR 0xFA] @ ''sculas, n'' @ [CHR 0xFA] @ ''meros o guiones.'',
      ''The ID must be 1 to 63 characters long, start with a letter, and use only lowercase letters, numbers, or hyphens.''),
     (''Ya existe un proveedor con ese ID.'',
      ''A provider with that ID already exists.''),
     (''No se pudo guardar el proveedor.'',
      ''The provider could not be saved.''),
     (''No se pudo guardar el proveedor'',
      ''The provider could not be saved''),
     (''Proveedor guardado como CONFIGURADO. Val'' @ [CHR 0xED] @ ''dalo antes de habilitar el login.'',
      ''Provider saved as CONFIGURED. Validate it before enabling login.''),
     (''La validaci'' @ [CHR 0xF3] @ ''n operativa fall'' @ [CHR 0xF3] @ ''.'',
      ''Operational validation failed.''),
     (''Proveedor VALIDADO y disponible en el login.'',
      ''Provider VALIDATED and available on the login screen.''),
     (''El proveedor qued'' @ [CHR 0xF3] @ '' en ERROR'',
      ''The provider entered ERROR state''),
     ([CHR 0xBF] @ ''Eliminar este proveedor de identidad? Dejar'' @ [CHR 0xE1] @ '' de aparecer en el login.'',
      ''Delete this identity provider? It will no longer appear on the login screen.''),
     (''Proveedor eliminado; ya no aparecer'' @ [CHR 0xE1] @ '' en el login.'',
      ''Provider deleted; it will no longer appear on the login screen.''),
     (''No se pudo eliminar el proveedor'',
      ''The provider could not be deleted''),
     (''copiada.'',
      ''copied.''),
     (''No se pudo copiar'',
      ''Could not copy''),
     (''Metadata XML del SP copiada.'',
      ''SP XML metadata copied.''),
     (''No se pudo copiar la metadata SP'',
      ''Could not copy SP metadata''),
     (''error del navegador'',
      ''browser error''),
     (''El texto del bot'' @ [CHR 0xF3] @ ''n es obligatorio.'',
      ''Button text is required.''),
     (''Agrega al menos un mapeo de rol externo a rol local.'',
      ''Add at least one external-to-local role mapping.''),
     (''El SP Entity ID es obligatorio.'',
      ''SP Entity ID is required.''),
     (''Ingresa la URL o el XML de metadata del IdP.'',
      ''Enter the IdP metadata URL or XML.''),
     (''El issuer OIDC es obligatorio.'',
      ''OIDC issuer is required.''),
     (''El client ID es obligatorio.'',
      ''Client ID is required.''),
     (''El client secret es obligatorio.'',
      ''Client secret is required.''),
     (''El atributo de usuario es obligatorio.'',
      ''User attribute is required.''),
     (''El atributo de roles es obligatorio.'',
      ''Role attribute is required.''),
     (''El claim de usuario es obligatorio.'',
      ''User claim is required.''),
     (''El claim de roles es obligatorio.'',
      ''Role claim is required.''),
     (''USUARIOS LOCALES'',
      ''LOCAL USERS''),
     (''Usuarios y asignaci'' @ [CHR 0xF3] @ ''n de roles'',
      ''Users and role assignment''),
     (''Las identidades externas reciben sus roles mediante el mapeo del proveedor. Aqu'' @ [CHR 0xED] @
       '' se administran '' @ [CHR 0xFA] @ ''nicamente las cuentas locales.'',
      ''External identities receive their roles through provider mappings. Only local accounts are managed here.''),
     (''+ Nuevo usuario'',
      ''+ New user''),
     (''Crear usuario local'',
      ''Create local user''),
     (''Editar {username}'',
      ''Edit {username}''),
     (''Contrase'' @ [CHR 0xF1] @ ''a inicial'',
      ''Initial password'')]"

definition english_7 :: dictionary where
  "english_7 =
    [(''Cuenta activa'',
      ''Active account''),
     (''Crear usuario'',
      ''Create user''),
     (''Guardar cambios'',
      ''Save changes''),
     (''Buscar usuarios'',
      ''Search users''),
     (''Usuario, nombre, correo o rol'',
      ''Username, name, email, or role''),
     (''Cuenta ra'' @ [CHR 0xED] @ ''z'',
      ''Root account''),
     (''Sin nombre'',
      ''No name''),
     (''Sin correo de recuperaci'' @ [CHR 0xF3] @ ''n'',
      ''No recovery email''),
     (''La cuenta ra'' @ [CHR 0xED] @ ''z se modifica desde Mi perfil'',
      ''The root account is modified from My profile''),
     (''No puedes delegar todos los roles de esta cuenta'',
      ''You cannot delegate every role assigned to this account''),
     (''Editar'',
      ''Edit''),
     (''La cuenta ra'' @ [CHR 0xED] @ ''z usa Recuperar contrase'' @ [CHR 0xF1] @ ''a en el inicio de sesi'' @
       [CHR 0xF3] @ ''n'',
      ''The root account uses Password recovery on the sign-in screen''),
     (''Recuperar acceso'',
      ''Recover access''),
     (''La cuenta ra'' @ [CHR 0xED] @ ''z no puede desactivarse'',
      ''The root account cannot be deactivated''),
     (''Desactivar'',
      ''Deactivate''),
     (''Desactivado'',
      ''Deactivated''),
     (''Cargando usuarios'' @ [CHR 0xE2, CHR 0x80, CHR 0xA6],
      ''Loading users'' @ [CHR 0xE2, CHR 0x80, CHR 0xA6]),
     (''No hay usuarios que coincidan.'',
      ''No users match.''),
     (''No se pudieron cargar los usuarios.'',
      ''Users could not be loaded.''),
     (''No se pudieron cargar los roles.'',
      ''Roles could not be loaded.''),
     (''No se pudo cargar la gesti'' @ [CHR 0xF3] @ ''n de usuarios'',
      ''User management could not be loaded''),
     (''No se pudo guardar el usuario.'',
      ''The user could not be saved.''),
     (''No se pudo guardar el usuario'',
      ''The user could not be saved''),
     (''Usuario creado.'',
      ''User created.''),
     (''Usuario actualizado.'',
      ''User updated.''),
     ([CHR 0xBF] @ ''Desactivar al usuario {username}?'',
      ''Deactivate user {username}?''),
     (''No se pudo eliminar el usuario.'',
      ''The user could not be deleted.''),
     (''Usuario desactivado.'',
      ''User deactivated.''),
     (''No se pudo desactivar el usuario'',
      ''The user could not be deactivated''),
     (''No se pudo generar la recuperaci'' @ [CHR 0xF3] @ ''n.'',
      ''Account recovery could not be generated.''),
     (''Si {username} tiene un correo v'' @ [CHR 0xE1] @ ''lido y el env'' @ [CHR 0xED] @ ''o est'' @ [CHR 0xE1] @
       '' habilitado, recibir'' @ [CHR 0xE1] @ '' el enlace de recuperaci'' @ [CHR 0xF3] @ ''n.'',
      ''If {username} has a valid email address and email delivery is enabled, they will receive the recovery link.''),
     (''No se pudo solicitar la recuperaci'' @ [CHR 0xF3] @ ''n'',
      ''Account recovery could not be requested''),
     (''El usuario debe tener entre 3 y 64 caracteres: min'' @ [CHR 0xFA] @ ''sculas, n'' @ [CHR 0xFA] @
       ''meros, punto, guion o guion bajo.'',
      ''The username must be 3 to 64 characters long and use lowercase letters, numbers, periods, hyphens, or underscores.''),
     (''Asigna al menos un rol.'',
      ''Assign at least one role.''),
     (''Recarga el usuario antes de guardar para obtener su revisi'' @ [CHR 0xF3] @ ''n actual.'',
      ''Reload the user before saving to obtain its current revision.''),
     (''La contrase'' @ [CHR 0xF1] @ ''a inicial debe tener al menos 12 caracteres y hasta 72 bytes.'',
      ''The initial password must have at least 12 characters and at most 72 bytes.''),
     (''NOTIFICACIONES'',
      ''NOTIFICATIONS''),
     (''Env'' @ [CHR 0xED] @ ''o de correos'',
      ''Email delivery''),
     (''Se usa para recuperar contrase'' @ [CHR 0xF1] @
       ''as y enviar avisos de seguridad. Los secretos se cifran y nunca regresan al navegador.'',
      ''Used for password recovery and security notifications. Secrets are encrypted and never returned to the browser.''),
     (''Tienes acceso de lectura. Se requiere'',
      ''You have read-only access.''),
     (''para modificar o probar el env'' @ [CHR 0xED] @ ''o.'',
      ''is required to modify or test delivery.''),
     (''Las credenciales guardadas no pueden descifrarse con la clave actual. Ingresa credenciales nuevas y guarda; las anteriores ser'' @
       [CHR 0xE1] @ ''n reemplazadas de forma segura.'',
      ''Saved credentials cannot be decrypted with the current key. Enter new credentials and save; the previous credentials will be replaced securely.''),
     (''Habilitar env'' @ [CHR 0xED] @ ''o de correos'',
      ''Enable email delivery''),
     (''Necesario para recuperaci'' @ [CHR 0xF3] @ ''n de contrase'' @ [CHR 0xF1] @ ''a.'',
      ''Required for password recovery.''),
     (''Servidor SMTP'',
      ''SMTP server''),
     (''Habilitado'',
      ''Enabled''),
     (''Deshabilitado'',
      ''Disabled''),
     (''Nombre del remitente'',
      ''Sender name''),
     (''Direcci'' @ [CHR 0xF3] @ ''n del remitente'',
      ''Sender address''),
     (''Puerto'',
      ''Port''),
     (''Seguridad de transporte'',
      ''Transport security''),
     (''TLS directo'',
      ''Direct TLS''),
     (''Sin TLS'',
      ''No TLS''),
     (''Regi'' @ [CHR 0xF3] @ ''n'',
      ''Region''),
     (''opcional'',
      ''optional''),
     (''Opcional'',
      ''Optional''),
     (''Endpoint alternativo (opcional)'',
      ''Alternate endpoint (optional)''),
     (''Eliminar credenciales guardadas'',
      ''Delete saved credentials''),
     (''Se solicitar'' @ [CHR 0xE1] @ '' confirmaci'' @ [CHR 0xF3] @ ''n al guardar.'',
      ''Confirmation will be requested when saving.''),
     (''Guardar correo'',
      ''Save email settings''),
     (''Destinatario de prueba'',
      ''Test recipient''),
     (''La prueba utiliza la '' @ [CHR 0xFA] @ ''ltima configuraci'' @ [CHR 0xF3] @ ''n guardada, incluso si todav'' @
       [CHR 0xED] @ ''a est'' @ [CHR 0xE1] @ '' deshabilitada.'',
      ''The test uses the latest saved configuration, even if it is currently disabled.''),
     (''Enviar prueba'',
      ''Send test''),
     (''No se pudo cargar la configuraci'' @ [CHR 0xF3] @ ''n de correo.'',
      ''Email configuration could not be loaded.''),
     (''No se pudo cargar la configuraci'' @ [CHR 0xF3] @ ''n de correo'',
      ''Email configuration could not be loaded''),
     ([CHR 0xBF] @ ''Eliminar las credenciales guardadas de todos los proveedores de correo?'',
      ''Delete saved credentials for all email providers?''),
     (''No se pudo guardar la configuraci'' @ [CHR 0xF3] @ ''n.'',
      ''The configuration could not be saved.''),
     (''Configuraci'' @ [CHR 0xF3] @ ''n de correo guardada. Los secretos nuevos ya no se muestran.'',
      ''Email configuration saved. New secrets are no longer displayed.''),
     (''No se pudo guardar el correo'',
      ''Email configuration could not be saved''),
     (''Ingresa un destinatario v'' @ [CHR 0xE1] @ ''lido para la prueba.'',
      ''Enter a valid test recipient.''),
     (''No se pudo enviar el correo de prueba.'',
      ''The test email could not be sent.''),
     (''Correo de prueba enviado mediante {provider}.'',
      ''Test email sent through {provider}.''),
     (''Fall'' @ [CHR 0xF3] @ '' el env'' @ [CHR 0xED] @ ''o de prueba'',
      ''Test delivery failed''),
     (''El nombre del remitente es obligatorio.'',
      ''Sender name is required.''),
     (''El nombre del remitente admite hasta 128 caracteres.'',
      ''Sender name allows up to 128 characters.''),
     (''Ingresa una direcci'' @ [CHR 0xF3] @ ''n de remitente v'' @ [CHR 0xE1] @ ''lida.'',
      ''Enter a valid sender address.''),
     (''Ingresa un host SMTP v'' @ [CHR 0xE1] @ ''lido.'',
      ''Enter a valid SMTP host.''),
     (''El puerto SMTP debe estar entre 1 y 65535.'',
      ''The SMTP port must be between 1 and 65535.''),
     (''La contrase'' @ [CHR 0xF1] @ ''a SMTP es obligatoria.'',
      ''The SMTP password is required.''),
     (''Ingresa el usuario SMTP o elimina tambi'' @ [CHR 0xE9] @ ''n su contrase'' @ [CHR 0xF1] @ ''a guardada.'',
      ''Enter the SMTP username or also delete its saved password.''),
     (''SMTP sin TLS s'' @ [CHR 0xF3] @ ''lo se permite para pruebas locales.'',
      ''SMTP without TLS is only allowed for local testing.''),
     (''Ingresa una regi'' @ [CHR 0xF3] @ ''n v'' @ [CHR 0xE1] @ ''lida de AWS SES.'',
      ''Enter a valid AWS SES region.''),
     (''El access key ID de AWS es obligatorio.'',
      ''The AWS access key ID is required.''),
     (''El secret access key de AWS es obligatorio.'',
      ''The AWS secret access key is required.''),
     (''El endpoint de Azure ACS es obligatorio.'',
      ''The Azure ACS endpoint is required.''),
     (''La access key de Azure ACS es obligatoria.'',
      ''The Azure ACS access key is required.''),
     (''La API version de Azure ACS debe ser 2025-09-01.'',
      ''The Azure ACS API version must be 2025-09-01.''),
     (''DIAGN'' @ [CHR 0xD3] @ ''STICO DE RED'',
      ''NETWORK DIAGNOSTICS''),
     (''Red y acceso'',
      ''Network and access''),
     (''Muestra las direcciones efectivas que usa el Control Plane y c'' @ [CHR 0xF3] @ ''mo interpreta el tr'' @
       [CHR 0xE1] @ ''fico recibido desde proxies o balanceadores.'',
      ''Shows the effective addresses used by the Control Plane and how it interprets traffic received from proxies or load balancers.''),
     (''Consultando'' @ [CHR 0xE2, CHR 0x80, CHR 0xA6],
      ''Loading'' @ [CHR 0xE2, CHR 0x80, CHR 0xA6]),
     (''Esta vista es de s'' @ [CHR 0xF3] @
       ''lo lectura. Los cambios se realizan en las variables y manifiestos del despliegue; despu'' @ [CHR 0xE9] @
       ''s se debe reiniciar el Control Plane.'',
      ''This view is read-only. Changes are made in deployment variables and manifests; the Control Plane must then be restarted.''),
     (''No se pudo cargar el diagn'' @ [CHR 0xF3] @ ''stico.'',
      ''Diagnostics could not be loaded.''),
     (''Consultando configuraci'' @ [CHR 0xF3] @ ''n efectiva'' @ [CHR 0xE2, CHR 0x80, CHR 0xA6],
      ''Loading effective configuration'' @ [CHR 0xE2, CHR 0x80, CHR 0xA6]),
     (''La URL p'' @ [CHR 0xFA] @ ''blica no es v'' @ [CHR 0xE1] @ ''lida.'',
      ''The public URL is invalid.''),
     (''Los callbacks de autenticaci'' @ [CHR 0xF3] @ ''n y enlaces externos pueden fallar.'',
      ''Authentication callbacks and external links may fail.''),
     (''URL p'' @ [CHR 0xFA] @ ''blica'',
      ''Public URL''),
     (''V'' @ [CHR 0xE1] @ ''lida'',
      ''Valid''),
     (''Inv'' @ [CHR 0xE1] @ ''lida'',
      ''Invalid''),
     (''Origen externo de la UI y callbacks.'',
      ''External origin for the UI and callbacks.''),
     (''Endpoint OpAMP p'' @ [CHR 0xFA] @ ''blico'',
      ''Public OpAMP endpoint''),
     (''Direcci'' @ [CHR 0xF3] @ ''n que deben usar agentes y Supervisors.'',
      ''Address that agents and Supervisors must use.''),
     (''Modo de proxy'',
      ''Proxy mode''),
     (''Fuente de URL p'' @ [CHR 0xFA] @ ''blica'',
      ''Public URL source''),
     (''Listeners internos'',
      ''Internal listeners''),
     (''Son direcciones de escucha internas, no URLs para clientes externos.'',
      ''These are internal listen addresses, not URLs for external clients.''),
     (''Proxies confiables'',
      ''Trusted proxies''),
     (''Ning'' @ [CHR 0xFA] @ ''n CIDR configurado.'',
      ''No CIDR configured.''),
     (''Fuera de estos rangos no se conf'' @ [CHR 0xED] @ ''a en headers forwarded.'',
      ''Forwarded headers are not trusted outside these ranges.''),
     (''Publicaci'' @ [CHR 0xF3] @ ''n bajo subpath'',
      ''Publication under a subpath''),
     (''Compatible'',
      ''Supported''),
     (''No compatible'',
      ''Unsupported''),
     (''La aplicaci'' @ [CHR 0xF3] @ ''n puede publicarse bajo una ruta base.'',
      ''The application can be published under a base path.''),
     (''Publica la aplicaci'' @ [CHR 0xF3] @ ''n en la ra'' @ [CHR 0xED] @
       ''z del dominio; el proxy no debe agregar un prefijo de ruta.'',
      ''Publish the application at the domain root; the proxy must not add a path prefix.''),
     (''No configurado'',
      ''Not configured''),
     (''No se pudo consultar la configuraci'' @ [CHR 0xF3] @ ''n de red.'',
      ''Network configuration could not be retrieved.''),
     (''Configuraci'' @ [CHR 0xF3] @ ''n actual recomendada.'',
      ''Current recommended configuration.''),
     (''Variable heredada mantenida por compatibilidad.'',
      ''Legacy variable retained for compatibility.''),
     (''Solicitud entrante'',
      ''Incoming request''),
     (''Fallback calculado desde la petici'' @ [CHR 0xF3] @ ''n actual.'',
      ''Fallback calculated from the current request.''),
     (''Proxy confiable'',
      ''Trusted proxy''),
     (''Los headers forwarded s'' @ [CHR 0xF3] @ ''lo se aceptan desde los CIDR configurados.'',
      ''Forwarded headers are accepted only from configured CIDRs.''),
     (''Acceso directo'',
      ''Direct access''),
     (''La URL p'' @ [CHR 0xFA] @ ''blica no depende de headers forwarded del proxy.'',
      ''The public URL does not depend on forwarded headers from the proxy.''),
     (''CONFIGURACI'' @ [CHR 0xD3] @ ''N'',
      ''SETTINGS''),
     (''Acceso restringido'',
      ''Restricted access''),
     (''Tu rol no tiene permisos para modificar la configuraci'' @ [CHR 0xF3] @ ''n del sistema.'',
      ''Your role does not have permission to modify system settings.''),
     (''Configuraci'' @ [CHR 0xF3] @ ''n del sistema'',
      ''System settings''),
     (''Seguridad'',
      ''Security''),
     (''Accesos, roles y capturas'',
      ''Access, roles, and captures''),
     (''Correo'',
      ''Email''),
     (''URLs, proxy y listeners'',
      ''URLs, proxy, and listeners''),
     (''Opciones de seguridad'',
      ''Security options''),
     (''Proveedores SSO y roles'',
      ''SSO providers and roles''),
     (''Usuarios locales'',
      ''Local users''),
     (''Gobierno de capturas'',
      ''Capture governance'')]"

definition english :: dictionary where
  "english = english_1 @ english_2 @ english_3 @ english_4 @ english_5 @ english_6 @ english_7"

end
