(* ===== verification/I18n.thy ===== *)
theory I18n
  imports English Draft
begin

section \<open>Translation of the messages (\<open>ui/src/i18n.js\<close>)\<close>

text \<open>
  A message is looked up in the dictionary; one that is not there is compared with the patterns of the
  composed messages, in order; then the placeholders in braces take the values of the variables. The
  lookup is a property access, so the name of a property that every object inherits is found, and the
  replacement of the placeholders then raises (\<open>None\<close>). A pattern is a list of pieces, matched greedily
  with backtracking as the language does. \<open>formatDateTime\<close> takes the host's calendar as an argument.
\<close>

subsection \<open>The locale\<close>

definition localeStorageKey :: string where
  "localeStorageKey = ''o11y.ui.locale''"

definition defaultLocale :: string where
  "defaultLocale = ''es''"

definition supportedLocales :: "string list" where
  "supportedLocales = [''es'', ''en'']"

definition normalizeLocale :: "jsval \<Rightarrow> string" where
  "normalizeLocale value =
     (let normalized = takeWhile (\<lambda>c. c \<noteq> CHR ''-'' \<and> c \<noteq> CHR ''_'') (js_lower (js_trim (str_or value '''')))
      in if normalized \<in> set supportedLocales then normalized else defaultLocale)"

definition readStoredLocale :: "web_storage option \<Rightarrow> string" where
  "readStoredLocale storage =
     (case storage of
        None \<Rightarrow> normalizeLocale Undef
      | Some s \<Rightarrow>
          (case get_item s localeStorageKey of
             None \<Rightarrow> defaultLocale
           | Some item \<Rightarrow> normalizeLocale (case item of Some v \<Rightarrow> Str v | None \<Rightarrow> Null)))"

text \<open>The provider of the views: its locale, and the effect that stores it.\<close>

definition storeLocale :: "web_storage option \<Rightarrow> string \<Rightarrow> web_storage option" where
  "storeLocale storage locale =
     (case storage of
        None \<Rightarrow> None
      | Some s \<Rightarrow> (case set_item s localeStorageKey locale of Some s' \<Rightarrow> Some s' | None \<Rightarrow> Some s))"

definition setLocale :: "jsval \<Rightarrow> string" where
  "setLocale nextLocale = normalizeLocale nextLocale"

subsection \<open>Composed messages\<close>

datatype piece = Lit string | Digits | Anything
datatype part = Words string | Captured nat

fun first_some :: "('a \<Rightarrow> 'b option) \<Rightarrow> 'a list \<Rightarrow> 'b option" where
  "first_some f [] = None"
| "first_some f (x # xs) = (case f x of Some y \<Rightarrow> Some y | None \<Rightarrow> first_some f xs)"

definition is_line_end :: "char \<Rightarrow> bool" where
  "is_line_end c \<longleftrightarrow> code c \<in> {10, 13}"

definition greedy :: "(char \<Rightarrow> bool) \<Rightarrow> (string \<Rightarrow> string list option) \<Rightarrow> string \<Rightarrow> string list option" where
  "greedy ok rest s =
     first_some (\<lambda>n. map_option (\<lambda>captures. take n s # captures) (rest (drop n s)))
       (rev [1..<Suc (length (takeWhile ok s))])"

fun match_pieces :: "piece list \<Rightarrow> string \<Rightarrow> string list option" where
  "match_pieces [] s = (if s = [] then Some [] else None)"
| "match_pieces (Lit l # ps) s = (if starts_with s l then match_pieces ps (drop (length l) s) else None)"
| "match_pieces (Digits # ps) s = greedy is_digit (match_pieces ps) s"
| "match_pieces (Anything # ps) s = greedy (\<lambda>c. \<not> is_line_end c) (match_pieces ps) s"

fun part_text :: "string list \<Rightarrow> part \<Rightarrow> string" where
  "part_text captures (Words s) = s"
| "part_text captures (Captured n) = captures ! (n - 1)"

definition expand :: "part list \<Rightarrow> string list \<Rightarrow> string" where
  "expand parts captures = concat (map (part_text captures) parts)"

definition englishPatterns :: "(piece list \<times> part list) list" where
  "englishPatterns =
    [([Lit ([CHR 0xBF] @ ''Restaurar ''), Anything, Lit ('' v''), Digits, Lit ('' como una versi'' @ [CHR 0xF3] @
      ''n nueva?'')],
      [Words (''Restore ''), Captured 1, Words ('' v''), Captured 2, Words ('' as a new version?'')]),
     ([Lit ([CHR 0xBF] @ ''Restaurar en ''), Anything, Lit ('' el contenido de v''), Digits, Lit (''? Se publicar'' @
       [CHR 0xE1] @ '' una versi'' @ [CHR 0xF3] @ ''n nueva; ninguna versi'' @ [CHR 0xF3] @
       ''n existente se sobrescribe.'')],
      [Words (''Restore the content of v''), Captured 2, Words ('' in ''), Captured 1, Words (''? A new version will be published; no existing version will be overwritten.'')]),
     ([Lit ([CHR 0xBF] @ ''Retirar ''), Anything, Lit ('' de todos sus destinos? Se publicar'' @ [CHR 0xE1] @
       '' una versi'' @ [CHR 0xF3] @ ''n nueva de retiro. Dejar'' @ [CHR 0xE1] @
       '' de entregarse a las instancias actuales y futuras que coincidan, pero el historial se conservar'' @ [CHR 0xE1] @
       ''.'')],
      [Words (''Withdraw ''), Captured 1, Words ('' from all its targets? A new withdrawal version will be published. It will no longer be delivered to matching current or future instances, but history will be preserved.'')]),
     ([Lit ([CHR 0xBF] @ ''Retirar ''), Anything, Lit ('' y activar ''), Anything, Lit (''? Se publicar'' @ [CHR 0xE1] @
       '' una versi'' @ [CHR 0xF3] @ ''n nueva de retiro; ninguna versi'' @ [CHR 0xF3] @
       ''n existente se sobrescribe. Los ConfigMap base y el historial no se modificar'' @ [CHR 0xE1] @ ''n.'')],
      [Words (''Withdraw ''), Captured 1, Words ('' and activate ''), Captured 2, Words (''? A new withdrawal version will be published; no existing version will be overwritten. Base ConfigMaps and history will not be modified.'')]),
     ([Lit (''Restaurar contenido de v''), Digits],
      [Words (''Restore content from v''), Captured 1]),
     ([Digits, Lit (''/''), Digits, Lit ('' destino(s) vivo(s) coincidente(s) aplicada(s)'')],
      [Captured 1, Words (''/''), Captured 2, Words ('' matching live target(s) applied'')]),
     ([Digits, Lit (''/''), Digits, Lit ('' destino(s) confirmaron el retiro.'')],
      [Captured 1, Words (''/''), Captured 2, Words ('' target(s) confirmed withdrawal.'')]),
     ([Digits, Lit (''/''), Digits, Lit ('' Supervisor(es) confirmaron la base NOP.'')],
      [Captured 1, Words (''/''), Captured 2, Words ('' Supervisor(s) confirmed the NOP base.'')]),
     ([Digits, Lit (''/''), Digits, Lit ('' en base; falta confirmar el fallback.'')],
      [Captured 1, Words (''/''), Captured 2, Words ('' on base; fallback confirmation is pending.'')]),
     ([Digits, Lit ('' Supervisor(es) no pudieron activar la base.'')],
      [Captured 1, Words ('' Supervisor(s) could not activate the base.'')]),
     ([Digits, Lit ('' destino(s) vivo(s) aplicada(s)'')],
      [Captured 1, Words ('' live target(s) applied'')]),
     ([Digits, Lit ('' rechazada(s)'')],
      [Captured 1, Words ('' rejected'')]),
     ([Digits, Lit ('' pendiente(s)'')],
      [Captured 1, Words ('' pending'')]),
     ([Digits, Lit ('' no la usa(n)'')],
      [Captured 1, Words ('' not using it'')]),
     ([Digits, Lit ('' vivo(s) coincide(n) '' @ [CHR 0xB7] @ '' ''), Digits, Lit ('' aplicada(s)'')],
      [Captured 1, Words ('' live match(es) '' @ [CHR 0xB7] @ '' ''), Captured 2, Words ('' applied'')]),
     ([Digits, Lit ('' retiro(s) en seguimiento'')],
      [Captured 1, Words ('' withdrawal(s) being tracked'')]),
     ([Digits, Lit (''/''), Digits, Lit ('' destino(s) vivo(s) coincidente(s) confirmaron la versi'' @ [CHR 0xF3] @ ''n.'')],
      [Captured 1, Words (''/''), Captured 2, Words ('' matching live target(s) confirmed the version.'')]),
     ([Digits, Lit ('' destino(s) adicional(es) se siguen hasta confirmar el retiro.'')],
      [Captured 1, Words ('' additional target(s) are tracked until withdrawal is confirmed.'')]),
     ([Digits, Lit ('' se'' @ [CHR 0xF1] @ ''al(es) degradada(s) no cuentan.'')],
      [Captured 1, Words ('' degraded signal(s) do not count.'')]),
     ([Digits, Lit ('' registro(s) hist'' @ [CHR 0xF3] @ ''rico(s) no cuentan.'')],
      [Captured 1, Words ('' historical record(s) do not count.'')]),
     ([Digits, Lit ('' destino(s) tienen estado desconocido.'')],
      [Captured 1, Words ('' target(s) have unknown status.'')])]"

definition composed :: "string \<Rightarrow> string option" where
  "composed source =
     first_some (\<lambda>(pieces, parts). map_option (expand parts) (match_pieces pieces source)) englishPatterns"

subsection \<open>Placeholders\<close>

definition is_key_char :: "char \<Rightarrow> bool" where
  "is_key_char c \<longleftrightarrow> is_lower_az c \<or> is_upper_az c \<or> is_digit c \<or> c = CHR ''_''"

text \<open>The name of the placeholder that follows an opening brace.\<close>

definition placeholder :: "string \<Rightarrow> string option" where
  "placeholder s =
     (let key = takeWhile is_key_char s; r = dropWhile is_key_char s
      in if key \<noteq> [] \<and> r \<noteq> [] \<and> hd r = CHR ''}'' then Some key else None)"

definition value_of :: "jsobj \<Rightarrow> string \<Rightarrow> string" where
  "value_of variables key =
     (if has_own variables key then to_str (fld variables key) else ''{'' @ key @ ''}'')"

function fill :: "jsobj \<Rightarrow> string \<Rightarrow> string" where
  "fill variables [] = []"
| "fill variables (c # s) =
     (if c = CHR ''{'' then
        (case placeholder s of
           Some key \<Rightarrow> value_of variables key @ fill variables (drop (Suc (length key)) s)
         | None \<Rightarrow> c # fill variables s)
      else c # fill variables s)"
  by pat_completeness auto
termination by (relation "measure (\<lambda>(_, s). length s)") auto

subsection \<open>The translation\<close>

definition english_object :: jsobj where
  "english_object = map (\<lambda>(k, v). (k, Str v)) english"

definition english_template :: "string \<Rightarrow> jsval" where
  "english_template source =
     (let template = js_or (fld english_object source) (Str source) in
      if template = Str source
      then (case composed source of Some s \<Rightarrow> Str s | None \<Rightarrow> template)
      else template)"

definition translate :: "jsval \<Rightarrow> jsval \<Rightarrow> jsobj \<Rightarrow> string option" where
  "translate locale message variables =
     (let source = to_str (js_default message (Str ''''));
          template = (if normalizeLocale locale = ''en'' then english_template source else Str source) in
      case template of Str s \<Rightarrow> Some (fill variables s) | _ \<Rightarrow> None)"

definition formatDateTime ::
  "(jsval \<Rightarrow> jsnum) \<Rightarrow> (string \<Rightarrow> jsnum \<Rightarrow> string) \<Rightarrow> jsval \<Rightarrow> jsval \<Rightarrow> string" where
  "formatDateTime date_parse calendar locale value =
     (if date_parse value = NaN then [CHR 0xE2, CHR 0x80, CHR 0x94]
      else calendar (if normalizeLocale locale = ''en'' then ''en-US'' else ''es-PE'') (date_parse value))"

definition translatedOptions :: "(jsval \<Rightarrow> string option) \<Rightarrow> jsval \<Rightarrow> jsval list option" where
  "translatedOptions t options = do {
     xs \<leftarrow> list_or options;
     map_opt (\<lambda>option. do {
       label \<leftarrow> getx option ''label'';
       translated \<leftarrow> t label;
       Some (Obj (obj_put ''label'' (Str translated) (own_entries option))) }) xs }"

end
