(* ===== verification/I18n_Props.thy ===== *)
theory I18n_Props
  imports I18n
begin

section \<open>What the translation guarantees\<close>

subsection \<open>The dictionary\<close>

text \<open>The placeholders of a text, as the replacement finds them.\<close>

function placeholders :: "string \<Rightarrow> string list" where
  "placeholders [] = []"
| "placeholders (c # s) =
     (if c = CHR ''{'' then
        (case placeholder s of
           Some key \<Rightarrow> key # placeholders (drop (Suc (length key)) s)
         | None \<Rightarrow> placeholders s)
      else placeholders s)"
  by pat_completeness auto
termination by (relation "measure length") auto

definition braceless :: "string \<Rightarrow> bool" where
  "braceless s \<longleftrightarrow> list_all (\<lambda>c. c \<noteq> CHR ''{'') s"

lemma braceless: "braceless s \<Longrightarrow> placeholders s = []" "braceless s \<Longrightarrow> fill variables s = s"
  by (induction s) (auto simp: braceless_def)

text \<open>The entries a check of the dictionary has to look at.\<close>

definition with_braces :: "dictionary \<Rightarrow> dictionary" where
  "with_braces d = filter (\<lambda>(k, v). \<not> (braceless k \<and> braceless v)) d"

definition consistent :: "string \<times> string \<Rightarrow> bool" where
  "consistent = (\<lambda>(k, v). set (placeholders v) = set (placeholders k))"

lemma consistent_entries: "list_all consistent (with_braces d) \<Longrightarrow> list_all consistent d"
  by (induction d) (auto simp: with_braces_def consistent_def braceless(1) split: if_splits)

lemma parts_with_braces: "with_braces english_1 = []" "with_braces english_2 = []" "with_braces english_3 = []" "with_braces english_5 = []"
  by code_simp+

lemma part_4_consistent: "list_all consistent (with_braces english_4)"
  by code_simp

lemma part_6_consistent: "list_all consistent (with_braces english_6)"
  by code_simp

lemma part_7_consistent: "list_all consistent (with_braces english_7)"
  by code_simp

lemma all_consistent: "list_all consistent english"
  using consistent_entries [of english_1] consistent_entries [of english_2] consistent_entries [of english_3]
    consistent_entries [OF part_4_consistent] consistent_entries [of english_5]
    consistent_entries [OF part_6_consistent] consistent_entries [OF part_7_consistent]
  by (simp add: english_def parts_with_braces)

text \<open>No message begins in the way a composed message does, and none is the name of an inherited property.\<close>

definition plain_key :: "string \<Rightarrow> bool" where
  "plain_key k \<longleftrightarrow> k \<noteq> [] \<and> k \<notin> set object_prototype \<and> \<not> starts_with k ''Restaurar contenido de v'' \<and>
     (is_digit (hd k) \<longrightarrow> starts_with (dropWhile is_digit k) [CHR '' '', CHR 0xB7])"

lemma plain_1: "list_all (plain_key \<circ> fst) english_1"
  by code_simp

lemma plain_2: "list_all (plain_key \<circ> fst) english_2"
  by code_simp

lemma plain_3: "list_all (plain_key \<circ> fst) english_3"
  by code_simp

lemma plain_4: "list_all (plain_key \<circ> fst) english_4"
  by code_simp

lemma plain_5: "list_all (plain_key \<circ> fst) english_5"
  by code_simp

lemma plain_6: "list_all (plain_key \<circ> fst) english_6"
  by code_simp

lemma plain_7: "list_all (plain_key \<circ> fst) english_7"
  by code_simp

lemma all_plain: "list_all (plain_key \<circ> fst) english"
  by (simp only: english_def list_all_append simp_thms plain_1 plain_2 plain_3 plain_4 plain_5 plain_6 plain_7)

lemma english_keys: "map_of english k = Some v \<Longrightarrow> plain_key k"
  using bspec [OF all_plain [unfolded list_all_iff] map_of_SomeD] by simp

text \<open>Every English text of the dictionary has the placeholders of its Spanish message: a translation
  neither loses a value nor shows a name in braces.\<close>

theorem translations_keep_the_placeholders:
  "\<forall>(message, translation)\<in>set english. set (placeholders translation) = set (placeholders message)"
  using all_consistent by (simp only: list_all_iff consistent_def)

theorem translations_keep_the_placeholders_witness:
  "set (placeholders ''Edit {username}'') = {''username''}"
proof -
  have "(''Editar {username}'', ''Edit {username}'') \<in> set english_6" by code_simp
  then have "(''Editar {username}'', ''Edit {username}'') \<in> set english" by (simp add: english_def)
  moreover have "placeholders ''Editar {username}'' = [''username'']" by code_simp
  ultimately show ?thesis using translations_keep_the_placeholders by fastforce
qed

subsection \<open>When a translation raises\<close>

lemma english_lookup:
  "fld english_object source = (case map_of english source of
     Some v \<Rightarrow> Str v | None \<Rightarrow> if source \<in> set object_prototype then Fun source else Undef)"
  by (simp add: fld_def english_object_def map_of_map split: option.split)

lemma english_template_cases:
  "english_template source =
     (if source \<in> set object_prototype then Fun source
      else Str (case map_of english source of
        Some v \<Rightarrow> if v \<noteq> [] \<and> v \<noteq> source then v else (case composed source of Some s \<Rightarrow> s | None \<Rightarrow> source)
      | None \<Rightarrow> (case composed source of Some s \<Rightarrow> s | None \<Rightarrow> source)))"
  using english_keys [of source]
  by (cases "map_of english source"; cases "composed source")
    (simp_all add: english_template_def english_lookup js_or_def plain_key_def)

text \<open>C32: The translation of a message raises in exactly one case: in English, when the message is the name of a
  property that every object inherits, because the lookup in the dictionary then finds that property.\<close>

theorem translation_raises_exactly_on_inherited_names:
  "translate locale message variables = None \<longleftrightarrow>
     normalizeLocale locale = ''en'' \<and> to_str (js_default message (Str '''')) \<in> set object_prototype"
  by (simp add: translate_def english_template_cases Let_def)

end
