(* ===== verification/I18n_Counted.thy ===== *)
theory I18n_Counted
  imports I18n_Props Deployment
begin

subsection \<open>Composed messages\<close>


fun counted :: "piece list \<Rightarrow> bool" where
  "counted [] \<longleftrightarrow> True"
| "counted (Lit l # ps) \<longleftrightarrow> counted ps"
| "counted (Digits # Lit (c # l) # ps) \<longleftrightarrow> \<not> is_digit c \<and> counted ps"
| "counted [Digits] \<longleftrightarrow> True"
| "counted _ \<longleftrightarrow> False"




text \<open>What a match fixes of a message: the message without its digits.\<close>

definition letters :: "string \<Rightarrow> string" where
  "letters s = filter (\<lambda>c. \<not> is_digit c) s"

fun skeleton :: "piece list \<Rightarrow> string" where
  "skeleton [] = []"
| "skeleton (Lit l # ps) = letters l @ skeleton ps"
| "skeleton (p # ps) = skeleton ps"

lemma letters_simps [simp]: "letters [] = []" "letters (a @ b) = letters a @ letters b"
    "letters (c # s) = (if is_digit c then letters s else c # letters s)"
  by (simp_all add: letters_def)

lemma letters_number: "(\<forall>c\<in>set s. is_digit c) \<Longrightarrow> letters s = []"
  by (simp add: letters_def)

lemma first_some_SomeD: "first_some f xs = Some y \<Longrightarrow> \<exists>x\<in>set xs. f x = Some y"
  by (induction xs) (auto split: option.splits)

lemma greedy_SomeD:
  assumes "greedy ok rest s = Some cs"
  obtains n ds where "rest (drop n s) = Some ds" "\<forall>c\<in>set (take n s). ok c"
proof -
  obtain n where n: "n \<in> set (rev [1..<Suc (length (takeWhile ok s))])"
      "map_option (\<lambda>captures. take n s # captures) (rest (drop n s)) = Some cs"
    using first_some_SomeD [OF assms [unfolded greedy_def]] by blast
  then obtain ds where r: "rest (drop n s) = Some ds" by auto
  from n(1) have "n \<le> length (takeWhile ok s)" by auto
  then have "take n s = take n (takeWhile ok s)" by (metis min.absorb1 take_take takeWhile_eq_take)
  then have "\<forall>c\<in>set (take n s). ok c" by (metis in_set_takeD set_takeWhileD)
  then show thesis using r that by blast
qed

lemma match_skeleton: "match_pieces ps s = Some cs \<Longrightarrow> Anything \<notin> set ps \<Longrightarrow> letters s = skeleton ps"
proof (induction ps s arbitrary: cs rule: match_pieces.induct)
  case (1 s)
  then show ?case by (simp add: letters_def split: if_splits)
next
  case (2 l ps s)
  then obtain r where "s = l @ r" by (auto simp: starts_with_def prefix_def split: if_splits)
  then show ?case using 2 by (simp add: starts_with_def)
next
  case (3 ps s)
  then obtain n ds where n: "match_pieces ps (drop n s) = Some ds" "\<forall>c\<in>set (take n s). is_digit c"
    by (auto elim: greedy_SomeD)
  then have "letters (drop n s) = skeleton ps" using 3 by simp
  then show ?case using letters_number [OF n(2)] letters_simps(2) [of "take n s" "drop n s"] by simp
qed simp


text \<open>
  What the table of patterns has to satisfy: the patterns of numbers differ in their letters, the other
  patterns begin with the inverted question mark, no text of the dictionary begins as a pattern of
  numbers does, and no brace occurs.
\<close>

fun question :: "piece list \<Rightarrow> bool" where
  "question (Lit (c # l) # r) \<longleftrightarrow> c = CHR 0xBF"
| "question _ \<longleftrightarrow> False"

lemma question_match: "question ps \<Longrightarrow> match_pieces ps s \<noteq> None \<Longrightarrow> s \<noteq> [] \<and> hd s = CHR 0xBF"
  by (cases ps rule: question.cases; cases s) (auto simp: starts_with_def split: if_splits)

fun begins_as_number :: "piece list \<Rightarrow> bool" where
  "begins_as_number (Digits # Lit (c # l) # r) \<longleftrightarrow> \<not> is_digit c \<and> (c = CHR '' '' \<longrightarrow> l \<noteq> [] \<and> hd l \<noteq> CHR 0xB7)"
| "begins_as_number [Lit l, Digits] \<longleftrightarrow> l = ''Restaurar contenido de v''"
| "begins_as_number _ \<longleftrightarrow> False"

definition closed_part :: "nat \<Rightarrow> part \<Rightarrow> bool" where
  "closed_part n p \<longleftrightarrow> (case p of Words s \<Rightarrow> braceless s | Captured i \<Rightarrow> 0 < i \<and> i \<le> n)"

definition numbers_of :: "piece list \<Rightarrow> nat" where
  "numbers_of ps = length (filter (\<lambda>p. p = Digits) ps)"


lemma table_shape: "list_all (\<lambda>(ps, parts). if counted ps then begins_as_number ps \<and> list_all (closed_part (numbers_of ps)) parts
    else question ps) englishPatterns"
  by code_simp

lemma counted_pieces: "counted ps \<Longrightarrow> Anything \<notin> set ps"
  by (induction ps rule: counted.induct) auto






subsection \<open>Counted messages without a pattern\<close>

definition skeletons :: "string list" where
  "skeletons = map (skeleton \<circ> fst) (filter (counted \<circ> fst) englishPatterns)"

lemma untranslated:
  assumes "s \<noteq> []" "is_digit (hd s)" "\<not> starts_with (dropWhile is_digit s) [CHR '' '', CHR 0xB7]"
    "letters s \<notin> set skeletons" "braceless s"
  shows "translate (Str ''en'') (Str s) variables = Some s"
proof -
  have "\<not> is_digit (CHR 0xBF)" "\<forall>k\<in>set object_prototype. \<not> is_digit (hd k)" by code_simp+
  then have s: "\<not> plain_key s" "s \<notin> set object_prototype" "hd s \<noteq> CHR 0xBF" using assms(1-3) by (auto simp: plain_key_def)
  have "match_pieces pieces s = None" if z: "(pieces, parts) \<in> set englishPatterns" for pieces parts
  proof (cases "counted pieces")
    case True
    then have "skeleton pieces \<in> set skeletons" using z by (force simp: skeletons_def)
    then show ?thesis using match_skeleton [of pieces s] counted_pieces [OF True] assms(4) by (cases "match_pieces pieces s") auto
  next
    case False
    then have "question pieces" using bspec [OF table_shape [unfolded list_all_iff] z] by simp
    then show ?thesis using question_match s(3) by blast
  qed
  then have "first_some (\<lambda>(pieces, parts). map_option (expand parts) (match_pieces pieces s)) ps = None"
    if "set ps \<subseteq> set englishPatterns" for ps
    using that by (induction ps) (auto split: option.split)
  then have "composed s = None" by (simp add: composed_def)
  moreover have "map_of english s = None" using s(1) english_keys by (cases "map_of english s") auto
  moreover have "normalizeLocale (Str ''en'') = ''en''" by code_simp
  ultimately show ?thesis using s(2) braceless(2) [OF assms(5)]
    by (simp add: translate_def english_template_cases js_default_def nullish_def)
qed

text \<open>The summary of a deployment, without its numbers.\<close>

definition summary_letters :: "bool \<Rightarrow> bool \<Rightarrow> bool \<Rightarrow> string" where
  "summary_letters failed pending other =
     ''/ destino(s) vivo(s) aplicada(s)'' @ (if failed then '' '' @ [CHR 0xB7] @ ''  rechazada(s)'' else []) @
     (if pending then '' '' @ [CHR 0xB7] @ ''  pendiente(s)'' else []) @ (if other then '' '' @ [CHR 0xB7] @ ''  no la usa(n)'' else [])"

lemma summary_letters_new: "summary_letters failed pending other \<notin> set skeletons"
proof -
  have "list_all (\<lambda>k. \<not> starts_with k ''/ destino(s) vivo(s) a'') skeletons" by code_simp
  moreover have "starts_with (summary_letters failed pending other) ''/ destino(s) vivo(s) a''"
    by (simp add: summary_letters_def starts_with_def)
  ultimately show ?thesis by (auto simp: list_all_iff)
qed

lemma nat_str_plain: "letters (nat_str n) = []" "braceless (nat_str n)"
proof -
  have "\<not> is_digit (CHR ''{'')" by code_simp
  then show "letters (nat_str n) = []" "braceless (nat_str n)"
    using nat_str_digits [of n] by (auto simp: letters_number braceless_def list_all_iff)
qed

text \<open>The summary of a deployment that has destinations is shown in Spanish, whatever it counts: its first part is
  not what the pattern for it describes, and the parts are joined before they are looked up.\<close>

theorem deployment_summaries_stay_untranslated:
  assumes "dp_matched d \<noteq> 0"
  shows "translate (Str ''en'') (Str (deploymentStatusSummary d)) variables = Some (deploymentStatusSummary d)"
proof (rule untranslated)
  let ?s = "deploymentStatusSummary d"
  have "letters ?s = summary_letters (dp_failed d > 0) (dp_pending d > 0) (dp_notInUse d > 0)"
    using assms
    by (simp add: deploymentStatusSummary_def Let_def summary_letters_def nat_str_plain is_digit_def code_def)
  then show "letters ?s \<notin> set skeletons" using summary_letters_new by simp
  obtain r where s: "?s = nat_str (dp_applied d) @ ''/'' @ r"
  proof -
    have "\<exists>r. js_join sep (t # ts) = t @ r" for sep t ts by (cases ts) auto
    then show thesis using assms that by (fastforce simp: deploymentStatusSummary_def Let_def)
  qed
  obtain c cs where n: "nat_str (dp_applied d) = c # cs" by (cases "nat_str (dp_applied d)") auto
  then show "?s \<noteq> []" "is_digit (hd ?s)" using nat_str_digits [of "dp_applied d"] s by auto
  show "braceless ?s" using assms nat_str_plain(2)
    by (auto simp: deploymentStatusSummary_def Let_def braceless_def)
  have "\<not> is_digit (CHR ''/'')" by code_simp
  then have "dropWhile is_digit ?s = ''/'' @ r"
    using nat_str_digits [of "dp_applied d"] by (simp add: s dropWhile_append2)
  then show "\<not> starts_with (dropWhile is_digit ?s) [CHR '' '', CHR 0xB7]" by (simp add: starts_with_def)
qed

end
