(* ===== verification/Views_Base.thy ===== *)
theory Views_Base
  imports App_Handlers I18n Account Network
begin

section \<open>What the views of an account share\<close>

text \<open>
  The views of the sign-in page, the profile and the settings keep their own state and talk to the
  server on their own. A handler that waits for a reply is two functions: \<open>..._begin\<close> up to the
  request, with what is sent, and \<open>..._end\<close> from the reply on, applied to the state the view has by
  then. An argument \<open>thrown\<close> is the text of the error the engine throws when a reply has not the shape
  the code reads. This theory holds the reading of a reply and the translation with variables.
\<close>

subsection \<open>Reading a reply\<close>

text \<open>
  \<open>const body = await response.text(); if (!response.ok) throw new Error(body.trim() || fallback)\<close>:
  the message of the error, or the body.
\<close>

definition reply_body :: "string \<Rightarrow> reply \<Rightarrow> string + string" where
  "reply_body fallback r =
     (case r of
        Unreachable message \<Rightarrow> Inl message
      | Reply status body \<Rightarrow>
          if response_ok status then Inr body
          else Inl (if js_trim body = [] then fallback else js_trim body))"

text \<open>\<open>body ? JSON.parse(body) : fallback\<close>.\<close>

definition parse_body :: "host \<Rightarrow> jsval \<Rightarrow> string \<Rightarrow> string + jsval" where
  "parse_body h fallback body =
     (if body = [] then Inr fallback
      else case h_parse h body of Some v \<Rightarrow> Inr v | None \<Rightarrow> Inl (h_syntax_error h body))"

definition read_reply :: "host \<Rightarrow> string \<Rightarrow> jsval \<Rightarrow> reply \<Rightarrow> string + jsval" where
  "read_reply h refused fallback r =
     (case reply_body refused r of Inl message \<Rightarrow> Inl message | Inr body \<Rightarrow> parse_body h fallback body)"

text \<open>A value that could not be computed is the error \<open>thrown\<close>.\<close>

definition or_thrown :: "string \<Rightarrow> 'a option \<Rightarrow> string + 'a" where
  "or_thrown thrown v = (case v of Some x \<Rightarrow> Inr x | None \<Rightarrow> Inl thrown)"

definition and_then :: "'e + 'a \<Rightarrow> ('a \<Rightarrow> 'e + 'b) \<Rightarrow> 'e + 'b" where
  "and_then v f = (case v of Inl e \<Rightarrow> Inl e | Inr x \<Rightarrow> f x)"

text \<open>\<open>t(message, variables)\<close>, and the errors of a form in one line.\<close>

definition t_with :: "host \<Rightarrow> string \<Rightarrow> jsobj \<Rightarrow> string" where
  "t_with h message variables = fill variables (h_t h message)"

definition error_line :: "host \<Rightarrow> string list \<Rightarrow> string" where
  "error_line h errors = js_join '' '' (map (h_t h) errors)"

definition labelled :: "host \<Rightarrow> string \<Rightarrow> string \<Rightarrow> string" where
  "labelled h label message = h_t h label @ '': '' @ message"

lemma and_then_simps [simp]: "and_then (Inl e) f = Inl e" "and_then (Inr x) f = f x"
  by (simp_all add: and_then_def)

lemma read_reply_Inr: "read_reply h refused fallback r = Inr v \<Longrightarrow> \<exists>status body. r = Reply status body \<and> response_ok status"
  by (cases r) (auto simp: read_reply_def reply_body_def split: if_splits)

lemma refused_reply [simp]: "\<not> response_ok status \<Longrightarrow>
    reply_body fallback (Reply status body) = Inl (if js_trim body = [] then fallback else js_trim body)"
  by (simp add: reply_body_def)

subsection \<open>Records as objects\<close>

text \<open>The views spread and edit the normalised records as objects, with the keys of the source.\<close>

definition profile_object :: "profile \<Rightarrow> jsobj" where
  "profile_object p =
     [(''username'', Str (pf_username p)), (''firstName'', Str (pf_firstName p)), (''lastName'', Str (pf_lastName p)),
      (''email'', Str (pf_email p)), (''provider'', Str (pf_provider p)), (''roles'', pf_roles p),
      (''permissions'', pf_permissions p)]"

definition user_object :: "user_account \<Rightarrow> jsobj" where
  "user_object u =
     [(''username'', Str (ua_username u)), (''firstName'', Str (ua_firstName u)), (''lastName'', Str (ua_lastName u)),
      (''email'', Str (ua_email u)), (''roles'', ua_roles u), (''active'', Bool (ua_active u)), (''root'', Bool (ua_root u)),
      (''createdAt'', ua_createdAt u), (''updatedAt'', ua_updatedAt u), (''revision'', Num (ua_revision u))]"

definition mapping_object :: "role_mapping \<Rightarrow> jsobj" where
  "mapping_object m = [(''externalRole'', Str (rm_externalRole m)), (''localRole'', Str (rm_localRole m))]"

definition provider_object :: "auth_provider \<Rightarrow> jsobj" where
  "provider_object p =
     [(''id'', Str (pv_id p)), (''label'', Str (pv_label p)), (''protocol'', Str (pv_protocol p)), (''status'', Str (pv_status p)),
      (''validationMessage'', Str (pv_validationMessage p)), (''issuer'', Str (pv_issuer p)), (''clientId'', Str (pv_clientId p)),
      (''secretConfigured'', Bool (pv_secretConfigured p)), (''credentialsUnavailable'', Bool (pv_credentialsUnavailable p)),
      (''userClaim'', Str (pv_userClaim p)), (''roleClaim'', Str (pv_roleClaim p)), (''userAttribute'', Str (pv_userAttribute p)),
      (''roleAttribute'', Str (pv_roleAttribute p)), (''spEntityId'', Str (pv_spEntityId p)), (''metadataUrl'', Str (pv_metadataUrl p)),
      (''metadataXml'', Str (pv_metadataXml p)), (''nameIdAttribute'', Str (pv_nameIdAttribute p)),
      (''callbackUrl'', pv_callbackUrl p), (''spMetadataUrl'', Str (pv_spMetadataUrl p)), (''enabled'', Bool (pv_enabled p)),
      (''updatedAt'', Str (pv_updatedAt p)),
      (''roleMappings'', Arr (map (\<lambda>m. Obj (mapping_object m)) (pv_roleMappings p))), (''startUrl'', Str (pv_startUrl p))]"

declare reply_body_def [js_eval] parse_body_def [js_eval] read_reply_def [js_eval] or_thrown_def [js_eval]
  and_then_def [js_eval] t_with_def [js_eval] error_line_def [js_eval] labelled_def [js_eval]
  profile_object_def [js_eval] user_object_def [js_eval] mapping_object_def [js_eval] provider_object_def [js_eval]

end
