(* ===== verification/Login_View.thy ===== *)
theory Login_View
  imports Views_Base
begin

section \<open>Signing in and recovering a password (\<open>LoginView\<close> of \<open>ui/src/main.jsx\<close>)\<close>

text \<open>
  The three modes of the page (signing in, asking for a link, choosing a new password), each request cut
  at its reply, and what a reset sends or says.
\<close>

record login =
  lg_username :: string
  lg_password :: string
  lg_resetToken :: string
  lg_mode :: string
  lg_recoveryIdentifier :: string
  lg_newPassword :: string
  lg_confirmPassword :: string
  lg_providers :: jsval
  lg_recoveryEnabled :: bool
  lg_busy :: bool
  lg_message :: string
  lg_error :: string

text \<open>The first state reads the token from the fragment and the error from the query of the address.\<close>

definition login_init :: "jsval \<Rightarrow> url_params \<Rightarrow> login" where
  "login_init hash query =
     (let token = passwordResetToken hash in
      \<lparr>lg_username = ''o11y-admin'', lg_password = [], lg_resetToken = token,
       lg_mode = (if token \<noteq> [] then ''reset'' else ''login''), lg_recoveryIdentifier = [], lg_newPassword = [],
       lg_confirmPassword = [], lg_providers = Arr [], lg_recoveryEnabled = False, lg_busy = False, lg_message = [],
       lg_error = (case param_get query ''auth_error'' of Some e \<Rightarrow> e | None \<Rightarrow> [])\<rparr>)"

text \<open>The two requests of the first rendering; the status of one is checked, any failure is the default.\<close>

definition body_ok :: "host \<Rightarrow> reply \<Rightarrow> jsval option" where
  "body_ok h r = (case r of Reply status body \<Rightarrow> if response_ok status then h_parse h body else None | Unreachable _ \<Rightarrow> None)"

definition providers_loaded :: "host \<Rightarrow> reply \<Rightarrow> login \<Rightarrow> login" where
  "providers_loaded h r s =
     s\<lparr>lg_providers := (case body_ok h r of
         None \<Rightarrow> Arr []
       | Some payload \<Rightarrow> (case getx payload ''providers'' of Some v \<Rightarrow> js_or v (Arr []) | None \<Rightarrow> Arr []))\<rparr>"

definition recovery_loaded :: "host \<Rightarrow> reply \<Rightarrow> login \<Rightarrow> login" where
  "recovery_loaded h r s =
     s\<lparr>lg_recoveryEnabled := (case body_ok h r of
         None \<Rightarrow> False
       | Some payload \<Rightarrow> getx payload ''enabled'' = Some (Bool True))\<rparr>"

definition activeProviders :: "string \<Rightarrow> login \<Rightarrow> auth_provider list option" where
  "activeProviders origin s = do {
     xs \<leftarrow> receiver (lg_providers s);
     Some (filter (\<lambda>p. pv_id p \<noteq> [] \<and> pv_startUrl p \<noteq> [] \<and> providerLoginEnabled (Obj (provider_object p)))
       (map (\<lambda>p. normalizeProvider origin p Undef) xs)) }"

subsection \<open>Signing in\<close>

definition login_begin :: "login \<Rightarrow> login \<times> (string \<times> string)" where
  "login_begin s = (s\<lparr>lg_busy := True, lg_error := []\<rparr>, (lg_username s, lg_password s))"

text \<open>The result is the identity that signed in, if one did.\<close>

definition login_end :: "host \<Rightarrow> string \<Rightarrow> reply \<Rightarrow> login \<Rightarrow> login \<times> jsval option" where
  "login_end h thrown r s =
     (let outcome = and_then (reply_body (h_t h ''No se pudo autenticar.'') r) (\<lambda>message.
          and_then (case h_parse h message of Some v \<Rightarrow> Inr v | None \<Rightarrow> Inl (h_syntax_error h message)) (\<lambda>session.
            or_thrown thrown (getx session ''identity'')))
      in case outcome of
           Inl message \<Rightarrow> (s\<lparr>lg_error := message, lg_busy := False\<rparr>, None)
         | Inr identity \<Rightarrow> (s\<lparr>lg_busy := False\<rparr>, Some identity))"

subsection \<open>Recovering the password\<close>

definition requestRecovery_begin :: "login \<Rightarrow> login \<times> string" where
  "requestRecovery_begin s = (s\<lparr>lg_busy := True, lg_error := [], lg_message := []\<rparr>, js_trim (lg_recoveryIdentifier s))"

definition requestRecovery_end :: "host \<Rightarrow> reply \<Rightarrow> login \<Rightarrow> login" where
  "requestRecovery_end h r s =
     (case reply_body (h_t h ''No se pudo procesar la solicitud.'') r of
        Inl message \<Rightarrow> s\<lparr>lg_error := message, lg_busy := False\<rparr>
      | Inr _ \<Rightarrow> s\<lparr>lg_busy := False, lg_message := h_t h
          (''Si la cuenta existe y tiene correo configurado, recibir'' @ [CHR 0xE1] @ ''s un enlace para restablecer la contrase'' @ [CHR 0xF1] @ ''a.'')\<rparr>)"

definition reset_errors :: "login \<Rightarrow> string list" where
  "reset_errors s =
     filter (\<lambda>entry. \<not> js_includes entry ''diferente de la actual'')
       (validatePasswordChange ''recovery-token'' (lg_newPassword s) (lg_confirmPassword s))"

text \<open>The request, when one is sent, carries the token of the address and the new password.\<close>

definition resetPassword_begin :: "host \<Rightarrow> login \<Rightarrow> login \<times> (string \<times> string) option" where
  "resetPassword_begin h s =
     (if reset_errors s \<noteq> [] then (s\<lparr>lg_error := error_line h (reset_errors s), lg_message := []\<rparr>, None)
      else (s\<lparr>lg_busy := True, lg_error := [], lg_message := []\<rparr>, Some (lg_resetToken s, lg_newPassword s)))"

definition resetPassword_end :: "host \<Rightarrow> reply \<Rightarrow> login \<Rightarrow> login" where
  "resetPassword_end h r s =
     (case reply_body (h_t h (''El enlace no es v'' @ [CHR 0xE1] @ ''lido o ya venci'' @ [CHR 0xF3] @ ''.'')) r of
        Inl message \<Rightarrow> s\<lparr>lg_error := message, lg_busy := False\<rparr>
      | Inr _ \<Rightarrow> s\<lparr>lg_newPassword := [], lg_confirmPassword := [], lg_mode := ''login'',
          lg_message := h_t h (''Contrase'' @ [CHR 0xF1] @ ''a actualizada. Ya puedes iniciar sesi'' @ [CHR 0xF3] @ ''n.''), lg_busy := False\<rparr>)"

definition showLogin :: "login \<Rightarrow> login" where
  "showLogin s = s\<lparr>lg_mode := ''login'', lg_error := [], lg_message := []\<rparr>"

definition showForgot :: "login \<Rightarrow> login" where
  "showForgot s = s\<lparr>lg_mode := ''forgot'', lg_error := [], lg_message := []\<rparr>"

text \<open>When the button of the form answers.\<close>

definition can_submit :: "login \<Rightarrow> bool" where
  "can_submit s \<longleftrightarrow> \<not> (lg_busy s \<or>
     (lg_mode s = ''login'' \<and> (lg_username s = [] \<or> lg_password s = [])) \<or>
     (lg_mode s = ''forgot'' \<and> js_trim (lg_recoveryIdentifier s) = []) \<or>
     (lg_mode s = ''reset'' \<and> (lg_newPassword s = [] \<or> lg_confirmPassword s = [])))"

declare login_init_def [js_eval] body_ok_def [js_eval] providers_loaded_def [js_eval] recovery_loaded_def [js_eval]
  activeProviders_def [js_eval] login_begin_def [js_eval] login_end_def [js_eval] requestRecovery_begin_def [js_eval]
  requestRecovery_end_def [js_eval] reset_errors_def [js_eval] resetPassword_begin_def [js_eval]
  resetPassword_end_def [js_eval] showLogin_def [js_eval] showForgot_def [js_eval] can_submit_def [js_eval]

subsection \<open>What a reset sends\<close>

lemma utf8_length_bound: "length s \<le> utf8_length s"
  by (induction s) (auto simp: utf8_length_def)

text \<open>What is said of a password that is refused, in this order.\<close>

definition refusals :: "string \<Rightarrow> string \<Rightarrow> string list" where
  "refusals new again =
     (if length new < 12 then [''La nueva contrase'' @ [CHR 0xF1] @ ''a debe tener al menos 12 caracteres.''] else []) @
     (if 72 < utf8_length new then [''La nueva contrase'' @ [CHR 0xF1] @ ''a admite hasta 72 bytes.''] else []) @
     (if new \<noteq> again then [''La confirmaci'' @ [CHR 0xF3] @ ''n no coincide con la nueva contrase'' @ [CHR 0xF1] @ ''a.''] else [])"

lemma kept_errors:
  "filter (\<lambda>entry. \<not> js_includes entry ''diferente de la actual'') (validatePasswordChange ''recovery-token'' new again) = refusals new again"
proof -
  have "\<not> js_includes (''La nueva contrase'' @ [CHR 0xF1] @ ''a debe tener al menos 12 caracteres.'') ''diferente de la actual''"
    "\<not> js_includes (''La nueva contrase'' @ [CHR 0xF1] @ ''a admite hasta 72 bytes.'') ''diferente de la actual''"
    "\<not> js_includes (''La confirmaci'' @ [CHR 0xF3] @ ''n no coincide con la nueva contrase'' @ [CHR 0xF1] @ ''a.'') ''diferente de la actual''"
    "js_includes (''La nueva contrase'' @ [CHR 0xF1] @ ''a debe ser diferente de la actual.'') ''diferente de la actual''"
    by code_simp+
  then show ?thesis by (auto simp: validatePasswordChange_def require_def refusals_def)
qed

lemma refusals_Nil: "refusals new again = [] \<longleftrightarrow> 12 \<le> length new \<and> utf8_length new \<le> 72 \<and> new = again"
  by (auto simp: refusals_def)

text \<open>C39: A reset sends the token of the link and the new password exactly when the password has at least 12
  characters and at most 72 bytes and both copies agree. The page is then busy, and its last error and message are
  gone. Otherwise nothing is sent, the page is as busy as it was, its message is gone, and the error it shows is the
  translated list of what is wrong: too short, too many bytes, copies that differ, in this order and nothing else
  (that the password equals the current one is not among them). What was typed stays in both cases.\<close>

theorem reset_sends_a_bounded_password:
  "snd (resetPassword_begin h s) =
     (if 12 \<le> length (lg_newPassword s) \<and> length (lg_newPassword s) \<le> 72 \<and> utf8_length (lg_newPassword s) \<le> 72 \<and>
         lg_newPassword s = lg_confirmPassword s
      then Some (lg_resetToken s, lg_newPassword s) else None) \<and>
   fst (resetPassword_begin h s) =
     (if snd (resetPassword_begin h s) \<noteq> None then s\<lparr>lg_busy := True, lg_error := [], lg_message := []\<rparr>
      else s\<lparr>lg_message := [], lg_error := js_join '' '' (map (h_t h)
        ((if length (lg_newPassword s) < 12 then [''La nueva contrase'' @ [CHR 0xF1] @ ''a debe tener al menos 12 caracteres.''] else []) @
         (if 72 < utf8_length (lg_newPassword s) then [''La nueva contrase'' @ [CHR 0xF1] @ ''a admite hasta 72 bytes.''] else []) @
         (if lg_newPassword s \<noteq> lg_confirmPassword s
          then [''La confirmaci'' @ [CHR 0xF3] @ ''n no coincide con la nueva contrase'' @ [CHR 0xF1] @ ''a.''] else [])))\<rparr>)"
proof -
  let ?r = "refusals (lg_newPassword s) (lg_confirmPassword s)"
  have r: "reset_errors s = ?r" by (simp only: reset_errors_def kept_errors)
  have "?r = [] \<longleftrightarrow> 12 \<le> length (lg_newPassword s) \<and> length (lg_newPassword s) \<le> 72 \<and> utf8_length (lg_newPassword s) \<le> 72 \<and>
      lg_newPassword s = lg_confirmPassword s"
    using utf8_length_bound [of "lg_newPassword s"] by (auto simp only: refusals_Nil)
  then show ?thesis unfolding refusals_def [symmetric] error_line_def [symmetric] resetPassword_begin_def r
    by (cases "?r = []") (simp_all, metis)
qed

end
