(* ===== verification/Profile_View.thy ===== *)
theory Profile_View
  imports Views_Base
begin

section \<open>The profile (\<open>ProfileView\<close> of \<open>ui/src/main.jsx\<close>)\<close>

text \<open>
  The profile of the signed-in user: loading and saving it, and the change of the password.
\<close>

record profile_view =
  pr_profile :: jsobj
  pr_persistedEmail :: string
  pr_emailPassword :: string
  pr_profileBusy :: bool
  pr_passwordBusy :: bool
  pr_notice :: string
  pr_currentPassword :: string
  pr_newPassword :: string
  pr_confirmPassword :: string

definition profile_init :: "jsval \<Rightarrow> profile_view" where
  "profile_init identity =
     \<lparr>pr_profile = profile_object (normalizeProfile (Obj []) identity), pr_persistedEmail = [], pr_emailPassword = [],
      pr_profileBusy = False, pr_passwordBusy = False, pr_notice = [],
      pr_currentPassword = [], pr_newPassword = [], pr_confirmPassword = []\<rparr>"

definition email_of :: "jsobj \<Rightarrow> string" where
  "email_of profile = to_str (fld profile ''email'')"

text \<open>The load of the first rendering; \<open>active\<close> is false once the view has gone.\<close>

definition profile_loaded :: "host \<Rightarrow> jsval \<Rightarrow> bool \<Rightarrow> reply \<Rightarrow> profile_view \<Rightarrow> profile_view" where
  "profile_loaded h identity active r s =
     (if \<not> active then s
      else case read_reply h (h_t h ''No se pudo cargar el perfil.'') (Obj []) r of
          Inl message \<Rightarrow> s\<lparr>pr_notice := labelled h ''No se pudo cargar el perfil'' message\<rparr>
        | Inr payload \<Rightarrow>
            (let loaded = profile_object (normalizeProfile payload identity) in
             s\<lparr>pr_profile := loaded, pr_persistedEmail := email_of loaded\<rparr>))"

subsection \<open>Editing\<close>

definition localIdentity :: "profile_view \<Rightarrow> bool" where
  "localIdentity s \<longleftrightarrow> \<not> truthy (fld (pr_profile s) ''provider'') \<or> fld (pr_profile s) ''provider'' = Str ''local''"

definition type_profile :: "string \<Rightarrow> string \<Rightarrow> profile_view \<Rightarrow> profile_view" where
  "type_profile key v s = s\<lparr>pr_profile := obj_put key (Str v) (pr_profile s)\<rparr>"

definition emailChanged :: "profile_view \<Rightarrow> bool" where
  "emailChanged s \<longleftrightarrow> js_lower (js_trim (email_of (pr_profile s))) \<noteq> js_lower (js_trim (pr_persistedEmail s))"

subsection \<open>Saving\<close>

text \<open>A request that is sent keeps the profile it was sent with.\<close>

definition saveProfile_begin :: "host \<Rightarrow> profile_view \<Rightarrow> profile_view \<times> (profile_payload \<times> jsobj) option" where
  "saveProfile_begin h s =
     (let errors = validateProfile (pr_profile s) in
      if errors \<noteq> [] then (s\<lparr>pr_notice := error_line h errors\<rparr>, None)
      else if emailChanged s \<and> pr_emailPassword s = []
      then (s\<lparr>pr_notice := h_t h (''Ingresa tu contrase'' @ [CHR 0xF1] @ ''a actual para cambiar el correo de recuperaci'' @ [CHR 0xF3] @ ''n.'')\<rparr>, None)
      else (s\<lparr>pr_profileBusy := True, pr_notice := []\<rparr>,
        Some (profilePayload (pr_profile s) (if emailChanged s then pr_emailPassword s else []), pr_profile s)))"

text \<open>The result is the identity the application gets, if the profile was saved.\<close>

definition saveProfile_end :: "host \<Rightarrow> jsval \<Rightarrow> jsobj \<Rightarrow> reply \<Rightarrow> profile_view \<Rightarrow> profile_view \<times> jsval option" where
  "saveProfile_end h identity sent r s =
     (case read_reply h (h_t h ''No se pudo actualizar el perfil.'') (Obj sent) r of
        Inl message \<Rightarrow> (s\<lparr>pr_notice := labelled h ''No se pudo guardar el perfil'' message, pr_profileBusy := False\<rparr>, None)
      | Inr payload \<Rightarrow>
          (let updated = profile_object (normalizeProfile payload identity) in
           (s\<lparr>pr_profile := updated, pr_persistedEmail := email_of updated, pr_emailPassword := [],
              pr_notice := h_t h ''Datos personales actualizados.'', pr_profileBusy := False\<rparr>,
            Some (Obj (obj_spread (own_entries identity) updated)))))"

definition changePassword_begin :: "host \<Rightarrow> profile_view \<Rightarrow> profile_view \<times> (string \<times> string) option" where
  "changePassword_begin h s =
     (let errors = validatePasswordChange (pr_currentPassword s) (pr_newPassword s) (pr_confirmPassword s) in
      if errors \<noteq> [] then (s\<lparr>pr_notice := error_line h errors\<rparr>, None)
      else (s\<lparr>pr_passwordBusy := True, pr_notice := []\<rparr>, Some (pr_currentPassword s, pr_newPassword s)))"

definition changePassword_end :: "host \<Rightarrow> reply \<Rightarrow> profile_view \<Rightarrow> profile_view" where
  "changePassword_end h r s =
     (case reply_body (h_t h (''No se pudo cambiar la contrase'' @ [CHR 0xF1] @ ''a.'')) r of
        Inl message \<Rightarrow> s\<lparr>pr_notice := labelled h (''No se pudo cambiar la contrase'' @ [CHR 0xF1] @ ''a'') message, pr_passwordBusy := False\<rparr>
      | Inr _ \<Rightarrow> s\<lparr>pr_currentPassword := [], pr_newPassword := [], pr_confirmPassword := [],
          pr_notice := h_t h (''Contrase'' @ [CHR 0xF1] @ ''a actualizada y sesi'' @ [CHR 0xF3] @ ''n renovada.''), pr_passwordBusy := False\<rparr>)"

declare profile_init_def [js_eval] email_of_def [js_eval] profile_loaded_def [js_eval] localIdentity_def [js_eval]
  type_profile_def [js_eval] emailChanged_def [js_eval] saveProfile_begin_def [js_eval] saveProfile_end_def [js_eval]
  changePassword_begin_def [js_eval] changePassword_end_def [js_eval]

subsection \<open>The password of a change of address\<close>

lemma sent_email: "pp_email (profilePayload p w) = js_lower (js_trim (text_value (fld p ''email'') []))"
  by (simp add: profilePayload_def trimmed_def)

text \<open>A profile is sent only when its address has the form of one, and the password of the account goes with
  it exactly when the address differs, up to case and surrounding blanks, from the one the server last
  reported; without that password a changed address is never sent.\<close>

theorem profile_address_needs_the_password:
  assumes "saveProfile_begin h s = (s', Some (payload, sent))" "fld (pr_profile s) ''email'' = Str email"
  shows "is_email (pp_email payload) \<and> pp_email payload = js_lower (js_trim email) \<and> sent = pr_profile s \<and>
    (if pp_email payload = js_lower (js_trim (pr_persistedEmail s)) then pp_currentPassword payload = None
     else pp_currentPassword payload = Some (pr_emailPassword s) \<and> pr_emailPassword s \<noteq> [])"
proof -
  have v: "validateProfile (pr_profile s) = []" "\<not> (emailChanged s \<and> pr_emailPassword s = [])"
    and p: "payload = profilePayload (pr_profile s) (if emailChanged s then pr_emailPassword s else [])" "sent = pr_profile s"
    using assms(1) by (auto simp: saveProfile_begin_def Let_def split: if_splits)
  have e: "pp_email payload = js_lower (js_trim email)" by (simp add: p(1) sent_email assms(2))
  moreover have "is_email (js_lower (js_trim email))"
    using v(1) by (simp add: validateProfile_def require_def Let_def sent_email assms(2) split: if_splits)
  moreover have "emailChanged s \<longleftrightarrow> js_lower (js_trim email) \<noteq> js_lower (js_trim (pr_persistedEmail s))"
    by (simp add: emailChanged_def email_of_def assms(2))
  ultimately show ?thesis using v(2) p by (auto simp: profilePayload_def)
qed

theorem profile_address_needs_the_password_witness:
  "\<forall>h. let s = (profile_init Undef)\<lparr>pr_profile := [(''firstName'', Str ''Ana''), (''lastName'', Str ''Paz''), (''email'', Str '' Ana@X.pe '')],
        pr_persistedEmail := ''old@x.pe'', pr_emailPassword := ''pw''\<rparr>
   in \<exists>payload. snd (saveProfile_begin h s) = Some (payload, pr_profile s) \<and> pp_currentPassword payload = Some ''pw''"
  (is "\<forall>h. ?claim h")
proof
  fix h
  let ?s = "(profile_init Undef)\<lparr>pr_profile := [(''firstName'', Str ''Ana''), (''lastName'', Str ''Paz''), (''email'', Str '' Ana@X.pe '')],
        pr_persistedEmail := ''old@x.pe'', pr_emailPassword := ''pw''\<rparr>"
  have v: "validateProfile (pr_profile ?s) = []" "emailChanged ?s" "fld (pr_profile ?s) ''email'' = Str '' Ana@X.pe ''"
    "js_lower (js_trim '' Ana@X.pe '') \<noteq> js_lower (js_trim (pr_persistedEmail ?s))"
    by code_simp+
  let ?payload = "profilePayload (pr_profile ?s) ''pw''"
  have begun: "saveProfile_begin h ?s = (?s\<lparr>pr_profileBusy := True, pr_notice := []\<rparr>, Some (?payload, pr_profile ?s))"
    using v(1,2) by (simp add: saveProfile_begin_def Let_def)
  have "pp_currentPassword ?payload = Some (pr_emailPassword ?s)"
    using profile_address_needs_the_password [OF begun v(3)] v(4) by metis
  then show "?claim h" using begun unfolding Let_def by (intro exI [of _ ?payload]) simp
qed

end
