(* ===== verification/Access_View.thy ===== *)
theory Access_View
  imports Views_Base
begin

section \<open>The identity providers (\<open>AccessView\<close> of \<open>ui/src/main.jsx\<close>)\<close>

text \<open>
  The form of each configured provider is a draft, kept under the identifier of the provider; the form
  of a new one is kept apart. A draft that was edited is marked until it is saved, and only marked
  drafts survive the arrival of a new model from the server.
\<close>

record access =
  ac_drafts :: jsobj
  ac_newDraft :: jsval
  ac_busyProvider :: string
  ac_notice :: string

definition access_init :: access where
  "access_init = \<lparr>ac_drafts = [], ac_newDraft = Null, ac_busyProvider = [], ac_notice = []\<rparr>"

definition new_id :: string where
  "new_id = ''__new__''"

subsection \<open>What the model shows\<close>

definition providers_in :: "string \<Rightarrow> string \<Rightarrow> jsval \<Rightarrow> auth_provider list option" where
  "providers_in key origin model =
     map_option (\<lambda>xs. filter (\<lambda>p. pv_id p \<noteq> []) (map (\<lambda>p. normalizeProvider origin p model) xs))
       (list_or (get model key))"

definition configurations :: "string \<Rightarrow> jsval \<Rightarrow> auth_provider list option" where
  "configurations origin model = providers_in ''configurations'' origin model"

definition local_roles :: "jsval \<Rightarrow> jsval" where
  "local_roles model = js_or (get model ''roles'') (Obj [])"

definition assignableRoles :: "jsval \<Rightarrow> jsval" where
  "assignableRoles model =
     js_or (get model ''assignableRoles'') (Arr (map (\<lambda>(k, _). Str k) (own_entries (local_roles model))))"

definition canManageProviders :: "jsval \<Rightarrow> bool option" where
  "canManageProviders model =
     (let identity = get model ''identity'';
          permissions = js_or (js_or (get identity ''permissions'') (get identity ''Permissions'')) (Arr []);
          roles = js_or (js_or (get identity ''roles'') (get identity ''Roles'')) (Arr [])
      in do {
        every \<leftarrow> val_includes permissions (Str ''*'');
        if every then Some True else do {
          admin \<leftarrow> val_includes permissions (Str ''auth.admin'');
          if admin then Some True
          else map_option (list_ex (\<lambda>role. role = Str ''admin'' \<or> role = Str ''security-admin'')) (receiver roles) } })"

subsection \<open>Drafts\<close>

text \<open>What the effect of a new model keeps of each configured provider.\<close>

definition server_draft :: "auth_provider \<Rightarrow> jsval" where
  "server_draft provider =
     Obj (obj_put ''_dirty'' (Bool False) (obj_put ''clientSecret'' (Str []) (provider_object provider)))"

definition reconciled :: "jsobj \<Rightarrow> auth_provider \<Rightarrow> jsval" where
  "reconciled current provider =
     (if truthy (get (fld current (pv_id provider)) ''_dirty'') then fld current (pv_id provider) else server_draft provider)"

definition model_changed :: "auth_provider list \<Rightarrow> access \<Rightarrow> access" where
  "model_changed configs s =
     s\<lparr>ac_drafts := from_entries (map (\<lambda>p. (pv_id p, reconciled (ac_drafts s) p)) configs)\<rparr>"

definition draft_at :: "string \<Rightarrow> access \<Rightarrow> jsval" where
  "draft_at providerID s = (if providerID = new_id then ac_newDraft s else fld (ac_drafts s) providerID)"

definition put_draft :: "string \<Rightarrow> jsval \<Rightarrow> access \<Rightarrow> access" where
  "put_draft providerID draft s =
     (if providerID = new_id then s\<lparr>ac_newDraft := draft\<rparr> else s\<lparr>ac_drafts := obj_put providerID draft (ac_drafts s)\<rparr>)"

definition updateDraft :: "string \<Rightarrow> string \<Rightarrow> jsval \<Rightarrow> access \<Rightarrow> access" where
  "updateDraft providerID key v s =
     put_draft providerID
       (Obj (obj_put ''_dirty'' (Bool True) (obj_put key v (own_entries (draft_at providerID s))))) s"

definition with_mappings :: "(jsval list \<Rightarrow> jsval list) \<Rightarrow> jsval list \<Rightarrow> jsval \<Rightarrow> jsval" where
  "with_mappings f xs draft =
     Obj (obj_put ''roleMappings'' (Arr (f xs)) (obj_put ''_dirty'' (Bool True) (own_entries draft)))"

text \<open>The rows a handler maps or filters have to be a list; the rows it spreads may also be a text.\<close>

definition updateMapping :: "string \<Rightarrow> nat \<Rightarrow> string \<Rightarrow> jsval \<Rightarrow> access \<Rightarrow> access option" where
  "updateMapping providerID index key v s = do {
     rows \<leftarrow> getx (draft_at providerID s) ''roleMappings'';
     xs \<leftarrow> list_or rows;
     Some (put_draft providerID (with_mappings
       (\<lambda>xs. if index < length xs then xs[index := Obj (obj_put key v (own_entries (xs ! index)))] else xs)
       xs (draft_at providerID s)) s) }"

definition new_mapping :: jsval where
  "new_mapping = Obj [(''externalRole'', Str []), (''localRole'', Str ''viewer'')]"

definition addMapping :: "string \<Rightarrow> access \<Rightarrow> access option" where
  "addMapping providerID s = do {
     rows \<leftarrow> getx (draft_at providerID s) ''roleMappings'';
     xs \<leftarrow> items_or rows;
     Some (put_draft providerID (with_mappings (\<lambda>xs. xs @ [new_mapping]) xs (draft_at providerID s)) s) }"

definition removeMapping :: "string \<Rightarrow> nat \<Rightarrow> access \<Rightarrow> access option" where
  "removeMapping providerID index s = do {
     rows \<leftarrow> getx (draft_at providerID s) ''roleMappings'';
     xs \<leftarrow> list_or rows;
     Some (put_draft providerID (with_mappings (remove_at index) xs (draft_at providerID s)) s) }"

definition addProvider :: "host \<Rightarrow> access \<Rightarrow> access" where
  "addProvider h s = s\<lparr>ac_newDraft := Obj
     [(''id'', Str []), (''label'', Str (h_t h ''Continuar con SSO'')), (''protocol'', Str ''OIDC''), (''status'', Str ''INACTIVE''),
      (''issuer'', Str []), (''clientId'', Str []), (''clientSecret'', Str []), (''secretConfigured'', Bool False),
      (''userClaim'', Str ''preferred_username''), (''roleClaim'', Str ''roles''), (''spEntityId'', Str []),
      (''metadataUrl'', Str []), (''metadataXml'', Str []), (''nameIdAttribute'', Str []), (''userAttribute'', Str ''mail''),
      (''roleAttribute'', Str ''groups''), (''callbackUrl'', Str []), (''roleMappings'', Arr [new_mapping]), (''_dirty'', Bool True)]\<rparr>"

text \<open>The identifier is typed through a filter.\<close>

definition type_id :: "string \<Rightarrow> string \<Rightarrow> access \<Rightarrow> access" where
  "type_id providerID v s =
     updateDraft providerID ''id'' (Str (filter (\<lambda>c. is_lower_az c \<or> is_digit c \<or> c = CHR ''-'') (js_lower v))) s"

subsection \<open>Saving\<close>

text \<open>\<open>/^[a-z][a-z0-9-]{0,62}$/\<close>.\<close>

definition is_provider_id :: "string \<Rightarrow> bool" where
  "is_provider_id s \<longleftrightarrow>
     (case s of [] \<Rightarrow> False
      | c # r \<Rightarrow> is_lower_az c \<and> length r \<le> 62 \<and> (\<forall>d\<in>set r. is_lower_az d \<or> is_digit d \<or> d = CHR ''-''))"

definition actual_id :: "string \<Rightarrow> jsobj \<Rightarrow> string option" where
  "actual_id providerID draft =
     (if providerID = new_id then trim_x (js_or (fld draft ''id'') (Str [])) else Some providerID)"

definition id_errors :: "host \<Rightarrow> auth_provider list \<Rightarrow> string \<Rightarrow> string \<Rightarrow> string list" where
  "id_errors h configs providerID ident =
     (if providerID = new_id \<and> (\<exists>p\<in>set configs. pv_id p = ident) then [h_t h ''Ya existe un proveedor con ese ID.''] else []) @
     (if is_provider_id ident then []
      else [h_t h (''El ID debe tener entre 1 y 63 caracteres, iniciar con una letra y usar s'' @ [CHR 0xF3] @ ''lo min'' @ [CHR 0xFA] @ ''sculas, n'' @ [CHR 0xFA] @ ''meros o guiones.'')])"

text \<open>Up to the request of \<open>persistProvider\<close>: an error, or the identifier and the body that are sent.\<close>

definition persist_begin :: "host \<Rightarrow> string \<Rightarrow> auth_provider list \<Rightarrow> string \<Rightarrow> jsval \<Rightarrow> string + (string \<times> jsobj)" where
  "persist_begin h thrown configs providerID draft =
     (case draft of
        Obj d \<Rightarrow>
          and_then (or_thrown thrown (validateProviderDraft d)) (\<lambda>found.
          and_then (or_thrown thrown (actual_id providerID d)) (\<lambda>ident.
            let errors = id_errors h configs providerID ident @ found in
            if errors \<noteq> [] then Inl (error_line h errors)
            else and_then (or_thrown thrown (providerPayload d)) (\<lambda>payload. Inr (ident, payload))))
      | _ \<Rightarrow> Inl thrown)"

definition saved_draft :: "string \<Rightarrow> access \<Rightarrow> access" where
  "saved_draft providerID s =
     (if providerID = new_id then s\<lparr>ac_newDraft := Null\<rparr>
      else put_draft providerID (Obj (obj_put ''_dirty'' (Bool False) (own_entries (draft_at providerID s)))) s)"

definition saveProvider_begin ::
  "host \<Rightarrow> string \<Rightarrow> auth_provider list \<Rightarrow> string \<Rightarrow> access \<Rightarrow> access \<times> (string \<times> jsobj) option" where
  "saveProvider_begin h thrown configs providerID s =
     (case persist_begin h thrown configs providerID (draft_at providerID s) of
        Inl message \<Rightarrow> (s\<lparr>ac_notice := labelled h ''No se pudo guardar el proveedor'' message, ac_busyProvider := []\<rparr>, None)
      | Inr request \<Rightarrow> (s\<lparr>ac_busyProvider := providerID\<rparr>, Some request))"

text \<open>The result says whether the application loads again, which ends the request.\<close>

definition saveProvider_end :: "host \<Rightarrow> string \<Rightarrow> reply \<Rightarrow> access \<Rightarrow> access \<times> bool" where
  "saveProvider_end h providerID r s =
     (case reply_body (h_t h ''No se pudo guardar el proveedor.'') r of
        Inl message \<Rightarrow> (s\<lparr>ac_notice := labelled h ''No se pudo guardar el proveedor'' message, ac_busyProvider := []\<rparr>, False)
      | Inr _ \<Rightarrow> (saved_draft providerID
          (s\<lparr>ac_notice := h_t h (''Proveedor guardado como CONFIGURADO. Val'' @ [CHR 0xED] @ ''dalo antes de habilitar el login.'')\<rparr>), True))"

definition provider_reloaded :: "access \<Rightarrow> access" where
  "provider_reloaded s = s\<lparr>ac_busyProvider := []\<rparr>"

subsection \<open>Validating\<close>

definition provider_error :: "host \<Rightarrow> string \<Rightarrow> access \<Rightarrow> access" where
  "provider_error h message s = s\<lparr>ac_notice := labelled h (''El proveedor qued'' @ [CHR 0xF3] @ '' en ERROR'') message\<rparr>"

text \<open>Without a request the application loads again at once.\<close>

definition validateProvider_begin ::
  "host \<Rightarrow> string \<Rightarrow> auth_provider list \<Rightarrow> string \<Rightarrow> access \<Rightarrow> access \<times> (string \<times> jsobj) option" where
  "validateProvider_begin h thrown configs providerID s =
     (case persist_begin h thrown configs providerID (draft_at providerID s) of
        Inl message \<Rightarrow> (provider_error h message (s\<lparr>ac_busyProvider := providerID\<rparr>), None)
      | Inr request \<Rightarrow> (s\<lparr>ac_busyProvider := providerID\<rparr>, Some request))"

text \<open>The result says whether the preflight is asked for; otherwise the application loads again.\<close>

definition validateProvider_saved :: "host \<Rightarrow> string \<Rightarrow> reply \<Rightarrow> access \<Rightarrow> access \<times> bool" where
  "validateProvider_saved h providerID r s =
     (case reply_body (h_t h ''No se pudo guardar el proveedor.'') r of
        Inl message \<Rightarrow> (provider_error h message s, False)
      | Inr _ \<Rightarrow> (saved_draft providerID s, True))"

definition preflight_text :: "host \<Rightarrow> string \<Rightarrow> string option" where
  "preflight_text h message =
     (let result = (if message = [] then Obj []
            else case h_parse h message of Some v \<Rightarrow> v | None \<Rightarrow> Obj [(''message'', Str message)])
      in do {
        m \<leftarrow> getx result ''message'';
        v \<leftarrow> getx result ''validationMessage'';
        Some (to_str (js_or (js_or m v) (Str (h_t h ''Proveedor VALIDADO y disponible en el login.'')))) })"

definition validateProvider_end :: "host \<Rightarrow> string \<Rightarrow> reply \<Rightarrow> access \<Rightarrow> access" where
  "validateProvider_end h thrown r s =
     (case and_then (reply_body (h_t h (''La validaci'' @ [CHR 0xF3] @ ''n operativa fall'' @ [CHR 0xF3] @ ''.'')) r) (\<lambda>message. or_thrown thrown (preflight_text h message)) of
        Inl message \<Rightarrow> provider_error h message s
      | Inr notice \<Rightarrow> s\<lparr>ac_notice := notice\<rparr>)"

subsection \<open>Removing\<close>

definition removeProvider_begin :: "bool \<Rightarrow> string \<Rightarrow> access \<Rightarrow> access \<times> string option" where
  "removeProvider_begin agreed providerID s =
     (if providerID = new_id then (s\<lparr>ac_newDraft := Null\<rparr>, None)
      else if \<not> agreed then (s, None)
      else (s\<lparr>ac_busyProvider := providerID\<rparr>, Some (''/api/auth/providers/'' @ encode_uri_component providerID)))"

definition removeProvider_end :: "host \<Rightarrow> reply \<Rightarrow> access \<Rightarrow> access \<times> bool" where
  "removeProvider_end h r s =
     (case reply_body [] r of
        Inl message \<Rightarrow> (s\<lparr>ac_notice := labelled h ''No se pudo eliminar el proveedor'' message, ac_busyProvider := []\<rparr>, False)
      | Inr _ \<Rightarrow> (s\<lparr>ac_notice := h_t h (''Proveedor eliminado; ya no aparecer'' @ [CHR 0xE1] @ '' en el login.'')\<rparr>, True))"

subsection \<open>The controls of a form\<close>

definition configuredLocalRoles :: "jsval \<Rightarrow> jsval list option" where
  "configuredLocalRoles draft = do {
     rows \<leftarrow> getx draft ''roleMappings'';
     xs \<leftarrow> list_or rows;
     roles \<leftarrow> map_opt (\<lambda>mapping. getx mapping ''localRole'') xs;
     Some (filter truthy roles) }"

definition visibleRoleNames :: "jsval \<Rightarrow> jsval \<Rightarrow> jsval list option" where
  "visibleRoleNames model draft = do {
     assignable \<leftarrow> iterate (assignableRoles model);
     configured \<leftarrow> configuredLocalRoles draft;
     Some (unique_values (assignable @ configured)) }"

definition providerManageable :: "jsval \<Rightarrow> jsval \<Rightarrow> bool option" where
  "providerManageable model draft = do {
     configured \<leftarrow> configuredLocalRoles draft;
     every_opt (val_includes (assignableRoles model)) configured }"

text \<open>The buttons of a form answer while its provider is idle and can be managed.\<close>

definition can_act :: "jsval \<Rightarrow> string \<Rightarrow> access \<Rightarrow> bool option" where
  "can_act model providerID s =
     map_option (\<lambda>manageable. ac_busyProvider s \<noteq> providerID \<and> manageable) (providerManageable model (draft_at providerID s))"

declare access_init_def [js_eval] new_id_def [js_eval] providers_in_def [js_eval] configurations_def [js_eval]
  local_roles_def [js_eval] assignableRoles_def [js_eval] canManageProviders_def [js_eval] server_draft_def [js_eval]
  reconciled_def [js_eval] model_changed_def [js_eval] draft_at_def [js_eval] put_draft_def [js_eval]
  updateDraft_def [js_eval] with_mappings_def [js_eval] updateMapping_def [js_eval] new_mapping_def [js_eval]
  addMapping_def [js_eval] removeMapping_def [js_eval] addProvider_def [js_eval] type_id_def [js_eval]
  is_provider_id_def [js_eval] actual_id_def [js_eval] id_errors_def [js_eval] persist_begin_def [js_eval]
  saved_draft_def [js_eval] saveProvider_begin_def [js_eval] saveProvider_end_def [js_eval]
  provider_reloaded_def [js_eval] provider_error_def [js_eval] validateProvider_begin_def [js_eval]
  validateProvider_saved_def [js_eval] preflight_text_def [js_eval] validateProvider_end_def [js_eval]
  removeProvider_begin_def [js_eval] removeProvider_end_def [js_eval] configuredLocalRoles_def [js_eval]
  visibleRoleNames_def [js_eval] providerManageable_def [js_eval] can_act_def [js_eval]

subsection \<open>Copying\<close>

text \<open>\<open>copied\<close> says whether the clipboard took the text, \<open>failure\<close> the message of its error.\<close>

definition copyText :: "host \<Rightarrow> bool \<Rightarrow> string \<Rightarrow> access \<Rightarrow> access" where
  "copyText h copied description s =
     s\<lparr>ac_notice := (if copied then description @ '' '' @ h_t h ''copiada.''
        else h_t h ''No se pudo copiar'' @ '' '' @ js_lower description @ ''.'')\<rparr>"

definition copySPMetadata :: "host \<Rightarrow> string option \<Rightarrow> reply \<Rightarrow> access \<Rightarrow> access" where
  "copySPMetadata h failure r s =
     (let failed = (\<lambda>message. s\<lparr>ac_notice := labelled h ''No se pudo copiar la metadata SP''
            (if message = [] then h_t h ''error del navegador'' else message)\<rparr>) in
      case (reply_body [] r, failure) of
        (Inl message, _) \<Rightarrow> failed message
      | (Inr _, Some message) \<Rightarrow> failed message
      | (Inr _, None) \<Rightarrow> s\<lparr>ac_notice := h_t h ''Metadata XML del SP copiada.''\<rparr>)"

definition effectiveID :: "bool \<Rightarrow> jsobj \<Rightarrow> string \<Rightarrow> string" where
  "effectiveID isNew draft providerID = (if isNew then str_or (fld draft ''id'') ''nuevo-proveedor'' else providerID)"

definition metadataURL :: "string \<Rightarrow> jsval \<Rightarrow> string \<Rightarrow> string" where
  "metadataURL origin provider ident =
     str_or (get provider ''spMetadataUrl'') (origin @ ''/api/auth/saml/'' @ encode_uri_component ident @ ''/metadata'')"

declare copyText_def [js_eval] copySPMetadata_def [js_eval] effectiveID_def [js_eval] metadataURL_def [js_eval]

end
