(* ===== verification/Access_Props.thy ===== *)
theory Access_Props
  imports Access_View
begin

section \<open>What holds of the forms of the identity providers\<close>

subsection \<open>The view as a transition system\<close>

text \<open>
  A form is on the page while its draft is an object. The server's model may change at any moment, and
  a reply may come at any moment after its request.
\<close>

definition on_form :: "string \<Rightarrow> access \<Rightarrow> bool" where
  "on_form providerID s \<longleftrightarrow> (\<exists>d. draft_at providerID s = Obj d)"

inductive access_step :: "host \<Rightarrow> access \<Rightarrow> access \<Rightarrow> bool" for h where
  new_model: "access_step h s (model_changed configs s)"
| add: "access_step h s (addProvider h s)"
| type: "on_form providerID s \<Longrightarrow> key \<notin> {''roleMappings'', ''_dirty''} \<Longrightarrow> access_step h s (updateDraft providerID key (Str v) s)"
| name: "on_form new_id s \<Longrightarrow> access_step h s (type_id new_id v s)"
| edit_mapping: "on_form providerID s \<Longrightarrow> updateMapping providerID i key (Str v) s = Some s' \<Longrightarrow> access_step h s s'"
| more_mappings: "on_form providerID s \<Longrightarrow> addMapping providerID s = Some s' \<Longrightarrow> access_step h s s'"
| fewer_mappings: "on_form providerID s \<Longrightarrow> removeMapping providerID i s = Some s' \<Longrightarrow> access_step h s s'"
| save: "on_form providerID s \<Longrightarrow> access_step h s (fst (saveProvider_begin h thrown configs providerID s))"
| saved: "on_form providerID s \<or> providerID = new_id \<Longrightarrow> access_step h s (fst (saveProvider_end h providerID r s))"
| validate: "on_form providerID s \<Longrightarrow> access_step h s (fst (validateProvider_begin h thrown configs providerID s))"
| validated: "on_form providerID s \<or> providerID = new_id \<Longrightarrow> access_step h s (fst (validateProvider_saved h providerID r s))"
| preflight: "access_step h s (validateProvider_end h thrown r s)"
| remove: "on_form providerID s \<Longrightarrow> access_step h s (fst (removeProvider_begin agreed providerID s))"
| removed: "access_step h s (fst (removeProvider_end h r s))"
| idle: "access_step h s (provider_reloaded s)"

text \<open>What the handlers of the rows need: a draft whose mappings are a list of objects.\<close>

definition is_row :: "jsval \<Rightarrow> bool" where
  "is_row v \<longleftrightarrow> (case v of Obj _ \<Rightarrow> True | _ \<Rightarrow> False)"

definition draft_ok :: "jsval \<Rightarrow> bool" where
  "draft_ok v \<longleftrightarrow> (\<exists>d xs. v = Obj d \<and> fld d ''roleMappings'' = Arr xs \<and> (\<forall>x\<in>set xs. is_row x))"

definition drafts_ok :: "access \<Rightarrow> bool" where
  "drafts_ok s \<longleftrightarrow> (ac_newDraft s = Null \<or> draft_ok (ac_newDraft s)) \<and> (\<forall>(k, v)\<in>set (ac_drafts s). draft_ok v) \<and>
     wf_obj (ac_drafts s)"

lemma drafts_ok_at: "drafts_ok s \<Longrightarrow> on_form providerID s \<Longrightarrow> draft_ok (draft_at providerID s)"
proof -
  assume ok: "drafts_ok s" and "on_form providerID s"
  then obtain d where d: "draft_at providerID s = Obj d" by (auto simp: on_form_def)
  show ?thesis
  proof (cases "providerID = new_id")
    case True
    then show ?thesis using ok d by (auto simp: drafts_ok_def draft_at_def)
  next
    case False
    then have "map_of (ac_drafts s) providerID = Some (Obj d)"
      using d by (auto simp: draft_at_def fld_def split: option.splits if_splits)
    then show ?thesis using ok d map_of_SomeD by (fastforce simp: drafts_ok_def)
  qed
qed

lemma drafts_ok_put: "drafts_ok s \<Longrightarrow> draft_ok v \<Longrightarrow> drafts_ok (put_draft providerID v s)"
proof (cases "providerID = new_id")
  case False
  assume ok: "drafts_ok s" "draft_ok v"
  have "draft_ok w" if "(k, w) \<in> set (obj_put providerID v (ac_drafts s))" for k w
  proof -
    have "distinct (map fst (obj_put providerID v (ac_drafts s)))"
      using ok(1) wf_obj_put [of "ac_drafts s"] by (simp add: drafts_ok_def wf_obj_def)
    then have "map_of (obj_put providerID v (ac_drafts s)) k = Some w" using that by (rule map_of_is_SomeI)
    then have "w = v \<or> map_of (ac_drafts s) k = Some w" by (auto split: if_splits)
    then show ?thesis using ok map_of_SomeD by (fastforce simp: drafts_ok_def)
  qed
  then show ?thesis using ok False by (auto simp: drafts_ok_def put_draft_def)
qed (auto simp: drafts_ok_def put_draft_def)

lemma draft_ok_put: "draft_ok v \<Longrightarrow> key \<noteq> ''roleMappings'' \<Longrightarrow> draft_ok (Obj (obj_put key w (own_entries v)))"
  by (auto simp: draft_ok_def fld_obj_put)

lemma draft_ok_rows: "\<forall>x\<in>set xs. is_row x \<Longrightarrow> draft_ok (Obj (obj_put ''roleMappings'' (Arr xs) ob))"
  by (auto simp: draft_ok_def fld_obj_put)

lemma server_draft_ok: "draft_ok (server_draft p)"
  by (simp add: draft_ok_def server_draft_def fld_obj_put) (simp add: provider_object_def fld_def is_row_def)

lemma rows_of: "draft_ok v \<Longrightarrow> \<exists>xs. getx v ''roleMappings'' = Some (Arr xs) \<and> (\<forall>x\<in>set xs. is_row x)"
  by (auto simp: draft_ok_def getx_def nullish_def)

lemma list_or_Arr: "list_or (Arr xs) = Some xs" "items_or (Arr xs) = Some xs"
  by simp_all

lemma remove_at_subset: "set (remove_at i xs) \<subseteq> set xs"
  by (auto simp: remove_at_take_drop dest: in_set_takeD in_set_dropD)

lemma mapping_edits:
  assumes "draft_ok (draft_at providerID s)" "drafts_ok s"
  shows "\<exists>s'. updateMapping providerID i key v s = Some s' \<and> drafts_ok s'"
    "\<exists>s'. addMapping providerID s = Some s' \<and> drafts_ok s'"
    "\<exists>s'. removeMapping providerID i s = Some s' \<and> drafts_ok s'"
proof -
  obtain xs where xs: "getx (draft_at providerID s) ''roleMappings'' = Some (Arr xs)" "\<forall>x\<in>set xs. is_row x"
    using rows_of [OF assms(1)] by blast
  note ok = drafts_ok_put [OF assms(2) draft_ok_rows]
  have "\<forall>x\<in>set (xs[i := Obj ob]). is_row x" for ob
    using xs(2) set_update_subset_insert [of xs i "Obj ob"] by (auto simp: is_row_def)
  then show "\<exists>s'. updateMapping providerID i key v s = Some s' \<and> drafts_ok s'"
    using xs ok by (simp add: updateMapping_def list_or_Arr with_mappings_def)
  show "\<exists>s'. addMapping providerID s = Some s' \<and> drafts_ok s'"
    using xs ok by (auto simp: addMapping_def list_or_Arr with_mappings_def new_mapping_def is_row_def)
  show "\<exists>s'. removeMapping providerID i s = Some s' \<and> drafts_ok s'"
    using xs(1) ok [of "remove_at i xs"] remove_at_subset [of i xs] xs(2)
    by (auto simp: removeMapping_def list_or_Arr with_mappings_def subset_iff)
qed

lemma drafts_ok_update: "drafts_ok s \<Longrightarrow> on_form providerID s \<Longrightarrow> key \<noteq> ''roleMappings'' \<Longrightarrow> drafts_ok (updateDraft providerID key v s)"
  unfolding updateDraft_def
  using drafts_ok_at draft_ok_put [of "draft_at providerID s" key] draft_ok_put [of "Obj (obj_put key v (own_entries (draft_at providerID s)))" "''_dirty''"]
  by (auto intro: drafts_ok_put)

lemma drafts_ok_saved: "drafts_ok s \<Longrightarrow> on_form providerID s \<or> providerID = new_id \<Longrightarrow> drafts_ok (saved_draft providerID s)"
proof (cases "providerID = new_id")
  case False
  assume ok: "drafts_ok s" "on_form providerID s \<or> providerID = new_id"
  then have "draft_ok (draft_at providerID s)" using False drafts_ok_at by blast
  then show ?thesis using False drafts_ok_put [OF ok(1)] draft_ok_put by (simp add: saved_draft_def)
qed (simp add: saved_draft_def drafts_ok_def)

lemma drafts_ok_model: "drafts_ok s \<Longrightarrow> drafts_ok (model_changed configs s)"
proof -
  assume ok: "drafts_ok s"
  have r: "draft_ok (reconciled (ac_drafts s) p)" for p
  proof (cases "truthy (get (fld (ac_drafts s) (pv_id p)) ''_dirty'')")
    case True
    then obtain v where "map_of (ac_drafts s) (pv_id p) = Some v"
      by (auto simp: fld_def object_prototype_def split: option.splits if_splits)
    then show ?thesis using ok True map_of_SomeD server_draft_ok by (fastforce simp: reconciled_def drafts_ok_def fld_def)
  qed (simp add: reconciled_def server_draft_ok)
  have "draft_ok v" if "(k, v) \<in> set (from_entries (map (\<lambda>p. (pv_id p, reconciled (ac_drafts s) p)) configs))" for k v
    using that r by (auto simp: set_from_entries dest!: map_of_SomeD)
  then show ?thesis using ok by (auto simp: drafts_ok_def model_changed_def)
qed

lemma notice_ok [simp]: "drafts_ok (s\<lparr>ac_notice := n\<rparr>) = drafts_ok s" "drafts_ok (s\<lparr>ac_busyProvider := b\<rparr>) = drafts_ok s"
    "on_form providerID (s\<lparr>ac_notice := n\<rparr>) = on_form providerID s"
  by (simp_all add: drafts_ok_def on_form_def draft_at_def)

lemma access_step_ok: "access_step h s s' \<Longrightarrow> drafts_ok s \<Longrightarrow> drafts_ok s'"
proof (induction rule: access_step.induct)
  case (add s)
  then show ?case by (auto simp: drafts_ok_def addProvider_def draft_ok_def fld_def new_mapping_def is_row_def)
next
  case (edit_mapping providerID s i key v s')
  then show ?case using mapping_edits(1) [OF drafts_ok_at, of s providerID i key "Str v"] by auto
next
  case (more_mappings providerID s s')
  then show ?case using mapping_edits(2) [OF drafts_ok_at, of s providerID] by auto
next
  case (fewer_mappings providerID s i s')
  then show ?case using mapping_edits(3) [OF drafts_ok_at, of s providerID i] by auto
next
  case (remove providerID s agreed)
  then show ?case by (auto simp: removeProvider_begin_def drafts_ok_def)
next
  case (saved providerID s r)
  then show ?case by (auto simp: saveProvider_end_def split: sum.split intro!: drafts_ok_saved)
next
  case (validated providerID s r)
  then show ?case by (auto simp: validateProvider_saved_def provider_error_def split: sum.split intro!: drafts_ok_saved)
qed (auto simp: drafts_ok_model drafts_ok_update type_id_def saveProvider_begin_def validateProvider_begin_def provider_error_def
    validateProvider_end_def removeProvider_end_def provider_reloaded_def split: sum.split)

definition access_run :: "host \<Rightarrow> access \<Rightarrow> access \<Rightarrow> bool" where
  "access_run h = (access_step h)\<^sup>*\<^sup>*"

lemma reachable_ok:
  assumes "access_run h access_init s"
  shows "drafts_ok s"
  using assms [unfolded access_run_def]
proof (induction rule: rtranclp_induct)
  case base
  show ?case by (simp add: drafts_ok_def access_init_def wf_obj_def)
qed (rule access_step_ok)

text \<open>C37: Whatever is typed, saved, validated, removed or loaded, in any order, the form of a provider that is on
  the page can always be edited and read: its role mappings are a list of objects, so that none of the
  handlers of its rows raises, nor the request it sends.\<close>

theorem provider_forms_never_fail:
  assumes "access_run h access_init s" "on_form providerID s"
  shows "updateMapping providerID i key (Str v) s \<noteq> None \<and> addMapping providerID s \<noteq> None \<and>
    removeMapping providerID i s \<noteq> None \<and> configuredLocalRoles (draft_at providerID s) \<noteq> None \<and>
    validateProviderDraft (own_entries (draft_at providerID s)) \<noteq> None \<and>
    providerPayload (own_entries (draft_at providerID s)) \<noteq> None"
proof -
  have ok: "drafts_ok s" by (rule reachable_ok [OF assms(1)])
  note d = drafts_ok_at [OF ok assms(2)]
  then obtain ob xs where xs: "draft_at providerID s = Obj ob" "fld ob ''roleMappings'' = Arr xs" "\<forall>x\<in>set xs. is_row x"
    by (auto simp: draft_ok_def)
  have rows: "x \<in> set xs \<Longrightarrow> \<exists>m. x = Obj m" for x using xs(3) by (cases x) (auto simp: is_row_def)
  have "role_pair x \<noteq> None \<and> getx x ''localRole'' \<noteq> None" if "x \<in> set xs" for x
    using rows [OF that] by (auto simp: role_pair_def getx_def nullish_def)
  then have "map_opt role_pair xs \<noteq> None" and roles: "map_opt (\<lambda>mapping. getx mapping ''localRole'') xs \<noteq> None"
    by (auto simp only: map_opt_None)
  then have pairs: "roleMappingsPayload (Arr xs) \<noteq> None" by (auto simp: roleMappingsPayload_def)
  have "configuredLocalRoles (draft_at providerID s) \<noteq> None"
    using roles by (auto simp: configuredLocalRoles_def xs getx_def nullish_def list_or_Arr)
  moreover have "validateProviderDraft ob \<noteq> None" "providerPayload ob \<noteq> None"
    using pairs by (auto simp: validateProviderDraft_def providerPayload_def xs(2) Let_def)
  ultimately show ?thesis using mapping_edits [OF d ok] by (fastforce simp: xs(1))
qed

theorem provider_forms_never_fail_witness:
  "addMapping new_id (addProvider \<lparr>h_parse = \<lambda>_. None, h_print = \<lambda>_. None, h_pretty = \<lambda>_. [], h_t = id,
      h_syntax_error = id, h_null_error = id\<rparr> access_init) \<noteq> None"
proof -
  let ?h = "\<lparr>h_parse = \<lambda>_. None, h_print = \<lambda>_. None, h_pretty = \<lambda>_. [], h_t = id, h_syntax_error = id, h_null_error = id\<rparr>"
  have "access_run ?h access_init (addProvider ?h access_init)"
    unfolding access_run_def by (rule r_into_rtranclp) (rule access_step.add)
  moreover have "on_form new_id (addProvider ?h access_init)" by (simp add: on_form_def draft_at_def addProvider_def)
  ultimately show ?thesis by (rule provider_forms_never_fail [THEN conjunct2, THEN conjunct1])
qed

subsection \<open>What survives a save\<close>

lemma reconciled_at:
  assumes "p \<in> set configs" "distinct (map pv_id configs)" "pv_id p \<noteq> new_id"
  shows "draft_at (pv_id p) (model_changed configs s) = reconciled (ac_drafts s) p"
proof -
  let ?xs = "map (\<lambda>p. (pv_id p, reconciled (ac_drafts s) p)) configs"
  have "distinct (map fst (rev ?xs))" using assms(2) by (simp add: o_def rev_map [symmetric])
  then have "map_of (rev ?xs) (pv_id p) = Some (reconciled (ac_drafts s) p)" using assms(1) by (simp add: map_of_is_SomeI)
  then show ?thesis using assms(3) by (simp add: draft_at_def model_changed_def fld_def map_of_from_entries)
qed

lemma saved_is_clean:
  "providerID \<noteq> new_id \<Longrightarrow> \<not> truthy (get (fld (ac_drafts (saved_draft providerID s)) providerID) ''_dirty'')"
  by (simp add: saved_draft_def put_draft_def fld_obj_put)

text \<open>C17: What is typed in the form of a provider while its save is under way is lost: when the server accepts the
  save, the draft counts as saved with everything typed since, and the model that arrives next replaces
  it by what the server has.\<close>

theorem edits_during_a_save_are_lost:
  assumes "response_ok status" "provider \<in> set configs" "distinct (map pv_id configs)" "pv_id provider \<noteq> new_id"
  shows "draft_at (pv_id provider) (model_changed configs (fst (saveProvider_end h (pv_id provider) (Reply status body)
      (updateDraft (pv_id provider) key v s)))) = server_draft provider"
proof -
  obtain n where "fst (saveProvider_end h (pv_id provider) (Reply status body) (updateDraft (pv_id provider) key v s)) =
      saved_draft (pv_id provider) ((updateDraft (pv_id provider) key v s)\<lparr>ac_notice := n\<rparr>)"
    using assms(1) by (simp add: saveProvider_end_def reply_body_def)
  then show ?thesis
    using reconciled_at [OF assms(2-4)] saved_is_clean [OF assms(4)] by (simp add: reconciled_def)
qed

theorem edits_during_a_save_are_lost_witness:
  "\<forall>h. let p = normalizeProvider [] (Obj [(''id'', Str ''corp''), (''label'', Str ''Corp'')]) Undef;
       s = model_changed [p] access_init
   in fld (own_entries (draft_at ''corp'' (updateDraft ''corp'' ''label'' (Str ''New'') s))) ''label'' = Str ''New'' \<and>
      fld (own_entries (draft_at ''corp'' (model_changed [p] (fst (saveProvider_end h ''corp'' (Reply 200 [])
        (updateDraft ''corp'' ''label'' (Str ''New'') s)))))) ''label'' = Str ''Corp''"
  (is "\<forall>h. ?claim h")
proof
  fix h
  let ?p = "normalizeProvider [] (Obj [(''id'', Str ''corp''), (''label'', Str ''Corp'')]) Undef"
  have p: "pv_id ?p = ''corp''" "pv_label ?p = ''Corp''" by code_simp+
  have "response_ok 200" "?p \<in> set [?p]" "distinct (map pv_id [?p])" "pv_id ?p \<noteq> new_id"
    by (simp_all add: response_ok_def p new_id_def)
  note lost = edits_during_a_save_are_lost [OF this, unfolded p(1)]
  have "fld (own_entries (server_draft ?p)) ''label'' = Str ''Corp''"
    by (simp add: server_draft_def fld_obj_put) (simp add: provider_object_def fld_def p)
  then have "fld (own_entries (draft_at ''corp'' (model_changed [?p] (fst (saveProvider_end h ''corp'' (Reply 200 [])
      (updateDraft ''corp'' ''label'' (Str ''New'') (model_changed [?p] access_init))))))) ''label'' = Str ''Corp''"
    unfolding lost .
  moreover have "fld (own_entries (draft_at ''corp'' (updateDraft ''corp'' ''label'' (Str ''New'') s))) ''label'' = Str ''New''" for s
    by (simp add: updateDraft_def put_draft_def draft_at_def new_id_def fld_obj_put)
  ultimately show "?claim h" unfolding Let_def by blast
qed

subsection \<open>What a save sends\<close>

text \<open>C36: A save is sent only with a draft that has no error: the identifier has the form the server takes and,
  for a new provider, is not in use; the payload has a label and at least one role mapping, each with a
  role on both sides, and the entity or client that its protocol needs.\<close>

theorem saved_provider_is_complete:
  assumes "persist_begin h thrown configs providerID (Obj draft) = Inr (ident, payload)"
  shows "is_provider_id ident \<and> (if providerID = new_id then ident \<notin> pv_id ` set configs else ident = providerID) \<and>
    fld payload ''label'' \<noteq> Str [] \<and>
    (\<exists>mappings. fld payload ''roleMappings'' = Obj mappings \<and> mappings \<noteq> [] \<and>
      (\<forall>(external, local)\<in>set mappings. external \<noteq> [] \<and> local \<noteq> Str [])) \<and>
    (if fld draft ''protocol'' = Str ''SAML''
     then fld payload ''spEntityId'' \<noteq> Str [] \<and> (fld payload ''metadataUrl'' \<noteq> Str [] \<or> fld payload ''metadataXml'' \<noteq> Str [])
     else fld payload ''clientId'' \<noteq> Str [] \<and> fld payload ''userClaim'' \<noteq> Str [] \<and> fld payload ''roleClaim'' \<noteq> Str [])"
proof -
  obtain found where v: "validateProviderDraft draft = Some found" "id_errors h configs providerID ident @ found = []"
      "actual_id providerID draft = Some ident" "providerPayload draft = Some payload"
    using assms by (auto simp: persist_begin_def and_then_def or_thrown_def Let_def split: option.splits sum.splits if_splits)
  then have "validateProviderDraft draft = Some []" by simp
  note facts = valid_provider_draft_payload [OF this]
  have "is_provider_id ident \<and> (providerID = new_id \<longrightarrow> ident \<notin> pv_id ` set configs)"
    using v(2) by (auto simp: id_errors_def split: if_splits)
  moreover have "providerID \<noteq> new_id \<Longrightarrow> ident = providerID" using v(3) by (simp add: actual_id_def)
  ultimately show ?thesis using facts v(4) by fastforce
qed

theorem saved_provider_is_complete_witness:
  "\<forall>h. let draft = [(''id'', Str '' corp ''), (''protocol'', Str ''OIDC''), (''label'', Str ''SSO''), (''issuer'', Str ''https://idp''),
      (''clientId'', Str ''ui''), (''clientSecret'', Str ''s''), (''userClaim'', Str ''sub''), (''roleClaim'', Str ''roles''),
      (''roleMappings'', Arr [Obj [(''externalRole'', Str ''ops''), (''localRole'', Str ''viewer'')]])]
   in \<exists>payload. persist_begin h [] [] new_id (Obj draft) = Inr (''corp'', payload) \<and> is_provider_id ''corp'' \<and>
        fld payload ''label'' \<noteq> Str []"
  (is "\<forall>h. ?claim h")
proof
  fix h
  let ?d = "[(''id'', Str '' corp ''), (''protocol'', Str ''OIDC''), (''label'', Str ''SSO''), (''issuer'', Str ''https://idp''),
      (''clientId'', Str ''ui''), (''clientSecret'', Str ''s''), (''userClaim'', Str ''sub''), (''roleClaim'', Str ''roles''),
      (''roleMappings'', Arr [Obj [(''externalRole'', Str ''ops''), (''localRole'', Str ''viewer'')]])]"
  have "validateProviderDraft ?d = Some []" "actual_id new_id ?d = Some ''corp''" "is_provider_id ''corp''"
    by code_simp+
  moreover obtain payload where "providerPayload ?d = Some payload"
    using valid_provider_draft_payload calculation(1) by blast
  ultimately have "persist_begin h [] [] new_id (Obj ?d) = Inr (''corp'', payload)"
    by (simp add: persist_begin_def or_thrown_def id_errors_def)
  from saved_provider_is_complete [OF this] this show "?claim h" unfolding Let_def by blast
qed

end
