(* ===== verification/Users_View.thy ===== *)
theory Users_View
  imports Views_Base
begin

section \<open>The local users (\<open>UsersView\<close> of \<open>ui/src/main.jsx\<close>)\<close>

text \<open>
  The list of the users with its filters, the editor of one of them, and every handler of the page; the
  rules for the own account and for the root account are conditions of the handlers.
\<close>

record users_view =
  us_users :: "user_account list"
  us_roles :: jsval
  us_query :: string
  us_draft :: "jsobj option"
  us_creating :: bool
  us_busy :: bool
  us_notice :: string

definition users_init :: users_view where
  "users_init = \<lparr>us_users = [], us_roles = Obj [], us_query = [], us_draft = None, us_creating = False,
     us_busy = False, us_notice = []\<rparr>"

subsection \<open>Loading\<close>

definition loadUsers_begin :: "users_view \<Rightarrow> users_view" where
  "loadUsers_begin s = s\<lparr>us_busy := True\<rparr>"

text \<open>Both bodies are read before either status is looked at; the users are set before the roles are read.\<close>

definition users_of :: "jsval \<Rightarrow> user_account list option" where
  "users_of payload = do {
     v \<leftarrow> (if is_array payload then Some payload else map_option (\<lambda>u. js_or u (Arr [])) (getx payload ''users''));
     map_option (map normalizeUser) (receiver v) }"

definition loadUsers_read :: "host \<Rightarrow> string \<Rightarrow> reply \<Rightarrow> reply \<Rightarrow> string + (jsval \<times> jsval)" where
  "loadUsers_read h thrown users roles =
     (case (users, roles) of
        (Reply _ _, Unreachable message) \<Rightarrow> Inl message
      | _ \<Rightarrow>
          and_then (reply_body (h_t h ''No se pudieron cargar los usuarios.'') users) (\<lambda>usersBody.
          and_then (reply_body (h_t h ''No se pudieron cargar los roles.'') roles) (\<lambda>rolesBody.
          and_then (parse_body h (Arr []) usersBody) (\<lambda>usersPayload.
          and_then (parse_body h (Obj []) rolesBody) (\<lambda>rolesPayload. Inr (usersPayload, rolesPayload))))))"

definition loadUsers_end :: "host \<Rightarrow> string \<Rightarrow> reply \<Rightarrow> reply \<Rightarrow> users_view \<Rightarrow> users_view" where
  "loadUsers_end h thrown users roles s =
     (let failed = (\<lambda>message s. s\<lparr>us_notice := labelled h (''No se pudo cargar la gesti'' @ [CHR 0xF3] @ ''n de usuarios'') message, us_busy := False\<rparr>) in
      case loadUsers_read h thrown users roles of
        Inl message \<Rightarrow> failed message s
      | Inr (usersPayload, rolesPayload) \<Rightarrow>
          (case users_of usersPayload of
             None \<Rightarrow> failed thrown s
           | Some us \<Rightarrow>
               (case getx rolesPayload ''roles'' of
                  None \<Rightarrow> failed thrown (s\<lparr>us_users := us\<rparr>)
                | Some v \<Rightarrow> s\<lparr>us_users := us, us_roles := js_or v rolesPayload, us_busy := False\<rparr>)))"

subsection \<open>What is shown\<close>

definition user_text :: "user_account \<Rightarrow> string option" where
  "user_text u = map_option (\<lambda>roles. js_lower (ua_username u @ '' '' @ ua_firstName u @ '' '' @ ua_lastName u @ '' '' @
       ua_email u @ '' '' @ roles)) (map_option (join_vals '' '') (receiver (ua_roles u)))"

definition visibleUsers :: "users_view \<Rightarrow> user_account list option" where
  "visibleUsers s =
     filter_opt (\<lambda>u. map_option (\<lambda>txt. js_includes txt (js_lower (js_trim (us_query s)))) (user_text u)) (us_users s)"

text \<open>The roles the form offers, each with whether the signed-in user may assign it.\<close>

definition role_option :: "jsval \<Rightarrow> (jsval \<times> bool) option" where
  "role_option role =
     (case role of
        Str r \<Rightarrow> Some (Str r, True)
      | _ \<Rightarrow> do {
          ident \<leftarrow> getx role ''id'';
          name \<leftarrow> getx role ''name'';
          Some (js_or ident name, get role ''assignable'' \<noteq> Bool False) })"

definition roleOptions :: "users_view \<Rightarrow> (jsval \<times> bool) list option" where
  "roleOptions s =
     (case us_roles s of
        Arr xs \<Rightarrow> map_option (filter (\<lambda>(ident, _). truthy ident)) (map_opt role_option xs)
      | v \<Rightarrow> if nullish v then None else Some (map (\<lambda>(k, _). (Str k, True)) (own_entries v)))"

definition role_assignable :: "(jsval \<times> bool) list \<Rightarrow> jsval \<Rightarrow> bool" where
  "role_assignable offered role = (case find (\<lambda>(ident, _). strict_eq ident role) offered of Some (_, b) \<Rightarrow> b | None \<Rightarrow> True)"

definition canEditUser :: "users_view \<Rightarrow> user_account \<Rightarrow> bool option" where
  "canEditUser s u =
     (if ua_root u then Some False
      else do {
        roles \<leftarrow> receiver (ua_roles u);
        offered \<leftarrow> (if roles = [] then Some [] else roleOptions s);
        Some (\<forall>role\<in>set roles. role_assignable offered role) })"

definition currentUsername :: "jsval \<Rightarrow> jsval" where
  "currentUsername identity = js_or (js_or (get identity ''username'') (get identity ''Username'')) (Str [])"

text \<open>The buttons of a row.\<close>

definition can_deactivate :: "jsval \<Rightarrow> users_view \<Rightarrow> user_account \<Rightarrow> bool" where
  "can_deactivate identity s u \<longleftrightarrow>
     \<not> (ua_root u \<or> Str (ua_username u) = currentUsername identity \<or> \<not> ua_active u \<or> us_busy s)"

definition can_recover :: "users_view \<Rightarrow> user_account \<Rightarrow> bool" where
  "can_recover s u \<longleftrightarrow> \<not> (ua_root u \<or> ua_email u = [] \<or> us_busy s)"

subsection \<open>Editing\<close>

definition blank_user :: jsobj where
  "blank_user = [(''username'', Str []), (''firstName'', Str []), (''lastName'', Str []), (''email'', Str []),
     (''roles'', Arr [Str ''viewer'']), (''active'', Bool True), (''password'', Str [])]"

definition startCreate :: "users_view \<Rightarrow> users_view" where
  "startCreate s = s\<lparr>us_creating := True, us_draft := Some blank_user, us_notice := []\<rparr>"

definition startEdit :: "user_account \<Rightarrow> users_view \<Rightarrow> users_view" where
  "startEdit u s = s\<lparr>us_draft := Some (user_object u), us_creating := False\<rparr>"

definition cancelEdit :: "users_view \<Rightarrow> users_view" where
  "cancelEdit s = s\<lparr>us_draft := None, us_creating := False\<rparr>"

definition edit_draft :: "(jsobj \<Rightarrow> jsobj) \<Rightarrow> users_view \<Rightarrow> users_view" where
  "edit_draft f s = s\<lparr>us_draft := map_option f (us_draft s)\<rparr>"

definition type_username :: "string \<Rightarrow> users_view \<Rightarrow> users_view" where
  "type_username v = edit_draft (obj_put ''username'' (Str (js_lower v)))"

definition type_user :: "string \<Rightarrow> string \<Rightarrow> users_view \<Rightarrow> users_view" where
  "type_user key v = edit_draft (obj_put key (Str v))"

definition toggleRole :: "bool \<Rightarrow> jsval \<Rightarrow> users_view \<Rightarrow> users_view option" where
  "toggleRole checked role s =
     (case us_draft s of
        None \<Rightarrow> None
      | Some d \<Rightarrow> do {
          roles \<leftarrow> (if checked then map_option (\<lambda>xs. xs @ [role]) (iterate (fld d ''roles''))
             else map_option (filter (\<lambda>r. \<not> strict_eq r role)) (receiver (fld d ''roles'')));
          Some (s\<lparr>us_draft := Some (obj_put ''roles'' (Arr roles) d)\<rparr>) })"

definition toggleActive :: "bool \<Rightarrow> users_view \<Rightarrow> users_view" where
  "toggleActive checked = edit_draft (obj_put ''active'' (Bool checked))"

text \<open>The check box of the account answers unless it is the root account or that of the user.\<close>

definition can_toggle_active :: "jsval \<Rightarrow> jsobj \<Rightarrow> bool" where
  "can_toggle_active identity d \<longleftrightarrow> \<not> truthy (fld d ''root'') \<and> \<not> strict_eq (fld d ''username'') (currentUsername identity)"

subsection \<open>Requests\<close>

definition user_path :: "string \<Rightarrow> string" where
  "user_path username = ''/api/auth/users/'' @ encode_uri_component username"

text \<open>The request is the payload, and whether it creates the user.\<close>

definition saveUser_begin :: "host \<Rightarrow> jsobj \<Rightarrow> users_view \<Rightarrow> users_view \<times> (user_payload \<times> bool) option" where
  "saveUser_begin h d s =
     (let errors = validateUser d (us_creating s) in
      if errors \<noteq> [] then (s\<lparr>us_notice := error_line h errors\<rparr>, None)
      else (s\<lparr>us_busy := True, us_notice := []\<rparr>, Some (userPayload d (us_creating s), us_creating s)))"

definition saveUser_endpoint :: "user_payload \<times> bool \<Rightarrow> string" where
  "saveUser_endpoint request = (if snd request then ''/api/auth/users'' else user_path (up_username (fst request)))"

text \<open>The result says whether the users are loaded again, which ends the request.\<close>

definition saveUser_end :: "host \<Rightarrow> bool \<Rightarrow> reply \<Rightarrow> users_view \<Rightarrow> users_view \<times> bool" where
  "saveUser_end h created r s =
     (case reply_body (h_t h ''No se pudo guardar el usuario.'') r of
        Inl message \<Rightarrow> (s\<lparr>us_notice := labelled h ''No se pudo guardar el usuario'' message, us_busy := False\<rparr>, False)
      | Inr _ \<Rightarrow> (loadUsers_begin (s\<lparr>us_draft := None, us_creating := False,
          us_notice := h_t h (if created then ''Usuario creado.'' else ''Usuario actualizado.'')\<rparr>), True))"

definition removeUser_begin :: "bool \<Rightarrow> user_account \<Rightarrow> users_view \<Rightarrow> users_view \<times> string option" where
  "removeUser_begin agreed u s =
     (if \<not> agreed then (s, None) else (s\<lparr>us_busy := True\<rparr>, Some (user_path (ua_username u))))"

definition removeUser_question :: "host \<Rightarrow> user_account \<Rightarrow> string" where
  "removeUser_question h u = t_with h ([CHR 0xBF] @ ''Desactivar al usuario {username}?'') [(''username'', Str (ua_username u))]"

definition removeUser_end :: "host \<Rightarrow> reply \<Rightarrow> users_view \<Rightarrow> users_view \<times> bool" where
  "removeUser_end h r s =
     (case reply_body (h_t h ''No se pudo eliminar el usuario.'') r of
        Inl message \<Rightarrow> (s\<lparr>us_notice := labelled h ''No se pudo desactivar el usuario'' message, us_busy := False\<rparr>, False)
      | Inr _ \<Rightarrow> (loadUsers_begin (s\<lparr>us_notice := h_t h ''Usuario desactivado.''\<rparr>), True))"

definition requestPasswordReset_begin :: "user_account \<Rightarrow> users_view \<Rightarrow> users_view \<times> string" where
  "requestPasswordReset_begin u s = (s\<lparr>us_busy := True\<rparr>, user_path (ua_username u) @ ''/password-reset'')"

definition requestPasswordReset_end :: "host \<Rightarrow> user_account \<Rightarrow> reply \<Rightarrow> users_view \<Rightarrow> users_view" where
  "requestPasswordReset_end h u r s =
     (case reply_body (h_t h (''No se pudo generar la recuperaci'' @ [CHR 0xF3] @ ''n.'')) r of
        Inl message \<Rightarrow> s\<lparr>us_notice := labelled h (''No se pudo solicitar la recuperaci'' @ [CHR 0xF3] @ ''n'') message, us_busy := False\<rparr>
      | Inr _ \<Rightarrow> s\<lparr>us_notice := t_with h
          (''Si {username} tiene un correo v'' @ [CHR 0xE1] @ ''lido y el env'' @ [CHR 0xED] @ ''o est'' @ [CHR 0xE1] @ '' habilitado, recibir'' @ [CHR 0xE1] @ '' el enlace de recuperaci'' @ [CHR 0xF3] @ ''n.'')
          [(''username'', Str (ua_username u))], us_busy := False\<rparr>)"

declare users_init_def [js_eval] loadUsers_begin_def [js_eval] users_of_def [js_eval] loadUsers_read_def [js_eval]
  loadUsers_end_def [js_eval] user_text_def [js_eval] visibleUsers_def [js_eval]
  role_option_def [js_eval] roleOptions_def [js_eval] role_assignable_def [js_eval] canEditUser_def [js_eval]
  currentUsername_def [js_eval] can_deactivate_def [js_eval] can_recover_def [js_eval] blank_user_def [js_eval]
  startCreate_def [js_eval] startEdit_def [js_eval] cancelEdit_def [js_eval] edit_draft_def [js_eval]
  type_username_def [js_eval] type_user_def [js_eval] toggleRole_def [js_eval] toggleActive_def [js_eval]
  can_toggle_active_def [js_eval] user_path_def [js_eval] saveUser_begin_def [js_eval] saveUser_endpoint_def [js_eval]
  saveUser_end_def [js_eval] removeUser_begin_def [js_eval] removeUser_question_def [js_eval]
  removeUser_end_def [js_eval] requestPasswordReset_begin_def [js_eval] requestPasswordReset_end_def [js_eval]

end
