(* ===== verification/Users_Props.thy ===== *)
theory Users_Props
  imports Users_View
begin

section \<open>What the users view can do to an account\<close>

text \<open>
  The view as a transition system. The identity of the signed-in user is fixed. Ghost fields record the
  accounts that the server reported, the requests that were sent and the accounts whose removal was
  asked for. A control acts only where the page shows it enabled; replies come in any order.
\<close>

record users_world =
  uw_view :: users_view
  uw_reported :: "user_account set"
  uw_saved :: "(user_payload \<times> bool) list"
  uw_removed :: "user_account list"

definition world_init :: users_world where
  "world_init = \<lparr>uw_view = users_init, uw_reported = {}, uw_saved = [], uw_removed = []\<rparr>"

definition seen :: "users_view \<Rightarrow> users_world \<Rightarrow> users_world" where
  "seen s w = w\<lparr>uw_view := s, uw_reported := uw_reported w \<union> set (us_users s)\<rparr>"

definition is_field :: "string \<Rightarrow> bool" where
  "is_field key \<longleftrightarrow> key \<in> {''firstName'', ''lastName'', ''email'', ''password''}"

inductive users_step :: "host \<Rightarrow> jsval \<Rightarrow> users_world \<Rightarrow> users_world \<Rightarrow> bool" for h identity where
  load: "users_step h identity w (seen (loadUsers_begin (uw_view w)) w)"
| loaded: "users_step h identity w (seen (loadUsers_end h thrown users roles (uw_view w)) w)"
| query: "users_step h identity w (seen (uw_view w\<lparr>us_query := q\<rparr>) w)"
| create: "\<not> us_busy (uw_view w) \<Longrightarrow> \<not> us_creating (uw_view w) \<Longrightarrow> users_step h identity w (seen (startCreate (uw_view w)) w)"
| edit: "u \<in> set (us_users (uw_view w)) \<Longrightarrow> canEditUser (uw_view w) u = Some True \<Longrightarrow>
    users_step h identity w (seen (startEdit u (uw_view w)) w)"
| cancel: "users_step h identity w (seen (cancelEdit (uw_view w)) w)"
| username: "us_creating (uw_view w) \<Longrightarrow> users_step h identity w (seen (type_username v (uw_view w)) w)"
| type: "is_field key \<Longrightarrow> users_step h identity w (seen (type_user key v (uw_view w)) w)"
| role: "toggleRole checked r (uw_view w) = Some s \<Longrightarrow> users_step h identity w (seen s w)"
| active: "us_draft (uw_view w) = Some d \<Longrightarrow> can_toggle_active identity d \<Longrightarrow>
    users_step h identity w (seen (toggleActive checked (uw_view w)) w)"
| save: "us_draft (uw_view w) = Some d \<Longrightarrow> \<not> us_busy (uw_view w) \<Longrightarrow> saveUser_begin h d (uw_view w) = (s, Some request) \<Longrightarrow>
    users_step h identity w (seen s w\<lparr>uw_saved := request # uw_saved w\<rparr>)"
| refused: "us_draft (uw_view w) = Some d \<Longrightarrow> saveUser_begin h d (uw_view w) = (s, None) \<Longrightarrow> users_step h identity w (seen s w)"
| saved: "users_step h identity w (seen (fst (saveUser_end h created r (uw_view w))) w)"
| remove: "u \<in> set (us_users (uw_view w)) \<Longrightarrow> can_deactivate identity (uw_view w) u \<Longrightarrow>
    removeUser_begin agreed u (uw_view w) = (s, Some endpoint) \<Longrightarrow>
    users_step h identity w (seen s w\<lparr>uw_removed := u # uw_removed w\<rparr>)"
| removed: "users_step h identity w (seen (fst (removeUser_end h r (uw_view w))) w)"
| recover: "u \<in> set (us_users (uw_view w)) \<Longrightarrow> can_recover (uw_view w) u \<Longrightarrow>
    users_step h identity w (seen (fst (requestPasswordReset_begin u (uw_view w))) w)"
| recovered: "users_step h identity w (seen (requestPasswordReset_end h u r (uw_view w)) w)"

definition users_run :: "host \<Rightarrow> jsval \<Rightarrow> users_world \<Rightarrow> users_world \<Rightarrow> bool" where
  "users_run h identity = (users_step h identity)\<^sup>*\<^sup>*"

lemma two_steps: "users_step h identity a b \<Longrightarrow> users_step h identity b c \<Longrightarrow> users_run h identity a c"
  unfolding users_run_def by (meson r_into_rtranclp rtranclp.rtrancl_into_rtrancl)

subsection \<open>The account a draft edits\<close>

text \<open>A draft of an existing account keeps its name; the account of the user keeps its state.\<close>

definition edits :: "jsval \<Rightarrow> user_account \<Rightarrow> jsobj \<Rightarrow> bool" where
  "edits identity u d \<longleftrightarrow> \<not> ua_root u \<and> fld d ''username'' = Str (ua_username u) \<and> fld d ''root'' = Bool False \<and>
     (Str (ua_username u) = currentUsername identity \<longrightarrow> fld d ''active'' = Bool (ua_active u))"

definition sound_draft :: "jsval \<Rightarrow> user_account set \<Rightarrow> users_view \<Rightarrow> bool" where
  "sound_draft identity reported s \<longleftrightarrow>
     (case us_draft s of None \<Rightarrow> True | Some d \<Rightarrow> us_creating s \<or> (\<exists>u\<in>reported. edits identity u d))"

definition harmless :: "jsval \<Rightarrow> user_account set \<Rightarrow> user_payload \<times> bool \<Rightarrow> bool" where
  "harmless identity reported request \<longleftrightarrow> snd request \<or>
     (\<exists>u\<in>reported. \<not> ua_root u \<and> up_username (fst request) = js_lower (js_trim (ua_username u)) \<and>
       (Str (ua_username u) = currentUsername identity \<longrightarrow> up_active (fst request) = ua_active u))"

definition users_inv :: "jsval \<Rightarrow> users_world \<Rightarrow> bool" where
  "users_inv identity w \<longleftrightarrow> set (us_users (uw_view w)) \<subseteq> uw_reported w \<and> sound_draft identity (uw_reported w) (uw_view w) \<and>
     list_all (harmless identity (uw_reported w)) (uw_saved w) \<and>
     list_all (\<lambda>u. u \<in> uw_reported w \<and> \<not> ua_root u \<and> Str (ua_username u) \<noteq> currentUsername identity) (uw_removed w)"

lemma harmless_mono: "harmless identity A request \<Longrightarrow> A \<subseteq> B \<Longrightarrow> harmless identity B request"
  by (auto simp: harmless_def)

lemma seen_simps [simp]: "uw_view (seen s w) = s" "uw_saved (seen s w) = uw_saved w" "uw_removed (seen s w) = uw_removed w"
    "uw_reported (seen s w) = uw_reported w \<union> set (us_users s)"
  by (simp_all add: seen_def)

lemma seen_inv:
  assumes "users_inv identity w"
    "us_draft s = None \<or> us_creating s \<or> (\<exists>d u. us_draft s = Some d \<and> u \<in> uw_reported w \<and> edits identity u d)"
  shows "users_inv identity (seen s w)"
proof -
  have "list_all (harmless identity (uw_reported w \<union> set (us_users s))) (uw_saved w)"
    using assms(1) harmless_mono by (fastforce simp: users_inv_def list_all_iff)
  moreover have "sound_draft identity (uw_reported w \<union> set (us_users s)) s"
    using assms(2) by (auto simp: sound_draft_def split: option.split)
  ultimately show ?thesis using assms(1) by (auto simp: users_inv_def list_all_iff)
qed

lemma seen_same_draft: "users_inv identity w \<Longrightarrow> us_draft s = us_draft (uw_view w) \<Longrightarrow>
    us_creating s = us_creating (uw_view w) \<Longrightarrow> users_inv identity (seen s w)"
  by (rule seen_inv) (auto simp: users_inv_def sound_draft_def split: option.splits)

text \<open>Editing a draft: the edit keeps the account it is about.\<close>

lemma seen_edit:
  assumes "users_inv identity w" "us_draft s = map_option f (us_draft (uw_view w))" "us_creating s = us_creating (uw_view w)"
    and "\<And>u d. us_draft (uw_view w) = Some d \<Longrightarrow> \<not> us_creating (uw_view w) \<Longrightarrow> edits identity u d \<Longrightarrow> edits identity u (f d)"
  shows "users_inv identity (seen s w)"
  by (rule seen_inv [OF assms(1)]) (use assms in \<open>auto simp: users_inv_def sound_draft_def split: option.splits\<close>)

lemma edits_put: "key \<notin> {''username'', ''root'', ''active''} \<Longrightarrow> edits identity u (obj_put key v d) = edits identity u d"
  by (auto simp: edits_def fld_obj_put)

lemma edits_active: "edits identity u d \<Longrightarrow> can_toggle_active identity d \<Longrightarrow> edits identity u (obj_put ''active'' v d)"
  by (auto simp: edits_def can_toggle_active_def fld_obj_put)

lemma edits_user: "\<not> ua_root u \<Longrightarrow> edits identity u (user_object u)"
  by (simp add: edits_def user_object_def fld_def)

lemma harmless_save:
  assumes "edits identity u d" "u \<in> reported"
  shows "harmless identity reported (userPayload d False, False)"
  using assms by (auto simp: harmless_def edits_def userPayload_def trimmed_def)

lemma seen_record [simp]: "uw_view (seen s w\<lparr>uw_saved := x\<rparr>) = s" "uw_reported (seen s w\<lparr>uw_saved := x\<rparr>) = uw_reported w \<union> set (us_users s)"
    "uw_removed (seen s w\<lparr>uw_saved := x\<rparr>) = uw_removed w"
    "uw_view (seen s w\<lparr>uw_removed := y\<rparr>) = s" "uw_reported (seen s w\<lparr>uw_removed := y\<rparr>) = uw_reported w \<union> set (us_users s)"
    "uw_saved (seen s w\<lparr>uw_removed := y\<rparr>) = uw_saved w"
  by simp_all

lemma add_saved: "users_inv identity (seen s w) \<Longrightarrow> harmless identity (uw_reported w \<union> set (us_users s)) x \<Longrightarrow>
    users_inv identity (seen s w\<lparr>uw_saved := x # uw_saved w\<rparr>)"
  by (simp add: users_inv_def)

lemma add_removed: "users_inv identity (seen s w) \<Longrightarrow> u \<in> uw_reported w \<Longrightarrow> \<not> ua_root u \<Longrightarrow>
    Str (ua_username u) \<noteq> currentUsername identity \<Longrightarrow> users_inv identity (seen s w\<lparr>uw_removed := u # uw_removed w\<rparr>)"
  by (simp add: users_inv_def)

lemma canEditUser_not_root: "canEditUser s u = Some True \<Longrightarrow> \<not> ua_root u"
  by (auto simp: canEditUser_def split: if_splits)

lemma users_step_inv: "users_step h identity w w' \<Longrightarrow> users_inv identity w \<Longrightarrow> users_inv identity w'"
proof (induction rule: users_step.induct)
  case (loaded w thrown users roles)
  then show ?case by (intro seen_same_draft) (auto simp: loadUsers_end_def Let_def split: sum.splits option.splits prod.splits)
next
  case (edit u w)
  have "u \<in> uw_reported w" using edit(1,3) by (auto simp: users_inv_def)
  then show ?case using edits_user [OF canEditUser_not_root [OF edit(2)]] by (intro seen_inv [OF edit(3)]) (auto simp: startEdit_def)
next
  case (username w v)
  then show ?case by (intro seen_inv) (auto simp: type_username_def edit_draft_def)
next
  case (type key w v)
  then show ?case by (intro seen_edit [where f = "obj_put key (Str v)"])
    (auto simp: type_user_def edit_draft_def is_field_def edits_put)
next
  case (role checked r w s)
  then obtain d xs where "us_draft (uw_view w) = Some d" "s = uw_view w\<lparr>us_draft := Some (obj_put ''roles'' (Arr xs) d)\<rparr>"
    by (auto simp: toggleRole_def bind_eq_Some_conv split: option.splits)
  then show ?case by (intro seen_edit [OF role(2), where f = "obj_put ''roles'' (Arr xs)"]) (auto simp: edits_put)
next
  case (active w d checked)
  then show ?case by (intro seen_edit [where f = "obj_put ''active'' (Bool checked)"])
    (auto simp: toggleActive_def edit_draft_def edits_active)
next
  case (save w d s request)
  have s: "s = uw_view w\<lparr>us_busy := True, us_notice := []\<rparr>" "request = (userPayload d (us_creating (uw_view w)), us_creating (uw_view w))"
    using save(3) by (auto simp: saveUser_begin_def Let_def split: if_splits)
  have "harmless identity (uw_reported w \<union> set (us_users s)) request"
  proof (cases "us_creating (uw_view w)")
    case False
    then obtain u where "u \<in> uw_reported w" "edits identity u d"
      using save(1,4) by (auto simp: users_inv_def sound_draft_def)
    then show ?thesis using harmless_save [of identity u d] False s(2) by simp
  qed (simp add: harmless_def s(2))
  then show ?case using s(1) save(4) by (intro add_saved seen_same_draft) simp_all
next
  case (refused w d s)
  then show ?case by (intro seen_same_draft) (auto simp: saveUser_begin_def Let_def split: if_splits)
next
  case (saved w created r)
  then show ?case by (intro seen_inv) (auto simp: saveUser_end_def loadUsers_begin_def users_inv_def sound_draft_def split: sum.split option.splits)
next
  case (remove u w agreed s endpoint)
  have "s = uw_view w\<lparr>us_busy := True\<rparr>" using remove(3) by (auto simp: removeUser_begin_def split: if_splits)
  then show ?case using remove(1,2,4)
    by (intro add_removed seen_same_draft) (auto simp: can_deactivate_def users_inv_def)
next
  case (removed w r)
  then show ?case by (intro seen_same_draft) (auto simp: removeUser_end_def loadUsers_begin_def split: sum.split)
next
  case (recovered w u r)
  then show ?case by (intro seen_same_draft) (auto simp: requestPasswordReset_end_def split: sum.split)
qed (auto intro: seen_same_draft seen_inv simp: loadUsers_begin_def startCreate_def cancelEdit_def requestPasswordReset_begin_def)

text \<open>C8: However the users view is used, whatever the server answers and in whatever order, no request changes the
  root account or takes the user's own account out of service: every update is of an account the server
  reported that is not the root account, it leaves the user's own account as active as it was reported,
  and every removal is of an account that is neither of them.\<close>

theorem own_and_root_accounts_are_kept:
  assumes "users_run h identity world_init w"
  shows "(\<forall>(payload, created)\<in>set (uw_saved w). created \<or>
      (\<exists>u\<in>uw_reported w. \<not> ua_root u \<and> up_username payload = js_lower (js_trim (ua_username u)) \<and>
        (Str (ua_username u) = currentUsername identity \<longrightarrow> up_active payload = ua_active u))) \<and>
    (\<forall>u\<in>set (uw_removed w). u \<in> uw_reported w \<and> \<not> ua_root u \<and> Str (ua_username u) \<noteq> currentUsername identity)"
proof -
  have "users_inv identity w"
    using assms [unfolded users_run_def]
  proof (induction rule: rtranclp_induct)
    case base
    show ?case by (simp add: users_inv_def world_init_def users_init_def sound_draft_def)
  qed (rule users_step_inv)
  then show ?thesis by (simp add: users_inv_def list_all_iff harmless_def case_prod_unfold)
qed

theorem own_and_root_accounts_are_kept_witness:
  "\<exists>h w u. users_run h (Obj [(''username'', Str ''admin'')]) world_init w \<and> uw_removed w = [u] \<and>
     ua_username u = ''ana'' \<and> \<not> ua_root u"
proof -
  let ?data = "Arr [Obj [(''username'', Str ''ana''), (''roles'', Arr [Str ''viewer''])]]"
  let ?h = "\<lparr>h_parse = \<lambda>s. if s = ''U'' then Some ?data else Some (Obj []), h_print = \<lambda>_. None, h_pretty = \<lambda>_. [],
      h_t = id, h_syntax_error = id, h_null_error = id\<rparr>"
  let ?me = "Obj [(''username'', Str ''admin'')]"
  let ?s = "loadUsers_end ?h [] (Reply 200 ''U'') (Reply 200 ''R'') users_init"
  let ?u = "normalizeUser (Obj [(''username'', Str ''ana''), (''roles'', Arr [Str ''viewer''])])"
  have s: "?s = users_init\<lparr>us_users := [?u]\<rparr>"
    by (simp add: loadUsers_end_def loadUsers_read_def reply_body_def parse_body_def response_ok_def users_of_def Let_def
        getx_def nullish_def fld_def js_or_def users_init_def object_prototype_def)
  have u: "ua_username ?u = ''ana''" "\<not> ua_root ?u" "ua_active ?u" by code_simp+
  have me: "currentUsername ?me = Str ''admin''" by code_simp
  let ?w = "seen ?s world_init"
  let ?w' = "seen (?s\<lparr>us_busy := True\<rparr>) ?w\<lparr>uw_removed := ?u # uw_removed ?w\<rparr>"
  have w: "uw_view ?w = users_init\<lparr>us_users := [?u]\<rparr>" "uw_removed ?w = []"
    by (simp_all add: s) (simp add: world_init_def)
  have idle: "\<not> us_busy users_init" by (simp add: users_init_def)
  have first: "users_step ?h ?me world_init ?w"
    using users_step.loaded [of ?h ?me world_init "[]" "Reply 200 ''U''" "Reply 200 ''R''"] by (simp add: world_init_def)
  have second: "users_step ?h ?me ?w ?w'"
    by (rule users_step.remove [where agreed = True and endpoint = "user_path ''ana''"])
      (simp_all add: w s u me idle can_deactivate_def removeUser_begin_def)
  have run: "users_run ?h ?me world_init ?w'"
    by (rule two_steps [OF first second])
  have "\<not> ua_root ?u" using own_and_root_accounts_are_kept [OF run] by simp
  then show ?thesis using run u(1) w(2) by (intro exI [of _ ?h] exI [of _ ?w'] exI [of _ ?u]) simp
qed

end
