(* ===== verification/Email_View.thy ===== *)
theory Email_View
  imports Views_Base Account_Props
begin

section \<open>Email, network and the sections of the settings (\<open>ui/src/main.jsx\<close>)\<close>

text \<open>
  The state and the handlers of the email settings, of the network settings and of the page that holds the
  sections. A secret is sent when it is typed and is not kept in the form after a reply.
\<close>

subsection \<open>Email (\<open>EmailSettingsView\<close>)\<close>

record email_view =
  em_settings :: jsobj
  em_testRecipient :: string
  em_busy :: bool
  em_notice :: string

definition email_init :: email_view where
  "email_init = \<lparr>em_settings = normalizeEmailSettings [], em_testRecipient = [], em_busy = False, em_notice = []\<rparr>"

text \<open>Settings the server sends are read as an object; \<open>null\<close> raises (\<open>thrown\<close>).\<close>

definition settings_of :: "string \<Rightarrow> jsval \<Rightarrow> string + jsobj" where
  "settings_of thrown v = (if v = Null then Inl thrown else Inr (normalizeEmailSettings (own_entries v)))"

definition loadSettings_begin :: "email_view \<Rightarrow> email_view" where
  "loadSettings_begin s = s\<lparr>em_busy := True\<rparr>"

definition loadSettings_end :: "host \<Rightarrow> string \<Rightarrow> reply \<Rightarrow> email_view \<Rightarrow> email_view" where
  "loadSettings_end h thrown r s =
     (case and_then (read_reply h (h_t h (''No se pudo cargar la configuraci'' @ [CHR 0xF3] @ ''n de correo.'')) (Obj []) r) (settings_of thrown) of
        Inl message \<Rightarrow> s\<lparr>em_notice := labelled h (''No se pudo cargar la configuraci'' @ [CHR 0xF3] @ ''n de correo'') message, em_busy := False\<rparr>
      | Inr settings \<Rightarrow> s\<lparr>em_settings := settings, em_busy := False\<rparr>)"

definition update_settings :: "string \<Rightarrow> jsval \<Rightarrow> email_view \<Rightarrow> email_view" where
  "update_settings key v s = s\<lparr>em_settings := obj_put key v (em_settings s)\<rparr>"

definition updateProviderField :: "string \<Rightarrow> string \<Rightarrow> jsval \<Rightarrow> email_view \<Rightarrow> email_view" where
  "updateProviderField provider key v s =
     update_settings provider (Obj (obj_put key v (own_entries (fld (em_settings s) provider)))) s"

text \<open>The request is the payload, with the settings it was made of. \<open>agreed\<close> answers the question about the secrets.\<close>

definition saveEmail_begin ::
  "host \<Rightarrow> bool \<Rightarrow> email_view \<Rightarrow> (email_view \<times> (email_payload \<times> jsobj) option) option" where
  "saveEmail_begin h agreed s = do {
     errors \<leftarrow> validateEmailSettings (em_settings s);
     payload \<leftarrow> emailSettingsPayload (em_settings s);
     Some (if errors \<noteq> [] then (s\<lparr>em_notice := error_line h errors\<rparr>, None)
       else if truthy (fld (em_settings s) ''clearSecrets'') \<and> \<not> agreed then (s, None)
       else (s\<lparr>em_busy := True, em_notice := []\<rparr>, Some (payload, em_settings s))) }"

definition saveEmail_end :: "host \<Rightarrow> string \<Rightarrow> jsobj \<Rightarrow> reply \<Rightarrow> email_view \<Rightarrow> email_view" where
  "saveEmail_end h thrown sent r s =
     (case and_then (read_reply h (h_t h (''No se pudo guardar la configuraci'' @ [CHR 0xF3] @ ''n.'')) (Obj sent) r) (settings_of thrown) of
        Inl message \<Rightarrow> s\<lparr>em_notice := labelled h ''No se pudo guardar el correo'' message, em_busy := False\<rparr>
      | Inr settings \<Rightarrow> s\<lparr>em_settings := settings,
          em_notice := h_t h (''Configuraci'' @ [CHR 0xF3] @ ''n de correo guardada. Los secretos nuevos ya no se muestran.''), em_busy := False\<rparr>)"

definition testEmail_begin :: "host \<Rightarrow> email_view \<Rightarrow> email_view \<times> string option" where
  "testEmail_begin h s =
     (if \<not> is_email (js_trim (em_testRecipient s))
      then (s\<lparr>em_notice := h_t h (''Ingresa un destinatario v'' @ [CHR 0xE1] @ ''lido para la prueba.'')\<rparr>, None)
      else (s\<lparr>em_busy := True, em_notice := []\<rparr>, Some (js_lower (js_trim (em_testRecipient s)))))"

definition testEmail_end :: "host \<Rightarrow> string \<Rightarrow> jsobj \<Rightarrow> reply \<Rightarrow> email_view \<Rightarrow> email_view" where
  "testEmail_end h thrown settings r s =
     (case and_then (read_reply h (h_t h ''No se pudo enviar el correo de prueba.'') (Obj []) r)
         (\<lambda>result. or_thrown thrown (getx result ''provider'')) of
        Inl message \<Rightarrow> s\<lparr>em_notice := labelled h (''Fall'' @ [CHR 0xF3] @ '' el env'' @ [CHR 0xED] @ ''o de prueba'') message, em_busy := False\<rparr>
      | Inr provider \<Rightarrow> s\<lparr>em_notice := t_with h ''Correo de prueba enviado mediante {provider}.''
          [(''provider'', js_or provider (fld settings ''provider''))], em_busy := False\<rparr>)"

definition secretHint :: "host \<Rightarrow> jsval \<Rightarrow> string" where
  "secretHint h configured = h_t h (if truthy configured then (''Configurado; deja vac'' @ [CHR 0xED] @ ''o para conservarlo'') else ''Requerido'')"

text \<open>When the check box that removes the stored secrets is on the page, and when it answers.\<close>

definition shows_clear_secrets :: "email_view \<Rightarrow> bool" where
  "shows_clear_secrets s \<longleftrightarrow> truthy (fld (em_settings s) ''credentialsUnavailable'') \<or>
     (\<exists>(k, v)\<in>set (own_entries (js_or (fld (em_settings s) ''secretsConfigured'') (Obj []))). truthy v)"

definition can_clear_secrets :: "email_view \<Rightarrow> bool" where
  "can_clear_secrets s \<longleftrightarrow> shows_clear_secrets s \<and> \<not> truthy (fld (em_settings s) ''credentialsUnavailable'')"

subsection \<open>Network (\<open>NetworkSettingsView\<close>)\<close>

record network_view =
  nv_network :: "network_settings option"
  nv_busy :: bool
  nv_error :: string

definition network_init :: network_view where
  "network_init = \<lparr>nv_network = None, nv_busy = True, nv_error = []\<rparr>"

definition loadNetwork_begin :: "network_view \<Rightarrow> network_view" where
  "loadNetwork_begin s = s\<lparr>nv_busy := True, nv_error := []\<rparr>"

definition loadNetwork_end :: "host \<Rightarrow> string \<Rightarrow> reply \<Rightarrow> network_view \<Rightarrow> network_view" where
  "loadNetwork_end h thrown r s =
     (let refused = h_t h (''No se pudo consultar la configuraci'' @ [CHR 0xF3] @ ''n de red.'') in
      case and_then (read_reply h refused (Obj []) r) (\<lambda>v. if v = Null then Inl thrown else Inr (own_entries v)) of
        Inl message \<Rightarrow> s\<lparr>nv_error := (if message = [] then refused else message), nv_busy := False\<rparr>
      | Inr settings \<Rightarrow> s\<lparr>nv_network := Some (normalizeNetworkSettings settings), nv_busy := False\<rparr>)"

definition displayValue :: "host \<Rightarrow> string \<Rightarrow> string" where
  "displayValue h v = (if v = [] then h_t h ''No configurado'' else v)"

subsection \<open>The sections (\<open>SettingsView\<close>)\<close>

record settings_view =
  sv_section :: string
  sv_securitySection :: string
  sv_notice :: string

text \<open>The permissions of an identity for the three sections, in their order.\<close>

definition permitted :: "jsval \<Rightarrow> (bool \<times> bool \<times> bool) option" where
  "permitted identity = do {
     security \<leftarrow> canManageSecurity identity;
     email \<leftarrow> canManageEmail identity;
     network \<leftarrow> canViewNetwork identity;
     Some (security, email, network) }"

definition settings_init :: "jsval \<Rightarrow> settings_view option" where
  "settings_init identity =
     map_option (\<lambda>(security, email, _).
         \<lparr>sv_section = (if security then ''security'' else if email then ''email'' else ''network''),
          sv_securitySection = ''providers'', sv_notice = []\<rparr>)
       (permitted identity)"

datatype settings_page = Restricted | Empty | Providers_Page | Users_Page | Governance_Page | Email_Page bool | Network_Page

definition settings_page :: "jsval \<Rightarrow> settings_view \<Rightarrow> settings_page option" where
  "settings_page identity s = do {
     (security, email, network) \<leftarrow> permitted identity;
     editable \<leftarrow> canEditEmail identity;
     Some (if \<not> security \<and> \<not> email \<and> \<not> network then Restricted
       else if sv_section s = ''security'' \<and> security then
         (if sv_securitySection s = ''providers'' then Providers_Page
          else if sv_securitySection s = ''users'' then Users_Page
          else if sv_securitySection s = ''governance'' then Governance_Page else Empty)
       else if sv_section s = ''email'' \<and> email then Email_Page editable
       else if sv_section s = ''network'' \<and> network then Network_Page else Empty) }"

text \<open>The tabs on the page, and the choice of one.\<close>

definition settings_tabs :: "jsval \<Rightarrow> string list option" where
  "settings_tabs identity = map_option (\<lambda>(security, email, network).
     (if security then [''security''] else []) @ (if email then [''email''] else []) @ (if network then [''network''] else []))
     (permitted identity)"

definition securitySections :: "string list" where
  "securitySections = [''providers'', ''users'', ''governance'']"

definition chooseSection :: "string \<Rightarrow> settings_view \<Rightarrow> settings_view" where
  "chooseSection section s = s\<lparr>sv_section := section\<rparr>"

definition chooseSecuritySection :: "string \<Rightarrow> settings_view \<Rightarrow> settings_view" where
  "chooseSecuritySection section s = s\<lparr>sv_securitySection := section\<rparr>"

declare email_init_def [js_eval] settings_of_def [js_eval] loadSettings_begin_def [js_eval] loadSettings_end_def [js_eval]
  update_settings_def [js_eval] updateProviderField_def [js_eval] saveEmail_begin_def [js_eval] saveEmail_end_def [js_eval]
  testEmail_begin_def [js_eval] testEmail_end_def [js_eval] secretHint_def [js_eval] shows_clear_secrets_def [js_eval]
  can_clear_secrets_def [js_eval] network_init_def [js_eval] loadNetwork_begin_def [js_eval] loadNetwork_end_def [js_eval]
  displayValue_def [js_eval] permitted_def [js_eval] settings_init_def [js_eval] settings_page_def [js_eval]
  settings_tabs_def [js_eval] securitySections_def [js_eval] chooseSection_def [js_eval] chooseSecuritySection_def [js_eval]

subsection \<open>Secrets and permissions\<close>

definition no_secret :: "jsobj \<Rightarrow> bool" where
  "no_secret settings \<longleftrightarrow>
     get (fld settings ''smtp'') ''password'' = Str [] \<and> get (fld settings ''awsSes'') ''secretAccessKey'' = Str [] \<and>
     get (fld settings ''awsSes'') ''sessionToken'' = Str [] \<and> get (fld settings ''azureAcs'') ''accessKey'' = Str []"

lemma no_secret_normalized: "no_secret (normalizeEmailSettings settings)"
  using normalized_settings_hold_no_secret [of settings] by (simp add: no_secret_def)

lemma payload_clears: "emailSettingsPayload settings = Some p \<Longrightarrow> ep_clearSecrets p \<longleftrightarrow> fld settings ''clearSecrets'' = Bool True"
  by (auto simp: emailSettingsPayload_def Let_def bind_eq_Some_conv)

text \<open>C38: The stored credentials of the email providers are removed only with the consent of the user, and no secret
  stays in the browser: a save that asks for their removal is sent only when the question was answered with
  yes, and once the server has accepted a save, whatever was typed meanwhile, the form holds no password,
  secret key, session token or access key.\<close>

theorem email_secrets_are_not_kept:
  assumes "saveEmail_begin h agreed s = Some (s', Some (payload, sent))"
    and "read_reply h refused (Obj sent) r = Inr v" "v \<noteq> Null"
  shows "(ep_clearSecrets payload \<longrightarrow> agreed) \<and> validateEmailSettings sent = Some [] \<and>
    no_secret (em_settings (saveEmail_end h thrown sent r later))"
proof -
  have sent: "sent = em_settings s" "validateEmailSettings (em_settings s) = Some []"
      "emailSettingsPayload (em_settings s) = Some payload" "truthy (fld (em_settings s) ''clearSecrets'') \<longrightarrow> agreed"
    using assms(1) by (auto simp: saveEmail_begin_def bind_eq_Some_conv split: if_splits)
  have "read_reply h refused' (Obj sent) r = Inr v" for refused'
    using assms(2) by (cases r) (auto simp: read_reply_def reply_body_def split: if_splits)
  then have "em_settings (saveEmail_end h thrown sent r later) = normalizeEmailSettings (own_entries v)"
    using assms(3) by (simp add: saveEmail_end_def settings_of_def)
  then show ?thesis using sent payload_clears no_secret_normalized by simp
qed

theorem email_secrets_are_not_kept_witness:
  "no_secret (em_settings (saveEmail_end \<lparr>h_parse = \<lambda>_. None, h_print = \<lambda>_. None, h_pretty = \<lambda>_. [], h_t = id,
     h_syntax_error = id, h_null_error = id\<rparr> [] (em_settings email_init) (Reply 200 [])
     (updateProviderField ''smtp'' ''password'' (Str ''typed'') email_init)))"
proof -
  let ?h = "\<lparr>h_parse = \<lambda>_. None, h_print = \<lambda>_. None, h_pretty = \<lambda>_. [], h_t = id, h_syntax_error = id, h_null_error = id\<rparr>"
  obtain p where p: "emailSettingsPayload (em_settings email_init) = Some p"
    "validateEmailSettings (em_settings email_init) = Some []"
  proof -
    have "validateEmailSettings (em_settings email_init) = Some []" by code_simp
    then show thesis using that by (auto simp: validateEmailSettings_def bind_eq_Some_conv)
  qed
  then have "saveEmail_begin ?h True email_init =
      Some (email_init\<lparr>em_busy := True, em_notice := []\<rparr>, Some (p, em_settings email_init))"
    by (simp add: saveEmail_begin_def)
  moreover have "read_reply ?h [] (Obj (em_settings email_init)) (Reply 200 []) = Inr (Obj (em_settings email_init))"
    by (simp add: read_reply_def reply_body_def response_ok_def parse_body_def)
  ultimately show ?thesis by (rule email_secrets_are_not_kept [THEN conjunct2, THEN conjunct2]) simp
qed

text \<open>A page of the settings is shown only with its permission, and the first page is never empty: who may manage
  something, or see the network, starts on a section that is shown, and who may nothing is told so.\<close>

theorem settings_pages_need_their_permission:
  assumes "settings_page identity s = Some page"
  shows "(page \<in> {Providers_Page, Users_Page, Governance_Page} \<longrightarrow> canManageSecurity identity = Some True) \<and>
    (\<forall>editable. page = Email_Page editable \<longrightarrow> canManageEmail identity = Some True \<and> canEditEmail identity = Some editable) \<and>
    (page = Network_Page \<longrightarrow> canViewNetwork identity = Some True) \<and>
    (\<exists>s0 page0. settings_init identity = Some s0 \<and> settings_page identity s0 = Some page0 \<and> page0 \<noteq> Empty \<and>
       (page0 = Restricted \<longleftrightarrow> settings_tabs identity = Some []))"
proof -
  obtain security email network editable where
    p: "permitted identity = Some (security, email, network)" and e: "canEditEmail identity = Some editable"
    using assms by (auto simp: settings_page_def bind_eq_Some_conv)
  then have "canManageSecurity identity = Some security" "canManageEmail identity = Some email" "canViewNetwork identity = Some network"
    by (auto simp: permitted_def bind_eq_Some_conv)
  then show ?thesis using assms p e
    by (auto simp: settings_page_def settings_init_def settings_tabs_def split: if_splits)
qed

theorem settings_pages_need_their_permission_witness:
  "let me = Obj [(''permissions'', Arr [Str ''agents.view''])] in
   \<exists>s. settings_init me = Some s \<and> settings_page me s = Some Network_Page \<and> canViewNetwork me = Some True"
proof -
  let ?me = "Obj [(''permissions'', Arr [Str ''agents.view''])]"
  let ?s = "\<lparr>sv_section = ''network'', sv_securitySection = ''providers'', sv_notice = []\<rparr>"
  have "settings_init ?me = Some ?s" "settings_page ?me ?s = Some Network_Page" by code_simp+
  then show ?thesis using settings_pages_need_their_permission [of ?me ?s Network_Page] unfolding Let_def by blast
qed

end
