(* ===== verification/Policy_Flow.thy ===== *)
theory Policy_Flow
  imports Form_Schema
begin

section \<open>The summary of a policy (\<open>PolicyFlowNavigator\<close> of \<open>ui/src/main.jsx\<close>)\<close>

text \<open>
  The steps the navigator shows for the part of the policy that is edited, each with a label and what
  it counts. \<open>v?.length || 0\<close> is the length of a list or a text; a value of a document that is neither
  has no property \<open>length\<close>.
\<close>

definition list_size :: "jsval \<Rightarrow> nat" where
  "list_size v = (case v of Arr xs \<Rightarrow> length xs | Str s \<Rightarrow> length s | _ \<Rightarrow> 0)"

definition total :: "(jsval \<Rightarrow> nat option) \<Rightarrow> jsval list \<Rightarrow> nat option" where
  "total f xs = map_option sum_list (map_opt f xs)"

definition size_at :: "string \<Rightarrow> jsval \<Rightarrow> nat option" where
  "size_at k item = map_option list_size (getx item k)"

text \<open>How many of the destinations of a value are spans or logs.\<close>

definition outputs :: "jsval \<Rightarrow> nat option" where
  "outputs field = do {
     v \<leftarrow> getx field ''destinations'';
     ds \<leftarrow> list_or v;
     Some (length (filter (\<lambda>d. d = Str ''SPAN'' \<or> d = Str ''LOG'') ds)) }"

definition outputs_at :: "string list \<Rightarrow> jsval \<Rightarrow> nat option" where
  "outputs_at keys item = do {
     lists \<leftarrow> map_opt (\<lambda>k. Option.bind (getx item k) items_or) keys;
     total outputs (concat lists) }"

definition logs_enabled :: "jsval list \<Rightarrow> nat option" where
  "logs_enabled items = map_option length (filter_opt (\<lambda>item. map_option (\<lambda>l. truthy (get l ''enabled'')) (getx item ''log'')) items)"

definition selected_items :: "(jsval \<Rightarrow> bool option) \<Rightarrow> jsval \<Rightarrow> jsval list option" where
  "selected_items p v = Option.bind (list_or v) (filter_opt p)"

text \<open>The metrics that refer to one of the rules.\<close>

definition metrics_of :: "jsval list \<Rightarrow> jsval \<Rightarrow> nat option" where
  "metrics_of rules metrics = do {
     names \<leftarrow> map_opt (\<lambda>item. getx item ''eventName'') rules;
     ms \<leftarrow> selected_items (\<lambda>m. map_option (\<lambda>n. list_ex (same_value_zero n) names) (getx m ''eventName'')) metrics;
     Some (length ms) }"

type_synonym flow_step = "string \<times> string"

definition next_step :: string where
  "next_step = ''Paso siguiente''"

definition method_flow :: "jsobj \<Rightarrow> flow_step list option" where
  "method_flow policy = do {
     methods \<leftarrow> list_or (fld policy ''methodPolicies'');
     captures \<leftarrow> total (size_at ''captures'') methods;
     enrichment \<leftarrow> logs_enabled methods;
     metrics \<leftarrow> total (size_at ''metrics'') methods;
     Some [((''1 '' @ [CHR 0xB7] @ '' Trigger''), nat_str (list_size (fld policy ''methodPolicies'')) @ ('' m'' @ [CHR 0xE9] @ ''todos'')), ((''2 '' @ [CHR 0xB7] @ '' Capturas''), nat_str captures),
       ((''3 '' @ [CHR 0xB7] @ '' Span / log''), nat_str enrichment), ((''4 '' @ [CHR 0xB7] @ '' M'' @ [CHR 0xE9] @ ''tricas''), nat_str metrics), ((''5 '' @ [CHR 0xB7] @ '' Destinos''), next_step)] }"

definition messaging_rules :: "string \<Rightarrow> jsobj \<Rightarrow> jsval list option" where
  "messaging_rules family policy =
     selected_items (\<lambda>item. map_option (\<lambda>s. messagingFamilyForScope s = family) (getx item ''scope''))
       (fld policy ''messagingEventPolicies'')"

definition messaging_flow :: "string \<Rightarrow> jsobj \<Rightarrow> flow_step list option" where
  "messaging_flow family policy = do {
     rules \<leftarrow> messaging_rules family policy;
     captures \<leftarrow> total (size_at ''fields'') rules;
     outputs \<leftarrow> total (outputs_at [''staticAttributes'', ''fields'']) rules;
     logs \<leftarrow> logs_enabled rules;
     metrics \<leftarrow> metrics_of rules (fld policy ''messagingMetricPolicies'');
     Some [((''1 '' @ [CHR 0xB7] @ '' Cu'' @ [CHR 0xE1] @ ''ndo''), nat_str (length rules) @ '' reglas''), ((''2 '' @ [CHR 0xB7] @ '' Datos''), nat_str captures),
       ((''3 '' @ [CHR 0xB7] @ '' Span / log''), nat_str (outputs + logs)), ((''4 '' @ [CHR 0xB7] @ '' M'' @ [CHR 0xE9] @ ''tricas''), nat_str metrics), ((''5 '' @ [CHR 0xB7] @ '' Destinos''), next_step)] }"

definition http_rules :: "string \<Rightarrow> jsobj \<Rightarrow> jsval list option" where
  "http_rules direction policy =
     selected_items (\<lambda>item. map_option (\<lambda>d. normalizeHTTPDirection d = direction) (getx item ''direction''))
       (fld policy ''bodyEventPolicies'')"

definition http_flow :: "string \<Rightarrow> jsobj \<Rightarrow> flow_step list option" where
  "http_flow direction policy = do {
     rules \<leftarrow> http_rules direction policy;
     fields \<leftarrow> total (size_at ''fields'') rules;
     derived \<leftarrow> total (size_at ''derivedFields'') rules;
     outputs \<leftarrow> total (outputs_at [''staticAttributes'', ''fields'', ''derivedFields'']) rules;
     logs \<leftarrow> logs_enabled rules;
     metrics \<leftarrow> metrics_of rules (fld policy ''eventMetricPolicies'');
     Some [((''1 '' @ [CHR 0xB7] @ '' Cu'' @ [CHR 0xE1] @ ''ndo''), nat_str (length rules) @ '' reglas''), ((''2 '' @ [CHR 0xB7] @ '' Datos''), nat_str (fields + derived)),
       ((''3 '' @ [CHR 0xB7] @ '' Salidas''), nat_str (outputs + logs + metrics)), ((''4 '' @ [CHR 0xB7] @ '' Destinos''), next_step)] }"

text \<open>Both lists of rules are filtered whatever is edited.\<close>

definition policy_flow :: "string \<Rightarrow> jsobj \<Rightarrow> flow_step list option" where
  "policy_flow focus policy = do {
     http \<leftarrow> http_rules (telemetryDirectionForFocus focus) policy;
     messaging \<leftarrow> messaging_rules focus policy;
     if focus = ''method'' then method_flow policy
     else if focus = ''kafka'' \<or> focus = ''jms'' then messaging_flow focus policy
     else http_flow (telemetryDirectionForFocus focus) policy }"

declare list_size_def [js_eval] total_def [js_eval] size_at_def [js_eval] outputs_def [js_eval] outputs_at_def [js_eval]
  logs_enabled_def [js_eval] selected_items_def [js_eval] metrics_of_def [js_eval] next_step_def [js_eval]
  method_flow_def [js_eval] messaging_rules_def [js_eval] messaging_flow_def [js_eval] http_rules_def [js_eval]
  http_flow_def [js_eval] policy_flow_def [js_eval]

subsection \<open>The navigator never fails\<close>

text \<open>What the navigator reads of an item: it is an object, and the lists it opens are lists of objects whose
  destinations are a list or absent.\<close>

definition readable_values :: "jsval \<Rightarrow> bool" where
  "readable_values v \<longleftrightarrow> (\<exists>xs. v = Arr xs \<and> (\<forall>x\<in>set xs. \<exists>d. x = Obj d \<and> readable_list (fld d ''destinations'')))"

definition item_ok :: "string list \<Rightarrow> jsval \<Rightarrow> bool" where
  "item_ok keys v \<longleftrightarrow> (\<exists>ob. v = Obj ob \<and> (\<forall>k\<in>set keys. readable_values (fld ob k)))"

lemma total_defined: "\<forall>x\<in>set xs. f x \<noteq> None \<Longrightarrow> total f xs \<noteq> None"
  by (simp add: total_def map_opt_None)

lemma filter_opt_defined: "\<forall>x\<in>set xs. p x \<noteq> None \<Longrightarrow> filter_opt p xs \<noteq> None"
  by (induction xs) auto

lemma getx_Obj [simp]: "getx (Obj ob) k = Some (fld ob k)"
  by (simp add: getx_def nullish_def)

lemma bind_defined: "m \<noteq> None \<Longrightarrow> (\<And>x. f x \<noteq> None) \<Longrightarrow> m \<bind> f \<noteq> None"
  by auto

lemma readable_outputs: "readable_values v \<Longrightarrow> items_or v = Some (array v) \<and> (\<forall>x\<in>set (array v). outputs x \<noteq> None)"
  by (fastforce simp: readable_values_def outputs_def)

lemma items_typed:
  assumes "item_ok keys v"
  shows "size_at k v \<noteq> None" "set ks \<subseteq> set keys \<Longrightarrow> outputs_at ks v \<noteq> None"
proof -
  obtain ob where ob: "v = Obj ob" "\<forall>k\<in>set keys. readable_values (fld ob k)" using assms by (auto simp: item_ok_def)
  then show "size_at k v \<noteq> None" by (simp add: size_at_def)
  assume ks: "set ks \<subseteq> set keys"
  have "map_opt (\<lambda>k. Option.bind (getx v k) items_or) ks = Some (map (\<lambda>k. array (fld ob k)) ks)"
    by (rule map_opt_total) (use ob ks readable_outputs in auto)
  moreover have "outputs x \<noteq> None" if x: "x \<in> set (concat (map (\<lambda>k. array (fld ob k)) ks))" for x
  proof -
    obtain k where "k \<in> set ks" "x \<in> set (array (fld ob k))" using x by auto
    then have "k \<in> set keys" "x \<in> set (array (fld ob k))" using ks by auto
    then show ?thesis using readable_outputs [of "fld ob k"] ob(2) by blast
  qed
  ultimately show "outputs_at ks v \<noteq> None" using total_defined by (simp add: outputs_at_def)
qed

lemma logs_defined: "\<forall>x\<in>set xs. item_ok keys x \<Longrightarrow> logs_enabled xs \<noteq> None"
proof -
  assume "\<forall>x\<in>set xs. item_ok keys x"
  then have "\<forall>x\<in>set xs. map_option (\<lambda>l. truthy (get l ''enabled'')) (getx x ''log'') \<noteq> None" by (auto simp: item_ok_def)
  from filter_opt_defined [OF this] show ?thesis by (auto simp: logs_enabled_def)
qed

lemma selected_defined:
  assumes "v = Arr xs" "\<forall>x\<in>set xs. \<exists>ob. x = Obj ob"
  shows "selected_items (\<lambda>item. map_option f (getx item k)) v \<noteq> None"
  using assms filter_opt_defined [of xs "\<lambda>item. map_option f (getx item k)"] by (fastforce simp: selected_items_def)

lemma metrics_defined:
  assumes "\<forall>x\<in>set rules. item_ok keys x" "v = Arr xs" "\<forall>x\<in>set xs. \<exists>ob. x = Obj ob"
  shows "metrics_of rules v \<noteq> None"
proof -
  have "\<forall>x\<in>set rules. getx x ''eventName'' \<noteq> None" using assms(1) by (auto simp: item_ok_def)
  then have "map_opt (\<lambda>item. getx item ''eventName'') rules \<noteq> None" by (simp add: map_opt_None)
  then show ?thesis unfolding metrics_of_def by (intro bind_defined selected_defined [OF assms(2,3)]) simp_all
qed

text \<open>A document of the type is readable.\<close>

definition flow_ok :: "jsobj \<Rightarrow> bool" where
  "flow_ok p \<longleftrightarrow> (\<exists>es ms gs rs ns.
     fld p ''bodyEventPolicies'' = Arr es \<and> (\<forall>x\<in>set es. item_ok [''staticAttributes'', ''fields'', ''derivedFields''] x) \<and>
     fld p ''messagingEventPolicies'' = Arr ms \<and> (\<forall>x\<in>set ms. item_ok [''staticAttributes'', ''fields''] x) \<and>
     fld p ''methodPolicies'' = Arr gs \<and> (\<forall>x\<in>set gs. item_ok [] x) \<and>
     fld p ''eventMetricPolicies'' = Arr rs \<and> (\<forall>x\<in>set rs. \<exists>ob. x = Obj ob) \<and>
     fld p ''messagingMetricPolicies'' = Arr ns \<and> (\<forall>x\<in>set ns. \<exists>ob. x = Obj ob))"

lemma items_objects: "fits (Items (Rec ts)) v \<Longrightarrow> \<exists>xs. v = Arr xs \<and> (\<forall>x\<in>set xs. \<exists>ob. x = Obj ob \<and> fits (Rec ts) (Obj ob))"
proof -
  assume "fits (Items (Rec ts)) v"
  then obtain xs where xs: "v = Arr xs" "\<forall>x\<in>set xs. fits (Rec ts) x" by (cases v) auto
  have "\<exists>ob. x = Obj ob \<and> fits (Rec ts) (Obj ob)" if "x \<in> set xs" for x
    using fits_Rec_Obj [of ts x] xs(2) that by blast
  then show ?thesis using xs(1) by blast
qed

lemma readable_items:
  assumes "fits (Items (Rec ts)) v" "at_key ts ''destinations'' List_Or_Nothing"
  shows "readable_values v"
  using items_objects [OF assms(1)] fits_at [OF assms(2)] unfolding readable_values_def by (simp only: fits.simps) blast

lemma readable_typed: "fits (Items static_type) v \<Longrightarrow> readable_values v" "fits (Items (field_type P)) v \<Longrightarrow> readable_values v"
  unfolding static_type_def field_type_def by (erule readable_items; simp add: at_key_def)+

lemma items_typed_list:
  assumes "fits (Items (Rec ts)) v" "\<And>ob k. fits (Rec ts) (Obj ob) \<Longrightarrow> k \<in> set keys \<Longrightarrow> readable_values (fld ob k)"
  shows "\<exists>xs. v = Arr xs \<and> (\<forall>x\<in>set xs. item_ok keys x)"
proof -
  obtain xs where "v = Arr xs" "\<forall>x\<in>set xs. \<exists>ob. x = Obj ob \<and> fits (Rec ts) (Obj ob)"
    using items_objects [OF assms(1)] by blast
  moreover have "item_ok keys x" if "\<exists>ob. x = Obj ob \<and> fits (Rec ts) (Obj ob)" for x
    using that assms(2) unfolding item_ok_def by blast
  ultimately show ?thesis by blast
qed

lemma document_flow_ok:
  assumes "fits document_type (Obj p)"
  shows "flow_ok p"
proof -
  note d = assms [unfolded document_type_def policy_type_def]
  have "\<exists>es. fld p ''bodyEventPolicies'' = Arr es \<and> (\<forall>x\<in>set es. item_ok [''staticAttributes'', ''fields'', ''derivedFields''] x)"
    using fits_at [OF policy_keys(3) d] unfolding rule_type_def
    by (rule items_typed_list) (auto dest: readable_typed fits_at [OF rule_keys(2)] fits_at [OF rule_keys(3)] fits_at [OF rule_keys(4)] simp del: fits.simps)
  moreover have "\<exists>ms. fld p ''messagingEventPolicies'' = Arr ms \<and> (\<forall>x\<in>set ms. item_ok [''staticAttributes'', ''fields''] x)"
    using fits_at [OF policy_keys(5) d] unfolding message_type_def
    by (rule items_typed_list) (auto dest: readable_typed fits_at [OF message_keys(2)] fits_at [OF message_keys(3)] simp del: fits.simps)
  moreover have "\<exists>gs. fld p ''methodPolicies'' = Arr gs \<and> (\<forall>x\<in>set gs. item_ok [] x)"
    using fits_at [OF policy_keys(2) d] unfolding method_type_def by (rule items_typed_list) simp
  moreover have "\<exists>rs. fld p ''eventMetricPolicies'' = Arr rs \<and> (\<forall>x\<in>set rs. \<exists>ob. x = Obj ob)"
    using items_objects [OF fits_at [OF policy_keys(4) d, unfolded event_metric_type_def]] by blast
  moreover have "\<exists>ns. fld p ''messagingMetricPolicies'' = Arr ns \<and> (\<forall>x\<in>set ns. \<exists>ob. x = Obj ob)"
    using items_objects [OF fits_at [OF policy_keys(6) d, unfolded message_metric_type_def]] by blast
  ultimately show ?thesis unfolding flow_ok_def by (elim exE conjE) (intro exI conjI; assumption)
qed

lemma rules_selected:
  assumes "v = Arr xs" "\<forall>x\<in>set xs. item_ok keys x"
  obtains ys where "selected_items (\<lambda>item. map_option f (getx item k)) v = Some ys" "\<forall>y\<in>set ys. item_ok keys y"
proof -
  have "\<forall>x\<in>set xs. \<exists>ob. x = Obj ob" using assms(2) by (auto simp: item_ok_def)
  then obtain ys where ys: "selected_items (\<lambda>item. map_option f (getx item k)) v = Some ys"
    using selected_defined [OF assms(1)] by blast
  then have "set ys \<subseteq> set xs" using assms(1) filter_opt_subset by (auto simp: selected_items_def)
  then show thesis using ys assms(2) that by blast
qed

lemma flow_defined:
  assumes "flow_ok p"
  shows "policy_flow focus p \<noteq> None"
proof -
  obtain es ms gs rs ns where
    es: "fld p ''bodyEventPolicies'' = Arr es" "\<forall>x\<in>set es. item_ok [''staticAttributes'', ''fields'', ''derivedFields''] x" and
    ms: "fld p ''messagingEventPolicies'' = Arr ms" "\<forall>x\<in>set ms. item_ok [''staticAttributes'', ''fields''] x" and
    gs: "fld p ''methodPolicies'' = Arr gs" "\<forall>x\<in>set gs. item_ok [] x" and
    rs: "fld p ''eventMetricPolicies'' = Arr rs" "\<forall>x\<in>set rs. \<exists>ob. x = Obj ob" and
    ns: "fld p ''messagingMetricPolicies'' = Arr ns" "\<forall>x\<in>set ns. \<exists>ob. x = Obj ob"
    using assms unfolding flow_ok_def by blast
  obtain hs where hs: "http_rules (telemetryDirectionForFocus focus) p = Some hs"
      "\<forall>x\<in>set hs. item_ok [''staticAttributes'', ''fields'', ''derivedFields''] x"
    unfolding http_rules_def by (rule rules_selected [OF es])
  obtain qs where qs: "messaging_rules focus p = Some qs" "\<forall>x\<in>set qs. item_ok [''staticAttributes'', ''fields''] x"
    unfolding messaging_rules_def by (rule rules_selected [OF ms])
  have sizes: "total (size_at k) xs \<noteq> None" if "\<forall>x\<in>set xs. item_ok keys x" for k keys xs
    using that items_typed(1) by (intro total_defined) blast
  have outs: "total (outputs_at keys) xs \<noteq> None" if "\<forall>x\<in>set xs. item_ok keys x" for keys xs
    using that items_typed(2) [of keys] by (intro total_defined) blast
  have "method_flow p \<noteq> None"
    using sizes [OF gs(2)] logs_defined [OF gs(2)] 
    by (simp only: method_flow_def gs(1) list_or_readable readable_Arr array.simps bind.bind_lunit)
      (intro bind_defined; simp)
  moreover have "messaging_flow focus p \<noteq> None"
    using sizes [OF qs(2)] outs [OF qs(2)] logs_defined [OF qs(2)] metrics_defined [OF qs(2) ns]
    
    by (simp only: messaging_flow_def qs(1) bind.bind_lunit) (intro bind_defined; simp)
  moreover have "http_flow (telemetryDirectionForFocus focus) p \<noteq> None"
    using sizes [OF hs(2)] outs [OF hs(2)] logs_defined [OF hs(2)] metrics_defined [OF hs(2) rs]
    
    by (simp only: http_flow_def hs(1) bind.bind_lunit) (intro bind_defined; simp)
  ultimately show ?thesis by (simp add: policy_flow_def hs(1) qs(1))
qed

text \<open>Whatever is edited with the forms, from the blank document or from any document of its type, the summary
  of the policy can be computed for every part of the editor: no edit leaves a document the navigator
  cannot read.\<close>

theorem edited_policies_have_a_summary:
  assumes "fits document_type (Obj policy)"
  shows "\<exists>result steps. form_run ops policy = Some result \<and> policy_flow focus result = Some steps"
  using form_run_typing [OF assms, of ops] flow_defined [OF document_flow_ok] by (fastforce simp: makes_def)

theorem edited_policies_have_a_summary_witness:
  "\<exists>result steps. form_run [Http ''INCOMING'' (AddRule 1)] emptyPolicy = Some result \<and> policy_flow ''http-incoming'' result = Some steps"
proof (rule edited_policies_have_a_summary)
  show "fits document_type (Obj emptyPolicy)"
    by (simp add: document_type_def policy_type_def policy_fields_def emptyPolicy_def fits.simps(3) fld_def)
qed

end
