(* ===== verification/Summaries.thy ===== *)
theory Summaries
  imports Deployment Policy_Catalog Collector_Catalog Coverage Fleet Status_Labels Views Network Views_Base
begin

section \<open>Summaries: selectors, filters and totals\<close>

text \<open>
  \<open>ui/src/selector-presentation.js\<close>, which describes the destinations of a version, and the totals and
  filter options that the views of \<open>ui/src/main.jsx\<close> compute from the data of the server. The order of
  the attributes is that of the argument \<open>collate\<close>, the host's \<open>localeCompare\<close>.
\<close>

subsection \<open>Selectors\<close>

definition normalizedStrings :: "jsval \<Rightarrow> string list" where
  "normalizedStrings values =
     js_sort str_gt (nub (filter (\<lambda>s. s \<noteq> []) (map (\<lambda>v. js_trim (str_or v [])) (array values))))"

record selector_details =
  sd_instanceUIDs :: "string list"
  sd_services :: "string list"
  sd_attributes :: "(string \<times> string) list"
  sd_exact :: bool
  sd_unrestricted :: bool
  sd_scopeLabel :: string
  sd_summary :: string

definition attribute_rows :: "(string \<Rightarrow> string \<Rightarrow> jsnum) \<Rightarrow> jsval \<Rightarrow> (string \<times> string) list" where
  "attribute_rows collate attributes =
     sort_by (\<lambda>l r. collate (fst l) (fst r))
       (filter (\<lambda>(key, _). key \<noteq> []) (map (\<lambda>(key, v). (js_trim key, text_value v [])) (own_entries (js_or attributes (Obj [])))))"

definition counted_noun :: "string \<Rightarrow> nat \<Rightarrow> string list" where
  "counted_noun noun n = (if n = 0 then [] else [nat_str n @ '' '' @ noun @ (if n = 1 then [] else ''s'')])"

text \<open>A missing selector is the empty one; \<open>null\<close> raises.\<close>

definition selectorDetails :: "(string \<Rightarrow> string \<Rightarrow> jsnum) \<Rightarrow> jsval \<Rightarrow> selector_details option" where
  "selectorDetails collate sel =
     (let selector = (if sel = Undef then Obj [] else sel) in do {
        uids \<leftarrow> getx selector ''InstanceUIDs'';
        servs \<leftarrow> getx selector ''Services'';
        attrs \<leftarrow> getx selector ''Attributes'';
        let instanceUIDs = normalizedStrings uids; services = normalizedStrings servs;
            attributes = attribute_rows collate attrs; exact = (instanceUIDs \<noteq> []);
            unrestricted = (\<not> exact \<and> services = [] \<and> attributes = [])
        in Some \<lparr>sd_instanceUIDs = instanceUIDs, sd_services = services, sd_attributes = attributes, sd_exact = exact,
          sd_unrestricted = unrestricted, sd_scopeLabel = (if exact then ''Instancia exacta'' else (''Din'' @ [CHR 0xE1] @ ''mico'')),
          sd_summary = (if unrestricted then ''Todos los compatibles''
            else js_join ('' '' @ [CHR 0xB7] @ '' '') (counted_noun ''servicio'' (length services) @ counted_noun ''atributo'' (length attributes) @
              counted_noun ''instancia'' (length instanceUIDs)))\<rparr> })"

subsection \<open>The filters of the fleet (\<open>AgentsView\<close>)\<close>

definition filter_option :: "jsval \<Rightarrow> string \<Rightarrow> jsval" where
  "filter_option v label = Obj [(''value'', v), (''label'', Str label)]"

definition kind_label :: "host \<Rightarrow> jsval \<Rightarrow> string" where
  "kind_label h v = (if v = Str ''collector'' then h_t h ''Collector'' else if v = Str ''java-extension'' then ''Java extension'' else to_str v)"

definition transport_label :: "jsval \<Rightarrow> string" where
  "transport_label v = (if v = Str ''http-poll'' then ''HTTP polling'' else if v = Str ''websocket'' then ''WebSocket'' else to_str v)"

record fleet_options =
  fo_services :: "jsval list"
  fo_kinds :: "jsval list"
  fo_transports :: "jsval list"
  fo_availability :: "jsval list"
  fo_effectiveStatuses :: "jsval list"

definition status_option :: "host \<Rightarrow> string \<Rightarrow> jsval \<Rightarrow> jsval option" where
  "status_option h kind v = map_option (\<lambda>(label, _). filter_option v (h_t h label)) (statusMeta v kind)"

definition fleetOptions ::
  "host \<Rightarrow> (string \<Rightarrow> string \<Rightarrow> jsnum) \<Rightarrow> fleet_row list \<Rightarrow> fleet_options option" where
  "fleetOptions h collate rows =
     (let values = fleetFilterValues collate rows;
          option = (\<lambda>label v. filter_option v (label v)) in do {
        availability \<leftarrow> map_opt (status_option h ''connection'') (values (\<lambda>row. Str (fr_availability row)));
        statuses \<leftarrow> map_opt (status_option h ''config'') (values (\<lambda>row. Str (fr_effectiveStatus row)));
        Some \<lparr>fo_services = map (option to_str) (values (\<lambda>row. fld (fr_agent row) ''Service'')),
          fo_kinds = map (option (kind_label h)) (values (\<lambda>row. fld (fr_agent row) ''Kind'')),
          fo_transports = map (option transport_label) (values (\<lambda>row. fld (fr_agent row) ''Transport'')),
          fo_availability = availability, fo_effectiveStatuses = statuses\<rparr> })"

subsection \<open>The totals of the deployments (\<open>DeploymentsView\<close>)\<close>

definition activePolicies :: "managed_policy list \<Rightarrow> nat" where
  "activePolicies policies = length (filter mp_active policies)"

definition activeCollectors :: "managed_collector list \<Rightarrow> nat" where
  "activeCollectors configs = length (filter mc_active configs)"

definition policyServices :: "managed_policy list \<Rightarrow> jsval list" where
  "policyServices policies = sort_texts (unique (concat (map mp_services policies)))"

definition collectorServices :: "managed_collector list \<Rightarrow> jsval list" where
  "collectorServices configs = sort_texts (unique (concat (map mc_services configs)))"

definition detailPolicyOptions :: "jsobj list \<Rightarrow> jsval list" where
  "detailPolicyOptions deployments = sort_texts (unique (map (\<lambda>record. fld record ''ConfigID'') deployments))"

subsection \<open>Saving the denylist (\<open>SecurityView\<close>)\<close>

record denylist_view =
  dv_editor :: denylist_editor
  dv_saving :: bool

definition save_denylist_begin :: "denylist_view \<Rightarrow> denylist_view \<times> jsobj list" where
  "save_denylist_begin s = (s\<lparr>dv_saving := True\<rparr>, denylist_payload (dv_editor s))"

text \<open>The notice of the page, and whether the application loads again, which ends the saving.\<close>

definition save_denylist_end :: "host \<Rightarrow> reply \<Rightarrow> denylist_view \<Rightarrow> denylist_view \<times> string \<times> bool" where
  "save_denylist_end h r s =
     (case reply_body [] r of
        Inl message \<Rightarrow> (s\<lparr>dv_saving := False\<rparr>, labelled h ''Error'' message, False)
      | Inr _ \<Rightarrow> (s\<lparr>dv_editor := denylist_saved (dv_editor s)\<rparr>,
          h_t h (''Denylist guardada. Las siguientes publicaciones y rollbacks se validar'' @ [CHR 0xE1] @ ''n contra esta versi'' @ [CHR 0xF3] @ ''n.''), True))"

definition denylist_reloaded :: "denylist_view \<Rightarrow> denylist_view" where
  "denylist_reloaded s = s\<lparr>dv_saving := False\<rparr>"

declare normalizedStrings_def [js_eval] attribute_rows_def [js_eval] counted_noun_def [js_eval] selectorDetails_def [js_eval]
  filter_option_def [js_eval] kind_label_def [js_eval] transport_label_def [js_eval] status_option_def [js_eval]
  fleetOptions_def [js_eval] activePolicies_def [js_eval] activeCollectors_def [js_eval] policyServices_def [js_eval]
  collectorServices_def [js_eval] detailPolicyOptions_def [js_eval] save_denylist_begin_def [js_eval]
  save_denylist_end_def [js_eval] denylist_reloaded_def [js_eval]

subsection \<open>What the label of a selector promises\<close>

text \<open>The selectors the editor publishes: texts that are not blank.\<close>

definition clean_texts :: "jsval list \<Rightarrow> bool" where
  "clean_texts xs \<longleftrightarrow> (\<forall>x\<in>set xs. case x of Str s \<Rightarrow> js_trim s \<noteq> [] | _ \<Rightarrow> False)"

definition clean_attributes :: "jsobj \<Rightarrow> bool" where
  "clean_attributes ob \<longleftrightarrow> (\<forall>(k, v)\<in>set ob. js_trim k \<noteq> [] \<and> v \<noteq> Undef)"

lemma normalizedStrings_empty: "clean_texts xs \<Longrightarrow> normalizedStrings (Arr xs) = [] \<longleftrightarrow> xs = []"
proof -
  assume clean: "clean_texts xs"
  have "normalizedStrings (Arr xs) = [] \<longleftrightarrow> set (normalizedStrings (Arr xs)) = {}" by simp
  also have "\<dots> \<longleftrightarrow> (\<forall>x\<in>set xs. js_trim (str_or x []) = [])" by (auto simp: normalizedStrings_def)
  also have "\<dots> \<longleftrightarrow> xs = []" using clean by (cases xs) (auto simp: clean_texts_def str_or_def js_or_def split: jsval.splits)
  finally show ?thesis .
qed

lemma attribute_rows_empty: "clean_attributes ob \<Longrightarrow> attribute_rows collate (Obj ob) = [] \<longleftrightarrow> ob = []"
  by (cases ob) (auto simp: attribute_rows_def clean_attributes_def js_or_def)

lemma nobody_listed: "clean_texts xs \<Longrightarrow> xs \<noteq> [] \<Longrightarrow> val_includes (Arr xs) Undef = Some False"
proof -
  assume clean: "clean_texts xs"
  have "\<not> same_value_zero y Undef" if "y \<in> set xs" for y
    using clean that by (cases y) (auto simp: clean_texts_def same_value_zero_def)
  then show ?thesis by simp
qed

text \<open>A version is labelled as meant for every compatible target exactly when its selector matches every agent,
  and as meant for exact instances exactly when it lists some: what the page says of a published
  selector is what the matching of destinations does with it.\<close>

theorem unrestricted_label_is_exact:
  assumes "clean_texts uids" "clean_texts services" "clean_attributes attributes"
  shows "\<exists>d. selectorDetails collate (Obj [(''InstanceUIDs'', Arr uids), (''Services'', Arr services), (''Attributes'', Obj attributes)]) = Some d \<and>
    (sd_unrestricted d \<longleftrightarrow> (\<forall>agent. matchesSelector agent
       (Obj [(''InstanceUIDs'', Arr uids), (''Services'', Arr services), (''Attributes'', Obj attributes)]) = Some True)) \<and>
    (sd_exact d \<longleftrightarrow> uids \<noteq> [])"
proof -
  let ?sel = "[(''InstanceUIDs'', Arr uids), (''Services'', Arr services), (''Attributes'', Obj attributes)]"
  have f: "fld ?sel ''InstanceUIDs'' = Arr uids" "fld ?sel ''Services'' = Arr services" "fld ?sel ''Attributes'' = Obj attributes"
    by (simp_all add: fld_def)
  obtain d where d: "selectorDetails collate (Obj ?sel) = Some d"
    and e: "sd_exact d \<longleftrightarrow> normalizedStrings (Arr uids) \<noteq> []"
    and u: "sd_unrestricted d \<longleftrightarrow> normalizedStrings (Arr uids) = [] \<and> normalizedStrings (Arr services) = [] \<and> attribute_rows collate (Obj attributes) = []"
    by (simp add: selectorDetails_def getx_def nullish_def f Let_def)
  note empty = normalizedStrings_empty [OF assms(1)] normalizedStrings_empty [OF assms(2)] attribute_rows_empty [OF assms(3)]
  have m: "matchesSelector agent (Obj ?sel) = do {
      uid \<leftarrow> listed_or_unrestricted (Arr uids) (fld agent ''UID'');
      if \<not> uid then Some False else do {
        service \<leftarrow> listed_or_unrestricted (Arr services) (fld agent ''Service'');
        if \<not> service then Some False
        else Some (\<forall>(key, v)\<in>set attributes. strict_eq (get (fld agent ''Attributes'') key) v) } }" for agent
    by (simp add: matchesSelector_def getx_def nullish_def f js_or_def Let_def cong: if_cong)
  have "uids = [] \<and> services = [] \<and> attributes = []" if all: "\<forall>agent. matchesSelector agent (Obj ?sel) = Some True"
  proof -
    have "fld [] ''UID'' = Undef" "fld [] ''Service'' = Undef" "fld [] ''Attributes'' = Undef"
      by (simp_all add: fld_def object_prototype_def)
    then have none: "matchesSelector [] (Obj ?sel) = do {
      uid \<leftarrow> listed_or_unrestricted (Arr uids) Undef;
      if \<not> uid then Some False else do {
        service \<leftarrow> listed_or_unrestricted (Arr services) Undef;
        if \<not> service then Some False
        else Some (\<forall>(key, v)\<in>set attributes. strict_eq Undef v) } }"
      by (simp add: m cong: if_cong)
    then show ?thesis using spec [OF all, of "[]"] nobody_listed [OF assms(1)] nobody_listed [OF assms(2)] assms(3)
      by (cases attributes) (auto simp: listed_or_unrestricted_def clean_attributes_def split: if_splits)
  qed
  moreover have "matchesSelector agent (Obj ?sel) = Some True" if "uids = []" "services = []" "attributes = []" for agent
    unfolding m using that by (simp add: listed_or_unrestricted_def)
  ultimately show ?thesis using d e u empty by blast
qed

theorem unrestricted_label_is_exact_witness:
  "\<exists>d. selectorDetails (\<lambda>_ _. Fin 0) (Obj [(''InstanceUIDs'', Arr []), (''Services'', Arr [Str ''pay'']), (''Attributes'', Obj [])]) = Some d \<and>
     \<not> sd_exact d"
proof -
  have "clean_texts []" "clean_texts [Str ''pay'']" "clean_attributes []" by code_simp+
  from unrestricted_label_is_exact [OF this, of "\<lambda>_ _. Fin 0"] show ?thesis by blast
qed

end
