(* ===== verification/Dialogs.thy ===== *)
theory Dialogs
  imports Prelude
begin

section \<open>The attribute dialogs (\<open>AgentAttributesButton\<close> of \<open>ui/src/main.jsx\<close>)\<close>

text \<open>
  Every row of the fleet has a dialog with the attributes its agent reports. What the dialogs share is
  the page: the style \<open>document.body.style.overflow\<close>, which a dialog sets while it is shown and puts back
  afterwards, and the focus. The effect of a dialog depends on \<open>open\<close> and on the number of attributes:
  a rendering in which one of them changed first runs the clean-ups of all the dialogs that changed,
  then their effects. \<open>dg_running\<close> is the variable \<open>previousOverflow\<close> of the effect that is installed.
\<close>

datatype focus = Elsewhere | Trigger string | Close string

record dialog =
  dg_uid :: string
  dg_open :: bool
  dg_count :: nat
  dg_running :: "string option"

record page =
  pg_overflow :: string
  pg_focus :: focus
  pg_dialogs :: "dialog list"

definition dialog_shown :: "dialog \<Rightarrow> bool" where
  "dialog_shown d \<longleftrightarrow> dg_open d \<and> dg_count d \<noteq> 0"

subsection \<open>Renderings\<close>

definition same_deps :: "dialog \<Rightarrow> dialog \<Rightarrow> bool" where
  "same_deps d e \<longleftrightarrow> dg_open d = dg_open e \<and> dg_count d = dg_count e"

text \<open>
  The clean-up of \<open>d\<close>, whose next rendering is \<open>e\<close> (nothing when its row is gone). A button that is
  no longer on the page has lost the focus, and cannot take it.
\<close>

definition left_focus :: "dialog \<Rightarrow> dialog option \<Rightarrow> focus \<Rightarrow> focus" where
  "left_focus d e f =
     (let trigger = (case e of Some e \<Rightarrow> dg_count e \<noteq> 0 | None \<Rightarrow> False); close = (case e of Some e \<Rightarrow> dialog_shown e | None \<Rightarrow> False)
      in if f = Close (dg_uid d) \<and> \<not> close \<or> f = Trigger (dg_uid d) \<and> \<not> trigger then Elsewhere else f)"

definition cleanup :: "dialog \<Rightarrow> dialog option \<Rightarrow> string \<times> focus \<Rightarrow> string \<times> focus" where
  "cleanup d e = (\<lambda>(overflow, f).
     if (case e of Some e \<Rightarrow> same_deps d e | None \<Rightarrow> False) then (overflow, f)
     else case dg_running d of
         None \<Rightarrow> (overflow, left_focus d e f)
       | Some previous \<Rightarrow>
           (previous, if (case e of Some e \<Rightarrow> dg_count e \<noteq> 0 | None \<Rightarrow> False) then Trigger (dg_uid d) else left_focus d e f))"

definition run_effect :: "dialog \<Rightarrow> dialog \<Rightarrow> string \<times> focus \<Rightarrow> dialog \<times> string \<times> focus" where
  "run_effect d e = (\<lambda>(overflow, f).
     if same_deps d e then (e, overflow, f)
     else if \<not> dialog_shown e then (e\<lparr>dg_running := None\<rparr>, overflow, f)
     else (e\<lparr>dg_running := Some overflow\<rparr>, ''hidden'', Close (dg_uid e)))"

fun cleanups :: "(dialog \<times> dialog option) list \<Rightarrow> string \<times> focus \<Rightarrow> string \<times> focus" where
  "cleanups [] s = s"
| "cleanups ((d, e) # ds) s = cleanups ds (cleanup d e s)"

fun effects :: "(dialog \<times> dialog option) list \<Rightarrow> string \<times> focus \<Rightarrow> dialog list \<times> string \<times> focus" where
  "effects [] s = ([], s)"
| "effects ((d, None) # ds) s = effects ds s"
| "effects ((d, Some e) # ds) s = (let (e', s') = run_effect d e s; (es, s'') = effects ds s' in (e' # es, s''))"

definition commit :: "(dialog \<Rightarrow> dialog option) \<Rightarrow> page \<Rightarrow> page" where
  "commit f p =
     (let ds = map (\<lambda>d. (d, f d)) (pg_dialogs p);
          (es, overflow, focus) = effects ds (cleanups ds (pg_overflow p, pg_focus p))
      in \<lparr>pg_overflow = overflow, pg_focus = focus, pg_dialogs = es\<rparr>)"

subsection \<open>What happens to the page\<close>

text \<open>
  The button of a row, the button of its dialog, a press beside the dialog, the two keys the dialogs
  listen to, a focus that the browser moves, a report of an agent that leaves it with so many
  attributes, a row that goes away and one that comes. Where a press beside the dialog leaves the
  focus is up to the browser.
\<close>

datatype dialog_event = Open string | Closed string | Beside string focus | Escape | Tab | Moved focus | Reported string nat | Gone string | Listed string nat

definition on_dialog :: "string \<Rightarrow> (dialog \<Rightarrow> dialog) \<Rightarrow> dialog \<Rightarrow> dialog option" where
  "on_dialog uid g d = Some (if dg_uid d = uid then g d else d)"

fun focus_last :: "dialog list \<Rightarrow> focus \<Rightarrow> focus" where
  "focus_last [] f = f"
| "focus_last (d # ds) f = focus_last ds (if dialog_shown d then Close (dg_uid d) else f)"

definition dialog_at :: "string \<Rightarrow> page \<Rightarrow> dialog option" where
  "dialog_at uid p = find (\<lambda>d. dg_uid d = uid) (pg_dialogs p)"

fun dialog_step :: "dialog_event \<Rightarrow> page \<Rightarrow> page option" where
  "dialog_step (Open uid) p = (case dialog_at uid p of
     Some d \<Rightarrow> if dg_count d = 0 then None else Some (commit (on_dialog uid (\<lambda>d. d\<lparr>dg_open := True\<rparr>)) (p\<lparr>pg_focus := Trigger uid\<rparr>))
   | None \<Rightarrow> None)"
| "dialog_step (Closed uid) p = (case dialog_at uid p of
     Some d \<Rightarrow> if dialog_shown d then Some (commit (on_dialog uid (\<lambda>d. d\<lparr>dg_open := False\<rparr>)) p) else None
   | None \<Rightarrow> None)"
| "dialog_step (Beside uid f) p = (case dialog_at uid p of
     Some d \<Rightarrow> if dialog_shown d then Some (commit (on_dialog uid (\<lambda>d. d\<lparr>dg_open := False\<rparr>)) p\<lparr>pg_focus := f\<rparr>) else None
   | None \<Rightarrow> None)"
| "dialog_step (Moved f) p = Some (p\<lparr>pg_focus := f\<rparr>)"
| "dialog_step Escape p = Some (commit (\<lambda>d. Some (if dialog_shown d then d\<lparr>dg_open := False\<rparr> else d)) p)"
| "dialog_step Tab p = Some (p\<lparr>pg_focus := focus_last (pg_dialogs p) (pg_focus p)\<rparr>)"
| "dialog_step (Reported uid n) p = Some (commit (on_dialog uid (\<lambda>d. d\<lparr>dg_count := n\<rparr>)) p)"
| "dialog_step (Gone uid) p = Some (commit (\<lambda>d. if dg_uid d = uid then None else Some d) p)"
| "dialog_step (Listed uid n) p = (if dialog_at uid p \<noteq> None then None
     else Some (p\<lparr>pg_dialogs := pg_dialogs p @ [\<lparr>dg_uid = uid, dg_open = False, dg_count = n, dg_running = None\<rparr>]\<rparr>))"

fun dialog_run :: "dialog_event list \<Rightarrow> page \<Rightarrow> page option" where
  "dialog_run [] p = Some p"
| "dialog_run (e # es) p = (case dialog_step e p of Some p' \<Rightarrow> dialog_run es p' | None \<Rightarrow> None)"

definition fleet_page :: "string \<Rightarrow> page" where
  "fleet_page overflow = \<lparr>pg_overflow = overflow, pg_focus = Elsewhere, pg_dialogs = []\<rparr>"

subsection \<open>One dialog at a time\<close>

definition one_open :: "page \<Rightarrow> bool" where
  "one_open p \<longleftrightarrow> length (filter dg_open (pg_dialogs p)) \<le> 1"

text \<open>A run in which at most one dialog is open after every event, shown or not.\<close>

fun alone_run :: "dialog_event list \<Rightarrow> page \<Rightarrow> page option" where
  "alone_run [] p = Some p"
| "alone_run (e # es) p = (case dialog_step e p of
     Some p' \<Rightarrow> if one_open p' then alone_run es p' else None
   | None \<Rightarrow> None)"

definition saved :: "string \<Rightarrow> dialog \<Rightarrow> bool" where
  "saved b d \<longleftrightarrow> dg_running d = (if dialog_shown d then Some b else None)"

definition keeps_running :: "(dialog \<times> dialog option) list \<Rightarrow> bool" where
  "keeps_running ds \<longleftrightarrow> (\<forall>(d, e)\<in>set ds. case e of Some e \<Rightarrow> dg_running e = dg_running d | None \<Rightarrow> True)"

definition replaced :: "dialog \<times> dialog option \<Rightarrow> bool" where
  "replaced = (\<lambda>(d, e). case e of Some e \<Rightarrow> \<not> same_deps d e | None \<Rightarrow> True)"

lemma same_deps_shown: "same_deps d e \<Longrightarrow> dialog_shown e = dialog_shown d"
  by (simp add: same_deps_def dialog_shown_def)

lemma shown_running [simp]: "dialog_shown (e\<lparr>dg_running := r\<rparr>) = dialog_shown e"
  by (simp add: dialog_shown_def)

lemma cleanups_overflow:
  assumes "\<forall>(d, e)\<in>set ds. saved b d"
  shows "fst (cleanups ds (ov, f)) = (if \<exists>x\<in>set ds. dialog_shown (fst x) \<and> replaced x then b else ov)"
  using assms
proof (induction ds arbitrary: ov f)
  case (Cons x ds)
  obtain d e where x: "x = (d, e)" by (cases x)
  have "fst (cleanup d e (ov, f)) = (if dialog_shown d \<and> replaced x then b else ov)"
    using Cons.prems by (auto simp: x cleanup_def saved_def replaced_def split: option.splits)
  then obtain f' where "cleanup d e (ov, f) = (if dialog_shown d \<and> replaced x then b else ov, f')"
    by (metis prod.collapse)
  then show ?case using Cons.IH Cons.prems by (auto simp: x)
qed simp

lemma effects_overflow:
  "fst (snd (effects ds (ov, f))) = (if \<exists>(d, e)\<in>set ds. \<exists>e'. e = Some e' \<and> dialog_shown e' \<and> \<not> same_deps d e' then ''hidden'' else ov)"
proof (induction ds "(ov, f)" arbitrary: ov f rule: effects.induct)
  case (3 d e ds)
  obtain e' ov' f' where r: "run_effect d e (ov, f) = (e', ov', f')" by (metis prod_cases3)
  then have "ov' = (if dialog_shown e \<and> \<not> same_deps d e then ''hidden'' else ov)"
    by (auto simp: run_effect_def split: if_splits)
  with 3 r show ?case by (auto split: prod.splits)
qed auto

text \<open>An effect changes nothing of a dialog but what it saved.\<close>

lemma effects_map:
  assumes "\<And>e r. q (e\<lparr>dg_running := r\<rparr>) = q e"
  shows "map q (fst (effects ds s)) = map q (List.map_filter snd ds)"
proof (induction ds s rule: effects.induct)
  case (3 d e ds s)
  obtain e' s' where r: "run_effect d e s = (e', s')" by (metis surj_pair)
  then have "q e' = q e" using assms by (cases s) (auto simp: run_effect_def split: if_splits)
  with 3 [OF r [symmetric]] r show ?case by (auto simp: map_filter_simps split: prod.splits)
qed (auto simp: map_filter_simps)

lemma effects_open: "map (\<lambda>d. (dg_open d, dialog_shown d)) (fst (effects ds s)) = map (\<lambda>d. (dg_open d, dialog_shown d)) (List.map_filter snd ds)"
  by (rule effects_map) simp

lemma effects_saved:
  assumes "\<forall>(d, e)\<in>set ds. saved b d" "keeps_running ds"
    "\<exists>(d, e)\<in>set ds. \<exists>e'. e = Some e' \<and> dialog_shown e' \<and> \<not> same_deps d e' \<Longrightarrow> ov = b"
    "length (filter dg_open (List.map_filter snd ds)) \<le> 1"
  shows "\<forall>d\<in>set (fst (effects ds (ov, f))). saved b d"
  using assms
proof (induction ds "(ov, f)" arbitrary: ov f rule: effects.induct)
  case (2 d ds)
  then show ?case by (auto simp: map_filter_simps keeps_running_def)
next
  case (3 d e ds)
  obtain e' ov' f' where r: "run_effect d e (ov, f) = (e', ov', f')" by (metis prod_cases3)
  have e': "saved b e'"
    using 3(2,3,4) r by (auto simp: run_effect_def saved_def keeps_running_def same_deps_shown split: if_splits)
  have none: "\<not> (dialog_shown x \<and> Some x \<in> snd ` set ds)" if "dialog_shown e" for x
  proof
    assume "dialog_shown x \<and> Some x \<in> snd ` set ds"
    then have "x \<in> set (filter dg_open (List.map_filter snd ds))" by (force simp: map_filter_def dialog_shown_def)
    then have "1 \<le> length (filter dg_open (List.map_filter snd ds))" by (cases "filter dg_open (List.map_filter snd ds)") auto
    then show False using 3(5) that by (simp add: map_filter_simps dialog_shown_def)
  qed
  have "ov' = b" if "\<exists>(d, e)\<in>set ds. \<exists>e'. e = Some e' \<and> dialog_shown e' \<and> \<not> same_deps d e'"
  proof -
    have "\<not> dialog_shown e" using none that by (force simp: image_iff)
    then have "ov' = ov" using r by (auto simp: run_effect_def split: if_splits)
    then show ?thesis using 3(4) that by auto
  qed
  moreover have "length (filter dg_open (List.map_filter snd ds)) \<le> 1" using 3(5) by (auto simp: map_filter_simps split: if_splits)
  ultimately have "\<forall>d\<in>set (fst (effects ds (ov', f'))). saved b d"
    using 3(1) [OF r [symmetric]] 3(2,3) by (auto simp: keeps_running_def)
  then show ?case using e' r by (auto split: prod.splits)
qed simp

text \<open>What holds on a page whose dialogs are open one at a time.\<close>

definition calm :: "string \<Rightarrow> page \<Rightarrow> bool" where
  "calm b p \<longleftrightarrow> one_open p \<and> (\<forall>d\<in>set (pg_dialogs p). saved b d) \<and>
     pg_overflow p = (if \<exists>d\<in>set (pg_dialogs p). dialog_shown d then ''hidden'' else b)"

lemma only_shown:
  assumes "length (filter dg_open ds) \<le> 1" "d \<in> set ds" "e \<in> set ds" "dialog_shown d" "dialog_shown e"
  shows "d = e"
proof -
  have "d \<in> set (filter dg_open ds)" "e \<in> set (filter dg_open ds)" using assms by (auto simp: dialog_shown_def)
  with assms(1) show ?thesis by (cases "filter dg_open ds" rule: list.exhaust) (auto simp: Suc_le_eq)
qed

lemma one_chosen: "d \<in> set ds \<Longrightarrow> f d = Some e \<Longrightarrow> P e \<Longrightarrow> 1 \<le> length (filter P (List.map_filter f ds))"
  by (induction ds) (auto simp: map_filter_simps split: option.splits)

lemma two_chosen:
  assumes "c \<noteq> d" "c \<in> set ds" "d \<in> set ds" "f c = Some x" "f d = Some y" "P x" "P y"
  shows "2 \<le> length (filter P (List.map_filter f ds))"
  using assms(2,3)
proof (induction ds)
  case (Cons z ds)
  then show ?case using assms one_chosen [of c ds f x P] one_chosen [of d ds f y P]
    by (auto simp: map_filter_simps split: option.splits)
qed simp

text \<open>The overflow that the cleanups leave, when an effect is to run and when none is.\<close>

definition after_cleanups :: "string \<Rightarrow> (dialog \<Rightarrow> dialog option) \<Rightarrow> page \<Rightarrow> string" where
  "after_cleanups b f p =
     (if \<exists>d\<in>set (pg_dialogs p). dialog_shown d \<and> replaced (d, f d) then b else pg_overflow p)"

definition effect_runs :: "(dialog \<Rightarrow> dialog option) \<Rightarrow> dialog list \<Rightarrow> bool" where
  "effect_runs f ds \<longleftrightarrow> (\<exists>d\<in>set ds. \<exists>e. f d = Some e \<and> dialog_shown e \<and> \<not> same_deps d e)"

lemma cleanups_before_effect:
  assumes "calm b p" and one: "length (filter dg_open (List.map_filter f (pg_dialogs p))) \<le> 1"
    and new: "effect_runs f (pg_dialogs p)"
  shows "after_cleanups b f p = b"
proof (cases "\<exists>d\<in>set (pg_dialogs p). dialog_shown d")
  case True
  then obtain c where c: "c \<in> set (pg_dialogs p)" "dialog_shown c" by blast
  obtain d e where d: "d \<in> set (pg_dialogs p)" "f d = Some e" "dialog_shown e" "\<not> same_deps d e"
    using new by (auto simp: effect_runs_def)
  have "replaced (c, f c)"
  proof (rule ccontr)
    assume "\<not> replaced (c, f c)"
    then obtain x where x: "f c = Some x" "same_deps c x" by (auto simp: replaced_def split: option.splits)
    then have "c \<noteq> d" using d by auto
    moreover have "dg_open x" "dg_open e" using x c d same_deps_shown by (auto simp: dialog_shown_def same_deps_def)
    ultimately show False using two_chosen [of c d "pg_dialogs p" f x e dg_open] c d x one by simp
  qed
  then show ?thesis using c by (auto simp: after_cleanups_def)
qed (use assms(1) in \<open>auto simp: calm_def after_cleanups_def\<close>)

lemma cleanups_without_effect:
  assumes "calm b p" and old: "\<not> effect_runs f (pg_dialogs p)"
  shows "after_cleanups b f p =
    (if \<exists>d\<in>set (pg_dialogs p). \<exists>e. f d = Some e \<and> dialog_shown e then ''hidden'' else b)"
proof (cases "\<exists>d\<in>set (pg_dialogs p). \<exists>e. f d = Some e \<and> dialog_shown e")
  case True
  then obtain d e where d: "d \<in> set (pg_dialogs p)" "f d = Some e" "dialog_shown e" "same_deps d e"
    using old by (auto simp: effect_runs_def)
  then have sd: "dialog_shown d" "\<not> replaced (d, f d)" using same_deps_shown by (auto simp: replaced_def)
  have "c = d" if "c \<in> set (pg_dialogs p)" "dialog_shown c" for c
    using only_shown [of "pg_dialogs p"] that d sd assms(1) by (auto simp: calm_def one_open_def)
  then have "after_cleanups b f p = pg_overflow p" using sd by (auto simp: after_cleanups_def)
  then show ?thesis using True d(1) sd assms(1) by (auto simp: calm_def)
next
  case False
  have "replaced (d, f d)" if "d \<in> set (pg_dialogs p)" "dialog_shown d" for d
    using that False same_deps_shown by (auto simp: replaced_def split: option.splits)
  then show ?thesis using False assms(1) by (auto simp: calm_def after_cleanups_def)
qed

lemma commit_calm:
  assumes "calm b p" "one_open (commit f p)"
    and keeps: "\<And>d e. d \<in> set (pg_dialogs p) \<Longrightarrow> f d = Some e \<Longrightarrow> dg_running e = dg_running d"
  shows "calm b (commit f p)"
proof -
  let ?ds = "map (\<lambda>d. (d, f d)) (pg_dialogs p)"
  obtain ov fc where c: "cleanups ?ds (pg_overflow p, pg_focus p) = (ov, fc)" by (metis surj_pair)
  have before: "\<forall>(d, e)\<in>set ?ds. saved b d" using assms(1) by (auto simp: calm_def)
  have ov: "ov = after_cleanups b f p"
    using cleanups_overflow [OF before, of "pg_overflow p" "pg_focus p"] c by (simp add: after_cleanups_def)
  obtain es ov' fc' where e: "effects ?ds (ov, fc) = (es, ov', fc')" by (metis prod_cases3)
  have p': "commit f p = \<lparr>pg_overflow = ov', pg_focus = fc', pg_dialogs = es\<rparr>" by (simp add: commit_def c e)
  have os: "map (\<lambda>d. (dg_open d, dialog_shown d)) es = map (\<lambda>d. (dg_open d, dialog_shown d)) (List.map_filter f (pg_dialogs p))"
    using effects_open [of ?ds "(ov, fc)"] e by (simp add: map_filter_def filter_map o_def)
  have one: "length (filter dg_open (List.map_filter f (pg_dialogs p))) \<le> 1"
    using assms(2) arg_cong [OF os, of "\<lambda>xs. length (filter fst xs)"] by (simp add: p' one_open_def filter_map o_def)
  have after: "(\<exists>d\<in>set es. dialog_shown d) \<longleftrightarrow> (\<exists>d\<in>set (pg_dialogs p). \<exists>e. f d = Some e \<and> dialog_shown e)"
    using arg_cong [OF os, of "\<lambda>xs. True \<in> snd ` set xs"]
    by (simp add: image_image image_iff map_filter_def) fastforce
  have "\<forall>d\<in>set es. saved b d"
    using effects_saved [OF before, of ov fc] e cleanups_before_effect [OF assms(1) one] ov one keeps
    by (auto simp: keeps_running_def map_filter_def filter_map o_def effect_runs_def split: option.splits)
  moreover have "ov' = (if effect_runs f (pg_dialogs p) then ''hidden'' else ov)"
    using effects_overflow [of ?ds ov fc] e by (auto simp: image_iff effect_runs_def)
  moreover have "\<exists>d\<in>set es. dialog_shown d" if "effect_runs f (pg_dialogs p)"
    using that after by (auto simp: effect_runs_def)
  ultimately show ?thesis using assms(2) after ov cleanups_without_effect [OF assms(1), of f] by (auto simp: calm_def p')
qed

lemma calm_focus [simp]: "calm b (p\<lparr>pg_focus := f\<rparr>) = calm b p"
  by (simp add: calm_def one_open_def)

lemma one_open_focus [simp]: "one_open (p\<lparr>pg_focus := f\<rparr>) = one_open p"
  by (simp add: one_open_def)

lemma calm_listed: "calm b p \<Longrightarrow> \<not> dg_open d \<Longrightarrow> dg_running d = None \<Longrightarrow> calm b (p\<lparr>pg_dialogs := pg_dialogs p @ [d]\<rparr>)"
  by (simp add: calm_def one_open_def saved_def dialog_shown_def)

lemma step_calm:
  assumes "calm b p" "dialog_step e p = Some p'" "one_open p'"
  shows "calm b p'"
proof (cases e)
  case (Open uid)
  then obtain "p' = commit (on_dialog uid (\<lambda>d. d\<lparr>dg_open := True\<rparr>)) (p\<lparr>pg_focus := Trigger uid\<rparr>)"
    using assms(2) by (auto split: option.splits if_splits)
  then show ?thesis using assms by (auto intro!: commit_calm simp: on_dialog_def)
next
  case (Closed uid)
  then obtain "p' = commit (on_dialog uid (\<lambda>d. d\<lparr>dg_open := False\<rparr>)) p"
    using assms(2) by (auto split: option.splits if_splits)
  then show ?thesis using assms by (auto intro!: commit_calm simp: on_dialog_def)
next
  case (Beside uid f)
  then obtain "p' = commit (on_dialog uid (\<lambda>d. d\<lparr>dg_open := False\<rparr>)) p\<lparr>pg_focus := f\<rparr>"
    using assms(2) by (auto split: option.splits if_splits)
  then show ?thesis using assms by (auto intro!: commit_calm simp: on_dialog_def)
next
  case Escape
  then show ?thesis using assms by (auto intro!: commit_calm)
next
  case (Reported uid n)
  then show ?thesis using assms by (auto intro!: commit_calm simp: on_dialog_def)
next
  case (Gone uid)
  then show ?thesis using assms by (auto intro!: commit_calm split: if_splits)
next
  case (Listed uid n)
  then show ?thesis using assms by (auto intro!: calm_listed split: if_splits)
qed (use assms in auto)

lemma run_calm: "calm b p \<Longrightarrow> alone_run es p = Some p' \<Longrightarrow> calm b p'"
  by (induction es p rule: alone_run.induct) (auto split: option.splits if_splits intro: step_calm)

lemma some_case: "(\<exists>p. m = Some p \<and> P p) \<longleftrightarrow> (case m of Some p \<Rightarrow> P p | None \<Rightarrow> False)"
  by (cases m) auto

text \<open>C28: While at most one dialog is open at a time, the page cannot be scrolled exactly while a dialog is
  shown: whatever the agents report and whatever rows come and go, the style of the page is the
  dialog's while one is shown, and the page's own again as soon as none is.\<close>

theorem scrolling_is_locked_while_shown:
  assumes "alone_run es (fleet_page overflow) = Some p"
  shows "pg_overflow p = (if \<exists>d\<in>set (pg_dialogs p). dialog_shown d then ''hidden'' else overflow)"
proof -
  have "calm overflow (fleet_page overflow)" by (simp add: calm_def fleet_page_def one_open_def)
  then have "calm overflow p" using assms run_calm by blast
  then show ?thesis by (simp add: calm_def)
qed

theorem scrolling_is_locked_while_shown_witness:
  "\<exists>p. alone_run [Listed ''a'' 2, Listed ''b'' 1, Open ''b'', Reported ''b'' 0] (fleet_page ''auto'') = Some p \<and> pg_overflow p = ''auto''"
proof -
  have "\<exists>p. alone_run [Listed ''a'' 2, Listed ''b'' 1, Open ''b'', Reported ''b'' 0] (fleet_page ''auto'') = Some p \<and>
      (\<forall>d\<in>set (pg_dialogs p). \<not> dialog_shown d)" unfolding some_case by code_simp
  then obtain p where p: "alone_run [Listed ''a'' 2, Listed ''b'' 1, Open ''b'', Reported ''b'' 0] (fleet_page ''auto'') = Some p"
    and none: "\<forall>d\<in>set (pg_dialogs p). \<not> dialog_shown d" by blast
  show ?thesis using p none scrolling_is_locked_while_shown [OF p] by simp
qed

subsection \<open>Two dialogs\<close>

text \<open>Every dialog has an identifier of its own: a row that is listed twice is one row.\<close>

definition uids :: "page \<Rightarrow> string list" where
  "uids p = map dg_uid (pg_dialogs p)"

lemma uids_commit: "uids (commit f p) = map dg_uid (List.map_filter f (pg_dialogs p))"
proof -
  let ?ds = "map (\<lambda>d. (d, f d)) (pg_dialogs p)"
  have "map dg_uid (fst (effects ?ds s)) = map dg_uid (List.map_filter f (pg_dialogs p))" for s
    by (subst effects_map) (auto simp: map_filter_def filter_map o_def)
  then show ?thesis by (simp add: commit_def uids_def Let_def split_def)
qed

lemma uids_kept: "(\<And>d e. f d = Some e \<Longrightarrow> dg_uid e = dg_uid d) \<Longrightarrow> distinct (map dg_uid ds) \<Longrightarrow>
    distinct (map dg_uid (List.map_filter f ds)) \<and> set (map dg_uid (List.map_filter f ds)) \<subseteq> set (map dg_uid ds)"
proof (induction ds)
  case (Cons d ds)
  then show ?case by (cases "f d") (auto simp: map_filter_simps)
qed (simp add: map_filter_simps)

lemma uids_focus [simp]: "uids (p\<lparr>pg_focus := f\<rparr>) = uids p"
  by (simp add: uids_def)

lemma distinct_commit:
  "distinct (uids p) \<Longrightarrow> (\<And>d e. f d = Some e \<Longrightarrow> dg_uid e = dg_uid d) \<Longrightarrow> distinct (uids (commit f p))"
  using uids_kept [of f "pg_dialogs p"] by (simp add: uids_commit) (simp add: uids_def)

lemma step_distinct:
  assumes "dialog_step e p = Some p'" "distinct (uids p)"
  shows "distinct (uids p')"
  using assms
proof (cases e)
  case (Listed uid n)
  then show ?thesis using assms
    by (auto simp: uids_def dialog_at_def find_None_iff split: if_splits)
qed (auto simp: on_dialog_def intro!: distinct_commit split: option.splits if_splits)

lemma run_distinct: "alone_run es p = Some p' \<Longrightarrow> distinct (uids p) \<Longrightarrow> distinct (uids p')"
  by (induction es p rule: alone_run.induct) (auto split: option.splits if_splits intro: step_distinct)

lemma dialog_at_of: "distinct (uids p) \<Longrightarrow> d \<in> set (pg_dialogs p) \<Longrightarrow> dialog_at (dg_uid d) p = Some d"
proof -
  have "distinct (map dg_uid ds) \<Longrightarrow> d \<in> set ds \<Longrightarrow> find (\<lambda>x. dg_uid x = dg_uid d) ds = Some d" for ds
    by (induction ds) (auto simp: image_iff)
  then show "distinct (uids p) \<Longrightarrow> d \<in> set (pg_dialogs p) \<Longrightarrow> dialog_at (dg_uid d) p = Some d"
    by (simp add: uids_def dialog_at_def)
qed

lemma dialog_at_in: "dialog_at uid p = Some d \<Longrightarrow> d \<in> set (pg_dialogs p) \<and> dg_uid d = uid"
  by (auto simp: dialog_at_def find_Some_iff)

text \<open>A rendering in which one dialog changes runs the clean-up and the effect of this dialog alone.\<close>

lemma cleanups_untouched: "\<forall>d\<in>set ds. dg_uid d \<noteq> uid \<Longrightarrow> cleanups (map (\<lambda>d. (d, on_dialog uid g d)) ds) s = s"
  by (induction ds) (simp_all add: on_dialog_def cleanup_def same_deps_def split_def)

lemma effects_untouched: "\<forall>d\<in>set ds. dg_uid d \<noteq> uid \<Longrightarrow> effects (map (\<lambda>d. (d, on_dialog uid g d)) ds) s = (ds, s)"
  by (induction ds) (simp_all add: on_dialog_def run_effect_def same_deps_def split_def)

lemma cleanups_one:
  "distinct (map dg_uid ds) \<Longrightarrow> d \<in> set ds \<Longrightarrow>
     cleanups (map (\<lambda>x. (x, on_dialog (dg_uid d) g x)) ds) s = cleanup d (Some (g d)) s"
proof (induction ds arbitrary: s)
  case (Cons x ds)
  show ?case
  proof (cases "x = d")
    case True
    have "\<forall>y\<in>set ds. dg_uid y \<noteq> dg_uid d" using Cons.prems True by (auto simp: image_iff)
    from cleanups_untouched [OF this, of g "cleanup d (Some (g d)) s"] show ?thesis
      using True by (simp add: on_dialog_def)
  next
    case False
    then have "dg_uid x \<noteq> dg_uid d" using Cons.prems by force
    then show ?thesis using Cons False by (simp add: on_dialog_def cleanup_def same_deps_def split_def)
  qed
qed simp

lemma effects_one:
  "distinct (map dg_uid ds) \<Longrightarrow> d \<in> set ds \<Longrightarrow> run_effect d (g d) s = (e, s') \<Longrightarrow>
     effects (map (\<lambda>x. (x, on_dialog (dg_uid d) g x)) ds) s = (map (\<lambda>x. if dg_uid x = dg_uid d then e else x) ds, s')"
proof (induction ds arbitrary: s)
  case (Cons x ds)
  show ?case
  proof (cases "x = d")
    case True
    have rest: "\<forall>y\<in>set ds. dg_uid y \<noteq> dg_uid d" using Cons.prems True by (auto simp: image_iff)
    then have "map (\<lambda>y. if dg_uid y = dg_uid d then e else y) ds = ds" by (simp add: map_idI)
    then show ?thesis using True Cons.prems(3) effects_untouched [OF rest, of g s'] by (simp add: on_dialog_def)
  next
    case False
    then have "dg_uid x \<noteq> dg_uid d" using Cons.prems by force
    then show ?thesis using Cons False by (simp add: on_dialog_def run_effect_def same_deps_def split_def)
  qed
qed simp

lemma find_change:
  "dg_uid e = u \<Longrightarrow>
   find (\<lambda>x. dg_uid x = v) (map (\<lambda>x. if dg_uid x = u then e else x) ds) =
     (if v = u then (case find (\<lambda>x. dg_uid x = u) ds of Some _ \<Rightarrow> Some e | None \<Rightarrow> None) else find (\<lambda>x. dg_uid x = v) ds)"
  by (induction ds) auto

lemma commit_one:
  assumes "distinct (uids p)" "dialog_at u p = Some d" "dg_uid (g d) = u"
    and "run_effect d (g d) (cleanup d (Some (g d)) (pg_overflow p, pg_focus p)) = (e, ov, fc)"
  shows "pg_overflow (commit (on_dialog u g) p) = ov" "uids (commit (on_dialog u g) p) = uids p"
    "dialog_at v (commit (on_dialog u g) p) = (if v = u then Some e else dialog_at v p)"
proof -
  have d: "d \<in> set (pg_dialogs p)" "dg_uid d = u" using dialog_at_in [OF assms(2)] by simp_all
  have e: "dg_uid e = u" using assms(3,4) by (auto simp: run_effect_def split: prod.splits if_splits)
  have c: "commit (on_dialog u g) p = \<lparr>pg_overflow = ov, pg_focus = fc,
      pg_dialogs = map (\<lambda>x. if dg_uid x = u then e else x) (pg_dialogs p)\<rparr>"
    using cleanups_one [of "pg_dialogs p" d g] effects_one [of "pg_dialogs p" d g _ e "(ov, fc)"] assms(1,4) d
    by (simp add: commit_def uids_def)
  show "pg_overflow (commit (on_dialog u g) p) = ov" by (simp add: c)
  show "uids (commit (on_dialog u g) p) = uids p" using e by (auto simp: c uids_def)
  show "dialog_at v (commit (on_dialog u g) p) = (if v = u then Some e else dialog_at v p)"
    using find_change [of e u v "pg_dialogs p"] assms(2) e by (auto simp: c dialog_at_def)
qed

text \<open>The one rendering of each event, for a dialog that has attributes and for one that loses or gets them.\<close>

lemma open_one:
  assumes "distinct (uids p)" "dialog_at u p = Some d" "\<not> dg_open d" "dg_count d \<noteq> 0" "dg_running d = None"
  obtains p' where "dialog_step (Open u) p = Some p'" "pg_overflow p' = ''hidden''" "uids p' = uids p"
    "\<And>v. dialog_at v p' = (if v = u then Some (d\<lparr>dg_open := True, dg_running := Some (pg_overflow p)\<rparr>) else dialog_at v p)"
proof -
  let ?p = "p\<lparr>pg_focus := Trigger u\<rparr>" and ?g = "\<lambda>d. d\<lparr>dg_open := True\<rparr>"
  have u: "dg_uid d = u" and at: "dialog_at v ?p = dialog_at v p" for v
    using dialog_at_in [OF assms(2)] by (simp_all add: dialog_at_def)
  have r: "run_effect d (?g d) (cleanup d (Some (?g d)) (pg_overflow ?p, pg_focus ?p)) =
      (d\<lparr>dg_open := True, dg_running := Some (pg_overflow p)\<rparr>, ''hidden'', Close u)"
    using assms(3-5) u by (simp add: run_effect_def cleanup_def same_deps_def dialog_shown_def)
  have d: "distinct (uids ?p)" "dialog_at u ?p = Some d" "dg_uid (?g d) = u" using assms(1,2) u at by simp_all
  show thesis by (rule that [of "commit (on_dialog u ?g) ?p"])
      (use assms(2,4) commit_one [where g = ?g, OF d r] at in simp_all)
qed

lemma close_one:
  assumes "distinct (uids p)" "dialog_at u p = Some d" "dialog_shown d" "dg_running d = Some previous"
  obtains p' where "dialog_step (Closed u) p = Some p'" "pg_overflow p' = previous" "uids p' = uids p"
    "\<And>v. dialog_at v p' = (if v = u then Some (d\<lparr>dg_open := False, dg_running := None\<rparr>) else dialog_at v p)"
proof -
  let ?g = "\<lambda>d. d\<lparr>dg_open := False\<rparr>"
  have u: "dg_uid (?g d) = u" using dialog_at_in [OF assms(2)] by simp
  obtain fc where r: "run_effect d (?g d) (cleanup d (Some (?g d)) (pg_overflow p, pg_focus p)) =
      (d\<lparr>dg_open := False, dg_running := None\<rparr>, previous, fc)"
    using assms(3,4) by (simp add: run_effect_def cleanup_def same_deps_def dialog_shown_def)
  show thesis by (rule that [of "commit (on_dialog u ?g) p"])
      (use assms(2,3) commit_one [where g = ?g, OF assms(1,2) u r] in simp_all)
qed

lemma emptied_one:
  assumes "distinct (uids p)" "dialog_at u p = Some d" "dialog_shown d" "dg_running d = Some previous"
  obtains p' where "dialog_step (Reported u 0) p = Some p'" "pg_overflow p' = previous" "uids p' = uids p"
    "\<And>v. dialog_at v p' = (if v = u then Some (d\<lparr>dg_count := 0, dg_running := None\<rparr>) else dialog_at v p)"
proof -
  let ?g = "\<lambda>d. d\<lparr>dg_count := 0\<rparr>"
  have u: "dg_uid (?g d) = u" using dialog_at_in [OF assms(2)] by simp
  obtain fc where r: "run_effect d (?g d) (cleanup d (Some (?g d)) (pg_overflow p, pg_focus p)) =
      (d\<lparr>dg_count := 0, dg_running := None\<rparr>, previous, fc)"
    using assms(3,4) by (simp add: run_effect_def cleanup_def same_deps_def dialog_shown_def)
  show thesis by (rule that [of "commit (on_dialog u ?g) p"])
      (use assms(2,3) commit_one [where g = ?g, OF assms(1,2) u r] in simp_all)
qed

lemma filled_one:
  assumes "distinct (uids p)" "dialog_at u p = Some d" "dg_open d" "dg_count d = 0" "dg_running d = None" "n \<noteq> 0"
  obtains p' where "dialog_step (Reported u n) p = Some p'" "pg_overflow p' = ''hidden''" "uids p' = uids p"
    "\<And>v. dialog_at v p' = (if v = u then Some (d\<lparr>dg_count := n, dg_running := Some (pg_overflow p)\<rparr>) else dialog_at v p)"
proof -
  let ?g = "\<lambda>d. d\<lparr>dg_count := n\<rparr>"
  have u: "dg_uid (?g d) = u" using dialog_at_in [OF assms(2)] by simp
  obtain fc where r: "run_effect d (?g d) (cleanup d (Some (?g d)) (pg_overflow p, pg_focus p)) =
      (d\<lparr>dg_count := n, dg_running := Some (pg_overflow p)\<rparr>, ''hidden'', fc)"
    using assms(3-6) by (simp add: run_effect_def cleanup_def same_deps_def dialog_shown_def)
  show thesis by (rule that [of "commit (on_dialog u ?g) p"])
      (use assms(2,3) commit_one [where g = ?g, OF assms(1,2) u r] in simp_all)
qed

text \<open>C29: Two dialogs can leave the page locked for good. Take any page that was used one dialog at a time and has
  none open, whatever its own style, and any two of its rows with attributes. The agent of an open dialog reports
  no attributes: its dialog disappears but stays open. Another dialog is shown, and the first comes back with the
  next report and saves the style that the second has set. Once both are closed no dialog is open and the page
  cannot be scrolled, and that stays so whatever happens to it afterwards one dialog at a time.\<close>

theorem two_dialogs_leave_the_page_locked:
  assumes "alone_run es (fleet_page overflow) = Some p" "filter dg_open (pg_dialogs p) = []"
    and a: "dialog_at a p = Some d" "dg_count d \<noteq> 0" and b: "dialog_at b p = Some c" "dg_count c \<noteq> 0"
    and "a \<noteq> b" "n \<noteq> 0"
  shows "\<exists>p'. dialog_run [Open a, Reported a 0, Open b, Reported a n, Closed b, Closed a] p = Some p' \<and>
    filter dg_open (pg_dialogs p') = [] \<and> pg_overflow p' = ''hidden'' \<and>
    (\<forall>es' p''. alone_run es' p' = Some p'' \<longrightarrow> pg_overflow p'' = ''hidden'')"
proof -
  have "calm overflow (fleet_page overflow)" by (simp add: calm_def fleet_page_def one_open_def)
  then have calm: "calm overflow p" using assms(1) run_calm by blast
  have closed: "\<not> dg_open x" "dg_running x = None" if "dialog_at v p = Some x" for v x
    using dialog_at_in [OF that] calm assms(2) by (auto simp: filter_empty_conv calm_def saved_def dialog_shown_def)
  have dist: "distinct (uids p)" using run_distinct [OF assms(1)] by (simp add: fleet_page_def uids_def)
  obtain p1 where p1: "dialog_step (Open a) p = Some p1" "uids p1 = uids p"
    "\<And>v. dialog_at v p1 = (if v = a then Some (d\<lparr>dg_open := True, dg_running := Some (pg_overflow p)\<rparr>) else dialog_at v p)"
    using open_one [OF dist a(1) closed(1) [OF a(1)] a(2) closed(2) [OF a(1)]] by metis
  obtain p2 where p2: "dialog_step (Reported a 0) p1 = Some p2" "uids p2 = uids p"
    "\<And>v. dialog_at v p2 = (if v = a then Some (d\<lparr>dg_open := True, dg_count := 0, dg_running := None\<rparr>) else dialog_at v p)"
    by (rule emptied_one [of p1 a "d\<lparr>dg_open := True, dg_running := Some (pg_overflow p)\<rparr>" "pg_overflow p"])
      (use dist a p1 in \<open>auto simp: dialog_shown_def\<close>)
  obtain p3 where p3: "dialog_step (Open b) p2 = Some p3" "pg_overflow p3 = ''hidden''" "uids p3 = uids p"
    "\<And>v. dialog_at v p3 = (if v = b then Some (c\<lparr>dg_open := True, dg_running := Some (pg_overflow p2)\<rparr>) else dialog_at v p2)"
    by (rule open_one [of p2 b c]) (use dist b closed [OF b(1)] \<open>a \<noteq> b\<close> p2 in auto)
  obtain p4 where p4: "dialog_step (Reported a n) p3 = Some p4" "uids p4 = uids p"
    "\<And>v. dialog_at v p4 = (if v = a then Some (d\<lparr>dg_open := True, dg_count := n, dg_running := Some ''hidden''\<rparr>) else dialog_at v p3)"
    by (rule filled_one [of p3 a "d\<lparr>dg_open := True, dg_count := 0, dg_running := None\<rparr>" n])
      (use dist \<open>a \<noteq> b\<close> \<open>n \<noteq> 0\<close> p2 p3 in auto)
  obtain p5 where p5: "dialog_step (Closed b) p4 = Some p5" "uids p5 = uids p"
    "\<And>v. dialog_at v p5 = (if v = b then Some (c\<lparr>dg_open := False, dg_running := None\<rparr>) else dialog_at v p4)"
    by (rule close_one [of p4 b "c\<lparr>dg_open := True, dg_running := Some (pg_overflow p2)\<rparr>" "pg_overflow p2"])
      (use dist \<open>a \<noteq> b\<close> b p3 p4 in \<open>auto simp: dialog_shown_def\<close>)
  obtain p6 where p6: "dialog_step (Closed a) p5 = Some p6" "pg_overflow p6 = ''hidden''" "uids p6 = uids p"
    "\<And>v. dialog_at v p6 = (if v = a then Some (d\<lparr>dg_open := False, dg_count := n, dg_running := None\<rparr>) else dialog_at v p5)"
    by (rule close_one [of p5 a "d\<lparr>dg_open := True, dg_count := n, dg_running := Some ''hidden''\<rparr>" "''hidden''"])
      (use dist \<open>a \<noteq> b\<close> \<open>n \<noteq> 0\<close> p4 p5 in \<open>auto simp: dialog_shown_def\<close>)
  have none: "\<not> dg_open x \<and> dg_running x = None" if "x \<in> set (pg_dialogs p6)" for x
    using dialog_at_of [of p6 x] that dist closed p2(3) p3(4) p4(3) p5(3) p6(3,4) by (auto split: if_splits)
  then have "calm ''hidden'' p6" using p6(2) by (auto simp: calm_def one_open_def saved_def dialog_shown_def filter_False)
  note calm6 = this
  have "pg_overflow p'' = ''hidden''" if "alone_run es' p6 = Some p''" for es' p''
    using run_calm [OF calm6 that] by (simp add: calm_def split: if_splits)
  then show ?thesis using p1(1) p2(1) p3(1) p4(1) p5(1) p6(1,2) none by (auto simp: filter_empty_conv)
qed

theorem two_dialogs_leave_the_page_locked_witness:
  "\<exists>p'. dialog_run [Listed ''a'' 2, Listed ''b'' 1, Open ''a'', Reported ''a'' 0, Open ''b'', Reported ''a'' 2, Closed ''b'', Closed ''a'']
      (fleet_page ''auto'') = Some p' \<and> filter dg_open (pg_dialogs p') = [] \<and> pg_overflow p' = ''hidden''"
proof -
  let ?d = "\<lparr>dg_uid = ''a'', dg_open = False, dg_count = 2, dg_running = None\<rparr>"
  let ?c = "\<lparr>dg_uid = ''b'', dg_open = False, dg_count = 1, dg_running = None\<rparr>"
  let ?p = "\<lparr>pg_overflow = ''auto'', pg_focus = Elsewhere, pg_dialogs = [?d, ?c]\<rparr>"
  have "alone_run [Listed ''a'' 2, Listed ''b'' 1] (fleet_page ''auto'') = Some ?p" "filter dg_open (pg_dialogs ?p) = []"
    "dialog_at ''a'' ?p = Some ?d" "dg_count ?d \<noteq> 0" "dialog_at ''b'' ?p = Some ?c" "dg_count ?c \<noteq> 0"
    "''a'' \<noteq> ''b''" "(2::nat) \<noteq> 0"
    by (simp_all add: fleet_page_def dialog_at_def one_open_def)
  note locked = two_dialogs_leave_the_page_locked [OF this]
  have "dialog_run (Listed ''a'' 2 # Listed ''b'' 1 # es) (fleet_page ''auto'') = dialog_run es ?p" for es
    by (simp add: fleet_page_def dialog_at_def)
  then show ?thesis using locked by (simp only:) blast
qed

end
