(* ===== verification/Widgets.thy ===== *)
theory Widgets
  imports Views Selection App_Handlers
begin

section \<open>Widgets: filters, pickers, documents and steps (\<open>ui/src/components\<close>, \<open>ui/src/main.jsx\<close>)\<close>

text \<open>
  A value between braces in the markup: texts and numbers are shown, the elements of an array one after
  the other, an object raises, and the other values show nothing.
\<close>

lemma map_opt_cong [fundef_cong]: "xs = ys \<Longrightarrow> (\<And>x. x \<in> set ys \<Longrightarrow> f x = g x) \<Longrightarrow> map_opt f xs = map_opt g ys"
  by (induction xs arbitrary: ys) auto

fun jsx_text :: "jsval \<Rightarrow> string option" where
  "jsx_text (Str s) = Some s"
| "jsx_text (Num n) = Some (num_str n)"
| "jsx_text (Arr xs) = map_option concat (map_opt jsx_text xs)"
| "jsx_text (Obj _) = None"
| "jsx_text _ = Some []"

subsection \<open>A filter with several choices (\<open>MultiSelectFilter.jsx\<close>)\<close>

text \<open>
  The panel of a filter opens with its button or the down arrow, and closes with the button, with the
  escape key, with a press outside and when the filter is disabled. The focus is moved in the next
  frame: \<open>fw_frames\<close> are the requests that wait for it, of which closing the panel cancels the one for
  the first option. The values belong to the view the filter is on; a change of the filter replaces them.
\<close>

datatype filter_focus = On_trigger | On_first_option | On_something_else

record filter_widget =
  fw_open :: bool
  fw_disabled :: bool
  fw_focus :: filter_focus
  fw_frames :: "filter_focus list"
  fw_values :: jsval

definition filter_widget_init :: "bool \<Rightarrow> jsval \<Rightarrow> filter_widget" where
  "filter_widget_init disabled values =
     \<lparr>fw_open = False, fw_disabled = disabled, fw_focus = On_something_else, fw_frames = [], fw_values = values\<rparr>"

datatype filter_event =
    Press_trigger
  | Arrow_down
  | Escape_key
  | Press_outside
  | Frame
  | Set_disabled bool
  | Choose_all
  | Choose string bool

text \<open>A new value of \<open>open\<close> and what its effect does; then the effect that closes a disabled filter.\<close>

definition set_open :: "bool \<Rightarrow> filter_widget \<Rightarrow> filter_widget" where
  "set_open b w =
     (if fw_open w = b then w
      else if b then w\<lparr>fw_open := True, fw_frames := fw_frames w @ [On_first_option]\<rparr>
      else w\<lparr>fw_open := False, fw_frames := filter (\<lambda>f. f \<noteq> On_first_option) (fw_frames w),
             fw_focus := (if fw_focus w = On_first_option then On_something_else else fw_focus w)\<rparr>)"

definition settle :: "filter_widget \<Rightarrow> filter_widget" where
  "settle w = (if fw_disabled w \<and> fw_open w then set_open False w else w)"

text \<open>A disabled button takes no focus.\<close>

definition run_frame :: "filter_focus \<Rightarrow> filter_widget \<Rightarrow> filter_widget" where
  "run_frame f w =
     (case f of On_trigger \<Rightarrow> if fw_disabled w then w else w\<lparr>fw_focus := On_trigger\<rparr>
      | _ \<Rightarrow> w\<lparr>fw_focus := f\<rparr>)"

fun filter_step :: "filter_event \<Rightarrow> filter_widget \<Rightarrow> filter_widget" where
  "filter_step Press_trigger w =
     (if fw_disabled w then w else settle (set_open (\<not> fw_open w) (w\<lparr>fw_focus := On_trigger\<rparr>)))"
| "filter_step Arrow_down w = (if fw_focus w = On_trigger \<and> \<not> fw_disabled w \<and> \<not> fw_open w then settle (set_open True w) else w)"
| "filter_step Escape_key w =
     (if fw_open w then settle (set_open False (w\<lparr>fw_frames := fw_frames w @ [On_trigger]\<rparr>)) else w)"
| "filter_step Press_outside w = (let w' = w\<lparr>fw_focus := On_something_else\<rparr> in if fw_open w then settle (set_open False w') else w')"
| "filter_step Frame w = fold run_frame (fw_frames w) (w\<lparr>fw_frames := []\<rparr>)"
| "filter_step (Set_disabled b) w = settle (w\<lparr>fw_disabled := b\<rparr>)"
| "filter_step Choose_all w = (if fw_open w then w\<lparr>fw_values := Arr []\<rparr> else w)"
| "filter_step (Choose v checked) w =
     (if fw_open w then w\<lparr>fw_values := Arr (map Str (toggleSelection (Arr (map Str (normalizeSelection (fw_values w)))) (Str v) checked))\<rparr>
      else w)"

text \<open>What the filter shows.\<close>

definition all_checked :: "filter_widget \<Rightarrow> bool" where
  "all_checked w \<longleftrightarrow> normalizeSelection (fw_values w) = []"

definition box_checked :: "filter_widget \<Rightarrow> string \<Rightarrow> bool" where
  "box_checked w v \<longleftrightarrow> v \<in> set (normalizeSelection (fw_values w))"

definition option_object :: "string \<times> string \<Rightarrow> jsval" where
  "option_object = (\<lambda>(v, label). Obj [(''value'', Str v), (''label'', Str label)])"

definition filter_summary :: "(string \<Rightarrow> string) \<Rightarrow> string \<Rightarrow> (string \<times> string) list \<Rightarrow> filter_widget \<Rightarrow> string" where
  "filter_summary t allLabel items w =
     selectionSummary (Arr (map Str (normalizeSelection (fw_values w)))) (map option_object items) (t allLabel)"

definition filter_count :: "filter_widget \<Rightarrow> nat option" where
  "filter_count w = (let n = length (normalizeSelection (fw_values w)) in if n > 1 then Some n else None)"

subsection \<open>The picker of a stored version (\<open>StoredVersionPicker.jsx\<close>)\<close>

definition picker_selected :: "jsobj list \<Rightarrow> string \<Rightarrow> jsobj option" where
  "picker_selected versions v = find (\<lambda>version. versionKey version = v) versions"

definition picker_label :: "(string \<Rightarrow> string) \<Rightarrow> jsobj \<Rightarrow> string option" where
  "picker_label t version = do {
     config \<leftarrow> jsx_text (fld version ''configId'');
     number \<leftarrow> jsx_text (fld version ''Version'');
     Some (config @ '' '' @ [CHR 0xB7] @ '' v'' @ number @ '' '' @ [CHR 0xB7] @ '' '' @ t (publicationActionLabel (fld version ''Action''))) }"

definition picker_count ::
  "(string \<Rightarrow> string) \<Rightarrow> (jsval \<Rightarrow> jsnum) \<Rightarrow> (string \<Rightarrow> string \<Rightarrow> jsnum) \<Rightarrow> jsobj list \<Rightarrow> string \<Rightarrow> string" where
  "picker_count t date_parse collate versions query =
     (let matches = filterStoredVersions date_parse collate versions (Str query) in
      if length matches = length versions then nat_str (length versions) @ '' '' @ t ''versiones disponibles''
      else nat_str (length matches) @ '' '' @ t ''de'' @ '' '' @ nat_str (length versions) @ '' '' @ t ''versiones coincidentes'')"

definition picker_empty :: "(jsval \<Rightarrow> jsnum) \<Rightarrow> (string \<Rightarrow> string \<Rightarrow> jsnum) \<Rightarrow> jsobj list \<Rightarrow> string \<Rightarrow> bool" where
  "picker_empty date_parse collate versions query \<longleftrightarrow>
     query \<noteq> [] \<and> filterStoredVersions date_parse collate versions (Str query) = []"

subsection \<open>The document of a version (\<open>PolicyDocumentButton\<close>)\<close>

definition shown_document :: "host \<Rightarrow> jsval \<Rightarrow> jsval \<Rightarrow> string" where
  "shown_document h body target =
     (let text = str_or body '''' in
      if target = Str ''java-extension'' \<or> target = Str ''collector-base'' then
        (case h_parse h text of Some v \<Rightarrow> h_pretty h v | None \<Rightarrow> text)
      else text)"

definition document_button :: "host \<Rightarrow> jsval \<Rightarrow> jsval \<Rightarrow> string" where
  "document_button h label target = h_t h (str_or label (documentButtonLabel target))"

definition document_title :: "host \<Rightarrow> jsval \<Rightarrow> string \<times> string \<times> string" where
  "document_title h target =
     (let base = (target = Str ''collector-base''); collector = (target = Str ''collector'') in
      (if collector then h_t h ((''Configuraci'' @ [CHR 0xF3] @ ''n YAML''))
       else if base then h_t h ((''Configuraci'' @ [CHR 0xF3] @ ''n base inmutable'')) else ''Policy JSON'',
       h_t h (if base then ''BASE INMUTABLE'' else ''DOCUMENTO INMUTABLE''),
       if collector then ''Collector YAML'' else if base then h_t h ''Descriptor del ConfigMap base'' else ''Policy JSON''))"

subsection \<open>The steps (\<open>PolicyStepper\<close>, \<open>StepNavigation\<close>, \<open>ConfigurationTypeChooser\<close>)\<close>

definition workflowSteps :: "(string \<times> string) list" where
  "workflowSteps =
     [(''Origen'', ((''Carga o inicia una configuraci'' @ [CHR 0xF3] @ ''n''))), (((''Edici'' @ [CHR 0xF3] @ ''n'')), ((''Define capturas, m'' @ [CHR 0xE9] @ ''tricas o YAML''))),
      (''Destinos'', ''Aplica selectores al inventario''), (((''Revisi'' @ [CHR 0xF3] @ ''n'')), ((''Valida y publica la versi'' @ [CHR 0xF3] @ ''n'')))]"

definition step_state :: "jsnum \<Rightarrow> nat \<Rightarrow> string" where
  "step_state active number =
     (if Fin (of_nat number) = active then ''active'' else if num_lt (Fin (of_nat number)) active then ''completed'' else ''pending'')"

definition stepper :: "jsnum \<Rightarrow> (nat \<times> string) list" where
  "stepper active = map (\<lambda>number. (number, step_state active number)) [1..<Suc (length workflowSteps)]"

text \<open>The buttons below a step, with the titles of the steps they lead to; the title of a step that is not there raises.\<close>

definition step_buttons :: "nat \<Rightarrow> (nat \<times> string option) list option" where
  "step_buttons active =
     (if active = length workflowSteps then Some []
      else if active < length workflowSteps
      then Some ((if active > 1 then [(active - 1, None)] else []) @ [(active + 1, Some (fst (workflowSteps ! active)))])
      else None)"

definition type_selected :: "jsval \<Rightarrow> jsval \<Rightarrow> bool" where
  "type_selected option_target target =
     (if option_target = Str ''collector'' then target = Str ''collector'' else target = Str ''java-extension'')"

subsection \<open>What the boxes of a filter mean\<close>

lemma selection_after_toggle:
  assumes "js_trim v = v" "v \<noteq> []"
  shows "set (normalizeSelection (Arr (map Str (toggleSelection (Arr (map Str (normalizeSelection values))) (Str v) c)))) =
    (if c then insert v (set (normalizeSelection values)) else set (normalizeSelection values) - {v})"
proof -
  have "normalizeSelection (Arr (map Str (toggleSelection sel (Str v) c))) = toggleSelection sel (Str v) c" for sel
    by (rule normalizeSelection_of_canonical) simp
  note eq = this
  show ?thesis unfolding eq using assms by (cases c) (auto simp: toggle_on toggle_off normalizeSelection_of_canonical)
qed

lemma selection_distinguishes:
  "normalizeSelection values \<noteq> [] \<Longrightarrow> \<exists>x. \<not> matchesAnySelection values x"
  by (rule exI [of _ "Str []"]) (simp add: matchesAny_iff normalizeSelection_def [of "Str []"])

text \<open>C30: The boxes of an open filter mean what they show: a click on the box of an option changes that box and
  no other, as long as the value of the option has no blanks around it; the box for all is checked
  exactly when the filter lets every row pass, and clicking it unchecks the other boxes; and an
  option whose value has blanks around it never looks checked.\<close>

theorem filter_boxes_are_exact:
  assumes "fw_open w" "js_trim v = v" "v \<noteq> []"
  shows "(\<forall>u. box_checked (filter_step (Choose v c) w) u \<longleftrightarrow> (if u = v then c else box_checked w u)) \<and>
    (all_checked w \<longleftrightarrow> (\<forall>x. matchesAnySelection (fw_values w) x)) \<and>
    all_checked (filter_step Choose_all w) \<and> (\<forall>u. \<not> box_checked (filter_step Choose_all w) u) \<and>
    (\<forall>u. js_trim u \<noteq> u \<longrightarrow> \<not> box_checked w u)"
proof (intro conjI)
  show "\<forall>u. box_checked (filter_step (Choose v c) w) u \<longleftrightarrow> (if u = v then c else box_checked w u)"
    using assms(1) by (auto simp: box_checked_def selection_after_toggle [OF assms(2,3)])
  show "all_checked w \<longleftrightarrow> (\<forall>x. matchesAnySelection (fw_values w) x)"
    using selection_distinguishes by (auto simp: all_checked_def matchesAny_iff)
  show "\<forall>u. js_trim u \<noteq> u \<longrightarrow> \<not> box_checked w u"
    using normalizeSelection_canonical [of "fw_values w"] by (auto simp: box_checked_def canonical_selection_def)
qed (use assms(1) in \<open>simp_all add: all_checked_def box_checked_def normalizeSelection_def\<close>)

theorem filter_boxes_are_exact_witness:
  "box_checked (filter_step (Choose ''pay'' True) (filter_step Press_trigger (filter_widget_init False (Arr [Str ''cart''])))) ''cart''"
proof -
  let ?w = "filter_step Press_trigger (filter_widget_init False (Arr [Str ''cart'']))"
  have "fw_open ?w" "js_trim ''pay'' = ''pay''" "''pay'' \<noteq> []" "box_checked ?w ''cart''" by code_simp+
  then show ?thesis using filter_boxes_are_exact [of ?w "''pay''" True] by simp
qed

subsection \<open>When a filter closes\<close>

definition filter_run :: "filter_event list \<Rightarrow> filter_widget \<Rightarrow> filter_widget" where
  "filter_run es w = fold filter_step es w"

definition sound_filter :: "filter_widget \<Rightarrow> bool" where
  "sound_filter w \<longleftrightarrow> (fw_open w \<longrightarrow> \<not> fw_disabled w) \<and> (\<not> fw_open w \<longrightarrow> On_first_option \<notin> set (fw_frames w) \<and> fw_focus w \<noteq> On_first_option)"

lemma run_frames:
  "fw_open (fold run_frame fs w) = fw_open w \<and> fw_disabled (fold run_frame fs w) = fw_disabled w \<and>
   fw_frames (fold run_frame fs w) = fw_frames w \<and>
   (On_first_option \<notin> set fs \<longrightarrow> fw_focus w \<noteq> On_first_option \<longrightarrow> fw_focus (fold run_frame fs w) \<noteq> On_first_option)"
  by (induction fs arbitrary: w) (auto simp: run_frame_def split: filter_focus.splits)

lemma filter_step_sound: "sound_filter w \<Longrightarrow> sound_filter (filter_step e w)"
  using run_frames [of "fw_frames w" "w\<lparr>fw_frames := []\<rparr>"]
  by (cases e) (auto simp: sound_filter_def settle_def set_open_def)

lemma filter_run_sound: "sound_filter w \<Longrightarrow> sound_filter (filter_run es w)"
  unfolding filter_run_def by (induction es arbitrary: w) (auto intro: filter_step_sound)

text \<open>Whatever is done with a filter, a disabled one is closed, and the focus never stays in the panel of a closed
  one; the escape key closes an open filter, keeps its choices and, in the next frame, gives the
  focus back to its button.\<close>

theorem filters_close_and_return_the_focus:
  "let w = filter_run es (filter_widget_init disabled values); w' = filter_step Frame (filter_step Escape_key w) in
     \<not> (fw_disabled w \<and> fw_open w) \<and> \<not> (fw_focus w = On_first_option \<and> \<not> fw_open w) \<and>
     (\<not> fw_open w') \<and> fw_values w' = fw_values w \<and> (if fw_open w then fw_focus w' = On_trigger else True)"
proof -
  let ?w = "filter_run es (filter_widget_init disabled values)"
  have s: "sound_filter ?w" by (rule filter_run_sound) (simp add: sound_filter_def filter_widget_init_def)
  have vals: "fw_values (fold run_frame fs w) = fw_values w" for fs w
    by (induction fs arbitrary: w) (auto simp: run_frame_def split: filter_focus.splits)
  show ?thesis using s run_frames by (auto simp: Let_def sound_filter_def settle_def set_open_def vals run_frame_def)
qed

end
