(* ===== verification/Rows.thy ===== *)
theory Rows
  imports Widgets Fleet Coverage Summaries
begin

section \<open>The rows of the tables (\<open>AgentsView\<close>, \<open>DeploymentsView\<close>, \<open>HistoryView\<close> of \<open>ui/src/main.jsx\<close>)\<close>

text \<open>
  What the cells of a row say and which actions it offers. \<open>fd\<close> is \<open>formatDate\<close> of the translations; a
  cell that shows an object raises (\<open>None\<close>). The badges of the states are those of \<open>statusMeta\<close>.
\<close>

abbreviation dot :: string where
  "dot \<equiv> '' '' @ [CHR 0xB7] @ '' ''"

text \<open>Texts and values one after the other between two tags.\<close>

definition jsx :: "jsval list \<Rightarrow> string option" where
  "jsx vs = jsx_text (Arr vs)"

text \<open>The identifier of a configuration with its version, and that text when there is a configuration.\<close>

definition versioned :: "jsval \<Rightarrow> jsval \<Rightarrow> string option" where
  "versioned config version = jsx [config, Str (dot @ ''v''), version]"

definition agent_configuration :: "host \<Rightarrow> jsobj \<Rightarrow> string" where
  "agent_configuration h agent =
     (if truthy (fld agent ''ConfigID'') then to_str (fld agent ''ConfigID'') @ dot @ ''v'' @ to_str (fld agent ''Version'')
      else h_t h ((''Sin configuraci'' @ [CHR 0xF3] @ ''n'')))"

subsection \<open>An agent of the fleet\<close>

definition transport_cell :: "jsobj \<Rightarrow> string" where
  "transport_cell agent =
     (if fld agent ''Transport'' = Str ''http-poll'' then ''HTTP'' @ dot @ to_str (fld agent ''PollIntervalSeconds'') @ ''s'' else ''WebSocket'')"

definition infrastructure_cell :: "host \<Rightarrow> jsobj \<Rightarrow> string option" where
  "infrastructure_cell h agent =
     jsx [Str (h_t h ''Infraestructura''), Str '': '',
       if fld agent ''InfrastructureStatus'' = Str ''UNKNOWN'' then Str (h_t h ''no verificada'')
       else js_or (fld agent ''InfrastructureStatus'') (Str (h_t h ''no reportada''))]"

definition configuration_cell :: "host \<Rightarrow> fleet_row \<Rightarrow> string" where
  "configuration_cell h row =
     (let agent = fr_agent row; n = length (fr_javaPolicies row);
          label = (case fr_collectorMode row of Some m \<Rightarrow> cm_effectiveLabel m | None \<Rightarrow> []) in
      if label \<noteq> [] then label
      else if fld agent ''Kind'' = Str ''java-extension'' then
        (if n \<noteq> 0 then nat_str n @ '' '' @ h_t h (if n = 1 then ''policy activa'' else ''policies activas'') else h_t h ''Sin policies activas'')
      else agent_configuration h agent)"

definition policies_cell :: "fleet_row \<Rightarrow> string option" where
  "policies_cell row =
     (if fld (fr_agent row) ''Kind'' = Str ''java-extension'' \<and> fr_javaPolicies row \<noteq> []
      then Some (js_join dot (map (\<lambda>p. jp_id p @ dot @ ''v'' @ num_str (jp_version p)) (fr_javaPolicies row)))
      else None)"

definition fallback_cell :: "host \<Rightarrow> fleet_row \<Rightarrow> string option" where
  "fallback_cell h row = map_option (\<lambda>m. h_t h ''Fallback'' @ '': '' @ cm_fallbackLabel m) (fr_collectorMode row)"

definition versions_cell :: "fleet_row \<Rightarrow> string option" where
  "versions_cell row =
     (let v = fr_reportedVersions row in
      if fr_collectorMode row \<noteq> None \<and> (rv_supervisor v \<noteq> [] \<or> rv_collector v \<noteq> []) then
        Some (js_join dot ((if rv_supervisor v \<noteq> [] then [''Supervisor '' @ rv_supervisor v] else []) @
          (if rv_collector v \<noteq> [] then [''Collector '' @ rv_collector v] else [])))
      else None)"

definition attributes_button :: "host \<Rightarrow> jsobj \<Rightarrow> nat \<Rightarrow> string" where
  "attributes_button h agent n =
     h_t h ''Ver atributos'' @ '' ('' @ nat_str n @ '')'' @ dot @ to_str (fld agent ''Service'')"

definition attribute_list :: "(string \<Rightarrow> string \<Rightarrow> jsnum) \<Rightarrow> jsobj \<Rightarrow> (string \<times> string) list" where
  "attribute_list collate agent =
     map (\<lambda>(key, v). (key, formatReportedAttributeValue v)) (reportedAttributeEntries collate (fld agent ''Attributes''))"

definition fleet_count :: "host \<Rightarrow> nat \<Rightarrow> nat \<Rightarrow> string" where
  "fleet_count h visible all = nat_str visible @ '' '' @ h_t h ''de'' @ '' '' @ nat_str all @ '' '' @ h_t h ''clientes''"

definition fleet_message :: "host \<Rightarrow> nat \<Rightarrow> nat \<Rightarrow> string option" where
  "fleet_message h visible all =
     (if all = 0 then Some (h_t h (''Esperando clientes OpAMP'' @ ellipsis))
      else if visible = 0 then Some (h_t h ''No hay clientes que coincidan con los filtros.'') else None)"

subsection \<open>The coverage of a selector (\<open>SelectorDetailsButton\<close>)\<close>

record coverage_counts =
  cc_desiredMatched :: nat
  cc_applied :: nat
  cc_removalMatched :: nat
  cc_degraded :: nat
  cc_historical :: nat
  cc_unknown :: nat

definition policy_counts :: "policy_summary \<Rightarrow> coverage_counts" where
  "policy_counts s = \<lparr>cc_desiredMatched = ps_desiredMatched s, cc_applied = ps_applied s, cc_removalMatched = ps_removalMatched s,
     cc_degraded = ps_degraded s, cc_historical = ps_historical s, cc_unknown = ps_unknown s\<rparr>"

definition collector_counts :: "collector_summary \<Rightarrow> coverage_counts" where
  "collector_counts s = \<lparr>cc_desiredMatched = cs_desiredMatched s, cc_applied = cs_applied s, cc_removalMatched = cs_removalMatched s,
     cc_degraded = cs_degraded s, cc_historical = cs_historical s, cc_unknown = cs_unknown s\<rparr>"

definition coverage_line :: "host \<Rightarrow> coverage_counts \<Rightarrow> string" where
  "coverage_line h c =
     h_t h (nat_str (cc_desiredMatched c) @ '' vivo(s) coincide(n)'' @ dot @ nat_str (cc_applied c) @ '' aplicada(s)'') @
     (if cc_removalMatched c \<noteq> 0 then dot @ h_t h (nat_str (cc_removalMatched c) @ '' retiro(s) en seguimiento'') else [])"

definition coverage_details :: "host \<Rightarrow> coverage_counts \<Rightarrow> string" where
  "coverage_details h c =
     (let part = (\<lambda>n suffix. if n \<noteq> 0 then '' '' @ h_t h (nat_str n @ suffix) else []) in
      h_t h (nat_str (cc_applied c) @ ''/'' @ nat_str (cc_desiredMatched c) @ (('' destino(s) vivo(s) coincidente(s) confirmaron la versi'' @ [CHR 0xF3] @ ''n.''))) @
      part (cc_removalMatched c) ('' destino(s) adicional(es) se siguen hasta confirmar el retiro.'') @
      part (cc_degraded c) (('' se'' @ [CHR 0xF1] @ ''al(es) degradada(s) no cuentan.'')) @
      part (cc_historical c) (('' registro(s) hist'' @ [CHR 0xF3] @ ''rico(s) no cuentan.'')) @
      part (cc_unknown c) '' destino(s) tienen estado desconocido.'')"

subsection \<open>A managed configuration and a managed policy\<close>

definition managed_heading :: "host \<Rightarrow> jsobj \<Rightarrow> nat \<Rightarrow> bool \<Rightarrow> string \<Rightarrow> string" where
  "managed_heading h latest n active active_label =
     ''v'' @ num_str (policyVersionNumber latest) @ dot @ nat_str n @ '' '' @ h_t h (if n = 1 then ((''versi'' @ [CHR 0xF3] @ ''n'')) else ''versiones'') @
     dot @ h_t h (if active then active_label else ''Retirada'')"

definition services_cell :: "host \<Rightarrow> jsval list \<Rightarrow> string" where
  "services_cell h services =
     (let joined = join_vals '', '' services in if joined \<noteq> [] then joined else h_t h ''Todos los compatibles'')"

definition observed_cell :: "host \<Rightarrow> nat \<Rightarrow> string" where
  "observed_cell h n = nat_str n @ '' '' @ h_t h ''destino(s) observado(s)''"

definition base_reference :: "jsobj \<Rightarrow> (string \<times> string) option" where
  "base_reference base = do {
     ident \<leftarrow> jsx_text (fld base ''ID'');
     line \<leftarrow> jsx [fld base ''Source'', Str (dot @ ''Inmutable'' @ dot), fld base ''Behavior''];
     Some (ident, line) }"

record managed_row =
  mr_heading :: string
  mr_services :: string
  mr_observed :: string
  mr_status :: string
  mr_summary :: string
  mr_document :: jsval
  mr_action :: "string option"

definition collector_row :: "host \<Rightarrow> managed_collector \<Rightarrow> managed_row" where
  "collector_row h c =
     \<lparr>mr_heading = managed_heading h (mc_latestVersion c) (length (mc_versions c)) (mc_active c) ''Administrada'',
      mr_services = services_cell h (mc_services c),
      mr_observed = observed_cell h (length (mc_records c)),
      mr_status = cs_status (mc_destinationSummary c),
      mr_summary = h_t h (collectorSummaryText (mc_destinationSummary c)),
      mr_document = fld (mc_lastContentVersion c) ''Body'',
      mr_action = (if mc_active c then Some (h_t h (mc_actionLabel c)) else None)\<rparr>"

definition policy_row :: "host \<Rightarrow> managed_policy \<Rightarrow> managed_row" where
  "policy_row h p =
     \<lparr>mr_heading = managed_heading h (mp_latestVersion p) (mp_versionCount p) (mp_active p) ''Activa'',
      mr_services = services_cell h (mp_services p),
      mr_observed = observed_cell h (length (mp_records p)),
      mr_status = ps_status (mp_destinationSummary p),
      mr_summary = h_t h (managedPolicyDestinationSummary (mp_destinationSummary p)),
      mr_document = fld (case mp_lastContentVersion p of Some v \<Rightarrow> v | None \<Rightarrow> mp_latestVersion p) ''Body'',
      mr_action = (if mp_active p then Some (h_t h (mp_actionLabel p)) else None)\<rparr>"

text \<open>What a screen reader says of the action of a policy.\<close>

definition policy_action_name :: "managed_policy \<Rightarrow> string" where
  "policy_action_name p =
     (if mp_action p = ''REVERT'' then ((''Revertir versi'' @ [CHR 0xF3] @ ''n anterior de '')) @ to_str (mp_id p) @ '': '' @ mp_actionLabel p
      else mp_actionLabel p @ '': '' @ to_str (mp_id p))"

subsection \<open>A destination\<close>

record destination_row =
  dr_title :: string
  dr_origin :: string
  dr_scope :: string
  dr_targets :: string
  dr_confirmation :: "string list"
  dr_status :: jsval
  dr_live :: string

text \<open>\<open>(v || []).length\<close> is zero or missing.\<close>

definition no_items :: "jsval \<Rightarrow> bool" where
  "no_items v \<longleftrightarrow> \<not> truthy (get (js_or v (Arr [])) ''length'')"

definition destination_scope :: "host \<Rightarrow> jsobj \<Rightarrow> string" where
  "destination_scope h record =
     h_t h (if no_items (get (fld record ''Selector'') ''InstanceUIDs'') then ((''Din'' @ [CHR 0xE1] @ ''mico'')) else ''InstanceUID exacto'')"

definition destination_targets :: "host \<Rightarrow> jsobj \<Rightarrow> string option" where
  "destination_targets h record = do {
     services \<leftarrow> list_or (get (fld record ''Selector'') ''Services'');
     let attributes = js_join dot (map (\<lambda>(key, v). key @ ''='' @ to_str v)
           (own_entries (js_or (get (fld record ''Selector'') ''Attributes'') (Obj []))));
         joined = join_vals '', '' services
     in Some (if joined \<noteq> [] then joined else if attributes \<noteq> [] then attributes else h_t h ''Todos los compatibles'') }"

definition destination_confirmation :: "host \<Rightarrow> (jsval \<Rightarrow> string) \<Rightarrow> jsobj \<Rightarrow> string list" where
  "destination_confirmation h fd record =
     (let c = deploymentConfirmation record (deploymentRecordStatus record) in
      [if confirmed c then fd (confirmed_at c) else h_t h ((''Sin confirmaci'' @ [CHR 0xF3] @ ''n''))] @
      (if confirmed_source c = ''LIVE_REPORT'' then [h_t h ((''Confirmado por el '' @ [CHR 0xFA] @ ''ltimo reporte vivo''))] else []) @
      [h_t h ''Visto'' @ '': '' @ fd (fld record ''LastObservedAt'')])"

definition destination_live :: "host \<Rightarrow> jsobj \<Rightarrow> string option" where
  "destination_live h record =
     (if coverageStatusForDisplay record \<noteq> [] then
        map_option (\<lambda>(label, _). h_t h (([CHR 0xDA] @ ''ltima confirmaci'' @ [CHR 0xF3] @ ''n de configuraci'' @ [CHR 0xF3] @ ''n'')) @ '': '' @ h_t h label)
          (statusMeta (deploymentRecordStatus record) ''deployment'')
      else Some (h_t h ''Cobertura viva'' @ dot @ to_str (fld record ''ConnectionStatus'')))"

definition destination_row :: "host \<Rightarrow> (jsval \<Rightarrow> string) \<Rightarrow> jsobj \<Rightarrow> destination_row option" where
  "destination_row h fd record = do {
     title \<leftarrow> versioned (fld record ''ConfigID'') (fld record ''Version'');
     origin \<leftarrow> jsx [fld record ''Target'', Str dot, fld record ''PublishedBy'', Str dot, Str (fd (fld record ''PublishedAt''))];
     targets \<leftarrow> destination_targets h record;
     live \<leftarrow> destination_live h record;
     Some \<lparr>dr_title = title, dr_origin = origin, dr_scope = destination_scope h record, dr_targets = targets,
       dr_confirmation = destination_confirmation h fd record, dr_status = destination_status record, dr_live = live\<rparr> }"

subsection \<open>The history\<close>

text \<open>The base a Supervisor reports: what the cells show, and the descriptor that can be opened.\<close>

record base_row =
  br_source :: string
  br_services :: string
  br_instances :: string
  br_mode :: string
  br_descriptor :: string

definition base_row :: "host \<Rightarrow> jsobj \<Rightarrow> base_row option" where
  "base_row h raw =
     (let base = normalizeCollectorBase raw; uids = fld base ''AgentUIDs'' in do {
        services \<leftarrow> receiver (fld base ''Services'');
        Some \<lparr>br_source = h_t h ((''Revisi'' @ [CHR 0xF3] @ ''n del artefacto'')) @ '' '' @ str_or (fld base ''Revision'') (h_t h ''no reportada''),
          br_services = (let joined = join_vals '', '' services in if joined \<noteq> [] then joined else h_t h ((''Asignaci'' @ [CHR 0xF3] @ ''n por AgentUID''))),
          br_instances = (if no_items uids then h_t h ((''Todas las r'' @ [CHR 0xE9] @ ''plicas del servicio''))
            else to_str (get uids ''length'') @ '' '' @ h_t h ''instancia(s)''),
          br_mode = h_t h (if truthy (fld base ''Immutable'') then ''Inmutable'' else ''Reportada''),
          br_descriptor = h_pretty h (Obj base)\<rparr> })"

text \<open>The policies and configurations a version of the history is looked up in, by identifier: of two with
  the same identifier the last counts.\<close>

definition policy_of :: "managed_policy list \<Rightarrow> jsobj \<Rightarrow> managed_policy option" where
  "policy_of policies version = map_of (rev (map (\<lambda>p. (mp_id p, p)) policies)) (fld version ''configId'')"

definition collector_of :: "managed_collector list \<Rightarrow> jsobj \<Rightarrow> managed_collector option" where
  "collector_of collectors version =
     (if fld version ''Target'' = Str ''collector'' then map_of (rev (map (\<lambda>c. (mc_id c, c)) collectors)) (fld version ''configId'') else None)"

definition version_line :: "host \<Rightarrow> jsobj \<Rightarrow> string option" where
  "version_line h version = do {
     hash \<leftarrow> (case fld version ''Hash'' of Str s \<Rightarrow> Some (Str (take 10 s)) | Arr xs \<Rightarrow> Some (Arr (take 10 xs)) | _ \<Rightarrow> None);
     jsx [fld version ''Target'', Str dot, Str (h_t h (publicationActionLabel (fld version ''Action''))), Str dot,
       js_or (fld version ''CreatedBy'') (Str ''local-admin''), Str dot, hash] }"

text \<open>A withdrawn configuration of a Collector that is not in the list is shown as one without destinations.\<close>

definition version_summary :: "host \<Rightarrow> jsobj list \<Rightarrow> managed_collector list \<Rightarrow> jsobj \<Rightarrow> string option" where
  "version_summary h agents collectors version =
     (if isDeactivatedPolicyVersion version then
        Some (h_t h (if fld version ''Target'' = Str ''collector''
          then (case collector_of collectors version of Some c \<Rightarrow> collectorSummaryText (mc_destinationSummary c)
                | None \<Rightarrow> (''Sin destinos actualmente en l'' @ [CHR 0xED] @ ''nea.''))
          else (''No se entrega a ning'' @ [CHR 0xFA] @ ''n destino.'')))
      else map_option (\<lambda>d. h_t h (deploymentStatusSummary d)) (deploymentStatusForVersion version agents))"

datatype version_action =
    Load_in_editor
  | Change_policy managed_policy
  | Restore_as_new
  | Withdraw_collector managed_collector

definition version_actions :: "managed_policy list \<Rightarrow> managed_collector list \<Rightarrow> jsobj \<Rightarrow> version_action list" where
  "version_actions policies collectors version =
     (let target = fld version ''Target''; newest = truthy (fld version ''IsLatest'') in
      (if truthy (fld version ''Body'') then [Load_in_editor] else []) @
      (if target = Str ''java-extension'' \<and> newest
       then (case policy_of policies version of Some p \<Rightarrow> if mp_active p then [Change_policy p] else [] | None \<Rightarrow> []) else []) @
      (if target = Str ''collector'' \<and> \<not> newest then [Restore_as_new] else []) @
      (if target = Str ''collector'' \<and> newest
       then (case collector_of collectors version of Some c \<Rightarrow> if mc_active c then [Withdraw_collector c] else [] | None \<Rightarrow> []) else []))"

definition audit_row :: "host \<Rightarrow> (jsval \<Rightarrow> string) \<Rightarrow> jsobj \<Rightarrow> (string \<times> string \<times> string \<times> string) option" where
  "audit_row h fd event = do {
     config \<leftarrow> versioned (fld event ''ConfigID'') (fld event ''Version'');
     actor \<leftarrow> jsx_text (fld event ''Actor'');
     Some (h_t h (publicationActionLabel (fld event ''Action'')), config, actor, fd (fld event ''CreatedAt'')) }"

subsection \<open>One change at a time, and the same on both pages\<close>

lemma one_change_per_version: "length (filter (\<lambda>a. a \<noteq> Load_in_editor) (version_actions policies collectors version)) \<le> 1"
proof -
  have count: "length (filter (\<lambda>a. a \<noteq> Load_in_editor)
      ((if b then [Load_in_editor] else []) @ (if j \<and> n then (case m of Some p \<Rightarrow> if mp_active p then [Change_policy p] else [] | None \<Rightarrow> []) else []) @
       (if c \<and> \<not> n then [Restore_as_new] else []) @
       (if c \<and> n then (case k of Some q \<Rightarrow> if mc_active q then [Withdraw_collector q] else [] | None \<Rightarrow> []) else []))) \<le> 1"
    if "\<not> (j \<and> c)" for b j n m c k
    using that by (cases m; cases k; cases n; cases j; cases c; simp)
  have "\<not> (fld version ''Target'' = Str ''java-extension'' \<and> fld version ''Target'' = Str ''collector'')" by auto
  then show ?thesis unfolding version_actions_def Let_def by (rule count)
qed

text \<open>A managed policy without what it takes from the deployments.\<close>

definition stored_part :: "managed_policy \<Rightarrow> managed_policy" where
  "stored_part p = p\<lparr>mp_services := [], mp_records := [], mp_destinationSummary := summarizePolicyDestinations [] False\<rparr>"

lemma js_sort_map:
  assumes "\<And>x y. gt' (f x) (f y) = gt x y"
  shows "js_sort gt' (map f xs) = map f (js_sort gt xs)"
proof -
  have "js_insert gt' (f x) (map f ys) = map f (js_insert gt x ys)" for x ys
    by (induction ys) (auto simp: assms)
  then show ?thesis by (induction xs) auto
qed

lemma stored_fields:
  "mp_id (stored_part p) = mp_id p" "mp_active (stored_part p) = mp_active p" "mp_action (stored_part p) = mp_action p"
  "mp_actionLabel (stored_part p) = mp_actionLabel p" "mp_previousVersion (stored_part p) = mp_previousVersion p"
  "mp_latestVersion (stored_part p) = mp_latestVersion p"
  by (simp_all add: stored_part_def)

lemma map_bind_stored: "map_option g (do { x \<leftarrow> m; Some (f x) }) = do { x \<leftarrow> m; Some (g (f x)) }"
  by (cases m) simp_all

lemma stored_part_of: "map_option stored_part (managed_policy_of dp deployments e) = map_option stored_part (managed_policy_of dp [] e)"
  unfolding managed_policy_of_def Let_def map_bind_stored stored_part_def managed_policy.update_convs by (rule refl)

lemma stored_part_order: "managed_policy_gt dp collate (stored_part p) (stored_part q) = managed_policy_gt dp collate p q"
  by (simp add: managed_policy_gt_def newest_first_gt_def stored_fields)

lemma map_opt_stored:
  assumes "\<And>x. map_option g (f x) = map_option g (f' x)"
  shows "map_option (map g) (map_opt f xs) = map_option (map g) (map_opt f' xs)"
proof (induction xs)
  case (Cons x xs)
  then show ?case using assms [of x] by (auto simp: map_option_case split: option.splits)
qed simp

lemma sorted_parts:
  assumes "\<And>x y. gt (g x) (g y) = gt x y"
  shows "map_option (map g) (do { xs \<leftarrow> m; Some (js_sort gt xs) }) = map_option (js_sort gt) (map_option (map g) m)"
  using js_sort_map [of gt g gt, OF assms] by (cases m) simp_all

lemma same_after: "(\<And>p. f (g p) = f p) \<Longrightarrow> map_option (map f) (map_option (map g) m) = map_option (map f) m"
  by (cases m) simp_all

lemma built_from_the_versions:
  "map_option (map stored_part) (buildManagedPolicies dp collate versions deployments) =
   map_option (map stored_part) (buildManagedPolicies dp collate versions [])"
proof -
  have built: "map_option (map stored_part) (buildManagedPolicies dp collate versions ds) =
      map_option (js_sort (managed_policy_gt dp collate))
        (map_option (map stored_part) (map_opt (managed_policy_of dp ds) (group_by policy_key versions)))" for ds
    unfolding buildManagedPolicies_def by (rule sorted_parts) (rule stored_part_order)
  have "map_option (map stored_part) (map_opt (managed_policy_of dp deployments) es) =
      map_option (map stored_part) (map_opt (managed_policy_of dp []) es)" for es
    by (rule map_opt_stored) (rule stored_part_of)
  then show ?thesis unfolding built by (rule arg_cong)
qed

text \<open>C27: The deployments page and the history offer the same changes: whatever the deployments say, the policies of
  both pages are the same in the same order, with the same action, label, question, request and
  outcome. So the change that a row of the history offers is the one the policy's own row offers.\<close>

theorem both_pages_offer_the_same_changes:
  "map_option (map (\<lambda>p. (mp_id p, mp_active p, mp_action p, mp_actionLabel p, policyLifecycleConfirmation p,
       policyLifecycle_begin h agreed p a, policyLifecycle_end h p r a)))
     (buildManagedPolicies dp collate versions deployments) =
   map_option (map (\<lambda>p. (mp_id p, mp_active p, mp_action p, mp_actionLabel p, policyLifecycleConfirmation p,
       policyLifecycle_begin h agreed p a, policyLifecycle_end h p r a)))
     (buildManagedPolicies dp collate versions [])"
proof -
  let ?f = "\<lambda>p. (mp_id p, mp_active p, mp_action p, mp_actionLabel p, policyLifecycleConfirmation p,
       policyLifecycle_begin h agreed p a, policyLifecycle_end h p r a)"
  have "?f (stored_part p) = ?f p" for p
    by (simp only: stored_fields policyLifecycleConfirmation_def policyLifecycle_begin_def policyLifecycle_end_def)
  note same = same_after [of ?f stored_part, OF this]
  show ?thesis by (subst (1 2) same [symmetric]) (simp only: built_from_the_versions [of dp collate versions deployments])
qed

end
