(* ===== verification/Polling.thy ===== *)
theory Polling
  imports Session
begin

section \<open>Keeping the page up to date (the second effect of \<open>App\<close> in \<open>ui/src/main.jsx\<close>)\<close>

text \<open>
  The application reads the live state (agents, versions, deployments and bases) again every few seconds
  and when the page is shown again. The variables of the effect are a record beside the state of the
  application: \<open>po_first\<close> is the load that \<open>start\<close> begins and waits for, \<open>po_timer\<close> the interval that is
  installed, \<open>po_listening\<close> the two listeners. The requests under way are a list, so that how many there
  are is a result and not an assumption. The first load has the gate of the loads, the requests for the
  live state one of their own; the end of the page only closes the second.
\<close>

datatype first_load = First_sent nat | First_reading nat | First_over

datatype poll_request = Polled_sent nat | Polled_reading nat

record polling =
  po_app :: app
  po_first :: first_load
  po_initialized :: bool
  po_refreshing :: bool
  po_disposed :: bool
  po_timer :: bool
  po_listening :: bool
  po_hidden :: bool
  po_requests :: "poll_request list"

definition poll_start :: "bool \<Rightarrow> app \<Rightarrow> polling" where
  "poll_start hidden a =
     (let (a', sequence) = load_begin a in
      \<lparr>po_app = a', po_first = First_sent sequence, po_initialized = False, po_refreshing = False, po_disposed = False,
       po_timer = False, po_listening = True, po_hidden = hidden, po_requests = []\<rparr>)"

definition refresh :: "polling \<Rightarrow> polling" where
  "refresh p =
     (if \<not> po_initialized p \<or> po_refreshing p then p
      else let (a, sequence) = live_begin (po_app p) in
        p\<lparr>po_refreshing := True, po_app := a, po_requests := po_requests p @ [Polled_sent sequence]\<rparr>)"

definition refreshWhenVisible :: "polling \<Rightarrow> polling" where
  "refreshWhenVisible p = (if po_hidden p then p else refresh p)"

definition started :: "polling \<Rightarrow> polling" where
  "started p =
     (let p' = p\<lparr>po_first := First_over\<rparr> in if po_disposed p then p' else p'\<lparr>po_initialized := True, po_timer := True\<rparr>)"

definition dispose :: "polling \<Rightarrow> polling" where
  "dispose p = p\<lparr>po_disposed := True, po_timer := False, po_listening := False,
     po_app := (po_app p)\<lparr>ap_liveLoadGate := gate_invalidate (ap_liveLoadGate (po_app p))\<rparr>\<rparr>"

text \<open>A request ends, whether with data or without: the \<open>finally\<close> of \<open>refresh\<close>.\<close>

definition end_refresh :: "nat \<Rightarrow> polling \<Rightarrow> polling" where
  "end_refresh i p = p\<lparr>po_refreshing := False, po_requests := remove_at i (po_requests p)\<rparr>"

text \<open>
  What happens to the page. The rest of the application may change its state in any way that does not
  give back a generation of the gate of the live requests; requests are named by their position.
\<close>

datatype poll_event =
    First_lost
  | First_answered "nat list"
  | First_read "load_data option"
  | Tick
  | Page_event
  | Hidden bool
  | Poll_lost nat
  | Poll_answered nat "nat list"
  | Poll_read nat "load_data option"
  | Unmounted
  | Rest_of_the_application app

fun poll_step :: "host \<Rightarrow> poll_event \<Rightarrow> polling \<Rightarrow> polling option" where
  "poll_step h First_lost p =
     (case po_first p of
        First_sent sequence \<Rightarrow> Some (started (p\<lparr>po_app := load_failed h sequence (po_app p)\<rparr>))
      | _ \<Rightarrow> None)"
| "poll_step h (First_answered statuses) p =
     (case po_first p of
        First_sent sequence \<Rightarrow>
          if length statuses = 10 then
            (let (a, reading) = load_responded h sequence statuses (po_app p); p' = p\<lparr>po_app := a\<rparr> in
             Some (if reading then p'\<lparr>po_first := First_reading sequence\<rparr> else started p'))
          else None
      | _ \<Rightarrow> None)"
| "poll_step h (First_read data) p =
     (case po_first p of
        First_reading sequence \<Rightarrow> Some (started (p\<lparr>po_app := load_finished h sequence data (po_app p)\<rparr>))
      | _ \<Rightarrow> None)"
| "poll_step h Tick p = (if po_timer p then Some (refreshWhenVisible p) else None)"
| "poll_step h Page_event p = (if po_listening p then Some (refreshWhenVisible p) else None)"
| "poll_step h (Hidden b) p = Some (p\<lparr>po_hidden := b\<rparr>)"
| "poll_step h (Poll_lost i) p = (if i < length (po_requests p) then Some (end_refresh i p) else None)"
| "poll_step h (Poll_answered i statuses) p =
     (if i < length (po_requests p) \<and> length statuses = 4 then
        (case po_requests p ! i of
           Polled_reading _ \<Rightarrow> None
         | Polled_sent sequence \<Rightarrow>
             (let (a, reading) = live_responded h sequence statuses (po_app p); p' = p\<lparr>po_app := a\<rparr> in
              Some (if reading then p'\<lparr>po_requests := (po_requests p)[i := Polled_reading sequence]\<rparr> else end_refresh i p')))
      else None)"
| "poll_step h (Poll_read i data) p =
     (if i < length (po_requests p) then
        (case po_requests p ! i of
           Polled_sent _ \<Rightarrow> None
         | Polled_reading sequence \<Rightarrow> Some (end_refresh i (p\<lparr>po_app := live_finished sequence data (po_app p)\<rparr>)))
      else None)"
| "poll_step h Unmounted p = (if po_disposed p then None else Some (dispose p))"
| "poll_step h (Rest_of_the_application a) p =
     (if ap_liveLoadGate (po_app p) \<le> ap_liveLoadGate a then Some (p\<lparr>po_app := a\<rparr>) else None)"

fun poll_run :: "host \<Rightarrow> poll_event list \<Rightarrow> polling \<Rightarrow> polling option" where
  "poll_run h [] p = Some p"
| "poll_run h (e # es) p = (case poll_step h e p of Some p' \<Rightarrow> poll_run h es p' | None \<Rightarrow> None)"

subsection \<open>What holds of every page\<close>

fun token :: "poll_request \<Rightarrow> nat" where
  "token (Polled_sent sequence) = sequence"
| "token (Polled_reading sequence) = sequence"

definition sound_polling :: "polling \<Rightarrow> bool" where
  "sound_polling p \<longleftrightarrow>
     length (po_requests p) = (if po_refreshing p then 1 else 0) \<and>
     po_timer p = (po_initialized p \<and> \<not> po_disposed p) \<and> po_listening p = (\<not> po_disposed p) \<and>
     (po_initialized p \<longrightarrow> po_first p = First_over) \<and> (po_refreshing p \<longrightarrow> po_initialized p) \<and>
     (\<forall>r\<in>set (po_requests p). token r \<le> ap_liveLoadGate (po_app p) \<and>
        (po_disposed p \<longrightarrow> token r < ap_liveLoadGate (po_app p)))"

definition poll_moves :: "host \<Rightarrow> polling \<Rightarrow> polling \<Rightarrow> bool" where
  "poll_moves h p p' \<longleftrightarrow> (\<exists>e. poll_step h e p = Some p')"

lemma gate_kept [simp]:
  "ap_liveLoadGate (fst (live_responded h sequence statuses a)) = ap_liveLoadGate a"
  "ap_liveLoadGate (live_finished sequence data a) = ap_liveLoadGate a"
  "ap_liveLoadGate (load_failed h sequence a) = ap_liveLoadGate a"
  "ap_liveLoadGate (fst (load_responded h sequence statuses a)) = ap_liveLoadGate a"
  "ap_liveLoadGate (load_finished h sequence data a) = ap_liveLoadGate a"
  "ap_liveLoadGate (fst (load_begin a)) = ap_liveLoadGate a"
  by (simp_all add: live_responded_def live_finished_def load_failed_def load_responded_def load_finished_def load_begin_def
      load_data_set_def isolatePolicyDraft_def requireLogin_def resetPolicyDraftState_def forget_draft_def edit_def Let_def
      split: option.splits prod.splits)

lemma ignored_when_disposed:
  assumes "sequence < ap_liveLoadGate a"
  shows "live_responded h sequence statuses a = (a, False)" "live_finished sequence data a = a"
  using assms by (simp_all add: live_responded_def live_finished_def gate_isCurrent_def)

lemma only_request:
  assumes "sound_polling p" "i < length (po_requests p)"
  shows "i = 0" "po_refreshing p" "\<exists>r. po_requests p = [r]"
proof -
  have l: "length (po_requests p) = (if po_refreshing p then 1 else 0)" using assms(1) by (simp add: sound_polling_def)
  then show r: "po_refreshing p" "i = 0" using assms(2) by (auto split: if_splits)
  show "\<exists>r. po_requests p = [r]" using l r(1) by (cases "po_requests p") auto
qed

lemma refresh_sound: "sound_polling p \<Longrightarrow> \<not> po_disposed p \<Longrightarrow> sound_polling (refreshWhenVisible p)"
  by (auto simp: sound_polling_def refreshWhenVisible_def refresh_def live_begin_def gate_begin_def)

lemma end_sound:
  assumes "sound_polling p" "i < length (po_requests p)"
  shows "sound_polling (end_refresh i p)"
proof -
  obtain r where "po_requests p = [r]" "i = 0" using only_request [OF assms] by blast
  then have "po_requests (end_refresh i p) = []" by (simp add: end_refresh_def remove_at_take_drop)
  then show ?thesis using assms(1) by (simp add: sound_polling_def end_refresh_def)
qed

text \<open>Another state of the application behind the same gate.\<close>

lemma same_gate_sound:
  "sound_polling p \<Longrightarrow> ap_liveLoadGate (po_app p) \<le> ap_liveLoadGate a \<Longrightarrow> sound_polling (p\<lparr>po_app := a\<rparr>)"
  by (fastforce simp: sound_polling_def)

lemma answered_sound:
  assumes "sound_polling p" "po_requests p ! i = Polled_sent sequence" "i < length (po_requests p)"
  shows "sound_polling (p\<lparr>po_requests := (po_requests p)[i := Polled_reading sequence]\<rparr>)"
proof -
  obtain r where "po_requests p = [r]" "i = 0" using only_request [OF assms(1,3)] by blast
  then show ?thesis using assms(1,2) by (simp add: sound_polling_def)
qed

lemma started_sound: "sound_polling p \<Longrightarrow> \<not> po_initialized p \<Longrightarrow> sound_polling (started p)"
  by (auto simp: started_def sound_polling_def Let_def)

text \<open>The first load goes on, with another state of the application.\<close>

lemma first_load_sound:
  assumes "sound_polling p" "po_first p \<noteq> First_over" "ap_liveLoadGate a = ap_liveLoadGate (po_app p)"
  shows "sound_polling (started (p\<lparr>po_app := a\<rparr>))" "sound_polling (p\<lparr>po_app := a, po_first := First_reading sequence\<rparr>)"
proof -
  have s: "sound_polling (p\<lparr>po_app := a\<rparr>)" "\<not> po_initialized p"
    using assms same_gate_sound [of p a] by (auto simp: sound_polling_def)
  then show "sound_polling (started (p\<lparr>po_app := a\<rparr>))" using started_sound by simp
  show "sound_polling (p\<lparr>po_app := a, po_first := First_reading sequence\<rparr>)" using s by (simp add: sound_polling_def)
qed

lemma poll_step_sound: "sound_polling p \<Longrightarrow> poll_step h e p = Some p' \<Longrightarrow> sound_polling p'"
proof (induction h e p rule: poll_step.induct)
  case (1 h p)
  then show ?case using first_load_sound(1) by (auto split: first_load.splits)
next
  case (2 h statuses p)
  then obtain sequence where s: "po_first p = First_sent sequence" by (auto split: first_load.splits)
  obtain a reading where r: "load_responded h sequence statuses (po_app p) = (a, reading)" by (metis surj_pair)
  then have "ap_liveLoadGate a = ap_liveLoadGate (po_app p)" using gate_kept(4) [of h sequence statuses "po_app p"] by simp
  then show ?case using 2 s r first_load_sound [of p a] by (auto simp: Let_def split: if_splits)
next
  case (3 h data p)
  then show ?case using first_load_sound(1) by (auto split: first_load.splits)
next
  case (4 h p)
  then show ?case using refresh_sound [of p] by (auto simp: sound_polling_def split: if_splits)
next
  case (5 h p)
  then show ?case using refresh_sound [of p] by (auto simp: sound_polling_def split: if_splits)
next
  case (7 h i p)
  then show ?case using end_sound [of p i] by (simp split: if_splits)
next
  case (8 h i statuses p)
  then obtain sequence where s: "po_requests p ! i = Polled_sent sequence" "i < length (po_requests p)"
    by (auto split: if_splits poll_request.splits)
  obtain a reading where r: "live_responded h sequence statuses (po_app p) = (a, reading)" by (metis surj_pair)
  then have "ap_liveLoadGate a = ap_liveLoadGate (po_app p)" using gate_kept(1) [of h sequence statuses "po_app p"] by simp
  then have "sound_polling (p\<lparr>po_app := a\<rparr>)" using 8(1) same_gate_sound by simp
  then show ?case using 8(2) s r answered_sound [of "p\<lparr>po_app := a\<rparr>" i sequence] end_sound [of "p\<lparr>po_app := a\<rparr>" i]
    by (auto simp: Let_def split: if_splits)
next
  case (9 h i data p)
  then obtain sequence where "po_requests p ! i = Polled_reading sequence" "i < length (po_requests p)"
    by (auto split: if_splits poll_request.splits)
  then show ?case using 9 end_sound [of "p\<lparr>po_app := live_finished sequence data (po_app p)\<rparr>" i] same_gate_sound [of p] by auto
next
  case (10 h p)
  then have p': "p' = dispose p" "\<not> po_disposed p" by (simp_all split: if_splits)
  have "\<forall>r\<in>set (po_requests p). token r < Suc (ap_liveLoadGate (po_app p))"
    using 10(1) by (auto simp: sound_polling_def less_Suc_eq_le)
  then show ?case using 10(1) p' by (auto simp: sound_polling_def dispose_def gate_invalidate_def less_imp_le)
next
  case (11 h a p)
  then show ?case using same_gate_sound by (auto split: if_splits)
qed (auto simp: started_def sound_polling_def split: if_splits)

interpretation polls: invariant_of "poll_moves h" sound_polling for h
  by unfold_locales (auto simp: poll_moves_def intro: poll_step_sound)

lemma poll_moves_step: "poll_step h e p = Some p' \<Longrightarrow> poll_moves h p p'"
  by (auto simp: poll_moves_def)

lemma run_moves: "poll_run h es p = Some p' \<Longrightarrow> (poll_moves h)\<^sup>*\<^sup>* p p'"
  by (induction h es p rule: poll_run.induct)
    (auto split: option.splits intro: converse_rtranclp_into_rtranclp poll_moves_step)

lemma reached_sound: "poll_run h es (poll_start hidden a) = Some p \<Longrightarrow> sound_polling p"
  by (rule polls.always [OF run_moves]) (auto simp: sound_polling_def poll_start_def load_begin_def split: prod.splits)

definition of_the_effect :: "poll_event \<Rightarrow> bool" where
  "of_the_effect e = (case e of Rest_of_the_application _ \<Rightarrow> False | _ \<Rightarrow> True)"

definition of_the_first_load :: "poll_event \<Rightarrow> bool" where
  "of_the_first_load e = (case e of First_lost \<Rightarrow> True | First_answered _ \<Rightarrow> True | First_read _ \<Rightarrow> True | _ \<Rightarrow> False)"

text \<open>Another load, or signing out, has closed the gate behind the first load.\<close>

definition first_superseded :: "polling \<Rightarrow> bool" where
  "first_superseded p =
     (case po_first p of
        First_sent sequence \<Rightarrow> \<not> gate_isCurrent (ap_loadGate (po_app p)) sequence
      | First_reading sequence \<Rightarrow> \<not> gate_isCurrent (ap_loadGate (po_app p)) sequence
      | First_over \<Rightarrow> True)"

lemma started_app [simp]: "po_app (started p) = po_app p"
  by (simp add: started_def Let_def)

lemma superseded_step:
  assumes "first_superseded p" "poll_step h e p = Some p'" "of_the_first_load e"
  shows "po_app p' = po_app p"
  using assms
  by (cases e; cases "po_first p") (auto simp: of_the_first_load_def first_superseded_def load_failed_def load_responded_def
      load_finished_def split: if_splits)

lemma disposed_step:
  assumes "sound_polling p" "po_disposed p" "poll_step h e p = Some p'" "of_the_effect e" "\<not> of_the_first_load e"
  shows "po_app p' = po_app p"
proof -
  have late: "sequence < ap_liveLoadGate (po_app p)"
    if "po_requests p ! i = r" "token r = sequence" "i < length (po_requests p)" for i r sequence
    using assms(1,2) that nth_mem [OF that(3)] by (auto simp: sound_polling_def)
  show ?thesis
  proof (cases e)
    case (Poll_answered i statuses)
    then obtain sequence where s: "po_requests p ! i = Polled_sent sequence" "i < length (po_requests p)"
      using assms(3) by (auto split: if_splits poll_request.splits)
    then show ?thesis using assms(3) Poll_answered ignored_when_disposed(1) [OF late [OF s(1) _ s(2)]]
      by (auto simp: end_refresh_def split: if_splits)
  next
    case (Poll_read i data)
    then obtain sequence where s: "po_requests p ! i = Polled_reading sequence" "i < length (po_requests p)"
      using assms(3) by (auto split: if_splits poll_request.splits)
    then show ?thesis using assms(3) Poll_read ignored_when_disposed(2) [OF late [OF s(1) _ s(2)]]
      by (auto simp: end_refresh_def split: if_splits)
  qed (use assms in \<open>auto simp: of_the_effect_def of_the_first_load_def sound_polling_def end_refresh_def split: if_splits\<close>)
qed

text \<open>C14: However the page is used and whatever the server answers, at most one request for the live state is
  under way, none before the load that the effect begins with has ended; the timer runs exactly from that
  moment to the end of the page. After that end no request for the live state touches the application
  any more, not even a reply that arrives late; the load the effect began with does not either once
  another load or signing out has superseded it (nothing else stops that one: the end of the page does not).\<close>

theorem live_requests_do_not_overlap:
  assumes "poll_run h es (poll_start hidden a) = Some p"
  shows "length (po_requests p) \<le> 1 \<and> (po_requests p \<noteq> [] \<longrightarrow> po_initialized p) \<and> (po_initialized p \<longrightarrow> po_first p = First_over) \<and>
    po_timer p = (po_initialized p \<and> \<not> po_disposed p) \<and>
    (po_disposed p \<longrightarrow> (\<forall>e p'. of_the_effect e \<longrightarrow> (of_the_first_load e \<longrightarrow> first_superseded p) \<longrightarrow>
       poll_step h e p = Some p' \<longrightarrow> po_app p' = po_app p))"
proof -
  have s: "sound_polling p" using assms by (rule reached_sound)
  have "\<forall>e p'. of_the_effect e \<longrightarrow> (of_the_first_load e \<longrightarrow> first_superseded p) \<longrightarrow>
      poll_step h e p = Some p' \<longrightarrow> po_app p' = po_app p" if "po_disposed p"
    using disposed_step [OF s that] superseded_step [of p h] by blast
  moreover have "length (po_requests p) \<le> 1" "po_requests p \<noteq> [] \<longrightarrow> po_initialized p" "po_timer p = (po_initialized p \<and> \<not> po_disposed p)"
    "po_initialized p \<longrightarrow> po_first p = First_over"
    using s by (auto simp: sound_polling_def split: if_splits)
  ultimately show ?thesis by blast
qed

theorem live_requests_do_not_overlap_witness:
  "\<forall>h a. \<exists>p. poll_run h [First_lost, Tick, Page_event, Tick] (poll_start False a) = Some p \<and> length (po_requests p) \<le> 1"
proof (intro allI)
  fix h a
  have "\<exists>p. poll_run h [First_lost, Tick, Page_event, Tick] (poll_start False a) = Some p"
    by (simp add: poll_start_def load_begin_def started_def refreshWhenVisible_def refresh_def live_begin_def gate_begin_def Let_def)
  then show "\<exists>p. poll_run h [First_lost, Tick, Page_event, Tick] (poll_start False a) = Some p \<and> length (po_requests p) \<le> 1"
    using live_requests_do_not_overlap by blast
qed

text \<open>The load that the effect begins with outlives the page: a reply of 401 after the end still discards the
  draft and signs the user out.\<close>

theorem the_first_load_outlives_the_page:
  assumes "poll_run h [Unmounted, First_answered (replicate 10 401)] (poll_start hidden a) = Some p"
  shows "po_disposed p \<and> ap_localStorage (po_app p) = clearPolicyDraft (ap_localStorage a) \<and> ap_loginRequired (po_app p)"
  using assms
  by (auto simp: poll_start_def load_begin_def gate_begin_def dispose_def load_responded_def gate_isCurrent_def requireLogin_def
      resetPolicyDraftState_def forget_draft_def started_def Let_def)

theorem the_first_load_outlives_the_page_witness:
  "\<forall>h a. \<exists>p. poll_run h [Unmounted, First_answered (replicate 10 401)] (poll_start False a) = Some p \<and> ap_loginRequired (po_app p)"
proof (intro allI)
  fix h a
  have "\<exists>p. poll_run h [Unmounted, First_answered (replicate 10 401)] (poll_start False a) = Some p"
    by (simp add: poll_start_def load_begin_def gate_begin_def dispose_def Let_def split: prod.split)
  then show "\<exists>p. poll_run h [Unmounted, First_answered (replicate 10 401)] (poll_start False a) = Some p \<and> ap_loginRequired (po_app p)"
    using the_first_load_outlives_the_page by blast
qed

text \<open>A tick that is answered, and data to answer it with.\<close>

definition after_tick :: "load_data \<Rightarrow> poll_event list" where
  "after_tick d = [Tick, Poll_answered 0 [200, 200, 200, 200], Poll_read 0 (Some d)]"

definition fresh_data :: load_data where
  "fresh_data = \<lparr>ld_agents = Arr [Null], ld_configs = Obj [], ld_metrics = Arr [], ld_audit = Arr [], ld_storage = Obj [], ld_security = Arr [],
     ld_deployments = Arr [], ld_identity = Obj [(''username'', Str ''ana'')], ld_access = Null, ld_collectorBases = Arr []\<rparr>"

text \<open>C15: The page never stops refreshing: in whatever state a visible page is after its first load, once the
  request that may be under way has ended, even by a failure, the next tick sends another, and when
  that is answered its agents, versions, deployments and bases are the ones that are shown, and the
  page is ready for the tick after.\<close>

theorem the_page_keeps_refreshing:
  assumes "poll_run h es (poll_start hidden a) = Some p" "po_initialized p" "\<not> po_disposed p" "\<not> po_hidden p"
  shows "\<exists>p'. poll_run h ((if po_requests p = [] then [] else [Poll_lost 0]) @ after_tick d) p = Some p' \<and>
    ap_agents (po_app p') = ld_agents d \<and> ap_configs (po_app p') = ld_configs d \<and>
    ap_deployments (po_app p') = array_or_empty (ld_deployments d) \<and> ap_collectorBases (po_app p') = ld_collectorBases d \<and>
    po_requests p' = [] \<and> \<not> po_refreshing p'"
proof -
  have ready: "\<exists>p'. poll_run h (after_tick d) p = Some p' \<and>
    ap_agents (po_app p') = ld_agents d \<and> ap_configs (po_app p') = ld_configs d \<and>
    ap_deployments (po_app p') = array_or_empty (ld_deployments d) \<and> ap_collectorBases (po_app p') = ld_collectorBases d \<and>
    po_requests p' = [] \<and> \<not> po_refreshing p'"
    if "po_timer p" "po_initialized p" "\<not> po_hidden p" "\<not> po_refreshing p" "po_requests p = []" for p
    using that by (simp add: after_tick_def refreshWhenVisible_def refresh_def live_begin_def gate_begin_def live_responded_def
      gate_isCurrent_def response_ok_def end_refresh_def remove_at_take_drop live_finished_def)
  have s: "sound_polling p" using assms(1) by (rule reached_sound)
  show ?thesis
  proof (cases "po_requests p = []")
    case True
    then show ?thesis using ready [of p] s assms(2-4) by (simp add: sound_polling_def split: if_splits)
  next
    case False
    then have step: "poll_step h (Poll_lost 0) p = Some (end_refresh 0 p)" by simp
    obtain r where "po_requests p = [r]" using False only_request(3) [OF s, of 0] by auto
    then have e: "po_requests (end_refresh 0 p) = []" "\<not> po_refreshing (end_refresh 0 p)"
      by (simp_all add: end_refresh_def remove_at_take_drop)
    have "po_timer (end_refresh 0 p)" "po_initialized (end_refresh 0 p)" "\<not> po_hidden (end_refresh 0 p)"
      using s assms(2-4) by (simp_all add: sound_polling_def end_refresh_def)
    from ready [OF this e(2,1)] show ?thesis using False step by simp
  qed
qed

theorem the_page_keeps_refreshing_witness:
  "\<forall>h a. \<exists>p p'. poll_run h [First_lost, Tick, Poll_lost 0] (poll_start False a) = Some p \<and>
     poll_run h (after_tick fresh_data) p = Some p' \<and> ap_agents (po_app p') = Arr [Null]"
proof (intro allI)
  fix h a
  obtain p where p: "poll_run h [First_lost, Tick, Poll_lost 0] (poll_start False a) = Some p"
    "po_initialized p" "\<not> po_disposed p" "\<not> po_hidden p" "po_requests p = []"
    by (simp add: poll_start_def load_begin_def started_def refreshWhenVisible_def refresh_def live_begin_def gate_begin_def
      end_refresh_def remove_at_take_drop Let_def)
  from the_page_keeps_refreshing [OF p(1-4), of fresh_data] p(1,5)
  show "\<exists>p p'. poll_run h [First_lost, Tick, Poll_lost 0] (poll_start False a) = Some p \<and>
     poll_run h (after_tick fresh_data) p = Some p' \<and> ap_agents (po_app p') = Arr [Null]"
    by (fastforce simp: fresh_data_def)
qed

subsection \<open>A late reply after signing in\<close>

lemma live_gate_of_isolation [simp]: "ap_liveLoadGate (isolatePolicyDraft h identity a) = ap_liveLoadGate a"
  by (simp add: isolatePolicyDraft_def resetPolicyDraftState_def forget_draft_def edit_def)

text \<open>What signing in and the load that it begins make of the application.\<close>

definition signed_in :: "host \<Rightarrow> jsval \<Rightarrow> load_data \<Rightarrow> app \<Rightarrow> app" where
  "signed_in h identity d a =
     (case authenticated h identity a of
        (a', Some sequence) \<Rightarrow> load_finished h sequence (Some d) a'
      | (a', None) \<Rightarrow> a')"

lemma signed_in_state:
  assumes "\<not> nullish identity" "\<not> nullish (ld_identity d)"
  shows "ap_liveLoadGate (signed_in h identity d a) = ap_liveLoadGate a" "\<not> ap_loginRequired (signed_in h identity d a)"
  using assms
  by (simp_all add: signed_in_def authenticated_def load_begin_def gate_begin_def load_finished_def gate_isCurrent_def load_data_set_def Let_def
      isolatePolicyDraft_def resetPolicyDraftState_def forget_draft_def edit_def)

text \<open>C16: Signing in does not stop the request for the live state that the sign-in page had sent: when the server
  has answered it with 401 and the reply arrives after the user has signed in and everything has
  been loaded, the page asks for the password again, with the draft discarded.\<close>

theorem a_late_401_ends_the_new_session:
  assumes "po_timer p" "po_initialized p" "\<not> po_refreshing p" "\<not> po_hidden p" "po_requests p = []"
    and "\<not> nullish identity" "\<not> nullish (ld_identity d)"
  shows "let a = signed_in h identity d (fst (live_begin (po_app p))) in
    \<not> ap_loginRequired a \<and>
    (\<exists>p'. poll_run h [Tick, Rest_of_the_application a, Poll_answered 0 [401, 401, 401, 401]] p = Some p' \<and>
       po_app p' = requireLogin h a \<and> ap_loginRequired (po_app p') \<and> ap_authIdentity (po_app p') = Null)"
proof -
  let ?a = "signed_in h identity d (fst (live_begin (po_app p)))"
  note s = signed_in_state [OF assms(6,7)]
  have g: "ap_liveLoadGate ?a = Suc (ap_liveLoadGate (po_app p))"
    by (simp add: s live_begin_def gate_begin_def)
  have "live_responded h (Suc (ap_liveLoadGate (po_app p))) [401, 401, 401, 401] ?a = (requireLogin h ?a, False)"
    by (simp add: live_responded_def gate_isCurrent_def g)
  moreover have "ap_loginRequired (requireLogin h ?a)" "ap_authIdentity (requireLogin h ?a) = Null"
    by (simp_all add: requireLogin_def)
  ultimately show ?thesis using assms(1-5) s(2) g
    by (simp add: Let_def refreshWhenVisible_def refresh_def live_begin_def gate_begin_def end_refresh_def)
qed

theorem a_late_401_ends_the_new_session_witness:
  "\<forall>h a. \<exists>b p. \<not> ap_loginRequired b \<and> ap_loginRequired (po_app p) \<and>
     poll_run h [First_lost, Tick, Rest_of_the_application b, Poll_answered 0 [401, 401, 401, 401]] (poll_start False a) = Some p"
proof (intro allI)
  fix h a
  let ?first = "poll_start False a"
  let ?p = "started (?first\<lparr>po_app := load_failed h (snd (load_begin a)) (po_app ?first)\<rparr>)"
  have p: "po_timer ?p" "po_initialized ?p" "\<not> po_refreshing ?p" "\<not> po_hidden ?p" "po_requests ?p = []"
    "\<not> nullish (Obj [(''username'', Str ''ana'')])" "\<not> nullish (ld_identity fresh_data)"
    by (simp_all add: started_def poll_start_def fresh_data_def nullish_def Let_def split: prod.split)
  have start: "poll_run h (First_lost # es) ?first = poll_run h es ?p" for es
    by (simp add: poll_start_def Let_def split: prod.split)
  from a_late_401_ends_the_new_session [OF p, of h]
  show "\<exists>b p. \<not> ap_loginRequired b \<and> ap_loginRequired (po_app p) \<and>
     poll_run h [First_lost, Tick, Rest_of_the_application b, Poll_answered 0 [401, 401, 401, 401]] (poll_start False a) = Some p"
    unfolding start Let_def by blast
qed

end
