(* ===== verification/Requests.thy ===== *)
theory Requests
  imports App_Handlers Access_Props Users_View Email_View Profile_View Login_View Views Url
begin

section \<open>What the application asks the server for\<close>

text \<open>
  Every call of \<open>fetch\<close> in \<open>ui/src/main.jsx\<close>, as the request it describes: the method, the URL, the
  headers, the options \<open>credentials\<close> and \<open>cache\<close>, and the value that \<open>JSON.stringify\<close> turns into the
  body. The other half of a call, what the component does with the reply, is in the theories of the
  components (\<open>..._begin\<close> and \<open>..._end\<close>). A URL is read as the browser reads it (\<open>site_path\<close>), with its
  dot segments resolved. The lemmas show which resource each call reaches.
\<close>

subsection \<open>Requests\<close>

datatype request_body = Json jsval | Profile_json profile_payload | User_json user_payload | Email_json email_payload

record request =
  rq_method :: string
  rq_url :: string
  rq_headers :: "(string \<times> jsval) list"
  rq_credentials :: "string option"
  rq_cache :: "string option"
  rq_body :: "request_body option"

definition public_read :: "string \<Rightarrow> request" where
  "public_read url = \<lparr>rq_method = ''GET'', rq_url = url, rq_headers = [], rq_credentials = None,
     rq_cache = Some ''no-store'', rq_body = None\<rparr>"

text \<open>The options \<open>protectedOptions\<close> of the two loads, which other reads write out.\<close>

definition protected_read :: "string \<Rightarrow> request" where
  "protected_read url = (public_read url)\<lparr>rq_credentials := Some ''same-origin''\<rparr>"

definition change :: "string \<Rightarrow> string \<Rightarrow> request" where
  "change method url = \<lparr>rq_method = method, rq_url = url, rq_headers = [], rq_credentials = Some ''same-origin'',
     rq_cache = None, rq_body = None\<rparr>"

definition with_json :: "request_body \<Rightarrow> request \<Rightarrow> request" where
  "with_json body r = r\<lparr>rq_headers := (''content-type'', Str ''application/json'') # rq_headers r, rq_body := Some body\<rparr>"

definition with_actor :: "jsval \<Rightarrow> request \<Rightarrow> request" where
  "with_actor actor r = r\<lparr>rq_headers := rq_headers r @ [(''x-actor'', actor)]\<rparr>"

subsection \<open>Configurations and policies\<close>

definition validate_request :: "jsval \<Rightarrow> jsval \<Rightarrow> request" where
  "validate_request actor body =
     with_json (Json (Obj [(''Body'', body)])) (with_actor actor (change ''POST'' ''/api/configs/validate''))"

definition publish_request :: "jsval \<Rightarrow> editor \<Rightarrow> view \<Rightarrow> request" where
  "publish_request actor ed v =
     with_json (Json (Obj (publicationRequest ed v))) (with_actor actor (change ''POST'' ''/api/configs''))"

definition restore_request :: "jsval \<Rightarrow> jsobj \<Rightarrow> request" where
  "restore_request actor version = with_actor actor (change ''POST'' (restoreEndpoint version))"

definition policy_request :: "jsval \<Rightarrow> string \<Rightarrow> request" where
  "policy_request actor ident = with_actor actor (change ''POST'' (policyLifecycleEndpoint ident))"

definition collector_request :: "jsval \<Rightarrow> string \<Rightarrow> request" where
  "collector_request actor ident = with_actor actor (change ''POST'' (collectorDeactivateEndpoint ident))"

definition denylist_request :: "jsval \<Rightarrow> denylist_editor \<Rightarrow> request" where
  "denylist_request actor ed =
     with_json (Json (Arr (map Obj (denylist_payload ed)))) (with_actor actor (change ''PUT'' ''/api/security/denylist''))"

subsection \<open>The session\<close>

text \<open>Asking for a new password and resetting it leave \<open>credentials\<close> at its default.\<close>

definition login_request :: "string \<Rightarrow> string \<Rightarrow> request" where
  "login_request username password =
     with_json (Json (Obj [(''Username'', Str username), (''Password'', Str password)])) (change ''POST'' ''/api/auth/login'')"

definition forgot_request :: "string \<Rightarrow> request" where
  "forgot_request ident =
     (with_json (Json (Obj [(''usernameOrEmail'', Str ident)])) (change ''POST'' ''/api/auth/password/forgot''))\<lparr>rq_credentials := None\<rparr>"

definition reset_request :: "string \<Rightarrow> string \<Rightarrow> request" where
  "reset_request token newPassword =
     (with_json (Json (Obj [(''token'', Str token), (''newPassword'', Str newPassword)]))
        (change ''POST'' ''/api/auth/password/reset''))\<lparr>rq_credentials := None\<rparr>"

definition logout_request :: request where
  "logout_request = change ''POST'' ''/api/auth/logout''"

subsection \<open>The account, the users and the settings\<close>

definition profile_request :: "profile_payload \<Rightarrow> request" where
  "profile_request p = with_json (Profile_json p) (change ''PUT'' ''/api/auth/profile'')"

definition password_request :: "string \<Rightarrow> string \<Rightarrow> request" where
  "password_request currentPassword newPassword =
     with_json (Json (Obj [(''currentPassword'', Str currentPassword), (''newPassword'', Str newPassword)]))
       (change ''POST'' ''/api/auth/password/change'')"

definition provider_path :: "string \<Rightarrow> string" where
  "provider_path ident = ''/api/auth/providers/'' @ encode_uri_component ident"

definition provider_request :: "string \<Rightarrow> jsobj \<Rightarrow> request" where
  "provider_request ident payload = with_json (Json (Obj payload)) (change ''PUT'' (provider_path ident))"

definition preflight_request :: "string \<Rightarrow> request" where
  "preflight_request ident = change ''POST'' (provider_path ident @ ''/preflight'')"

definition remove_provider_request :: "string \<Rightarrow> request" where
  "remove_provider_request ident = change ''DELETE'' (provider_path ident)"

text \<open>The metadata is read from the address that the server gave, of which nothing is known here.\<close>

definition metadata_request :: "string \<Rightarrow> request" where
  "metadata_request url = (public_read url)\<lparr>rq_credentials := Some ''same-origin'', rq_cache := None\<rparr>"

definition user_request :: "user_payload \<Rightarrow> bool \<Rightarrow> request" where
  "user_request p created =
     with_json (User_json p) (change (if created then ''POST'' else ''PUT'') (saveUser_endpoint (p, created)))"

definition remove_user_request :: "string \<Rightarrow> request" where
  "remove_user_request username = change ''DELETE'' (user_path username)"

definition recover_user_request :: "string \<Rightarrow> request" where
  "recover_user_request username = change ''POST'' (user_path username @ ''/password-reset'')"

definition email_request :: "email_payload \<Rightarrow> request" where
  "email_request p = with_json (Email_json p) (change ''PUT'' ''/api/settings/email'')"

definition test_email_request :: "string \<Rightarrow> request" where
  "test_email_request recipient =
     with_json (Json (Obj [(''to'', Str recipient)])) (change ''POST'' ''/api/settings/email/test'')"

subsection \<open>Reading\<close>

definition public_requests :: "request list" where
  "public_requests = map public_read [''/api/auth/public-providers'', ''/api/auth/password-recovery/status'']"

definition profile_read :: request where
  "profile_read = protected_read ''/api/auth/profile''"

definition users_requests :: "request list" where
  "users_requests = map protected_read [''/api/auth/users'', ''/api/auth/roles'']"

definition email_read :: request where
  "email_read = protected_read ''/api/settings/email''"

definition network_read :: request where
  "network_read = protected_read ''/api/system/network''"

definition load_requests :: "request list" where
  "load_requests = map protected_read
     [''/api/agents'', ''/api/configs'', ''/api/metric-names'', ''/api/audit'', ''/api/storage'', ''/api/security/denylist'',
      ''/api/deployments'', ''/api/auth/session'', ''/api/auth/providers'', ''/api/collector-base-configs'']"

definition live_requests :: "request list" where
  "live_requests = map protected_read [''/api/agents'', ''/api/configs'', ''/api/deployments'', ''/api/collector-base-configs'']"

definition reads :: "request list" where
  "reads = public_requests @ [profile_read] @ users_requests @ [email_read, network_read] @ load_requests @ live_requests"

subsection \<open>How the browser reads a URL\<close>

text \<open>
  The path state of the URL standard for a URL that starts with one slash: the query and the fragment
  are cut, tabs and line breaks dropped, a backslash is a slash, and the dot segments, also in their
  percent-encoded forms, are resolved. \<open>None\<close> is a URL that may name another server.
\<close>

definition single_dot :: "string \<Rightarrow> bool" where
  "single_dot s \<longleftrightarrow> js_lower s \<in> {''.'', ''%2e''}"

definition double_dot :: "string \<Rightarrow> bool" where
  "double_dot s \<longleftrightarrow> js_lower s \<in> {''..'', ''.%2e'', ''%2e.'', ''%2e%2e''}"

fun resolve :: "string list \<Rightarrow> string list \<Rightarrow> string list" where
  "resolve out [] = rev out"
| "resolve out (s # ss) =
     (if double_dot s then resolve ((if ss = [] then [[]] else []) @ tl out) ss
      else if single_dot s then resolve ((if ss = [] then [[]] else []) @ out) ss
      else resolve (s # out) ss)"

definition url_slash :: "char \<Rightarrow> char" where
  "url_slash c = (if c = CHR 0x5C then CHR ''/'' else c)"

definition path_text :: "string \<Rightarrow> string" where
  "path_text url =
     map url_slash (takeWhile (\<lambda>c. c \<noteq> CHR ''?'' \<and> c \<noteq> CHR ''#'') (filter (\<lambda>c. code c \<notin> {9, 10, 13}) url))"

definition site_path :: "string \<Rightarrow> string list option" where
  "site_path url =
     (case path_text url of
        [] \<Rightarrow> None
      | c # r \<Rightarrow> if c \<noteq> CHR ''/'' \<or> r \<noteq> [] \<and> hd r = CHR ''/'' then None else Some (resolve [] (split_char CHR ''/'' r)))"

text \<open>\<open>decodeURIComponent\<close> of a segment: decoding as a form does, but a plus sign stands for itself.\<close>

definition decode_segment :: "string \<Rightarrow> string" where
  "decode_segment s = form_decode (concat (map (\<lambda>c. if c = CHR ''+'' then ''%2B'' else [c]) s))"

definition resource_at :: "string \<Rightarrow> string list option" where
  "resource_at url = map_option (map decode_segment) (site_path url)"

declare public_read_def [js_eval] protected_read_def [js_eval] change_def [js_eval] with_json_def [js_eval] with_actor_def [js_eval]
  validate_request_def [js_eval] publish_request_def [js_eval] restore_request_def [js_eval] policy_request_def [js_eval]
  collector_request_def [js_eval] denylist_request_def [js_eval] login_request_def [js_eval] forgot_request_def [js_eval]
  reset_request_def [js_eval] logout_request_def [js_eval] profile_request_def [js_eval] password_request_def [js_eval]
  provider_path_def [js_eval] provider_request_def [js_eval] preflight_request_def [js_eval] remove_provider_request_def [js_eval]
  metadata_request_def [js_eval] user_request_def [js_eval] remove_user_request_def [js_eval] recover_user_request_def [js_eval]
  email_request_def [js_eval] test_email_request_def [js_eval] public_requests_def [js_eval] profile_read_def [js_eval]
  users_requests_def [js_eval] email_read_def [js_eval] network_read_def [js_eval] load_requests_def [js_eval]
  live_requests_def [js_eval] reads_def [js_eval] single_dot_def [js_eval] double_dot_def [js_eval] url_slash_def [js_eval]
  path_text_def [js_eval] site_path_def [js_eval] decode_segment_def [js_eval] resource_at_def [js_eval]

subsection \<open>The calls, and the resources they are about\<close>

text \<open>
  The calls that ask for a change, with what the component hands to each. \<open>target\<close> is the resource the
  call is about, as decoded segments; it does not mention how the URL is built.
\<close>

datatype call =
    Validating jsval jsval | Publishing jsval editor view | Restoring jsval jsobj
  | Moving_policy jsval string | Retiring_collector jsval string | Saving_denylist jsval denylist_editor
  | Signing_in string string | Forgetting string | Resetting string string | Signing_out
  | Saving_profile profile_payload | Changing_password string string
  | Saving_provider string jsobj | Checking_provider string | Removing_provider string
  | Saving_user user_payload bool | Removing_user string | Recovering_user string
  | Saving_email email_payload | Testing_email string

fun request_of :: "call \<Rightarrow> request" where
  "request_of (Validating actor body) = validate_request actor body"
| "request_of (Publishing actor ed v) = publish_request actor ed v"
| "request_of (Restoring actor version) = restore_request actor version"
| "request_of (Moving_policy actor ident) = policy_request actor ident"
| "request_of (Retiring_collector actor ident) = collector_request actor ident"
| "request_of (Saving_denylist actor ed) = denylist_request actor ed"
| "request_of (Signing_in username password) = login_request username password"
| "request_of (Forgetting ident) = forgot_request ident"
| "request_of (Resetting token newPassword) = reset_request token newPassword"
| "request_of Signing_out = logout_request"
| "request_of (Saving_profile p) = profile_request p"
| "request_of (Changing_password old new) = password_request old new"
| "request_of (Saving_provider ident payload) = provider_request ident payload"
| "request_of (Checking_provider ident) = preflight_request ident"
| "request_of (Removing_provider ident) = remove_provider_request ident"
| "request_of (Saving_user p created) = user_request p created"
| "request_of (Removing_user username) = remove_user_request username"
| "request_of (Recovering_user username) = recover_user_request username"
| "request_of (Saving_email p) = email_request p"
| "request_of (Testing_email recipient) = test_email_request recipient"

fun target :: "call \<Rightarrow> string list" where
  "target (Validating actor body) = [''api'', ''configs'', ''validate'']"
| "target (Publishing actor ed v) = [''api'', ''configs'']"
| "target (Restoring actor version) =
     [''api'', ''configs'', to_str (fld version ''configId''), ''versions'', to_str (fld version ''Version''), ''rollback'']"
| "target (Moving_policy actor ident) = [''api'', ''policies'', ident, ''rollback'']"
| "target (Retiring_collector actor ident) = [''api'', ''collector-configs'', ident, ''deactivate'']"
| "target (Saving_denylist actor ed) = [''api'', ''security'', ''denylist'']"
| "target (Signing_in username password) = [''api'', ''auth'', ''login'']"
| "target (Forgetting ident) = [''api'', ''auth'', ''password'', ''forgot'']"
| "target (Resetting token newPassword) = [''api'', ''auth'', ''password'', ''reset'']"
| "target Signing_out = [''api'', ''auth'', ''logout'']"
| "target (Saving_profile p) = [''api'', ''auth'', ''profile'']"
| "target (Changing_password old new) = [''api'', ''auth'', ''password'', ''change'']"
| "target (Saving_provider ident payload) = [''api'', ''auth'', ''providers'', ident]"
| "target (Checking_provider ident) = [''api'', ''auth'', ''providers'', ident, ''preflight'']"
| "target (Removing_provider ident) = [''api'', ''auth'', ''providers'', ident]"
| "target (Saving_user p created) = [''api'', ''auth'', ''users''] @ (if created then [] else [up_username p])"
| "target (Removing_user username) = [''api'', ''auth'', ''users'', username]"
| "target (Recovering_user username) = [''api'', ''auth'', ''users'', username, ''password-reset'']"
| "target (Saving_email p) = [''api'', ''settings'', ''email'']"
| "target (Testing_email recipient) = [''api'', ''settings'', ''email'', ''test'']"

text \<open>The segments of the target that are inserted into the URL as they are, without \<open>encodeURIComponent\<close>.\<close>

fun verbatim :: "call \<Rightarrow> string list" where
  "verbatim (Restoring actor version) = [to_str (fld version ''Version'')]"
| "verbatim c = []"

fun actor_in :: "call \<Rightarrow> jsval option" where
  "actor_in (Validating actor _) = Some actor"
| "actor_in (Publishing actor _ _) = Some actor"
| "actor_in (Restoring actor _) = Some actor"
| "actor_in (Moving_policy actor _) = Some actor"
| "actor_in (Retiring_collector actor _) = Some actor"
| "actor_in (Saving_denylist actor _) = Some actor"
| "actor_in _ = None"

definition no_dots :: "string list \<Rightarrow> bool" where
  "no_dots segments \<longleftrightarrow> ''.'' \<notin> set segments \<and> ''..'' \<notin> set segments"

subsection \<open>Segments that are encoded\<close>

definition in_segment :: "char \<Rightarrow> bool" where
  "in_segment c \<longleftrightarrow> uri_unreserved c \<or> c = CHR ''%''"

lemma hex_char_in_segment: "d < 16 \<Longrightarrow> in_segment (hex_char d)"
  by (auto simp: in_segment_def uri_unreserved_def hex_char_def is_digit_def is_upper_az_def Let_def)

lemma percent_in_segment: "b < 256 \<Longrightarrow> \<forall>c\<in>set (percent b). in_segment c"
  using hex_char_in_segment by (auto simp: percent_def) (simp add: in_segment_def)

lemma encode_in_segment: "c \<in> set (encode_uri_component s) \<Longrightarrow> in_segment c"
proof -
  have "\<forall>c\<in>set (uri_char d). in_segment c" for d
  proof -
    have d: "code d < 256" "192 + code d div 64 < 256" "128 + code d mod 64 < 256" using code_bound [of d] by linarith+
    show ?thesis using d [THEN percent_in_segment] by (auto simp: uri_char_def Let_def) (simp_all add: in_segment_def)
  qed
  then show "c \<in> set (encode_uri_component s) \<Longrightarrow> in_segment c" by (auto simp: encode_uri_component_def)
qed

lemma in_segment_plain:
  "in_segment c \<Longrightarrow> c \<notin> {CHR ''/'', CHR ''?'', CHR ''#'', CHR ''+'', CHR 0x5C} \<and> code c \<notin> {9, 10, 13}"
  by (auto simp: in_segment_def uri_unreserved_def is_digit_def is_lower_az_def is_upper_az_def Let_def code_def)

lemma encode_unreserved: "\<forall>c\<in>set s. uri_unreserved c \<Longrightarrow> encode_uri_component s = s"
  by (induction s) (auto simp: encode_uri_component_def uri_char_def Let_def)

lemma encode_eq_Nil [simp]: "encode_uri_component s = [] \<longleftrightarrow> s = []"
  by (cases s) (auto simp: encode_uri_component_def uri_char_def Let_def percent_def)

lemma percent_decode_uri: "percent_decode (uri_char c @ s) = utf8_bytes c @ percent_decode s"
proof -
  have "\<not> uri_unreserved CHR ''+''" "\<not> uri_unreserved CHR ''%''" by code_simp+
  moreover have "code c div 64 < 64" "code c mod 64 < 64" using code_bound [of c] by linarith+
  ultimately show ?thesis
    by (auto simp: uri_char_def Let_def utf8_bytes_def uri_unreserved_def is_digit_def is_lower_az_def is_upper_az_def)
qed

lemma decode_encode [simp]: "decode_segment (encode_uri_component s) = s"
proof -
  have plain: "concat (map (\<lambda>c. if c = CHR ''+'' then ''%2B'' else [c]) t) = t" if "\<forall>c\<in>set t. c \<noteq> CHR ''+''" for t
    using that by (induction t) auto
  have "percent_decode (concat (map uri_char s) @ []) = concat (map utf8_bytes s) @ percent_decode []"
    by (induction s) (simp_all add: percent_decode_uri)
  moreover have "utf8_decode (concat (map utf8_bytes s)) = s"
    by (induction s) (simp_all add: utf8_decode_char)
  moreover have "concat (map (\<lambda>c. if c = CHR ''+'' then ''%2B'' else [c]) (encode_uri_component s)) = encode_uri_component s"
    using encode_in_segment in_segment_plain by (intro plain) blast
  ultimately show ?thesis by (simp add: decode_segment_def form_decode_def encode_uri_component_def)
qed

text \<open>Encoding makes no dot segment: what is read as one was one.\<close>

lemma lower_dot_chars:
  "lower_char c = CHR ''.'' \<longleftrightarrow> c = CHR ''.''" "lower_char c = CHR ''%'' \<longleftrightarrow> c = CHR ''%''"
  "lower_char c = CHR ''2'' \<longleftrightarrow> c = CHR ''2''" "lower_char c = CHR ''e'' \<longleftrightarrow> c = CHR ''e'' \<or> c = CHR ''E''"
proof -
  have same: "a = b \<longleftrightarrow> code a = code b" for a b :: char by (simp add: code_def)
  have lower: "code (lower_char c) = (if (65 \<le> code c \<and> code c \<le> 90) \<or> (192 \<le> code c \<and> code c \<le> 222 \<and> code c \<noteq> 215)
      then code c + 32 else code c)"
    by (auto simp: lower_char_def Let_def code_def)
  show "lower_char c = CHR ''.'' \<longleftrightarrow> c = CHR ''.''" "lower_char c = CHR ''%'' \<longleftrightarrow> c = CHR ''%''"
    "lower_char c = CHR ''2'' \<longleftrightarrow> c = CHR ''2''" "lower_char c = CHR ''e'' \<longleftrightarrow> c = CHR ''e'' \<or> c = CHR ''E''"
    unfolding same lower by (auto simp: code_def)
qed

lemma dots_decode: "single_dot t \<Longrightarrow> decode_segment t = ''.''" "double_dot t \<Longrightarrow> decode_segment t = ''..''"
proof -
  have e: "js_lower t = l \<longleftrightarrow> list_all2 (\<lambda>c d. lower_char c = d) t l" for l
    by (simp add: js_lower_def list_all2_conv_all_nth list_eq_iff_nth_eq)
  have v: "decode_segment ''%2e'' = ''.''" "decode_segment ''%2E'' = ''.''" "decode_segment ''.'' = ''.''"
    "decode_segment ''..'' = ''..''" "decode_segment ''.%2e'' = ''..''" "decode_segment ''.%2E'' = ''..''"
    "decode_segment ''%2e.'' = ''..''" "decode_segment ''%2E.'' = ''..''" "decode_segment ''%2e%2e'' = ''..''"
    "decode_segment ''%2E%2e'' = ''..''" "decode_segment ''%2e%2E'' = ''..''" "decode_segment ''%2E%2E'' = ''..''"
    by code_simp+
  show "single_dot t \<Longrightarrow> decode_segment t = ''.''"
    by (auto simp: single_dot_def e list_all2_Cons2 lower_dot_chars v)
  show "double_dot t \<Longrightarrow> decode_segment t = ''..''"
    by (auto simp: double_dot_def e list_all2_Cons2 lower_dot_chars v)
qed

lemma encode_dots:
  assumes "no_dots xs"
  shows "\<forall>t\<in>set (map encode_uri_component xs). \<not> single_dot t \<and> \<not> double_dot t"
  using assms dots_decode decode_encode by (fastforce simp: no_dots_def)

lemma resolve_plain: "\<forall>t\<in>set ts. \<not> single_dot t \<and> \<not> double_dot t \<Longrightarrow> resolve out ts = rev out @ ts"
  by (induction ts arbitrary: out) auto

lemma path_text_plain:
  assumes "\<forall>c\<in>set url. c \<notin> {CHR ''?'', CHR ''#'', CHR 0x5C} \<and> code c \<notin> {9, 10, 13}"
  shows "path_text url = url"
proof -
  have "filter (\<lambda>c. code c \<notin> {9, 10, 13}) url = url" using assms by (intro filter_True) blast
  moreover have "takeWhile (\<lambda>c. c \<noteq> CHR ''?'' \<and> c \<noteq> CHR ''#'') url = url" using assms by (auto simp: takeWhile_eq_all_conv)
  moreover have "map url_slash url = url" using assms by (intro map_idI) (auto simp: url_slash_def)
  ultimately show ?thesis unfolding path_text_def by (simp only:)
qed

lemma set_js_join: "c \<in> set (js_join sep xs) \<Longrightarrow> c \<in> set sep \<or> (\<exists>x\<in>set xs. c \<in> set x)"
  by (induction sep xs rule: js_join.induct) auto

definition url_of :: "string list \<Rightarrow> string" where
  "url_of xs = CHR ''/'' # js_join ''/'' (map encode_uri_component xs)"

lemma resource_at_url_of:
  assumes "no_dots (x # xs)" "x \<noteq> []"
  shows "resource_at (url_of (x # xs)) = Some (x # xs)"
proof -
  let ?ts = "map encode_uri_component (x # xs)" and ?r = "js_join ''/'' (map encode_uri_component (x # xs))"
  have seg: "in_segment c" if "c \<in> set t" "t \<in> set ?ts" for c t using that encode_in_segment by auto
  have "c = CHR ''/'' \<or> in_segment c" if "c \<in> set ?r" for c
    using set_js_join [OF that] seg by auto
  then have "path_text (CHR ''/'' # ?r) = CHR ''/'' # ?r"
    by (intro path_text_plain) (use in_segment_plain in \<open>fastforce simp: code_def\<close>)
  moreover have "?r \<noteq> [] \<and> hd ?r \<noteq> CHR ''/''"
  proof -
    obtain c r where e: "encode_uri_component x = c # r" using assms(2) by (cases "encode_uri_component x") auto
    then have "c \<noteq> CHR ''/''" using encode_in_segment [of c x] in_segment_plain by auto
    then show ?thesis using e by (cases xs) auto
  qed
  moreover have "split_char CHR ''/'' ?r = ?ts"
    using seg in_segment_plain by (intro split_char_join) fastforce+
  ultimately have "site_path (url_of (x # xs)) = Some (resolve [] ?ts)"
    unfolding site_path_def url_of_def by simp
  also have "resolve [] ?ts = ?ts" using encode_dots [OF assms(1)] by (simp add: resolve_plain)
  finally show ?thesis by (simp add: resource_at_def comp_def)
qed

subsection \<open>Calls reach what they are about\<close>

lemma encode_words:
  "encode_uri_component ''api'' = ''api''" "encode_uri_component ''auth'' = ''auth''" "encode_uri_component ''configs'' = ''configs''"
  "encode_uri_component ''validate'' = ''validate''" "encode_uri_component ''versions'' = ''versions''"
  "encode_uri_component ''rollback'' = ''rollback''" "encode_uri_component ''policies'' = ''policies''"
  "encode_uri_component ''collector-configs'' = ''collector-configs''" "encode_uri_component ''deactivate'' = ''deactivate''"
  "encode_uri_component ''security'' = ''security''" "encode_uri_component ''denylist'' = ''denylist''"
  "encode_uri_component ''login'' = ''login''" "encode_uri_component ''logout'' = ''logout''"
  "encode_uri_component ''password'' = ''password''" "encode_uri_component ''forgot'' = ''forgot''"
  "encode_uri_component ''reset'' = ''reset''" "encode_uri_component ''profile'' = ''profile''"
  "encode_uri_component ''change'' = ''change''" "encode_uri_component ''providers'' = ''providers''"
  "encode_uri_component ''preflight'' = ''preflight''" "encode_uri_component ''users'' = ''users''"
  "encode_uri_component ''password-reset'' = ''password-reset''" "encode_uri_component ''settings'' = ''settings''"
  "encode_uri_component ''email'' = ''email''" "encode_uri_component ''test'' = ''test''"
  by code_simp+

lemmas request_defs = public_read_def protected_read_def change_def with_json_def with_actor_def validate_request_def
  publish_request_def restore_request_def policy_request_def collector_request_def denylist_request_def login_request_def
  forgot_request_def reset_request_def logout_request_def profile_request_def password_request_def provider_request_def
  preflight_request_def remove_provider_request_def user_request_def remove_user_request_def recover_user_request_def
  email_request_def test_email_request_def

lemma url_of_call:
  assumes "\<forall>s\<in>set (verbatim c). \<forall>d\<in>set s. uri_unreserved d"
  shows "rq_url (request_of c) = url_of (target c)"
  using assms by (cases c) (simp_all add: request_defs url_of_def encode_words encode_unreserved restoreEndpoint_def
      policyLifecycleEndpoint_def collectorDeactivateEndpoint_def provider_path_def user_path_def saveUser_endpoint_def)

lemma target_starts: "\<exists>xs. target c = ''api'' # xs"
  by (cases c) auto

lemma reached:
  assumes "no_dots (target c)" and "\<forall>s\<in>set (verbatim c). \<forall>d\<in>set s. uri_unreserved d"
  shows "resource_at (rq_url (request_of c)) = Some (target c)"
proof -
  obtain xs where "target c = ''api'' # xs" using target_starts by blast
  then show ?thesis using resource_at_url_of [of "''api''" xs] assms(1) url_of_call [OF assms(2)] by simp
qed

text \<open>C21: Whatever an identifier contains (slashes, question marks, percent signs, letters outside ASCII), a call
  that asks the server for a change stays on this server and reaches exactly the resource it is about: the path
  that the browser reads from the URL decodes to the segments of the target. The only names that would be
  resolved away are the two dot segments.\<close>

theorem a_call_reaches_its_resource:
  assumes "no_dots (target c)" and "\<forall>s\<in>set (verbatim c). \<forall>d\<in>set s. uri_unreserved d"
  shows "resource_at (rq_url (request_of c)) = Some (target c)"
  using assms by (rule reached)

theorem a_call_reaches_its_resource_witness:
  "resource_at (rq_url (request_of (Removing_user ''../a?b%2fc''))) = Some [''api'', ''auth'', ''users'', ''../a?b%2fc''] \<and>
   resource_at (rq_url (request_of (Restoring (Str ''ana'') [(''configId'', Str ''edge/1''), (''Version'', Num (Fin 3))]))) =
     Some [''api'', ''configs'', ''edge/1'', ''versions'', ''3'', ''rollback'']"
proof -
  let ?v = "[(''configId'', Str ''edge/1''), (''Version'', Num (Fin 3))]"
  have t: "target (Restoring (Str ''ana'') ?v) = [''api'', ''configs'', ''edge/1'', ''versions'', ''3'', ''rollback'']"
    "verbatim (Restoring (Str ''ana'') ?v) = [''3'']"
    by code_simp+
  have "uri_unreserved CHR ''3''" by code_simp
  then show ?thesis
    using a_call_reaches_its_resource [of "Removing_user ''../a?b%2fc''"]
      a_call_reaches_its_resource [of "Restoring (Str ''ana'') ?v", unfolded t]
    by (simp add: no_dots_def)
qed

text \<open>A dot segment would be resolved: the request to remove the user \<open>..\<close> would be one about all of \<open>auth\<close>.\<close>

lemma a_dot_segment_is_resolved:
  "resource_at (rq_url (request_of (Removing_user ''..''))) = Some [''api'', ''auth'', []]"
  by code_simp

lemma provider_id_no_dots: "is_provider_id ident \<Longrightarrow> ident \<noteq> ''.'' \<and> ident \<noteq> ''..''"
proof -
  have "\<not> is_provider_id ''.''" "\<not> is_provider_id ''..''" by code_simp+
  then show "is_provider_id ident \<Longrightarrow> ident \<noteq> ''.'' \<and> ident \<noteq> ''..''" by auto
qed

lemma username_no_dots: "is_username name \<Longrightarrow> name \<noteq> ''.'' \<and> name \<noteq> ''..''"
proof -
  have "\<not> is_username ''.''" "\<not> is_username ''..''" by code_simp+
  then show "is_username name \<Longrightarrow> name \<noteq> ''.'' \<and> name \<noteq> ''..''" by auto
qed

lemma saved_user_name:
  assumes "saveUser_begin h d s = (s', Some (p, created))"
  shows "is_username (up_username p)"
proof -
  have "validateUser d (us_creating s) = []" "p = userPayload d (us_creating s)"
    using assms by (auto simp: saveUser_begin_def Let_def split: if_splits)
  then show ?thesis by (auto simp: validateUser_def Let_def require_def split: if_splits)
qed

text \<open>C22: What the forms check is enough for that: the identifier of a provider that is saved or validated and the
  name of a user that is saved are never a dot segment, so that the request that follows the check reaches the
  provider or the user it names.\<close>

theorem checked_names_are_reached:
  assumes "persist_begin h thrown configs providerID (Obj draft) = Inr (ident, payload)"
    and "saveUser_begin h d s = (s', Some (p, created))"
  shows "resource_at (rq_url (request_of (Saving_provider ident payload))) = Some [''api'', ''auth'', ''providers'', ident] \<and>
    resource_at (rq_url (request_of (Checking_provider ident))) = Some [''api'', ''auth'', ''providers'', ident, ''preflight''] \<and>
    resource_at (rq_url (request_of (Saving_user p created))) =
      Some ([''api'', ''auth'', ''users''] @ (if created then [] else [up_username p]))"
proof -
  have "is_provider_id ident"
    using assms(1) by (auto simp: persist_begin_def and_then_def or_thrown_def Let_def id_errors_def
        split: option.splits sum.splits if_splits)
  then have i: "ident \<noteq> ''.''" "ident \<noteq> ''..''" using provider_id_no_dots by auto
  have u: "up_username p \<noteq> ''.''" "up_username p \<noteq> ''..''" using saved_user_name [OF assms(2)] username_no_dots by auto
  have "no_dots (target (Saving_provider ident payload))" "no_dots (target (Checking_provider ident))"
    "no_dots (target (Saving_user p created))"
    using i u by (auto simp: no_dots_def)
  from this [THEN reached] show ?thesis by (simp del: request_of.simps)
qed

theorem checked_names_are_reached_witness:
  "\<forall>h. let draft = [(''id'', Str '' corp ''), (''protocol'', Str ''OIDC''), (''label'', Str ''SSO''), (''issuer'', Str ''https://idp''),
        (''clientId'', Str ''ui''), (''clientSecret'', Str ''s''), (''userClaim'', Str ''sub''), (''roleClaim'', Str ''roles''),
        (''roleMappings'', Arr [Obj [(''externalRole'', Str ''ops''), (''localRole'', Str ''viewer'')]])];
      user = [(''username'', Str '' Ana.Q''), (''firstName'', Str ''A''), (''lastName'', Str ''Q''),
        (''email'', Str ''a@b.c''), (''roles'', Arr [Str ''viewer'']), (''revision'', Num (Fin 2))]
   in \<exists>payload p. persist_begin h [] [] new_id (Obj draft) = Inr (''corp'', payload) \<and>
     snd (saveUser_begin h user users_init) = Some (p, False) \<and>
     resource_at (rq_url (request_of (Checking_provider ''corp''))) = Some [''api'', ''auth'', ''providers'', ''corp'', ''preflight''] \<and>
     resource_at (rq_url (request_of (Saving_user p False))) = Some [''api'', ''auth'', ''users'', ''ana.q'']"
  (is "\<forall>h. ?claim h")
proof
  fix h
  let ?d = "[(''id'', Str '' corp ''), (''protocol'', Str ''OIDC''), (''label'', Str ''SSO''), (''issuer'', Str ''https://idp''),
      (''clientId'', Str ''ui''), (''clientSecret'', Str ''s''), (''userClaim'', Str ''sub''), (''roleClaim'', Str ''roles''),
      (''roleMappings'', Arr [Obj [(''externalRole'', Str ''ops''), (''localRole'', Str ''viewer'')]])]"
  let ?u = "[(''username'', Str '' Ana.Q''), (''firstName'', Str ''A''), (''lastName'', Str ''Q''),
        (''email'', Str ''a@b.c''), (''roles'', Arr [Str ''viewer'']), (''revision'', Num (Fin 2))]"
  have "validateProviderDraft ?d = Some []" "actual_id new_id ?d = Some ''corp''" "is_provider_id ''corp''"
    by code_simp+
  moreover obtain payload where "providerPayload ?d = Some payload"
    using valid_provider_draft_payload calculation(1) by blast
  ultimately have p: "persist_begin h [] [] new_id (Obj ?d) = Inr (''corp'', payload)"
    by (simp add: persist_begin_def or_thrown_def id_errors_def)
  have "validateUser ?u False = []" "us_creating users_init = False" "up_username (userPayload ?u False) = ''ana.q''" by code_simp+
  then have u: "saveUser_begin h ?u users_init = (users_init\<lparr>us_busy := True, us_notice := []\<rparr>, Some (userPayload ?u False, False))"
    "up_username (userPayload ?u False) = ''ana.q''"
    by (simp_all add: saveUser_begin_def)
  show "?claim h" unfolding Let_def using p u checked_names_are_reached [OF p u(1)] by auto
qed

subsection \<open>Requests the browser refuses\<close>

text \<open>
  \<open>fetch\<close> throws before it sends a reading request that has a body, and one with a header whose value, once the
  white space around it is removed, holds a line break or a null character.
\<close>

definition header_value :: "string \<Rightarrow> string" where
  "header_value s = (let space = (\<lambda>c. code c \<in> {9, 10, 13, 32}) in rev (dropWhile space (rev (dropWhile space s))))"

definition header_text :: "string \<Rightarrow> bool" where
  "header_text s \<longleftrightarrow> (\<forall>c\<in>set (header_value s). code c \<notin> {0, 10, 13})"

definition sendable :: "request \<Rightarrow> bool" where
  "sendable r \<longleftrightarrow> (rq_body r = None \<or> rq_method r \<notin> {''GET'', ''HEAD''}) \<and>
     (\<forall>(name, value)\<in>set (rq_headers r). header_text (to_str value))"

declare header_value_def [js_eval] header_text_def [js_eval] sendable_def [js_eval] no_dots_def [js_eval] url_of_def [js_eval]
  in_segment_def [js_eval]

lemma json_header: "header_text ''application/json''"
  by code_simp

text \<open>Only the name of the actor, which six calls copy into a header, can keep a request from being sent: a call is
  refused by the browser exactly when that name has a line break or a null character inside. The calls without
  it, and every read, are always sent, and a read is never answered from the cache.\<close>

theorem only_the_actor_can_stop_a_call:
  "(sendable (request_of c) \<longleftrightarrow> (case actor_in c of None \<Rightarrow> True | Some actor \<Rightarrow> header_text (to_str actor))) \<and>
   list_all (\<lambda>r. sendable r \<and> rq_method r = ''GET'' \<and> rq_cache r = Some ''no-store'') reads"
proof
  show "sendable (request_of c) \<longleftrightarrow> (case actor_in c of None \<Rightarrow> True | Some actor \<Rightarrow> header_text (to_str actor))"
    by (cases c) (simp_all add: request_defs sendable_def json_header)
  show "list_all (\<lambda>r. sendable r \<and> rq_method r = ''GET'' \<and> rq_cache r = Some ''no-store'') reads"
    by (simp add: reads_def public_requests_def profile_read_def users_requests_def email_read_def network_read_def
        load_requests_def live_requests_def protected_read_def public_read_def sendable_def)
qed

end
