(* ===== verification/Review.thy ===== *)
theory Review
  imports App_Handlers
begin

section \<open>The review before publishing (step 4 of \<open>App\<close> in \<open>ui/src/main.jsx\<close>)\<close>

text \<open>
  What the last step of the editor says about the publication: its summary, the scope, the list of the
  captures that the server would reject, and its button. \<open>ids\<close> and \<open>services\<close> are the selected instances and
  services, which are lists in every draft of the editor. The main lemma compares the announced scope with
  the selector that is published.
\<close>

definition dash :: string where
  "dash = [CHR 0xE2, CHR 0x80, CHR 0x94]"

record review =
  re_id :: jsval
  re_type :: string
  re_destinations :: string
  re_schema :: string
  re_selectors :: string
  re_services :: string
  re_instances :: string
  re_attributes :: string

definition everyone :: "host \<Rightarrow> string" where
  "everyone h = h_t h ''Todos conectados''"

definition count_or :: "nat \<Rightarrow> string \<Rightarrow> string" where
  "count_or n text = (if n = 0 then text else nat_str n)"

definition review_attributes :: "host \<Rightarrow> jsobj \<Rightarrow> string" where
  "review_attributes h attributes =
     (if attributes \<noteq> [] then js_join '', '' (map (\<lambda>(key, v). key @ ''='' @ to_str v) attributes)
      else h_t h (''sin restricci'' @ [CHR 0xF3] @ ''n''))"

definition review_services :: "host \<Rightarrow> jsval list \<Rightarrow> string" where
  "review_services h services =
     (if services \<noteq> [] then join_vals '', '' services else h_t h ''todos los conectados compatibles'')"

definition review_of :: "host \<Rightarrow> app \<Rightarrow> jsval list \<Rightarrow> jsval list \<Rightarrow> jsval list \<Rightarrow> view \<Rightarrow> review" where
  "review_of h a destinations ids services v =
     (let ed = ap_editor a; attributes = own_entries (get (vw_selector v) ''Attributes'') in
      \<lparr>re_id = js_or (ed_configId ed) (Str (h_t h ''Sin definir'')),
       re_type = (if ed_target ed = Str ''collector'' then ''Collector YAML'' else ''Java policy''),
       re_destinations = nat_str (length (vw_matching v)) @ '' '' @ h_t h ''de'' @ '' '' @ nat_str (length destinations),
       re_schema = (if ed_target ed = Str ''java-extension'' then vw_schema v else dash),
       re_selectors = count_or (length ids + length services + length attributes) (everyone h),
       re_services = review_services h services,
       re_instances = count_or (length ids) (h_t h (''sin restricci'' @ [CHR 0xF3] @ ''n'')),
       re_attributes = review_attributes h attributes\<rparr>)"

text \<open>The captures of a policy that the server would reject, shown beside the document.\<close>

definition rejected_captures :: "jsval \<Rightarrow> view \<Rightarrow> string option" where
  "rejected_captures target v =
     (if target = Str ''java-extension'' \<and> vw_denyViolations v \<noteq> []
      then Some (js_join '', '' (map (\<lambda>violation. vi_kind violation @ '':'' @ vi_value violation) (vw_denyViolations v)))
      else None)"

text \<open>The button that publishes: whether it answers, and its text.\<close>

definition publish_disabled :: "app \<Rightarrow> view \<Rightarrow> bool" where
  "publish_disabled a v \<longleftrightarrow>
     ap_busy a \<or> \<not> configurationReady v \<or> publicationBlockers (ed_target (ap_editor a)) v \<noteq> []"

definition publish_label :: "host \<Rightarrow> app \<Rightarrow> string" where
  "publish_label h a = (if ap_busy a then h_t h (''Publicando'' @ ellipsis) else h_t h ''Validar y enviar a destinos'')"

definition shown_blockers :: "host \<Rightarrow> app \<Rightarrow> view \<Rightarrow> string list" where
  "shown_blockers h a v =
     (if ap_busy a then [] else map (h_t h) (publicationBlockers (ed_target (ap_editor a)) v))"

declare dash_def [js_eval] everyone_def [js_eval] count_or_def [js_eval] review_attributes_def [js_eval] review_services_def [js_eval]
  review_of_def [js_eval] rejected_captures_def [js_eval] publish_disabled_def [js_eval] publish_label_def [js_eval]
  shown_blockers_def [js_eval]

subsection \<open>The scope that is announced\<close>

lemma obj_put_nonempty [simp]: "obj_put k v ob \<noteq> []"
  using keys_obj_put [of k v ob] by force

lemma from_entries_Nil [simp]: "from_entries xs = [] \<longleftrightarrow> xs = []"
proof -
  have grown: "fold (\<lambda>(k, v). obj_put k v) ys ob \<noteq> []" if "ob \<noteq> []" for ys ob
    using that
  proof (induction ys arbitrary: ob)
    case (Cons y ys)
    then show ?case by (cases y) simp
  qed simp
  show ?thesis
  proof (cases xs)
    case (Cons x ys)
    then show ?thesis using grown [of "obj_put (fst x) (snd x) []" ys] by (simp add: from_entries_def obj_spread_def split_def)
  qed (simp add: from_entries_def obj_spread_def)
qed

lemma filter_opt_defined_by:
  "filter_opt p xs = Some ys \<Longrightarrow> (\<And>x b. x \<in> set xs \<Longrightarrow> p x = Some b \<Longrightarrow> b = q x) \<Longrightarrow> ys = filter q xs"
proof (induction xs arbitrary: ys)
  case (Cons x xs)
  then obtain b zs where "p x = Some b" "filter_opt p xs = Some zs" "ys = (if b then x # zs else zs)"
    by (auto simp: bind_eq_Some_conv split: if_splits)
  then show ?case using Cons.IH [of zs] Cons.prems(2) [of x b] Cons.prems(2) by simp
qed simp

lemma usable_truthy: "usable a \<Longrightarrow> truthy a"
  by (cases a) (auto simp: usable_def fld_def object_prototype_def)

lemma published_attributes:
  assumes "editorSelector ed = Some selector" "ed_selectorAttributes ed = Arr rows"
  shows "selector = Obj [(''InstanceUIDs'', ed_selectedAgentIds ed), (''Services'', ed_selectedServices ed),
      (''Attributes'', Obj (from_entries (map (\<lambda>a. (to_str (get a ''key''), get a ''value'')) (usable_attributes (Arr rows)))))]"
proof -
  let ?q = "\<lambda>a. truthy (get a ''key'') \<and> truthy (get a ''value'')"
  obtain us where us: "filter_opt (\<lambda>a. do { key \<leftarrow> getx a ''key''; Some (truthy key \<and> truthy (get a ''value'')) }) rows = Some us"
    and s: "selector = Obj [(''InstanceUIDs'', ed_selectedAgentIds ed), (''Services'', ed_selectedServices ed),
      (''Attributes'', Obj (from_entries (map (\<lambda>a. (to_str (get a ''key''), get a ''value'')) us)))]"
    using assms by (auto simp: editorSelector_def bind_eq_Some_conv)
  have "us = filter ?q rows"
    by (rule filter_opt_defined_by [OF us]) (auto simp: getx_def bind_eq_Some_conv split: if_splits)
  moreover have "truthy x \<and> ?q x \<longleftrightarrow> ?q x" for x using usable_truthy [of x] unfolding usable_def by blast
  then have "filter ?q (filter truthy rows) = filter ?q rows" unfolding filter_filter by (simp only:)
  ultimately show ?thesis by (simp add: s usable_attributes_def normalizedValues_def)
qed

lemma count_or_eq:
  assumes "\<not> list_all is_digit text"
  shows "count_or n text = text \<longleftrightarrow> n = 0"
proof -
  have "nat_str n \<noteq> text" using nat_str_digits [of n] assms unfolding list_all_iff by blast
  then show ?thesis by (simp add: count_or_def)
qed

definition unrestricted :: jsval where
  "unrestricted = Obj [(''InstanceUIDs'', Arr []), (''Services'', Arr []), (''Attributes'', Obj [])]"

text \<open>C26: The review (the last step) says that all connected destinations are addressed exactly when the selector
  that would be published restricts nothing, and every destination of the editor then counts as matching. From the
  third step on these are the destinations of the inventory snapshot, once one has been taken, and not what is
  connected now: an instance that connects after the snapshot is not counted. The selected instances, the selected
  services and the attribute rows are taken to be lists, and the phrase for all of them is taken not to read as a
  number.\<close>

theorem everyone_is_announced_exactly:
  assumes "render h a = Some v" "destinationAgents a = Some destinations"
    and "ed_selectedAgentIds (ap_editor a) = Arr ids" "ed_selectedServices (ap_editor a) = Arr services"
    and "ed_selectorAttributes (ap_editor a) = Arr rows" "\<not> list_all is_digit (everyone h)"
  shows "(re_selectors (review_of h a destinations ids services v) = everyone h \<longleftrightarrow> vw_selector v = unrestricted) \<and>
    (if vw_selector v = unrestricted then vw_matching v = destinations else True) \<and>
    (case ed_snapshot (ap_editor a) of
       Some snapshot \<Rightarrow> if step_at_least_3 (ap_editor a) then destinations = snapshot else True
     | None \<Rightarrow> True)"
proof -
  have s: "vw_selector v = Obj [(''InstanceUIDs'', Arr ids), (''Services'', Arr services), (''Attributes'',
      Obj (from_entries (map (\<lambda>a. (to_str (get a ''key''), get a ''value'')) (usable_attributes (Arr rows)))))]"
    using published_attributes [OF render_parts(3) [OF assms(1)] assms(5)] assms(3,4) by simp
  have m: "vw_matching v = filter (\<lambda>agent. matchesTargetSelector agent (editorSelection (ap_editor a))) destinations"
    using render_parts(2) [OF assms(1)] assms(2) by (simp add: matchingTargetAgents_def)
  have "re_selectors (review_of h a destinations ids services v) = everyone h \<longleftrightarrow> vw_selector v = unrestricted"
    using count_or_eq [OF assms(6)] by (simp add: review_of_def Let_def s unrestricted_def fld_def)
  moreover have "vw_matching v = destinations" if "vw_selector v = unrestricted"
    using that by (simp add: m s unrestricted_def matchesTargetSelector_def editorSelection_def param_def fld_def
        assms(3-5) normalizedValues_def)
  moreover have "destinations = snapshot" if "ed_snapshot (ap_editor a) = Some snapshot" "step_at_least_3 (ap_editor a)" for snapshot
    using assms(2) that by (auto simp: destinationAgents_def bind_eq_Some_conv)
  ultimately show ?thesis by (auto split: option.split)
qed

text \<open>Two instances are connected, and the snapshot of the review holds the first of them only.\<close>

definition review_agent :: "string \<Rightarrow> jsval" where
  "review_agent uid = Obj [(''UID'', Str uid), (''Kind'', Str ''java-extension''), (''LiveStatus'', Str ''CONNECTED''),
     (''Attributes'', Obj [(''o11y.policy.schema'', Str ''1.7'')])]"

definition review_app :: app where
  "review_app = example_app\<lparr>ap_agents := Arr [review_agent ''a'', review_agent ''b''],
     ap_editor := example_editor\<lparr>ed_snapshot := Some [review_agent ''a'']\<rparr>\<rparr>"

theorem everyone_is_announced_exactly_witness:
  "targetAgents review_app = Some [review_agent ''a'', review_agent ''b''] \<and>
   (\<exists>v. render plain_host review_app = Some v \<and>
     re_selectors (review_of plain_host review_app [review_agent ''a''] [] [] v) = ''Todos conectados'' \<and>
     vw_matching v = [review_agent ''a''])"
proof -
  have "\<not> Option.is_none (render plain_host review_app)" by code_simp
  then obtain v where v: "render plain_host review_app = Some v" by (cases "render plain_host review_app") auto
  have d: "destinationAgents review_app = Some [review_agent ''a'']" by code_simp
  have s: "ed_selectedAgentIds (ap_editor review_app) = Arr []" "ed_selectedServices (ap_editor review_app) = Arr []"
    "ed_selectorAttributes (ap_editor review_app) = Arr []" "\<not> list_all is_digit (everyone plain_host)"
    "everyone plain_host = ''Todos conectados''" "editorSelector (ap_editor review_app) = Some unrestricted"
    "targetAgents review_app = Some [review_agent ''a'', review_agent ''b'']" by code_simp+
  then have "vw_selector v = unrestricted" using render_parts(3) [OF v] by simp
  then show ?thesis using everyone_is_announced_exactly [OF v d s(1-4)] s(5,7) v by auto
qed

end
