(* ===== verification/Spec2Isabelle.thy ===== *)
theory Spec2Isabelle
  imports Policy_Catalog Collector_Catalog Fleet Targets Versions Event_Props Telemetry_Props
    Status_Labels Policy_Document Capture_Props Account_Props Network Draft Coverage
    Session_Validation Session_Draft Views Value_Editors Navigation Effective_Config Form_Props Form_Book I18n_Counted
    Login_View Profile_View Access_Props Users_Props Email_View Policy_Flow Summaries
    Dialogs Widgets Rows Polling Requests Review
begin

text \<open>
  Verification of the user interface of the o11y OpAMP control plane, the JavaScript under
  \<open>src/ui/src\<close>. The interface is a single-page application: it loads the agents, stored versions,
  deployments and settings of the control plane, lets the user write a policy of the Java extension or
  a configuration of a Collector, choose its destinations and publish it, and shows what the agents
  confirm. Every module of pure logic is modelled, and so are the state and the handlers of the
  application and of its views in \<open>main.jsx\<close> and \<open>messaging-editor.jsx\<close>.

  \<^bold>\<open>Values and conventions.\<close> \<open>Prelude\<close>, \<open>Js_String\<close>, \<open>Js_Value\<close>, \<open>Js_Object\<close> and \<open>Comparator\<close> model what the
  program uses of JavaScript. A document that nothing checks is a dynamic value \<open>jsval\<close>, and an object
  the list of its properties in order; a state that the program owns is a record. Strings are lists of
  characters of Latin-1; the few other characters of the interface's own messages (dashes, ellipses)
  stand as their UTF-8 bytes. Numbers are \<open>NaN\<close>, the infinities and exact rationals. A function that can raise returns
  an option, and \<open>None\<close> is the exception. A handler that waits for a reply is cut there: \<open>f_begin\<close> gives
  the state and the request, \<open>f_end\<close> takes the reply (\<open>Unreachable\<close> or \<open>Reply\<close> with a status and a body).
  A loop is recursion on its list, or on a measure where it searches (\<open>next_suffix\<close> for an unused name,
  \<open>find_key\<close> and \<open>block_end\<close> in a YAML text, \<open>fill\<close> in a template), with its termination proved: every
  function is total and none needs fuel.

  \<^bold>\<open>Parameters.\<close> What the browser provides is an argument: the record \<open>host\<close> (\<open>JSON.parse\<close>, the two
  \<open>JSON.stringify\<close>, the translation and the messages of its exceptions), \<open>date_parse\<close> (\<open>Date.parse\<close>),
  \<open>collate\<close> (\<open>localeCompare\<close>), the formatting of dates, the clock and the clipboard. The server is an
  argument too: its replies are arbitrary. Properties that need more of them name it as a hypothesis:
  \<open>json_host\<close> (parsing what was printed finds the owner of a draft again) and the locale \<open>comparator\<close> (a
  comparison that is consistent with an order), which the comparison of code units satisfies.

  \<^bold>\<open>The theories and the code.\<close>
  \<^item> \<open>Coverage\<close> (\<open>deployment-coverage.js\<close>), \<open>Policy\<close> and \<open>Policy_Catalog\<close> (\<open>policy-management.js\<close>), \<open>Collector\<close>
    and \<open>Collector_Catalog\<close> (\<open>collector-management.js\<close>), \<open>Deployment\<close> (\<open>deployment-status.js\<close>), \<open>Status_Labels\<close>
    (\<open>main.jsx\<close>): what the records of a deployment mean, the summaries of a policy and a Collector and
    the lists of both. \<open>Catalog\<close> is the interface of the two lists: a partition of the stored versions.
  \<^item> \<open>Fleet\<close> (\<open>agent-filtering.js\<close>, \<open>agent-attributes.js\<close>), \<open>Targets\<close> (\<open>target-selection.js\<close>), \<open>Versions\<close>
    (\<open>version-source.js\<close>), \<open>Selection\<close> (\<open>multi-select-filter.js\<close>), \<open>Network\<close> (\<open>network-settings.js\<close>), \<open>Draft\<close>
    (\<open>policy-draft.js\<close>, \<open>metric-unit.js\<close>), \<open>Effective_Config\<close> (\<open>collector-effective-config.js\<close>; the relation
    \<open>addressed\<close> says which lines a path stands for), \<open>Url\<close> and
    \<open>Navigation\<close> (\<open>navigation.js\<close>): filters, orders, previews, storage, addresses.
  \<^item> \<open>Telemetry\<close>, \<open>Telemetry_Schema\<close>, \<open>Telemetry_Props\<close> (\<open>telemetry-events.js\<close>), \<open>Messaging\<close>
    (\<open>messaging-events.js\<close>), \<open>Event_Editor\<close>, \<open>Event_Props\<close>, \<open>Policy_Document\<close>: the events of a policy, their
    normal forms and the schema they require. The locale \<open>event_editor\<close> is the contract of renaming
    and removing an event together with its metrics; HTTP and messaging events interpret it.
  \<^item> \<open>Capture_Security\<close>, \<open>Capture_Props\<close> (\<open>capture-security.js\<close>): the denylist and the wire contract. What a policy
    captures is specified by the relation \<open>policy_captures\<close>, one rule for each place of the document.
  \<^item> \<open>Providers\<close> (\<open>auth-providers.js\<close>), \<open>Account\<close>, \<open>Account_Props\<close> (\<open>account-settings.js\<close>): identity providers,
    the gate of requests, permissions, users, profiles and email settings.
  \<^item> \<open>Value_Editors\<close>, \<open>Form_Base\<close>, \<open>Form_Rules\<close>, \<open>Http_Form\<close>, \<open>Method_Form\<close>, \<open>Messaging_Form\<close>: every control of
    the three forms of a policy as an operation on the document. \<open>Form_Types\<close>, \<open>Form_Typing\<close> and
    \<open>Form_Soundness\<close> give documents a type that every operation keeps, once for every contract of the
    locale \<open>document_contract\<close>; \<open>Form_Schema\<close> and \<open>Schema_Props\<close> conclude that no sequence of changes raises
    and that the declared schema covers the document. \<open>Form_Book\<close> refines the HTTP form to a book of
    rules and of references to them, \<open>Form_Props\<close> says what a change leaves alone.
  \<^item> \<open>App_State\<close>, \<open>Publication\<close>, \<open>App_Handlers\<close>: the state of \<open>App\<close>, what a rendering computes and
    what blocks a publication, and every handler. \<open>Session\<close> is the application as a step relation in
    which users, replies and effects interleave; its locale \<open>invariant_of\<close> carries \<open>Session_Validation\<close>
    (what a Collector is sent was validated), \<open>Session_Draft\<close> (whose draft is stored) and \<open>Polling\<close> (the
    effect that loads the page and then reads the live state again, with its own first load, composed with an
    application that does anything else).
  \<^item> \<open>Views\<close>, \<open>Summaries\<close>, \<open>Policy_Flow\<close>, \<open>Rows\<close>, \<open>Review\<close>: what the pages list, count, say and offer.
    \<open>Widgets\<close> and \<open>Dialogs\<close>: the filter with several choices, the picker of a version, the steps, and the
    dialogs of the fleet, whose effects share the style and the focus of the page.
  \<^item> \<open>Views_Base\<close>, \<open>Login_View\<close>, \<open>Profile_View\<close>, \<open>Access_View\<close> and \<open>Access_Props\<close>, \<open>Users_View\<close> and
    \<open>Users_Props\<close>, \<open>Email_View\<close>: the handlers of the account pages. The pages of providers and users have a
    step relation of their own, with the replies in any order.
  \<^item> \<open>Requests\<close>: every call of \<open>fetch\<close> as the request it describes, the way a browser reads the path of a
    URL, and the resource that each call reaches.
  \<^item> \<open>English\<close>, \<open>I18n\<close>, \<open>I18n_Props\<close>, \<open>I18n_Counted\<close> (\<open>i18n.js\<close>): the dictionary, entry by entry, the patterns
    of composed messages and the translation.

  \<^bold>\<open>What the lemmas show.\<close> Of the modules: that their functions agree with a specification (the
  partition of the catalogues, what a status promises, the exact violations of the denylist, which
  documents the wire contract accepts, the lines that the preparation of a reported configuration takes out, the
  preview of the destinations against the published selector), and round trips of what is stored, printed or opened again. Of the forms: types, the
  schema, references that stay attached, and what a control leaves alone. Of sessions: validation
  before publication, ownership of the draft, and what signing out discards. Of the views: the accounts
  and secrets that no sequence of clicks and replies touches, the password rules, the resources that
  the requests reach, and what the pages say against what the program does. Several theorems record behaviour that is likely not meant: a
  schema version that a messaging edit lowers, a load that signs the user in again after signing out,
  a late reply that ends a new session, a draft that changes hands, edits that a save loses, text that stops the rendering, messages whose
  translation raises or that stay in Spanish, a first load that outlives its page, and dialogs that leave the page locked.

  \<^bold>\<open>Bounds.\<close> Fractions are printed with at most 20 digits; \<open>num_str\<close> is used on counters, versions and
  what a user typed. The files a user opens are bounded by \<open>max_file_size\<close>, as in the code. The pieces of
  a composed message are matched greedily and in order, with every shorter match tried, so the
  search ends with the text.

  \<^bold>\<open>Not modelled.\<close> The markup of the components (what is inside their JSX beyond the values, the
  conditions and the handlers named above), the titles of the pages and of the tabs, styles, the guides \<open>HttpRuleQuickGuide\<close> and
  \<open>MetricUnitHelp\<close>, which only hold text, and the mounting of the application, because they compute nothing;
  \<open>Intl\<close> and React itself, whose documented order of effects \<open>Dialogs\<close> and \<open>Session\<close> follow; the control plane
  in Go, the chart, the build and test configuration and the tests, which are not the program modelled here.
  Of a file that a user opens, only its size and its text are read.
\<close>

end
